(* ===== verification/Prelude.thy ===== *)
theory Prelude
  imports Main "HOL-Library.List_Lexorder" "HOL-Library.Char_ord" "HOL-Library.Product_Lexorder"
begin

text \<open>
  The prelude of the development: the collections of rewrite rules, the Python values and
  exceptions that the components share, keyed row tables (the model of a PostgreSQL table) and
  insertion-ordered dictionaries (the model of \<^verbatim>\<open>dict\<close> and \<^verbatim>\<open>OrderedDict\<close>), with the lemmas on
  them that the component theories use.
\<close>

named_theorems table_simps \<open>lookups and updates of keyed row tables\<close>
named_theorems odict_simps \<open>insertion-ordered dictionaries\<close>

section \<open>Python values and exceptions\<close>

text \<open>
  A Python string is a \<open>string\<close> of HOL: one \<open>char\<close> per code point, code points 0 to 255.
  Exceptions carry the class and the message of the \<^verbatim>\<open>raise\<close> statement.
\<close>

datatype pyexc =
    ValueError string
  | TypeError string
  | KeyError
  | CircuitOpenError string
  | DependencyCycleError string
  | OperationError string

text \<open>Results of fallible code: \<open>Inl\<close> is a raised exception, \<open>Inr\<close> a returned value.\<close>

type_synonym 'a pyres = "pyexc + 'a"

definition is_ok :: "'e + 'a \<Rightarrow> bool" where
  "is_ok r \<longleftrightarrow> (case r of Inl _ \<Rightarrow> False | Inr _ \<Rightarrow> True)"

lemma is_ok_simps [simp]: "is_ok (Inr x)" "\<not> is_ok (Inl e)"
  by (simp_all add: is_ok_def)

section \<open>Keyed row tables\<close>

text \<open>
  A table is the list of its rows. \<open>row_get\<close> is a primary-key lookup, \<open>row_put\<close> an
  \<^verbatim>\<open>UPDATE\<close> of the row with that key, \<open>row_keys\<close> the keys in storage order. A table is
  well formed (\<open>row_wf\<close>) when the primary key is unique.
\<close>

definition row_get :: "('r \<Rightarrow> 'k) \<Rightarrow> 'r list \<Rightarrow> 'k \<Rightarrow> 'r option" where
  "row_get key t k = find (\<lambda>r. key r = k) t"

definition row_put :: "('r \<Rightarrow> 'k) \<Rightarrow> 'k \<Rightarrow> ('r \<Rightarrow> 'r) \<Rightarrow> 'r list \<Rightarrow> 'r list" where
  "row_put key k g t = map (\<lambda>r. if key r = k then g r else r) t"

definition row_wf :: "('r \<Rightarrow> 'k) \<Rightarrow> 'r list \<Rightarrow> bool" where
  "row_wf key t \<longleftrightarrow> distinct (map key t)"

lemma row_get_Nil [table_simps]: "row_get key [] k = None"
  by (simp add: row_get_def)

lemma row_get_Cons [table_simps]:
  "row_get key (r # t) k = (if key r = k then Some r else row_get key t k)"
  by (simp add: row_get_def)

lemma row_put_Nil [table_simps]: "row_put key k g [] = []"
  by (simp add: row_put_def)

lemma row_put_Cons [table_simps]:
  "row_put key k g (r # t) = (if key r = k then g r else r) # row_put key k g t"
  by (simp add: row_put_def)

lemma row_get_key: "row_get key t k = Some r \<Longrightarrow> key r = k \<and> r \<in> set t"
  by (induction t) (auto simp: table_simps split: if_splits)

lemma row_get_in: "row_get key t k = Some r \<Longrightarrow> r \<in> set t"
  using row_get_key by fastforce

lemma row_get_None: "row_get key t k = None \<longleftrightarrow> k \<notin> key ` set t"
  by (induction t) (auto simp: table_simps)

lemma row_get_wf:
  assumes "row_wf key t" "r \<in> set t"
  shows "row_get key t (key r) = Some r"
  using assms by (induction t) (auto simp: table_simps row_wf_def)

lemma row_get_append [table_simps]:
  "row_get key (t @ u) k = (case row_get key t k of None \<Rightarrow> row_get key u k | Some r \<Rightarrow> Some r)"
  by (induction t) (auto simp: table_simps)

lemma row_put_keys:
  assumes "\<And>r. key (g r) = key r"
  shows "map key (row_put key k g t) = map key t"
  by (induction t) (auto simp: table_simps assms)

lemma row_put_wf:
  assumes "\<And>r. key (g r) = key r"
  shows "row_wf key (row_put key k g t) = row_wf key t"
  using row_put_keys[of key g k t, OF assms] by (simp add: row_wf_def)

lemma row_get_put:
  assumes "\<And>r. key (g r) = key r"
  shows "row_get key (row_put key k g t) k' =
    (if k = k' then map_option g (row_get key t k') else row_get key t k')"
  by (induction t) (auto simp: table_simps assms)

lemma row_put_in:
  "r' \<in> set (row_put key k g t) \<Longrightarrow>
    \<exists>r\<in>set t. r' = (if key r = k then g r else r)"
  by (auto simp: row_put_def)

lemma row_wf_snoc:
  "row_wf key (t @ [r]) \<longleftrightarrow> row_wf key t \<and> row_get key t (key r) = None"
  by (auto simp: row_wf_def row_get_None)

text \<open>Replacing the row with a key by a given row with the same key.\<close>

lemma row_get_put_const:
  assumes "key r' = k"
  shows "row_get key (row_put key k (\<lambda>_. r') t) k' =
    (if k' = k then map_option (\<lambda>_. r') (row_get key t k) else row_get key t k')"
  using assms by (induction t) (auto simp: table_simps)

lemma set_row_put: "set (row_put key k (\<lambda>_. r') t) \<subseteq> insert r' (set t)"
  by (auto simp: row_put_def)

lemma row_put_map:
  assumes "row_wf key t" "row_get key t k = Some r" "h r' = h r"
  shows "map h (row_put key k (\<lambda>_. r') t) = map h t"
  using assms(1,2)
proof (induction t)
  case (Cons x t)
  then have wf: "row_wf key t" by (simp add: row_wf_def)
  show ?case
  proof (cases "key x = k")
    case True
    then have "row_put key k (\<lambda>_. r') t = t" using Cons.prems(1)
      unfolding row_put_def row_wf_def by (intro map_idI) (force simp: image_iff)
    with True Cons.prems(2) assms(3) show ?thesis by (simp add: table_simps)
  next
    case False
    with Cons wf show ?thesis by (simp add: table_simps)
  qed
qed (simp add: table_simps)

section \<open>Insertion-ordered dictionaries\<close>

text \<open>
  A Python dictionary is the association list of its items in insertion order; keys are
  unique (\<open>od_wf\<close>). Assigning to an existing key keeps its position; \<^verbatim>\<open>move_to_end\<close> moves it to
  the end; \<^verbatim>\<open>popitem(last=False)\<close> removes the oldest item.
\<close>

type_synonym ('k, 'v) odict = "('k \<times> 'v) list"

definition od_wf :: "('k, 'v) odict \<Rightarrow> bool" where
  "od_wf d \<longleftrightarrow> distinct (map fst d)"

fun od_set :: "('k, 'v) odict \<Rightarrow> 'k \<Rightarrow> 'v \<Rightarrow> ('k, 'v) odict" where
  "od_set [] k v = [(k, v)]"
| "od_set ((a, b) # d) k v = (if a = k then (a, v) # d else (a, b) # od_set d k v)"

definition od_del :: "('k, 'v) odict \<Rightarrow> 'k \<Rightarrow> ('k, 'v) odict" where
  "od_del d k = filter (\<lambda>p. fst p \<noteq> k) d"

definition od_move_to_end :: "('k, 'v) odict \<Rightarrow> 'k \<Rightarrow> ('k, 'v) odict" where
  "od_move_to_end d k = (case map_of d k of None \<Rightarrow> d | Some v \<Rightarrow> od_del d k @ [(k, v)])"

definition od_popfirst :: "('k, 'v) odict \<Rightarrow> ('k, 'v) odict" where
  "od_popfirst d = tl d"

lemma od_wf_Nil [simp]: "od_wf []"
  by (simp add: od_wf_def)

lemma map_of_od_set [odict_simps]: "map_of (od_set d k v) = (map_of d)(k \<mapsto> v)"
  by (induction d k v rule: od_set.induct) (auto simp: fun_eq_iff)

lemma keys_od_set:
  "map fst (od_set d k v) = (if k \<in> set (map fst d) then map fst d else map fst d @ [k])"
  by (induction d k v rule: od_set.induct) auto

lemma set_keys_od_set [odict_simps]: "fst ` set (od_set d k v) = insert k (fst ` set d)"
  by (induction d k v rule: od_set.induct) auto

lemma od_wf_set [intro]: "od_wf d \<Longrightarrow> od_wf (od_set d k v)"
  by (auto simp: od_wf_def keys_od_set)

lemma map_of_od_del [odict_simps]: "map_of (od_del d k) = (map_of d)(k := None)"
  by (induction d) (auto simp: od_del_def fun_eq_iff)

lemma od_wf_del [intro]: "od_wf d \<Longrightarrow> od_wf (od_del d k)"
  unfolding od_wf_def od_del_def by (induction d) auto

lemma od_del_keys [odict_simps]: "fst ` set (od_del d k) = fst ` set d - {k}"
  by (auto simp: od_del_def)

lemma od_del_id: "k \<notin> fst ` set d \<Longrightarrow> od_del d k = d"
  unfolding od_del_def by (rule filter_True) auto

lemma length_od_del:
  "od_wf d \<Longrightarrow> length (od_del d k) = (if k \<in> fst ` set d then length d - 1 else length d)"
proof (induction d)
  case (Cons p d)
  then have wf: "od_wf d" and fresh: "fst p \<notin> fst ` set d"
    by (auto simp: od_wf_def)
  show ?case
  proof (cases "fst p = k")
    case True
    with fresh have "od_del d k = d" by (simp add: od_del_id)
    with True show ?thesis by (simp add: od_del_def)
  next
    case False
    have "k \<in> fst ` set d \<Longrightarrow> 0 < length d" by auto
    with False Cons.IH[OF wf] show ?thesis by (auto simp: od_del_def)
  qed
qed (simp add: od_del_def)

lemma od_get_key: "map_of d k = Some v \<Longrightarrow> k \<in> fst ` set d"
  by (metis map_of_eq_None_iff option.distinct(1))

lemma map_of_od_move [odict_simps]:
  assumes "od_wf d"
  shows "map_of (od_move_to_end d k) = map_of d"
proof (cases "map_of d k")
  case (Some v)
  then show ?thesis
    by (auto simp: od_move_to_end_def map_of_od_del fun_eq_iff map_add_def split: option.splits)
qed (simp add: od_move_to_end_def)

lemma od_wf_move [intro]: "od_wf d \<Longrightarrow> od_wf (od_move_to_end d k)"
  using od_wf_del[of d k]
  by (auto simp: od_move_to_end_def od_wf_def od_del_def split: option.splits)

lemma length_od_move:
  assumes "od_wf d"
  shows "length (od_move_to_end d k) = length d"
proof (cases "map_of d k")
  case (Some v)
  then have "k \<in> fst ` set d" by (rule od_get_key)
  then have "0 < length d" by (cases d) auto
  with Some \<open>k \<in> fst ` set d\<close> show ?thesis
    by (simp add: od_move_to_end_def length_od_del assms)
qed (simp add: od_move_to_end_def)

lemma od_wf_popfirst [intro]: "od_wf d \<Longrightarrow> od_wf (od_popfirst d)"
  by (cases d) (auto simp: od_wf_def od_popfirst_def)

lemma length_od_popfirst [simp]: "length (od_popfirst d) = length d - 1"
  by (simp add: od_popfirst_def)

lemma od_wf_filter [intro]: "od_wf d \<Longrightarrow> od_wf (filter P d)"
  unfolding od_wf_def by (induction d) auto

lemma map_of_filter_wf:
  assumes "od_wf d"
  shows "map_of (filter P d) k = (case map_of d k of None \<Rightarrow> None
           | Some v \<Rightarrow> if P (k, v) then Some v else None)"
  using assms
proof (induction d)
  case (Cons p d)
  obtain a b where p: "p = (a, b)" by force
  have "map_of d a = None" using Cons.prems p
    by (auto simp: od_wf_def map_of_eq_None_iff)
  with Cons p show ?case by (auto simp: od_wf_def split: option.splits)
qed simp

section \<open>Option and list helpers\<close>

lemma find_Some_in: "find P xs = Some x \<Longrightarrow> P x \<and> x \<in> set xs"
  by (induction xs) (auto split: if_splits)

lemma length_filter_le_length [simp]: "length (filter P (filter Q xs)) \<le> length (filter Q xs)"
  by (rule length_filter_le)

lemma length_filter_conj:
  "(\<And>x. P x \<Longrightarrow> Q x) \<Longrightarrow> length (filter P xs) \<le> length (filter Q xs)"
  by (induction xs) auto

lemma filter_length_eq_iff: "length (filter P xs) = length xs \<longleftrightarrow> (\<forall>x\<in>set xs. P x)"
  by (metis filter_id_conv length_filter_less less_irrefl)

definition opt_filter :: "('a \<Rightarrow> 'b option) \<Rightarrow> 'a list \<Rightarrow> 'b list" where
  "opt_filter f xs = List.map_filter f xs"

lemma opt_filter_simps [simp]:
  "opt_filter f [] = []"
  "opt_filter f (x # xs) = (case f x of None \<Rightarrow> opt_filter f xs | Some y \<Rightarrow> y # opt_filter f xs)"
  by (simp_all add: opt_filter_def List.map_filter_simps split: option.splits)

lemma length_opt_filter: "length (opt_filter f xs) = length (filter (\<lambda>x. f x \<noteq> None) xs)"
  by (induction xs) (auto split: option.splits)

lemma set_opt_filter: "set (opt_filter f xs) = {y. \<exists>x\<in>set xs. f x = Some y}"
  by (induction xs) (auto split: option.splits)

lemma opt_filter_map: "opt_filter f xs = opt_filter (\<lambda>y. y) (map f xs)"
  by (induction xs) (auto split: option.splits)

lemma opt_filter_cong: "map f xs = map g ys \<Longrightarrow> opt_filter f xs = opt_filter g ys"
  by (simp add: opt_filter_map[of f] opt_filter_map[of g])

lemma opt_filter_append [simp]: "opt_filter f (xs @ ys) = opt_filter f xs @ opt_filter f ys"
  by (induction xs) (auto split: option.splits)

end
