(* ===== verification/PyFloat.thy ===== *)
theory PyFloat
  imports Prelude Complex_Main
begin

text \<open>
  Python \<^verbatim>\<open>float\<close> values as the rationals they denote. \<open>fl64\<close> rounds a rational to the nearest
  IEEE 754 binary64 value, ties to even, with gradual underflow (exponents from \<open>-1022\<close>); every
  floating-point operation of the source is the exact operation followed by \<open>fl64\<close>. Overflow to
  infinity is not modelled: the exponent is unbounded upwards. \<open>py_round2\<close> is \<^verbatim>\<open>round(x, 2)\<close>,
  which rounds the exact binary value to two decimals (ties to even) and takes the nearest
  double. The locale \<open>rounding\<close> states what the clients rely on, and is interpreted on \<open>fl64\<close>.
\<close>

section \<open>Rounding to an integer, ties to even\<close>

definition rhe :: "rat \<Rightarrow> int" where
  "rhe x = (let f = \<lfloor>x\<rfloor>; d = x - of_int f in
     if d < 1 / 2 then f else if 1 / 2 < d then f + 1 else if even f then f else f + 1)"

lemma rhe_of_int [simp]: "rhe (of_int n) = n"
  by (simp add: rhe_def)

lemma rhe_bounds: "\<lfloor>x\<rfloor> \<le> rhe x" "rhe x \<le> \<lfloor>x\<rfloor> + 1"
  by (simp_all add: rhe_def Let_def)

lemma rhe_mono: "x \<le> y \<Longrightarrow> rhe x \<le> rhe y"
proof -
  assume le: "x \<le> y"
  then have fl: "\<lfloor>x\<rfloor> \<le> \<lfloor>y\<rfloor>" by (rule floor_mono)
  show ?thesis
  proof (cases "\<lfloor>x\<rfloor> = \<lfloor>y\<rfloor>")
    case True
    with le show ?thesis by (auto simp: rhe_def Let_def)
  next
    case False
    with fl have "rhe x \<le> \<lfloor>y\<rfloor>" using rhe_bounds(2)[of x] by linarith
    then show ?thesis using rhe_bounds(1)[of y] by linarith
  qed
qed

lemma rhe_le_int: "x \<le> of_int n \<Longrightarrow> rhe x \<le> n"
  using rhe_mono[of x "of_int n"] by simp

lemma int_le_rhe: "of_int n \<le> x \<Longrightarrow> n \<le> rhe x"
  using rhe_mono[of "of_int n" x] by simp

lemma rhe_nearest: "\<bar>of_int (rhe x) - x\<bar> \<le> 1 / 2"
proof -
  have "of_int \<lfloor>x\<rfloor> \<le> x" "x < of_int \<lfloor>x\<rfloor> + 1" by linarith+
  then show ?thesis by (auto simp: rhe_def Let_def)
qed

section \<open>Binary exponents\<close>

text \<open>\<^verbatim>\<open>int.bit_length\<close>.\<close>

function bit_length :: "int \<Rightarrow> nat" where
  "bit_length n = (if n \<le> 0 then 0 else Suc (bit_length (n div 2)))"
  by pat_completeness auto
termination
  by (relation "measure nat") auto

declare bit_length.simps [simp del]

lemma bit_length_upper: "n < 2 ^ bit_length n"
proof (induction n rule: bit_length.induct)
  case (1 n)
  show ?case
  proof (cases "n \<le> 0")
    case True
    then show ?thesis by (simp add: bit_length.simps[of n])
  next
    case False
    with "1.IH" have "n div 2 < 2 ^ bit_length (n div 2)" by simp
    then have "n < 2 * 2 ^ bit_length (n div 2)" by linarith
    with False show ?thesis by (simp add: bit_length.simps[of n])
  qed
qed

lemma bit_length_pos: "0 < n \<Longrightarrow> 0 < bit_length n"
  by (subst bit_length.simps) simp

lemma bit_length_lower: "0 < n \<Longrightarrow> 2 ^ (bit_length n - 1) \<le> n"
proof (induction n rule: bit_length.induct)
  case (1 n)
  show ?case
  proof (cases "n div 2 \<le> 0")
    case True
    then have "bit_length (n div 2) = 0" by (simp add: bit_length.simps[of "n div 2"])
    with "1.prems" show ?thesis by (simp add: bit_length.simps[of n])
  next
    case False
    with "1.IH" "1.prems" have ih: "2 ^ (bit_length (n div 2) - 1) \<le> n div 2" by simp
    have "0 < bit_length (n div 2)" using False by (intro bit_length_pos) simp
    then have "bit_length n - 1 = Suc (bit_length (n div 2) - 1)"
      using "1.prems" by (simp add: bit_length.simps[of n])
    with ih show ?thesis by simp
  qed
qed

definition pow2 :: "int \<Rightarrow> rat" where
  "pow2 e = (if 0 \<le> e then 2 ^ nat e else 1 / 2 ^ nat (- e))"

lemma pow2_powi: "pow2 e = 2 powi e"
  by (simp add: pow2_def power_int_def field_simps)

lemma pow2_pos [simp]: "0 < pow2 e"
  by (simp add: pow2_def)

lemma pow2_nonneg [simp]: "0 \<le> pow2 e"
  by (simp add: pow2_def)

lemma pow2_nonzero [simp]: "pow2 e \<noteq> 0"
  by (simp add: pow2_def)

lemma pow2_add: "pow2 (a + b) = pow2 a * pow2 b"
  by (simp add: pow2_powi power_int_add)

lemma pow2_mono: "a \<le> b \<Longrightarrow> pow2 a \<le> pow2 b"
  by (simp add: pow2_powi power_int_increasing)

lemma pow2_strict: "a < b \<Longrightarrow> pow2 a < pow2 b"
  by (simp add: pow2_powi power_int_strict_increasing)

lemma pow2_nat: "pow2 (int n) = of_int (2 ^ n)"
  by (simp add: pow2_def)

lemma pow2_diff: "pow2 a / pow2 b = pow2 (a - b)"
  using pow2_add[of "a - b" b] pow2_pos[of b] by (simp add: field_simps)

text \<open>The exponent of a positive rational: the \<open>e\<close> with \<open>2^e \<le> x < 2^(e+1)\<close>.\<close>

definition ilog2 :: "rat \<Rightarrow> int" where
  "ilog2 x = (let (p, q) = quotient_of x; e = int (bit_length p) - int (bit_length q)
     in if x < pow2 e then e - 1 else e)"

lemma bit_length_rat:
  assumes "0 < p"
  shows "pow2 (int (bit_length p) - 1) \<le> of_int p" "of_int p < pow2 (int (bit_length p))"
proof -
  have "2 ^ (bit_length p - 1) \<le> p" "p < 2 ^ bit_length p"
    using bit_length_lower[OF assms] bit_length_upper[of p] by simp_all
  then have "of_int (2 ^ (bit_length p - 1)) \<le> (of_int p :: rat)"
    "of_int p < (of_int (2 ^ bit_length p) :: rat)"
    by (simp_all only: of_int_le_iff of_int_less_iff)
  moreover have "int (bit_length p) - 1 = int (bit_length p - 1)"
    using bit_length_pos[of p] assms by simp
  ultimately show "pow2 (int (bit_length p) - 1) \<le> of_int p" "of_int p < pow2 (int (bit_length p))"
    by (simp_all only: pow2_nat)
qed

lemma ilog2_bounds:
  assumes "0 < x"
  shows "pow2 (ilog2 x) \<le> x" "x < pow2 (ilog2 x + 1)"
proof -
  obtain p q where pq: "quotient_of x = (p, q)" by force
  have q: "0 < q" by (rule quotient_of_denom_pos[OF pq])
  have x: "x = of_int p / of_int q" by (rule quotient_of_div[OF pq])
  have p: "0 < p" using assms q unfolding x by (simp add: zero_less_divide_iff)
  define a where "a = int (bit_length p)"
  define b where "b = int (bit_length q)"
  note P = bit_length_rat[OF p, folded a_def] and Q = bit_length_rat[OF q, folded b_def]
  have "x < pow2 a / pow2 (b - 1)"
    unfolding x using P(2) Q(1) q p by (intro frac_less) simp_all
  then have up: "x < pow2 (a - b + 1)" by (simp add: pow2_diff algebra_simps)
  have "pow2 (a - 1) / pow2 b \<le> x"
    unfolding x using P(1) Q(2) q p by (intro frac_le) simp_all
  then have lo: "pow2 (a - b - 1) \<le> x" by (simp add: pow2_diff algebra_simps)
  have il: "ilog2 x = (if x < pow2 (a - b) then a - b - 1 else a - b)"
    by (simp add: ilog2_def pq a_def b_def)
  show "pow2 (ilog2 x) \<le> x" using lo by (auto simp: il)
  show "x < pow2 (ilog2 x + 1)" using up by (auto simp: il)
qed

lemma ilog2_less: "0 < x \<Longrightarrow> x < pow2 (e + 1) \<Longrightarrow> ilog2 x \<le> e"
  using ilog2_bounds(1)[of x] pow2_mono[of "e + 1" "ilog2 x"] by (cases "ilog2 x \<le> e") auto

lemma ilog2_ge: "0 < x \<Longrightarrow> pow2 e \<le> x \<Longrightarrow> e \<le> ilog2 x"
  using ilog2_bounds(2)[of x] pow2_mono[of "ilog2 x + 1" e] by (cases "e \<le> ilog2 x") auto

lemma ilog2_mono: "0 < x \<Longrightarrow> x \<le> y \<Longrightarrow> ilog2 x \<le> ilog2 y"
  by (rule ilog2_ge) (use ilog2_bounds(1)[of x] in auto)

section \<open>Rounding to binary64\<close>

definition fexp :: "rat \<Rightarrow> int" where
  "fexp x = max (ilog2 x) (- 1022)"

definition flpos :: "rat \<Rightarrow> rat" where
  "flpos x = (let u = pow2 (fexp x - 52) in of_int (rhe (x / u)) * u)"

lemma flpos_eq: "flpos x = of_int (rhe (x / pow2 (fexp x - 52))) * pow2 (fexp x - 52)"
  by (simp add: flpos_def Let_def)

definition fl64 :: "rat \<Rightarrow> rat" where
  "fl64 x = (if x = 0 then 0 else if x < 0 then - flpos (- x) else flpos x)"

lemma flpos_upper:
  assumes "0 < x"
  shows "flpos x \<le> pow2 (fexp x + 1)"
proof -
  let ?u = "pow2 (fexp x - 52)"
  have "x < pow2 (ilog2 x + 1)" by (rule ilog2_bounds(2)[OF assms])
  also have "\<dots> \<le> pow2 (fexp x + 1)" by (rule pow2_mono) (simp add: fexp_def)
  finally have "x / ?u \<le> pow2 53" by (simp add: divide_le_eq add.commute flip: pow2_add)
  then have "rhe (x / ?u) \<le> 2 ^ 53" by (intro rhe_le_int) (simp add: pow2_def)
  then have "(of_int (rhe (x / ?u)) :: rat) \<le> of_int (2 ^ 53)" by (simp only: of_int_le_iff)
  then have "of_int (rhe (x / ?u)) * ?u \<le> pow2 53 * ?u"
    by (intro mult_right_mono) (simp_all add: pow2_def)
  then show ?thesis by (simp add: flpos_eq add.commute flip: pow2_add)
qed

lemma flpos_lower:
  assumes "0 < x" "- 1022 \<le> ilog2 x"
  shows "pow2 (ilog2 x) \<le> flpos x"
proof -
  have e: "fexp x = ilog2 x" using assms(2) by (simp add: fexp_def)
  let ?u = "pow2 (ilog2 x - 52)"
  have "pow2 52 * ?u \<le> x" using ilog2_bounds(1)[OF assms(1)] by (simp flip: pow2_add)
  then have "pow2 52 \<le> x / ?u" by (simp add: le_divide_eq)
  then have "2 ^ 52 \<le> rhe (x / ?u)" by (intro int_le_rhe) (simp add: pow2_def)
  then have "(of_int (2 ^ 52) :: rat) \<le> of_int (rhe (x / ?u))" by (simp only: of_int_le_iff)
  then have "pow2 52 * ?u \<le> of_int (rhe (x / ?u)) * ?u"
    by (intro mult_right_mono) (simp_all add: pow2_def)
  then show ?thesis by (simp add: flpos_eq e flip: pow2_add)
qed

lemma flpos_mono:
  assumes "0 < x" "x \<le> y"
  shows "flpos x \<le> flpos y"
proof (cases "fexp x = fexp y")
  case True
  let ?u = "pow2 (fexp y - 52)"
  have "rhe (x / ?u) \<le> rhe (y / ?u)" using assms(2) by (intro rhe_mono divide_right_mono) (simp_all add: less_imp_le)
  then show ?thesis using True by (simp add: flpos_eq mult_right_mono)
next
  case False
  with ilog2_mono[OF assms] have lt: "fexp x < fexp y" "fexp y = ilog2 y" "- 1022 \<le> ilog2 y"
    by (auto simp: fexp_def)
  have "flpos x \<le> pow2 (fexp x + 1)" by (rule flpos_upper[OF assms(1)])
  also have "\<dots> \<le> pow2 (ilog2 y)" using lt by (intro pow2_mono) simp
  also have "\<dots> \<le> flpos y" using assms lt by (intro flpos_lower) auto
  finally show ?thesis .
qed

lemma flpos_nonneg: "0 < x \<Longrightarrow> 0 \<le> flpos x"
proof -
  assume "0 < x"
  then have "0 \<le> rhe (x / pow2 (fexp x - 52))" by (intro int_le_rhe) (simp add: less_imp_le)
  then show ?thesis by (simp add: flpos_eq)
qed

lemma fl64_zero [simp]: "fl64 0 = 0"
  by (simp add: fl64_def)

lemma fl64_minus: "fl64 (- x) = - fl64 x"
  by (simp add: fl64_def)

lemma fl64_mono: "x \<le> y \<Longrightarrow> fl64 x \<le> fl64 y"
proof -
  assume le: "x \<le> y"
  consider "x < 0" "0 < y" | "0 < x" | "y < 0" | "x = 0 \<or> y = 0"
    using le by linarith
  then show ?thesis
  proof cases
    case 1
    then show ?thesis using flpos_nonneg[of "- x"] flpos_nonneg[of y] by (simp add: fl64_def)
  next
    case 2
    then show ?thesis using le flpos_mono[of x y] by (simp add: fl64_def)
  next
    case 3
    then show ?thesis using le flpos_mono[of "- y" "- x"] by (simp add: fl64_def)
  next
    case 4
    then show ?thesis using le flpos_nonneg[of "- x"] flpos_nonneg[of y] by (auto simp: fl64_def)
  qed
qed

text \<open>A dyadic rational with a 53-bit significand is a fixed point of the rounding.\<close>

lemma flpos_exact:
  assumes "0 < k" "k \<le> 2 ^ 53" "- 1022 \<le> e"
  shows "flpos (of_int k * pow2 (e - 52)) = of_int k * pow2 (e - 52)" (is "flpos ?y = _")
proof -
  have pos: "0 < ?y" using assms(1) by simp
  have "\<exists>m::int. ?y / pow2 (fexp ?y - 52) = of_int m"
  proof (cases "fexp ?y \<le> e")
    case True
    then have "?y / pow2 (fexp ?y - 52) = of_int k * pow2 (int (nat (e - fexp ?y)))"
      by (simp add: pow2_diff algebra_simps flip: times_divide_eq_right)
    then show ?thesis by (metis of_int_mult pow2_nat)
  next
    case False
    have "?y \<le> pow2 53 * pow2 (e - 52)"
    proof (rule mult_right_mono)
      have "(of_int k :: rat) \<le> of_int (2 ^ 53)" using assms(2) by (simp only: of_int_le_iff)
      then show "of_int k \<le> pow2 53" by (simp add: pow2_def)
    qed (simp add: less_imp_le)
    then have le: "?y \<le> pow2 (e + 1)" by (simp add: add.commute flip: pow2_add)
    have "\<not> ?y < pow2 (e + 1)"
    proof
      assume "?y < pow2 (e + 1)"
      then have "ilog2 ?y \<le> e" by (rule ilog2_less[OF pos])
      with False assms(3) show False by (simp add: fexp_def)
    qed
    with le have y: "?y = pow2 (e + 1)" by simp
    have "ilog2 ?y \<le> e + 1" using y pow2_strict[of "e + 1" "e + 1 + 1"]
      by (intro ilog2_less[OF pos]) simp
    with False assms(3) have "fexp ?y = e + 1" by (auto simp: fexp_def)
    then have "?y / pow2 (fexp ?y - 52) = pow2 52" unfolding y by (simp add: pow2_diff)
    then show ?thesis by (metis pow2_nat of_nat_numeral)
  qed
  then obtain m :: int where m: "?y / pow2 (fexp ?y - 52) = of_int m" ..
  have "flpos ?y = of_int m * pow2 (fexp ?y - 52)" by (simp add: flpos_eq m)
  also have "\<dots> = ?y" using pow2_pos[of "fexp ?y - 52"] by (simp flip: m)
  finally show ?thesis .
qed

lemma fl64_idem [simp]: "fl64 (fl64 x) = fl64 x"
proof -
  have pos: "fl64 (flpos y) = flpos y" if y: "0 < y" for y
  proof -
    let ?u = "pow2 (fexp y - 52)"
    define k where "k = rhe (y / ?u)"
    have fy: "flpos y = of_int k * ?u" by (simp add: flpos_eq k_def)
    have "0 \<le> k" using flpos_nonneg[OF y] fy pow2_pos[of "fexp y - 52"]
      by (auto simp: zero_le_mult_iff)
    have "of_int k * ?u \<le> pow2 53 * ?u" using flpos_upper[OF y] fy by (simp add: add.commute flip: pow2_add)
    then have "of_int k \<le> pow2 53" by (rule mult_right_le_imp_le) simp
    then have "of_int k \<le> (of_int (2 ^ 53) :: rat)" by (simp add: pow2_def)
    then have "k \<le> 2 ^ 53" by (simp only: of_int_le_iff)
    moreover have "- 1022 \<le> fexp y" by (simp add: fexp_def)
    ultimately have "0 < k \<Longrightarrow> flpos (flpos y) = flpos y" using flpos_exact[of k "fexp y"] fy by simp
    moreover have "k = 0 \<Longrightarrow> flpos y = 0" by (simp add: fy)
    ultimately show ?thesis using \<open>0 \<le> k\<close> flpos_nonneg[OF y]
      by (cases "k = 0") (simp_all add: fl64_def)
  qed
  show ?thesis using pos[of x] pos[of "- x"] fl64_minus[of "flpos (- x)"]
    by (auto simp: fl64_def)
qed

lemma fl64_of_int:
  assumes "\<bar>n\<bar> \<le> 2 ^ 53"
  shows "fl64 (of_int n) = of_int n"
proof -
  have "flpos (of_int k) = of_int k" if "0 < k" "k \<le> 2 ^ 53" for k
    using flpos_exact[of k 52] that by (simp add: pow2_def)
  from this[of n] this[of "- n"] assms show ?thesis by (auto simp: fl64_def)
qed

text \<open>Evaluation of the rounding at a rational whose binade is known.\<close>

lemma ilog2_eqI: "pow2 e \<le> x \<Longrightarrow> x < pow2 (e + 1) \<Longrightarrow> ilog2 x = e"
proof (rule antisym)
  assume a: "pow2 e \<le> x" "x < pow2 (e + 1)"
  have pos: "0 < x" using a(1) pow2_pos[of e] by linarith
  show "ilog2 x \<le> e" using a pos by (intro ilog2_less)
  show "e \<le> ilog2 x" using a pos by (intro ilog2_ge)
qed

lemma fl64_at:
  assumes "pow2 e \<le> x" "x < pow2 (e + 1)" "- 1022 \<le> e"
  shows "fl64 x = of_int (rhe (x / pow2 (e - 52))) * pow2 (e - 52)"
proof -
  have "0 < x" using assms(1) pow2_pos[of e] by linarith
  moreover have "fexp x = e" using ilog2_eqI[OF assms(1,2)] assms(3) by (simp add: fexp_def)
  ultimately show ?thesis by (simp add: fl64_def flpos_eq)
qed

section \<open>The interface of a rounding\<close>

locale rounding =
  fixes rnd :: "rat \<Rightarrow> rat"
  assumes rnd_mono: "x \<le> y \<Longrightarrow> rnd x \<le> rnd y"
    and rnd_idem: "rnd (rnd x) = rnd x"
    and rnd_int: "\<bar>n\<bar> \<le> 2 ^ 53 \<Longrightarrow> rnd (of_int n) = of_int n"
begin

lemma rnd_between: "rnd a = a \<Longrightarrow> rnd b = b \<Longrightarrow> a \<le> x \<Longrightarrow> x \<le> b \<Longrightarrow> a \<le> rnd x \<and> rnd x \<le> b"
  using rnd_mono[of a x] rnd_mono[of x b] by simp

lemma rnd_numeral [simp]: "numeral n \<le> (2::int) ^ 53 \<Longrightarrow> rnd (numeral n) = numeral n"
  using rnd_int[of "numeral n"] by simp

lemma rnd_0 [simp]: "rnd 0 = 0"
  using rnd_int[of 0] by simp

lemma rnd_1 [simp]: "rnd 1 = 1"
  using rnd_int[of 1] by simp

lemma rnd_nonneg: "0 \<le> x \<Longrightarrow> 0 \<le> rnd x"
  using rnd_mono[of 0 x] by simp

lemma rnd_percent: "0 \<le> x \<Longrightarrow> x \<le> 100 \<Longrightarrow> 0 \<le> rnd x \<and> rnd x \<le> 100"
  by (rule rnd_between) simp_all

lemma rnd_unit: "0 \<le> x \<Longrightarrow> x \<le> 1 \<Longrightarrow> 0 \<le> rnd x \<and> rnd x \<le> 1"
  by (rule rnd_between) simp_all

text \<open>
  A running floating-point sum (\<^verbatim>\<open>sum\<close> over nonnegative summands): nonnegative, and it does not
  shrink when a summand is added at the end.
\<close>

lemma rnd_fold_ge:
  "rnd a = a \<Longrightarrow> (\<And>x. x \<in> set xs \<Longrightarrow> 0 \<le> x) \<Longrightarrow> a \<le> foldl (\<lambda>s x. rnd (s + x)) a xs"
proof (induction xs arbitrary: a)
  case (Cons x xs)
  have "a \<le> a + x" using Cons.prems(2)[of x] by simp
  with rnd_mono[of a "a + x"] Cons.prems(1) have "a \<le> rnd (a + x)" by simp
  also have "\<dots> \<le> foldl (\<lambda>s x. rnd (s + x)) (rnd (a + x)) xs"
    by (rule Cons.IH) (auto simp: rnd_idem Cons.prems(2))
  finally show ?case by simp
qed simp

lemma rnd_fold_mono:
  "a \<le> b \<Longrightarrow> list_all2 (\<le>) xs ys \<Longrightarrow>
    foldl (\<lambda>s x. rnd (s + x)) a xs \<le> foldl (\<lambda>s x. rnd (s + x)) b ys"
proof (induction xs arbitrary: a b ys)
  case (Cons x xs)
  then obtain y ys' where ys: "ys = y # ys'" "x \<le> y" "list_all2 (\<le>) xs ys'"
    by (auto simp: list_all2_Cons1)
  with Cons.IH[of "rnd (a + x)" "rnd (b + y)" ys'] rnd_mono[of "a + x" "b + y"] Cons.prems(1)
  show ?case by simp
qed simp

end

interpretation fl64: rounding fl64
  by unfold_locales (simp_all add: fl64_mono fl64_of_int)

section \<open>Operations on floats\<close>

definition fadd :: "rat \<Rightarrow> rat \<Rightarrow> rat" where
  "fadd x y = fl64 (x + y)"

definition fsub :: "rat \<Rightarrow> rat \<Rightarrow> rat" where
  "fsub x y = fl64 (x - y)"

definition fmul :: "rat \<Rightarrow> rat \<Rightarrow> rat" where
  "fmul x y = fl64 (x * y)"

definition fdiv :: "rat \<Rightarrow> rat \<Rightarrow> rat" where
  "fdiv x y = fl64 (x / y)"

text \<open>
  \<^verbatim>\<open>sum\<close> over floats, left to right from \<open>0\<close>. It is used on whole-number penalties, for which the compensated summation of
  newer interpreters (\<open>py_sum\<close> of the theory Statistics) gives the same result.
\<close>

definition fsum_list :: "rat list \<Rightarrow> rat" where
  "fsum_list xs = foldl (\<lambda>s x. fl64 (s + x)) 0 xs"

definition py_round2 :: "rat \<Rightarrow> rat" where
  "py_round2 x = fl64 (of_int (rhe (x * 100)) / 100)"

lemma py_round2_mono: "x \<le> y \<Longrightarrow> py_round2 x \<le> py_round2 y"
  unfolding py_round2_def
  by (intro fl64_mono divide_right_mono) (simp_all add: rhe_mono)

lemma py_round2_int: "\<bar>n\<bar> \<le> 2 ^ 53 \<Longrightarrow> py_round2 (of_int n) = of_int n"
  using rhe_of_int[of "n * 100"] by (simp add: py_round2_def fl64_of_int)

lemma py_round2_0 [simp]: "py_round2 0 = 0"
  using py_round2_int[of 0] by simp

lemma py_round2_100 [simp]: "py_round2 100 = 100"
  using py_round2_int[of 100] by simp

lemma py_round2_percent: "0 \<le> x \<Longrightarrow> x \<le> 100 \<Longrightarrow> 0 \<le> py_round2 x \<and> py_round2 x \<le> 100"
  using py_round2_mono[of 0 x] py_round2_mono[of x 100] by simp

lemma py_round2_f64 [simp]: "fl64 (py_round2 x) = py_round2 x"
  by (simp add: py_round2_def)

lemma fsum_list_nonneg: "(\<And>x. x \<in> set xs \<Longrightarrow> 0 \<le> x) \<Longrightarrow> 0 \<le> fsum_list xs"
  unfolding fsum_list_def using fl64.rnd_fold_ge[of 0 xs] by simp

lemma fsum_list_f64 [simp]: "fl64 (fsum_list xs) = fsum_list xs"
  by (cases xs rule: rev_cases) (simp_all add: fsum_list_def)

lemma fsum_list_snoc: "fsum_list (xs @ [x]) = fadd (fsum_list xs) x"
  by (simp add: fsum_list_def fadd_def)

text \<open>
  \<^verbatim>\<open>timedelta(seconds=x)\<close> in microseconds: the whole seconds exactly, the fraction scaled in
  floating point, rounded to a microsecond with ties to even.
\<close>

definition td_micros :: "rat \<Rightarrow> int" where
  "td_micros s = (let w = (if s < 0 then \<lceil>s\<rceil> else \<lfloor>s\<rfloor>) in
     rhe (of_int (w * 1000000) + fmul 1000000 (s - of_int w)))"

lemma td_micros_nonneg: "0 \<le> s \<Longrightarrow> 0 \<le> td_micros s"
proof -
  assume s: "0 \<le> s"
  then have "0 \<le> s - of_int \<lfloor>s\<rfloor>" by simp
  then have "0 \<le> fmul 1000000 (s - of_int \<lfloor>s\<rfloor>)" by (simp add: fmul_def fl64.rnd_nonneg)
  with s have "0 \<le> rhe (of_int (\<lfloor>s\<rfloor> * 1000000) + fmul 1000000 (s - of_int \<lfloor>s\<rfloor>))"
    by (intro int_le_rhe) simp
  with s show ?thesis by (simp add: td_micros_def Let_def)
qed

end
