(* ===== verification/AIModels.thy ===== *)
theory AIModels
  imports PyFloat
begin

text \<open>
  The AI assessment models of \<^verbatim>\<open>src/app/ai/models.py\<close>, the supplemental evidence that an evaluation
  result and its snapshot carry beside the deterministic one.
\<close>

type_synonym uuid = nat
type_synonym time = int \<comment> \<open>a datetime, in microseconds\<close>

section \<open>AI models\<close>

datatype ai_status = AI_Disabled | AI_Completed | AI_Partial | AI_Unavailable | AI_Disputed | AI_Skipped

datatype ai_component_status = Comp_Completed | Comp_Unavailable | Comp_Skipped

datatype ai_finding_severity = AISev_Info | AISev_Warning | AISev_Error

datatype ai_finding_category = AICat_Requirements | AICat_Logic | AICat_Maintainability | AICat_Edge_Case

record judge_finding =
  jf_severity :: ai_finding_severity
  jf_category :: ai_finding_category
  jf_message :: string
  jf_line :: "nat option"

record judge_result =
  jr_source :: string
  jr_provider_id :: string
  jr_model :: string
  jr_prompt_version :: string
  jr_prompt_hash :: string
  jr_rendered_input_hash :: string
  jr_score :: rat
  jr_confidence :: rat
  jr_dimensions :: "(string \<times> rat) list"
  jr_findings :: "judge_finding list"
  jr_summary :: string
  jr_provider_response_id :: "string option"
  jr_input_tokens :: "nat option"
  jr_output_tokens :: "nat option"
  jr_latency_ms :: nat
  jr_raw_response_hash :: string

record adversarial_test_artifact =
  at_source :: string
  at_name :: string
  at_rationale :: string
  at_code :: string
  at_source_hash :: string
  at_structurally_valid :: bool
  at_reference_valid :: bool
  at_candidate_passed :: "bool option"
  at_rejection_reason :: "string option"

record adversarial_result =
  av_status :: ai_component_status
  av_reason :: "string option"
  av_generated :: nat
  av_structurally_accepted :: nat
  av_reference_valid :: nat
  av_candidate_passed :: nat
  av_candidate_failed :: nat
  av_robustness_score :: "rat option"
  av_tests :: "adversarial_test_artifact list"
  av_provider_id :: "string option"
  av_model :: "string option"
  av_prompt_version :: "string option"
  av_prompt_hash :: "string option"
  av_rendered_input_hash :: "string option"
  av_provider_response_id :: "string option"
  av_input_tokens :: "nat option"
  av_output_tokens :: "nat option"
  av_latency_ms :: "nat option"
  av_raw_response_hash :: "string option"

record ai_provenance =
  pv_policy_version :: string
  pv_judge_prompt_version :: string
  pv_judge_prompt_hash :: string
  pv_adversarial_prompt_version :: string
  pv_adversarial_prompt_hash :: string
  pv_provider_id :: "string option"
  pv_judge_models :: "string list"
  pv_adversarial_model :: "string option"
  pv_temperature :: rat
  pv_top_p :: rat
  pv_max_output_tokens :: int
  pv_reference_fingerprint :: "string option"

record ai_identity =
  ii_enabled :: bool
  ii_policy_version :: string
  ii_judge_prompt_version :: string
  ii_judge_prompt_hash :: string
  ii_adversarial_prompt_version :: string
  ii_adversarial_prompt_hash :: string
  ii_provider_id :: "string option"
  ii_judge_models :: "string list"
  ii_adversarial_model :: "string option"
  ii_temperature :: rat
  ii_top_p :: rat
  ii_max_output_tokens :: int
  ii_reference_fingerprint :: "string option"

record ai_assessment =
  aa_status :: ai_status
  aa_reason :: "string option"
  aa_ai_score :: "rat option"
  aa_judge_score :: "rat option"
  aa_judge_disputed :: bool
  aa_judge_disagreement_spread :: "rat option"
  aa_judge_results :: "judge_result list"
  aa_adversarial_tests :: "adversarial_result option"
  aa_provenance :: ai_provenance
  aa_ai_reproducibility_fingerprint :: string

end
