(* ===== verification/Scoring.thy ===== *)
theory Scoring
  imports AIModels
begin

text \<open>
  The evaluation models of \<^verbatim>\<open>src/app/evaluator/models.py\<close>, the deterministic scoring policy of
  \<^verbatim>\<open>src/app/evaluator/scoring.py\<close> and the findings of \<^verbatim>\<open>src/app/evaluator/findings.py\<close>. Scores are
  binary64 values; every product, sum and \<^verbatim>\<open>round\<close> of the source is rounded where the source
  rounds. The properties: every dimension and the final score stay within 0 and 100, the
  penalty scores fall as findings are added, the final score is monotone in each dimension,
  and the findings of a run are exactly those of the first matching outcome.
\<close>

section \<open>Models\<close>

datatype evaluation_status = EvCompleted | EvFailed

datatype finding_severity = Sev_Info | Sev_Warning | Sev_Error

datatype finding_category =
    Cat_Validation | Cat_Execution | Cat_Testing | Cat_Resource | Cat_Sandbox
  | Cat_Quality | Cat_Type_Safety | Cat_Security | Cat_Complexity

datatype analysis_tool = Ruff | Mypy | Bandit | Radon

datatype finding_confidence = Conf_Low | Conf_Medium | Conf_High

record task_spec =
  ts_id :: string
  ts_title :: string
  ts_description :: string
  ts_language :: string
  ts_entrypoint :: "string option"
  ts_timeout_seconds :: rat
  ts_version :: string

record evaluation_request =
  rq_task_id :: string
  rq_language :: string
  rq_code :: string

record test_result =
  tr_passed :: nat
  tr_failed :: nat
  tr_total :: nat
  tr_duration_seconds :: rat
  tr_timed_out :: bool

record finding =
  fd_severity :: finding_severity
  fd_category :: finding_category
  fd_message :: string
  fd_tool :: "analysis_tool option"
  fd_code :: "string option"
  fd_line :: "nat option"
  fd_column :: "nat option"
  fd_end_line :: "nat option"
  fd_end_column :: "nat option"
  fd_fixable :: "bool option"
  fd_confidence :: "finding_confidence option"

record complexity_metrics =
  cm_maximum :: nat
  cm_average :: rat
  cm_blocks :: nat
  cm_analyzable :: bool

record static_analysis_result =
  sa_findings :: "finding list"
  sa_complexity :: complexity_metrics

record score_breakdown =
  sb_correctness :: rat
  sb_code_quality :: "rat option"
  sb_type_safety :: "rat option"
  sb_security :: "rat option"
  sb_complexity :: "rat option"

record evaluation_result =
  er_evaluation_id :: "uuid option"
  er_created_at :: "time option"
  er_task_id :: string
  er_status :: evaluation_status
  er_score :: rat
  er_tests :: test_result
  er_score_breakdown :: score_breakdown
  er_analysis :: "static_analysis_result option"
  er_findings :: "finding list"
  er_ai_assessment :: "ai_assessment option"

record runner_result =
  rr_exit_code :: "int option"
  rr_stdout :: string
  rr_stderr :: string
  rr_duration_seconds :: rat
  rr_passed :: nat
  rr_failed :: nat
  rr_total :: nat
  rr_timed_out :: bool
  rr_enforced_timeout_seconds :: "rat option"
  rr_output_truncated :: bool
  rr_oom_killed :: bool
  rr_syntax_error :: bool
  rr_import_error :: bool
  rr_sandbox_error :: "string option"
  rr_infrastructure_error :: "string option"

record runner_capability =
  rc_backend :: string
  rc_available :: bool
  rc_detail :: string
  rc_reason :: "string option"

text \<open>
  The request validators: identifiers are stripped and lower-cased and must not be blank, code
  must not be blank. \<^verbatim>\<open>str.strip\<close> removes the white space of the Latin-1 range.
\<close>

definition py_space :: "char \<Rightarrow> bool" where
  "py_space c \<longleftrightarrow> (let n = of_char c :: nat in
     9 \<le> n \<and> n \<le> 13 \<or> 28 \<le> n \<and> n \<le> 32 \<or> n = 133 \<or> n = 160)"

definition py_strip :: "string \<Rightarrow> string" where
  "py_strip s = rev (dropWhile py_space (rev (dropWhile py_space s)))"

definition py_lower_char :: "char \<Rightarrow> char" where
  "py_lower_char c = (let n = of_char c :: nat in
     if 65 \<le> n \<and> n \<le> 90 \<or> 192 \<le> n \<and> n \<le> 222 \<and> n \<noteq> 215 then char_of (n + 32) else c)"

definition py_lower :: "string \<Rightarrow> string" where
  "py_lower s = map py_lower_char s"

definition normalize_identifier :: "string \<Rightarrow> string pyres" where
  "normalize_identifier value = (let normalized = py_lower (py_strip value) in
     if normalized = [] then Inl (ValueError ''must not be blank'') else Inr normalized)"

definition reject_blank_code :: "string \<Rightarrow> string pyres" where
  "reject_blank_code value =
     (if py_strip value = [] then Inl (ValueError ''code must not be blank'') else Inr value)"

section \<open>Scoring\<close>

definition CORRECTNESS_WEIGHT :: rat where "CORRECTNESS_WEIGHT = fl64 (60 / 100)"
definition CODE_QUALITY_WEIGHT :: rat where "CODE_QUALITY_WEIGHT = fl64 (15 / 100)"
definition TYPE_SAFETY_WEIGHT :: rat where "TYPE_SAFETY_WEIGHT = fl64 (10 / 100)"
definition SECURITY_WEIGHT :: rat where "SECURITY_WEIGHT = fl64 (10 / 100)"
definition COMPLEXITY_WEIGHT :: rat where "COMPLEXITY_WEIGHT = fl64 (5 / 100)"

fun QUALITY_PENALTIES :: "finding_severity \<Rightarrow> rat" where
  "QUALITY_PENALTIES Sev_Error = 10"
| "QUALITY_PENALTIES Sev_Warning = 5"
| "QUALITY_PENALTIES Sev_Info = 2"

fun TYPE_SAFETY_PENALTIES :: "finding_severity \<Rightarrow> rat" where
  "TYPE_SAFETY_PENALTIES Sev_Error = 8"
| "TYPE_SAFETY_PENALTIES Sev_Warning = 4"
| "TYPE_SAFETY_PENALTIES Sev_Info = 0"

fun SECURITY_SEVERITY_PENALTIES :: "finding_severity \<Rightarrow> rat" where
  "SECURITY_SEVERITY_PENALTIES Sev_Error = 25"
| "SECURITY_SEVERITY_PENALTIES Sev_Warning = 10"
| "SECURITY_SEVERITY_PENALTIES Sev_Info = 3"

fun SECURITY_CONFIDENCE_MULTIPLIERS :: "finding_confidence \<Rightarrow> rat" where
  "SECURITY_CONFIDENCE_MULTIPLIERS Conf_Low = 1 / 2"
| "SECURITY_CONFIDENCE_MULTIPLIERS Conf_Medium = 3 / 4"
| "SECURITY_CONFIDENCE_MULTIPLIERS Conf_High = 1"

definition clamp :: "rat \<Rightarrow> rat" where
  "clamp value = max 0 (min 100 value)"

definition complexity_score :: "nat \<Rightarrow> bool \<Rightarrow> rat" where
  "complexity_score maximum analyzable =
     (if \<not> analyzable then 0
      else if maximum \<le> 5 then 100
      else if maximum \<le> 10 then 90
      else if maximum \<le> 15 then 70
      else if maximum \<le> 20 then 50
      else 25)"

definition security_penalty :: "finding \<Rightarrow> rat" where
  "security_penalty f =
     (let confidence = (case fd_confidence f of None \<Rightarrow> Conf_Low | Some c \<Rightarrow> c) in
      fmul (SECURITY_SEVERITY_PENALTIES (fd_severity f)) (SECURITY_CONFIDENCE_MULTIPLIERS confidence))"

definition security_score :: "finding list \<Rightarrow> rat" where
  "security_score findings =
     (let penalty = foldl (\<lambda>p f. fadd p (security_penalty f)) 0 findings
      in py_round2 (clamp (fsub 100 penalty)))"

definition penalty_score :: "finding list \<Rightarrow> (finding_severity \<Rightarrow> rat) \<Rightarrow> rat" where
  "penalty_score findings penalties =
     (let penalty = fsum_list (map (\<lambda>f. penalties (fd_severity f)) findings)
      in py_round2 (clamp (fsub 100 penalty)))"

definition calculate_score ::
    "test_result \<Rightarrow> static_analysis_result option \<Rightarrow> score_breakdown" where
  "calculate_score tests analysis =
     (let correctness = (if tr_total tests = 0 then 0
                         else fmul (fdiv (of_nat (tr_passed tests)) (of_nat (tr_total tests))) 100)
      in case analysis of
        None \<Rightarrow> \<lparr>sb_correctness = py_round2 correctness, sb_code_quality = None,
                 sb_type_safety = None, sb_security = None, sb_complexity = None\<rparr>
      | Some a \<Rightarrow>
          (let quality_findings = filter (\<lambda>f. fd_category f = Cat_Quality) (sa_findings a);
               type_findings = filter (\<lambda>f. fd_category f = Cat_Type_Safety) (sa_findings a);
               security_findings = filter (\<lambda>f. fd_category f = Cat_Security) (sa_findings a)
           in \<lparr>sb_correctness = py_round2 correctness,
               sb_code_quality = Some (penalty_score quality_findings QUALITY_PENALTIES),
               sb_type_safety = Some (penalty_score type_findings TYPE_SAFETY_PENALTIES),
               sb_security = Some (security_score security_findings),
               sb_complexity = Some (complexity_score (cm_maximum (sa_complexity a))
                                       (cm_analyzable (sa_complexity a)))\<rparr>))"

definition weighted_score :: "rat \<Rightarrow> rat \<Rightarrow> rat \<Rightarrow> rat \<Rightarrow> rat \<Rightarrow> rat" where
  "weighted_score c q t s x =
     fadd (fadd (fadd (fadd (fmul c CORRECTNESS_WEIGHT) (fmul q CODE_QUALITY_WEIGHT))
       (fmul t TYPE_SAFETY_WEIGHT)) (fmul s SECURITY_WEIGHT)) (fmul x COMPLEXITY_WEIGHT)"

definition calculate_final_score :: "score_breakdown \<Rightarrow> rat" where
  "calculate_final_score b =
     (case (sb_code_quality b, sb_type_safety b, sb_security b, sb_complexity b) of
        (Some q, Some t, Some s, Some x) \<Rightarrow>
          py_round2 (weighted_score (sb_correctness b) q t s x)
      | _ \<Rightarrow> sb_correctness b)"

section \<open>Findings of a run\<close>

definition mk_finding :: "finding_severity \<Rightarrow> finding_category \<Rightarrow> string \<Rightarrow> finding" where
  "mk_finding sev cat msg =
     \<lparr>fd_severity = sev, fd_category = cat, fd_message = msg, fd_tool = None, fd_code = None,
      fd_line = None, fd_column = None, fd_end_line = None, fd_end_column = None,
      fd_fixable = None, fd_confidence = None\<rparr>"

fun is_infix :: "string \<Rightarrow> string \<Rightarrow> bool" where
  "is_infix p [] = (p = [])"
| "is_infix p (c # s) = (take (length p) (c # s) = p \<or> is_infix p s)"

definition append_output_finding :: "finding list \<Rightarrow> runner_result \<Rightarrow> finding list" where
  "append_output_finding findings result =
     (if rr_output_truncated result
      then findings @ [mk_finding Sev_Warning Cat_Resource
             ''Candidate output exceeded the configured capture limit and was truncated.'']
      else findings)"

text \<open>
  The two renderings are arguments: \<open>show_g\<close> is Python's \<^verbatim>\<open>:g\<close> format of a float and \<open>show_n\<close>
  the decimal rendering of an integer.
\<close>

definition execution_findings :: "runner_result \<Rightarrow> finding list" where
  "execution_findings result =
     (let output = rr_stdout result @ ''\<newline>'' @ rr_stderr result in
      if rr_syntax_error result \<or> is_infix ''SyntaxError'' output
      then [mk_finding Sev_Error Cat_Execution ''Candidate code contains a syntax error.'']
      else if rr_import_error result \<or> is_infix ''ImportError'' output
              \<or> is_infix ''ModuleNotFoundError'' output
      then [mk_finding Sev_Error Cat_Execution
              ''Candidate code could not be imported by the test suite.'']
      else [])"

definition test_findings :: "(nat \<Rightarrow> string) \<Rightarrow> runner_result \<Rightarrow> finding list" where
  "test_findings show_n result =
     (if 0 < rr_failed result
      then [mk_finding Sev_Warning Cat_Testing
              (show_n (rr_failed result) @ '' ''
               @ (if rr_failed result = 1 then ''test failed'' else ''tests failed'') @ ''.'')]
      else if rr_total result = 0
      then [mk_finding Sev_Error Cat_Testing
              ''No tests were executed; correctness could not be measured.'']
      else [])"

definition build_findings ::
    "(rat \<Rightarrow> string) \<Rightarrow> (nat \<Rightarrow> string) \<Rightarrow> runner_result \<Rightarrow> rat \<Rightarrow> finding list" where
  "build_findings show_g show_n result timeout_seconds =
     (if rr_timed_out result then
        (let enforced_timeout =
               (case rr_enforced_timeout_seconds result of
                  Some t \<Rightarrow> if t = 0 then timeout_seconds else t | None \<Rightarrow> timeout_seconds)
         in append_output_finding
              [mk_finding Sev_Error Cat_Execution
                 (''Candidate code exceeded the '' @ show_g enforced_timeout
                  @ '' second execution timeout.'')] result)
      else if rr_oom_killed result then
        append_output_finding
          [mk_finding Sev_Error Cat_Resource ''Candidate exceeded the sandbox memory limit.''] result
      else case rr_sandbox_error result of
        Some message \<Rightarrow>
          append_output_finding [mk_finding Sev_Error Cat_Sandbox message] result
      | None \<Rightarrow>
        if rr_infrastructure_error result \<noteq> None then
          [mk_finding Sev_Error Cat_Execution ''The evaluation process could not be completed.'']
        else append_output_finding (execution_findings result) result
             @ test_findings show_n result)"

section \<open>Bounds and monotonicity of the scores\<close>

lemmas weight_defs = CORRECTNESS_WEIGHT_def CODE_QUALITY_WEIGHT_def TYPE_SAFETY_WEIGHT_def
  SECURITY_WEIGHT_def COMPLEXITY_WEIGHT_def

lemmas fop_defs = fadd_def fsub_def fmul_def fdiv_def

lemma weights_nonneg [simp]:
  "0 \<le> CORRECTNESS_WEIGHT" "0 \<le> CODE_QUALITY_WEIGHT" "0 \<le> TYPE_SAFETY_WEIGHT"
  "0 \<le> SECURITY_WEIGHT" "0 \<le> COMPLEXITY_WEIGHT"
  by (simp_all add: weight_defs fl64.rnd_nonneg)

lemma fadd_mono: "a \<le> b \<Longrightarrow> c \<le> d \<Longrightarrow> fadd a c \<le> fadd b d"
  by (simp add: fadd_def fl64_mono)

lemma fmul_mono: "a \<le> b \<Longrightarrow> 0 \<le> w \<Longrightarrow> fmul a w \<le> fmul b w"
  by (simp add: fmul_def fl64_mono mult_right_mono)

lemma fadd_nonneg: "0 \<le> a \<Longrightarrow> 0 \<le> b \<Longrightarrow> 0 \<le> fadd a b"
  by (simp add: fadd_def fl64.rnd_nonneg)

lemma fmul_nonneg: "0 \<le> a \<Longrightarrow> 0 \<le> b \<Longrightarrow> 0 \<le> fmul a b"
  by (simp add: fmul_def fl64.rnd_nonneg)

lemma clamp_bounds: "0 \<le> clamp v" "clamp v \<le> 100"
  by (simp_all add: clamp_def)

lemma clamp_mono: "a \<le> b \<Longrightarrow> clamp a \<le> clamp b"
  by (auto simp: clamp_def)

lemma round_clamp_percent: "0 \<le> py_round2 (clamp v) \<and> py_round2 (clamp v) \<le> 100"
  by (rule py_round2_percent) (rule clamp_bounds)+

lemma round_clamp_antimono:
  "p \<le> p' \<Longrightarrow> py_round2 (clamp (fsub 100 p')) \<le> py_round2 (clamp (fsub 100 p))"
  by (intro py_round2_mono clamp_mono) (simp add: fsub_def fl64_mono)

lemma penalty_score_percent: "0 \<le> penalty_score fs p \<and> penalty_score fs p \<le> 100"
  by (simp add: penalty_score_def Let_def round_clamp_percent)

lemma security_score_percent: "0 \<le> security_score fs \<and> security_score fs \<le> 100"
  by (simp add: security_score_def Let_def round_clamp_percent)

lemma complexity_score_percent: "0 \<le> complexity_score m a \<and> complexity_score m a \<le> 100"
  by (simp add: complexity_score_def)

lemma complexity_score_antimono: "m \<le> m' \<Longrightarrow> complexity_score m' a \<le> complexity_score m a"
  by (auto simp: complexity_score_def)

lemma weighted_score_mono:
  assumes "c \<le> c'" "q \<le> q'" "t \<le> t'" "s \<le> s'" "x \<le> x'"
  shows "weighted_score c q t s x \<le> weighted_score c' q' t' s' x'"
  unfolding weighted_score_def by (intro fadd_mono fmul_mono assms weights_nonneg)

lemma weighted_score_100: "weighted_score 100 100 100 100 100 = 100"
  unfolding weighted_score_def weight_defs by code_simp

lemma weighted_score_0: "weighted_score 0 0 0 0 0 = 0"
  by (simp add: weighted_score_def fop_defs)

lemma security_penalty_nonneg: "0 \<le> security_penalty f"
proof -
  have "0 \<le> SECURITY_SEVERITY_PENALTIES v" for v by (cases v) simp_all
  moreover have "0 \<le> SECURITY_CONFIDENCE_MULTIPLIERS c" for c by (cases c) simp_all
  ultimately show ?thesis by (simp add: security_penalty_def Let_def fmul_nonneg)
qed

lemma fold_fadd_fsum: "foldl (\<lambda>p f. fadd p (g f)) 0 fs = fsum_list (map g fs)"
  by (simp add: fsum_list_def foldl_map fadd_def)

lemma fsum_list_append_ge:
  assumes "\<And>x. x \<in> set ys \<Longrightarrow> 0 \<le> x"
  shows "fsum_list xs \<le> fsum_list (xs @ ys)"
proof -
  have "fsum_list (xs @ ys) = foldl (\<lambda>s x. fl64 (s + x)) (fsum_list xs) ys"
    by (simp add: fsum_list_def)
  then show ?thesis using fl64.rnd_fold_ge[of "fsum_list xs" ys] assms by simp
qed

definition percent :: "rat \<Rightarrow> bool" where
  "percent x \<longleftrightarrow> 0 \<le> x \<and> x \<le> 100"

definition breakdown_ok :: "score_breakdown \<Rightarrow> bool" where
  "breakdown_ok b \<longleftrightarrow> percent (sb_correctness b)
     \<and> pred_option percent (sb_code_quality b) \<and> pred_option percent (sb_type_safety b)
     \<and> pred_option percent (sb_security b) \<and> pred_option percent (sb_complexity b)"

lemma correctness_percent:
  assumes "p \<le> (t::nat)"
  shows "percent (py_round2 (fmul (fdiv (of_nat p) (of_nat t)) 100))"
proof -
  have "0 \<le> (of_nat p / of_nat t :: rat)" by simp
  moreover have "(of_nat p / of_nat t :: rat) \<le> 1"
    using assms by (cases "t = 0") (simp_all add: divide_le_eq)
  ultimately have u: "0 \<le> fdiv (of_nat p) (of_nat t)" "fdiv (of_nat p) (of_nat t) \<le> 1"
    using fl64.rnd_unit[of "of_nat p / of_nat t"] by (simp_all add: fdiv_def)
  have "0 \<le> fmul (fdiv (of_nat p) (of_nat t)) 100" using u by (simp add: fmul_nonneg)
  moreover have "fmul (fdiv (of_nat p) (of_nat t)) 100 \<le> fmul 1 100"
    using u by (intro fmul_mono) simp_all
  ultimately show ?thesis using py_round2_percent by (simp add: percent_def fmul_def)
qed

lemma breakdown_calculate:
  assumes "tr_passed tests \<le> tr_total tests"
  shows "breakdown_ok (calculate_score tests analysis)"
  using correctness_percent[OF assms] penalty_score_percent security_score_percent
    complexity_score_percent
  by (auto simp: calculate_score_def breakdown_ok_def percent_def Let_def split: option.splits)

text \<open>
  Every dimension of the breakdown is a percentage: whatever the findings and the measured
  complexity, \<^verbatim>\<open>calculate_score\<close> returns values that satisfy the 0..100 bounds of
  \<^verbatim>\<open>ScoreBreakdown\<close>, provided no more tests passed than ran.
\<close>
theorem calculate_score_percent:
  assumes "tr_passed tests \<le> tr_total tests"
  shows "breakdown_ok (calculate_score tests analysis)"
  using assms by (rule breakdown_calculate)

theorem calculate_score_percent_witness:
  "breakdown_ok (calculate_score
     \<lparr>tr_passed = 2, tr_failed = 1, tr_total = 3, tr_duration_seconds = 1, tr_timed_out = False\<rparr>
     (Some \<lparr>sa_findings = [mk_finding Sev_Error Cat_Quality ''E501''],
            sa_complexity = \<lparr>cm_maximum = 7, cm_average = 3, cm_blocks = 2, cm_analyzable = True\<rparr>\<rparr>))"
  by (rule calculate_score_percent) simp

lemma final_score_bounds:
  assumes "breakdown_ok b"
  shows "0 \<le> calculate_final_score b \<and> calculate_final_score b \<le> 100"
proof -
  have "0 \<le> py_round2 (weighted_score c q t s x) \<and> py_round2 (weighted_score c q t s x) \<le> 100"
    if "percent c" "percent q" "percent t" "percent s" "percent x" for c q t s x
    using that weighted_score_mono[of 0 c 0 q 0 t 0 s 0 x]
      weighted_score_mono[of c 100 q 100 t 100 s 100 x 100]
    by (intro py_round2_percent) (simp_all add: percent_def weighted_score_0 weighted_score_100)
  then show ?thesis using assms
    by (auto simp: calculate_final_score_def breakdown_ok_def percent_def split: option.splits)
qed

text \<open>
  The final score is a percentage whenever the breakdown is one; the binary64 weights and
  the roundings of the weighted sum never push it outside 0..100.
\<close>
theorem calculate_final_score_percent:
  assumes "breakdown_ok b"
  shows "0 \<le> calculate_final_score b \<and> calculate_final_score b \<le> 100"
  using assms by (rule final_score_bounds)

theorem calculate_final_score_percent_witness:
  "0 \<le> calculate_final_score \<lparr>sb_correctness = 50, sb_code_quality = Some 90,
      sb_type_safety = Some 100, sb_security = Some 75, sb_complexity = Some 25\<rparr>
   \<and> calculate_final_score \<lparr>sb_correctness = 50, sb_code_quality = Some 90,
      sb_type_safety = Some 100, sb_security = Some 75, sb_complexity = Some 25\<rparr> \<le> 100"
  by (rule calculate_final_score_percent) (simp add: breakdown_ok_def percent_def)

text \<open>
  The final score never rewards a worse dimension: with all five dimensions measured, a
  breakdown that is at most another one in every dimension has at most its final score.
\<close>
theorem calculate_final_score_mono:
  assumes "c \<le> c'" "q \<le> q'" "t \<le> t'" "s \<le> s'" "x \<le> x'"
  shows "calculate_final_score \<lparr>sb_correctness = c, sb_code_quality = Some q,
            sb_type_safety = Some t, sb_security = Some s, sb_complexity = Some x\<rparr>
         \<le> calculate_final_score \<lparr>sb_correctness = c', sb_code_quality = Some q',
            sb_type_safety = Some t', sb_security = Some s', sb_complexity = Some x'\<rparr>"
  by (simp add: calculate_final_score_def py_round2_mono weighted_score_mono assms)

theorem calculate_final_score_mono_witness:
  "calculate_final_score \<lparr>sb_correctness = 50, sb_code_quality = Some 90,
      sb_type_safety = Some 100, sb_security = Some 75, sb_complexity = Some 25\<rparr>
   \<le> calculate_final_score \<lparr>sb_correctness = 60, sb_code_quality = Some 90,
      sb_type_safety = Some 100, sb_security = Some 80, sb_complexity = Some 25\<rparr>"
  by (rule calculate_final_score_mono) simp_all

text \<open>
  More findings never raise a score: appending findings to the quality, type-safety or
  security findings of a submission leaves each of the three penalty scores at most as high.
\<close>
theorem findings_never_raise_scores:
  "penalty_score (fs @ gs) QUALITY_PENALTIES \<le> penalty_score fs QUALITY_PENALTIES
   \<and> penalty_score (fs @ gs) TYPE_SAFETY_PENALTIES \<le> penalty_score fs TYPE_SAFETY_PENALTIES
   \<and> security_score (fs @ gs) \<le> security_score fs"
proof -
  have q: "0 \<le> QUALITY_PENALTIES v" and t: "0 \<le> TYPE_SAFETY_PENALTIES v" for v
    by (cases v, simp_all)+
  show ?thesis unfolding penalty_score_def security_score_def Let_def fold_fadd_fsum map_append
    by (intro conjI round_clamp_antimono fsum_list_append_ge) (auto simp: q t security_penalty_nonneg)
qed

section \<open>When a run has no findings\<close>

lemma append_output_empty: "append_output_finding fs r = [] \<longleftrightarrow> fs = [] \<and> \<not> rr_output_truncated r"
  by (simp add: append_output_finding_def)

text \<open>
  \<^verbatim>\<open>build_findings\<close> returns no finding exactly for a clean run: not timed out, not killed for
  memory, no sandbox or infrastructure error, no syntax or import error reported or printed, no
  truncated output, no failed test and at least one test executed.
\<close>
theorem build_findings_clean:
  "build_findings sg sn r t = [] \<longleftrightarrow>
     \<not> rr_timed_out r \<and> \<not> rr_oom_killed r \<and> rr_sandbox_error r = None
     \<and> rr_infrastructure_error r = None \<and> execution_findings r = []
     \<and> \<not> rr_output_truncated r \<and> rr_failed r = 0 \<and> 0 < rr_total r"
  by (auto simp: build_findings_def append_output_empty test_findings_def Let_def
      split: option.splits)

end
