(* ===== verification/PyValues.thy ===== *)
theory PyValues
  imports PyFloat
begin

text \<open>
  Dynamically typed Python values, for the code that checks the type of its arguments. Floats are
  the finite ones; a \<^verbatim>\<open>bool\<close> is an instance of \<^verbatim>\<open>int\<close> and the sources test for it first. Also the
  lines of a string.
\<close>

datatype pyval =
    PyNone
  | PyBool bool
  | PyInt int
  | PyFloat rat
  | PyStr string
  | PyList "pyval list"
  | PyTuple "pyval list"
  | PyDict "(pyval \<times> pyval) list"
  | PyObject nat \<comment> \<open>an object known by its identity only\<close>

definition is_str :: "pyval \<Rightarrow> bool" where
  "is_str v = (case v of PyStr _ \<Rightarrow> True | _ \<Rightarrow> False)"

definition is_dict :: "pyval \<Rightarrow> bool" where
  "is_dict v = (case v of PyDict _ \<Rightarrow> True | _ \<Rightarrow> False)"

text \<open>A dictionary with string keys, as JSON objects are.\<close>

definition json_object :: "(string \<times> pyval) list \<Rightarrow> pyval" where
  "json_object fs = PyDict (map (map_prod PyStr id) fs)"

text \<open>\<^verbatim>\<open>not isinstance(v, bool) and isinstance(v, int)\<close>.\<close>

definition plain_int :: "pyval \<Rightarrow> int option" where
  "plain_int v = (case v of PyInt n \<Rightarrow> Some n | _ \<Rightarrow> None)"

text \<open>\<^verbatim>\<open>not isinstance(v, bool) and isinstance(v, (int, float))\<close>, and the number it is.\<close>

definition plain_number :: "pyval \<Rightarrow> rat option" where
  "plain_number v = (case v of PyInt n \<Rightarrow> Some (of_int n) | PyFloat x \<Rightarrow> Some x | _ \<Rightarrow> None)"

definition nonempty_str :: "pyval \<Rightarrow> string option" where
  "nonempty_str v = (case v of PyStr s \<Rightarrow> (if s = [] then None else Some s) | _ \<Rightarrow> None)"

text \<open>\<^verbatim>\<open>a + b\<close> on numbers: exact on two integers, a binary64 sum otherwise.\<close>

definition py_add :: "pyval \<Rightarrow> pyval \<Rightarrow> pyval" where
  "py_add a b = (case (a, b) of
     (PyInt m, PyInt n) \<Rightarrow> PyInt (m + n)
   | _ \<Rightarrow> (case (plain_number a, plain_number b) of
       (Some x, Some y) \<Rightarrow> PyFloat (fadd (fl64 x) (fl64 y)) | _ \<Rightarrow> PyNone))"

definition num :: "pyval \<Rightarrow> rat" where
  "num v = (case plain_number v of Some x \<Rightarrow> x | None \<Rightarrow> 0)"

lemma plain_int_Some [simp]: "plain_int v = Some n \<longleftrightarrow> v = PyInt n"
  by (simp add: plain_int_def split: pyval.splits)

lemma plain_int_PyInt [simp]: "plain_int (PyInt n) = Some n"
  by simp

lemma nonempty_str_PyStr [simp]: "nonempty_str (PyStr s) = (if s = [] then None else Some s)"
  by (simp add: nonempty_str_def)

lemma num_simps [simp]: "num (PyInt n) = of_int n" "num (PyFloat x) = x"
  by (simp_all add: num_def plain_number_def)

lemma nonempty_str_Some [simp]: "nonempty_str v = Some s \<longleftrightarrow> v = PyStr s \<and> s \<noteq> []"
  by (auto simp: nonempty_str_def split: pyval.splits if_splits)

section \<open>Lines of a string\<close>

text \<open>\<^verbatim>\<open>str.splitlines\<close> on the Latin-1 range; \<open>cur\<close> is the current line, reversed.\<close>

definition line_break :: "char \<Rightarrow> bool" where
  "line_break c \<longleftrightarrow> (of_char c :: nat) \<in> {10, 11, 12, 13, 28, 29, 30, 133}"

fun splitlines_from :: "string \<Rightarrow> string \<Rightarrow> string list" where
  "splitlines_from cur [] = (if cur = [] then [] else [rev cur])"
| "splitlines_from cur [c] = [rev (if line_break c then cur else c # cur)]"
| "splitlines_from cur (c # d # s) =
     (if c = CHR 0x0D \<and> d = CHR 0x0A then rev cur # splitlines_from [] s
      else if line_break c then rev cur # splitlines_from [] (d # s)
      else splitlines_from (c # cur) (d # s))"

definition splitlines :: "string \<Rightarrow> string list" where
  "splitlines s = splitlines_from [] s"

end
