(* ===== verification/DecimalText.thy ===== *)
theory DecimalText
  imports Prelude
begin

text \<open>
  Decimal numerals: \<^verbatim>\<open>str(n)\<close> for a nonnegative \<^verbatim>\<open>int\<close> and \<^verbatim>\<open>int(s)\<close> for a string of ASCII digits,
  with the interpreter's limit of 4300 digits on the conversion.
\<close>

definition dec_digit :: "nat \<Rightarrow> char" where
  "dec_digit n = char_of (48 + n)"

fun str_nat :: "nat \<Rightarrow> string" where
  "str_nat n = (if n < 10 then [dec_digit n] else str_nat (n div 10) @ [dec_digit (n mod 10)])"

declare str_nat.simps [simp del]

definition ascii_digit :: "char \<Rightarrow> bool" where
  "ascii_digit c \<longleftrightarrow> 48 \<le> (of_char c :: nat) \<and> (of_char c :: nat) \<le> 57"

definition digits_value :: "string \<Rightarrow> nat" where
  "digits_value s = foldl (\<lambda>a c. 10 * a + (of_char c - 48)) 0 s"

text \<open>\<^verbatim>\<open>int(s)\<close> for digits: \<open>None\<close> is the \<^verbatim>\<open>ValueError\<close> of the conversion limit.\<close>

definition int_of_digits :: "string \<Rightarrow> int option" where
  "int_of_digits s = (if 4300 < length s then None else Some (int (digits_value s)))"

lemma of_char_dec_digit: "n < 10 \<Longrightarrow> of_char (dec_digit n) = (48 + n :: nat)"
  by (simp add: dec_digit_def)

lemma ascii_digit_dec_digit [simp]: "n < 10 \<Longrightarrow> ascii_digit (dec_digit n)"
  by (simp add: ascii_digit_def of_char_dec_digit)

lemma digits_value_snoc: "digits_value (s @ [c]) = 10 * digits_value s + (of_char c - 48)"
  by (simp add: digits_value_def)

lemma digits_value_str_nat [simp]: "digits_value (str_nat n) = n"
proof (induction n rule: str_nat.induct)
  case (1 n)
  then show ?case
    by (subst str_nat.simps) (auto simp: digits_value_snoc of_char_dec_digit digits_value_def[of "[_]"])
qed

lemma str_nat_digits: "c \<in> set (str_nat n) \<Longrightarrow> ascii_digit c"
proof (induction n rule: str_nat.induct)
  case (1 n)
  from 1(2) show ?case using 1(1) by (subst (asm) str_nat.simps) (auto split: if_splits)
qed

lemma str_nat_nonempty [simp]: "str_nat n \<noteq> []"
  by (subst str_nat.simps) simp

lemma str_nat_leading: "0 < n \<Longrightarrow> hd (str_nat n) \<noteq> CHR ''0''"
proof (induction n rule: str_nat.induct)
  case (1 n)
  have "dec_digit n \<noteq> CHR ''0''" if "n < 10"
    using of_char_dec_digit[OF that] 1(2) by auto
  then show ?case using 1 by (subst str_nat.simps) (auto simp: hd_append)
qed

lemma str_nat_zero: "str_nat 0 = ''0''"
  by code_simp

lemma length_str_nat: "n < 10 ^ Suc k \<Longrightarrow> length (str_nat n) \<le> Suc k"
proof (induction k arbitrary: n)
  case 0
  then show ?case by (subst str_nat.simps) simp
next
  case (Suc k)
  have "n div 10 < 10 ^ Suc k" using Suc.prems by (simp add: less_mult_imp_div_less mult.commute)
  from Suc.IH[OF this] show ?case by (subst str_nat.simps) simp
qed

lemma digits_value_append_ge: "digits_value s \<le> digits_value (s @ t)"
proof (induction t rule: rev_induct)
  case (snoc c t)
  have "digits_value (s @ t) \<le> digits_value ((s @ t) @ [c])" unfolding digits_value_snoc by simp
  with snoc show ?case by simp
qed simp

end
