(* ===== verification/Harness.thy ===== *)
theory Harness
  imports Scoring PyValues DecimalText
begin

text \<open>
  The trusted host-side harness of \<^verbatim>\<open>src/app/runners/trusted_harness.py\<close>: official cases as plans of commands
  with what is expected of each, the comparison of an outcome with its expectation, and the evaluation
  that sends one case at a time through a transport. The transport is an argument with a state of its own.
\<close>

section \<open>Python equality\<close>

text \<open>\<^verbatim>\<open>==\<close> on protocol values: a \<^verbatim>\<open>bool\<close> is a number, numbers are compared by value, dictionaries without order.\<close>

definition number_of :: "pyval \<Rightarrow> rat option" where
  "number_of v = (case v of PyBool b \<Rightarrow> Some (if b then 1 else 0) | _ \<Rightarrow> plain_number v)"

definition key_eq :: "pyval \<Rightarrow> pyval \<Rightarrow> bool" where
  "key_eq k l \<longleftrightarrow> k = l \<or> number_of k \<noteq> None \<and> number_of k = number_of l"

fun py_eq :: "pyval \<Rightarrow> pyval \<Rightarrow> bool" and py_eq_list :: "pyval list \<Rightarrow> pyval list \<Rightarrow> bool"
  and py_eq_items :: "(pyval \<times> pyval) list \<Rightarrow> (pyval \<times> pyval) list \<Rightarrow> bool" where
  "py_eq v w =
     (case v of
        PyList vs \<Rightarrow> (case w of PyList ws \<Rightarrow> py_eq_list vs ws | _ \<Rightarrow> False)
      | PyTuple vs \<Rightarrow> (case w of PyTuple ws \<Rightarrow> py_eq_list vs ws | _ \<Rightarrow> False)
      | PyDict vs \<Rightarrow> (case w of PyDict ws \<Rightarrow> length vs = length ws \<and> py_eq_items vs ws | _ \<Rightarrow> False)
      | _ \<Rightarrow> key_eq v w)"
| "py_eq_list [] ws = (ws = [])"
| "py_eq_list (v # vs) ws = (case ws of [] \<Rightarrow> False | w # ws' \<Rightarrow> py_eq v w \<and> py_eq_list vs ws')"
| "py_eq_items [] ws = True"
| "py_eq_items ((k, v) # vs) ws = (list_ex (\<lambda>(l, w). key_eq k l \<and> py_eq v w) ws \<and> py_eq_items vs ws)"

section \<open>Official cases\<close>

record expected_step =
  xs_command :: pyval
  xs_result :: "pyval option" \<comment> \<open>\<open>None\<close> is the sentinel \<^verbatim>\<open>_MISSING\<close>\<close>
  xs_exception :: "string option"
  xs_message :: "string option"
  xs_telemetry :: "(string \<times> pyval) list option"

record official_case =
  oc_name :: string
  oc_steps :: "expected_step list"

record harness_report =
  hr_passed :: nat
  hr_failed :: nat
  hr_total :: nat
  hr_syntax_error :: bool
  hr_import_error :: bool

text \<open>\<^verbatim>\<open>_expect\<close> in its two uses, and with telemetry.\<close>

definition expect :: "pyval \<Rightarrow> pyval \<Rightarrow> expected_step" where
  "expect command result =
     \<lparr>xs_command = command, xs_result = Some result, xs_exception = None, xs_message = None, xs_telemetry = None\<rparr>"

definition expect_raise :: "pyval \<Rightarrow> string \<Rightarrow> string option \<Rightarrow> expected_step" where
  "expect_raise command exception message =
     \<lparr>xs_command = command, xs_result = None, xs_exception = Some exception, xs_message = message, xs_telemetry = None\<rparr>"

definition with_telemetry :: "expected_step \<Rightarrow> (string \<times> pyval) list \<Rightarrow> expected_step" where
  "with_telemetry step telemetry = step\<lparr>xs_telemetry := Some telemetry\<rparr>"

definition official_case_of :: "string \<Rightarrow> expected_step list \<Rightarrow> official_case" where
  "official_case_of name steps = \<lparr>oc_name = name, oc_steps = steps\<rparr>"

definition construct_command :: "string \<Rightarrow> string \<Rightarrow> pyval list \<Rightarrow> pyval" where
  "construct_command symbol object_id args = json_object
     [(''op'', PyStr ''construct''), (''symbol'', PyStr symbol), (''object_id'', PyStr object_id), (''args'', PyList args)]"

definition function_command :: "string \<Rightarrow> pyval list \<Rightarrow> (string \<times> pyval) list \<Rightarrow> pyval" where
  "function_command symbol args options = json_object
     ([(''op'', PyStr ''call_function''), (''symbol'', PyStr symbol), (''args'', PyList args)] @ options)"

definition method_command :: "string \<Rightarrow> string \<Rightarrow> pyval list \<Rightarrow> (string \<times> pyval) list \<Rightarrow> pyval" where
  "method_command object_id method args kwargs = json_object
     ([(''op'', PyStr ''call_method''), (''object_id'', PyStr object_id), (''method'', PyStr method), (''args'', PyList args)]
      @ (if kwargs = [] then [] else [(''kwargs'', json_object kwargs)]))"

definition attr_command :: "string \<Rightarrow> string \<Rightarrow> pyval" where
  "attr_command object_id attribute = json_object
     [(''op'', PyStr ''get_attr''), (''object_id'', PyStr object_id), (''attribute'', PyStr attribute)]"

definition store_command :: "string \<Rightarrow> pyval \<Rightarrow> pyval" where
  "store_command object_id value = json_object
     [(''op'', PyStr ''store''), (''object_id'', PyStr object_id), (''value'', value)]"

definition stored_command :: "string \<Rightarrow> pyval" where
  "stored_command object_id = json_object [(''op'', PyStr ''get_object''), (''object_id'', PyStr object_id)]"

definition ref_value :: "string \<Rightarrow> pyval" where
  "ref_value object_id = json_object [(''$ref'', PyStr object_id)]"

text \<open>\<^verbatim>\<open>_callback\<close>, for each kind.\<close>

definition callback_return :: "pyval \<Rightarrow> pyval" where
  "callback_return v = json_object
     [(''$callable'', json_object [(''kind'', PyStr ''return''), (''return'', v)])]"

definition callback_raise :: "string \<Rightarrow> string \<Rightarrow> pyval" where
  "callback_raise exception message = json_object
     [(''$callable'', json_object [(''kind'', PyStr ''raise''), (''return'', PyNone),
        (''exception'', PyStr exception), (''message'', PyStr message)])]"

definition callback_observe :: "pyval \<Rightarrow> string \<Rightarrow> string \<Rightarrow> pyval" where
  "callback_observe v object_id attribute = json_object
     [(''$callable'', json_object [(''kind'', PyStr ''observe_attribute''), (''return'', v),
        (''object_id'', PyStr object_id), (''attribute'', PyStr attribute)])]"

definition async_worker :: "string \<Rightarrow> (string \<times> pyval) list \<Rightarrow> pyval" where
  "async_worker mode options = json_object
     [(''$async_worker'', json_object ((''mode'', PyStr mode) # options))]"

section \<open>Matching an outcome\<close>

definition get_field :: "pyval \<Rightarrow> string \<Rightarrow> pyval" where
  "get_field v key = (case v of
     PyDict items \<Rightarrow> (case map_of items (PyStr key) of None \<Rightarrow> PyNone | Some w \<Rightarrow> w) | _ \<Rightarrow> PyNone)"

text \<open>\<^verbatim>\<open>raw.get(key, fallback)\<close>.\<close>

definition field_or :: "pyval \<Rightarrow> string \<Rightarrow> pyval \<Rightarrow> pyval" where
  "field_or raw key fallback = (case raw of
     PyDict items \<Rightarrow> (case map_of items (PyStr key) of None \<Rightarrow> fallback | Some v \<Rightarrow> v) | _ \<Rightarrow> fallback)"

text \<open>\<^verbatim>\<open>str(exception.get("message", ""))\<close>; \<open>py_str\<close> is \<^verbatim>\<open>str\<close> on what is no string.\<close>

definition message_text :: "(pyval \<Rightarrow> string) \<Rightarrow> pyval \<Rightarrow> string" where
  "message_text py_str exception = (case exception of
     PyDict items \<Rightarrow> (case map_of items (PyStr ''message'') of None \<Rightarrow> [] | Some (PyStr s) \<Rightarrow> s | Some v \<Rightarrow> py_str v)
   | _ \<Rightarrow> [])"

definition outcome_matches :: "(pyval \<Rightarrow> string) \<Rightarrow> expected_step \<Rightarrow> pyval \<Rightarrow> bool" where
  "outcome_matches py_str expected raw =
     (case xs_exception expected of
        Some exception_type \<Rightarrow>
          (let exception = get_field raw ''exception'' in
           get_field raw ''ok'' = PyBool False \<and> is_dict exception
           \<and> py_eq (get_field exception ''type'') (PyStr exception_type)
           \<and> (case xs_message expected of None \<Rightarrow> True | Some m \<Rightarrow> is_infix m (message_text py_str exception)))
      | None \<Rightarrow>
          get_field raw ''ok'' = PyBool True
          \<and> (case xs_result expected of None \<Rightarrow> True | Some r \<Rightarrow> py_eq (get_field raw ''result'') r))"

definition telemetry_matches :: "expected_step \<Rightarrow> pyval \<Rightarrow> bool" where
  "telemetry_matches expected raw =
     (case xs_telemetry expected of
        None \<Rightarrow> True
      | Some wanted \<Rightarrow>
          (case get_field raw ''telemetry'' of
             PyList (PyDict first # _) \<Rightarrow> list_all (\<lambda>(key, v). py_eq (get_field (PyDict first) key) v) wanted
           | _ \<Rightarrow> False))"

definition matches_step :: "(pyval \<Rightarrow> string) \<Rightarrow> expected_step \<Rightarrow> pyval \<Rightarrow> bool" where
  "matches_step py_str expected raw \<longleftrightarrow>
     is_dict raw \<and> outcome_matches py_str expected raw \<and> telemetry_matches expected raw"

section \<open>Evaluation\<close>

definition str_int :: "int \<Rightarrow> string" where
  "str_int n = (if n < 0 then ''-'' @ str_nat (nat (- n)) else str_nat (nat n))"

text \<open>
  \<^verbatim>\<open>TrustedOfficialHarness.evaluate\<close>. \<open>request\<close> sends a payload through the transport, whose state it changes;
  an error is whatever the transport raises. The loop returns early when the candidate cannot be loaded.
\<close>

datatype 'e harness_exn = HarnessProtocolError string | TransportError 'e

type_synonym ('s, 'e) transport = "'s \<Rightarrow> pyval \<Rightarrow> 's \<times> ('e + pyval)"

datatype verdict = CasesPassed nat | NotStarted harness_report

definition case_payload :: "official_case \<Rightarrow> pyval" where
  "case_payload c = json_object [(''op'', PyStr ''run_case''), (''steps'', PyList (map xs_command (oc_steps c)))]"

definition startup_report :: "pyval \<Rightarrow> harness_report" where
  "startup_report startup =
     \<lparr>hr_passed = 0, hr_failed = 0, hr_total = 0,
      hr_syntax_error = (get_field startup ''syntax_error'' = PyBool True),
      hr_import_error = (get_field startup ''import_error'' = PyBool True)\<rparr>"

text \<open>The truth value of \<^verbatim>\<open>response.get("ok")\<close>.\<close>

definition truthy :: "pyval \<Rightarrow> bool" where
  "truthy v = (case v of
     PyNone \<Rightarrow> False | PyStr s \<Rightarrow> s \<noteq> [] | PyList vs \<Rightarrow> vs \<noteq> [] | PyTuple vs \<Rightarrow> vs \<noteq> [] | PyDict items \<Rightarrow> items \<noteq> []
   | PyObject _ \<Rightarrow> True | _ \<Rightarrow> number_of v \<noteq> Some 0)"

text \<open>What a response says of a case: \<open>Inr (Some b)\<close> whether it passed, \<open>Inr None\<close> a startup error.\<close>

definition read_response ::
    "(pyval \<Rightarrow> string) \<Rightarrow> official_case \<Rightarrow> pyval \<Rightarrow> 'e harness_exn + (harness_report + bool)" where
  "read_response py_str c response =
     (let candidate = get_field response ''candidate'' in
      if \<not> truthy (get_field response ''ok'') \<or> \<not> is_dict candidate
      then Inl (HarnessProtocolError ''Candidate supervisor returned an invalid response'')
      else if is_dict (get_field candidate ''startup_error'')
      then Inr (Inl (startup_report (get_field candidate ''startup_error'')))
      else case get_field candidate ''outcomes'' of
        PyList outcomes \<Rightarrow>
          if length outcomes \<noteq> length (oc_steps c)
          then Inl (HarnessProtocolError ''Candidate worker returned invalid step outcomes'')
          else Inr (Inr (list_all2 (matches_step py_str) (oc_steps c) outcomes))
      | _ \<Rightarrow> Inl (HarnessProtocolError ''Candidate worker returned invalid step outcomes''))"

fun run_cases ::
    "(pyval \<Rightarrow> string) \<Rightarrow> ('s, 'e) transport \<Rightarrow> 's \<Rightarrow> official_case list \<Rightarrow> nat \<Rightarrow> 's \<times> ('e harness_exn + verdict)" where
  "run_cases py_str request s [] passed = (s, Inr (CasesPassed passed))"
| "run_cases py_str request s (c # cs) passed =
     (case request s (case_payload c) of
        (s', Inl e) \<Rightarrow> (s', Inl (TransportError e))
      | (s', Inr response) \<Rightarrow>
          (case read_response py_str c response of
             Inl e \<Rightarrow> (s', Inl e)
           | Inr (Inl report) \<Rightarrow> (s', Inr (NotStarted report))
           | Inr (Inr b) \<Rightarrow> run_cases py_str request s' cs (if b then passed + 1 else passed)))"

definition harness_evaluate ::
    "(pyval \<Rightarrow> string) \<Rightarrow> (string \<times> int \<Rightarrow> official_case list option) \<Rightarrow> ('s, 'e) transport \<Rightarrow> 's \<Rightarrow> string \<Rightarrow> int
     \<Rightarrow> 's \<times> ('e harness_exn + harness_report)" where
  "harness_evaluate py_str table request s task_id task_revision =
     (case table (task_id, task_revision) of
        None \<Rightarrow> (s, Inl (HarnessProtocolError
            (''No trusted official harness for task: '' @ task_id @ ''@'' @ str_int task_revision)))
      | Some cs \<Rightarrow>
          (case run_cases py_str request s cs 0 of
             (s', Inl e) \<Rightarrow> (s', Inl e)
           | (s', Inr (NotStarted report)) \<Rightarrow> (s', Inr report)
           | (s', Inr (CasesPassed passed)) \<Rightarrow>
               (s', Inr \<lparr>hr_passed = passed, hr_failed = length cs - passed, hr_total = length cs,
                  hr_syntax_error = False, hr_import_error = False\<rparr>)))"

section \<open>Reports are consistent\<close>

definition report_consistent :: "harness_report \<Rightarrow> bool" where
  "report_consistent r \<longleftrightarrow> hr_passed r + hr_failed r = hr_total r"

lemma run_cases_le: "run_cases py_str request s cs n = (s', Inr (CasesPassed m)) \<Longrightarrow> n \<le> m \<and> m \<le> n + length cs"
  by (induction py_str request s cs n rule: run_cases.induct)
    (force split: prod.splits sum.splits if_splits)+

lemma run_cases_startup: "run_cases py_str request s cs n = (s', Inr (NotStarted r)) \<Longrightarrow> \<exists>v. r = startup_report v"
  by (induction py_str request s cs n rule: run_cases.induct)
    (auto simp: read_response_def Let_def split: prod.splits sum.splits if_splits pyval.splits)

lemma harness_report_consistent: "harness_evaluate py_str table request s i v = (s', Inr r) \<Longrightarrow> report_consistent r"
  by (auto simp: harness_evaluate_def report_consistent_def startup_report_def
      dest!: run_cases_le run_cases_startup split: option.splits prod.splits sum.splits verdict.splits)

text \<open>Whatever a transport keeps, with every request, an evaluation keeps.\<close>

lemma run_cases_rel:
  assumes "\<And>s p s' r. request s p = (s', r) \<Longrightarrow> rel s s'" "\<And>s. rel s s"
    and "\<And>s1 s2 s3. rel s1 s2 \<Longrightarrow> rel s2 s3 \<Longrightarrow> rel s1 s3"
  shows "run_cases py_str request s cs n = (s', r) \<Longrightarrow> rel s s'"
proof (induction cs arbitrary: s n)
  case Nil
  then show ?case by (simp add: assms(2))
next
  case (Cons c cs)
  obtain s1 x where request: "request s (case_payload c) = (s1, x)" by fastforce
  note first = assms(1)[OF this]
  from Cons.prems request have "s' = s1 \<or> (\<exists>m. run_cases py_str request s1 cs m = (s', r))"
    by (fastforce split: sum.splits)
  with first assms(3) Cons.IH show ?case by blast
qed

lemma harness_rel:
  assumes "\<And>s p s' r. request s p = (s', r) \<Longrightarrow> rel s s'" "\<And>s. rel s s"
    and "\<And>s1 s2 s3. rel s1 s2 \<Longrightarrow> rel s2 s3 \<Longrightarrow> rel s1 s3"
    and "harness_evaluate py_str table request s i v = (s', r)"
  shows "rel s s'"
proof (cases "table (i, v)")
  case None
  with assms(2,4) show ?thesis by (simp add: harness_evaluate_def)
next
  case (Some cs)
  obtain s1 x where run: "run_cases py_str request s cs 0 = (s1, x)" by fastforce
  with Some assms(4) have "s' = s1" by (auto simp: harness_evaluate_def split: sum.splits verdict.splits)
  with run_cases_rel[of request rel, OF assms(1-3) run] show ?thesis by simp
qed

text \<open>An abstraction of the transport's state abstracts the evaluation.\<close>

lemma run_cases_abs:
  assumes "\<And>s p. request' (f s) p = map_prod f id (request s p)"
  shows "run_cases py_str request' (f s) cs n = map_prod f id (run_cases py_str request s cs n)"
proof (induction cs arbitrary: s n)
  case (Cons c cs)
  obtain s1 x where "request s (case_payload c) = (s1, x)" by fastforce
  with assms[of s "case_payload c"] show ?case
    by (cases x) (auto simp: Cons.IH split: sum.splits)
qed simp

lemma harness_abs:
  assumes "\<And>s p. request' (f s) p = map_prod f id (request s p)"
  shows "harness_evaluate py_str table request' (f s) i v = map_prod f id (harness_evaluate py_str table request s i v)"
  by (auto simp: harness_evaluate_def run_cases_abs[where request = request and f = f, OF assms]
      split: option.splits prod.splits sum.splits verdict.splits)

end
