(* ===== verification/Registry.thy ===== *)
theory Registry
  imports Scoring
begin

text \<open>
  The task registry of \<^verbatim>\<open>src/app/tasks/registry.py\<close>: the in-memory index of task revisions and
  the default revision of each task. Reading and validating a task file (JSON, pydantic, the
  directory listing) is the argument \<open>read_task\<close> of \<open>load_task\<close>; the index logic is modelled in
  full. The properties: a loaded registry resolves every default, keeps every configured
  default, chooses the latest revision otherwise, and a failed load leaves the registry as it was.
\<close>

section \<open>Identities and errors\<close>

datatype registry_error =
    TaskRegistryError string
  | TaskNotFoundError string "int option"
  | InvalidRevision string

text \<open>\<^verbatim>\<open>TaskRevision\<close>, with its \<^verbatim>\<open>__post_init__\<close> checks.\<close>

type_synonym task_revision = "string \<times> int"

definition TaskRevision :: "string \<Rightarrow> int \<Rightarrow> registry_error + task_revision" where
  "TaskRevision task_id revision =
     (if task_id = [] then Inl (InvalidRevision ''task_id must not be empty'')
      else if revision < 1 then Inl (InvalidRevision ''task revision must be a positive integer'')
      else Inr (task_id, revision))"

record registered_task =
  rt_specification :: task_spec
  rt_tests_path :: string
  rt_reference_path :: "string option"
  rt_revision :: int

text \<open>A task file: its path components below the definitions directory.\<close>

type_synonym task_file = "string list"

definition DEFAULT_TASK_REVISIONS :: "(string, int) odict" where
  "DEFAULT_TASK_REVISIONS =
     [(''async-batch-processor'', 1), (''circuit-breaker'', 1), (''config-layer-merge'', 1),
      (''dependency-resolver'', 1), (''frame-decoder'', 2), (''interval-reservation'', 1),
      (''logical-path'', 1), (''lru-cache'', 1), (''rate-limiter'', 1), (''retry-backoff'', 2),
      (''structured-event-parser'', 1), (''ttl-cache'', 2)]"

record task_registry =
  rg_configured_defaults :: "(string, int) odict"
  rg_tasks :: "(task_revision, registered_task) odict"
  rg_default_revisions :: "(string, int) odict"

definition new_registry :: "(string, int) odict \<Rightarrow> task_registry" where
  "new_registry defaults =
     \<lparr>rg_configured_defaults = defaults, rg_tasks = [], rg_default_revisions = []\<rparr>"

section \<open>Loading\<close>

text \<open>\<^verbatim>\<open>_revision_from_path\<close>; \<open>parse_int\<close> is Python's \<^verbatim>\<open>int\<close> on a directory name.\<close>

definition revision_from_path ::
    "(string \<Rightarrow> int option) \<Rightarrow> task_file \<Rightarrow> registry_error + int" where
  "revision_from_path parse_int relative =
     (if length relative = 2 then Inr 1
      else let name = last (butlast relative);
               revision_name = (if take 1 name = ''v'' then drop 1 name else name)
           in case parse_int revision_name of
                None \<Rightarrow> Inl (TaskRegistryError ''Invalid task revision directory'')
              | Some revision \<Rightarrow>
                  if revision < 1 then Inl (TaskRegistryError ''Invalid task revision directory'')
                  else Inr revision)"

text \<open>
  \<open>read_task\<close> stands for reading, JSON decoding, validation and the listing of the tests of one
  file: the specification with the tests and reference paths, or the error message.
\<close>

definition load_task ::
    "(task_file \<Rightarrow> string + (task_spec \<times> string \<times> string option)) \<Rightarrow> task_file \<Rightarrow> int
     \<Rightarrow> registry_error + registered_task" where
  "load_task read_task task_file revision =
     (case read_task task_file of
        Inl message \<Rightarrow> Inl (TaskRegistryError message)
      | Inr (specification, tests_path, reference_path) \<Rightarrow>
          Inr \<lparr>rt_specification = specification, rt_tests_path = tests_path,
               rt_reference_path = reference_path, rt_revision = revision\<rparr>)"

definition load_one ::
    "(string \<Rightarrow> int option) \<Rightarrow> (task_file \<Rightarrow> string + (task_spec \<times> string \<times> string option))
     \<Rightarrow> (task_revision, registered_task) odict \<Rightarrow> task_file
     \<Rightarrow> registry_error + (task_revision, registered_task) odict" where
  "load_one parse_int read_task loaded task_file =
     (case revision_from_path parse_int task_file of
        Inl e \<Rightarrow> Inl e
      | Inr revision \<Rightarrow>
          case load_task read_task task_file revision of
            Inl e \<Rightarrow> Inl e
          | Inr registered \<Rightarrow>
              case TaskRevision (ts_id (rt_specification registered)) (rt_revision registered) of
                Inl e \<Rightarrow> Inl e
              | Inr identity \<Rightarrow>
                  if identity \<in> fst ` set loaded
                  then Inl (TaskRegistryError ''Duplicate task revision'')
                  else Inr (od_set loaded identity registered))"

fun load_files ::
    "(string \<Rightarrow> int option) \<Rightarrow> (task_file \<Rightarrow> string + (task_spec \<times> string \<times> string option))
     \<Rightarrow> (task_revision, registered_task) odict \<Rightarrow> task_file list
     \<Rightarrow> registry_error + (task_revision, registered_task) odict" where
  "load_files parse_int read_task loaded [] = Inr loaded"
| "load_files parse_int read_task loaded (f # fs) =
     (case load_one parse_int read_task loaded f of
        Inl e \<Rightarrow> Inl e
      | Inr loaded' \<Rightarrow> load_files parse_int read_task loaded' fs)"

definition available_revisions :: "(task_revision, 'r) odict \<Rightarrow> string \<Rightarrow> int list" where
  "available_revisions loaded task_id = sort (map snd (filter (\<lambda>i. fst i = task_id) (map fst loaded)))"

definition select_default ::
    "(task_revision, 'r) odict \<Rightarrow> (string, int) odict \<Rightarrow> string \<Rightarrow> registry_error + int" where
  "select_default loaded configured task_id =
     (let selected = (case map_of configured task_id of
                        None \<Rightarrow> last (available_revisions loaded task_id) | Some r \<Rightarrow> r)
      in case TaskRevision task_id selected of
           Inl e \<Rightarrow> Inl e
         | Inr identity \<Rightarrow>
             if identity \<in> fst ` set loaded then Inr selected
             else Inl (TaskRegistryError ''Unknown default task revision''))"

fun load_defaults ::
    "(task_revision, 'r) odict \<Rightarrow> (string, int) odict \<Rightarrow> (string, int) odict \<Rightarrow> string list
     \<Rightarrow> registry_error + (string, int) odict" where
  "load_defaults loaded configured defaults [] = Inr defaults"
| "load_defaults loaded configured defaults (task_id # ids) =
     (case select_default loaded configured task_id of
        Inl e \<Rightarrow> Inl e
      | Inr r \<Rightarrow> load_defaults loaded configured (od_set defaults task_id r) ids)"

definition task_ids :: "(task_revision, 'r) odict \<Rightarrow> string list" where
  "task_ids loaded = sort (remdups (map (fst \<circ> fst) loaded))"

text \<open>\<^verbatim>\<open>load\<close>: the task files come sorted; the registry changes only at the very end.\<close>

definition load ::
    "(string \<Rightarrow> int option) \<Rightarrow> (task_file \<Rightarrow> string + (task_spec \<times> string \<times> string option))
     \<Rightarrow> task_file list \<Rightarrow> task_registry \<Rightarrow> task_registry \<times> registry_error option" where
  "load parse_int read_task task_files rg =
     (case load_files parse_int read_task [] (sort task_files) of
        Inl e \<Rightarrow> (rg, Some e)
      | Inr loaded \<Rightarrow>
          case load_defaults loaded (rg_configured_defaults rg) [] (task_ids loaded) of
            Inl e \<Rightarrow> (rg, Some e)
          | Inr defaults \<Rightarrow>
              if \<exists>t\<in>fst ` set (rg_configured_defaults rg). t \<notin> set (task_ids loaded)
              then (rg, Some (TaskRegistryError ''Default revision configured for unknown task''))
              else (rg\<lparr>rg_tasks := loaded, rg_default_revisions := defaults\<rparr>, None))"

section \<open>Lookup\<close>

definition get_task ::
    "task_registry \<Rightarrow> string \<Rightarrow> int option \<Rightarrow> registry_error + registered_task" where
  "get_task rg task_id revision =
     (let resolved_revision =
        (case revision of None \<Rightarrow> map_of (rg_default_revisions rg) task_id | Some r \<Rightarrow> Some r)
      in case resolved_revision of
           None \<Rightarrow> Inl (TaskNotFoundError task_id revision)
         | Some r \<Rightarrow>
             case TaskRevision task_id r of
               Inl e \<Rightarrow> Inl e
             | Inr identity \<Rightarrow>
                 case map_of (rg_tasks rg) identity of
                   None \<Rightarrow> Inl (TaskNotFoundError task_id revision)
                 | Some task \<Rightarrow> Inr task)"

definition get_revision :: "task_registry \<Rightarrow> string \<Rightarrow> int \<Rightarrow> registry_error + registered_task" where
  "get_revision rg task_id revision = get_task rg task_id (Some revision)"

definition default_revision :: "task_registry \<Rightarrow> string \<Rightarrow> registry_error + int" where
  "default_revision rg task_id =
     (case map_of (rg_default_revisions rg) task_id of
        None \<Rightarrow> Inl (TaskNotFoundError task_id None) | Some r \<Rightarrow> Inr r)"

definition revisions :: "task_registry \<Rightarrow> string \<Rightarrow> registry_error + int list" where
  "revisions rg task_id =
     (let rs = available_revisions (rg_tasks rg) task_id
      in if rs = [] then Inl (TaskNotFoundError task_id None) else Inr rs)"

fun sequence_res :: "('e + 'a) list \<Rightarrow> 'e + 'a list" where
  "sequence_res [] = Inr []"
| "sequence_res (r # rs) =
     (case r of Inl e \<Rightarrow> Inl e
      | Inr x \<Rightarrow> (case sequence_res rs of Inl e \<Rightarrow> Inl e | Inr xs \<Rightarrow> Inr (x # xs)))"

definition list_tasks :: "task_registry \<Rightarrow> registry_error + task_spec list" where
  "list_tasks rg =
     (case sequence_res (map (\<lambda>t. get_task rg t None) (sort (map fst (rg_default_revisions rg)))) of
        Inl e \<Rightarrow> Inl e | Inr ts \<Rightarrow> Inr (map rt_specification ts))"

definition list_revisions :: "task_registry \<Rightarrow> registered_task list" where
  "list_revisions rg = map (\<lambda>i. the (map_of (rg_tasks rg) i)) (sort (map fst (rg_tasks rg)))"

section \<open>The registry invariant\<close>

text \<open>
  Every index key is a valid identity, and every default revision is in the index.
\<close>

definition registry_ok :: "task_registry \<Rightarrow> bool" where
  "registry_ok rg \<longleftrightarrow> od_wf (rg_tasks rg) \<and> od_wf (rg_default_revisions rg)
     \<and> (\<forall>i\<in>fst ` set (rg_tasks rg). fst i \<noteq> [] \<and> 1 \<le> snd i)
     \<and> (\<forall>t r. map_of (rg_default_revisions rg) t = Some r \<longrightarrow> (t, r) \<in> fst ` set (rg_tasks rg))"

definition index_ok :: "(task_revision, registered_task) odict \<Rightarrow> bool" where
  "index_ok d \<longleftrightarrow> od_wf d \<and> (\<forall>(i, t)\<in>set d. i = (ts_id (rt_specification t), rt_revision t)
     \<and> fst i \<noteq> [] \<and> 1 \<le> snd i)"

lemma TaskRevision_Inr:
  "TaskRevision t r = Inr i \<longleftrightarrow> t \<noteq> [] \<and> 1 \<le> r \<and> i = (t, r)"
  by (auto simp: TaskRevision_def)

lemma set_od_set_fresh: "k \<notin> fst ` set d \<Longrightarrow> od_set d k v = d @ [(k, v)]"
  by (induction d k v rule: od_set.induct) auto

lemma load_one_ok:
  assumes "index_ok d" "load_one pint rd d f = Inr d'"
  shows "index_ok d' \<and> fst ` set d \<subseteq> fst ` set d'"
proof -
  from assms(2) obtain i t where i: "i \<notin> fst ` set d" "d' = od_set d i t"
    "i = (ts_id (rt_specification t), rt_revision t)" "fst i \<noteq> []" "1 \<le> snd i"
    by (auto simp: load_one_def TaskRevision_Inr split: sum.splits if_splits)
  then show ?thesis using assms(1)
    by (auto simp: index_ok_def set_od_set_fresh od_wf_def)
qed

lemma load_files_ok:
  "index_ok d \<Longrightarrow> load_files pint rd d fs = Inr d' \<Longrightarrow> index_ok d'"
  by (induction fs arbitrary: d) (auto dest: load_one_ok split: sum.splits)

lemma select_default_Inr:
  "select_default d conf t = Inr r \<Longrightarrow>
     (t, r) \<in> fst ` set d \<and> r = (case map_of conf t of None \<Rightarrow> last (available_revisions d t) | Some c \<Rightarrow> c)"
  by (auto simp: select_default_def Let_def TaskRevision_Inr split: sum.splits if_splits)

lemma load_defaults_Inr:
  "load_defaults d conf defs ts = Inr defs' \<Longrightarrow>
     map_of defs' t = (if t \<in> set ts then
        (case select_default d conf t of Inl e \<Rightarrow> None | Inr r \<Rightarrow> Some r) else map_of defs t)
     \<and> (od_wf defs \<longrightarrow> od_wf defs')"
proof (induction ts arbitrary: defs)
  case (Cons u ts)
  then obtain r where r: "select_default d conf u = Inr r"
    "load_defaults d conf (od_set defs u r) ts = Inr defs'"
    by (auto split: sum.splits)
  from Cons.IH[OF r(2)] r(1) show ?case by (auto simp: odict_simps)
qed simp

lemma load_defaults_select:
  "load_defaults d conf defs ts = Inr defs' \<Longrightarrow> t \<in> set ts \<Longrightarrow> \<exists>r. select_default d conf t = Inr r"
  by (induction ts arbitrary: defs) (auto split: sum.splits)

lemma load_success:
  assumes "load pint rd fs rg = (rg', None)"
  obtains d defs where "load_files pint rd [] (sort fs) = Inr d"
    "load_defaults d (rg_configured_defaults rg) [] (task_ids d) = Inr defs"
    "fst ` set (rg_configured_defaults rg) \<subseteq> set (task_ids d)"
    "rg' = rg\<lparr>rg_tasks := d, rg_default_revisions := defs\<rparr>" "index_ok d"
proof -
  from assms obtain d where d: "load_files pint rd [] (sort fs) = Inr d"
    by (auto simp: load_def split: sum.splits)
  moreover have "index_ok d" using d load_files_ok[of "[]"] by (simp add: index_ok_def)
  moreover from assms d obtain defs where
    "load_defaults d (rg_configured_defaults rg) [] (task_ids d) = Inr defs"
    by (auto simp: load_def split: sum.splits)
  ultimately show ?thesis using assms that by (auto simp: load_def split: if_splits)
qed

lemma load_default_of:
  assumes "load pint rd fs rg = (rg', None)"
  shows "map_of (rg_default_revisions rg') t =
    (if t \<in> set (task_ids (rg_tasks rg')) then Some
      (case map_of (rg_configured_defaults rg) t of
         None \<Rightarrow> last (available_revisions (rg_tasks rg') t) | Some c \<Rightarrow> c) else None)"
proof -
  from assms obtain d defs where l: "load_defaults d (rg_configured_defaults rg) [] (task_ids d) = Inr defs"
    "rg' = rg\<lparr>rg_tasks := d, rg_default_revisions := defs\<rparr>" by (rule load_success)
  have rg': "rg_tasks rg' = d" "rg_default_revisions rg' = defs" using l(2) by simp_all
  from load_defaults_Inr[OF l(1), of t] load_defaults_select[OF l(1), of t]
    select_default_Inr[of d "rg_configured_defaults rg" t]
  show ?thesis unfolding rg' by (auto split: sum.splits)
qed

lemma load_ok:
  assumes "load pint rd fs rg = (rg', None)"
  shows "registry_ok rg'"
proof -
  from assms obtain d defs where l: "load_defaults d (rg_configured_defaults rg) [] (task_ids d) = Inr defs"
    "rg' = rg\<lparr>rg_tasks := d, rg_default_revisions := defs\<rparr>" "index_ok d" by (rule load_success)
  have "od_wf defs" using load_defaults_Inr[OF l(1)] by simp
  moreover have "(t, r) \<in> fst ` set d" if "map_of defs t = Some r" for t r
    using that load_defaults_Inr[OF l(1), of t] select_default_Inr[of d _ t r]
    by (auto split: sum.splits if_splits)
  ultimately show ?thesis using l(2,3) by (force simp: registry_ok_def index_ok_def)
qed

text \<open>
  A successful \<^verbatim>\<open>load\<close> establishes the registry invariant: the index keys are valid, unique
  identities and every default revision is an indexed revision.
\<close>
theorem load_registry_ok:
  assumes "load pint rd fs rg = (rg', None)"
  shows "registry_ok rg'"
  using assms by (rule load_ok)

lemma get_task_default:
  assumes "registry_ok rg" "map_of (rg_default_revisions rg) t = Some r"
  shows "\<exists>task. get_task rg t None = Inr task \<and> get_revision rg t r = Inr task"
proof -
  have i: "(t, r) \<in> fst ` set (rg_tasks rg)" using assms by (auto simp: registry_ok_def)
  then obtain task where "map_of (rg_tasks rg) (t, r) = Some task"
    using map_of_eq_None_iff[of "rg_tasks rg" "(t, r)"] by force
  moreover have "TaskRevision t r = Inr (t, r)"
    using assms(1) i by (force simp: registry_ok_def TaskRevision_Inr)
  ultimately show ?thesis using assms(2) by (simp add: get_task_def get_revision_def)
qed

text \<open>
  After a successful load, looking a known task up without a revision succeeds and returns
  the configured default revision, or the latest available revision where none is configured.
\<close>
theorem load_get_default:
  assumes "load pint rd fs rg = (rg', None)" "t \<in> set (task_ids (rg_tasks rg'))"
  shows "\<exists>task. get_task rg' t None = Inr task \<and> get_task rg' t None = get_revision rg' t
     (case map_of (rg_configured_defaults rg) t of
        None \<Rightarrow> last (available_revisions (rg_tasks rg') t) | Some c \<Rightarrow> c)"
proof -
  have ok: "registry_ok rg'" using assms(1) by (rule load_ok)
  let ?r = "case map_of (rg_configured_defaults rg) t of
        None \<Rightarrow> last (available_revisions (rg_tasks rg') t) | Some c \<Rightarrow> c"
  have d: "map_of (rg_default_revisions rg') t = Some ?r"
    using load_default_of[OF assms(1), of t] assms(2) by simp
  from get_task_default[OF ok d] show ?thesis by auto
qed

section \<open>A concrete registry\<close>

definition ex_read :: "task_file \<Rightarrow> string + (task_spec \<times> string \<times> string option)" where
  "ex_read f = Inr (\<lparr>ts_id = hd f, ts_title = ''t'', ts_description = ''d'', ts_language = ''python'',
     ts_entrypoint = None, ts_timeout_seconds = 5, ts_version = ''1.0''\<rparr>, ''tests'', None)"

definition ex_int :: "string \<Rightarrow> int option" where
  "ex_int s = (if s = ''2'' then Some 2 else None)"

definition ex_files :: "task_file list" where
  "ex_files = [[''b'', ''task.yaml''], [''a'', ''task.yaml''], [''a'', ''revisions'', ''v2'', ''task.yaml'']]"

definition ex_registry :: task_registry where
  "ex_registry = fst (load ex_int ex_read ex_files (new_registry [(''b'', 1)]))"

lemma ex_registry_load:
  "load ex_int ex_read ex_files (new_registry [(''b'', 1)]) = (ex_registry, None)"
proof -
  have "snd (load ex_int ex_read ex_files (new_registry [(''b'', 1)])) = None" by code_simp
  then show ?thesis by (simp add: ex_registry_def prod_eq_iff)
qed

theorem load_registry_ok_witness: "registry_ok ex_registry"
  by (rule load_registry_ok[OF ex_registry_load])

theorem load_get_default_witness:
  "\<exists>task. get_task ex_registry ''a'' None = Inr task
     \<and> get_task ex_registry ''a'' None = get_revision ex_registry ''a'' 2"
proof -
  have m: "''a'' \<in> set (task_ids (rg_tasks ex_registry))" by code_simp
  have "last (available_revisions (rg_tasks ex_registry) ''a'') = 2" by code_simp
  then have sel: "(case map_of (rg_configured_defaults (new_registry [(''b'', 1)])) ''a'' of
      None \<Rightarrow> last (available_revisions (rg_tasks ex_registry) ''a'') | Some c \<Rightarrow> c) = 2"
    by (simp add: new_registry_def)
  show ?thesis by (rule load_get_default[OF ex_registry_load m, unfolded sel])
qed

end
