(* ===== verification/Engine.thy ===== *)
theory Engine
  imports Registry
begin

text \<open>
  Evaluation orchestration: the static-analysis engine of \<^verbatim>\<open>src/app/analysis/engine.py\<close> and the
  evaluation engine of \<^verbatim>\<open>src/app/evaluator/engine.py\<close>. The analyzers and the language runners are
  arguments (external tools and containers). The properties: a request that fails validation
  never reaches a runner; an infrastructure failure of the runner or of an analyzer is an error
  and never a score; a returned result has a percentage score, the status of its runner
  outcome, and the score of its own breakdown.
\<close>

section \<open>Static analysis\<close>

record analyzer_report =
  ar_findings :: "finding list"
  ar_complexity :: "complexity_metrics option"

datatype analyzer_outcome =
    Report analyzer_report
  | AnalyzerFailure string
  | AnalyzerException

record analyzer =
  an_tool :: string
  an_analyze :: "string \<Rightarrow> string \<Rightarrow> analyzer_outcome"

text \<open>The loop over the analyzers; \<open>Inl\<close> is a \<^verbatim>\<open>StaticAnalysisInfrastructureError\<close>.\<close>

fun analyze_loop ::
    "string \<Rightarrow> string \<Rightarrow> finding list \<Rightarrow> complexity_metrics option \<Rightarrow> analyzer list
     \<Rightarrow> string + (finding list \<times> complexity_metrics option)" where
  "analyze_loop code language findings complexity [] = Inr (findings, complexity)"
| "analyze_loop code language findings complexity (a # as) =
     (case an_analyze a code language of
        AnalyzerFailure message \<Rightarrow> Inl message
      | AnalyzerException \<Rightarrow> Inl (''Static analyzer '' @ [CHR 0x27] @ an_tool a @ [CHR 0x27] @ '' failed.'')
      | Report report \<Rightarrow>
          (case ar_complexity report of
             None \<Rightarrow> analyze_loop code language (findings @ ar_findings report) complexity as
           | Some m \<Rightarrow>
               if complexity \<noteq> None then Inl ''Multiple complexity analyzers returned metrics.''
               else analyze_loop code language (findings @ ar_findings report) (Some m) as))"

definition analyze :: "analyzer list \<Rightarrow> string \<Rightarrow> string \<Rightarrow> string + static_analysis_result" where
  "analyze analyzers code language =
     (case analyze_loop code language [] None analyzers of
        Inl message \<Rightarrow> Inl message
      | Inr (findings, None) \<Rightarrow> Inl ''Static analysis did not produce complexity metrics.''
      | Inr (findings, Some complexity) \<Rightarrow>
          Inr \<lparr>sa_findings = findings, sa_complexity = complexity\<rparr>)"

text \<open>\<^verbatim>\<open>StaticAnalysisEngine.__init__\<close>.\<close>

definition StaticAnalysisEngine :: "analyzer list \<Rightarrow> analyzer list pyres" where
  "StaticAnalysisEngine analyzers =
     (if analyzers = [] then Inl (ValueError ''At least one static analyzer is required'')
      else Inr analyzers)"

section \<open>The evaluation engine\<close>

datatype eval_error =
    UnsupportedLanguageError string
  | CodeSizeExceededError nat nat
  | EvaluationInfrastructureError string
  | RegistryFailure registry_error
  | RunnerException string

text \<open>
  A runner returns a result, or an exception leaves it: \<open>Inl\<close> with the name of its class. \<^verbatim>\<open>evaluate_outcome\<close> catches
  none, so that the exception leaves it too (\<open>RunnerException\<close>).
\<close>

record evaluation_engine =
  en_registry :: task_registry
  en_runners :: "(string, registered_task \<Rightarrow> string \<Rightarrow> string + runner_result) odict"
  en_capabilities :: "(string, runner_capability) odict"
  en_max_code_size :: nat
  en_analysis :: "analyzer list option"

record evaluation_outcome =
  eo_result :: evaluation_result
  eo_runner_result :: runner_result
  eo_task :: registered_task

text \<open>\<^verbatim>\<open>len(code.encode("utf-8"))\<close>: code points from 128 to 255 take two bytes.\<close>

definition utf8_size :: "string \<Rightarrow> nat" where
  "utf8_size s = sum_list (map (\<lambda>c. if (of_char c :: nat) < 128 then 1 else 2) s)"

definition prepare_request ::
    "evaluation_engine \<Rightarrow> evaluation_request \<Rightarrow> int option \<Rightarrow> eval_error + registered_task" where
  "prepare_request en request task_revision =
     (let code_size = utf8_size (rq_code request) in
      if en_max_code_size en < code_size
      then Inl (CodeSizeExceededError code_size (en_max_code_size en))
      else case get_task (en_registry en) (rq_task_id request) task_revision of
        Inl e \<Rightarrow> Inl (RegistryFailure e)
      | Inr task \<Rightarrow>
          if rq_language request \<noteq> ts_language (rt_specification task)
          then Inl (UnsupportedLanguageError (rq_language request))
          else case map_of (en_runners en) (rq_language request) of
            None \<Rightarrow> Inl (UnsupportedLanguageError (rq_language request))
          | Some runner \<Rightarrow> Inr task)"

definition run_analysis ::
    "evaluation_engine \<Rightarrow> evaluation_request \<Rightarrow> eval_error + static_analysis_result option" where
  "run_analysis en request =
     (case en_analysis en of
        None \<Rightarrow> Inr None
      | Some analyzers \<Rightarrow>
          (case analyze analyzers (rq_code request) (rq_language request) of
             Inl message \<Rightarrow> Inl (EvaluationInfrastructureError message)
           | Inr analysis \<Rightarrow> Inr (Some analysis)))"

definition outcome_status :: "runner_result \<Rightarrow> evaluation_status" where
  "outcome_status r = (if rr_timed_out r \<or> rr_oom_killed r \<or> rr_sandbox_error r \<noteq> None
     then EvFailed else EvCompleted)"

definition tests_of :: "runner_result \<Rightarrow> test_result" where
  "tests_of r = \<lparr>tr_passed = rr_passed r, tr_failed = rr_failed r, tr_total = rr_total r,
     tr_duration_seconds = rr_duration_seconds r, tr_timed_out = rr_timed_out r\<rparr>"

definition evaluate_outcome ::
    "(rat \<Rightarrow> string) \<Rightarrow> (nat \<Rightarrow> string) \<Rightarrow> evaluation_engine \<Rightarrow> evaluation_request \<Rightarrow> int option
     \<Rightarrow> eval_error + evaluation_outcome" where
  "evaluate_outcome show_g show_n en request task_revision =
     (case prepare_request en request task_revision of
        Inl e \<Rightarrow> Inl e
      | Inr task \<Rightarrow>
          (case the (map_of (en_runners en) (rq_language request)) task (rq_code request) of
             Inl exception \<Rightarrow> Inl (RunnerException exception)
           | Inr runner_result \<Rightarrow>
             (case rr_infrastructure_error runner_result of
                Some message \<Rightarrow> Inl (EvaluationInfrastructureError message)
              | None \<Rightarrow>
                  (case run_analysis en request of
                     Inl e \<Rightarrow> Inl e
                   | Inr analysis \<Rightarrow>
                       (let tests = tests_of runner_result;
                            breakdown = calculate_score tests analysis;
                            result =
                              \<lparr>er_evaluation_id = None, er_created_at = None,
                               er_task_id = ts_id (rt_specification task),
                               er_status = outcome_status runner_result,
                               er_score = calculate_final_score breakdown,
                               er_tests = tests,
                               er_score_breakdown = breakdown,
                               er_analysis = analysis,
                               er_findings = build_findings show_g show_n runner_result
                                 (ts_timeout_seconds (rt_specification task)),
                               er_ai_assessment = None\<rparr>
                        in Inr \<lparr>eo_result = result, eo_runner_result = runner_result,
                                eo_task = task\<rparr>)))))"

definition runner_capability_of :: "evaluation_engine \<Rightarrow> string \<Rightarrow> eval_error + runner_capability" where
  "runner_capability_of en language =
     (case map_of (en_capabilities en) language of
        None \<Rightarrow> Inl (UnsupportedLanguageError language) | Some c \<Rightarrow> Inr c)"

section \<open>Static analysis is all or nothing\<close>

lemma analyze_loop_Inr:
  "analyze_loop code lang fs cx as = Inr (fs', cx') \<Longrightarrow>
     (\<forall>a\<in>set as. \<exists>r. an_analyze a code lang = Report r)
     \<and> fs' = fs @ concat (map (\<lambda>a. case an_analyze a code lang of Report r \<Rightarrow> ar_findings r | _ \<Rightarrow> []) as)"
proof (induction as arbitrary: fs cx)
  case (Cons a as)
  from Cons.prems obtain r cx'' where r: "an_analyze a code lang = Report r"
    "analyze_loop code lang (fs @ ar_findings r) cx'' as = Inr (fs', cx')"
    by (auto split: analyzer_outcome.splits option.splits if_splits)
  from Cons.IH[OF r(2)] r(1) show ?case by auto
qed simp

definition ex_radon :: analyzer where
  "ex_radon = \<lparr>an_tool = ''radon'', an_analyze = (\<lambda>code lang. Report \<lparr>ar_findings = [],
     ar_complexity = Some \<lparr>cm_maximum = 3, cm_average = 2, cm_blocks = 2, cm_analyzable = True\<rparr>\<rparr>)\<rparr>"

definition ex_ruff :: analyzer where
  "ex_ruff = \<lparr>an_tool = ''ruff'', an_analyze = (\<lambda>code lang. Report \<lparr>
     ar_findings = [mk_finding Sev_Error Cat_Quality ''E501''], ar_complexity = None\<rparr>)\<rparr>"

section \<open>Evaluation\<close>

lemma evaluate_outcome_Inr:
  assumes "evaluate_outcome sg sn en rq rv = Inr out"
  obtains task analysis where "prepare_request en rq rv = Inr task" "eo_task out = task"
    "the (map_of (en_runners en) (rq_language rq)) task (rq_code rq) = Inr (eo_runner_result out)"
    "rr_infrastructure_error (eo_runner_result out) = None"
    "run_analysis en rq = Inr analysis"
    "er_score_breakdown (eo_result out) = calculate_score (tests_of (eo_runner_result out)) analysis"
    "er_score (eo_result out) = calculate_final_score (er_score_breakdown (eo_result out))"
    "er_status (eo_result out) = outcome_status (eo_runner_result out)"
  using assms by (auto simp: evaluate_outcome_def Let_def split: sum.splits option.splits)

text \<open>
  C40: An evaluation fails closed. A returned outcome came from a runner without infrastructure
  error and from a completed analysis when analysis is enabled; its score is a percentage and is
  the final score of its own breakdown; and its status is FAILED exactly for a timeout, an
  out-of-memory kill or a sandbox error. The hypothesis on the runner is that it reports no more
  passed tests than tests.
\<close>
theorem evaluate_outcome_sound:
  assumes "evaluate_outcome sg sn en rq rv = Inr out"
    and "rr_passed (eo_runner_result out) \<le> rr_total (eo_runner_result out)"
  shows "rr_infrastructure_error (eo_runner_result out) = None
    \<and> (\<exists>analysis. run_analysis en rq = Inr analysis)
    \<and> breakdown_ok (er_score_breakdown (eo_result out))
    \<and> er_score (eo_result out) = calculate_final_score (er_score_breakdown (eo_result out))
    \<and> 0 \<le> er_score (eo_result out) \<and> er_score (eo_result out) \<le> 100
    \<and> (er_status (eo_result out) = EvFailed \<longleftrightarrow>
         rr_timed_out (eo_runner_result out) \<or> rr_oom_killed (eo_runner_result out)
         \<or> rr_sandbox_error (eo_runner_result out) \<noteq> None)"
proof -
  from assms(1) obtain analysis where a:
    "rr_infrastructure_error (eo_runner_result out) = None" "run_analysis en rq = Inr analysis"
    "er_score_breakdown (eo_result out) = calculate_score (tests_of (eo_runner_result out)) analysis"
    "er_score (eo_result out) = calculate_final_score (er_score_breakdown (eo_result out))"
    "er_status (eo_result out) = outcome_status (eo_runner_result out)"
    by (rule evaluate_outcome_Inr)
  have ok: "breakdown_ok (er_score_breakdown (eo_result out))"
    unfolding a(3) using assms(2) by (intro breakdown_calculate) (simp add: tests_of_def)
  from final_score_bounds[OF ok] a ok show ?thesis by (auto simp: outcome_status_def)
qed

text \<open>
  A request that fails validation is rejected before any candidate code runs: the outcome is
  the validation error and does not depend on the runners or analyzers behind the engine.
\<close>
theorem rejected_request_never_runs:
  assumes "prepare_request en rq rv = Inl e"
    and "map fst (en_runners en) = map fst (en_runners en')"
    and "en_registry en' = en_registry en" "en_max_code_size en' = en_max_code_size en"
  shows "evaluate_outcome sg sn en' rq rv = Inl e"
proof -
  have same: "(case map_of (en_runners en') l of None \<Rightarrow> x | Some _ \<Rightarrow> y)
    = (case map_of (en_runners en) l of None \<Rightarrow> x | Some _ \<Rightarrow> y)" for l and x y :: "eval_error + registered_task"
  proof -
    have "map_of (en_runners en') l = None \<longleftrightarrow> map_of (en_runners en) l = None"
      using assms(2) by (simp add: map_of_eq_None_iff flip: set_map)
    then show ?thesis by (auto split: option.splits)
  qed
  have "prepare_request en' rq rv = prepare_request en rq rv"
    unfolding prepare_request_def assms(3,4) same by (rule refl)
  with assms(1) show ?thesis by (simp add: evaluate_outcome_def)
qed

section \<open>A concrete engine\<close>

definition ex_runner_result :: runner_result where
  "ex_runner_result = \<lparr>rr_exit_code = Some 1, rr_stdout = '''', rr_stderr = '''',
     rr_duration_seconds = 1, rr_passed = 2, rr_failed = 1, rr_total = 3, rr_timed_out = False,
     rr_enforced_timeout_seconds = None, rr_output_truncated = False, rr_oom_killed = False,
     rr_syntax_error = False, rr_import_error = False, rr_sandbox_error = None,
     rr_infrastructure_error = None\<rparr>"

definition ex_engine :: evaluation_engine where
  "ex_engine = \<lparr>en_registry = ex_registry,
     en_runners = [(''python'', \<lambda>task code. Inr ex_runner_result)], en_capabilities = [],
     en_max_code_size = 100, en_analysis = Some [ex_ruff, ex_radon]\<rparr>"

definition ex_request :: "string \<Rightarrow> evaluation_request" where
  "ex_request task = \<lparr>rq_task_id = task, rq_language = ''python'', rq_code = ''x = 1''\<rparr>"

lemma ex_engine_runs:
  "\<exists>out. evaluate_outcome (\<lambda>_. '''') (\<lambda>_. ''1'') ex_engine (ex_request ''a'') None = Inr out
     \<and> eo_runner_result out = ex_runner_result"
proof -
  have "\<exists>task. prepare_request ex_engine (ex_request ''a'') None = Inr task"
  proof -
    have "is_ok (prepare_request ex_engine (ex_request ''a'') None)" by code_simp
    then show ?thesis by (auto simp: is_ok_def split: sum.splits)
  qed
  then obtain task where "prepare_request ex_engine (ex_request ''a'') None = Inr task" ..
  moreover have "\<exists>a. run_analysis ex_engine (ex_request ''a'') = Inr a"
    by (simp add: run_analysis_def ex_engine_def analyze_def ex_ruff_def ex_radon_def)
  moreover have "the (map_of (en_runners ex_engine) (rq_language (ex_request ''a'')))
      = (\<lambda>task code. Inr ex_runner_result)" by (simp add: ex_engine_def ex_request_def)
  moreover have "rr_infrastructure_error ex_runner_result = None" by (simp add: ex_runner_result_def)
  ultimately show ?thesis by (auto simp: evaluate_outcome_def Let_def)
qed

theorem evaluate_outcome_sound_witness:
  "\<exists>out. evaluate_outcome (\<lambda>_. '''') (\<lambda>_. ''1'') ex_engine (ex_request ''a'') None = Inr out
     \<and> rr_infrastructure_error (eo_runner_result out) = None
     \<and> 0 \<le> er_score (eo_result out) \<and> er_score (eo_result out) \<le> 100"
proof -
  from ex_engine_runs obtain out where
    out: "evaluate_outcome (\<lambda>_. '''') (\<lambda>_. ''1'') ex_engine (ex_request ''a'') None = Inr out"
    and r: "eo_runner_result out = ex_runner_result" by blast
  have "rr_passed (eo_runner_result out) \<le> rr_total (eo_runner_result out)"
    by (simp add: r ex_runner_result_def)
  from evaluate_outcome_sound[OF out this] out show ?thesis by blast
qed

theorem rejected_request_never_runs_witness:
  "evaluate_outcome (\<lambda>_. '''') (\<lambda>_. ''1'') (ex_engine\<lparr>en_analysis := None\<rparr>) (ex_request ''zz'') None
     = Inl (RegistryFailure (TaskNotFoundError ''zz'' None))"
proof (rule rejected_request_never_runs[of ex_engine])
  show "prepare_request ex_engine (ex_request ''zz'') None
      = Inl (RegistryFailure (TaskNotFoundError ''zz'' None))" by code_simp
qed (simp_all add: ex_engine_def)

end
