(* ===== verification/Fingerprints.thy ===== *)
theory Fingerprints
  imports Prelude "HOL-Library.Word"
begin

text \<open>
  The framed test fingerprint of \<^verbatim>\<open>src/app/snapshots/fingerprints.py\<close>: the digest of the sorted
  test files, each name and content preceded by its length in eight big-endian bytes. SHA-256
  is the argument \<open>sha\<close>. The main property is that the framing is unambiguous: two test suites
  with the same digest input have the same files, so a fingerprint can only repeat on a
  collision of the hash.
\<close>

type_synonym bytes = "8 word list"

section \<open>Encoding\<close>

text \<open>\<^verbatim>\<open>str.encode("utf-8")\<close> on code points below 256.\<close>

definition utf8_char :: "char \<Rightarrow> bytes" where
  "utf8_char c = (let n = of_char c :: nat in
     if n < 128 then [of_nat n] else [of_nat (192 + n div 64), of_nat (128 + n mod 64)])"

definition utf8 :: "string \<Rightarrow> bytes" where
  "utf8 s = concat (map utf8_char s)"

text \<open>\<^verbatim>\<open>source_identity\<close>: the digest of the source and its size in bytes.\<close>

definition source_identity :: "(bytes \<Rightarrow> string) \<Rightarrow> string \<Rightarrow> string \<times> nat" where
  "source_identity sha source = (let source_bytes = utf8 source in (sha source_bytes, length source_bytes))"

text \<open>\<^verbatim>\<open>n.to_bytes(8, byteorder="big")\<close>.\<close>

definition to_bytes8 :: "nat \<Rightarrow> bytes" where
  "to_bytes8 n = map (\<lambda>i. of_nat (n div 256 ^ (7 - i))) [0..<8]"

text \<open>\<^verbatim>\<open>_update_framed\<close> appends the framed value to the digest input.\<close>

definition update_framed :: "bytes \<Rightarrow> bytes \<Rightarrow> bytes" where
  "update_framed digest value = (digest @ to_bytes8 (length value)) @ value"

section \<open>Test suites\<close>

record test_file =
  tf_parts :: "string list"
  tf_content :: bytes

definition py_suffix :: "string \<Rightarrow> string" where
  "py_suffix name =
     (let tail = takeWhile (\<lambda>c. c \<noteq> CHR ''.'') (rev name); i = length name - length tail in
      if CHR ''.'' \<in> set name \<and> 1 < i \<and> i < length name then drop (i - 1) name else [])"

definition included :: "string list \<Rightarrow> test_file \<Rightarrow> bool" where
  "included root f \<longleftrightarrow> ''__pycache__'' \<notin> set (root @ tf_parts f)
     \<and> py_suffix (last (root @ tf_parts f)) \<notin> {''.pyc'', ''.pyo''}"

fun as_posix :: "string list \<Rightarrow> string" where
  "as_posix [] = []"
| "as_posix [p] = p"
| "as_posix (p # q # ps) = p @ ''/'' @ as_posix (q # ps)"

definition selected_files :: "string list \<Rightarrow> test_file list \<Rightarrow> (bytes \<times> bytes) list" where
  "selected_files root files =
     map (\<lambda>f. (utf8 (as_posix (tf_parts f)), tf_content f))
       (sort_key tf_parts (filter (included root) files))"

definition framed :: "(bytes \<times> bytes) list \<Rightarrow> bytes" where
  "framed fs = foldl (\<lambda>d (name, content). update_framed (update_framed d name) content) [] fs"

definition tests_fingerprint :: "(bytes \<Rightarrow> string) \<Rightarrow> string list \<Rightarrow> test_file list \<Rightarrow> string" where
  "tests_fingerprint sha root files = sha (framed (selected_files root files))"

section \<open>The framing is unambiguous\<close>

lemma length_to_bytes8 [simp]: "length (to_bytes8 n) = 8"
  by (simp add: to_bytes8_def)

lemma unat_byte: "unat (of_nat n :: 8 word) = n mod 256"
  by (simp add: unat_of_nat)

lemma base256: "n < 2 ^ 64 \<Longrightarrow> n = (\<Sum>i<8. (n div 256 ^ i mod 256) * 256 ^ i)" for n :: nat
proof -
  have step: "(\<Sum>i<k. (n div 256 ^ i mod 256) * 256 ^ i) = n mod 256 ^ k" for k
  proof (induction k)
    case (Suc k)
    have "n mod 256 ^ Suc k = 256 ^ k * (n div 256 ^ k mod 256) + n mod 256 ^ k"
      using mod_mult2_eq[of n "256 ^ k" 256] by (simp add: mult.commute)
    with Suc show ?case by (simp add: mult.commute)
  qed simp
  assume "n < 2 ^ 64"
  then show ?thesis by (simp add: step)
qed

lemma to_bytes8_inj:
  assumes "to_bytes8 m = to_bytes8 n" "m < 2 ^ 64" "n < 2 ^ 64"
  shows "m = n"
proof -
  have dig: "m div 256 ^ i mod 256 = n div 256 ^ i mod 256" if "i < 8" for i
  proof -
    have "to_bytes8 m ! (7 - i) = to_bytes8 n ! (7 - i)" using assms(1) by simp
    moreover have "7 - (7 - i) = i" "7 - i < 8" using that by simp_all
    ultimately have "(of_nat (m div 256 ^ i) :: 8 word) = of_nat (n div 256 ^ i)"
      by (simp add: to_bytes8_def)
    then show ?thesis by (metis unat_byte)
  qed
  show ?thesis using base256[OF assms(2)] base256[OF assms(3)] dig by simp
qed

lemma framed_prefix:
  assumes "to_bytes8 (length a) @ a @ x = to_bytes8 (length b) @ b @ y"
    and "length a < 2 ^ 64" "length b < 2 ^ 64"
  shows "a = b \<and> x = y"
proof -
  from assms(1) have "to_bytes8 (length a) = to_bytes8 (length b)" "a @ x = b @ y"
    by (simp_all add: append_eq_append_conv)
  moreover from this(1) assms(2,3) have "length a = length b" by (rule to_bytes8_inj)
  ultimately show ?thesis by (simp add: append_eq_append_conv)
qed

fun frame_list :: "(bytes \<times> bytes) list \<Rightarrow> bytes" where
  "frame_list [] = []"
| "frame_list ((n, c) # fs) =
     to_bytes8 (length n) @ n @ to_bytes8 (length c) @ c @ frame_list fs"

lemma framed_frame_list: "framed fs = frame_list fs"
proof -
  have "foldl (\<lambda>d (name, content). update_framed (update_framed d name) content) d fs
      = d @ frame_list fs" for d
    by (induction fs arbitrary: d) (auto simp: update_framed_def)
  then show ?thesis by (simp add: framed_def)
qed

definition sizes_ok :: "(bytes \<times> bytes) list \<Rightarrow> bool" where
  "sizes_ok fs \<longleftrightarrow> (\<forall>(n, c)\<in>set fs. length n < 2 ^ 64 \<and> length c < 2 ^ 64)"

lemma frame_list_inj:
  "frame_list fs = frame_list gs \<Longrightarrow> sizes_ok fs \<Longrightarrow> sizes_ok gs \<Longrightarrow> fs = gs"
proof (induction fs arbitrary: gs)
  case Nil
  then show ?case by (cases gs) (auto dest: arg_cong[of _ _ length])
next
  case (Cons f fs)
  obtain n c where f: "f = (n, c)" by force
  have "gs \<noteq> []" using Cons.prems(1) f by (auto dest: arg_cong[of _ _ length])
  then obtain n' c' gs' where gs: "gs = (n', c') # gs'" by (cases gs) auto
  have sz: "length n < 2 ^ 64" "length c < 2 ^ 64" "length n' < 2 ^ 64" "length c' < 2 ^ 64"
    "sizes_ok fs" "sizes_ok gs'"
    using Cons.prems(2,3) by (auto simp: sizes_ok_def f gs)
  from Cons.prems(1) have "to_bytes8 (length n) @ n @ (to_bytes8 (length c) @ c @ frame_list fs)
      = to_bytes8 (length n') @ n' @ (to_bytes8 (length c') @ c' @ frame_list gs')"
    by (simp add: f gs)
  from framed_prefix[OF this sz(1,3)] have n: "n = n'"
    "to_bytes8 (length c) @ c @ frame_list fs = to_bytes8 (length c') @ c' @ frame_list gs'" by auto
  from framed_prefix[OF n(2) sz(2,4)] have "c = c'" "frame_list fs = frame_list gs'" by auto
  with n(1) Cons.IH[OF _ sz(5,6)] show ?case by (simp add: f gs)
qed

text \<open>
  The test fingerprint identifies the test suite: when the hash does not collide on the two
  digest inputs, two suites with the same fingerprint have the same selected files, with the
  same names, the same contents and in the same order.
\<close>
theorem tests_fingerprint_identifies:
  assumes "tests_fingerprint sha root fs = tests_fingerprint sha root' gs"
    and no_collision: "sha (framed (selected_files root fs)) = sha (framed (selected_files root' gs))
      \<Longrightarrow> framed (selected_files root fs) = framed (selected_files root' gs)"
    and "sizes_ok (selected_files root fs)" "sizes_ok (selected_files root' gs)"
  shows "selected_files root fs = selected_files root' gs"
proof -
  have "frame_list (selected_files root fs) = frame_list (selected_files root' gs)"
    using assms(1) no_collision by (simp add: tests_fingerprint_def framed_frame_list)
  then show ?thesis using assms(3,4) by (rule frame_list_inj)
qed

definition ex_suite :: "test_file list" where
  "ex_suite = [\<lparr>tf_parts = [''test_b.py''], tf_content = [1, 2]\<rparr>,
     \<lparr>tf_parts = [''test_a.py''], tf_content = [3]\<rparr>]"

definition ex_suite' :: "test_file list" where
  "ex_suite' = rev ex_suite @ [\<lparr>tf_parts = [''x.pyc''], tf_content = [7]\<rparr>]"

lemma ex_suite_selected:
  "selected_files [''t''] ex_suite = [(utf8 ''test_a.py'', [3]), (utf8 ''test_b.py'', [1, 2])]"
  "selected_files [''t''] ex_suite' = [(utf8 ''test_a.py'', [3]), (utf8 ''test_b.py'', [1, 2])]"
  by (simp_all add: ex_suite_def ex_suite'_def selected_files_def included_def py_suffix_def)

theorem tests_fingerprint_identifies_witness:
  "selected_files [''t''] ex_suite = selected_files [''t''] ex_suite'"
  by (rule tests_fingerprint_identifies[where sha = "map (\<lambda>w. char_of (unat w))"])
    (simp_all add: tests_fingerprint_def ex_suite_selected sizes_ok_def utf8_def utf8_char_def)

end
