(* ===== verification/Analyzers.thy ===== *)
theory Analyzers
  imports Engine PyValues Fingerprints "HOL-Library.Sublist"
begin

text \<open>
  The analyzer adapters of \<^verbatim>\<open>src/app/analysis/analyzers.py\<close> as \<^verbatim>\<open>src/app/analysis/factory.py\<close> puts them
  together, and the bounded output capture of \<^verbatim>\<open>src/app/analysis/command.py\<close>. Starting a process, the JSON
  reader and the Python parser are arguments. The properties: an analysis is only ever returned when every
  tool ran to its end and its whole output was understood, with one finding for each entry of the
  output; and the complexity metrics cover every block, nested ones included.
\<close>

section \<open>Results of adapters\<close>

text \<open>\<^verbatim>\<open>AnalyzerFailure(tool, reason)\<close>, or any other exception.\<close>

datatype analyzer_exn = Failure string | Unexpected

type_synonym 'a adapted = "analyzer_exn + 'a"

definition and_then :: "'e + 'a \<Rightarrow> ('a \<Rightarrow> 'e + 'b) \<Rightarrow> 'e + 'b" where
  "and_then r f = (case r of Inl e \<Rightarrow> Inl e | Inr x \<Rightarrow> f x)"

fun traverse :: "('a \<Rightarrow> 'e + 'b) \<Rightarrow> 'a list \<Rightarrow> 'e + 'b list" where
  "traverse f [] = Inr []"
| "traverse f (x # xs) = and_then (f x) (\<lambda>y. and_then (traverse f xs) (\<lambda>ys. Inr (y # ys)))"

lemma and_then_Inr [simp]: "and_then r f = Inr y \<longleftrightarrow> (\<exists>x. r = Inr x \<and> f x = Inr y)"
  by (simp add: and_then_def split: sum.splits)

lemma and_then_simps [simp]: "and_then (Inr x) f = f x" "and_then (Inl e) f = Inl e"
  by (simp_all add: and_then_def)

lemma and_then_cong [fundef_cong]:
  "r = r' \<Longrightarrow> (\<And>x. r' = Inr x \<Longrightarrow> f x = g x) \<Longrightarrow> and_then r f = and_then r' g"
  by (simp add: and_then_def split: sum.splits)

lemma traverse_Inr: "traverse f xs = Inr ys \<longleftrightarrow> list_all2 (\<lambda>x y. f x = Inr y) xs ys"
  by (induction xs arbitrary: ys) (auto simp: list_all2_Cons1)

fun tool_name :: "analysis_tool \<Rightarrow> string" where
  "tool_name Ruff = ''ruff''"
| "tool_name Mypy = ''mypy''"
| "tool_name Bandit = ''bandit''"
| "tool_name Radon = ''radon''"

definition failure_message :: "analysis_tool \<Rightarrow> string \<Rightarrow> string" where
  "failure_message tool reason =
     ''Static analyzer '' @ [CHR 0x27] @ tool_name tool @ [CHR 0x27] @ '' '' @ reason @ ''.''"

section \<open>Reading JSON values\<close>

definition invalid_output :: "'a adapted" where
  "invalid_output = Inl (Failure ''returned invalid output'')"

lemma invalid_output_not_Inr [simp]: "invalid_output \<noteq> Inr x"
  by (simp add: invalid_output_def)

definition json_value :: "(string \<Rightarrow> pyval option) \<Rightarrow> string \<Rightarrow> pyval adapted" where
  "json_value loads text = (case loads text of None \<Rightarrow> invalid_output | Some v \<Rightarrow> Inr v)"

definition mapping_of :: "pyval \<Rightarrow> (pyval \<times> pyval) list adapted" where
  "mapping_of v = (case v of
     PyDict items \<Rightarrow> if list_all (\<lambda>(k, _). is_str k) items then Inr items else invalid_output
   | _ \<Rightarrow> invalid_output)"

text \<open>\<^verbatim>\<open>item.get(key)\<close>.\<close>

definition dict_get :: "(pyval \<times> pyval) list \<Rightarrow> string \<Rightarrow> pyval" where
  "dict_get item key = (case map_of item (PyStr key) of None \<Rightarrow> PyNone | Some v \<Rightarrow> v)"

definition string_field :: "(pyval \<times> pyval) list \<Rightarrow> string \<Rightarrow> string adapted" where
  "string_field item key = (case dict_get item key of PyStr s \<Rightarrow> Inr s | _ \<Rightarrow> invalid_output)"

definition optional_string :: "pyval \<Rightarrow> string option" where
  "optional_string v = (case v of PyStr s \<Rightarrow> Some s | _ \<Rightarrow> None)"

definition integer_field :: "(pyval \<times> pyval) list \<Rightarrow> string \<Rightarrow> int adapted" where
  "integer_field item key = (case dict_get item key of PyInt n \<Rightarrow> Inr n | _ \<Rightarrow> invalid_output)"

definition positive_optional_integer :: "pyval \<Rightarrow> int option" where
  "positive_optional_integer v = (case v of PyInt n \<Rightarrow> if 1 \<le> n then Some n else None | _ \<Rightarrow> None)"

definition list_field :: "(pyval \<times> pyval) list \<Rightarrow> string \<Rightarrow> pyval list \<Rightarrow> pyval list adapted" where
  "list_field item key fallback =
     (case map_of item (PyStr key) of
        None \<Rightarrow> Inr fallback | Some (PyList vs) \<Rightarrow> Inr vs | Some _ \<Rightarrow> invalid_output)"

section \<open>Validated models\<close>

text \<open>\<^verbatim>\<open>Field(default=None, ge=1)\<close>: a smaller number is a validation error of pydantic.\<close>

definition position :: "int option \<Rightarrow> nat option adapted" where
  "position p = (case p of None \<Rightarrow> Inr None | Some n \<Rightarrow> if 1 \<le> n then Inr (Some (nat n)) else Inl Unexpected)"

definition Finding ::
    "analysis_tool \<Rightarrow> finding_severity \<Rightarrow> finding_category \<Rightarrow> string option \<Rightarrow> string
     \<Rightarrow> int option \<times> int option \<times> int option \<times> int option \<Rightarrow> bool option \<Rightarrow> finding_confidence option
     \<Rightarrow> finding adapted" where
  "Finding tool severity category code message positions fixable confidence =
     (case positions of (line, column, end_line, end_column) \<Rightarrow>
        and_then (position line) (\<lambda>l. and_then (position column) (\<lambda>c.
        and_then (position end_line) (\<lambda>el. and_then (position end_column) (\<lambda>ec.
          Inr \<lparr>fd_severity = severity, fd_category = category, fd_message = message, fd_tool = Some tool,
               fd_code = code, fd_line = l, fd_column = c, fd_end_line = el, fd_end_column = ec,
               fd_fixable = fixable, fd_confidence = confidence\<rparr>)))))"

definition ComplexityMetrics :: "int \<Rightarrow> rat \<Rightarrow> nat \<Rightarrow> bool \<Rightarrow> complexity_metrics adapted" where
  "ComplexityMetrics maximum average blocks analyzable =
     (if maximum < 0 \<or> average < 0 then Inl Unexpected
      else Inr \<lparr>cm_maximum = nat maximum, cm_average = average, cm_blocks = blocks, cm_analyzable = analyzable\<rparr>)"

section \<open>Commands\<close>

record command_result =
  cr_exit_code :: "int option"
  cr_stdout :: string
  cr_stderr :: string
  cr_duration_seconds :: rat
  cr_timed_out :: bool
  cr_output_truncated :: bool

text \<open>The attributes that the adapter reads of a \<^verbatim>\<open>SyntaxError\<close>.\<close>

record syntax_error =
  se_msg :: string
  se_lineno :: pyval
  se_offset :: pyval
  se_end_lineno :: pyval
  se_end_offset :: pyval

datatype parse_outcome = Parses | SyntaxFailure syntax_error | ParseException

text \<open>\<open>ae_run\<close> runs a command in the temporary directory of the analysis, whose file \<^verbatim>\<open>solution.py\<close> holds the candidate's code.\<close>

record analyzer_env =
  ae_executable :: string
  ae_config_path :: string
  ae_run :: "string \<Rightarrow> string list \<Rightarrow> command_result"
  ae_loads :: "string \<Rightarrow> pyval option"
  ae_parse :: "string \<Rightarrow> parse_outcome"

definition SOURCE_NAME :: string where "SOURCE_NAME = ''solution.py''"

definition run_command :: "analyzer_env \<Rightarrow> string \<Rightarrow> string list \<Rightarrow> command_result adapted" where
  "run_command env code arguments =
     (let result = ae_run env code arguments in
      if cr_exit_code result = None then Inl (Failure ''could not be started'')
      else if cr_timed_out result then Inl (Failure ''timed out'')
      else if cr_output_truncated result then Inl (Failure ''exceeded its output limit'')
      else Inr result)"

text \<open>The check \<^verbatim>\<open>result.exit_code not in {0, 1}\<close> of three adapters.\<close>

definition run_linter :: "analyzer_env \<Rightarrow> string \<Rightarrow> string list \<Rightarrow> command_result adapted" where
  "run_linter env code arguments =
     and_then (run_command env code arguments) (\<lambda>result.
       if cr_exit_code result \<notin> {Some 0, Some 1} then Inl (Failure ''failed'') else Inr result)"

section \<open>Bounded output\<close>

text \<open>
  \<^verbatim>\<open>_BoundedCapture\<close>: two tasks drain the pipes of a process, a chunk at a time and in any order, into
  buffers that share one limit. A \<open>chunk\<close> is what one \<^verbatim>\<open>read\<close> returns.
\<close>

datatype pipe = Stdout | Stderr

record capture =
  bc_limit_bytes :: nat
  bc_captured_bytes :: nat
  bc_stdout :: bytes
  bc_stderr :: bytes
  bc_truncated :: bool

definition BoundedCapture :: "nat \<Rightarrow> capture" where
  "BoundedCapture limit_bytes =
     \<lparr>bc_limit_bytes = limit_bytes, bc_captured_bytes = 0, bc_stdout = [], bc_stderr = [], bc_truncated = False\<rparr>"

definition drain_chunk :: "pipe \<times> bytes \<Rightarrow> capture \<Rightarrow> capture" where
  "drain_chunk event c =
     (let (p, chunk) = event;
          remaining = bc_limit_bytes c - bc_captured_bytes c;
          retained = take remaining chunk;
          kept = (case p of Stdout \<Rightarrow> c\<lparr>bc_stdout := bc_stdout c @ retained\<rparr>
                          | Stderr \<Rightarrow> c\<lparr>bc_stderr := bc_stderr c @ retained\<rparr>)
      in kept\<lparr>bc_captured_bytes := bc_captured_bytes c + length retained,
              bc_truncated := (bc_truncated c \<or> remaining < length chunk)\<rparr>)"

definition drain :: "nat \<Rightarrow> (pipe \<times> bytes) list \<Rightarrow> capture" where
  "drain limit_bytes events = fold drain_chunk events (BoundedCapture limit_bytes)"

definition written :: "pipe \<Rightarrow> (pipe \<times> bytes) list \<Rightarrow> bytes" where
  "written p events = concat (map snd (filter (\<lambda>e. fst e = p) events))"

lemma prefixes_full: "prefix a b \<Longrightarrow> prefix c d \<Longrightarrow> length b + length d \<le> length a + length c \<Longrightarrow> a = b \<and> c = d"
  by (auto simp: prefix_def)

definition capture_inv :: "nat \<Rightarrow> bytes \<Rightarrow> bytes \<Rightarrow> capture \<Rightarrow> bool" where
  "capture_inv n out err c \<longleftrightarrow>
     bc_limit_bytes c = n \<and> bc_captured_bytes c = min n (length out + length err)
     \<and> length (bc_stdout c) + length (bc_stderr c) = bc_captured_bytes c
     \<and> prefix (bc_stdout c) out \<and> prefix (bc_stderr c) err
     \<and> (bc_truncated c \<longleftrightarrow> n < length out + length err)"

lemma capture_inv_full:
  "capture_inv n out err c \<Longrightarrow> length out + length err \<le> n \<Longrightarrow> bc_stdout c = out \<and> bc_stderr c = err"
  by (intro prefixes_full) (simp_all add: capture_inv_def)

lemma drain_chunk_inv:
  assumes "capture_inv n out err c"
  shows "capture_inv n (out @ chunk) err (drain_chunk (Stdout, chunk) c)"
    "capture_inv n out (err @ chunk) (drain_chunk (Stderr, chunk) c)"
proof -
  let ?total = "length out + length err"
  have c: "bc_limit_bytes c = n" "bc_captured_bytes c = min n ?total"
    "length (bc_stdout c) + length (bc_stderr c) = min n ?total" "prefix (bc_stdout c) out" "prefix (bc_stderr c) err"
    "bc_truncated c \<longleftrightarrow> n < ?total"
    using assms by (simp_all add: capture_inv_def)
  have "capture_inv n (out @ chunk) err (drain_chunk (Stdout, chunk) c)
      \<and> capture_inv n out (err @ chunk) (drain_chunk (Stderr, chunk) c)"
  proof (cases "?total \<le> n")
    case True
    then have "bc_stdout c = out" "bc_stderr c = err" using capture_inv_full[OF assms] by auto
    with True c show ?thesis by (auto simp: capture_inv_def drain_chunk_def Let_def take_is_prefix min_def)
  next
    case False
    with c show ?thesis by (simp add: capture_inv_def drain_chunk_def Let_def)
  qed
  then show "capture_inv n (out @ chunk) err (drain_chunk (Stdout, chunk) c)"
    "capture_inv n out (err @ chunk) (drain_chunk (Stderr, chunk) c)" by auto
qed

lemma drain_inv: "capture_inv n (written Stdout es) (written Stderr es) (drain n es)"
proof (induction es rule: rev_induct)
  case Nil
  show ?case by (simp add: capture_inv_def drain_def BoundedCapture_def written_def)
next
  case (snoc e es)
  have w: "written q (es @ [(p, chunk)]) = written q es @ (if q = p then chunk else [])" for p q chunk
    by (simp add: written_def)
  obtain p chunk where "e = (p, chunk)" by force
  with drain_chunk_inv[OF snoc.IH, of chunk] show ?case
    by (cases p) (simp_all add: w, simp_all add: drain_def)
qed

text \<open>However the chunks interleave: the buffers hold prefixes of what was written, within the limit, and are
  complete exactly if the capture is not marked as truncated.\<close>

lemma bounded_capture_exact:
  "prefix (bc_stdout (drain n es)) (written Stdout es)" "prefix (bc_stderr (drain n es)) (written Stderr es)"
  "length (bc_stdout (drain n es)) + length (bc_stderr (drain n es)) \<le> n"
  "bc_truncated (drain n es) \<longleftrightarrow>
     (bc_stdout (drain n es), bc_stderr (drain n es)) \<noteq> (written Stdout es, written Stderr es)"
proof -
  note inv = drain_inv[of n es]
  show "prefix (bc_stdout (drain n es)) (written Stdout es)" "prefix (bc_stderr (drain n es)) (written Stderr es)"
    and len: "length (bc_stdout (drain n es)) + length (bc_stderr (drain n es)) \<le> n"
    using inv by (simp_all add: capture_inv_def)
  have trunc: "bc_truncated (drain n es) \<longleftrightarrow> n < length (written Stdout es) + length (written Stderr es)"
    using inv by (simp add: capture_inv_def)
  show "bc_truncated (drain n es) \<longleftrightarrow>
      (bc_stdout (drain n es), bc_stderr (drain n es)) \<noteq> (written Stdout es, written Stderr es)"
  proof (cases "bc_truncated (drain n es)")
    case True
    then show ?thesis using trunc len by auto
  next
    case False
    then show ?thesis using trunc capture_inv_full[OF inv] by simp
  qed
qed

section \<open>Ruff\<close>

definition ruff_command :: "analyzer_env \<Rightarrow> string list" where
  "ruff_command env = [ae_executable env, ''-m'', ''ruff'', ''check'', ''--isolated'', ''--no-cache'', ''--ignore-noqa'',
     ''--select'', ''E,F,B,UP,SIM'', ''--output-format'', ''json'', SOURCE_NAME]"

definition ruff_severity :: "string \<Rightarrow> finding_severity" where
  "ruff_severity code =
     (if take 1 code \<in> {''E'', ''F''} then Sev_Error else if take 1 code = ''B'' then Sev_Warning else Sev_Info)"

definition ruff_finding :: "pyval \<Rightarrow> finding adapted" where
  "ruff_finding raw =
     and_then (mapping_of raw) (\<lambda>item.
     and_then (string_field item ''code'') (\<lambda>code.
     and_then (mapping_of (dict_get item ''location'')) (\<lambda>location.
     and_then (mapping_of (dict_get item ''end_location'')) (\<lambda>end_location.
     and_then (string_field item ''message'') (\<lambda>message.
     and_then (integer_field location ''row'') (\<lambda>line.
     and_then (integer_field location ''column'') (\<lambda>column.
     and_then (integer_field end_location ''row'') (\<lambda>end_line.
     and_then (integer_field end_location ''column'') (\<lambda>end_column.
       Finding Ruff (ruff_severity code) Cat_Quality (Some code) message
         (Some line, Some column, Some end_line, Some end_column)
         (Some (is_dict (dict_get item ''fix''))) None)))))))))"

definition findings_report :: "finding list \<Rightarrow> analyzer_report" where
  "findings_report findings = \<lparr>ar_findings = findings, ar_complexity = None\<rparr>"

definition ruff_analyze :: "analyzer_env \<Rightarrow> string \<Rightarrow> analyzer_report adapted" where
  "ruff_analyze env code =
     and_then (run_linter env code (ruff_command env)) (\<lambda>result.
     and_then (json_value (ae_loads env) (cr_stdout result)) (\<lambda>payload.
       case payload of
         PyList items \<Rightarrow> and_then (traverse ruff_finding items) (\<lambda>findings. Inr (findings_report findings))
       | _ \<Rightarrow> invalid_output))"

section \<open>Mypy\<close>

definition mypy_command :: "analyzer_env \<Rightarrow> string list" where
  "mypy_command env = [ae_executable env, ''-m'', ''mypy'', ''--output'', ''json'', ''--config-file'', ae_config_path env,
     ''--no-incremental'', ''--cache-dir=/dev/null'', ''--no-site-packages'', ''--follow-imports=skip'', SOURCE_NAME]"

definition mypy_severity :: "string \<Rightarrow> finding_severity" where
  "mypy_severity s = (if s = ''error'' then Sev_Error else if s = ''warning'' then Sev_Warning else Sev_Info)"

definition mypy_finding :: "analyzer_env \<Rightarrow> string \<Rightarrow> finding adapted" where
  "mypy_finding env line =
     and_then (json_value (ae_loads env) line) (\<lambda>raw.
     and_then (mapping_of raw) (\<lambda>item.
     and_then (string_field item ''severity'') (\<lambda>severity.
     and_then (string_field item ''message'') (\<lambda>message.
       Finding Mypy (mypy_severity severity) Cat_Type_Safety (optional_string (dict_get item ''code'')) message
         (positive_optional_integer (dict_get item ''line''), positive_optional_integer (dict_get item ''column''),
          positive_optional_integer (dict_get item ''end_line''), positive_optional_integer (dict_get item ''end_column''))
         None None))))"

definition mypy_lines :: "string \<Rightarrow> string list" where
  "mypy_lines stdout = filter (\<lambda>line. py_strip line \<noteq> []) (splitlines stdout)"

definition mypy_analyze :: "analyzer_env \<Rightarrow> string \<Rightarrow> analyzer_report adapted" where
  "mypy_analyze env code =
     (case ae_parse env code of
        ParseException \<Rightarrow> Inl Unexpected
      | SyntaxFailure e \<Rightarrow>
          and_then (Finding Mypy Sev_Error Cat_Type_Safety (Some ''syntax'') (se_msg e)
             (positive_optional_integer (se_lineno e), positive_optional_integer (se_offset e),
              positive_optional_integer (se_end_lineno e), positive_optional_integer (se_end_offset e)) None None)
            (\<lambda>f. Inr (findings_report [f]))
      | Parses \<Rightarrow>
          and_then (run_linter env code (mypy_command env)) (\<lambda>result.
          and_then (traverse (mypy_finding env) (mypy_lines (cr_stdout result))) (\<lambda>findings.
            Inr (findings_report findings))))"

section \<open>Bandit\<close>

definition bandit_command :: "analyzer_env \<Rightarrow> string list" where
  "bandit_command env = [ae_executable env, ''-m'', ''bandit'', ''--format'', ''json'', ''--quiet'', ''--ignore-nosec'', SOURCE_NAME]"

text \<open>A dictionary lookup and an enumeration constructor, which raise on other values.\<close>

definition bandit_severity :: "string \<Rightarrow> finding_severity adapted" where
  "bandit_severity s =
     (if s = ''LOW'' then Inr Sev_Info else if s = ''MEDIUM'' then Inr Sev_Warning
      else if s = ''HIGH'' then Inr Sev_Error else Inl Unexpected)"

definition FindingConfidence :: "string \<Rightarrow> finding_confidence adapted" where
  "FindingConfidence s =
     (if s = ''low'' then Inr Conf_Low else if s = ''medium'' then Inr Conf_Medium
      else if s = ''high'' then Inr Conf_High else Inl Unexpected)"

definition bandit_finding :: "pyval \<Rightarrow> finding adapted" where
  "bandit_finding raw =
     and_then (mapping_of raw) (\<lambda>item.
     and_then (and_then (string_field item ''issue_severity'') bandit_severity) (\<lambda>severity.
     and_then (and_then (string_field item ''issue_confidence'') (\<lambda>s. FindingConfidence (py_lower s))) (\<lambda>confidence.
     and_then (integer_field item ''col_offset'') (\<lambda>col_offset.
     and_then (integer_field item ''end_col_offset'') (\<lambda>end_col_offset.
     and_then (string_field item ''test_id'') (\<lambda>code.
     and_then (string_field item ''issue_text'') (\<lambda>message.
     and_then (integer_field item ''line_number'') (\<lambda>line.
       Finding Bandit severity Cat_Security (Some code) message
         (Some line, Some (col_offset + 1), None, Some (end_col_offset + 1)) None (Some confidence)))))))))"

definition bandit_error :: "pyval \<Rightarrow> finding adapted" where
  "bandit_error error =
     and_then (mapping_of error) (\<lambda>item.
       let reason = (case optional_string (dict_get item ''reason'') of
             None \<Rightarrow> ''Source could not be parsed''
           | Some s \<Rightarrow> if s = [] then ''Source could not be parsed'' else s)
       in Finding Bandit Sev_Error Cat_Security (Some ''parse-error'') reason
            (positive_optional_integer (dict_get item ''line''), None, None, None) None None)"

definition bandit_analyze :: "analyzer_env \<Rightarrow> string \<Rightarrow> analyzer_report adapted" where
  "bandit_analyze env code =
     and_then (run_linter env code (bandit_command env)) (\<lambda>result.
     and_then (and_then (json_value (ae_loads env) (cr_stdout result)) mapping_of) (\<lambda>payload.
       case (dict_get payload ''results'', dict_get payload ''errors'') of
         (PyList results, PyList errors) \<Rightarrow>
           and_then (traverse bandit_finding results) (\<lambda>findings.
           and_then (traverse bandit_error errors) (\<lambda>failed.
             Inr (findings_report (findings @ failed))))
       | _ \<Rightarrow> invalid_output))"

section \<open>Radon\<close>

definition radon_command :: "analyzer_env \<Rightarrow> string list" where
  "radon_command env = [ae_executable env, ''-m'', ''radon'', ''cc'', ''--json'', ''--show-complexity'', SOURCE_NAME]"

lemma map_of_size: "map_of items k = Some v \<Longrightarrow> size v < size (PyDict items)"
proof -
  assume "map_of items k = Some v"
  then have "(k, v) \<in> set items" by (rule map_of_SomeD)
  then have "size_prod size size (k, v) \<le> size_list (size_prod size size) items"
    by (rule size_list_estimation') simp
  then show ?thesis by simp
qed

lemma mapping_of_Inr: "mapping_of v = Inr items \<longleftrightarrow> v = PyDict items \<and> list_all (\<lambda>(k, _). is_str k) items"
  by (auto simp: mapping_of_def split: pyval.splits)

lemma list_field_Inr:
  "list_field item key fallback = Inr vs \<longleftrightarrow>
     map_of item (PyStr key) = None \<and> vs = fallback \<or> map_of item (PyStr key) = Some (PyList vs)"
  by (auto simp: list_field_def split: option.splits pyval.splits)

function complexities :: "pyval list \<Rightarrow> int list adapted" where
  "complexities [] = Inr []"
| "complexities (raw # raws) =
     and_then (mapping_of raw) (\<lambda>block.
     and_then (integer_field block ''complexity'') (\<lambda>complexity.
     and_then (list_field block ''methods'' []) (\<lambda>methods.
     and_then (list_field block ''closures'' []) (\<lambda>closures.
     and_then (complexities methods) (\<lambda>ms.
     and_then (complexities closures) (\<lambda>cs.
     and_then (complexities raws) (\<lambda>rest.
       Inr (complexity # ms @ cs @ rest))))))))"
  by pat_completeness auto

lemma list_field_size:
  assumes "mapping_of raw = Inr block" "list_field block key [] = Inr vs"
  shows "(vs, raw # raws) \<in> measure (size_list size)"
  using assms map_of_size[of block "PyStr key" "PyList vs"] by (auto simp: mapping_of_Inr list_field_Inr)

termination complexities
  by (relation "measure (size_list size)") (rule wf_measure, (erule list_field_size, assumption)+, simp)

definition looks_like_candidate_parse_error :: "string \<Rightarrow> bool" where
  "looks_like_candidate_parse_error stderr =
     list_ex (\<lambda>marker. is_infix marker (py_lower stderr))
       [''syntaxerror'', ''invalid syntax'', ''unexpected indent'', ''expected an indented'']"

definition radon_parse_error :: "analyzer_report adapted" where
  "radon_parse_error =
     and_then (Finding Radon Sev_Error Cat_Complexity (Some ''parse-error'')
         ''Cyclomatic complexity could not be measured because the source is invalid.'' (None, None, None, None) None None)
       (\<lambda>f. and_then (ComplexityMetrics 0 0 0 False) (\<lambda>m.
          Inr \<lparr>ar_findings = [f], ar_complexity = Some m\<rparr>))"

text \<open>\<^verbatim>\<open>isinstance(raw_blocks, dict) and isinstance(raw_blocks.get("error"), str)\<close>.\<close>

definition radon_error_entry :: "pyval \<Rightarrow> bool" where
  "radon_error_entry v = (case v of PyDict items \<Rightarrow> is_str (dict_get items ''error'') | _ \<Rightarrow> False)"

definition complexity_report :: "int list \<Rightarrow> analyzer_report adapted" where
  "complexity_report xs =
     (let maximum = (if xs = [] then 0 else Max (set xs));
          average = (if xs = [] then 0 else fl64 (of_int (sum_list xs) / of_nat (length xs)))
      in and_then (ComplexityMetrics maximum (py_round2 average) (length xs) True) (\<lambda>m.
           Inr \<lparr>ar_findings = [], ar_complexity = Some m\<rparr>))"

definition radon_analyze :: "analyzer_env \<Rightarrow> string \<Rightarrow> analyzer_report adapted" where
  "radon_analyze env code =
     and_then (run_command env code (radon_command env)) (\<lambda>result.
       if cr_exit_code result = Some 1 \<and> looks_like_candidate_parse_error (cr_stderr result) then radon_parse_error
       else if cr_exit_code result \<noteq> Some 0 then Inl (Failure ''failed'')
       else
         and_then (and_then (json_value (ae_loads env) (cr_stdout result)) mapping_of) (\<lambda>payload.
           let raw_blocks = dict_get payload SOURCE_NAME in
           if radon_error_entry raw_blocks then radon_parse_error
           else case raw_blocks of
                  PyList blocks \<Rightarrow> and_then (complexities blocks) complexity_report
                | _ \<Rightarrow> invalid_output))"

section \<open>The configured pipeline\<close>

definition outcome_of :: "analysis_tool \<Rightarrow> analyzer_report adapted \<Rightarrow> analyzer_outcome" where
  "outcome_of tool r = (case r of
     Inr report \<Rightarrow> Report report
   | Inl (Failure reason) \<Rightarrow> AnalyzerFailure (failure_message tool reason)
   | Inl Unexpected \<Rightarrow> AnalyzerException)"

definition adapter :: "analysis_tool \<Rightarrow> (string \<Rightarrow> analyzer_report adapted) \<Rightarrow> analyzer" where
  "adapter tool f = \<lparr>an_tool = tool_name tool, an_analyze = (\<lambda>code language. outcome_of tool (f code))\<rparr>"

definition configured_analyzers :: "analyzer_env \<Rightarrow> analyzer list" where
  "configured_analyzers env =
     [adapter Ruff (ruff_analyze env), adapter Mypy (mypy_analyze env), adapter Bandit (bandit_analyze env),
      adapter Radon (radon_analyze env)]"

section \<open>Findings are well formed\<close>

fun tool_category :: "analysis_tool \<Rightarrow> finding_category" where
  "tool_category Ruff = Cat_Quality"
| "tool_category Mypy = Cat_Type_Safety"
| "tool_category Bandit = Cat_Security"
| "tool_category Radon = Cat_Complexity"

definition finding_of :: "analysis_tool \<Rightarrow> finding \<Rightarrow> bool" where
  "finding_of tool f \<longleftrightarrow> fd_tool f = Some tool \<and> fd_category f = tool_category tool
     \<and> (\<forall>p \<in> {fd_line f, fd_column f, fd_end_line f, fd_end_column f}. p \<noteq> Some 0)"

lemma position_Inr: "position p = Inr q \<Longrightarrow> q \<noteq> Some 0"
  by (auto simp: position_def split: option.splits if_splits)

lemma Finding_ok: "Finding tool s (tool_category tool) c m ps x k = Inr f \<Longrightarrow> finding_of tool f"
  by (auto simp: Finding_def finding_of_def dest: position_Inr split: prod.splits)

lemma adapter_findings:
  "ruff_finding raw = Inr f \<Longrightarrow> finding_of Ruff f"
  "mypy_finding env line = Inr f \<Longrightarrow> finding_of Mypy f"
  "bandit_finding raw = Inr f \<Longrightarrow> finding_of Bandit f"
  "bandit_error raw = Inr f \<Longrightarrow> finding_of Bandit f"
  using Finding_ok[of Ruff] Finding_ok[of Mypy] Finding_ok[of Bandit]
  by (auto simp: ruff_finding_def mypy_finding_def bandit_finding_def bandit_error_def Let_def)

lemma traverse_findings:
  assumes "traverse g xs = Inr fs" "\<And>x f. g x = Inr f \<Longrightarrow> finding_of tool f"
  shows "length fs = length xs" "\<forall>f \<in> set fs. finding_of tool f"
proof -
  have l: "list_all2 (\<lambda>x y. g x = Inr y) xs fs" using assms(1) by (simp add: traverse_Inr)
  then show "length fs = length xs" by (simp add: list_all2_lengthD)
  from l show "\<forall>f \<in> set fs. finding_of tool f"
    by (induction rule: list_all2_induct) (auto dest: assms(2))
qed

section \<open>Nested blocks\<close>

text \<open>
  What radon reports: a block with its own complexity, its methods and its closures. \<open>encodes\<close> relates the
  JSON objects that the adapter accepts to blocks; other fields of the object do not matter.
\<close>

datatype block = Block int "block list" "block list"

fun measured :: "block \<Rightarrow> int list" where
  "measured (Block c ms cs) = c # concat (map measured ms) @ concat (map measured cs)"

inductive encodes :: "pyval \<Rightarrow> block \<Rightarrow> bool" where
  "mapping_of raw = Inr items \<Longrightarrow> integer_field items ''complexity'' = Inr c \<Longrightarrow>
   list_field items ''methods'' [] = Inr mvs \<Longrightarrow> list_field items ''closures'' [] = Inr cvs \<Longrightarrow>
   list_all2 encodes mvs ms \<Longrightarrow> list_all2 encodes cvs cs \<Longrightarrow> encodes raw (Block c ms cs)"

inductive_cases encodes_BlockE: "encodes raw b"

lemma complexities_encodes:
  "complexities raws = Inr xs \<longleftrightarrow> (\<exists>bs. list_all2 encodes raws bs \<and> xs = concat (map measured bs))"
proof (induction raws arbitrary: xs rule: complexities.induct)
  case (2 raw raws)
  show ?case
  proof
    assume "complexities (raw # raws) = Inr xs"
    then obtain items c mvs cvs ms cs rest where
      f: "mapping_of raw = Inr items" "integer_field items ''complexity'' = Inr c"
        "list_field items ''methods'' [] = Inr mvs" "list_field items ''closures'' [] = Inr cvs"
      and r: "complexities mvs = Inr ms" "complexities cvs = Inr cs" "complexities raws = Inr rest"
      and xs: "xs = c # ms @ cs @ rest" by auto
    from "2.IH"(1)[OF f, of ms] "2.IH"(2)[OF f r(1), of cs] "2.IH"(3)[OF f r(1,2), of rest] r
    obtain mbs cbs bs where b: "list_all2 encodes mvs mbs" "ms = concat (map measured mbs)"
      "list_all2 encodes cvs cbs" "cs = concat (map measured cbs)"
      "list_all2 encodes raws bs" "rest = concat (map measured bs)" by auto
    have "encodes raw (Block c mbs cbs)" using f b(1,3) by (rule encodes.intros)
    with b xs have "list_all2 encodes (raw # raws) (Block c mbs cbs # bs) \<and>
        xs = concat (map measured (Block c mbs cbs # bs))" by simp
    then show "\<exists>bs. list_all2 encodes (raw # raws) bs \<and> xs = concat (map measured bs)" by blast
  next
    assume "\<exists>bs. list_all2 encodes (raw # raws) bs \<and> xs = concat (map measured bs)"
    then obtain b bs where b: "encodes raw b" "list_all2 encodes raws bs" "xs = measured b @ concat (map measured bs)"
      by (auto simp: list_all2_Cons1)
    from b(1) obtain items c mvs cvs ms cs where
      f: "mapping_of raw = Inr items" "integer_field items ''complexity'' = Inr c"
        "list_field items ''methods'' [] = Inr mvs" "list_field items ''closures'' [] = Inr cvs"
      and e: "list_all2 encodes mvs ms" "list_all2 encodes cvs cs" and eq: "b = Block c ms cs"
      by (rule encodes_BlockE)
    have m: "complexities mvs = Inr (concat (map measured ms))" using "2.IH"(1)[OF f] e(1) by blast
    have k: "complexities cvs = Inr (concat (map measured cs))" using "2.IH"(2)[OF f m] e(2) by blast
    have "complexities raws = Inr (concat (map measured bs))" using "2.IH"(3)[OF f m k] b(2) by blast
    with f m k b(3) eq show "complexities (raw # raws) = Inr xs" by simp
  qed
qed auto

section \<open>Properties\<close>

definition finished :: "int set \<Rightarrow> command_result \<Rightarrow> bool" where
  "finished codes r \<longleftrightarrow> cr_exit_code r \<in> Some ` codes \<and> \<not> cr_timed_out r \<and> \<not> cr_output_truncated r"

lemma run_command_Inr:
  "run_command env code args = Inr r \<longleftrightarrow>
     r = ae_run env code args \<and> cr_exit_code r \<noteq> None \<and> \<not> cr_timed_out r \<and> \<not> cr_output_truncated r"
  by (auto simp: run_command_def Let_def)

lemma run_linter_Inr:
  "run_linter env code args = Inr r \<longleftrightarrow> r = ae_run env code args \<and> finished {0, 1} r"
  by (auto simp: run_linter_def run_command_Inr finished_def)

lemma json_value_Inr: "json_value loads s = Inr v \<longleftrightarrow> loads s = Some v"
  by (simp add: json_value_def split: option.splits)

lemma case_list_Inr:
  "(case v of PyList l \<Rightarrow> f l | _ \<Rightarrow> invalid_output) = Inr y \<longleftrightarrow> (\<exists>l. v = PyList l \<and> f l = Inr y)"
  by (cases v) simp_all

lemma case_list_pair_Inr:
  "(case (v, w) of (PyList l, PyList m) \<Rightarrow> f l m | _ \<Rightarrow> invalid_output) = Inr y
     \<longleftrightarrow> (\<exists>l m. v = PyList l \<and> w = PyList m \<and> f l m = Inr y)"
  by (cases v; cases w) simp_all

lemma dict_get_PyList: "dict_get item key = PyList vs \<longleftrightarrow> map_of item (PyStr key) = Some (PyList vs)"
  by (simp add: dict_get_def split: option.splits)

lemmas adapter_results = run_command_Inr run_linter_Inr json_value_Inr case_list_Inr case_list_pair_Inr
  dict_get_PyList mapping_of_Inr

lemma ruff_analyze_Inr:
  assumes "ruff_analyze env code = Inr r"
  shows "finished {0, 1} (ae_run env code (ruff_command env))"
    "\<exists>items. ae_loads env (cr_stdout (ae_run env code (ruff_command env))) = Some (PyList items)
       \<and> length (ar_findings r) = length items"
    "\<forall>f \<in> set (ar_findings r). finding_of Ruff f" "ar_complexity r = None"
proof -
  from assms obtain items fs where i: "finished {0, 1} (ae_run env code (ruff_command env))"
    "ae_loads env (cr_stdout (ae_run env code (ruff_command env))) = Some (PyList items)"
    "traverse ruff_finding items = Inr fs" "r = findings_report fs"
    by (auto simp: ruff_analyze_def adapter_results)
  note t = traverse_findings[OF i(3) adapter_findings(1)]
  from i t show "finished {0, 1} (ae_run env code (ruff_command env))"
    "\<exists>items. ae_loads env (cr_stdout (ae_run env code (ruff_command env))) = Some (PyList items)
       \<and> length (ar_findings r) = length items"
    "\<forall>f \<in> set (ar_findings r). finding_of Ruff f" "ar_complexity r = None"
    by (auto simp: findings_report_def)
qed

lemma mypy_findings: "traverse (mypy_finding env) ls = Inr fs \<Longrightarrow> f \<in> set fs \<Longrightarrow> finding_of Mypy f"
  using traverse_findings(2)[of "mypy_finding env" ls fs Mypy] adapter_findings(2) by blast

lemma mypy_analyze_Inr:
  assumes "mypy_analyze env code = Inr r"
  shows "case ae_parse env code of
       Parses \<Rightarrow> finished {0, 1} (ae_run env code (mypy_command env))
         \<and> length (ar_findings r) = length (mypy_lines (cr_stdout (ae_run env code (mypy_command env))))
     | SyntaxFailure e \<Rightarrow> length (ar_findings r) = 1
     | ParseException \<Rightarrow> False"
    "\<forall>f \<in> set (ar_findings r). finding_of Mypy f" "ar_complexity r = None"
proof -
  show "case ae_parse env code of
       Parses \<Rightarrow> finished {0, 1} (ae_run env code (mypy_command env))
         \<and> length (ar_findings r) = length (mypy_lines (cr_stdout (ae_run env code (mypy_command env))))
     | SyntaxFailure e \<Rightarrow> length (ar_findings r) = 1
     | ParseException \<Rightarrow> False"
    using assms
    by (auto simp: mypy_analyze_def run_linter_Inr findings_report_def traverse_Inr list_all2_lengthD
        split: parse_outcome.splits)
  show "\<forall>f \<in> set (ar_findings r). finding_of Mypy f"
    using assms Finding_ok[of Mypy]
    by (auto simp: mypy_analyze_def findings_report_def intro: mypy_findings split: parse_outcome.splits)
  show "ar_complexity r = None"
    using assms by (auto simp: mypy_analyze_def findings_report_def split: parse_outcome.splits)
qed

lemma bandit_analyze_Inr:
  assumes "bandit_analyze env code = Inr r"
  shows "finished {0, 1} (ae_run env code (bandit_command env))"
    "\<exists>payload results errors. ae_loads env (cr_stdout (ae_run env code (bandit_command env))) = Some (PyDict payload)
       \<and> map_of payload (PyStr ''results'') = Some (PyList results) \<and> map_of payload (PyStr ''errors'') = Some (PyList errors)
       \<and> length (ar_findings r) = length results + length errors"
    "\<forall>f \<in> set (ar_findings r). finding_of Bandit f" "ar_complexity r = None"
proof -
  from assms obtain payload results errors fs es where i: "finished {0, 1} (ae_run env code (bandit_command env))"
    "ae_loads env (cr_stdout (ae_run env code (bandit_command env))) = Some (PyDict payload)"
    "map_of payload (PyStr ''results'') = Some (PyList results)" "map_of payload (PyStr ''errors'') = Some (PyList errors)"
    "traverse bandit_finding results = Inr fs" "traverse bandit_error errors = Inr es" "r = findings_report (fs @ es)"
    by (auto simp: bandit_analyze_def adapter_results)
  note t = traverse_findings[OF i(5) adapter_findings(3)] traverse_findings[OF i(6) adapter_findings(4)]
  from i t show "finished {0, 1} (ae_run env code (bandit_command env))"
    "\<exists>payload results errors. ae_loads env (cr_stdout (ae_run env code (bandit_command env))) = Some (PyDict payload)
       \<and> map_of payload (PyStr ''results'') = Some (PyList results) \<and> map_of payload (PyStr ''errors'') = Some (PyList errors)
       \<and> length (ar_findings r) = length results + length errors"
    "\<forall>f \<in> set (ar_findings r). finding_of Bandit f" "ar_complexity r = None"
    by (auto simp: findings_report_def)
qed

lemma radon_parse_error_Inr:
  "radon_parse_error = Inr r \<Longrightarrow> (\<exists>f. ar_findings r = [f] \<and> finding_of Radon f \<and> fd_severity f = Sev_Error)
     \<and> (\<exists>m. ar_complexity r = Some m \<and> \<not> cm_analyzable m)"
  by (auto simp: radon_parse_error_def Finding_def position_def ComplexityMetrics_def finding_of_def)

lemma radon_analyze_Inr:
  assumes "radon_analyze env code = Inr r"
  shows "finished {0, 1} (ae_run env code (radon_command env))" "\<forall>f \<in> set (ar_findings r). finding_of Radon f"
    "\<exists>m. ar_complexity r = Some m \<and> (cm_analyzable m \<longleftrightarrow> ar_findings r = [])"
proof -
  let ?res = "ae_run env code (radon_command env)"
  have "finished {0, 1} ?res \<and> (radon_parse_error = Inr r \<or> (\<exists>xs. complexity_report xs = Inr r))"
    using assms by (auto simp: radon_analyze_def adapter_results finished_def Let_def split: if_splits)
  moreover have "ar_findings r = [] \<and> (\<exists>m. ar_complexity r = Some m \<and> cm_analyzable m)" if "complexity_report xs = Inr r" for xs
    using that by (auto simp: complexity_report_def ComplexityMetrics_def Let_def split: if_splits)
  ultimately show "finished {0, 1} ?res" "\<forall>f \<in> set (ar_findings r). finding_of Radon f"
    "\<exists>m. ar_complexity r = Some m \<and> (cm_analyzable m \<longleftrightarrow> ar_findings r = [])"
    using radon_parse_error_Inr[of r] by auto
qed

lemma outcome_of_Report: "outcome_of tool x = Report r \<longleftrightarrow> x = Inr r"
  by (simp add: outcome_of_def split: sum.splits analyzer_exn.splits)

lemma configured_analysis_Inr:
  assumes "analyze (configured_analyzers env) code lang = Inr res"
  obtains r m b c where "ruff_analyze env code = Inr r" "mypy_analyze env code = Inr m"
    "bandit_analyze env code = Inr b" "radon_analyze env code = Inr c"
    "sa_findings res = ar_findings r @ ar_findings m @ ar_findings b @ ar_findings c"
    "Some (sa_complexity res) = ar_complexity c"
proof -
  from assms obtain fs cx where l: "analyze_loop code lang [] None (configured_analyzers env) = Inr (fs, Some cx)"
    and res: "res = \<lparr>sa_findings = fs, sa_complexity = cx\<rparr>"
    by (auto simp: analyze_def split: sum.splits option.splits)
  have "\<forall>a \<in> set (configured_analyzers env). \<exists>r. an_analyze a code lang = Report r" using analyze_loop_Inr[OF l] by blast
  then obtain r m b c where r: "ruff_analyze env code = Inr r" "mypy_analyze env code = Inr m"
    "bandit_analyze env code = Inr b" "radon_analyze env code = Inr c"
    by (auto simp: configured_analyzers_def adapter_def outcome_of_Report)
  have "ar_complexity r = None" "ar_complexity m = None" "ar_complexity b = None"
    using ruff_analyze_Inr(4)[OF r(1)] mypy_analyze_Inr(3)[OF r(2)] bandit_analyze_Inr(4)[OF r(3)] by auto
  with l r that res show ?thesis
    by (auto simp: configured_analyzers_def adapter_def outcome_of_def split: option.splits)
qed

text \<open>
  C39: A static analysis is trustworthy: it is returned only if ruff, bandit and radon, and mypy on code that
  parses, ended with exit code 0 or 1 within their time and output limits. Its findings are those of ruff,
  mypy, bandit and radon in this order: one for each entry that ruff's output lists, one for each line of mypy's
  that is not blank (or one for the syntax error), one for each result and each error of bandit's. Every
  finding carries its tool, the category of that tool and positions from 1 on, and the metrics are
  marked as not analyzable exactly if radon contributed a finding.
\<close>
theorem static_analysis_trustworthy:
  assumes "analyze (configured_analyzers env) code lang = Inr res"
  shows "\<exists>rs ms bs cs. sa_findings res = rs @ ms @ bs @ cs
    \<and> (\<forall>f\<in>set rs. finding_of Ruff f) \<and> (\<forall>f\<in>set ms. finding_of Mypy f)
    \<and> (\<forall>f\<in>set bs. finding_of Bandit f) \<and> (\<forall>f\<in>set cs. finding_of Radon f)
    \<and> finished {0, 1} (ae_run env code (ruff_command env))
    \<and> (\<exists>items. ae_loads env (cr_stdout (ae_run env code (ruff_command env))) = Some (PyList items)
         \<and> length rs = length items)
    \<and> (case ae_parse env code of
         Parses \<Rightarrow> finished {0, 1} (ae_run env code (mypy_command env))
           \<and> length ms = length (mypy_lines (cr_stdout (ae_run env code (mypy_command env))))
       | SyntaxFailure e \<Rightarrow> length ms = 1
       | ParseException \<Rightarrow> False)
    \<and> finished {0, 1} (ae_run env code (bandit_command env))
    \<and> (\<exists>payload results errors. ae_loads env (cr_stdout (ae_run env code (bandit_command env))) = Some (PyDict payload)
         \<and> map_of payload (PyStr ''results'') = Some (PyList results)
         \<and> map_of payload (PyStr ''errors'') = Some (PyList errors)
         \<and> length bs = length results + length errors)
    \<and> finished {0, 1} (ae_run env code (radon_command env))
    \<and> (cm_analyzable (sa_complexity res) \<longleftrightarrow> cs = [])"
proof -
  from assms obtain r m b c where a: "ruff_analyze env code = Inr r" "mypy_analyze env code = Inr m"
    "bandit_analyze env code = Inr b" "radon_analyze env code = Inr c"
    and f: "sa_findings res = ar_findings r @ ar_findings m @ ar_findings b @ ar_findings c"
    and x: "Some (sa_complexity res) = ar_complexity c" by (rule configured_analysis_Inr)
  have "cm_analyzable (sa_complexity res) \<longleftrightarrow> ar_findings c = []"
    using radon_analyze_Inr(3)[OF a(4)] x by auto
  with f ruff_analyze_Inr(1-3)[OF a(1)] mypy_analyze_Inr(1,2)[OF a(2)] bandit_analyze_Inr(1-3)[OF a(3)]
    radon_analyze_Inr(1,2)[OF a(4)]
  show ?thesis by blast
qed

lemma complexity_report_nonneg:
  assumes "\<forall>x\<in>set xs. 0 \<le> x"
  shows "complexity_report xs = Inr \<lparr>ar_findings = [], ar_complexity = Some
    \<lparr>cm_maximum = nat (if xs = [] then 0 else Max (set xs)),
     cm_average = py_round2 (if xs = [] then 0 else fl64 (of_int (sum_list xs) / of_nat (length xs))),
     cm_blocks = length xs, cm_analyzable = True\<rparr>\<rparr>"
proof -
  have "0 \<le> sum_list xs" using assms by (intro sum_list_nonneg) simp
  then have "0 \<le> fl64 (of_int (sum_list xs) / of_nat (length xs))" using fl64_mono[of 0] by simp
  then have "0 \<le> py_round2 (fl64 (of_int (sum_list xs) / of_nat (length xs)))" using py_round2_mono[of 0] by simp
  moreover have "\<not> Max (set xs) < 0" if "xs \<noteq> []"
    using that assms Max_in[of "set xs"] by (simp add: not_less del: Max_less_iff)
  ultimately show ?thesis by (simp add: complexity_report_def ComplexityMetrics_def Let_def del: Max_less_iff)
qed

text \<open>
  Radon's metrics cover every block. When radon succeeds and its output lists blocks for the source
  file, nested as methods and closures to any depth and with complexities that are not negative, the report has
  no findings, counts all blocks, and its maximum and average (rounded to two decimals in binary64) are
  those of the complexities of all of them.
\<close>
theorem radon_measures_every_block:
  fixes env code bs
  defines "r \<equiv> ae_run env code (radon_command env)" and "xs \<equiv> concat (map measured bs)"
  assumes "finished {0} r" "ae_loads env (cr_stdout r) = Some (PyDict payload)" "list_all (\<lambda>(k, _). is_str k) payload"
    and "map_of payload (PyStr SOURCE_NAME) = Some (PyList raws)" "list_all2 encodes raws bs" "\<forall>x\<in>set xs. 0 \<le> x"
  shows "\<exists>m. radon_analyze env code = Inr \<lparr>ar_findings = [], ar_complexity = Some m\<rparr>
    \<and> cm_analyzable m \<and> cm_blocks m = length xs
    \<and> (if xs = [] then cm_maximum m = 0 else int (cm_maximum m) \<in> set xs)
    \<and> (\<forall>x\<in>set xs. x \<le> int (cm_maximum m))
    \<and> cm_average m = py_round2 (if xs = [] then 0 else fl64 (of_int (sum_list xs) / of_nat (length xs)))"
proof -
  have "complexities raws = Inr xs" using assms(7) by (auto simp: complexities_encodes xs_def)
  then have "radon_analyze env code = complexity_report xs"
    using assms(3-6)
    by (simp add: radon_analyze_def run_command_def finished_def r_def[symmetric] Let_def json_value_def mapping_of_def
        dict_get_def radon_error_entry_def image_iff)
  moreover have "int (nat (Max (set xs))) = Max (set xs)" if "xs \<noteq> []"
    using that assms(8) Max_in[of "set xs"] by simp
  ultimately show ?thesis using Max_in[of "set xs"] Max_ge[of "set xs"]
    by (auto simp: complexity_report_nonneg[OF assms(8)])
qed

text \<open>A run of all four tools: one lint, one note, nothing insecure, and a class with one method.\<close>

definition ex_blocks :: "pyval list" where
  "ex_blocks = [PyDict [(PyStr ''type'', PyStr ''class''), (PyStr ''complexity'', PyInt 2),
     (PyStr ''methods'', PyList [PyDict [(PyStr ''complexity'', PyInt 5), (PyStr ''closures'', PyList [])]])]]"

definition ex_position :: pyval where
  "ex_position = PyDict [(PyStr ''row'', PyInt 1), (PyStr ''column'', PyInt 1)]"

definition ex_loads :: "string \<Rightarrow> pyval option" where
  "ex_loads s =
     (if s = ''ruff'' then Some (PyList [PyDict [(PyStr ''code'', PyStr ''E501''), (PyStr ''location'', ex_position),
         (PyStr ''end_location'', ex_position), (PyStr ''message'', PyStr ''line too long'')]])
      else if s = ''mypy'' then Some (PyDict [(PyStr ''severity'', PyStr ''note''), (PyStr ''message'', PyStr ''m'')])
      else if s = ''bandit'' then Some (PyDict [(PyStr ''results'', PyList []), (PyStr ''errors'', PyList [])])
      else if s = ''radon'' then Some (PyDict [(PyStr SOURCE_NAME, PyList ex_blocks)])
      else None)"

definition ex_tools :: analyzer_env where
  "ex_tools = \<lparr>ae_executable = ''python'', ae_config_path = ''mypy.ini'',
     ae_run = (\<lambda>code args. \<lparr>cr_exit_code = Some 0, cr_stdout = args ! 2, cr_stderr = [], cr_duration_seconds = 1,
        cr_timed_out = False, cr_output_truncated = False\<rparr>),
     ae_loads = ex_loads, ae_parse = (\<lambda>_. Parses)\<rparr>"

theorem static_analysis_trustworthy_witness:
  "\<exists>res. analyze (configured_analyzers ex_tools) ''x = 1'' ''python'' = Inr res \<and> 2 \<le> length (sa_findings res)"
proof -
  have "is_ok (analyze (configured_analyzers ex_tools) ''x = 1'' ''python'')" by code_simp
  then obtain res where res: "analyze (configured_analyzers ex_tools) ''x = 1'' ''python'' = Inr res"
    by (auto simp: is_ok_def split: sum.splits)
  have "mypy_lines ''mypy'' = [''mypy'']" by code_simp
  with static_analysis_trustworthy[OF res] have "2 \<le> length (sa_findings res)"
    by (auto simp: ex_tools_def ruff_command_def mypy_command_def ex_loads_def)
  with res show ?thesis by blast
qed

theorem radon_measures_every_block_witness:
  "\<exists>m. radon_analyze ex_tools ''x = 1'' = Inr \<lparr>ar_findings = [], ar_complexity = Some m\<rparr> \<and> cm_blocks m = 2 \<and> cm_maximum m = 5"
proof -
  have e: "list_all2 encodes ex_blocks [Block 2 [Block 5 [] []] []]"
    by (auto simp: ex_blocks_def encodes.simps mapping_of_def is_str_def integer_field_def dict_get_def list_field_def)
  have "finished {0} (ae_run ex_tools ''x = 1'' (radon_command ex_tools))"
    "ae_loads ex_tools (cr_stdout (ae_run ex_tools ''x = 1'' (radon_command ex_tools))) = Some (PyDict [(PyStr SOURCE_NAME, PyList ex_blocks)])"
    by (simp_all add: ex_tools_def finished_def radon_command_def ex_loads_def)
  from radon_measures_every_block[OF this _ _ e] show ?thesis by (auto simp: is_str_def)
qed

end
