(* ===== verification/DockerRunner.thy ===== *)
theory DockerRunner
  imports Harness Analyzers
begin

text \<open>
  The Docker runner of \<^verbatim>\<open>src/app/runners/docker_runner.py\<close> with the CLI adapter of \<^verbatim>\<open>docker_cli.py\<close>. What the
  runner awaits is an event of a history, newest first; the client answers an event by a function of the
  history that the event is the head of, with a result or with an exception: a cancellation, a timeout, or any
  other. So the answers range over all behaviours of the daemon, of the candidate and of the caller
  that cancels. The clock, files and the JSON reader are part of the client.
\<close>

section \<open>Awaiting the client\<close>

datatype docker_exn = Cancelled | TimedOut | ProtocolError string | OsError | OtherError string

datatype docker_event =
    Ran "string list" rat int \<comment> \<open>arguments, time limit and output limit\<close>
  | Opened "string list" int
  | Wrote pyval
  | ReadLine nat
  | Waited
  | Terminated
  | Slept rat
  | Prepared "string list"

type_synonym history = "docker_event list"
type_synonym 'a docker = "history \<Rightarrow> history \<times> (docker_exn + 'a)"

definition pure :: "'a \<Rightarrow> 'a docker" where
  "pure x = (\<lambda>h. (h, Inr x))"

definition throw :: "docker_exn \<Rightarrow> 'a docker" where
  "throw e = (\<lambda>h. (h, Inl e))"

definition await_do :: "'a docker \<Rightarrow> ('a \<Rightarrow> 'b docker) \<Rightarrow> 'b docker" where
  "await_do m f = (\<lambda>h. case m h of (h', Inl e) \<Rightarrow> (h', Inl e) | (h', Inr x) \<Rightarrow> f x h')"

definition await_event :: "docker_event \<Rightarrow> (history \<Rightarrow> docker_exn + 'a) \<Rightarrow> 'a docker" where
  "await_event event answer = (\<lambda>h. (event # h, answer (event # h)))"

text \<open>A value that depends on the moment, like the time.\<close>

definition now_do :: "(history \<Rightarrow> 'a) \<Rightarrow> ('a \<Rightarrow> 'b docker) \<Rightarrow> 'b docker" where
  "now_do get f = (\<lambda>h. f (get h) h)"

text \<open>\<^verbatim>\<open>except asyncio.CancelledError: ...; raise\<close> and \<^verbatim>\<open>finally\<close>.\<close>

definition on_cancelled :: "'a docker \<Rightarrow> unit docker \<Rightarrow> 'a docker" where
  "on_cancelled m cleanup = (\<lambda>h. case m h of
     (h', Inl Cancelled) \<Rightarrow> await_do cleanup (\<lambda>_. throw Cancelled) h' | r \<Rightarrow> r)"

definition finally_do :: "'a docker \<Rightarrow> unit docker \<Rightarrow> 'a docker" where
  "finally_do m cleanup = (\<lambda>h. case m h of (h', r) \<Rightarrow>
     (case cleanup h' of (h'', Inl e) \<Rightarrow> (h'', Inl e) | (h'', Inr _) \<Rightarrow> (h'', r)))"

section \<open>The client\<close>

text \<open>A line of the protocol: its length, whether it ends with a newline, and what \<^verbatim>\<open>json.loads\<close> makes of it.\<close>

record protocol_line =
  ln_length :: nat
  ln_newline :: bool
  ln_value :: "pyval option"

text \<open>A report file: whether it can be opened, is a regular file, its size, and what it holds.\<close>

record report_file =
  rf_openable :: bool
  rf_regular :: bool
  rf_size :: nat
  rf_readable :: bool
  rf_payload :: bytes

record docker_client =
  dc_run :: "history \<Rightarrow> docker_exn + command_result"
  dc_open :: "history \<Rightarrow> docker_exn + unit"
  dc_write :: "history \<Rightarrow> docker_exn + unit"
  dc_readline :: "history \<Rightarrow> docker_exn + protocol_line"
  dc_wait :: "history \<Rightarrow> docker_exn + int option"
  dc_terminate :: "history \<Rightarrow> docker_exn + unit"
  dc_sleep :: "history \<Rightarrow> docker_exn + unit"
  dc_prepare :: "history \<Rightarrow> docker_exn + unit"
  dc_stderr :: "history \<Rightarrow> string"
  dc_truncated :: "history \<Rightarrow> bool"
  dc_clock :: "history \<Rightarrow> rat"
  dc_timestamp :: "history \<Rightarrow> string"
  dc_report :: "history \<Rightarrow> report_file"
  dc_loads :: "string \<Rightarrow> pyval option"
  dc_loads_bytes :: "bytes \<Rightarrow> pyval option" \<comment> \<open>\<^verbatim>\<open>json.loads(payload.decode("utf-8"))\<close>\<close>
  dc_size :: "pyval \<Rightarrow> nat" \<comment> \<open>length of the compact JSON text\<close>
  dc_str :: "pyval \<Rightarrow> string"
  dc_format_g :: "rat \<Rightarrow> string"

section \<open>Bounded output of the CLI\<close>

text \<open>
  \<^verbatim>\<open>DockerCli.run\<close>; its capture is the one of \<^verbatim>\<open>Analyzers\<close>. \<open>decode\<close> is the lenient UTF-8 decoding, and a
  started process is known by its return code, whether the time ran out, and the chunks it writes.
\<close>

datatype cli_process = CannotStart | WithoutPipes "int option" | Started "int option" bool "(pipe \<times> bytes) list"

definition docker_cli_run :: "(bytes \<Rightarrow> string) \<Rightarrow> nat \<Rightarrow> rat \<Rightarrow> cli_process \<Rightarrow> command_result" where
  "docker_cli_run decode output_limit_bytes duration process =
     (case process of
        CannotStart \<Rightarrow>
          \<lparr>cr_exit_code = None, cr_stdout = [], cr_stderr = ''Docker CLI could not be started.'',
           cr_duration_seconds = duration, cr_timed_out = False, cr_output_truncated = False\<rparr>
      | WithoutPipes code \<Rightarrow>
          \<lparr>cr_exit_code = code, cr_stdout = [], cr_stderr = ''Docker CLI pipes could not be created.'',
           cr_duration_seconds = duration, cr_timed_out = False, cr_output_truncated = False\<rparr>
      | Started code timed_out chunks \<Rightarrow>
          (let capture = drain output_limit_bytes chunks in
           \<lparr>cr_exit_code = code, cr_stdout = decode (bc_stdout capture), cr_stderr = decode (bc_stderr capture),
            cr_duration_seconds = duration, cr_timed_out = timed_out, cr_output_truncated = bc_truncated capture\<rparr>))"

text \<open>The check of \<^verbatim>\<open>AttachedDockerProcess.read_line\<close>.\<close>

definition bounded_line :: "nat \<Rightarrow> protocol_line \<Rightarrow> docker_exn + protocol_line" where
  "bounded_line limit_bytes line =
     (if limit_bytes < ln_length line \<or> ln_length line = limit_bytes \<and> \<not> ln_newline line
      then Inl (OtherError ''Docker protocol response exceeded its limit'') else Inr line)"

definition read_line :: "docker_client \<Rightarrow> nat \<Rightarrow> protocol_line docker" where
  "read_line cl limit_bytes =
     await_event (ReadLine limit_bytes) (\<lambda>h. and_then (dc_readline cl h) (bounded_line limit_bytes))"

definition write_line :: "docker_client \<Rightarrow> pyval \<Rightarrow> unit docker" where
  "write_line cl payload = await_event (Wrote payload) (dc_write cl)"

definition process_wait :: "docker_client \<Rightarrow> int option docker" where
  "process_wait cl = await_event Waited (dc_wait cl)"

definition process_terminate :: "docker_client \<Rightarrow> unit docker" where
  "process_terminate cl = await_event Terminated (dc_terminate cl)"

definition sleep_for :: "docker_client \<Rightarrow> rat \<Rightarrow> unit docker" where
  "sleep_for cl seconds = await_event (Slept seconds) (dc_sleep cl)"

section \<open>Configuration and commands\<close>

definition CONTROL_TIMEOUT_SECONDS :: rat where "CONTROL_TIMEOUT_SECONDS = 10"
definition CONTROL_OUTPUT_LIMIT_BYTES :: int where "CONTROL_OUTPUT_LIMIT_BYTES = 64 * 1024"
definition REPORT_LIMIT_BYTES :: nat where "REPORT_LIMIT_BYTES = 64 * 1024"
definition OOM_EVENT_ATTEMPTS :: nat where "OOM_EVENT_ATTEMPTS = 9"
definition OOM_EVENT_RETRY_DELAY_SECONDS :: rat where "OOM_EVENT_RETRY_DELAY_SECONDS = 1 / 4"

datatype docker_capability_failure = CLI_MISSING | DAEMON_UNAVAILABLE | PROBE_TIMEOUT | IMAGE_MISSING | PROBE_FAILED

primrec capability_reason :: "docker_capability_failure \<Rightarrow> string" where
  "capability_reason CLI_MISSING = ''docker_cli_missing''"
| "capability_reason DAEMON_UNAVAILABLE = ''docker_daemon_unavailable''"
| "capability_reason PROBE_TIMEOUT = ''docker_probe_timeout''"
| "capability_reason IMAGE_MISSING = ''sandbox_image_missing''"
| "capability_reason PROBE_FAILED = ''docker_probe_failed''"

record docker_config =
  dk_image :: string
  dk_memory_mb :: int
  dk_cpus :: rat
  dk_pids_limit :: int
  dk_timeout_seconds :: rat
  dk_output_limit_bytes :: int

text \<open>\<open>__post_init__\<close>: a configuration, or the message of the \<^verbatim>\<open>ValueError\<close>.\<close>

definition DockerSandboxConfig :: "string \<Rightarrow> int \<Rightarrow> rat \<Rightarrow> int \<Rightarrow> rat \<Rightarrow> int \<Rightarrow> string + docker_config" where
  "DockerSandboxConfig sandbox_image memory_mb cpus pids_limit timeout_seconds output_limit_bytes =
     (if py_strip sandbox_image = [] then Inl ''Sandbox image must not be blank''
      else if memory_mb \<le> 0 \<or> cpus \<le> 0 \<or> pids_limit \<le> 0 \<or> timeout_seconds \<le> 0 \<or> output_limit_bytes \<le> 0
      then Inl ''Sandbox resource limits must be greater than zero''
      else Inr \<lparr>dk_image = sandbox_image, dk_memory_mb = memory_mb, dk_cpus = cpus, dk_pids_limit = pids_limit,
             dk_timeout_seconds = timeout_seconds, dk_output_limit_bytes = output_limit_bytes\<rparr>)"

record docker_runner =
  dr_config :: docker_config
  dr_client :: docker_client
  dr_cli_missing :: bool \<comment> \<open>the path of the binary is checked, and there is none\<close>
  dr_attempts :: nat
  dr_retry_delay :: rat
  dr_table :: "string \<times> int \<Rightarrow> official_case list option"

text \<open>\<^verbatim>\<open>__init__\<close>, with the trusted harness.\<close>

definition DockerPythonRunner ::
    "docker_config \<Rightarrow> docker_client \<Rightarrow> bool \<Rightarrow> int \<Rightarrow> rat \<Rightarrow> (string \<times> int \<Rightarrow> official_case list option)
     \<Rightarrow> string + docker_runner" where
  "DockerPythonRunner config cl cli_missing attempts delay table =
     (if attempts \<le> 0 \<or> delay < 0 then Inl ''Capability retry settings must be bounded and nonnegative''
      else Inr \<lparr>dr_config = config, dr_client = cl, dr_cli_missing = cli_missing, dr_attempts = nat attempts,
             dr_retry_delay = delay, dr_table = table\<rparr>)"

definition control_command :: "docker_client \<Rightarrow> string list \<Rightarrow> command_result docker" where
  "control_command cl arguments =
     await_event (Ran arguments CONTROL_TIMEOUT_SECONDS CONTROL_OUTPUT_LIMIT_BYTES) (dc_run cl)"

definition docker_kill :: "docker_client \<Rightarrow> string \<Rightarrow> unit docker" where
  "docker_kill cl container_name = await_do (control_command cl [''kill'', container_name]) (\<lambda>_. pure ())"

text \<open>\<^verbatim>\<open>_remove\<close>, without the log entry.\<close>

definition docker_remove :: "docker_client \<Rightarrow> string \<Rightarrow> unit docker" where
  "docker_remove cl container_name = await_do (control_command cl [''rm'', ''--force'', container_name]) (\<lambda>_. pure ())"

section \<open>The transport\<close>

definition protocol_response :: "int \<Rightarrow> protocol_line \<Rightarrow> docker_exn + pyval" where
  "protocol_response request_id line =
     (case ln_value line of
        None \<Rightarrow> Inl (ProtocolError ''Candidate protocol returned invalid JSON'')
      | Some response \<Rightarrow>
          if \<not> is_dict response \<or> \<not> py_eq (get_field response ''id'') (PyInt request_id)
          then Inl (ProtocolError ''Candidate protocol response ID mismatch'') else Inr response)"

text \<open>\<^verbatim>\<open>{"id": request_id, **payload}\<close>, for a payload without an identity.\<close>

definition with_id :: "int \<Rightarrow> pyval \<Rightarrow> pyval" where
  "with_id request_id payload = (case payload of
     PyDict items \<Rightarrow> PyDict ((PyStr ''id'', PyInt request_id) # items) | _ \<Rightarrow> payload)"

text \<open>\<^verbatim>\<open>_CandidateTransport.request\<close>: the next identity is used up before anything can go wrong.\<close>

definition exchange :: "docker_client \<Rightarrow> int \<Rightarrow> pyval \<Rightarrow> pyval docker" where
  "exchange cl request_id payload =
     (let encoded = with_id request_id payload in
      if REPORT_LIMIT_BYTES < dc_size cl encoded
      then throw (ProtocolError ''Candidate protocol request exceeded its limit'')
      else await_do (write_line cl encoded) (\<lambda>_.
           await_do (read_line cl REPORT_LIMIT_BYTES) (\<lambda>line h. (h, protocol_response request_id line))))"

definition candidate_request :: "docker_client \<Rightarrow> (int \<times> history, docker_exn) transport" where
  "candidate_request cl = (\<lambda>(next_id, h) payload. map_prod (Pair (next_id + 1)) id (exchange cl next_id payload h))"

definition candidate_shutdown :: "docker_client \<Rightarrow> int \<Rightarrow> unit docker" where
  "candidate_shutdown cl next_id = (\<lambda>h.
     case candidate_request cl (next_id, h) (json_object [(''op'', PyStr ''shutdown'')]) of
       ((_, h'), Inl e) \<Rightarrow> (h', Inl e)
     | ((_, h'), Inr response) \<Rightarrow>
         if get_field response ''ok'' \<noteq> PyBool True
         then (h', Inl (ProtocolError ''Candidate supervisor rejected shutdown'')) else (h', Inr ()))"

primrec exn_of :: "docker_exn harness_exn \<Rightarrow> docker_exn" where
  "exn_of (HarnessProtocolError m) = ProtocolError m"
| "exn_of (TransportError e) = e"

text \<open>What runs under \<^verbatim>\<open>asyncio.timeout\<close>.\<close>

definition official_session ::
    "docker_client \<Rightarrow> (string \<times> int \<Rightarrow> official_case list option) \<Rightarrow> string \<Rightarrow> int
     \<Rightarrow> (harness_report \<times> int option) docker" where
  "official_session cl table task_id revision = (\<lambda>h.
     case harness_evaluate (dc_str cl) table (candidate_request cl) (1, h) task_id revision of
       ((_, h'), Inl e) \<Rightarrow> (h', Inl (exn_of e))
     | ((next_id, h'), Inr report) \<Rightarrow>
         await_do (candidate_shutdown cl next_id) (\<lambda>_.
         await_do (process_wait cl) (\<lambda>code. pure (report, code))) h')"

section \<open>Capability\<close>

definition probe_failure :: "command_result \<Rightarrow> docker_capability_failure option" where
  "probe_failure result =
     (if cr_timed_out result then Some PROBE_TIMEOUT
      else if cr_exit_code result = None then Some PROBE_FAILED
      else if cr_exit_code result \<noteq> Some 0 then Some DAEMON_UNAVAILABLE
      else if py_strip (cr_stdout result) = [] then Some PROBE_FAILED
      else None)"

definition capability_detail :: "docker_config \<Rightarrow> docker_capability_failure \<Rightarrow> string" where
  "capability_detail config reason =
     (case reason of
        PROBE_TIMEOUT \<Rightarrow> ''Docker capability probe timed out.''
      | PROBE_FAILED \<Rightarrow> ''Docker capability probe failed.''
      | IMAGE_MISSING \<Rightarrow> ''Sandbox image '' @ [CHR 0x27] @ dk_image config @ [CHR 0x27] @ '' is unavailable.''
      | _ \<Rightarrow> ''Docker daemon is unavailable.'')"

primrec probe_retries ::
    "docker_runner \<Rightarrow> string list \<Rightarrow> bool \<Rightarrow> nat list \<Rightarrow> command_result \<Rightarrow> command_result docker" where
  "probe_retries dr arguments retry_nonzero [] result = pure result"
| "probe_retries dr arguments retry_nonzero (attempt # attempts) result =
     (if probe_failure result = None \<or> probe_failure result = Some DAEMON_UNAVAILABLE \<and> \<not> retry_nonzero
      then pure result
      else await_do (sleep_for (dr_client dr) (dr_retry_delay dr * of_nat attempt)) (\<lambda>_.
           await_do (control_command (dr_client dr) arguments)
             (probe_retries dr arguments retry_nonzero attempts)))"

definition capability_probe :: "docker_runner \<Rightarrow> string list \<Rightarrow> bool \<Rightarrow> command_result docker" where
  "capability_probe dr arguments retry_nonzero =
     await_do (control_command (dr_client dr) arguments)
       (probe_retries dr arguments retry_nonzero [1..<dr_attempts dr])"

definition unavailable :: "string \<Rightarrow> docker_capability_failure \<Rightarrow> runner_capability" where
  "unavailable detail reason =
     \<lparr>rc_backend = ''docker'', rc_available = False, rc_detail = detail, rc_reason = Some (capability_reason reason)\<rparr>"

definition INFO_COMMAND :: "string list" where
  "INFO_COMMAND = [''info'', ''--format'', ''{{.ServerVersion}}'']"

definition check_capability :: "docker_runner \<Rightarrow> runner_capability docker" where
  "check_capability dr =
     (let config = dr_config dr in
      if dr_cli_missing dr then pure (unavailable ''Docker CLI is unavailable.'' CLI_MISSING)
      else await_do (capability_probe dr INFO_COMMAND True) (\<lambda>daemon.
        case probe_failure daemon of
          Some reason \<Rightarrow> pure (unavailable (capability_detail config reason) reason)
        | None \<Rightarrow>
            await_do (capability_probe dr [''image'', ''inspect'', ''--format'', ''{{.Id}}'', dk_image config] False)
              (\<lambda>image.
              case probe_failure image of
                Some image_failure \<Rightarrow>
                  (if cr_exit_code image \<notin> {None, Some 0} \<and> \<not> cr_timed_out image
                   then await_do (capability_probe dr INFO_COMMAND True) (\<lambda>confirmation.
                     let reason = (case probe_failure confirmation of Some f \<Rightarrow> f | None \<Rightarrow> IMAGE_MISSING)
                     in pure (unavailable (capability_detail config reason) reason))
                   else pure (unavailable (capability_detail config image_failure) image_failure))
              | None \<Rightarrow> pure \<lparr>rc_backend = ''docker'', rc_available = True,
                    rc_detail = ''Docker sandbox image '' @ [CHR 0x27] @ dk_image config @ [CHR 0x27] @ '' is available.'',
                    rc_reason = None\<rparr>)))"

section \<open>The state of the container\<close>

record container_state =
  cs_exit_code :: int
  cs_oom_killed :: bool

definition container_state_of :: "pyval \<Rightarrow> container_state option" where
  "container_state_of raw =
     (if \<not> is_dict raw then None
      else case (plain_int (get_field raw ''ExitCode''), get_field raw ''OOMKilled'') of
        (Some exit_code, PyBool oom_killed) \<Rightarrow> Some \<lparr>cs_exit_code = exit_code, cs_oom_killed = oom_killed\<rparr>
      | _ \<Rightarrow> None)"

definition inspect_state :: "docker_client \<Rightarrow> string \<Rightarrow> container_state option docker" where
  "inspect_state cl container_name =
     await_do (control_command cl [''inspect'', ''--format'', ''{{json .State}}'', container_name]) (\<lambda>result.
       pure (if cr_exit_code result \<noteq> Some 0 \<or> cr_timed_out result then None
             else case dc_loads cl (cr_stdout result) of None \<Rightarrow> None | Some raw \<Rightarrow> container_state_of raw))"

definition oom_event :: "string \<Rightarrow> string \<Rightarrow> pyval \<Rightarrow> bool" where
  "oom_event container_reference container_name event =
     (let action = field_or event ''Action'' (get_field event ''status'');
          actor = get_field event ''Actor'';
          actor_id = (if is_dict actor then get_field actor ''ID'' else get_field event ''id'');
          attributes = (if is_dict actor then get_field actor ''Attributes'' else PyNone)
      in is_dict event \<and> action = PyStr ''oom''
         \<and> (actor_id = PyStr container_reference \<or> get_field attributes ''name'' = PyStr container_name))"

definition oom_line :: "docker_client \<Rightarrow> string \<Rightarrow> string \<Rightarrow> string \<Rightarrow> bool" where
  "oom_line cl container_reference container_name line =
     (case dc_loads cl line of None \<Rightarrow> False | Some event \<Rightarrow> oom_event container_reference container_name event)"

definition events_command :: "string \<Rightarrow> string \<Rightarrow> string \<Rightarrow> string list" where
  "events_command container_reference since until =
     [''events'', ''--since'', since, ''--until'', until, ''--filter'', ''container='' @ container_reference,
      ''--filter'', ''event=oom'', ''--format'', ''{{json .}}'']"

text \<open>The attempts of \<^verbatim>\<open>_has_oom_event\<close>, with the number of those that are left.\<close>

primrec oom_attempts :: "docker_client \<Rightarrow> string \<Rightarrow> string \<Rightarrow> string \<Rightarrow> nat \<Rightarrow> string \<Rightarrow> bool docker" where
  "oom_attempts cl container_reference container_name since 0 until = pure False"
| "oom_attempts cl container_reference container_name since (Suc n) until =
     await_do (control_command cl (events_command container_reference since until)) (\<lambda>result.
       if cr_exit_code result \<noteq> Some 0 \<or> cr_timed_out result \<or> cr_output_truncated result then pure False
       else if list_ex (oom_line cl container_reference container_name) (splitlines (cr_stdout result))
       then pure True
       else if n = 0 then pure False
       else await_do (sleep_for cl OOM_EVENT_RETRY_DELAY_SECONDS) (\<lambda>_.
            now_do (dc_timestamp cl) (oom_attempts cl container_reference container_name since n)))"

definition has_oom_event :: "docker_client \<Rightarrow> string \<Rightarrow> string \<Rightarrow> string \<Rightarrow> bool docker" where
  "has_oom_event cl container_reference container_name since =
     now_do (dc_timestamp cl) (oom_attempts cl container_reference container_name since OOM_EVENT_ATTEMPTS)"

text \<open>The same four lines in three places: the flag, or the events of a container that was killed.\<close>

definition oom_verdict :: "docker_client \<Rightarrow> string \<Rightarrow> string \<Rightarrow> string \<Rightarrow> container_state \<Rightarrow> bool docker" where
  "oom_verdict cl container_reference container_name since state =
     (if \<not> cs_oom_killed state \<and> cs_exit_code state = 137
      then has_oom_event cl container_reference container_name since else pure (cs_oom_killed state))"

section \<open>Creating containers\<close>

definition memory_option :: "docker_config \<Rightarrow> string" where
  "memory_option config = str_int (dk_memory_mb config) @ ''m''"

definition log_size_kib :: "docker_config \<Rightarrow> int" where
  "log_size_kib config = max 1 ((dk_output_limit_bytes config + 1023) div 1024)"

text \<open>The options of both kinds of containers before the environment variables.\<close>

definition sandbox_options :: "docker_runner \<Rightarrow> string \<Rightarrow> string \<Rightarrow> string list" where
  "sandbox_options dr container_name evaluation_id =
     (let config = dr_config dr in
      [''--name'', container_name,
       ''--label'', ''codejudge.component=sandbox'',
       ''--label'', ''codejudge.evaluation_id='' @ evaluation_id,
       ''--log-driver'', ''local'',
       ''--log-opt'', ''max-size='' @ str_int (log_size_kib config) @ ''k'',
       ''--log-opt'', ''max-file=1'',
       ''--log-opt'', ''compress=false'',
       ''--network'', ''none'',
       ''--memory'', memory_option config,
       ''--memory-swap'', memory_option config,
       ''--cpus'', dc_format_g (dr_client dr) (dk_cpus config),
       ''--pids-limit'', str_int (dk_pids_limit config),
       ''--ulimit'', ''fsize='' @ str_nat REPORT_LIMIT_BYTES @ '':'' @ str_nat REPORT_LIMIT_BYTES,
       ''--read-only'',
       ''--cap-drop'', ''ALL'',
       ''--cap-add'', ''SETUID'',
       ''--cap-add'', ''SETGID'',
       ''--security-opt'', ''no-new-privileges=true'',
       ''--workdir'', ''/workspace'',
       ''--env'', ''PYTHONDONTWRITEBYTECODE=1'',
       ''--env'', ''PYTHONUNBUFFERED=1'',
       ''--env'', ''PYTHONPATH=/workspace''])"

definition official_create_arguments :: "docker_runner \<Rightarrow> string \<Rightarrow> string \<Rightarrow> string \<Rightarrow> string list" where
  "official_create_arguments dr container_name evaluation_id workspace =
     [''create'', ''--interactive''] @ sandbox_options dr container_name evaluation_id @
     [''--tmpfs'', ''/tmp:rw,noexec,nosuid,nodev,size=64m'',
      ''--mount'', ''type=bind,source='' @ workspace @ '',target=/workspace,readonly'',
      ''--init'', dk_image (dr_config dr)]"

definition create_arguments :: "docker_runner \<Rightarrow> string \<Rightarrow> string \<Rightarrow> string \<Rightarrow> string \<Rightarrow> string list" where
  "create_arguments dr container_name evaluation_id workspace report_path =
     [''create''] @ sandbox_options dr container_name evaluation_id @
     [''--env'', ''CODEJUDGE_REPORT_PATH=/results/report.json'',
      ''--env'', ''CODEJUDGE_GENERATED_PYTEST=1'',
      ''--tmpfs'', ''/tmp:rw,noexec,nosuid,nodev,size=64m'',
      ''--mount'', ''type=bind,source='' @ workspace @ '',target=/workspace,readonly'',
      ''--mount'', ''type=bind,source='' @ report_path @ '',target=/results/report.json'',
      ''--init'', dk_image (dr_config dr)]"

section \<open>Results\<close>

definition no_tests :: "int option \<Rightarrow> string \<Rightarrow> string \<Rightarrow> rat \<Rightarrow> runner_result" where
  "no_tests exit_code stdout stderr duration =
     \<lparr>rr_exit_code = exit_code, rr_stdout = stdout, rr_stderr = stderr, rr_duration_seconds = duration,
      rr_passed = 0, rr_failed = 0, rr_total = 0, rr_timed_out = False, rr_enforced_timeout_seconds = None,
      rr_output_truncated = False, rr_oom_killed = False, rr_syntax_error = False, rr_import_error = False,
      rr_sandbox_error = None, rr_infrastructure_error = None\<rparr>"

definition infrastructure_failure :: "docker_client \<Rightarrow> rat \<Rightarrow> string \<Rightarrow> runner_result docker" where
  "infrastructure_failure cl started_at message =
     now_do (dc_clock cl) (\<lambda>time. pure ((no_tests None [] [] (time - started_at))
       \<lparr>rr_infrastructure_error := Some message\<rparr>))"

text \<open>The fields that all results of an attached container share.\<close>

definition attached_result :: "docker_client \<Rightarrow> rat \<Rightarrow> rat \<Rightarrow> int option \<Rightarrow> history \<Rightarrow> runner_result" where
  "attached_result cl started_at timeout exit_code h =
     (no_tests exit_code [] (dc_stderr cl h) (dc_clock cl h - started_at))
       \<lparr>rr_enforced_timeout_seconds := Some timeout, rr_output_truncated := dc_truncated cl h\<rparr>"

definition no_report :: string where
  "no_report = ''Sandbox exited without a valid structured test report.''"

section \<open>Official tests\<close>

text \<open>The two handlers of \<^verbatim>\<open>evaluate\<close>, and what follows when the session ends normally.\<close>

definition after_timeout :: "docker_runner \<Rightarrow> string \<Rightarrow> rat \<Rightarrow> rat \<Rightarrow> runner_result docker" where
  "after_timeout dr container_name started_at timeout =
     (let cl = dr_client dr in
      await_do (process_terminate cl) (\<lambda>_.
      await_do (docker_kill cl container_name) (\<lambda>_.
      await_do (inspect_state cl container_name) (\<lambda>state.
      now_do (attached_result cl started_at timeout (map_option cs_exit_code state)) (\<lambda>result.
        pure (result\<lparr>rr_timed_out := True\<rparr>))))))"

definition after_protocol_error ::
    "docker_runner \<Rightarrow> string \<Rightarrow> string \<Rightarrow> string \<Rightarrow> rat \<Rightarrow> rat \<Rightarrow> string \<Rightarrow> runner_result docker" where
  "after_protocol_error dr container_id container_name event_since started_at timeout message =
     (let cl = dr_client dr in
      await_do (process_terminate cl) (\<lambda>_.
      await_do (docker_kill cl container_name) (\<lambda>_.
      await_do (inspect_state cl container_name) (\<lambda>state.
      await_do (case state of None \<Rightarrow> pure False | Some st \<Rightarrow> oom_verdict cl container_id container_name event_since st)
        (\<lambda>oom_killed.
        if oom_killed
        then now_do (attached_result cl started_at timeout (map_option cs_exit_code state)) (\<lambda>result.
               pure (result\<lparr>rr_oom_killed := True\<rparr>))
        else now_do (attached_result cl started_at timeout None) (\<lambda>result.
               pure (result\<lparr>rr_sandbox_error := Some message\<rparr>)))))))"

definition after_session ::
    "docker_runner \<Rightarrow> string \<Rightarrow> string \<Rightarrow> string \<Rightarrow> rat \<Rightarrow> rat \<Rightarrow> harness_report \<Rightarrow> int option \<Rightarrow> runner_result docker" where
  "after_session dr container_id container_name event_since started_at timeout report exit_code =
     (let cl = dr_client dr in
      await_do (inspect_state cl container_name) (\<lambda>inspected.
      case inspected of
        None \<Rightarrow> infrastructure_failure cl started_at ''Docker could not inspect the evaluation container.''
      | Some state \<Rightarrow>
          await_do (oom_verdict cl container_id container_name event_since state) (\<lambda>oom_killed.
          now_do (attached_result cl started_at timeout (Some (cs_exit_code state))) (\<lambda>result.
            pure (if oom_killed then result\<lparr>rr_oom_killed := True\<rparr>
                  else if cs_exit_code state \<noteq> 0 then result\<lparr>rr_sandbox_error := Some no_report\<rparr>
                  else result\<lparr>rr_exit_code := exit_code, rr_passed := hr_passed report, rr_failed := hr_failed report,
                         rr_total := hr_total report, rr_syntax_error := hr_syntax_error report,
                         rr_import_error := hr_import_error report\<rparr>)))))"

definition evaluate_attached ::
    "docker_runner \<Rightarrow> string \<Rightarrow> string \<Rightarrow> string \<Rightarrow> rat \<Rightarrow> rat \<Rightarrow> registered_task \<Rightarrow> runner_result docker" where
  "evaluate_attached dr container_id container_name event_since started_at timeout task = (\<lambda>h.
     case official_session (dr_client dr) (dr_table dr) (ts_id (rt_specification task)) (rt_revision task) h of
       (h', Inl TimedOut) \<Rightarrow> after_timeout dr container_name started_at timeout h'
     | (h', Inl (ProtocolError message)) \<Rightarrow>
         after_protocol_error dr container_id container_name event_since started_at timeout message h'
     | (h', Inl e) \<Rightarrow> (h', Inl e)
     | (h', Inr (report, exit_code)) \<Rightarrow>
         after_session dr container_id container_name event_since started_at timeout report exit_code h')"

definition container_name_of :: "string \<Rightarrow> string" where
  "container_name_of evaluation_id = ''codejudge-eval-'' @ evaluation_id"

definition container_id_of :: "command_result \<Rightarrow> string \<Rightarrow> string" where
  "container_id_of created container_name =
     (case splitlines (py_strip (cr_stdout created)) of [] \<Rightarrow> container_name | line # _ \<Rightarrow> line)"

text \<open>\<^verbatim>\<open>except OSError\<close> around \<^verbatim>\<open>open\<close>.\<close>

definition open_attached :: "docker_runner \<Rightarrow> string \<Rightarrow> bool docker" where
  "open_attached dr container_name = (\<lambda>h.
     case await_event (Opened [''start'', ''--attach'', ''--interactive'', container_name]
            (dk_output_limit_bytes (dr_config dr))) (dc_open (dr_client dr)) h of
       (h', Inl OsError) \<Rightarrow> (h', Inr False) | (h', Inl e) \<Rightarrow> (h', Inl e) | (h', Inr _) \<Rightarrow> (h', Inr True))"

text \<open>
  The \<^verbatim>\<open>try\<close> block. Its handler of a cancellation depends on how far the block is: before the container exists it
  does nothing, then it kills the container, and with an attached process it first terminates that.
\<close>

definition official_attempt ::
    "docker_runner \<Rightarrow> string \<Rightarrow> string \<Rightarrow> string \<Rightarrow> string \<Rightarrow> rat \<Rightarrow> rat \<Rightarrow> registered_task \<Rightarrow> runner_result docker" where
  "official_attempt dr container_name evaluation_id workspace event_since started_at timeout task =
     (let cl = dr_client dr in
      await_do (control_command cl (official_create_arguments dr container_name evaluation_id workspace)) (\<lambda>created.
        if cr_exit_code created \<noteq> Some 0 \<or> cr_timed_out created
        then infrastructure_failure cl started_at ''Docker could not create the evaluation container.''
        else await_do (on_cancelled (open_attached dr container_name) (docker_kill cl container_name)) (\<lambda>opened.
          if \<not> opened then infrastructure_failure cl started_at ''Docker could not start the evaluation container.''
          else on_cancelled
            (evaluate_attached dr (container_id_of created container_name) container_name event_since started_at timeout task)
            (await_do (process_terminate cl) (\<lambda>_. docker_kill cl container_name)))))"

text \<open>
  \<^verbatim>\<open>evaluate\<close>: \<open>evaluation_id\<close> is the fresh identity and \<open>directory\<close> the temporary directory. The code enters
  through the file that is prepared there.
\<close>

definition docker_evaluate :: "docker_runner \<Rightarrow> string \<Rightarrow> string \<Rightarrow> registered_task \<Rightarrow> string \<Rightarrow> runner_result docker" where
  "docker_evaluate dr evaluation_id directory task code =
     (let cl = dr_client dr;
          container_name = container_name_of evaluation_id;
          timeout = min (ts_timeout_seconds (rt_specification task)) (dk_timeout_seconds (dr_config dr));
          workspace = directory @ ''/workspace'' in
      now_do (dc_clock cl) (\<lambda>started_at.
      await_do (check_capability dr) (\<lambda>capability.
        if \<not> rc_available capability then infrastructure_failure cl started_at (rc_detail capability)
        else now_do (dc_timestamp cl) (\<lambda>event_since.
          await_do (await_event (Prepared [workspace, code]) (dc_prepare cl)) (\<lambda>_.
          finally_do (official_attempt dr container_name evaluation_id workspace event_since started_at timeout task)
            (docker_remove cl container_name))))))"

section \<open>Generated tests\<close>

record test_report =
  te_passed :: nat
  te_failed :: nat
  te_total :: nat
  te_syntax_error :: bool
  te_import_error :: bool

text \<open>What both runners accept as counts.\<close>

definition report_counts :: "pyval \<Rightarrow> (nat \<times> nat \<times> nat) option" where
  "report_counts raw =
     (case (plain_int (get_field raw ''passed''), plain_int (get_field raw ''failed''), plain_int (get_field raw ''total'')) of
        (Some passed, Some failed, Some counted) \<Rightarrow>
          if passed < 0 \<or> failed < 0 \<or> counted \<noteq> passed + failed then None
          else Some (nat passed, nat failed, nat counted)
      | _ \<Rightarrow> None)"

definition test_report_of :: "pyval \<Rightarrow> test_report option" where
  "test_report_of raw =
     (if \<not> is_dict raw then None
      else case (report_counts raw, field_or raw ''syntax_error'' (PyBool False), field_or raw ''import_error'' (PyBool False)) of
        (Some (passed, failed, counted), PyBool syntax_error, PyBool import_error) \<Rightarrow>
          Some \<lparr>te_passed = passed, te_failed = failed, te_total = counted, te_syntax_error = syntax_error,
            te_import_error = import_error\<rparr>
      | _ \<Rightarrow> None)"

definition read_report :: "docker_client \<Rightarrow> report_file \<Rightarrow> test_report option" where
  "read_report cl file =
     (if \<not> rf_openable file then None
      else if \<not> rf_regular file \<or> REPORT_LIMIT_BYTES < rf_size file then None
      else if \<not> rf_readable file then None
      else let payload = take (REPORT_LIMIT_BYTES + 1) (rf_payload file) in
        if REPORT_LIMIT_BYTES < length payload then None
        else case dc_loads_bytes cl payload of None \<Rightarrow> None | Some raw \<Rightarrow> test_report_of raw)"

definition started_result :: "docker_client \<Rightarrow> rat \<Rightarrow> rat \<Rightarrow> command_result \<Rightarrow> int option \<Rightarrow> history \<Rightarrow> runner_result" where
  "started_result cl started_at timeout started exit_code h =
     (no_tests exit_code (cr_stdout started) (cr_stderr started) (dc_clock cl h - started_at))
       \<lparr>rr_enforced_timeout_seconds := Some timeout, rr_output_truncated := cr_output_truncated started\<rparr>"

definition after_start ::
    "docker_runner \<Rightarrow> string \<Rightarrow> string \<Rightarrow> string \<Rightarrow> rat \<Rightarrow> rat \<Rightarrow> command_result \<Rightarrow> runner_result docker" where
  "after_start dr container_id container_name event_since started_at timeout started =
     (let cl = dr_client dr in
      if cr_exit_code started = None
      then infrastructure_failure cl started_at ''Docker could not start the evaluation container.''
      else if cr_timed_out started
      then await_do (docker_kill cl container_name) (\<lambda>_.
           await_do (inspect_state cl container_name) (\<lambda>state.
           now_do (started_result cl started_at timeout started (map_option cs_exit_code state)) (\<lambda>result.
             pure (result\<lparr>rr_timed_out := True\<rparr>))))
      else await_do (inspect_state cl container_name) (\<lambda>inspected.
        case inspected of
          None \<Rightarrow> infrastructure_failure cl started_at ''Docker could not inspect the evaluation container.''
        | Some state \<Rightarrow>
            await_do (oom_verdict cl container_id container_name event_since state) (\<lambda>oom_killed.
            now_do (started_result cl started_at timeout started (Some (cs_exit_code state))) (\<lambda>result.
            now_do (dc_report cl) (\<lambda>file.
              pure (if oom_killed then result\<lparr>rr_oom_killed := True\<rparr>
                    else case read_report cl file of
                      None \<Rightarrow> result\<lparr>rr_sandbox_error := Some no_report\<rparr>
                    | Some report \<Rightarrow>
                        result\<lparr>rr_passed := te_passed report, rr_failed := te_failed report,
                          rr_total := te_total report, rr_syntax_error := te_syntax_error report,
                          rr_import_error := te_import_error report\<rparr>))))))"

definition generated_attempt ::
    "docker_runner \<Rightarrow> string \<Rightarrow> string \<Rightarrow> string \<Rightarrow> string \<Rightarrow> string \<Rightarrow> rat \<Rightarrow> rat \<Rightarrow> runner_result docker" where
  "generated_attempt dr container_name evaluation_id workspace report_path event_since started_at timeout =
     (let cl = dr_client dr in
      await_do (control_command cl (create_arguments dr container_name evaluation_id workspace report_path)) (\<lambda>created.
        if cr_exit_code created \<noteq> Some 0 \<or> cr_timed_out created
        then infrastructure_failure cl started_at ''Docker could not create the evaluation container.''
        else on_cancelled
          (await_do (await_event (Ran [''start'', ''--attach'', container_name] timeout (dk_output_limit_bytes (dr_config dr)))
              (dc_run cl))
            (after_start dr (container_id_of created container_name) container_name event_since started_at timeout))
          (docker_kill cl container_name)))"

definition evaluate_generated_tests ::
    "docker_runner \<Rightarrow> string \<Rightarrow> string \<Rightarrow> registered_task \<Rightarrow> string \<Rightarrow> runner_result docker" where
  "evaluate_generated_tests dr evaluation_id directory task code =
     (let cl = dr_client dr;
          container_name = container_name_of evaluation_id;
          timeout = min (ts_timeout_seconds (rt_specification task)) (dk_timeout_seconds (dr_config dr));
          workspace = directory @ ''/workspace'';
          report_path = directory @ ''/results/report.json'' in
      now_do (dc_clock cl) (\<lambda>started_at.
      await_do (check_capability dr) (\<lambda>capability.
        if \<not> rc_available capability then infrastructure_failure cl started_at (rc_detail capability)
        else now_do (dc_timestamp cl) (\<lambda>event_since.
          await_do (await_event (Prepared [workspace, report_path, rt_tests_path task, code]) (dc_prepare cl)) (\<lambda>_.
          finally_do
            (generated_attempt dr container_name evaluation_id workspace report_path event_since started_at timeout)
            (docker_remove cl container_name))))))"

section \<open>Behaviour of computations\<close>

text \<open>Every event satisfies \<open>P\<close>, and a result that is returned satisfies \<open>Q\<close>.\<close>

definition behaves :: "(docker_event \<Rightarrow> bool) \<Rightarrow> ('a \<Rightarrow> bool) \<Rightarrow> 'a docker \<Rightarrow> bool" where
  "behaves P Q m \<longleftrightarrow> (\<forall>h. \<exists>new. fst (m h) = new @ h \<and> list_all P new \<and> (\<forall>x. snd (m h) = Inr x \<longrightarrow> Q x))"

lemma behavesI:
  "(\<And>h. \<exists>new. fst (m h) = new @ h \<and> list_all P new \<and> (\<forall>x. snd (m h) = Inr x \<longrightarrow> Q x)) \<Longrightarrow> behaves P Q m"
  by (simp add: behaves_def)

lemma behavesE:
  assumes "behaves P Q m" "m h = (h', r)"
  obtains new where "h' = new @ h" "list_all P new" "\<forall>x. r = Inr x \<longrightarrow> Q x"
  using assms by (fastforce simp: behaves_def dest: spec[of _ h])

lemma behaves_pure: "Q x \<Longrightarrow> behaves P Q (pure x)"
  by (simp add: behaves_def pure_def)

lemma behaves_throw: "behaves P Q (throw e)"
  by (simp add: behaves_def throw_def)

lemma behaves_event: "P event \<Longrightarrow> (\<And>h x. answer (event # h) = Inr x \<Longrightarrow> Q x) \<Longrightarrow> behaves P Q (await_event event answer)"
  by (simp add: behaves_def await_event_def)

lemma behaves_then:
  assumes "behaves P R m" "\<And>x h. R x \<Longrightarrow> \<exists>new. fst (f x h) = new @ h \<and> list_all P new \<and> (\<forall>y. snd (f x h) = Inr y \<longrightarrow> Q y)"
  shows "behaves P Q (await_do m f)"
proof (rule behavesI)
  fix h
  obtain h' r where m: "m h = (h', r)" by fastforce
  with assms(1) obtain new where new: "h' = new @ h" "list_all P new" "\<forall>x. r = Inr x \<longrightarrow> R x" by (rule behavesE)
  show "\<exists>new. fst (await_do m f h) = new @ h \<and> list_all P new \<and> (\<forall>y. snd (await_do m f h) = Inr y \<longrightarrow> Q y)"
  proof (cases r)
    case (Inl e)
    with m new show ?thesis by (simp add: await_do_def)
  next
    case (Inr x)
    with new(3) have "R x" by simp
    from assms(2)[OF this, of h'] obtain new' where
      "fst (f x h') = new' @ h'" "list_all P new'" "\<forall>y. snd (f x h') = Inr y \<longrightarrow> Q y" by blast
    with m new Inr show ?thesis by (intro exI[of _ "new' @ new"]) (simp add: await_do_def)
  qed
qed

lemma behaves_await_do:
  "behaves P R m \<Longrightarrow> (\<And>x. R x \<Longrightarrow> behaves P Q (f x)) \<Longrightarrow> behaves P Q (await_do m f)"
  by (rule behaves_then, assumption) (unfold behaves_def, blast)

lemma behaves_now_do: "(\<And>h. behaves P Q (f (get h))) \<Longrightarrow> behaves P Q (now_do get f)"
  by (simp add: behaves_def now_do_def)

lemma behaves_on_cancelled:
  assumes "behaves P Q m" "behaves P R cleanup"
  shows "behaves P Q (on_cancelled m cleanup)"
proof (rule behavesI)
  fix h
  obtain h' r where m: "m h = (h', r)" by fastforce
  with assms(1) obtain new where new: "h' = new @ h" "list_all P new" "\<forall>x. r = Inr x \<longrightarrow> Q x" by (rule behavesE)
  have "behaves P Q (await_do cleanup (\<lambda>_. throw Cancelled))" (is "behaves P Q ?c")
    using assms(2) behaves_throw by (rule behaves_await_do)
  then obtain new' where "fst (?c h') = new' @ h'" "list_all P new'" "\<forall>x. snd (?c h') = Inr x \<longrightarrow> Q x"
    unfolding behaves_def by blast
  then show "\<exists>new. fst (on_cancelled m cleanup h) = new @ h \<and> list_all P new
      \<and> (\<forall>x. snd (on_cancelled m cleanup h) = Inr x \<longrightarrow> Q x)"
    using m new by (cases "r = Inl Cancelled")
      (auto simp: on_cancelled_def split: sum.splits docker_exn.splits intro: exI[of _ "new' @ new"])
qed

lemma behaves_mono: "behaves P Q m \<Longrightarrow> (\<And>e. P e \<Longrightarrow> P' e) \<Longrightarrow> (\<And>x. Q x \<Longrightarrow> Q' x) \<Longrightarrow> behaves P' Q' m"
  unfolding behaves_def by (meson list.pred_mono_strong)

lemmas behaves_intros = behaves_pure behaves_throw behaves_event behaves_await_do behaves_now_do behaves_on_cancelled

section \<open>Results are sound\<close>

definition counted_with_verdict :: "runner_result \<Rightarrow> bool" where
  "counted_with_verdict r \<longleftrightarrow> rr_passed r + rr_failed r = rr_total r
     \<and> length (filter id [rr_timed_out r, rr_oom_killed r, rr_sandbox_error r \<noteq> None, rr_infrastructure_error r \<noteq> None]) \<le> 1
     \<and> (0 < rr_total r \<longrightarrow> \<not> rr_timed_out r \<and> \<not> rr_oom_killed r \<and> rr_sandbox_error r = None \<and> rr_infrastructure_error r = None)"

text \<open>
  The commands of Docker that create a container, and the name that such a command gives it: the word after the first
  \<^verbatim>\<open>--name\<close>. \<open>later\<close>: events after a container is created.
\<close>

definition creating_words :: "string list" where
  "creating_words = [''create'', ''run'', ''container'']"

fun option_value :: "string \<Rightarrow> string list \<Rightarrow> string option" where
  "option_value option (word # value # words) = (if word = option then Some value else option_value option (value # words))"
| "option_value option _ = None"

definition command_of :: "docker_event \<Rightarrow> string list" where
  "command_of event = (case event of Ran words _ _ \<Rightarrow> words | Opened words _ \<Rightarrow> words | _ \<Rightarrow> [])"

definition creates :: "docker_event \<Rightarrow> bool" where
  "creates event = (case command_of event of command # _ \<Rightarrow> command \<in> set creating_words | [] \<Rightarrow> False)"

definition container_created :: "docker_event \<Rightarrow> string option" where
  "container_created event = (if creates event then option_value ''--name'' (tl (command_of event)) else None)"

abbreviation later :: "docker_event \<Rightarrow> bool" where "later event \<equiv> \<not> creates event"

lemma creates_simps [simp]:
  "creates (Ran (command # arguments) t l) \<longleftrightarrow> command \<in> {''create'', ''run'', ''container''}"
  "creates (Opened (command # arguments) l) \<longleftrightarrow> command \<in> {''create'', ''run'', ''container''}" "\<not> creates (Wrote v)"
  "\<not> creates (ReadLine n)" "\<not> creates Waited" "\<not> creates Terminated" "\<not> creates (Slept t)" "\<not> creates (Prepared xs)"
  by (simp_all add: creates_def command_of_def creating_words_def)

lemma behaves_event_any: "P event \<Longrightarrow> behaves P (\<lambda>_. True) (await_event event answer)"
  by (rule behaves_event) simp_all

lemma control_behaves: "arguments \<noteq> [] \<Longrightarrow> hd arguments \<notin> {''create'', ''run'', ''container''} \<Longrightarrow> behaves later (\<lambda>_. True) (control_command cl arguments)"
  unfolding control_command_def by (cases arguments) (auto intro: behaves_event_any)

lemma helpers_behave:
  "behaves later (\<lambda>_. True) (process_terminate cl)" "behaves later (\<lambda>_. True) (process_wait cl)"
  "behaves later (\<lambda>_. True) (sleep_for cl t)" "behaves later (\<lambda>_. True) (docker_kill cl name)"
  "behaves later (\<lambda>_. True) (docker_remove cl name)" "behaves later (\<lambda>_. True) (inspect_state cl name)"
  unfolding process_terminate_def process_wait_def sleep_for_def docker_kill_def docker_remove_def inspect_state_def
  by (intro behaves_event_any behaves_await_do[where R = "\<lambda>_. True"] control_behaves behaves_pure; simp)+

lemma infrastructure_behaves: "behaves later counted_with_verdict (infrastructure_failure cl started_at message)"
  unfolding infrastructure_failure_def
  by (intro behaves_now_do behaves_pure) (simp add: counted_with_verdict_def no_tests_def)

lemma oom_attempts_behave: "behaves later (\<lambda>_. True) (oom_attempts cl reference name since n until)"
proof (induction n arbitrary: until)
  case 0
  show ?case by (simp add: behaves_pure)
next
  case (Suc n)
  show ?case unfolding oom_attempts.simps
    by (rule behaves_await_do[OF control_behaves])
      (auto simp: events_command_def intro!: behaves_pure behaves_await_do[OF helpers_behave(3)] behaves_now_do Suc.IH)
qed

lemma oom_verdict_behaves: "behaves later (\<lambda>_. True) (oom_verdict cl reference name since state)"
  by (auto simp: oom_verdict_def has_oom_event_def intro!: behaves_pure behaves_now_do oom_attempts_behave)

lemma probe_behaves: "arguments \<noteq> [] \<Longrightarrow> hd arguments \<notin> {''create'', ''run'', ''container''} \<Longrightarrow> behaves later (\<lambda>_. True) (capability_probe dr arguments retry)"
proof -
  assume args: "arguments \<noteq> []" "hd arguments \<notin> {''create'', ''run'', ''container''}"
  have "behaves later (\<lambda>_. True) (probe_retries dr arguments retry attempts result)" for attempts result
  proof (induction attempts arbitrary: result)
    case (Cons attempt attempts)
    show ?case
      by (auto intro!: behaves_pure behaves_await_do[OF helpers_behave(3)] behaves_await_do[OF control_behaves[OF args]] Cons.IH)
  qed (simp add: behaves_pure)
  then show ?thesis unfolding capability_probe_def by (blast intro: behaves_await_do[OF control_behaves[OF args]])
qed

lemma capability_behaves: "behaves later (\<lambda>_. True) (check_capability dr)"
  unfolding check_capability_def Let_def
  by (auto simp: INFO_COMMAND_def intro!: behaves_pure behaves_await_do[OF probe_behaves] split: option.splits)

lemma exchange_behaves: "behaves later (\<lambda>_. True) (exchange cl n payload)"
proof -
  have "behaves later (\<lambda>_. True)
      (await_do (read_line cl REPORT_LIMIT_BYTES) (\<lambda>line h. (h, protocol_response n line)))"
    unfolding read_line_def by (rule behaves_then[OF behaves_event_any]) auto
  then show ?thesis
    by (auto simp: exchange_def Let_def write_line_def intro!: behaves_throw behaves_await_do[OF behaves_event_any])
qed

lemma candidate_request_behaves:
  assumes "candidate_request cl (n, h) payload = ((n', h'), r)"
  shows "n' = n + 1 \<and> (\<exists>new. h' = new @ h \<and> list_all later new)"
proof -
  have run: "exchange cl n payload h = (h', r)" "n' = n + 1"
    using assms by (auto simp: candidate_request_def map_prod_def split: prod.splits)
  from exchange_behaves run(1) show ?thesis by (rule behavesE) (use run(2) in auto)
qed

lemma shutdown_behaves: "behaves later (\<lambda>_. True) (candidate_shutdown cl n)"
proof (rule behavesI)
  fix h
  obtain n' h' r where r: "candidate_request cl (n, h) (json_object [(''op'', PyStr ''shutdown'')]) = ((n', h'), r)"
    by (metis prod.exhaust)
  from candidate_request_behaves[OF this] show "\<exists>new. fst (candidate_shutdown cl n h) = new @ h \<and> list_all later new
      \<and> (\<forall>x. snd (candidate_shutdown cl n h) = Inr x \<longrightarrow> True)"
    by (auto simp: candidate_shutdown_def r split: sum.splits)
qed

lemma session_behaves: "behaves later (\<lambda>(report, _). report_consistent report) (official_session cl table i v)"
proof (rule behavesI)
  fix h
  let ?rel = "\<lambda>s s'. \<exists>new. snd s' = new @ snd s \<and> list_all later new"
  obtain n' h' r where run: "harness_evaluate (dc_str cl) table (candidate_request cl) (1, h) i v = ((n', h'), r)"
    by (metis prod.exhaust)
  have step: "?rel s s'" if "candidate_request cl s p = (s', r)" for s p s' r
    using that candidate_request_behaves[of cl "fst s" "snd s" p "fst s'" "snd s'" r] by simp
  have "?rel (1 :: int, h) (n', h')"
    by (rule harness_rel[of "candidate_request cl" ?rel, OF step _ _ run])
      (assumption, simp, fastforce)
  then obtain new where new: "h' = new @ h" "list_all later new" by auto
  show "\<exists>new. fst (official_session cl table i v h) = new @ h \<and> list_all later new
      \<and> (\<forall>x. snd (official_session cl table i v h) = Inr x \<longrightarrow> (case x of (report, _) \<Rightarrow> report_consistent report))"
  proof (cases r)
    case (Inl e)
    with new show ?thesis by (simp add: official_session_def run)
  next
    case (Inr report)
    note ok = harness_report_consistent[OF run[unfolded Inr]]
    have "behaves later (\<lambda>(report, _). report_consistent report)
        (await_do (candidate_shutdown cl n') (\<lambda>_. await_do (process_wait cl) (\<lambda>code. pure (report, code))))" (is "behaves _ _ ?rest")
      using ok by (auto intro!: behaves_await_do[OF shutdown_behaves] behaves_await_do[OF helpers_behave(2)] behaves_pure)
    then obtain new' where "fst (?rest h') = new' @ h'" "list_all later new'"
      "\<forall>x. snd (?rest h') = Inr x \<longrightarrow> (case x of (report, _) \<Rightarrow> report_consistent report)"
      unfolding behaves_def by blast
    with new show ?thesis by (intro exI[of _ "new' @ new"]) (simp add: official_session_def run Inr)
  qed
qed

lemma attached_counts [simp]:
  "counted_with_verdict ((attached_result cl started timeout code h)\<lparr>rr_timed_out := True\<rparr>)"
  "counted_with_verdict ((attached_result cl started timeout code h)\<lparr>rr_oom_killed := True\<rparr>)"
  "counted_with_verdict ((attached_result cl started timeout code h)\<lparr>rr_sandbox_error := Some message\<rparr>)"
  "counted_with_verdict ((started_result cl started timeout result code h)\<lparr>rr_timed_out := True\<rparr>)"
  "counted_with_verdict ((started_result cl started timeout result code h)\<lparr>rr_oom_killed := True\<rparr>)"
  "counted_with_verdict ((started_result cl started timeout result code h)\<lparr>rr_sandbox_error := Some message\<rparr>)"
  by (simp_all add: counted_with_verdict_def attached_result_def started_result_def no_tests_def)

lemma after_timeout_behaves: "behaves later counted_with_verdict (after_timeout dr name started timeout)"
  unfolding after_timeout_def Let_def
  by (intro behaves_await_do[OF helpers_behave(1)] behaves_await_do[OF helpers_behave(4)]
      behaves_await_do[OF helpers_behave(6)] behaves_now_do behaves_pure) simp

lemma after_protocol_error_behaves:
  "behaves later counted_with_verdict (after_protocol_error dr cid name since started timeout message)"
proof -
  have verdict: "behaves later (\<lambda>_. True)
      (case state of None \<Rightarrow> pure False | Some st \<Rightarrow> oom_verdict (dr_client dr) cid name since st)" for state
    by (cases state) (simp_all add: behaves_pure oom_verdict_behaves)
  show ?thesis unfolding after_protocol_error_def Let_def
    by (intro behaves_await_do[OF helpers_behave(1)] behaves_await_do[OF helpers_behave(4)]
        behaves_await_do[OF helpers_behave(6)] behaves_await_do[OF verdict])
      (auto intro!: behaves_now_do behaves_pure)
qed

lemma after_session_behaves:
  assumes "report_consistent report"
  shows "behaves later counted_with_verdict (after_session dr cid name since started timeout report code)"
proof -
  have "counted_with_verdict ((attached_result cl s t c h)\<lparr>rr_exit_code := code, rr_passed := hr_passed report,
      rr_failed := hr_failed report, rr_total := hr_total report, rr_syntax_error := hr_syntax_error report,
      rr_import_error := hr_import_error report\<rparr>)" for cl s t c h
    using assms by (simp add: counted_with_verdict_def attached_result_def no_tests_def report_consistent_def)
  then show ?thesis unfolding after_session_def Let_def
    by (intro behaves_await_do[OF helpers_behave(6)])
      (auto intro!: behaves_await_do[OF oom_verdict_behaves] behaves_now_do behaves_pure infrastructure_behaves
        split: option.splits)
qed

lemma evaluate_attached_behaves:
  "behaves later counted_with_verdict (evaluate_attached dr cid name since started timeout task)"
proof (rule behavesI)
  fix h
  obtain h' r where run: "official_session (dr_client dr) (dr_table dr) (ts_id (rt_specification task)) (rt_revision task) h
      = (h', r)" by fastforce
  from session_behaves this obtain new where new: "h' = new @ h" "list_all later new"
    "\<forall>x. r = Inr x \<longrightarrow> (case x of (report, _) \<Rightarrow> report_consistent report)" by (rule behavesE)
  have "\<exists>m. evaluate_attached dr cid name since started timeout task h = m h' \<and> behaves later counted_with_verdict m"
  proof (cases r)
    case (Inl e)
    then show ?thesis
      using after_timeout_behaves[of dr name started timeout] after_protocol_error_behaves[of dr cid name since started timeout]
        behaves_throw[of later counted_with_verdict e]
      by (cases e) (auto simp: evaluate_attached_def run throw_def split: docker_exn.splits)
  next
    case (Inr x)
    with new(3) after_session_behaves[of "fst x" dr cid name since started timeout "snd x"] show ?thesis
      by (auto simp: evaluate_attached_def run split: prod.splits)
  qed
  then obtain m where m: "evaluate_attached dr cid name since started timeout task h = m h'"
    "behaves later counted_with_verdict m" by blast
  then obtain new' where "fst (m h') = new' @ h'" "list_all later new'" "\<forall>x. snd (m h') = Inr x \<longrightarrow> counted_with_verdict x"
    unfolding behaves_def by blast
  with m(1) new show "\<exists>new. fst (evaluate_attached dr cid name since started timeout task h) = new @ h \<and> list_all later new
      \<and> (\<forall>x. snd (evaluate_attached dr cid name since started timeout task h) = Inr x \<longrightarrow> counted_with_verdict x)"
    by (intro exI[of _ "new' @ new"]) simp
qed

lemma after_start_behaves: "behaves later counted_with_verdict (after_start dr cid name since started timeout result)"
proof -
  have report: "te_passed report + te_failed report = te_total report" if "read_report cl f = Some report" for cl f report
    using that by (auto simp: read_report_def test_report_of_def report_counts_def nat_add_distrib Let_def
        split: if_splits option.splits pyval.splits)
  have "counted_with_verdict ((started_result cl s t result c h)\<lparr>rr_passed := te_passed report,
      rr_failed := te_failed report, rr_total := te_total report, rr_syntax_error := te_syntax_error report,
      rr_import_error := te_import_error report\<rparr>)" if "read_report cl f = Some report" for cl s t c h f report
    using report[OF that] by (simp add: counted_with_verdict_def started_result_def no_tests_def)
  then show ?thesis unfolding after_start_def Let_def
    by (auto intro!: behaves_await_do[OF helpers_behave(4)] behaves_await_do[OF helpers_behave(6)]
        behaves_await_do[OF oom_verdict_behaves] behaves_now_do behaves_pure infrastructure_behaves split: option.splits)
qed

text \<open>Both attempts are: create, and something that creates nothing.\<close>

definition attempts_once :: "string \<Rightarrow> runner_result docker \<Rightarrow> bool" where
  "attempts_once name m \<longleftrightarrow> (\<exists>cl arguments f. m = await_do (control_command cl (''create'' # arguments)) f
     \<and> option_value ''--name'' arguments = Some name \<and> (\<forall>x. behaves later counted_with_verdict (f x)))"

lemma official_attempt_once:
  "attempts_once name (official_attempt dr name eid workspace since started timeout task)"
proof -
  have open_behaves: "behaves later (\<lambda>_. True) (open_attached dr name)"
    by (rule behavesI) (auto simp: open_attached_def await_event_def split: sum.splits docker_exn.splits)
  show ?thesis unfolding attempts_once_def official_attempt_def Let_def official_create_arguments_def sandbox_options_def
    by (auto intro!: exI infrastructure_behaves behaves_await_do[OF behaves_on_cancelled[OF open_behaves helpers_behave(4)]]
        behaves_on_cancelled[OF evaluate_attached_behaves behaves_await_do[OF helpers_behave(1) helpers_behave(4)]])
qed

lemma generated_attempt_once:
  "attempts_once name (generated_attempt dr name eid workspace path since started timeout)"
proof -
  have start: "behaves later (\<lambda>_. True) (await_event (Ran [''start'', ''--attach'', name] t l) (dc_run cl))" for t l cl
    by (rule behaves_event_any) simp
  show ?thesis unfolding attempts_once_def generated_attempt_def Let_def create_arguments_def sandbox_options_def
    by (auto intro!: exI infrastructure_behaves behaves_on_cancelled[OF behaves_await_do[OF start after_start_behaves]
        helpers_behave(4)])
qed

text \<open>The frame around an attempt, which the two evaluations share.\<close>

definition guarded :: "docker_runner \<Rightarrow> string \<Rightarrow> runner_result docker \<Rightarrow> bool" where
  "guarded dr name m \<longleftrightarrow> (\<exists>get answer prepare since attempt. (\<forall>t s. attempts_once name (attempt t s)) \<and>
     m = now_do get (\<lambda>started_at. await_do (check_capability dr) (\<lambda>capability.
       if \<not> rc_available capability then infrastructure_failure (dr_client dr) started_at (rc_detail capability)
       else now_do since (\<lambda>event_since :: string. await_do (await_event (Prepared prepare) answer) (\<lambda>_ :: unit.
         finally_do (attempt started_at event_since) (docker_remove (dr_client dr) name))))))"

lemma evaluations_guarded:
  "guarded dr (container_name_of eid) (docker_evaluate dr eid directory task code)"
  "guarded dr (container_name_of eid) (evaluate_generated_tests dr eid directory task code)"
  unfolding guarded_def docker_evaluate_def evaluate_generated_tests_def Let_def
  by (rule exI[of _ "dc_clock (dr_client dr)"], rule exI[of _ "dc_prepare (dr_client dr)"], rule exI,
      rule exI[of _ "dc_timestamp (dr_client dr)"], rule exI, rule conjI[rotated], rule refl,
      simp add: official_attempt_once generated_attempt_once)+

text \<open>
  New events, the last one first: at most one of them creates a container, that container has the name, and then the last
  event is its removal.
\<close>

definition removal :: "string \<Rightarrow> docker_event" where
  "removal name = Ran [''rm'', ''--force'', name] CONTROL_TIMEOUT_SECONDS CONTROL_OUTPUT_LIMIT_BYTES"

definition cleaned_up :: "string \<Rightarrow> history \<Rightarrow> bool" where
  "cleaned_up name new \<longleftrightarrow>
     length (filter creates new) \<le> 1 \<and> list_all (\<lambda>e. creates e \<longrightarrow> container_created e = Some name) new
     \<and> (list_ex creates new \<longrightarrow> hd new = removal name)"

lemma guarded_behaves:
  assumes "guarded dr name m" "m h = (h', out)"
  shows "\<exists>new. h' = new @ h \<and> cleaned_up name new" "out = Inr r \<Longrightarrow> counted_with_verdict r"
proof -
  have none: "cleaned_up name new" if "list_all later new" for new
    using that by (induction new) (auto simp: cleaned_up_def list_all_iff list_ex_iff)
  have attempt: "(\<exists>new. fst (finally_do a (docker_remove cl name) h) = new @ h \<and> cleaned_up name new)
      \<and> (\<forall>x. snd (finally_do a (docker_remove cl name) h) = Inr x \<longrightarrow> counted_with_verdict x)"
    if a: "attempts_once name a" for a cl h
  proof -
    from a obtain cl' arguments f where f: "a = await_do (control_command cl' (''create'' # arguments)) f"
      "\<And>x. behaves later counted_with_verdict (f x)" and name: "option_value ''--name'' arguments = Some name"
      unfolding attempts_once_def by blast
    let ?ev = "Ran (''create'' # arguments) CONTROL_TIMEOUT_SECONDS CONTROL_OUTPUT_LIMIT_BYTES"
    have "\<exists>new. fst (a h) = new @ ?ev # h \<and> list_all later new \<and> (\<forall>x. snd (a h) = Inr x \<longrightarrow> counted_with_verdict x)"
    proof (cases "dc_run cl' (?ev # h)")
      case (Inl e)
      then show ?thesis by (simp add: f(1) await_do_def control_command_def await_event_def)
    next
      case (Inr x)
      then have "a h = f x (?ev # h)" by (simp add: f(1) await_do_def control_command_def await_event_def)
      with f(2)[of x] show ?thesis unfolding behaves_def by metis
    qed
    then obtain new where new: "fst (a h) = new @ ?ev # h" "list_all later new"
      "\<forall>x. snd (a h) = Inr x \<longrightarrow> counted_with_verdict x" by blast
    have remove: "fst (docker_remove cl name h1) = removal name # h1" for h1
      by (simp add: docker_remove_def await_do_def control_command_def await_event_def removal_def pure_def split: sum.splits)
    have "fst (finally_do a (docker_remove cl name) h) = removal name # fst (a h)"
      "snd (finally_do a (docker_remove cl name) h) = Inr x \<Longrightarrow> snd (a h) = Inr x" for x
      using remove[of "fst (a h)"]
      by (auto simp: finally_do_def split: prod.splits sum.splits)
    moreover have "cleaned_up name (removal name # new @ [?ev])"
      using new(2) name
      by (auto simp: cleaned_up_def removal_def list_all_iff filter_empty_conv container_created_def command_of_def)
    ultimately show ?thesis using new by (intro conjI) (auto intro: exI[of _ "removal name # new @ [?ev]"])
  qed
  from assms(1) obtain get answer prepare since attempt where a: "\<And>t s. attempts_once name (attempt t s)"
    and m: "m = now_do get (\<lambda>started_at. await_do (check_capability dr) (\<lambda>capability.
       if \<not> rc_available capability then infrastructure_failure (dr_client dr) started_at (rc_detail capability)
       else now_do since (\<lambda>event_since :: string. await_do (await_event (Prepared prepare) answer) (\<lambda>_ :: unit.
         finally_do (attempt started_at event_since) (docker_remove (dr_client dr) name)))))"
    unfolding guarded_def by blast
  obtain h1 c where cap: "check_capability dr h = (h1, c)" by fastforce
  with capability_behaves obtain pre where pre: "h1 = pre @ h" "list_all later pre" by (rule behavesE)
  have extend: "cleaned_up name (new @ pre)" if "cleaned_up name new" for new
    using that pre(2) by (cases new) (auto simp: cleaned_up_def list_all_iff list_ex_iff filter_empty_conv none)
  have "\<exists>new. fst (m h) = new @ h \<and> cleaned_up name new \<and> (\<forall>x. snd (m h) = Inr x \<longrightarrow> counted_with_verdict x)"
  proof (cases c)
    case (Inl e)
    with cap pre none[OF pre(2)] show ?thesis by (simp add: m now_do_def await_do_def)
  next
    case (Inr capability)
    show ?thesis
    proof (cases "rc_available capability")
      case False
      then have "m h = infrastructure_failure (dr_client dr) (get h) (rc_detail capability) h1"
        by (simp add: m now_do_def await_do_def cap Inr)
      with infrastructure_behaves[of "dr_client dr" "get h" "rc_detail capability"] obtain new where
        "fst (m h) = new @ h1" "list_all later new" "\<forall>x. snd (m h) = Inr x \<longrightarrow> counted_with_verdict x"
        unfolding behaves_def by metis
      with pre(1) extend[OF none] show ?thesis by (intro exI[of _ "new @ pre"]) simp
    next
      case True
      let ?h = "Prepared prepare # h1"
      let ?run = "finally_do (attempt (get h) (since h1)) (docker_remove (dr_client dr) name)"
      have run: "m h = (case answer ?h of Inl e \<Rightarrow> (?h, Inl e) | Inr _ \<Rightarrow> ?run ?h)"
        using True by (simp add: m now_do_def await_do_def await_event_def cap Inr split: sum.splits)
      have skip: "cleaned_up name (new @ [Prepared prepare])" if "cleaned_up name new" for new
        using that by (cases new) (auto simp: cleaned_up_def)
      show ?thesis
      proof (cases "answer ?h")
        case (Inl e)
        with run pre(1) extend[OF skip[of "[]"]] show ?thesis
          by (intro exI[of _ "Prepared prepare # pre"]) (simp add: cleaned_up_def)
      next
        case (Inr u)
        from attempt[OF a, of "get h" "since h1" "dr_client dr" ?h] obtain new where
          "fst (?run ?h) = new @ ?h" "cleaned_up name new" "\<forall>x. snd (?run ?h) = Inr x \<longrightarrow> counted_with_verdict x" by blast
        with run Inr pre(1) extend[OF skip[of new]] show ?thesis
          by (intro exI[of _ "(new @ [Prepared prepare]) @ pre"]) simp
      qed
    qed
  qed
  with assms(2) show "\<exists>new. h' = new @ h \<and> cleaned_up name new" "out = Inr r \<Longrightarrow> counted_with_verdict r" by auto
qed

section \<open>A daemon without failures\<close>

text \<open>
  A client for which all commands succeed and nobody cancels; \<open>reply\<close> is what the process in the container answers to a
  request, and \<open>size_of\<close> the length of a JSON text.
\<close>

definition succeeded :: "string \<Rightarrow> command_result" where
  "succeeded stdout = \<lparr>cr_exit_code = Some 0, cr_stdout = stdout, cr_stderr = [], cr_duration_seconds = 0,
     cr_timed_out = False, cr_output_truncated = False\<rparr>"

definition last_written :: "history \<Rightarrow> pyval" where
  "last_written h = (case h of _ # Wrote v # _ \<Rightarrow> v | _ \<Rightarrow> PyNone)"

definition working_client :: "(pyval \<Rightarrow> nat) \<Rightarrow> (pyval \<Rightarrow> pyval) \<Rightarrow> docker_client" where
  "working_client size_of reply =
     \<lparr>dc_run = (\<lambda>_. Inr (succeeded ''ok'')), dc_open = (\<lambda>_. Inr ()), dc_write = (\<lambda>_. Inr ()),
      dc_readline = (\<lambda>h. let response = reply (last_written h) in
        Inr \<lparr>ln_length = size_of response + 1, ln_newline = True, ln_value = Some response\<rparr>),
      dc_wait = (\<lambda>_. Inr (Some 0)), dc_terminate = (\<lambda>_. Inr ()), dc_sleep = (\<lambda>_. Inr ()), dc_prepare = (\<lambda>_. Inr ()),
      dc_stderr = (\<lambda>_. []), dc_truncated = (\<lambda>_. False), dc_clock = (\<lambda>h. of_nat (length h)),
      dc_timestamp = (\<lambda>_. []),
      dc_report = (\<lambda>_. \<lparr>rf_openable = True, rf_regular = True, rf_size = 0, rf_readable = True, rf_payload = []\<rparr>),
      dc_loads = (\<lambda>_. Some (json_object [(''ExitCode'', PyInt 0), (''OOMKilled'', PyBool False)])),
      dc_loads_bytes = (\<lambda>_. None), dc_size = size_of, dc_str = (\<lambda>_. []), dc_format_g = (\<lambda>_. ''1'')\<rparr>"

definition ex_config :: docker_config where
  "ex_config = \<lparr>dk_image = ''sandbox'', dk_memory_mb = 256, dk_cpus = 1, dk_pids_limit = 64, dk_timeout_seconds = 10,
     dk_output_limit_bytes = 65536\<rparr>"

definition working_runner :: "(pyval \<Rightarrow> nat) \<Rightarrow> (pyval \<Rightarrow> pyval) \<Rightarrow> (string \<times> int \<Rightarrow> official_case list option) \<Rightarrow> docker_runner" where
  "working_runner size_of reply table =
     \<lparr>dr_config = ex_config, dr_client = working_client size_of reply, dr_cli_missing = False, dr_attempts = 3,
      dr_retry_delay = 1 / 4, dr_table = table\<rparr>"

text \<open>With such a daemon, the result is that of the harness on the replies.\<close>

definition reply_of :: "(pyval \<Rightarrow> nat) \<Rightarrow> (pyval \<Rightarrow> pyval) \<Rightarrow> int \<Rightarrow> pyval \<Rightarrow> docker_exn + pyval" where
  "reply_of size_of reply n payload =
     (let request = with_id n payload; response = reply request in
      if REPORT_LIMIT_BYTES < size_of request then Inl (ProtocolError ''Candidate protocol request exceeded its limit'')
      else and_then (bounded_line REPORT_LIMIT_BYTES
             \<lparr>ln_length = size_of response + 1, ln_newline = True, ln_value = Some response\<rparr>) (protocol_response n))"

lemma working_client_simps [simp]:
  "dc_run (working_client size_of reply) h = Inr (succeeded ''ok'')" "dc_open (working_client size_of reply) h = Inr ()"
  "dc_write (working_client size_of reply) h = Inr ()" "dc_wait (working_client size_of reply) h = Inr (Some 0)"
  "dc_prepare (working_client size_of reply) h = Inr ()" "dc_size (working_client size_of reply) = size_of"
  "dc_str (working_client size_of reply) = (\<lambda>_. [])"
  "dc_loads (working_client size_of reply) = (\<lambda>_. Some (json_object [(''ExitCode'', PyInt 0), (''OOMKilled'', PyBool False)]))"
  by (simp_all add: working_client_def)

lemma running_step: "m h = (h', Inr x) \<Longrightarrow> await_do m f h = f x h'"
  by (simp add: await_do_def)

lemma succeeded_simps [simp]:
  "cr_exit_code (succeeded out) = Some 0" "cr_timed_out (succeeded out) = False" "cr_stdout (succeeded out) = out"
  by (simp_all add: succeeded_def)

lemma exchange_working: "snd (exchange (working_client size_of reply) n payload h) = reply_of size_of reply n payload"
  by (simp add: exchange_def reply_of_def Let_def throw_def await_do_def write_line_def read_line_def await_event_def
      working_client_def last_written_def and_then_def split: sum.splits)

definition reply_transport :: "(pyval \<Rightarrow> nat) \<Rightarrow> (pyval \<Rightarrow> pyval) \<Rightarrow> (int, docker_exn) transport" where
  "reply_transport size_of reply = (\<lambda>n payload. (n + 1, reply_of size_of reply n payload))"

lemma harness_working:
  "harness_evaluate py_str table (reply_transport size_of reply) n i v
   = map_prod fst id (harness_evaluate py_str table (candidate_request (working_client size_of reply)) (n, h) i v)"
proof -
  have step: "reply_transport size_of reply (fst st) p = map_prod fst id (candidate_request (working_client size_of reply) st p)"
    for st p
    using exchange_working[of size_of reply "fst st" p "snd st"]
    by (cases st, cases "exchange (working_client size_of reply) (fst st) p (snd st)")
      (simp add: reply_transport_def candidate_request_def)
  show ?thesis
    using harness_abs[of "reply_transport size_of reply" fst, OF step, of py_str table "(n, h)"] by simp
qed

text \<open>When requests and responses fit into a line, their sizes do not matter.\<close>

definition reply_value :: "(pyval \<Rightarrow> pyval) \<Rightarrow> int \<Rightarrow> pyval \<Rightarrow> docker_exn + pyval" where
  "reply_value reply n payload =
     protocol_response n \<lparr>ln_length = 0, ln_newline = True, ln_value = Some (reply (with_id n payload))\<rparr>"

lemma reply_of_fits:
  "size_of (with_id n payload) \<le> REPORT_LIMIT_BYTES \<Longrightarrow> size_of (reply (with_id n payload)) < REPORT_LIMIT_BYTES
   \<Longrightarrow> reply_of size_of reply n payload = reply_value reply n payload"
  by (simp add: reply_of_def reply_value_def bounded_line_def Let_def protocol_response_def)

lemma shutdown_working:
  assumes "reply_of size_of reply n (json_object [(''op'', PyStr ''shutdown'')]) = Inr response"
    and "get_field response ''ok'' = PyBool True"
  shows "snd (candidate_shutdown (working_client size_of reply) n h) = Inr ()"
  using assms exchange_working[of size_of reply n "json_object [(''op'', PyStr ''shutdown'')]" h]
  by (cases "exchange (working_client size_of reply) n (json_object [(''op'', PyStr ''shutdown'')]) h")
    (simp add: candidate_shutdown_def candidate_request_def)

text \<open>The answers of the working client to the commands around a session.\<close>

lemma working_commands [simp]:
  "control_command (working_client size_of reply) arguments h
   = (Ran arguments CONTROL_TIMEOUT_SECONDS CONTROL_OUTPUT_LIMIT_BYTES # h, Inr (succeeded ''ok''))"
  by (simp add: control_command_def await_event_def)

lemma probe_ok [simp]: "probe_failure (succeeded ''ok'') = None"
  by code_simp

lemma working_probe: "\<exists>h'. capability_probe (working_runner size_of reply table) arguments retry h = (h', Inr (succeeded ''ok''))"
  by (simp add: capability_probe_def working_runner_def await_do_def pure_def upt_conv_Cons)

lemma working_capability: "\<exists>h' c. check_capability (working_runner size_of reply table) h = (h', Inr c) \<and> rc_available c"
proof -
  obtain h1 where 1: "capability_probe (working_runner size_of reply table) INFO_COMMAND True h = (h1, Inr (succeeded ''ok''))"
    using working_probe by blast
  obtain h2 where "capability_probe (working_runner size_of reply table)
      [''image'', ''inspect'', ''--format'', ''{{.Id}}'', dk_image ex_config] False h1 = (h2, Inr (succeeded ''ok''))"
    using working_probe by blast
  with 1 show ?thesis
    by (simp add: check_capability_def Let_def await_do_def) (simp add: working_runner_def pure_def)
qed

lemma working_inspect:
  "snd (inspect_state (working_client size_of reply) name h) = Inr (Some \<lparr>cs_exit_code = 0, cs_oom_killed = False\<rparr>)"
proof -
  have "container_state_of (json_object [(''ExitCode'', PyInt 0), (''OOMKilled'', PyBool False)])
      = Some \<lparr>cs_exit_code = 0, cs_oom_killed = False\<rparr>" by code_simp
  then show ?thesis by (simp add: inspect_state_def running_step[OF working_commands] pure_def)
qed

lemma working_open: "\<exists>h'. open_attached (working_runner size_of reply table) name h = (h', Inr True)"
  by (simp add: open_attached_def await_event_def working_runner_def)

lemma working_remove: "\<exists>h'. docker_remove (working_client size_of reply) name h = (h', Inr ())"
  by (simp add: docker_remove_def await_do_def pure_def)

lemma working_session:
  assumes "harness_evaluate (\<lambda>_. []) table (reply_transport size_of reply) 1 i v = (n, Inr report)"
    and "reply_of size_of reply n (json_object [(''op'', PyStr ''shutdown'')]) = Inr response"
    and "get_field response ''ok'' = PyBool True"
  shows "\<exists>h'. official_session (working_client size_of reply) table i v h = (h', Inr (report, Some 0))"
proof -
  obtain n' h1 r where run: "harness_evaluate (\<lambda>_. []) table (candidate_request (working_client size_of reply)) (1, h) i v
      = ((n', h1), r)" by (metis prod.exhaust)
  with harness_working[of "\<lambda>_. []" table size_of reply 1 i v h] assms(1) have "n' = n" "r = Inr report" by simp_all
  moreover obtain h2 where "candidate_shutdown (working_client size_of reply) n h1 = (h2, Inr ())"
    using shutdown_working[OF assms(2,3), of h1] by (metis prod.collapse)
  ultimately show ?thesis
    using run by (simp add: official_session_def await_do_def process_wait_def await_event_def pure_def)
qed

lemma other_steps:
  "m h = (h', r) \<Longrightarrow> r \<noteq> Inl Cancelled \<Longrightarrow> on_cancelled m cleanup h = (h', r)"
  "m h = (h', r) \<Longrightarrow> cleanup h' = (h'', Inr ()) \<Longrightarrow> finally_do m cleanup h = (h'', r)"
  by (auto simp: on_cancelled_def finally_do_def split: sum.splits docker_exn.splits)

text \<open>Around an attached process that is not cancelled, an evaluation with a working daemon adds nothing.\<close>

lemma working_frame:
  fixes size_of reply table
  defines "dr \<equiv> working_runner size_of reply table"
  assumes "\<And>cid name since s t h1. \<exists>h2 r. evaluate_attached dr cid name since s t task h1 = (h2, r)
      \<and> r \<noteq> Inl Cancelled \<and> P r"
  shows "\<exists>h' r. docker_evaluate dr eid directory task code h = (h', r) \<and> P r"
proof -
  let ?cl = "working_client size_of reply"
  have dr: "dr_client dr = ?cl" by (simp add: dr_def working_runner_def)
  have attempt: "\<exists>h' r. official_attempt dr name eid workspace since s t task h1 = (h', r) \<and> P r"
    for name workspace since s t h1
  proof -
    obtain h0 where created:
      "control_command ?cl (official_create_arguments dr name eid workspace) h1 = (h0, Inr (succeeded ''ok''))" by simp
    obtain h2 where h2: "open_attached dr name h0 = (h2, Inr True)" unfolding dr_def using working_open by blast
    obtain h3 r where h3: "evaluate_attached dr (container_id_of (succeeded ''ok'') name) name since s t task h2 = (h3, r)"
      and r: "r \<noteq> Inl Cancelled" "P r" using assms(2) by blast
    have opened: "on_cancelled (open_attached dr name) (docker_kill ?cl name) h0 = (h2, Inr True)"
      by (rule other_steps(1), rule h2, simp)
    have ended: "on_cancelled (evaluate_attached dr (container_id_of (succeeded ''ok'') name) name since s t task)
        (await_do (process_terminate ?cl) (\<lambda>_. docker_kill ?cl name)) h2 = (h3, r)"
      by (rule other_steps(1), rule h3, rule r(1))
    have "official_attempt dr name eid workspace since s t task h1 = (h3, r)"
      unfolding official_attempt_def Let_def dr
      by (subst running_step, rule created, simp, subst running_step, rule opened, simp add: ended)
    with r show ?thesis by blast
  qed
  obtain h1 c where c: "check_capability dr h = (h1, Inr c)" "rc_available c" unfolding dr_def using working_capability by blast
  let ?h = "Prepared [directory @ ''/workspace'', code] # h1"
  have prepare: "await_event (Prepared [directory @ ''/workspace'', code]) (dc_prepare ?cl) h1 = (?h, Inr ())"
    by (simp add: await_event_def)
  obtain h2 r where h2: "official_attempt dr (container_name_of eid) eid (directory @ ''/workspace'') (dc_timestamp ?cl h1)
      (dc_clock ?cl h) (min (ts_timeout_seconds (rt_specification task)) (dk_timeout_seconds (dr_config dr))) task ?h
      = (h2, r)" "P r" using attempt by blast
  obtain h3 where h3: "docker_remove ?cl (container_name_of eid) h2 = (h3, Inr ())" using working_remove by blast
  have "docker_evaluate dr eid directory task code h = (h3, r)"
    unfolding docker_evaluate_def Let_def dr now_do_def
    by (subst running_step, rule c(1), simp add: c(2), subst running_step, rule prepare,
        rule other_steps(2), rule h2, rule h3)
  with h2(2) show ?thesis by blast
qed

definition reports :: "harness_report \<Rightarrow> docker_exn + runner_result \<Rightarrow> bool" where
  "reports report x = (case x of
     Inr r \<Rightarrow> rr_passed r = hr_passed report \<and> rr_failed r = hr_failed report \<and> rr_total r = hr_total report
       \<and> rr_syntax_error r = hr_syntax_error report \<and> rr_import_error r = hr_import_error report \<and> rr_exit_code r = Some 0
   | Inl _ \<Rightarrow> False)"

lemma reports_Inr:
  assumes "reports report x"
  obtains r where "x = Inr r" "rr_passed r = hr_passed report" "rr_failed r = hr_failed report"
    "rr_total r = hr_total report" "rr_exit_code r = Some 0"
  using assms by (cases x) (auto simp: reports_def)

lemma working_evaluate:
  assumes "harness_evaluate (\<lambda>_. []) table (reply_transport size_of reply) 1 (ts_id (rt_specification task)) (rt_revision task)
      = (n, Inr report)"
    and "reply_of size_of reply n (json_object [(''op'', PyStr ''shutdown'')]) = Inr response"
    and "get_field response ''ok'' = PyBool True"
  shows "\<exists>h' r. docker_evaluate (working_runner size_of reply table) eid directory task code h = (h', r) \<and> reports report r"
proof (rule working_frame)
  fix cid name since s t h1
  let ?cl = "working_client size_of reply" and ?dr = "working_runner size_of reply table"
  have dr: "dr_client ?dr = ?cl" "dr_table ?dr = table" by (simp_all add: working_runner_def)
  obtain h2 where h2: "official_session ?cl table (ts_id (rt_specification task)) (rt_revision task) h1
      = (h2, Inr (report, Some 0))" using working_session[OF assms] by blast
  obtain h3 where "inspect_state ?cl name h2 = (h3, Inr (Some \<lparr>cs_exit_code = 0, cs_oom_killed = False\<rparr>))"
    using working_inspect[of size_of reply name h2] by (metis prod.collapse)
  then show "\<exists>h2 r. evaluate_attached ?dr cid name since s t task h1 = (h2, r) \<and> r \<noteq> Inl Cancelled \<and> reports report r"
    by (simp add: evaluate_attached_def dr h2 after_session_def Let_def await_do_def now_do_def pure_def oom_verdict_def
        reports_def)
qed

section \<open>Properties\<close>

text \<open>A task with one official case of one command, and a container that answers as it should.\<close>

definition ex_cases :: "official_case list" where
  "ex_cases = [official_case_of ''store'' [expect (store_command ''x'' (PyInt 1)) PyNone]]"

definition ex_table :: "string \<times> int \<Rightarrow> official_case list option" where
  "ex_table = (\<lambda>_. Some ex_cases)"

definition ex_reply :: "pyval \<Rightarrow> pyval" where
  "ex_reply request = json_object
     ([(''id'', get_field request ''id''), (''ok'', PyBool True)]
      @ (if get_field request ''op'' = PyStr ''shutdown'' then []
         else [(''candidate'', json_object [(''outcomes'', PyList [json_object [(''ok'', PyBool True), (''result'', PyNone)]])])]))"

lemma ex_reply_of: "reply_of (\<lambda>_. 100) ex_reply = reply_value ex_reply"
  by (rule ext, rule ext, rule reply_of_fits) (simp_all add: REPORT_LIMIT_BYTES_def)

lemma ex_run:
  "run_cases (\<lambda>_. []) (\<lambda>n payload. (n + 1, reply_value ex_reply n payload)) 1 ex_cases 0 = (2, Inr (CasesPassed 1))"
  by code_simp

lemma ex_replies:
  "harness_evaluate (\<lambda>_. []) ex_table (reply_transport (\<lambda>_. 100) ex_reply) 1 i v
   = (2, Inr \<lparr>hr_passed = 1, hr_failed = 0, hr_total = 1, hr_syntax_error = False, hr_import_error = False\<rparr>)"
  "reply_of (\<lambda>_. 100) ex_reply 2 (json_object [(''op'', PyStr ''shutdown'')])
   = Inr (json_object [(''id'', PyInt 2), (''ok'', PyBool True)])"
  by (simp add: harness_evaluate_def ex_table_def reply_transport_def ex_reply_of ex_run, simp add: ex_cases_def)
    (simp only: ex_reply_of, code_simp)

text \<open>
  C16: Whatever the Docker daemon, the candidate and the caller do, a result of the Docker runner is sound, for the official
  tests and for generated tests: passed and failed tests add up to the total, at most one of the
  verdicts timed out, out of memory, sandbox error and infrastructure error is given, and none of them together
  with counted tests.
\<close>
theorem docker_result_sound:
  assumes "docker_evaluate dr eid directory task code h = (h', Inr r)
    \<or> evaluate_generated_tests dr eid directory task code h = (h', Inr r)"
  shows "counted_with_verdict r"
  using assms guarded_behaves(2)[OF evaluations_guarded(1)] guarded_behaves(2)[OF evaluations_guarded(2)] by blast

theorem docker_result_sound_witness:
  "\<forall>task code. \<exists>h' r. docker_evaluate (working_runner (\<lambda>_. 100) ex_reply ex_table) ''0'' ''/tmp'' task code [] = (h', Inr r)
     \<and> rr_passed r = 1 \<and> rr_total r = 1 \<and> counted_with_verdict r"
proof (intro allI)
  fix task code
  have ok: "get_field (json_object [(''id'', PyInt 2), (''ok'', PyBool True)]) ''ok'' = PyBool True" by code_simp
  obtain h' x where "docker_evaluate (working_runner (\<lambda>_. 100) ex_reply ex_table) ''0'' ''/tmp'' task code [] = (h', x)"
    and x: "reports \<lparr>hr_passed = 1, hr_failed = 0, hr_total = 1, hr_syntax_error = False, hr_import_error = False\<rparr> x"
    using working_evaluate[OF ex_replies ok] by blast
  with reports_Inr[OF x] obtain r where
    "docker_evaluate (working_runner (\<lambda>_. 100) ex_reply ex_table) ''0'' ''/tmp'' task code [] = (h', Inr r)"
    "rr_passed r = 1" "rr_total r = 1" by auto
  with docker_result_sound show "\<exists>h' r. docker_evaluate (working_runner (\<lambda>_. 100) ex_reply ex_table) ''0'' ''/tmp'' task code [] = (h', Inr r)
     \<and> rr_passed r = 1 \<and> rr_total r = 1 \<and> counted_with_verdict r" by blast
qed

text \<open>
  C17: No container is left behind: an evaluation with the Docker runner, of official or of generated tests, issues at most
  one command that creates a container, that command gives it the name of the evaluation (\<^verbatim>\<open>--name\<close>), and then the last
  command of the evaluation removes the container of this name by force, also when the evaluation ends with an exception or is cancelled at any point, even during the cleanup.
\<close>
theorem docker_container_removed:
  "(\<exists>new. fst (docker_evaluate dr eid directory task code h) = new @ h \<and> cleaned_up (container_name_of eid) new)
   \<and> (\<exists>new. fst (evaluate_generated_tests dr eid directory task code h) = new @ h \<and> cleaned_up (container_name_of eid) new)"
  using guarded_behaves(1)[OF evaluations_guarded(1) surjective_pairing]
    guarded_behaves(1)[OF evaluations_guarded(2) surjective_pairing] by blast

definition response_too_long :: docker_exn where
  "response_too_long = OtherError ''Docker protocol response exceeded its limit''"

lemma oversized_session:
  assumes "table (i, v) = Some (c # cs)" "size_of (with_id 1 (case_payload c)) \<le> REPORT_LIMIT_BYTES"
    and "REPORT_LIMIT_BYTES \<le> size_of (reply (with_id 1 (case_payload c)))"
  shows "\<exists>h'. official_session (working_client size_of reply) table i v h = (h', Inl response_too_long)"
proof -
  have "reply_of size_of reply 1 (case_payload c) = Inl response_too_long"
    using assms(2,3) by (simp add: reply_of_def bounded_line_def and_then_def Let_def response_too_long_def)
  then have "harness_evaluate (\<lambda>_. []) table (reply_transport size_of reply) 1 i v = (2, Inl (TransportError response_too_long))"
    by (simp add: harness_evaluate_def assms(1) reply_transport_def)
  with harness_working[of "\<lambda>_. []" table size_of reply 1 i v h] show ?thesis
    by (cases "harness_evaluate (\<lambda>_. []) table (candidate_request (working_client size_of reply)) (1, h) i v")
      (simp add: official_session_def split: prod.splits)
qed

text \<open>
  C18: An error that escapes: when a candidate makes the outcomes of a case so long that the response of the supervisor does
  not fit into a line of the protocol, the evaluation of the official tests raises the \<^verbatim>\<open>ValueError\<close> of
  the reader; it is not reported as a sandbox error of the candidate, like other invalid responses.
\<close>
theorem oversized_response_escapes:
  assumes "table (ts_id (rt_specification task), rt_revision task) = Some (c # cs)"
    and "size_of (with_id 1 (case_payload c)) \<le> REPORT_LIMIT_BYTES"
    and "REPORT_LIMIT_BYTES \<le> size_of (reply (with_id 1 (case_payload c)))"
  shows "snd (docker_evaluate (working_runner size_of reply table) eid directory task code h) = Inl response_too_long"
proof -
  let ?dr = "working_runner size_of reply table" and ?i = "ts_id (rt_specification task)" and ?v = "rt_revision task"
  have attached: "\<exists>h2 r. evaluate_attached ?dr cid name since s t task h1 = (h2, r) \<and> r \<noteq> Inl Cancelled
      \<and> r = Inl response_too_long" for cid name since s t h1
  proof -
    obtain h2 where "official_session (working_client size_of reply) table ?i ?v h1 = (h2, Inl response_too_long)"
      using oversized_session[of table ?i ?v c cs size_of reply, OF assms] by blast
    then show ?thesis by (simp add: evaluate_attached_def working_runner_def) (simp add: response_too_long_def)
  qed
  show ?thesis using working_frame[of size_of reply table task, OF attached, of eid directory code h] by auto
qed

theorem oversized_response_escapes_witness:
  "\<forall>task code. snd (docker_evaluate (working_runner (\<lambda>v. if get_field v ''ok'' = PyNone then 100 else 70000) ex_reply ex_table)
     ''0'' ''/tmp'' task code []) = Inl response_too_long"
proof (intro allI, rule oversized_response_escapes)
  fix task :: registered_task
  show "ex_table (ts_id (rt_specification task), rt_revision task) = Some (hd ex_cases # [])"
    by (simp add: ex_table_def ex_cases_def)
  have "get_field (with_id 1 (case_payload (hd ex_cases))) ''ok'' = PyNone"
    "get_field (ex_reply (with_id 1 (case_payload (hd ex_cases)))) ''ok'' \<noteq> PyNone" by code_simp+
  then show "(if get_field (with_id 1 (case_payload (hd ex_cases))) ''ok'' = PyNone then 100 else 70000) \<le> REPORT_LIMIT_BYTES"
    "REPORT_LIMIT_BYTES \<le> (if get_field (ex_reply (with_id 1 (case_payload (hd ex_cases)))) ''ok'' = PyNone then 100 else 70000)"
    by (simp_all add: REPORT_LIMIT_BYTES_def)
qed

end
