(* ===== verification/Snapshots.thy ===== *)
theory Snapshots
  imports Scoring
begin

text \<open>
  The immutable evaluation snapshot of \<^verbatim>\<open>src/app/snapshots/models.py\<close> and its storage as a row of the evaluations table
  (\<^verbatim>\<open>src/app/db/repositories.py\<close>). Typed values stored in JSON columns keep their type here: the
  JSON encoding of pydantic is not modelled. The main property is the round trip: a stored
  snapshot is read back unchanged.
\<close>

section \<open>Snapshots\<close>

record execution_environment =
  ex_backend :: string
  ex_sandbox_image :: "string option"
  ex_sandbox_image_id :: "string option"

record evaluation_snapshot =
  sn_evaluation_id :: uuid
  sn_created_at :: time
  sn_completed_at :: time
  sn_duration_seconds :: rat
  sn_task_id :: string
  sn_task_version :: string
  sn_task_fingerprint :: string
  sn_tests_fingerprint :: string
  sn_language :: string
  sn_source_text :: string
  sn_source_hash :: string
  sn_source_size :: nat
  sn_status :: evaluation_status
  sn_execution :: execution_environment
  sn_codejudge_version :: string
  sn_scoring_policy_version :: string
  sn_analyzer_versions :: "(string \<times> string) list"
  sn_tests :: test_result
  sn_oom_killed :: bool
  sn_score_breakdown :: score_breakdown
  sn_final_score :: rat
  sn_complexity :: "complexity_metrics option"
  sn_execution_findings :: "finding list"
  sn_analysis_findings :: "finding list"
  sn_reproducibility_fingerprint :: string
  sn_ai_assessment :: "ai_assessment option"

record evaluation_detail =
  dt_evaluation_id :: uuid
  dt_created_at :: time
  dt_completed_at :: time
  dt_duration_seconds :: rat
  dt_task_id :: string
  dt_task_version :: string
  dt_task_fingerprint :: string
  dt_tests_fingerprint :: string
  dt_language :: string
  dt_source_text :: string
  dt_source_hash :: string
  dt_source_size :: nat
  dt_status :: evaluation_status
  dt_execution :: execution_environment
  dt_codejudge_version :: string
  dt_scoring_policy_version :: string
  dt_analyzer_versions :: "(string \<times> string) list"
  dt_oom_killed :: bool
  dt_score :: rat
  dt_tests :: test_result
  dt_score_breakdown :: score_breakdown
  dt_analysis :: "static_analysis_result option"
  dt_findings :: "finding list"
  dt_reproducibility_fingerprint :: string
  dt_ai_assessment :: "ai_assessment option"

text \<open>
  \<^verbatim>\<open>EvaluationDetail.from_snapshot\<close>: the analysis is rebuilt from the complexity metrics and the
  analysis findings.
\<close>

definition from_snapshot :: "evaluation_snapshot \<Rightarrow> evaluation_detail" where
  "from_snapshot s =
     \<lparr>dt_evaluation_id = sn_evaluation_id s,
      dt_created_at = sn_created_at s,
      dt_completed_at = sn_completed_at s,
      dt_duration_seconds = sn_duration_seconds s,
      dt_task_id = sn_task_id s,
      dt_task_version = sn_task_version s,
      dt_task_fingerprint = sn_task_fingerprint s,
      dt_tests_fingerprint = sn_tests_fingerprint s,
      dt_language = sn_language s,
      dt_source_text = sn_source_text s,
      dt_source_hash = sn_source_hash s,
      dt_source_size = sn_source_size s,
      dt_status = sn_status s,
      dt_execution = sn_execution s,
      dt_codejudge_version = sn_codejudge_version s,
      dt_scoring_policy_version = sn_scoring_policy_version s,
      dt_analyzer_versions = sn_analyzer_versions s,
      dt_oom_killed = sn_oom_killed s,
      dt_score = sn_final_score s,
      dt_tests = sn_tests s,
      dt_score_breakdown = sn_score_breakdown s,
      dt_analysis = (case sn_complexity s of None \<Rightarrow> None
        | Some c \<Rightarrow> Some \<lparr>sa_findings = sn_analysis_findings s, sa_complexity = c\<rparr>),
      dt_findings = sn_execution_findings s,
      dt_reproducibility_fingerprint = sn_reproducibility_fingerprint s,
      dt_ai_assessment = sn_ai_assessment s\<rparr>"

section \<open>Rows of the evaluations table\<close>

text \<open>The JSON artifact of the judge results; each key may be absent.\<close>

record judge_artifact =
  ja_disputed :: "bool option"
  ja_disagreement_spread :: "rat option"
  ja_results :: "judge_result list option"

record evaluation_row =
  ev_evaluation_id :: uuid
  ev_created_at :: time
  ev_completed_at :: time
  ev_duration_seconds :: rat
  ev_task_id :: string
  ev_task_version :: string
  ev_task_fingerprint :: string
  ev_tests_fingerprint :: string
  ev_language :: string
  ev_source_text :: string
  ev_source_hash :: string
  ev_source_size :: nat
  ev_status :: evaluation_status
  ev_execution_backend :: string
  ev_sandbox_image :: "string option"
  ev_sandbox_image_id :: "string option"
  ev_codejudge_version :: string
  ev_scoring_policy_version :: string
  ev_analyzer_versions :: "(string \<times> string) list"
  ev_tests_passed :: nat
  ev_tests_failed :: nat
  ev_tests_total :: nat
  ev_test_duration_seconds :: rat
  ev_timed_out :: bool
  ev_oom_killed :: bool
  ev_correctness_score :: rat
  ev_code_quality_score :: "rat option"
  ev_type_safety_score :: "rat option"
  ev_security_score :: "rat option"
  ev_complexity_score :: "rat option"
  ev_final_score :: rat
  ev_complexity :: "complexity_metrics option"
  ev_execution_findings :: "finding list"
  ev_analysis_findings :: "finding list"
  ev_reproducibility_fingerprint :: string
  ev_ai_status :: "ai_status option"
  ev_ai_reason :: "string option"
  ev_ai_score :: "rat option"
  ev_judge_score :: "rat option"
  ev_adversarial_robustness :: "rat option"
  ev_ai_reproducibility_fingerprint :: "string option"
  ev_ai_judge_results :: "judge_artifact option"
  ev_ai_adversarial_results :: "adversarial_result option"
  ev_ai_provenance :: "ai_provenance option"

text \<open>The check constraints of \<^verbatim>\<open>EvaluationRecord\<close>.\<close>

definition score_column :: "rat option \<Rightarrow> bool" where
  "score_column x = (case x of None \<Rightarrow> True | Some v \<Rightarrow> 0 \<le> v \<and> v \<le> 100)"

definition evaluation_checks :: "evaluation_row \<Rightarrow> bool" where
  "evaluation_checks r \<longleftrightarrow> 0 < ev_source_size r \<and> length (ev_source_hash r) = 64
     \<and> length (ev_task_fingerprint r) = 64 \<and> length (ev_tests_fingerprint r) = 64
     \<and> length (ev_reproducibility_fingerprint r) = 64
     \<and> ev_tests_passed r + ev_tests_failed r = ev_tests_total r
     \<and> 0 \<le> ev_duration_seconds r \<and> score_column (Some (ev_correctness_score r))
     \<and> score_column (Some (ev_final_score r)) \<and> score_column (ev_ai_score r)
     \<and> score_column (ev_judge_score r) \<and> score_column (ev_adversarial_robustness r)
     \<and> (case ev_ai_reproducibility_fingerprint r of None \<Rightarrow> True | Some f \<Rightarrow> length f = 64)
     \<and> score_column (ev_code_quality_score r) \<and> score_column (ev_type_safety_score r)
     \<and> score_column (ev_security_score r) \<and> score_column (ev_complexity_score r)"

definition opt_bind :: "'a option \<Rightarrow> ('a \<Rightarrow> 'b option) \<Rightarrow> 'b option" where
  "opt_bind x f = (case x of None \<Rightarrow> None | Some y \<Rightarrow> f y)"

definition evaluation_record_from_snapshot :: "evaluation_snapshot \<Rightarrow> evaluation_row" where
  "evaluation_record_from_snapshot s =
     (let b = sn_score_breakdown s; ai = sn_ai_assessment s in
      \<lparr>ev_evaluation_id = sn_evaluation_id s, ev_created_at = sn_created_at s,
       ev_completed_at = sn_completed_at s, ev_duration_seconds = sn_duration_seconds s,
       ev_task_id = sn_task_id s, ev_task_version = sn_task_version s,
       ev_task_fingerprint = sn_task_fingerprint s, ev_tests_fingerprint = sn_tests_fingerprint s,
       ev_language = sn_language s, ev_source_text = sn_source_text s,
       ev_source_hash = sn_source_hash s, ev_source_size = sn_source_size s,
       ev_status = sn_status s, ev_execution_backend = ex_backend (sn_execution s),
       ev_sandbox_image = ex_sandbox_image (sn_execution s),
       ev_sandbox_image_id = ex_sandbox_image_id (sn_execution s),
       ev_codejudge_version = sn_codejudge_version s,
       ev_scoring_policy_version = sn_scoring_policy_version s,
       ev_analyzer_versions = sn_analyzer_versions s,
       ev_tests_passed = tr_passed (sn_tests s), ev_tests_failed = tr_failed (sn_tests s),
       ev_tests_total = tr_total (sn_tests s),
       ev_test_duration_seconds = tr_duration_seconds (sn_tests s),
       ev_timed_out = tr_timed_out (sn_tests s), ev_oom_killed = sn_oom_killed s,
       ev_correctness_score = sb_correctness b, ev_code_quality_score = sb_code_quality b,
       ev_type_safety_score = sb_type_safety b, ev_security_score = sb_security b,
       ev_complexity_score = sb_complexity b, ev_final_score = sn_final_score s,
       ev_complexity = sn_complexity s, ev_execution_findings = sn_execution_findings s,
       ev_analysis_findings = sn_analysis_findings s,
       ev_reproducibility_fingerprint = sn_reproducibility_fingerprint s,
       ev_ai_status = map_option aa_status ai,
       ev_ai_reason = opt_bind ai aa_reason,
       ev_ai_score = opt_bind ai aa_ai_score,
       ev_judge_score = opt_bind ai aa_judge_score,
       ev_adversarial_robustness =
         opt_bind ai (\<lambda>a. opt_bind (aa_adversarial_tests a) av_robustness_score),
       ev_ai_reproducibility_fingerprint = map_option aa_ai_reproducibility_fingerprint ai,
       ev_ai_judge_results = map_option (\<lambda>a.
         \<lparr>ja_disputed = Some (aa_judge_disputed a),
          ja_disagreement_spread = aa_judge_disagreement_spread a,
          ja_results = Some (aa_judge_results a)\<rparr>) ai,
       ev_ai_adversarial_results = opt_bind ai aa_adversarial_tests,
       ev_ai_provenance = map_option aa_provenance ai\<rparr>)"

definition stored_judge_results :: "judge_artifact option \<Rightarrow> judge_result list" where
  "stored_judge_results artifact =
     (case artifact of None \<Rightarrow> [] | Some a \<Rightarrow> (case ja_results a of None \<Rightarrow> [] | Some rs \<Rightarrow> rs))"

definition stored_disputed :: "judge_artifact option \<Rightarrow> ai_status \<Rightarrow> bool" where
  "stored_disputed artifact status =
     (case opt_bind artifact ja_disputed of Some b \<Rightarrow> b | None \<Rightarrow> status = AI_Disputed)"

definition stored_disagreement :: "judge_artifact option \<Rightarrow> rat option" where
  "stored_disagreement artifact = opt_bind artifact ja_disagreement_spread"

datatype persistence_error = PersistenceError string

definition stored_assessment :: "evaluation_row \<Rightarrow> persistence_error + ai_assessment option" where
  "stored_assessment r =
     (case ev_ai_status r of
        None \<Rightarrow> Inr None
      | Some status \<Rightarrow>
          (case (ev_ai_provenance r, ev_ai_reproducibility_fingerprint r) of
             (Some provenance, Some fingerprint) \<Rightarrow>
               Inr (Some \<lparr>aa_status = status, aa_reason = ev_ai_reason r,
                 aa_ai_score = ev_ai_score r, aa_judge_score = ev_judge_score r,
                 aa_judge_disputed = stored_disputed (ev_ai_judge_results r) status,
                 aa_judge_disagreement_spread = stored_disagreement (ev_ai_judge_results r),
                 aa_judge_results = stored_judge_results (ev_ai_judge_results r),
                 aa_adversarial_tests = ev_ai_adversarial_results r,
                 aa_provenance = provenance,
                 aa_ai_reproducibility_fingerprint = fingerprint\<rparr>)
           | _ \<Rightarrow> Inl (PersistenceError ''Stored AI assessment metadata is incomplete.'')))"

definition snapshot_from_record :: "evaluation_row \<Rightarrow> persistence_error + evaluation_snapshot" where
  "snapshot_from_record r =
     (case stored_assessment r of
        Inl e \<Rightarrow> Inl e
      | Inr ai \<Rightarrow> Inr
          \<lparr>sn_evaluation_id = ev_evaluation_id r, sn_created_at = ev_created_at r,
           sn_completed_at = ev_completed_at r, sn_duration_seconds = ev_duration_seconds r,
           sn_task_id = ev_task_id r, sn_task_version = ev_task_version r,
           sn_task_fingerprint = ev_task_fingerprint r,
           sn_tests_fingerprint = ev_tests_fingerprint r, sn_language = ev_language r,
           sn_source_text = ev_source_text r, sn_source_hash = ev_source_hash r,
           sn_source_size = ev_source_size r, sn_status = ev_status r,
           sn_execution = \<lparr>ex_backend = ev_execution_backend r,
             ex_sandbox_image = ev_sandbox_image r, ex_sandbox_image_id = ev_sandbox_image_id r\<rparr>,
           sn_codejudge_version = ev_codejudge_version r,
           sn_scoring_policy_version = ev_scoring_policy_version r,
           sn_analyzer_versions = ev_analyzer_versions r,
           sn_tests = \<lparr>tr_passed = ev_tests_passed r, tr_failed = ev_tests_failed r,
             tr_total = ev_tests_total r, tr_duration_seconds = ev_test_duration_seconds r,
             tr_timed_out = ev_timed_out r\<rparr>,
           sn_oom_killed = ev_oom_killed r,
           sn_score_breakdown = \<lparr>sb_correctness = ev_correctness_score r,
             sb_code_quality = ev_code_quality_score r, sb_type_safety = ev_type_safety_score r,
             sb_security = ev_security_score r, sb_complexity = ev_complexity_score r\<rparr>,
           sn_final_score = ev_final_score r, sn_complexity = ev_complexity r,
           sn_execution_findings = ev_execution_findings r,
           sn_analysis_findings = ev_analysis_findings r,
           sn_reproducibility_fingerprint = ev_reproducibility_fingerprint r,
           sn_ai_assessment = ai\<rparr>)"

lemma stored_assessment_roundtrip:
  "stored_assessment (evaluation_record_from_snapshot s) = Inr (sn_ai_assessment s)"
  by (cases "sn_ai_assessment s")
    (simp_all add: stored_assessment_def evaluation_record_from_snapshot_def Let_def opt_bind_def
      stored_disputed_def stored_disagreement_def stored_judge_results_def)

lemma snapshot_reads_back:
  "snapshot_from_record (evaluation_record_from_snapshot s) = Inr s"
  by (simp add: snapshot_from_record_def stored_assessment_roundtrip)
    (simp add: evaluation_record_from_snapshot_def Let_def)

text \<open>
  Storage is lossless: the row written for a snapshot, AI assessment included, is read back
  as the same snapshot.
\<close>
theorem snapshot_roundtrip:
  "snapshot_from_record (evaluation_record_from_snapshot s) = Inr s"
  by (rule snapshot_reads_back)

text \<open>
  Reading a row fails exactly when it has an AI status but lacks the provenance or the AI
  fingerprint.
\<close>
theorem snapshot_from_record_error:
  "(\<exists>s. snapshot_from_record r = Inr s) \<longleftrightarrow>
     (ev_ai_status r = None \<or>
      (\<exists>p. ev_ai_provenance r = Some p) \<and> (\<exists>f. ev_ai_reproducibility_fingerprint r = Some f))"
  by (auto simp: snapshot_from_record_def stored_assessment_def split: option.splits sum.splits)

end
