(* ===== verification/CanonicalJson.thy ===== *)
theory CanonicalJson
  imports Fingerprints Snapshots
begin

text \<open>
  The canonical-JSON fingerprints of \<^verbatim>\<open>src/app/snapshots/fingerprints.py\<close> and
  \<^verbatim>\<open>src/app/jobs/integrity.py\<close>: \<^verbatim>\<open>json.dumps(..., ensure_ascii=False, sort_keys=True,
  separators=(",", ":"))\<close>, encoded as UTF-8 and hashed. SHA-256 is the argument \<open>sha\<close> and the
  decimal form of a float the argument \<open>repr\<close>. The main property is that the serialisation is
  unambiguous, so a reproducibility fingerprint identifies every component that goes into it.
\<close>

section \<open>Serialisation\<close>

datatype json = JNull | JStr string | JFloat rat | JObj "(string \<times> json) list"

definition hex_digit :: "nat \<Rightarrow> char" where
  "hex_digit n = char_of (if n < 10 then 48 + n else 87 + n)"

definition esc_char :: "bool \<Rightarrow> char \<Rightarrow> string" where
  "esc_char ensure_ascii c =
     (if c = CHR ''\"'' then [CHR 0x5C, CHR ''\"'']
      else if c = CHR 0x5C then [CHR 0x5C, CHR 0x5C]
      else if c = CHR 0x0A then [CHR 0x5C, CHR ''n'']
      else if c = CHR 0x0D then [CHR 0x5C, CHR ''r'']
      else if c = CHR 0x09 then [CHR 0x5C, CHR ''t'']
      else if c = CHR 0x0C then [CHR 0x5C, CHR ''f'']
      else if c = CHR 0x08 then [CHR 0x5C, CHR ''b'']
      else if (of_char c :: nat) < 32 \<or> ensure_ascii \<and> 126 < (of_char c :: nat)
        then CHR 0x5C # ''u00'' @ [hex_digit (of_char c div 16), hex_digit (of_char c mod 16)]
      else [c])"

definition dump_str :: "bool \<Rightarrow> string \<Rightarrow> string" where
  "dump_str ensure_ascii s =
     CHR ''\"'' # concat (map (esc_char ensure_ascii) s) @ [CHR ''\"'']"

fun dump_members :: "bool \<Rightarrow> (string \<times> string) list \<Rightarrow> string" where
  "dump_members ea [] = ''}''"
| "dump_members ea [(k, t)] = dump_str ea k @ '':'' @ t @ ''}''"
| "dump_members ea ((k, t) # x # xs) = dump_str ea k @ '':'' @ t @ '','' @ dump_members ea (x # xs)"

text \<open>The members of an object are rendered in the order of their keys.\<close>

primrec dumps :: "bool \<Rightarrow> (rat \<Rightarrow> string) \<Rightarrow> json \<Rightarrow> string" where
  "dumps ea repr JNull = ''null''"
| "dumps ea repr (JStr s) = dump_str ea s"
| "dumps ea repr (JFloat x) = repr x"
| "dumps ea repr (JObj kvs) =
     ''{'' @ dump_members ea (sort_key fst (map (map_prod id (dumps ea repr)) kvs))"

definition canonical_hash :: "(bytes \<Rightarrow> string) \<Rightarrow> (rat \<Rightarrow> string) \<Rightarrow> json \<Rightarrow> string" where
  "canonical_hash sha repr payload = sha (utf8 (dumps False repr payload))"

section \<open>Fingerprints\<close>

definition json_opt :: "string option \<Rightarrow> json" where
  "json_opt x = (case x of None \<Rightarrow> JNull | Some s \<Rightarrow> JStr s)"

definition json_strings :: "(string \<times> string) list \<Rightarrow> json" where
  "json_strings m = JObj (map (map_prod id JStr) m)"

definition dump_task :: "task_spec \<Rightarrow> json" where
  "dump_task t = JObj
     [(''id'', JStr (ts_id t)), (''title'', JStr (ts_title t)), (''description'', JStr (ts_description t)),
      (''language'', JStr (ts_language t)), (''entrypoint'', json_opt (ts_entrypoint t)),
      (''timeout_seconds'', JFloat (ts_timeout_seconds t)), (''version'', JStr (ts_version t))]"

definition dump_execution :: "execution_environment \<Rightarrow> json" where
  "dump_execution e = JObj
     [(''backend'', JStr (ex_backend e)), (''sandbox_image'', json_opt (ex_sandbox_image e)),
      (''sandbox_image_id'', json_opt (ex_sandbox_image_id e))]"

text \<open>
  \<^verbatim>\<open>task_fingerprint\<close>: \<open>tests\<close> is what \<^verbatim>\<open>tests_fingerprint\<close> returns for the task; an absent or empty
  identity falls back to it.
\<close>

definition task_fingerprint ::
    "(bytes \<Rightarrow> string) \<Rightarrow> (rat \<Rightarrow> string) \<Rightarrow> string \<Rightarrow> task_spec \<Rightarrow> string option \<Rightarrow> string" where
  "task_fingerprint sha repr tests spec test_identity =
     canonical_hash sha repr (JObj
       [(''task'', dump_task spec),
        (''tests_fingerprint'', JStr (case test_identity of
            None \<Rightarrow> tests | Some i \<Rightarrow> if i = [] then tests else i))])"

definition reproducibility_payload ::
    "string \<Rightarrow> string \<Rightarrow> string \<Rightarrow> (string \<times> string) list \<Rightarrow> string \<Rightarrow> execution_environment \<Rightarrow> string
     \<Rightarrow> json" where
  "reproducibility_payload source_hash task_hash tests_hash analyzers scoring execution version =
     JObj [(''source_hash'', JStr source_hash), (''task_fingerprint'', JStr task_hash),
           (''tests_fingerprint'', JStr tests_hash), (''analyzer_versions'', json_strings analyzers),
           (''scoring_policy_version'', JStr scoring), (''execution'', dump_execution execution),
           (''codejudge_version'', JStr version)]"

definition reproducibility_fingerprint ::
    "(bytes \<Rightarrow> string) \<Rightarrow> (rat \<Rightarrow> string) \<Rightarrow> string \<Rightarrow> string \<Rightarrow> string \<Rightarrow> (string \<times> string) list
     \<Rightarrow> string \<Rightarrow> execution_environment \<Rightarrow> string \<Rightarrow> string" where
  "reproducibility_fingerprint sha repr source_hash task_hash tests_hash analyzers scoring execution version =
     canonical_hash sha repr
       (reproducibility_payload source_hash task_hash tests_hash analyzers scoring execution version)"

definition request_payload :: "(bytes \<Rightarrow> string) \<Rightarrow> evaluation_request \<Rightarrow> json" where
  "request_payload sha request =
     JObj [(''task_id'', JStr (rq_task_id request)), (''language'', JStr (rq_language request)),
           (''source_hash'', JStr (fst (source_identity sha (rq_code request))))]"

text \<open>\<^verbatim>\<open>request_fingerprint\<close> serialises with the default \<^verbatim>\<open>ensure_ascii=True\<close>.\<close>

definition request_fingerprint ::
    "(bytes \<Rightarrow> string) \<Rightarrow> (rat \<Rightarrow> string) \<Rightarrow> evaluation_request \<Rightarrow> string" where
  "request_fingerprint sha repr request = sha (utf8 (dumps True repr (request_payload sha request)))"

section \<open>The serialisation is unambiguous\<close>

lemma utf8_char_prefix:
  assumes "utf8_char c @ r = utf8_char d @ r'"
  shows "c = d \<and> r = r'"
proof -
  define m n :: nat where "m = of_char c" and "n = of_char d"
  have b: "m < 256" "n < 256" by (simp_all add: m_def n_def)
  have inj: "m = n \<Longrightarrow> c = d" by (simp add: m_def n_def of_char_eq_iff)
  have w: "(of_nat x :: 8 word) = of_nat y \<longleftrightarrow> x = y" if "x < 256" "y < 256" for x y
    using that unat_byte[of x] unat_byte[of y] by (metis mod_less)
  have "m < 128 \<longleftrightarrow> n < 128"
    using assms b w[of m "192 + n div 64"] w[of "192 + m div 64" n]
    by (auto simp: utf8_char_def Let_def m_def[symmetric] n_def[symmetric] split: if_splits)
  then consider "m < 128" "n < 128" | "128 \<le> m" "128 \<le> n" by linarith
  then show ?thesis
  proof cases
    case 1
    then have "of_nat m = (of_nat n :: 8 word) \<and> r = r'"
      using assms by (simp add: utf8_char_def Let_def m_def[symmetric] n_def[symmetric])
    with w[OF b] inj show ?thesis by simp
  next
    case 2
    then have e: "of_nat (192 + m div 64) = (of_nat (192 + n div 64) :: 8 word)"
      "of_nat (128 + m mod 64) = (of_nat (128 + n mod 64) :: 8 word)" "r = r'"
      using assms by (simp_all add: utf8_char_def Let_def m_def[symmetric] n_def[symmetric])
    from e(1) have "m div 64 = n div 64" using w[of "192 + m div 64" "192 + n div 64"] b by simp
    moreover from e(2) have "m mod 64 = n mod 64" using w[of "128 + m mod 64" "128 + n mod 64"] by simp
    ultimately have "m = n" by (metis div_mult_mod_eq)
    with inj e(3) show ?thesis by simp
  qed
qed

lemma utf8_inj: "utf8 s = utf8 t \<Longrightarrow> s = t"
proof (induction s arbitrary: t)
  case Nil
  then show ?case by (cases t) (auto simp: utf8_def utf8_char_def Let_def split: if_splits)
next
  case (Cons c s)
  then obtain d t' where t: "t = d # t'"
    by (cases t) (auto simp: utf8_def utf8_char_def Let_def split: if_splits)
  with Cons.prems have "utf8_char c @ utf8 s = utf8_char d @ utf8 t'" by (simp add: utf8_def)
  from utf8_char_prefix[OF this] Cons.IH t show ?case by simp
qed

lemma hex_digit_inj: "m < 16 \<Longrightarrow> n < 16 \<Longrightarrow> hex_digit m = hex_digit n \<Longrightarrow> m = n"
  by (auto simp: hex_digit_def split: if_splits dest!: arg_cong[of _ _ "of_char :: char \<Rightarrow> nat"])

text \<open>An escaped character is a backslash sequence, or the character itself.\<close>

lemma esc_char_cases:
  obtains (escape) t where "esc_char ea c = CHR 0x5C # t" | (plain) "esc_char ea c = [c]" "c \<noteq> CHR 0x5C" "c \<noteq> CHR ''\"''"
proof -
  have "(\<exists>t. esc_char ea c = CHR 0x5C # t) \<or> esc_char ea c = [c] \<and> c \<noteq> CHR 0x5C \<and> c \<noteq> CHR ''\"''"
    by (simp add: esc_char_def)
  with that show ?thesis by blast
qed

lemma esc_char_prefix:
  assumes "esc_char ea c @ r = esc_char ea d @ r'"
  shows "c = d \<and> r = r'"
proof -
  have hex: "c = d" if "hex_digit (of_char c div 16) = hex_digit (of_char d div 16)"
    "hex_digit (of_char c mod 16) = hex_digit (of_char d mod 16)"
  proof -
    have b: "(of_char c :: nat) div 16 < 16" "(of_char d :: nat) div 16 < 16"
      by (simp_all add: div_less_iff_less_mult)
    from hex_digit_inj[OF b that(1)] hex_digit_inj[OF _ _ that(2)]
    have "(of_char c :: nat) = of_char d" by (metis div_mult_mod_eq mod_less_divisor zero_less_numeral)
    then show ?thesis by (simp add: of_char_eq_iff)
  qed
  show ?thesis
  proof (cases rule: esc_char_cases[of ea c])
    case plain
    then show ?thesis using assms by (cases rule: esc_char_cases[of ea d]) auto
  next
    case (escape t)
    then obtain t' where t': "esc_char ea d = CHR 0x5C # t'"
      using assms by (cases rule: esc_char_cases[of ea d]) auto
    have "t @ r = t' @ r'" using assms escape t' by simp
    with escape t' hex show ?thesis by (auto simp: esc_char_def split: if_splits)
  qed
qed

lemma esc_char_Cons: "\<exists>h t. esc_char ea c = h # t \<and> h \<noteq> CHR ''\"''"
  by (cases rule: esc_char_cases[of ea c]) auto

lemma dump_str_prefix:
  assumes "dump_str ea s @ r = dump_str ea t @ r'"
  shows "s = t \<and> r = r'"
proof -
  have "concat (map (esc_char ea) s) @ CHR ''\"'' # r = concat (map (esc_char ea) t) @ CHR ''\"'' # r'"
    using assms by (simp add: dump_str_def)
  then show ?thesis
  proof (induction s arbitrary: t)
    case Nil
    then show ?case
    proof (cases t)
      case (Cons d t')
      then show ?thesis using Nil esc_char_Cons[of ea d] by auto
    qed simp
  next
    case (Cons c s)
    then obtain d t' where t: "t = d # t'"
      using esc_char_Cons[of ea c] by (cases t) auto
    with Cons.prems esc_char_prefix[of ea c _ d] Cons.IH show ?case by fastforce
  qed
qed

primrec float_free :: "json \<Rightarrow> bool" where
  "float_free JNull = True"
| "float_free (JStr s) = True"
| "float_free (JFloat x) = False"
| "float_free (JObj kvs) = list_all snd (map (map_prod id float_free) kvs)"

primrec canon :: "json \<Rightarrow> json" where
  "canon JNull = JNull"
| "canon (JStr s) = JStr s"
| "canon (JFloat x) = JFloat x"
| "canon (JObj kvs) = JObj (sort_key fst (map (map_prod id canon) kvs))"

text \<open>Serialisation without sorting, for values whose members are already in key order.\<close>

primrec plain_dumps :: "bool \<Rightarrow> json \<Rightarrow> string" where
  "plain_dumps ea JNull = ''null''"
| "plain_dumps ea (JStr s) = dump_str ea s"
| "plain_dumps ea (JFloat x) = []"
| "plain_dumps ea (JObj kvs) = ''{'' @ dump_members ea (map (map_prod id (plain_dumps ea)) kvs)"

lemma sort_key_map_prod:
  "sort_key fst (map (map_prod id f) xs) = map (map_prod id f) (sort_key fst xs)"
proof -
  have ins: "insort_key fst (map_prod id f x) (map (map_prod id f) xs) = map (map_prod id f) (insort_key fst x xs)"
    for x and xs
    by (induction xs) auto
  show ?thesis by (induction xs) (simp_all add: ins ins[unfolded id_def])
qed

lemma dumps_canon: "float_free v \<Longrightarrow> dumps ea repr v = plain_dumps ea (canon v)"
proof (induction v)
  case (JObj kvs)
  have "map (map_prod id (dumps ea repr)) kvs = map (map_prod id (plain_dumps ea)) (map (map_prod id canon) kvs)"
    using JObj by (fastforce simp: list_all_iff snds.simps)
  then show ?case by (simp only: dumps.simps canon.simps plain_dumps.simps sort_key_map_prod)
qed simp_all

lemma float_free_canon: "float_free v \<Longrightarrow> float_free (canon v)"
proof (induction v)
  case (JObj kvs)
  then have "list_all snd (map (map_prod id float_free) (map (map_prod id canon) kvs))"
    by (fastforce simp: list_all_iff snds.simps)
  then show ?case by (simp add: list_all_iff)
qed simp_all

lemma dump_members_prefix:
  assumes "\<And>kv w r r'. kv \<in> set kvs \<Longrightarrow> float_free w \<Longrightarrow> plain_dumps ea (snd kv) @ r = plain_dumps ea w @ r'
      \<Longrightarrow> snd kv = w \<and> r = r'"
    and "\<forall>kv\<in>set kvs'. float_free (snd kv)"
    and "dump_members ea (map (map_prod id (plain_dumps ea)) kvs) @ r
       = dump_members ea (map (map_prod id (plain_dumps ea)) kvs') @ r'"
  shows "kvs = kvs' \<and> r = r'"
  using assms
proof (induction kvs arbitrary: kvs' r)
  case Nil
  then show ?case
    by (cases kvs'; cases "tl kvs'") (auto simp: dump_str_def)
next
  case (Cons kv kvs)
  obtain k v where kv: "kv = (k, v)" by force
  obtain l w kvs'' where kvs': "kvs' = (l, w) # kvs''"
    using Cons.prems(3) kv by (cases kvs'; cases kvs) (auto simp: dump_str_def)
  define sep :: "bool \<Rightarrow> string" where "sep e = (if e then ''}'' else '','')" for e
  define more :: "(string \<times> json) list \<Rightarrow> string" where
    "more m = (if m = [] then [] else dump_members ea (map (map_prod id (plain_dumps ea)) m))" for m
  have shape: "dump_members ea (map (map_prod id (plain_dumps ea)) ((a, b) # m))
      = dump_str ea a @ '':'' @ plain_dumps ea b @ sep (m = []) @ more m" for a b m
    by (cases m) (auto simp: sep_def more_def)
  from Cons.prems(3) have "dump_str ea k @ '':'' @ plain_dumps ea v @ sep (kvs = []) @ more kvs @ r
      = dump_str ea l @ '':'' @ plain_dumps ea w @ sep (kvs'' = []) @ more kvs'' @ r'"
    unfolding kv kvs' shape by simp
  from dump_str_prefix[OF this] have k: "k = l" and
    "plain_dumps ea v @ sep (kvs = []) @ more kvs @ r = plain_dumps ea w @ sep (kvs'' = []) @ more kvs'' @ r'"
    by auto
  from Cons.prems(1)[of kv, unfolded kv snd_conv, OF _ _ this(2)] Cons.prems(2)
  have v: "v = w" and rest: "sep (kvs = []) @ more kvs @ r = sep (kvs'' = []) @ more kvs'' @ r'"
    by (auto simp: kv kvs')
  have "kvs = [] \<longleftrightarrow> kvs'' = []" using rest by (auto simp: sep_def split: if_splits)
  then show ?case
  proof (cases "kvs = []")
    case True
    with \<open>kvs = [] \<longleftrightarrow> kvs'' = []\<close> rest k v show ?thesis by (simp add: kv kvs' sep_def more_def)
  next
    case False
    with \<open>kvs = [] \<longleftrightarrow> kvs'' = []\<close> rest
    have "dump_members ea (map (map_prod id (plain_dumps ea)) kvs) @ r
       = dump_members ea (map (map_prod id (plain_dumps ea)) kvs'') @ r'" by (simp add: sep_def more_def)
    moreover have "\<forall>kv\<in>set kvs''. float_free (snd kv)" using Cons.prems(2) by (simp add: kvs')
    moreover have "snd kv = w \<and> r = r'"
      if "kv \<in> set kvs" "float_free w" "plain_dumps ea (snd kv) @ r = plain_dumps ea w @ r'" for kv w r r'
      by (rule Cons.prems(1)[OF _ that(2,3)]) (simp add: that(1))
    ultimately have "kvs = kvs'' \<and> r = r'" using Cons.IH[of kvs'' r] by blast
    with k v show ?thesis by (simp add: kv kvs')
  qed
qed

lemma plain_dumps_prefix:
  "float_free v \<Longrightarrow> float_free w \<Longrightarrow> plain_dumps ea v @ r = plain_dumps ea w @ r' \<Longrightarrow> v = w \<and> r = r'"
proof (induction v arbitrary: w r r')
  case JNull
  then show ?case by (cases w) (auto simp: dump_str_def)
next
  case (JStr s)
  then show ?case using dump_str_prefix[of ea s r] by (cases w) (auto simp: dump_str_def)
next
  case (JObj kvs)
  then obtain kvs' where w: "w = JObj kvs'" by (cases w) (auto simp: dump_str_def)
  show ?case unfolding w json.inject
  proof (rule dump_members_prefix)
    show "dump_members ea (map (map_prod id (plain_dumps ea)) kvs) @ r
       = dump_members ea (map (map_prod id (plain_dumps ea)) kvs') @ r'"
      using JObj.prems(3) w by simp
    show "\<forall>kv\<in>set kvs'. float_free (snd kv)" using JObj.prems(2) w by (auto simp: list_all_iff)
    fix kv w r r'
    assume a: "kv \<in> set kvs" "float_free w" "plain_dumps ea (snd kv) @ r = plain_dumps ea w @ r'"
    have "float_free (snd kv)" using JObj.prems(1) a(1) by (auto simp: list_all_iff)
    from JObj.IH[OF a(1) _ this a(2,3)] show "snd kv = w \<and> r = r'" by (simp add: snds.simps)
  qed
qed simp

lemma dumps_inj:
  "float_free v \<Longrightarrow> float_free w \<Longrightarrow> dumps ea repr v = dumps ea repr w \<Longrightarrow> canon v = canon w"
  using plain_dumps_prefix[of "canon v" "canon w" ea "[]" "[]"]
  by (simp add: dumps_canon float_free_canon)

lemma canon_JObj_lookup:
  assumes "canon (JObj kvs) = canon (JObj kvs')" "distinct (map fst kvs)" "distinct (map fst kvs')"
  shows "map_option canon (map_of kvs k) = map_option canon (map_of kvs' k)"
proof -
  have "set (map (map_prod id canon) kvs) = set (map (map_prod id canon) kvs')"
    using arg_cong[OF assms(1), of "\<lambda>v. case v of JObj m \<Rightarrow> set m | _ \<Rightarrow> {}"]
    by (simp only: canon.simps json.case set_sort)
  moreover have "distinct (map fst (map (map_prod id canon) kvs))" "distinct (map fst (map (map_prod id canon) kvs'))"
    using assms(2,3) by simp_all
  ultimately have "map_of (map (map_prod id canon) kvs) = map_of (map (map_prod id canon) kvs')"
    by (simp only: map_of_inject_set)
  moreover have "map_of (map (map_prod id canon) m) k = map_option canon (map_of m k)" for m
    by (induction m) auto
  ultimately show ?thesis by metis
qed

lemma canon_json_opt: "canon (json_opt x) = json_opt x"
  by (simp add: json_opt_def split: option.splits)

lemma json_opt_inj: "json_opt x = json_opt y \<longleftrightarrow> x = y"
  by (simp add: json_opt_def split: option.splits)

lemma canon_execution: "canon (dump_execution e) = canon (dump_execution e') \<Longrightarrow> e = e'"
proof -
  assume a: "canon (dump_execution e) = canon (dump_execution e')"
  note l = canon_JObj_lookup[OF a[unfolded dump_execution_def]]
  show ?thesis using l[of "''backend''"] l[of "''sandbox_image''"] l[of "''sandbox_image_id''"]
    by (intro execution_environment.equality) (simp_all add: canon_json_opt json_opt_inj)
qed

lemma canon_strings:
  assumes "canon (json_strings m) = canon (json_strings m')" "distinct (map fst m)" "distinct (map fst m')"
  shows "map_of m = map_of m'"
proof
  fix k :: string
  have j: "map_of (map (map_prod id JStr) m) k = map_option JStr (map_of m k)" for m
    by (induction m) auto
  have "map_option canon (map_of (map (map_prod id JStr) m) k)
      = map_option canon (map_of (map (map_prod id JStr) m') k)"
    by (rule canon_JObj_lookup) (use assms in \<open>simp_all add: json_strings_def\<close>)
  then show "map_of m k = map_of m' k" 
    by (cases "map_of m k"; cases "map_of m' k") (simp_all add: j)
qed

definition no_collision :: "(bytes \<Rightarrow> string) \<Rightarrow> bytes \<Rightarrow> bytes \<Rightarrow> bool" where
  "no_collision sha x y \<longleftrightarrow> sha x \<noteq> sha y \<or> x = y"

lemma float_free_reproducibility:
  "float_free (reproducibility_payload s t x an sc e v)"
  by (simp add: reproducibility_payload_def json_strings_def dump_execution_def json_opt_def list_all_iff
      split: option.splits)

text \<open>
  C10: A reproducibility fingerprint identifies its inputs: when the hash does not collide on the two
  serialised payloads, equal fingerprints mean the same source, task and test hashes, the same
  analyzer versions as dictionaries, the same scoring policy, application version and execution
  environment. No two different payloads have the same canonical JSON text.
\<close>
theorem reproducibility_fingerprint_identifies:
  assumes "reproducibility_fingerprint sha repr s t x an sc e v
      = reproducibility_fingerprint sha repr s' t' x' an' sc' e' v'"
    and "no_collision sha (utf8 (dumps False repr (reproducibility_payload s t x an sc e v)))
          (utf8 (dumps False repr (reproducibility_payload s' t' x' an' sc' e' v')))"
    and "distinct (map fst an)" "distinct (map fst an')"
  shows "s = s' \<and> t = t' \<and> x = x' \<and> map_of an = map_of an' \<and> sc = sc' \<and> e = e' \<and> v = v'"
proof -
  let ?p = "reproducibility_payload s t x an sc e v"
  let ?p' = "reproducibility_payload s' t' x' an' sc' e' v'"
  have "utf8 (dumps False repr ?p) = utf8 (dumps False repr ?p')"
    using assms(1,2) by (simp add: reproducibility_fingerprint_def canonical_hash_def no_collision_def)
  then have "canon ?p = canon ?p'"
    by (intro dumps_inj[OF float_free_reproducibility float_free_reproducibility] utf8_inj)
  note l = canon_JObj_lookup[OF this[unfolded reproducibility_payload_def]]
  have "canon (json_strings an) = canon (json_strings an')" using l[of "''analyzer_versions''"] by simp
  then have "map_of an = map_of an'" using assms(3,4) by (rule canon_strings)
  moreover have "e = e'" using l[of "''execution''"] by (intro canon_execution) simp
  ultimately show ?thesis
    using l[of "''source_hash''"] l[of "''task_fingerprint''"] l[of "''tests_fingerprint''"]
      l[of "''scoring_policy_version''"] l[of "''codejudge_version''"] by simp
qed

theorem reproducibility_fingerprint_identifies_witness:
  "map_of [(''mypy'', ''1''), (''ruff'', ''2'')] = map_of [(''ruff'', ''2''), (''mypy'', ''1'')]"
  (is "map_of ?a = map_of ?b")
proof -
  let ?sha = "map (\<lambda>w :: 8 word. char_of (unat w) :: char)"
  let ?e = "\<lparr>ex_backend = ''local'', ex_sandbox_image = None, ex_sandbox_image_id = None\<rparr>"
  have eq: "dumps False r (reproducibility_payload [] [] [] ?a [] ?e [])
      = dumps False r (reproducibility_payload [] [] [] ?b [] ?e [])" for r
    by (simp add: reproducibility_payload_def json_strings_def)
  show ?thesis
    using reproducibility_fingerprint_identifies[of ?sha "\<lambda>_. []" "[]" "[]" "[]" ?a "[]" ?e "[]"
        "[]" "[]" "[]" ?b "[]" ?e "[]"] eq
    by (simp add: reproducibility_fingerprint_def canonical_hash_def no_collision_def)
qed

text \<open>
  The idempotency identity of a request identifies the request: when the hash collides neither
  on the two sources nor on the two serialised payloads, equal request fingerprints mean the same
  task, the same language and the same code.
\<close>
theorem request_fingerprint_identifies:
  assumes "request_fingerprint sha repr rq = request_fingerprint sha repr rq'"
    and "no_collision sha (utf8 (rq_code rq)) (utf8 (rq_code rq'))"
    and "no_collision sha (utf8 (dumps True repr (request_payload sha rq)))
          (utf8 (dumps True repr (request_payload sha rq')))"
  shows "rq = rq'"
proof -
  have ff: "float_free (request_payload sha q)" for q by (simp add: request_payload_def list_all_iff)
  have "utf8 (dumps True repr (request_payload sha rq)) = utf8 (dumps True repr (request_payload sha rq'))"
    using assms(1,3) by (simp add: request_fingerprint_def no_collision_def)
  then have "canon (request_payload sha rq) = canon (request_payload sha rq')"
    by (intro dumps_inj[OF ff ff] utf8_inj)
  note l = canon_JObj_lookup[OF this[unfolded request_payload_def]]
  have "sha (utf8 (rq_code rq)) = sha (utf8 (rq_code rq'))"
    using l[of "''source_hash''"] by (simp add: source_identity_def Let_def)
  then have "rq_code rq = rq_code rq'" using assms(2) by (intro utf8_inj) (simp add: no_collision_def)
  with l[of "''task_id''"] l[of "''language''"] show ?thesis
    by (intro evaluation_request.equality) simp_all
qed

theorem request_fingerprint_identifies_witness:
  "\<lparr>rq_task_id = ''lru-cache'', rq_language = ''python'', rq_code = ''x = 1''\<rparr>
   = \<lparr>rq_task_id = ''lru'' @ ''-cache'', rq_language = ''python'', rq_code = ''x'' @ '' = 1''\<rparr>"
  by (rule request_fingerprint_identifies[where sha = "map (\<lambda>w. char_of (unat w))" and repr = "\<lambda>_. []"])
    (simp_all add: no_collision_def)

end
