(* ===== verification/JobModels.thy ===== *)
theory JobModels
  imports Snapshots
begin

text \<open>
  The durable job models of \<^verbatim>\<open>src/app/jobs/models.py\<close>, the legal lifecycle transitions of
  \<^verbatim>\<open>src/app/jobs/state.py\<close> and the retry policy of \<^verbatim>\<open>src/app/jobs/retry.py\<close>. The properties: the
  retry delays are positive and nondecreasing in the attempt, and a failure is retried exactly
  when it is an infrastructure failure.
\<close>

section \<open>Models\<close>

datatype job_status = QUEUED | RUNNING | RETRY_WAIT | COMPLETED | FAILED

definition TERMINAL_JOB_STATUSES :: "job_status set" where
  "TERMINAL_JOB_STATUSES = {COMPLETED, FAILED}"

record evaluation_job =
  ej_evaluation_id :: uuid
  ej_created_at :: time
  ej_updated_at :: time
  ej_task_id :: string
  ej_task_version :: string
  ej_task_fingerprint :: string
  ej_tests_fingerprint :: string
  ej_language :: string
  ej_source_text :: string
  ej_source_hash :: string
  ej_source_size :: nat
  ej_request_fingerprint :: string
  ej_idempotency_key :: "string option"
  ej_status :: job_status
  ej_attempt_count :: nat
  ej_max_attempts :: nat
  ej_queued_at :: time
  ej_started_at :: "time option"
  ej_completed_at :: "time option"
  ej_failed_at :: "time option"
  ej_next_attempt_at :: "time option"
  ej_worker_id :: "string option"
  ej_lease_expires_at :: "time option"
  ej_last_error_category :: "string option"
  ej_last_error_code :: "string option"
  ej_snapshot_created :: bool
  ej_expected_execution :: execution_environment
  ej_expected_analyzer_versions :: "(string \<times> string) list"
  ej_expected_scoring_policy_version :: string
  ej_expected_codejudge_version :: string
  ej_expected_ai_identity :: ai_identity

record job_error =
  je_category :: string
  je_code :: string

record evaluation_accepted =
  ac_evaluation_id :: uuid
  ac_status :: job_status
  ac_created_at :: time
  ac_status_url :: string

record evaluation_job_detail =
  jd_evaluation_id :: uuid
  jd_status :: job_status
  jd_created_at :: time
  jd_updated_at :: time
  jd_task_id :: string
  jd_task_version :: string
  jd_language :: string
  jd_source_hash :: string
  jd_attempt_count :: nat
  jd_max_attempts :: nat
  jd_queued_at :: time
  jd_started_at :: "time option"
  jd_failed_at :: "time option"
  jd_next_attempt_at :: "time option"
  jd_error :: "job_error option"

definition from_job :: "evaluation_job \<Rightarrow> evaluation_job_detail" where
  "from_job j =
     \<lparr>jd_evaluation_id = ej_evaluation_id j, jd_status = ej_status j,
      jd_created_at = ej_created_at j, jd_updated_at = ej_updated_at j,
      jd_task_id = ej_task_id j, jd_task_version = ej_task_version j,
      jd_language = ej_language j, jd_source_hash = ej_source_hash j,
      jd_attempt_count = ej_attempt_count j, jd_max_attempts = ej_max_attempts j,
      jd_queued_at = ej_queued_at j, jd_started_at = ej_started_at j,
      jd_failed_at = ej_failed_at j, jd_next_attempt_at = ej_next_attempt_at j,
      jd_error = (case (ej_last_error_category j, ej_last_error_code j) of
          (Some cat, Some code) \<Rightarrow> Some \<lparr>je_category = cat, je_code = code\<rparr>
        | _ \<Rightarrow> None)\<rparr>"

record evaluation_job_summary =
  js_evaluation_id :: uuid
  js_created_at :: time
  js_updated_at :: time
  js_task_id :: string
  js_task_version :: string
  js_language :: string
  js_source_hash :: string
  js_status :: job_status
  js_attempt_count :: nat
  js_score :: "rat option"
  js_score_breakdown :: "score_breakdown option"
  js_ai_status :: "ai_status option"
  js_ai_score :: "rat option"

text \<open>An outbox row: \<^verbatim>\<open>OutboxEvent\<close> with the error column of its table.\<close>

record outbox_event =
  oe_event_id :: uuid
  oe_aggregate_id :: uuid
  oe_event_type :: string
  oe_created_at :: time
  oe_published_at :: "time option"
  oe_attempt_count :: nat
  oe_next_attempt_at :: time
  oe_last_error_code :: "string option"

section \<open>Lifecycle transitions\<close>

datatype repo_error =
    PersistenceFailure string
  | IdempotencyConflictError
  | InvalidJobTransitionError job_status job_status
  | SnapshotIdentityMismatch
  | RetryValueError

fun TRANSITIONS :: "job_status \<Rightarrow> job_status set" where
  "TRANSITIONS QUEUED = {RUNNING}"
| "TRANSITIONS RUNNING = {COMPLETED, RETRY_WAIT, FAILED}"
| "TRANSITIONS RETRY_WAIT = {QUEUED}"
| "TRANSITIONS COMPLETED = {}"
| "TRANSITIONS FAILED = {}"

definition ensure_transition :: "job_status \<Rightarrow> job_status \<Rightarrow> repo_error option" where
  "ensure_transition current target =
     (if target \<notin> TRANSITIONS current then Some (InvalidJobTransitionError current target) else None)"

lemma ensure_transition_simps [simp]:
  "ensure_transition RETRY_WAIT QUEUED = None" "ensure_transition QUEUED RUNNING = None"
  "ensure_transition RUNNING COMPLETED = None" "ensure_transition RUNNING RETRY_WAIT = None"
  "ensure_transition RUNNING FAILED = None"
  by (simp_all add: ensure_transition_def)

lemma TRANSITIONS_terminal: "TRANSITIONS s = {} \<longleftrightarrow> s \<in> TERMINAL_JOB_STATUSES"
  by (cases s) (simp_all add: TERMINAL_JOB_STATUSES_def)

section \<open>Retry policy\<close>

record failure_decision =
  fdn_retryable :: bool
  fdn_category :: string
  fdn_code :: string

text \<open>The exceptions a worker can see while it processes a job.\<close>

datatype worker_exception =
    EvaluationIntegrityError string
  | EvaluationInfrastructure string
  | PersistenceException
  | OtherException

definition retry_delay_seconds :: "nat \<Rightarrow> rat \<Rightarrow> repo_error + rat" where
  "retry_delay_seconds attempt base_delay_seconds =
     (if attempt = 0 then Inl RetryValueError
      else Inr (fmul base_delay_seconds (fl64 (3 ^ (attempt - 1)))))"

definition infrastructure_code :: "string \<Rightarrow> string" where
  "infrastructure_code text =
     (let message = py_lower text in
      if is_infix ''docker'' message \<or> is_infix ''sandbox'' message \<or> is_infix ''image'' message
      then ''sandbox_unavailable''
      else if is_infix ''analysis'' message \<or> is_infix ''analyzer'' message
      then ''analysis_unavailable''
      else if is_infix ''persistence'' message \<or> is_infix ''database'' message
      then ''persistence_unavailable''
      else ''evaluation_infrastructure'')"

fun classify_failure :: "worker_exception \<Rightarrow> failure_decision" where
  "classify_failure (EvaluationIntegrityError code) =
     \<lparr>fdn_retryable = False, fdn_category = ''integrity'', fdn_code = code\<rparr>"
| "classify_failure (EvaluationInfrastructure message) =
     \<lparr>fdn_retryable = True, fdn_category = ''infrastructure'', fdn_code = infrastructure_code message\<rparr>"
| "classify_failure e =
     \<lparr>fdn_retryable = False, fdn_category = ''worker'', fdn_code = ''unexpected_error''\<rparr>"

lemma retry_delay_Inr: "retry_delay_seconds a b = Inr d \<Longrightarrow> 0 < a \<and> d = fmul b (fl64 (3 ^ (a - 1)))"
  by (auto simp: retry_delay_seconds_def split: if_splits)

lemma retry_delay_ge:
  assumes "fl64 base = base" "0 \<le> base" "retry_delay_seconds a base = Inr d"
  shows "base \<le> d"
proof -
  from assms(3) have d: "d = fl64 (base * fl64 (3 ^ (a - 1)))"
    by (auto simp: fmul_def dest: retry_delay_Inr)
  have "(1::rat) \<le> 3 ^ (a - 1)" by (rule one_le_power) simp
  then have "1 \<le> fl64 (3 ^ (a - 1))" using fl64_mono[of 1 "3 ^ (a - 1)"] by simp
  with assms(2) have "base \<le> base * fl64 (3 ^ (a - 1))" by (simp add: mult_le_cancel_left1)
  then show ?thesis using fl64_mono[of base "base * fl64 (3 ^ (a - 1))"] assms(1) d by simp
qed

text \<open>
  Back-off never shrinks: for a nonnegative base delay the delay of a later attempt is at
  least the delay of an earlier one, and every delay is at least the base delay.
\<close>
theorem retry_delay_backoff:
  assumes "fl64 base = base" "0 \<le> base" "a \<le> a'"
    and "retry_delay_seconds a base = Inr d" "retry_delay_seconds a' base = Inr d'"
  shows "base \<le> d \<and> d \<le> d'"
proof -
  have "(3::rat) ^ (a - 1) \<le> 3 ^ (a' - 1)" using assms(3) by (intro power_increasing) simp_all
  then have "base * fl64 (3 ^ (a - 1)) \<le> base * fl64 (3 ^ (a' - 1))"
    using assms(2) by (intro mult_left_mono fl64_mono)
  then have "d \<le> d'" using assms(4,5) by (auto simp: fmul_def fl64_mono dest!: retry_delay_Inr)
  with retry_delay_ge[OF assms(1,2,4)] show ?thesis by simp
qed

theorem retry_delay_backoff_witness:
  "fl64 5 = 5 \<and> retry_delay_seconds 1 5 = Inr 5 \<and> retry_delay_seconds 3 5 = Inr 45
   \<and> 5 \<le> (5::rat) \<and> (5::rat) \<le> 45"
proof -
  have a: "fl64 5 = 5" by simp
  have b: "retry_delay_seconds 1 5 = Inr 5" by code_simp
  have c: "retry_delay_seconds 3 5 = Inr 45" by code_simp
  have "5 \<le> (5::rat) \<and> (5::rat) \<le> 45" by (rule retry_delay_backoff[OF a _ _ b c]) simp_all
  with a b c show ?thesis by blast
qed

text \<open>
  A failure is retryable exactly when it is an infrastructure failure; integrity violations,
  persistence errors and unexpected exceptions are final.
\<close>
theorem classify_failure_retryable:
  "fdn_retryable (classify_failure e) \<longleftrightarrow> (\<exists>m. e = EvaluationInfrastructure m)"
  by (cases e) simp_all

end
