(* ===== verification/Lifecycle.thy ===== *)
theory Lifecycle
  imports Prelude
begin

text \<open>
  The contract of a durable lifecycle store: a step relation on database states, the status of
  each entity, the legal transitions and the terminal statuses. What a client relies on (terminal
  statuses are absorbing, entities never disappear, every history is a path of legal transitions)
  is proved once from the laws; the theory JobSafety interprets the locale on the job repository.
\<close>

locale lifecycle =
  fixes inv :: "'s \<Rightarrow> bool"
    and step :: "'s \<Rightarrow> 's \<Rightarrow> bool"
    and status_of :: "'s \<Rightarrow> 'i \<Rightarrow> 'st option"
    and legal :: "'st \<Rightarrow> 'st \<Rightarrow> bool"
    and terminal :: "'st \<Rightarrow> bool"
  assumes inv_step: "inv s \<Longrightarrow> step s s' \<Longrightarrow> inv s'"
    and step_legal: "inv s \<Longrightarrow> step s s' \<Longrightarrow> status_of s i = Some a \<Longrightarrow>
      \<exists>b. status_of s' i = Some b \<and> legal\<^sup>*\<^sup>* a b"
    and terminal_legal: "terminal a \<Longrightarrow> \<not> legal a b"
begin

lemma inv_run: "step\<^sup>*\<^sup>* s s' \<Longrightarrow> inv s \<Longrightarrow> inv s'"
  by (induction rule: rtranclp_induct) (auto intro: inv_step)

lemma run_legal:
  "step\<^sup>*\<^sup>* s s' \<Longrightarrow> inv s \<Longrightarrow> status_of s i = Some a \<Longrightarrow> \<exists>b. status_of s' i = Some b \<and> legal\<^sup>*\<^sup>* a b"
proof (induction rule: rtranclp_induct)
  case (step t u)
  then obtain b where b: "status_of t i = Some b" "legal\<^sup>*\<^sup>* a b" by blast
  have "inv t" using step.hyps(1) step.prems(1) by (rule inv_run)
  from step_legal[OF this step.hyps(2) b(1)] obtain c where
    "status_of u i = Some c" "legal\<^sup>*\<^sup>* b c" by blast
  with b(2) show ?case by (meson rtranclp_trans)
qed auto

lemma terminal_path: "legal\<^sup>*\<^sup>* a b \<Longrightarrow> terminal a \<Longrightarrow> b = a"
  by (induction rule: rtranclp_induct) (auto dest: terminal_legal)

lemma terminal_absorbing:
  "step\<^sup>*\<^sup>* s s' \<Longrightarrow> inv s \<Longrightarrow> status_of s i = Some a \<Longrightarrow> terminal a \<Longrightarrow> status_of s' i = Some a"
  using run_legal terminal_path by blast

lemma never_lost:
  "step\<^sup>*\<^sup>* s s' \<Longrightarrow> inv s \<Longrightarrow> status_of s i \<noteq> None \<Longrightarrow> status_of s' i \<noteq> None"
  by (metis run_legal not_None_eq)

end

end
