(* ===== verification/JobRepository.thy ===== *)
theory JobRepository
  imports JobModels Lifecycle
begin

text \<open>
  The PostgreSQL job repository of \<^verbatim>\<open>src/app/jobs/repositories.py\<close>. The database is a record of
  tables; a transaction is one atomic function on it (the source locks the row with
  \<^verbatim>\<open>with_for_update\<close>). The argument \<open>fault\<close> is whether the driver raises \<^verbatim>\<open>SQLAlchemyError\<close>, in
  which case the transaction is rolled back; \<open>commit\<close> enforces the constraints that
  \<^verbatim>\<open>src/app/db/models.py\<close> declares. \<^verbatim>\<open>uuid4\<close> is a supply of fresh event identifiers.
\<close>

section \<open>The database\<close>

record job_db =
  db_jobs :: "evaluation_job list"
  db_outbox :: "outbox_event list"
  db_evaluations :: "evaluation_row list"
  db_fresh :: uuid

abbreviation get_job :: "job_db \<Rightarrow> uuid \<Rightarrow> evaluation_job option" where
  "get_job db i \<equiv> row_get ej_evaluation_id (db_jobs db) i"

abbreviation put_job :: "evaluation_job \<Rightarrow> evaluation_job list \<Rightarrow> evaluation_job list" where
  "put_job j \<equiv> row_put ej_evaluation_id (ej_evaluation_id j) (\<lambda>_. j)"

definition empty_db :: job_db where
  "empty_db = \<lparr>db_jobs = [], db_outbox = [], db_evaluations = [], db_fresh = 0\<rparr>"

text \<open>The check constraints of \<^verbatim>\<open>EvaluationJobRecord\<close>.\<close>

definition job_checks :: "evaluation_job \<Rightarrow> bool" where
  "job_checks j \<longleftrightarrow> 0 < ej_source_size j \<and> length (ej_source_hash j) = 64
     \<and> length (ej_task_fingerprint j) = 64 \<and> length (ej_tests_fingerprint j) = 64
     \<and> length (ej_request_fingerprint j) = 64 \<and> 0 < ej_max_attempts j \<and> ej_attempt_count j \<le> ej_max_attempts j
     \<and> (ej_status j = COMPLETED \<longleftrightarrow> ej_snapshot_created j)"

text \<open>Primary keys, the unique idempotency key, the check constraints and the foreign key of the outbox.\<close>

definition db_constraints :: "job_db \<Rightarrow> bool" where
  "db_constraints db \<longleftrightarrow>
     row_wf ej_evaluation_id (db_jobs db) \<and> row_wf oe_event_id (db_outbox db)
     \<and> row_wf ev_evaluation_id (db_evaluations db)
     \<and> distinct (opt_filter ej_idempotency_key (db_jobs db))
     \<and> (\<forall>j\<in>set (db_jobs db). job_checks j)
     \<and> (\<forall>r\<in>set (db_evaluations db). evaluation_checks r)
     \<and> (\<forall>e\<in>set (db_outbox db). oe_aggregate_id e \<in> ej_evaluation_id ` set (db_jobs db))"

definition unavailable :: repo_error where
  "unavailable = PersistenceFailure ''Evaluation job persistence is unavailable.''"

definition commit :: "job_db \<Rightarrow> job_db \<Rightarrow> 'a \<Rightarrow> job_db \<times> (repo_error + 'a)" where
  "commit db db' result = (if db_constraints db' then (db', Inr result) else (db, Inl unavailable))"

definition EVALUATION_REQUESTED :: string where
  "EVALUATION_REQUESTED = ''evaluation.requested''"

definition outbox_record :: "uuid \<Rightarrow> uuid \<Rightarrow> time \<Rightarrow> time option \<Rightarrow> outbox_event" where
  "outbox_record event_id evaluation_id created_at next_attempt_at =
     \<lparr>oe_event_id = event_id, oe_aggregate_id = evaluation_id, oe_event_type = EVALUATION_REQUESTED,
      oe_created_at = created_at, oe_published_at = None, oe_attempt_count = 0,
      oe_next_attempt_at = (case next_attempt_at of None \<Rightarrow> created_at | Some t \<Rightarrow> t),
      oe_last_error_code = None\<rparr>"

definition add_outbox :: "uuid \<Rightarrow> time \<Rightarrow> time option \<Rightarrow> job_db \<Rightarrow> job_db" where
  "add_outbox evaluation_id created_at next_attempt_at db =
     db\<lparr>db_outbox := db_outbox db @ [outbox_record (db_fresh db) evaluation_id created_at next_attempt_at],
        db_fresh := db_fresh db + 1\<rparr>"

section \<open>Operations\<close>

definition get :: "bool \<Rightarrow> job_db \<Rightarrow> uuid \<Rightarrow> repo_error + evaluation_job option" where
  "get fault db evaluation_id = (if fault then Inl unavailable else Inr (get_job db evaluation_id))"

definition get_by_idempotency_key ::
    "bool \<Rightarrow> job_db \<Rightarrow> string \<Rightarrow> repo_error + evaluation_job option" where
  "get_by_idempotency_key fault db key =
     (if fault then Inl unavailable
      else Inr (find (\<lambda>j. ej_idempotency_key j = Some key) (db_jobs db)))"

definition reuse :: "evaluation_job \<Rightarrow> string \<Rightarrow> repo_error + evaluation_job \<times> bool" where
  "reuse existing request_identity =
     (if ej_request_fingerprint existing \<noteq> request_identity then Inl IdempotencyConflictError
      else Inr (existing, False))"

text \<open>
  \<^verbatim>\<open>create\<close>: three sessions, so other sessions may commit between them; \<open>env\<close> is what they do
  between the lookup and the insert, and \<open>env'\<close> between a failed insert and the second lookup.
\<close>

definition insert_job :: "bool \<Rightarrow> job_db \<Rightarrow> evaluation_job \<Rightarrow> job_db \<times> (repo_error + evaluation_job)" where
  "insert_job fault db job =
     (if fault then (db, Inl unavailable)
      else commit db (add_outbox (ej_evaluation_id job) (ej_created_at job) None
             (db\<lparr>db_jobs := db_jobs db @ [job]\<rparr>)) job)"

definition create ::
    "bool \<Rightarrow> bool \<Rightarrow> bool \<Rightarrow> (job_db \<Rightarrow> job_db) \<Rightarrow> (job_db \<Rightarrow> job_db) \<Rightarrow> job_db \<Rightarrow> evaluation_job
     \<Rightarrow> job_db \<times> (repo_error + evaluation_job \<times> bool)" where
  "create f1 f2 f3 env env' db job =
     (case (case ej_idempotency_key job of None \<Rightarrow> Inr None
            | Some key \<Rightarrow> get_by_idempotency_key f1 db key) of
        Inl e \<Rightarrow> (db, Inl e)
      | Inr (Some existing) \<Rightarrow> (db, reuse existing (ej_request_fingerprint job))
      | Inr None \<Rightarrow>
          (case insert_job f2 (env db) job of
             (db', Inr stored) \<Rightarrow> (db', Inr (stored, True))
           | (db', Inl e) \<Rightarrow>
               if f2 then (db', Inl e)
               else (case ej_idempotency_key job of
                  None \<Rightarrow> (env' db', Inl unavailable)
                | Some key \<Rightarrow>
                    (case get_by_idempotency_key f3 (env' db') key of
                       Inl e \<Rightarrow> (env' db', Inl e)
                     | Inr (Some existing) \<Rightarrow> (env' db', reuse existing (ej_request_fingerprint job))
                     | Inr None \<Rightarrow> (env' db', Inl unavailable)))))"

text \<open>The RETRY_WAIT branch of \<^verbatim>\<open>claim\<close>: a due job is queued again before it is claimed.\<close>

definition promote :: "evaluation_job \<Rightarrow> time \<Rightarrow> repo_error + evaluation_job option" where
  "promote record now =
     (if ej_status record = RETRY_WAIT
      then (case ej_next_attempt_at record of
              None \<Rightarrow> Inr None
            | Some t \<Rightarrow>
                if now < t then Inr None
                else case ensure_transition RETRY_WAIT QUEUED of
                  Some e \<Rightarrow> Inl e
                | None \<Rightarrow> Inr (Some (record\<lparr>ej_status := QUEUED, ej_queued_at := now\<rparr>)))
      else Inr (Some record))"

definition claimed_job :: "evaluation_job \<Rightarrow> string \<Rightarrow> time \<Rightarrow> rat \<Rightarrow> evaluation_job" where
  "claimed_job record worker_id now lease_seconds =
     record\<lparr>ej_status := RUNNING, ej_attempt_count := ej_attempt_count record + 1,
            ej_started_at := Some now, ej_updated_at := now, ej_worker_id := Some worker_id,
            ej_lease_expires_at := Some (now + td_micros lease_seconds),
            ej_next_attempt_at := None\<rparr>"

definition claim ::
    "bool \<Rightarrow> job_db \<Rightarrow> uuid \<Rightarrow> string \<Rightarrow> time \<Rightarrow> rat
     \<Rightarrow> job_db \<times> (repo_error + evaluation_job option)" where
  "claim fault db evaluation_id worker_id now lease_seconds =
     (if fault then (db, Inl unavailable)
      else case get_job db evaluation_id of
        None \<Rightarrow> (db, Inr None)
      | Some record \<Rightarrow>
          (case promote record now of
             Inl e \<Rightarrow> (db, Inl e)
           | Inr None \<Rightarrow> (db, Inr None)
           | Inr (Some queued) \<Rightarrow>
               if ej_status queued \<noteq> QUEUED then (db, Inr None)
               else case ensure_transition QUEUED RUNNING of
                 Some e \<Rightarrow> (db, Inl e)
               | None \<Rightarrow>
                   (let running = claimed_job queued worker_id now lease_seconds in commit db (db\<lparr>db_jobs := put_job running (db_jobs db)\<rparr>) (Some running))))"

text \<open>The ownership guard of \<^verbatim>\<open>renew_lease\<close> and \<^verbatim>\<open>record_failure\<close>.\<close>

definition owned_by :: "evaluation_job \<Rightarrow> string \<Rightarrow> bool" where
  "owned_by record worker_id \<longleftrightarrow> ej_status record = RUNNING \<and> ej_worker_id record = Some worker_id"

definition renewed_job :: "evaluation_job \<Rightarrow> time \<Rightarrow> rat \<Rightarrow> evaluation_job" where
  "renewed_job record now lease_seconds =
     record\<lparr>ej_lease_expires_at := Some (now + td_micros lease_seconds), ej_updated_at := now\<rparr>"

definition renew_lease ::
    "bool \<Rightarrow> job_db \<Rightarrow> uuid \<Rightarrow> string \<Rightarrow> time \<Rightarrow> rat \<Rightarrow> job_db \<times> (repo_error + bool)" where
  "renew_lease fault db evaluation_id worker_id now lease_seconds =
     (if fault then (db, Inl unavailable)
      else case get_job db evaluation_id of
        None \<Rightarrow> (db, Inr False)
      | Some record \<Rightarrow>
          if \<not> owned_by record worker_id then (db, Inr False)
          else commit db (db\<lparr>db_jobs := put_job (renewed_job record now lease_seconds)
                 (db_jobs db)\<rparr>) True)"

definition completed_job :: "evaluation_job \<Rightarrow> time \<Rightarrow> evaluation_job" where
  "completed_job record now =
     record\<lparr>ej_status := COMPLETED, ej_completed_at := Some now, ej_updated_at := now,
            ej_snapshot_created := True, ej_worker_id := None, ej_lease_expires_at := None,
            ej_last_error_category := None, ej_last_error_code := None\<rparr>"

text \<open>
  \<^verbatim>\<open>complete\<close>: an integrity error of the insert is answered by a second lookup, before which other
  sessions may have committed (\<open>env\<close>), and which may itself fail (\<open>f2\<close>).
\<close>

definition complete ::
    "bool \<Rightarrow> bool \<Rightarrow> (job_db \<Rightarrow> job_db) \<Rightarrow> job_db \<Rightarrow> uuid \<Rightarrow> string \<Rightarrow> evaluation_snapshot \<Rightarrow> time
     \<Rightarrow> job_db \<times> (repo_error + bool)" where
  "complete f1 f2 env db evaluation_id worker_id snapshot now =
     (if sn_evaluation_id snapshot \<noteq> evaluation_id then (db, Inl SnapshotIdentityMismatch)
      else if f1 then (db, Inl (PersistenceFailure ''Evaluation completion persistence is unavailable.''))
      else case get_job db evaluation_id of
        None \<Rightarrow> (db, Inr False)
      | Some record \<Rightarrow>
          if ej_status record = COMPLETED then (db, Inr True)
          else if ej_status record \<noteq> RUNNING \<or> ej_worker_id record \<noteq> Some worker_id
          then (db, Inr False)
          else case ensure_transition RUNNING COMPLETED of
            Some e \<Rightarrow> (db, Inl e)
          | None \<Rightarrow>
              (case commit db (db\<lparr>db_jobs := put_job (completed_job record now) (db_jobs db),
                                 db_evaluations := db_evaluations db
                                   @ [evaluation_record_from_snapshot snapshot]\<rparr>) True of
                 (db', Inr r) \<Rightarrow> (db', Inr r)
               | (db', Inl _) \<Rightarrow>
                   (case get f2 (env db') evaluation_id of
                      Inl e \<Rightarrow> (env db', Inl e)
                    | Inr (Some existing) \<Rightarrow>
                        if ej_status existing = COMPLETED then (env db', Inr True)
                        else (env db', Inl (PersistenceFailure
                                ''Evaluation completion persistence is unavailable.''))
                    | Inr None \<Rightarrow> (env db', Inl (PersistenceFailure
                                ''Evaluation completion persistence is unavailable.'')))))"

text \<open>
  The transition of a failed attempt, shared by \<^verbatim>\<open>record_failure\<close> and \<^verbatim>\<open>recover_stale\<close>: back to
  RETRY_WAIT with a new outbox event while attempts remain, FAILED otherwise.
\<close>

definition released_job :: "evaluation_job \<Rightarrow> string \<Rightarrow> string \<Rightarrow> time \<Rightarrow> evaluation_job" where
  "released_job record category code now =
     record\<lparr>ej_last_error_category := Some category, ej_last_error_code := Some code,
            ej_worker_id := None, ej_lease_expires_at := None, ej_updated_at := now\<rparr>"

definition waiting_job :: "evaluation_job \<Rightarrow> time \<Rightarrow> evaluation_job" where
  "waiting_job record next_attempt =
     record\<lparr>ej_status := RETRY_WAIT, ej_next_attempt_at := Some next_attempt\<rparr>"

definition failed_job :: "evaluation_job \<Rightarrow> time \<Rightarrow> evaluation_job" where
  "failed_job record now =
     record\<lparr>ej_status := FAILED, ej_failed_at := Some now, ej_next_attempt_at := None\<rparr>"

definition fail_attempt ::
    "job_db \<Rightarrow> evaluation_job \<Rightarrow> string \<Rightarrow> string \<Rightarrow> bool \<Rightarrow> time \<Rightarrow> rat \<Rightarrow> repo_error + job_db \<times> job_status" where
  "fail_attempt db record category code retryable now base =
     (let released = released_job record category code now
      in if retryable \<and> ej_attempt_count record < ej_max_attempts record
         then case ensure_transition RUNNING RETRY_WAIT of
             Some e \<Rightarrow> Inl e
           | None \<Rightarrow>
               (case retry_delay_seconds (ej_attempt_count record) base of
                  Inl e \<Rightarrow> Inl e
                | Inr delay \<Rightarrow>
                    (let next_attempt = now + td_micros delay
                     in Inr (add_outbox (ej_evaluation_id record) now (Some next_attempt)
                           (db\<lparr>db_jobs := put_job (waiting_job released next_attempt) (db_jobs db)\<rparr>),
                         RETRY_WAIT)))
         else case ensure_transition RUNNING FAILED of
             Some e \<Rightarrow> Inl e
           | None \<Rightarrow> Inr (db\<lparr>db_jobs := put_job (failed_job released now) (db_jobs db)\<rparr>, FAILED))"

definition record_failure ::
    "bool \<Rightarrow> job_db \<Rightarrow> uuid \<Rightarrow> string \<Rightarrow> failure_decision \<Rightarrow> time \<Rightarrow> rat
     \<Rightarrow> job_db \<times> (repo_error + job_status option)" where
  "record_failure fault db evaluation_id worker_id decision now base =
     (if fault then (db, Inl unavailable)
      else case get_job db evaluation_id of
        None \<Rightarrow> (db, Inr None)
      | Some record \<Rightarrow>
          if \<not> owned_by record worker_id then (db, Inr None)
          else case fail_attempt db record (fdn_category decision) (fdn_code decision)
                      (fdn_retryable decision) now base of
            Inl e \<Rightarrow> (db, Inl e)
          | Inr (db', status) \<Rightarrow> commit db db' (Some status))"

definition stale_jobs :: "job_db \<Rightarrow> (uuid \<Rightarrow> bool) \<Rightarrow> time \<Rightarrow> nat \<Rightarrow> evaluation_job list" where
  "stale_jobs db locked now limit =
     take limit (filter (\<lambda>j. \<not> locked (ej_evaluation_id j))
       (sort_key (\<lambda>j. case ej_lease_expires_at j of Some t \<Rightarrow> t | None \<Rightarrow> 0)
         (filter (\<lambda>j. ej_status j = RUNNING
             \<and> (case ej_lease_expires_at j of Some t \<Rightarrow> t < now | None \<Rightarrow> False)) (db_jobs db))))"

fun recover_loop ::
    "job_db \<Rightarrow> evaluation_job list \<Rightarrow> time \<Rightarrow> rat \<Rightarrow> repo_error + job_db" where
  "recover_loop db [] now base = Inr db"
| "recover_loop db (record # records) now base =
     (case fail_attempt db record ''infrastructure'' ''worker_lease_expired'' True now base of
        Inl e \<Rightarrow> Inl e
      | Inr (db', _) \<Rightarrow> recover_loop db' records now base)"

definition recover_stale ::
    "bool \<Rightarrow> (uuid \<Rightarrow> bool) \<Rightarrow> job_db \<Rightarrow> time \<Rightarrow> rat \<Rightarrow> nat \<Rightarrow> job_db \<times> (repo_error + nat)" where
  "recover_stale fault locked db now base limit =
     (if fault then (db, Inl unavailable)
      else let records = stale_jobs db locked now limit
           in case recover_loop db records now base of
                Inl e \<Rightarrow> (db, Inl e)
              | Inr db' \<Rightarrow> commit db db' (length records))"

definition ready_outbox :: "bool \<Rightarrow> job_db \<Rightarrow> time \<Rightarrow> nat \<Rightarrow> repo_error + outbox_event list" where
  "ready_outbox fault db now limit =
     (if fault then Inl (PersistenceFailure ''Outbox persistence is unavailable.'')
      else Inr (take limit (sort_key (\<lambda>e. (oe_created_at e, oe_event_id e))
             (filter (\<lambda>e. oe_published_at e = None \<and> oe_next_attempt_at e \<le> now) (db_outbox db)))))"

definition mark_outbox_published ::
    "bool \<Rightarrow> job_db \<Rightarrow> uuid \<Rightarrow> time \<Rightarrow> job_db \<times> (repo_error + bool)" where
  "mark_outbox_published fault db event_id now =
     (if fault then (db, Inl (PersistenceFailure ''Outbox persistence is unavailable.''))
      else case row_get oe_event_id (db_outbox db) event_id of
        None \<Rightarrow> (db, Inr False)
      | Some event \<Rightarrow>
          if oe_published_at event \<noteq> None then (db, Inr True)
          else commit db (db\<lparr>db_outbox := row_put oe_event_id event_id (\<lambda>e. e\<lparr>
                 oe_published_at := Some now, oe_attempt_count := oe_attempt_count e + 1,
                 oe_last_error_code := None\<rparr>) (db_outbox db)\<rparr>) True)"

definition mark_outbox_failed ::
    "bool \<Rightarrow> job_db \<Rightarrow> uuid \<Rightarrow> time \<Rightarrow> rat \<Rightarrow> job_db \<times> (repo_error + bool)" where
  "mark_outbox_failed fault db event_id now base =
     (if fault then (db, Inl (PersistenceFailure ''Outbox persistence is unavailable.''))
      else case row_get oe_event_id (db_outbox db) event_id of
        None \<Rightarrow> (db, Inr False)
      | Some event \<Rightarrow>
          if oe_published_at event \<noteq> None then (db, Inr False)
          else case retry_delay_seconds (oe_attempt_count event + 1) base of
            Inl e \<Rightarrow> (db, Inl e)
          | Inr delay \<Rightarrow>
              commit db (db\<lparr>db_outbox := row_put oe_event_id event_id (\<lambda>e. e\<lparr>
                 oe_attempt_count := oe_attempt_count e + 1,
                 oe_last_error_code := Some ''queue_unavailable'',
                 oe_next_attempt_at := now + td_micros delay\<rparr>) (db_outbox db)\<rparr>) True)"

section \<open>The invariant\<close>

text \<open>
  What the lifecycle keeps true of a job row: attempts are bounded, with one left while the job
  waits; a job has an owner and a lease exactly while it runs; the retry time, the snapshot flag
  and the terminal timestamps agree with the status.
\<close>

definition job_ok :: "evaluation_job \<Rightarrow> bool" where
  "job_ok j \<longleftrightarrow> job_checks j
     \<and> (ej_status j \<in> {QUEUED, RETRY_WAIT} \<longrightarrow> ej_attempt_count j < ej_max_attempts j)
     \<and> (ej_status j = RUNNING \<longrightarrow> 0 < ej_attempt_count j)
     \<and> (ej_status j = RUNNING \<longleftrightarrow> ej_worker_id j \<noteq> None)
     \<and> (ej_status j = RUNNING \<longleftrightarrow> ej_lease_expires_at j \<noteq> None)
     \<and> (ej_status j = RETRY_WAIT \<longleftrightarrow> ej_next_attempt_at j \<noteq> None)
     \<and> (ej_status j = COMPLETED \<longrightarrow> ej_completed_at j \<noteq> None)
     \<and> (ej_status j = FAILED \<longrightarrow> ej_failed_at j \<noteq> None \<and> ej_last_error_code j \<noteq> None)"

definition db_ok :: "job_db \<Rightarrow> bool" where
  "db_ok db \<longleftrightarrow> db_constraints db \<and> (\<forall>j\<in>set (db_jobs db). job_ok j)
     \<and> (\<forall>e\<in>set (db_outbox db). oe_event_id e < db_fresh db)
     \<and> (\<forall>j\<in>set (db_jobs db). ej_status j = COMPLETED \<longleftrightarrow>
          ej_evaluation_id j \<in> ev_evaluation_id ` set (db_evaluations db))"

text \<open>A job as \<^verbatim>\<open>EvaluationJobService.submit\<close> builds it.\<close>

definition new_job :: "evaluation_job \<Rightarrow> bool" where
  "new_job j \<longleftrightarrow> ej_status j = QUEUED \<and> ej_attempt_count j = 0 \<and> 0 < ej_max_attempts j
     \<and> ej_worker_id j = None \<and> ej_lease_expires_at j = None \<and> ej_next_attempt_at j = None
     \<and> \<not> ej_snapshot_created j"

lemma db_okD:
  assumes "db_ok db"
  shows "row_wf ej_evaluation_id (db_jobs db)" "row_wf oe_event_id (db_outbox db)"
    "row_wf ev_evaluation_id (db_evaluations db)"
    "\<forall>r\<in>set (db_evaluations db). evaluation_checks r"
  using assms by (auto simp: db_ok_def db_constraints_def)

lemma get_job_ok:
  assumes "db_ok db" "get_job db i = Some r"
  shows "job_ok r" "ej_evaluation_id r = i" "r \<in> set (db_jobs db)"
  using assms row_get_key[OF assms(2)] by (auto simp: db_ok_def)

lemma put_keys:
  assumes "row_wf ej_evaluation_id (db_jobs db)" "get_job db i = Some r" "ej_evaluation_id r' = i"
  shows "map ej_evaluation_id (put_job r' (db_jobs db)) = map ej_evaluation_id (db_jobs db)"
  using row_put_map[OF assms(1,2), of ej_evaluation_id r'] row_get_key[OF assms(2)] assms(3) by simp

text \<open>Replacing a job row by a well-formed successor keeps the invariant.\<close>

lemma put_job_ok:
  assumes "db_ok db" "get_job db i = Some r" "ej_evaluation_id r' = i"
    and "ej_idempotency_key r' = ej_idempotency_key r" "job_ok r'"
    and "ej_status r' = COMPLETED \<longleftrightarrow> i \<in> ev_evaluation_id ` set evs"
    and "row_wf ev_evaluation_id evs" "\<forall>r\<in>set evs. evaluation_checks r"
    and "\<And>k. k \<noteq> i \<Longrightarrow> k \<in> ev_evaluation_id ` set evs \<longleftrightarrow> k \<in> ev_evaluation_id ` set (db_evaluations db)"
  shows "db_ok (db\<lparr>db_jobs := put_job r' (db_jobs db), db_evaluations := evs\<rparr>)" (is "db_ok ?db'")
proof -
  note wf = db_okD(1)[OF assms(1)]
  note keys = put_keys[OF wf assms(2,3)]
  have idem: "opt_filter ej_idempotency_key (put_job r' (db_jobs db)) = opt_filter ej_idempotency_key (db_jobs db)"
    using row_put_map[OF wf assms(2,4)] assms(3) by (intro opt_filter_cong) simp
  have ids: "ej_evaluation_id ` set (put_job r' (db_jobs db)) = ej_evaluation_id ` set (db_jobs db)"
    by (metis keys set_map)
  have rows: "j = r' \<or> j \<in> set (db_jobs db) \<and> ej_evaluation_id j \<noteq> i"
    if "j \<in> set (put_job r' (db_jobs db))" for j
    using that assms(3) by (auto simp: row_put_def)
  have cons: "db_constraints ?db'"
    using assms(1,5,7,8) keys rows idem ids
    by (auto simp: db_ok_def db_constraints_def job_ok_def row_wf_def)
  have "ej_status j = COMPLETED \<longleftrightarrow> ej_evaluation_id j \<in> ev_evaluation_id ` set evs"
    if "j \<in> set (put_job r' (db_jobs db))" for j
    using rows[OF that]
  proof
    assume "j = r'"
    then show ?thesis using assms(3,6) by simp
  next
    assume j: "j \<in> set (db_jobs db) \<and> ej_evaluation_id j \<noteq> i"
    then show ?thesis using assms(1) assms(9)[of "ej_evaluation_id j"] by (simp add: db_ok_def)
  qed
  with cons rows assms(1,5) show ?thesis by (auto simp: db_ok_def)
qed

lemma put_job_ok_same:
  assumes "db_ok db" "get_job db i = Some r" "ej_evaluation_id r' = i"
    and "ej_idempotency_key r' = ej_idempotency_key r" "job_ok r'"
    and "ej_status r' = COMPLETED \<longleftrightarrow> ej_status r = COMPLETED"
  shows "db_ok (db\<lparr>db_jobs := put_job r' (db_jobs db)\<rparr>)"
proof -
  have "ej_status r' = COMPLETED \<longleftrightarrow> i \<in> ev_evaluation_id ` set (db_evaluations db)"
    using assms(1,6) get_job_ok(2,3)[OF assms(1,2)] by (auto simp: db_ok_def)
  from put_job_ok[OF assms(1-5) this db_okD(3,4)[OF assms(1)]] show ?thesis by simp
qed

lemma add_outbox_ok:
  assumes "db_ok db" "i \<in> ej_evaluation_id ` set (db_jobs db)"
  shows "db_ok (add_outbox i c n db)"
  using assms
  by (auto simp: db_ok_def db_constraints_def add_outbox_def outbox_record_def row_wf_snoc row_get_None)

lemma commit_ok: "db_ok db \<Longrightarrow> db_ok db' \<Longrightarrow> commit db db' r = (db', Inr r)"
  by (simp add: commit_def db_ok_def)

lemma commit_fst: "fst (commit db db' r) = db \<or> fst (commit db db' r) = db' \<and> db_constraints db'"
  by (simp add: commit_def)

section \<open>Each operation keeps the invariant\<close>

text \<open>A job that a claim at time \<open>now\<close> can take, and the row it becomes first.\<close>

definition claimable :: "evaluation_job \<Rightarrow> time \<Rightarrow> bool" where
  "claimable r now \<longleftrightarrow> ej_status r = QUEUED
     \<or> ej_status r = RETRY_WAIT \<and> (\<exists>t. ej_next_attempt_at r = Some t \<and> t \<le> now)"

definition requeued :: "evaluation_job \<Rightarrow> time \<Rightarrow> evaluation_job" where
  "requeued r now =
     (if ej_status r = RETRY_WAIT then r\<lparr>ej_status := QUEUED, ej_queued_at := now\<rparr> else r)"

lemma promote_claimable:
  "claimable r now \<Longrightarrow> promote r now = Inr (Some (requeued r now)) \<and> ej_status (requeued r now) = QUEUED"
  by (auto simp: promote_def requeued_def claimable_def)

lemma promote_not_claimable:
  "\<not> claimable r now \<Longrightarrow> promote r now = Inr None \<or>
     (\<exists>q. promote r now = Inr (Some q) \<and> ej_status q \<noteq> QUEUED)"
  by (auto simp: promote_def claimable_def split: option.splits)

lemma claimed_fields:
  "ej_evaluation_id (claimed_job (requeued r now) w now l) = ej_evaluation_id r"
  "ej_idempotency_key (claimed_job (requeued r now) w now l) = ej_idempotency_key r"
  "ej_status (claimed_job (requeued r now) w now l) = RUNNING"
  "ej_worker_id (claimed_job (requeued r now) w now l) = Some w"
  "ej_attempt_count (claimed_job (requeued r now) w now l) = ej_attempt_count r + 1"
  by (simp_all add: claimed_job_def requeued_def)

lemma claimed_db_ok:
  assumes "db_ok db" "get_job db i = Some r" "claimable r now"
  shows "db_ok (db\<lparr>db_jobs := put_job (claimed_job (requeued r now) w now l) (db_jobs db)\<rparr>)"
proof (rule put_job_ok_same[OF assms(1,2)])
  note r = get_job_ok[OF assms(1,2)]
  show "job_ok (claimed_job (requeued r now) w now l)"
    using r(1) assms(3)
    by (auto simp: job_ok_def job_checks_def claimed_job_def requeued_def claimable_def)
  show "(ej_status (claimed_job (requeued r now) w now l) = COMPLETED) = (ej_status r = COMPLETED)"
    using assms(3) by (auto simp: claimed_fields claimable_def)
qed (simp_all add: claimed_fields get_job_ok[OF assms(1,2)])

lemma claim_taken:
  assumes "db_ok db" "get_job db i = Some r" "claimable r now"
  shows "claim False db i w now l =
    (db\<lparr>db_jobs := put_job (claimed_job (requeued r now) w now l) (db_jobs db)\<rparr>,
     Inr (Some (claimed_job (requeued r now) w now l)))"
  using promote_claimable[OF assms(3)] assms(2)
  by (simp add: claim_def Let_def commit_ok[OF assms(1) claimed_db_ok[OF assms, of w l]])

lemma claim_refused:
  assumes "\<And>r. get_job db i = Some r \<Longrightarrow> \<not> claimable r now"
  shows "claim False db i w now l = (db, Inr None)"
proof (cases "get_job db i")
  case (Some r)
  from promote_not_claimable[OF assms[OF this]] Some show ?thesis by (auto simp: claim_def)
qed (simp add: claim_def)

lemma claim_db_cases:
  assumes "db_ok db"
  obtains "fst (claim f db i w now l) = db"
  | r where "\<not> f" "get_job db i = Some r" "claimable r now"
      "fst (claim f db i w now l) = db\<lparr>db_jobs := put_job (claimed_job (requeued r now) w now l) (db_jobs db)\<rparr>"
proof (cases "\<not> f \<and> (\<exists>r. get_job db i = Some r \<and> claimable r now)")
  case True
  then obtain r where r: "\<not> f" "get_job db i = Some r" "claimable r now" by blast
  with claim_taken[OF assms r(2,3), of w l] that(2) show ?thesis by simp
next
  case False
  then have "fst (claim f db i w now l) = db"
    using claim_refused[of db i now w l] by (cases f) (auto simp: claim_def)
  with that(1) show ?thesis .
qed

lemma claim_db_ok: "db_ok db \<Longrightarrow> db_ok (fst (claim f db i w now l))"
  by (rule claim_db_cases[of db f i w now l]) (auto dest: claimed_db_ok)

lemma renewed_db_ok:
  assumes "db_ok db" "get_job db i = Some r" "owned_by r w"
  shows "db_ok (db\<lparr>db_jobs := put_job (renewed_job r now l) (db_jobs db)\<rparr>)"
  by (rule put_job_ok_same[OF assms(1,2)])
    (use get_job_ok[OF assms(1,2)] assms(3) in
      \<open>auto simp: renewed_job_def job_ok_def job_checks_def owned_by_def\<close>)

lemma renew_db_cases:
  assumes "db_ok db"
  obtains "fst (renew_lease f db i w now l) = db"
  | r where "get_job db i = Some r" "owned_by r w"
      "fst (renew_lease f db i w now l) = db\<lparr>db_jobs := put_job (renewed_job r now l) (db_jobs db)\<rparr>"
proof (cases "\<not> f \<and> (\<exists>r. get_job db i = Some r \<and> owned_by r w)")
  case True
  then obtain r where r: "\<not> f" "get_job db i = Some r" "owned_by r w" by blast
  have "fst (renew_lease f db i w now l) = db\<lparr>db_jobs := put_job (renewed_job r now l) (db_jobs db)\<rparr>"
    using r by (simp add: renew_lease_def commit_ok[OF assms renewed_db_ok[OF assms r(2,3)]])
  with r that(2) show ?thesis by blast
next
  case False
  then have "fst (renew_lease f db i w now l) = db"
    by (auto simp: renew_lease_def split: option.splits)
  with that(1) show ?thesis .
qed

lemma completed_fields:
  "ej_evaluation_id (completed_job r now) = ej_evaluation_id r"
  "ej_idempotency_key (completed_job r now) = ej_idempotency_key r"
  "ej_status (completed_job r now) = COMPLETED"
  by (simp_all add: completed_job_def)

lemma completed_db_ok:
  assumes "db_ok db" "get_job db i = Some r" "owned_by r w" "sn_evaluation_id sn = i"
    and "evaluation_checks (evaluation_record_from_snapshot sn)"
  shows "db_ok (db\<lparr>db_jobs := put_job (completed_job r now) (db_jobs db),
       db_evaluations := db_evaluations db @ [evaluation_record_from_snapshot sn]\<rparr>)"
proof -
  let ?row = "evaluation_record_from_snapshot sn"
  note r = get_job_ok[OF assms(1,2)]
  have id: "ev_evaluation_id ?row = i"
    using assms(4) by (simp add: evaluation_record_from_snapshot_def Let_def)
  have "i \<notin> ev_evaluation_id ` set (db_evaluations db)"
    using assms(1,3) r(2,3) by (auto simp: db_ok_def owned_by_def)
  then have wf: "row_wf ev_evaluation_id (db_evaluations db @ [?row])"
    using db_okD(3)[OF assms(1)] id by (simp add: row_wf_snoc row_get_None)
  have "job_ok (completed_job r now)"
    using r(1) assms(3) by (auto simp: job_ok_def job_checks_def completed_job_def owned_by_def)
  from put_job_ok[OF assms(1,2) _ _ this _ wf] r(2) id assms(5) db_okD(4)[OF assms(1)] show ?thesis
    by (auto simp: completed_fields)
qed

lemma complete_db_cases:
  assumes "db_ok db"
  obtains "fst (complete f1 f2 (\<lambda>d. d) db i w sn now) = db"
  | r where "get_job db i = Some r" "owned_by r w" "sn_evaluation_id sn = i"
      "evaluation_checks (evaluation_record_from_snapshot sn)"
      "fst (complete f1 f2 (\<lambda>d. d) db i w sn now) =
        db\<lparr>db_jobs := put_job (completed_job r now) (db_jobs db),
       db_evaluations := db_evaluations db @ [evaluation_record_from_snapshot sn]\<rparr>"
proof (cases "\<not> f1 \<and> sn_evaluation_id sn = i \<and> (\<exists>r. get_job db i = Some r \<and> owned_by r w)
    \<and> evaluation_checks (evaluation_record_from_snapshot sn)")
  case True
  then obtain r where r: "\<not> f1" "sn_evaluation_id sn = i" "get_job db i = Some r" "owned_by r w"
    "evaluation_checks (evaluation_record_from_snapshot sn)" by blast
  have "fst (complete f1 f2 (\<lambda>d. d) db i w sn now) =
      db\<lparr>db_jobs := put_job (completed_job r now) (db_jobs db),
       db_evaluations := db_evaluations db @ [evaluation_record_from_snapshot sn]\<rparr>"
    using r by (simp add: complete_def owned_by_def
        commit_ok[OF assms completed_db_ok[OF assms r(3,4,2,5)]])
  with r that(2) show ?thesis by blast
next
  case False
  then have "fst (complete f1 f2 (\<lambda>d. d) db i w sn now) = db"
    by (auto simp: complete_def owned_by_def commit_def db_constraints_def get_def split: option.splits)
  with that(1) show ?thesis .
qed

lemmas fail_job_defs = released_job_def waiting_job_def failed_job_def

lemma failing_fields:
  "ej_evaluation_id (waiting_job (released_job r c k now) t) = ej_evaluation_id r"
  "ej_idempotency_key (waiting_job (released_job r c k now) t) = ej_idempotency_key r"
  "ej_status (waiting_job (released_job r c k now) t) = RETRY_WAIT"
  "ej_evaluation_id (failed_job (released_job r c k now) now) = ej_evaluation_id r"
  "ej_idempotency_key (failed_job (released_job r c k now) now) = ej_idempotency_key r"
  "ej_status (failed_job (released_job r c k now) now) = FAILED"
  by (simp_all add: fail_job_defs)

text \<open>A failed attempt of a running job always succeeds as a transaction, in one of two ways.\<close>

lemma fail_attempt_cases:
  assumes "db_ok db" "get_job db i = Some r" "ej_status r = RUNNING"
  obtains (retry) d where "retryable" "ej_attempt_count r < ej_max_attempts r"
      "retry_delay_seconds (ej_attempt_count r) base = Inr d"
      "fail_attempt db r c k retryable now base =
        Inr (add_outbox i now (Some (now + td_micros d)) (db\<lparr>db_jobs :=
           put_job (waiting_job (released_job r c k now) (now + td_micros d)) (db_jobs db)\<rparr>), RETRY_WAIT)"
      "db_ok (add_outbox i now (Some (now + td_micros d)) (db\<lparr>db_jobs :=
           put_job (waiting_job (released_job r c k now) (now + td_micros d)) (db_jobs db)\<rparr>))"
  | (final) "\<not> (retryable \<and> ej_attempt_count r < ej_max_attempts r)"
      "fail_attempt db r c k retryable now base =
        Inr (db\<lparr>db_jobs := put_job (failed_job (released_job r c k now) now) (db_jobs db)\<rparr>, FAILED)"
      "db_ok (db\<lparr>db_jobs := put_job (failed_job (released_job r c k now) now) (db_jobs db)\<rparr>)"
proof (cases "retryable \<and> ej_attempt_count r < ej_max_attempts r")
  case True
  note r = get_job_ok[OF assms(1,2)]
  have "0 < ej_attempt_count r" using r(1) assms(3) by (simp add: job_ok_def)
  then obtain d where d: "retry_delay_seconds (ej_attempt_count r) base = Inr d"
    by (auto simp: retry_delay_seconds_def)
  let ?r' = "waiting_job (released_job r c k now) (now + td_micros d)"
  have ok: "db_ok (db\<lparr>db_jobs := put_job ?r' (db_jobs db)\<rparr>)"
    by (rule put_job_ok_same[OF assms(1,2)])
      (use r True assms(3) in \<open>auto simp: fail_job_defs job_ok_def job_checks_def\<close>)
  have "i \<in> ej_evaluation_id ` set (put_job ?r' (db_jobs db))"
    using put_keys[OF db_okD(1)[OF assms(1)] assms(2), of ?r'] r(2,3)
    by (metis failing_fields(1) image_eqI set_map)
  then have "db_ok (add_outbox i now (Some (now + td_micros d)) (db\<lparr>db_jobs := put_job ?r' (db_jobs db)\<rparr>))"
    by (intro add_outbox_ok[OF ok]) simp
  with True d r(2) retry show ?thesis by (simp add: fail_attempt_def Let_def)
next
  case False
  note r = get_job_ok[OF assms(1,2)]
  have ok: "db_ok (db\<lparr>db_jobs := put_job (failed_job (released_job r c k now) now) (db_jobs db)\<rparr>)"
    by (rule put_job_ok_same[OF assms(1,2)])
      (use r assms(3) in \<open>auto simp: fail_job_defs job_ok_def job_checks_def\<close>)
  moreover have "fail_attempt db r c k retryable now base =
      Inr (db\<lparr>db_jobs := put_job (failed_job (released_job r c k now) now) (db_jobs db)\<rparr>, FAILED)"
    using False by (auto simp: fail_attempt_def Let_def)
  ultimately show ?thesis using False final by blast
qed

end
