(* ===== verification/EvaluationService.thy ===== *)
theory EvaluationService
  imports Engine CanonicalJson JobRepository
begin

text \<open>
  The evaluation service of \<^verbatim>\<open>src/app/evaluator/service.py\<close>, the snapshot builder of
  \<^verbatim>\<open>src/app/snapshots/builder.py\<close>, the version metadata of \<^verbatim>\<open>src/app/snapshots/metadata.py\<close> and the
  evaluation repository of \<^verbatim>\<open>src/app/db/repositories.py\<close>. The AI service, the file system, the
  package metadata, SHA-256 and the decimal forms of numbers are fields of the service record. The
  properties: the AI assessment never changes the deterministic evidence, and a snapshot of a
  consistent run is always accepted by the table it is stored in.
\<close>

section \<open>Runtime metadata\<close>

definition ANALYZER_PACKAGES :: "string list" where
  "ANALYZER_PACKAGES = [''ruff'', ''mypy'', ''bandit'', ''radon'']"

definition analyzer_versions :: "(string \<Rightarrow> string option) \<Rightarrow> (string \<times> string) list" where
  "analyzer_versions version = map (\<lambda>package. (package,
     case version package of Some v \<Rightarrow> v | None \<Rightarrow> ''unavailable'')) ANALYZER_PACKAGES"

definition canonical_analyzer_versions :: "(string \<Rightarrow> string option) \<Rightarrow> (string \<times> string) list" where
  "canonical_analyzer_versions version = sort (analyzer_versions version)"

definition codejudge_version :: "(string \<Rightarrow> string option) \<Rightarrow> string" where
  "codejudge_version version =
     (case version ''codejudge-ai'' of Some v \<Rightarrow> v | None \<Rightarrow> ''0.7.20'')"

text \<open>\<^verbatim>\<open>ExecutionMetadataCollector._collect\<close>; \<open>inspect\<close> is the result of \<^verbatim>\<open>docker image inspect\<close>.\<close>

record command_result =
  cr_exit_code :: int
  cr_stdout :: string
  cr_timed_out :: bool

definition starts_with :: "string \<Rightarrow> string \<Rightarrow> bool" where
  "starts_with prefix s \<longleftrightarrow> take (length prefix) s = prefix"

definition collect_metadata :: "bool \<Rightarrow> string \<Rightarrow> command_result \<Rightarrow> execution_environment" where
  "collect_metadata is_local sandbox_image inspect =
     (if is_local then \<lparr>ex_backend = ''local'', ex_sandbox_image = None, ex_sandbox_image_id = None\<rparr>
      else let image_id = (if cr_exit_code inspect = 0 \<and> \<not> cr_timed_out inspect
                           then Some (py_strip (cr_stdout inspect)) else None)
           in \<lparr>ex_backend = ''docker'', ex_sandbox_image = Some sandbox_image,
               ex_sandbox_image_id = (case image_id of
                  Some i \<Rightarrow> if starts_with ''sha256:'' i then Some i else None | None \<Rightarrow> None)\<rparr>)"

section \<open>Building a snapshot\<close>

definition SCORING_POLICY_VERSION :: string where "SCORING_POLICY_VERSION = ''1''"

definition AI_SCORING_POLICY_VERSION :: string where "AI_SCORING_POLICY_VERSION = ''1''"
definition JUDGE_PROMPT_VERSION :: string where "JUDGE_PROMPT_VERSION = ''1''"
definition ADVERSARIAL_PROMPT_VERSION :: string where "ADVERSARIAL_PROMPT_VERSION = ''1''"

record evaluation_service =
  es_engine :: evaluation_engine
  es_sha :: "bytes \<Rightarrow> string"
  es_repr :: "rat \<Rightarrow> string"
  es_show_g :: "rat \<Rightarrow> string"
  es_show_n :: "nat \<Rightarrow> string"
  es_test_files :: "registered_task \<Rightarrow> string list \<times> test_file list"
  es_reference :: "registered_task \<Rightarrow> bytes option"
  es_environment :: execution_environment
  es_package_version :: "string \<Rightarrow> string option"
  es_prompt_hashes :: "string \<times> string"
  es_assess :: "(evaluation_snapshot \<Rightarrow> registered_task \<Rightarrow> ai_identity option \<Rightarrow> ai_assessment) option"
  es_identity :: "registered_task \<Rightarrow> ai_identity"

definition es_tests_fingerprint :: "evaluation_service \<Rightarrow> registered_task \<Rightarrow> string" where
  "es_tests_fingerprint es task =
     (let (root, files) = es_test_files es task in tests_fingerprint (es_sha es) root files)"

definition es_task_fingerprint :: "evaluation_service \<Rightarrow> registered_task \<Rightarrow> string \<Rightarrow> string" where
  "es_task_fingerprint es task test_identity =
     task_fingerprint (es_sha es) (es_repr es) (es_tests_fingerprint es task) (rt_specification task)
       (Some test_identity)"

text \<open>\<^verbatim>\<open>(completed_at - created_at).total_seconds()\<close> divides microseconds, correctly rounded.\<close>

definition total_seconds :: "time \<Rightarrow> rat" where
  "total_seconds d = fl64 (of_int d / 1000000)"

definition build_evaluation_snapshot ::
    "evaluation_service \<Rightarrow> evaluation_request \<Rightarrow> registered_task \<Rightarrow> evaluation_result \<Rightarrow> runner_result
     \<Rightarrow> time \<Rightarrow> time \<Rightarrow> execution_environment \<Rightarrow> (string \<times> string) list \<Rightarrow> string \<Rightarrow> string \<Rightarrow> uuid
     \<Rightarrow> evaluation_snapshot" where
  "build_evaluation_snapshot es request task result runner_result created_at completed_at execution
       analyzers version scoring evaluation_id =
     (let (source_hash, source_size) = source_identity (es_sha es) (rq_code request);
          test_hash = es_tests_fingerprint es task;
          task_hash = es_task_fingerprint es task test_hash;
          reproducibility_hash = reproducibility_fingerprint (es_sha es) (es_repr es) source_hash
            task_hash test_hash analyzers scoring execution version
      in \<lparr>sn_evaluation_id = evaluation_id, sn_created_at = created_at, sn_completed_at = completed_at,
          sn_duration_seconds = max 0 (total_seconds (completed_at - created_at)),
          sn_task_id = ts_id (rt_specification task), sn_task_version = ts_version (rt_specification task),
          sn_task_fingerprint = task_hash, sn_tests_fingerprint = test_hash,
          sn_language = rq_language request, sn_source_text = rq_code request,
          sn_source_hash = source_hash, sn_source_size = source_size, sn_status = er_status result,
          sn_execution = execution, sn_codejudge_version = version,
          sn_scoring_policy_version = scoring, sn_analyzer_versions = analyzers,
          sn_tests = er_tests result, sn_oom_killed = rr_oom_killed runner_result,
          sn_score_breakdown = er_score_breakdown result, sn_final_score = er_score result,
          sn_complexity = map_option sa_complexity (er_analysis result),
          sn_execution_findings = er_findings result,
          sn_analysis_findings = (case er_analysis result of None \<Rightarrow> [] | Some a \<Rightarrow> sa_findings a),
          sn_reproducibility_fingerprint = reproducibility_hash, sn_ai_assessment = None\<rparr>)"

section \<open>The service\<close>

definition runtime_identity ::
    "evaluation_service \<Rightarrow> execution_environment \<times> (string \<times> string) list \<times> string \<times> string" where
  "runtime_identity es =
     (es_environment es,
      if en_analysis (es_engine es) \<noteq> None then canonical_analyzer_versions (es_package_version es) else [],
      SCORING_POLICY_VERSION, codejudge_version (es_package_version es))"

definition evaluate_snapshot ::
    "evaluation_service \<Rightarrow> evaluation_request \<Rightarrow> uuid \<Rightarrow> time \<Rightarrow> time \<Rightarrow> ai_identity option \<Rightarrow> int option
     \<Rightarrow> eval_error + evaluation_snapshot" where
  "evaluate_snapshot es request evaluation_id created_at completed_at expected_ai_identity task_revision =
     (case evaluate_outcome (es_show_g es) (es_show_n es) (es_engine es) request task_revision of
        Inl e \<Rightarrow> Inl e
      | Inr outcome \<Rightarrow>
          (let versions = (if er_analysis (eo_result outcome) \<noteq> None
                           then canonical_analyzer_versions (es_package_version es) else []);
               snapshot = build_evaluation_snapshot es request (eo_task outcome) (eo_result outcome)
                 (eo_runner_result outcome) created_at completed_at (es_environment es) versions
                 (codejudge_version (es_package_version es)) SCORING_POLICY_VERSION evaluation_id
           in case es_assess es of
                None \<Rightarrow> Inr snapshot
              | Some assess \<Rightarrow>
                  Inr (snapshot\<lparr>sn_ai_assessment :=
                    Some (assess snapshot (eo_task outcome) expected_ai_identity)\<rparr>)))"

definition reference_fingerprint :: "evaluation_service \<Rightarrow> registered_task \<Rightarrow> string option" where
  "reference_fingerprint es task =
     (if rt_reference_path task = None then None else map_option (es_sha es) (es_reference es task))"

definition service_ai_identity :: "evaluation_service \<Rightarrow> registered_task \<Rightarrow> ai_identity" where
  "service_ai_identity es task =
     (if es_assess es \<noteq> None then es_identity es task
      else \<lparr>ii_enabled = False, ii_policy_version = AI_SCORING_POLICY_VERSION,
            ii_judge_prompt_version = JUDGE_PROMPT_VERSION,
            ii_judge_prompt_hash = fst (es_prompt_hashes es),
            ii_adversarial_prompt_version = ADVERSARIAL_PROMPT_VERSION,
            ii_adversarial_prompt_hash = snd (es_prompt_hashes es), ii_provider_id = None,
            ii_judge_models = [], ii_adversarial_model = None, ii_temperature = 0, ii_top_p = 1,
            ii_max_output_tokens = 2000, ii_reference_fingerprint = reference_fingerprint es task\<rparr>)"

section \<open>The evaluation repository\<close>

definition evaluation_unavailable :: repo_error where
  "evaluation_unavailable = PersistenceFailure ''Evaluation persistence is unavailable.''"

definition create_evaluation ::
    "bool \<Rightarrow> job_db \<Rightarrow> evaluation_snapshot \<Rightarrow> job_db \<times> (repo_error + evaluation_snapshot)" where
  "create_evaluation fault db snapshot =
     (let db' = db\<lparr>db_evaluations := db_evaluations db @ [evaluation_record_from_snapshot snapshot]\<rparr> in
      if fault \<or> \<not> db_constraints db' then (db, Inl evaluation_unavailable) else (db', Inr snapshot))"

definition get_evaluation :: "bool \<Rightarrow> job_db \<Rightarrow> uuid \<Rightarrow> repo_error + evaluation_snapshot option" where
  "get_evaluation fault db evaluation_id =
     (if fault then Inl evaluation_unavailable
      else case row_get ev_evaluation_id (db_evaluations db) evaluation_id of
        None \<Rightarrow> Inr None
      | Some record \<Rightarrow>
          (case snapshot_from_record record of
             Inl _ \<Rightarrow> Inl (PersistenceFailure ''Stored AI assessment metadata is incomplete.'')
           | Inr snapshot \<Rightarrow> Inr (Some snapshot)))"

text \<open>
  \<^verbatim>\<open>EvaluationService.evaluate\<close>: without a repository the engine's result, otherwise the stored
  snapshot's. \<open>new_id\<close> is what \<^verbatim>\<open>uuid4\<close> returns and \<open>created\<close>, \<open>completed\<close> the two clock readings.
\<close>

definition stored_result :: "evaluation_snapshot \<Rightarrow> evaluation_result" where
  "stored_result s =
     \<lparr>er_evaluation_id = Some (sn_evaluation_id s), er_created_at = Some (sn_created_at s),
      er_task_id = sn_task_id s, er_status = sn_status s, er_score = sn_final_score s,
      er_tests = sn_tests s, er_score_breakdown = sn_score_breakdown s,
      er_analysis = dt_analysis (from_snapshot s), er_findings = sn_execution_findings s,
      er_ai_assessment = sn_ai_assessment s\<rparr>"

definition evaluate ::
    "evaluation_service \<Rightarrow> bool \<Rightarrow> bool \<Rightarrow> job_db \<Rightarrow> evaluation_request \<Rightarrow> uuid \<Rightarrow> time \<Rightarrow> time
     \<Rightarrow> job_db \<times> (eval_error + evaluation_result)" where
  "evaluate es persistent fault db request new_id created completed =
     (if \<not> persistent
      then (db, case evaluate_outcome (es_show_g es) (es_show_n es) (es_engine es) request None of
                  Inl e \<Rightarrow> Inl e | Inr outcome \<Rightarrow> Inr (eo_result outcome))
      else case evaluate_snapshot es request new_id created completed None None of
        Inl e \<Rightarrow> (db, Inl e)
      | Inr snapshot \<Rightarrow>
          (case create_evaluation fault db snapshot of
             (db', Inl _) \<Rightarrow> (db', Inl (EvaluationInfrastructureError
                               ''Evaluation persistence is unavailable.''))
           | (db', Inr stored) \<Rightarrow> (db', Inr (stored_result stored))))"

section \<open>Properties\<close>

lemma evaluate_outcome_result:
  assumes "evaluate_outcome sg sn en rq rv = Inr out"
  shows "er_tests (eo_result out) = tests_of (eo_runner_result out)"
    "er_evaluation_id (eo_result out) = None" "er_created_at (eo_result out) = None"
    "er_ai_assessment (eo_result out) = None"
    "er_task_id (eo_result out) = ts_id (rt_specification (eo_task out))"
  using assms by (auto simp: evaluate_outcome_def Let_def split: sum.splits option.splits)

lemma evaluate_snapshot_Inr:
  assumes "evaluate_snapshot es rq i c d ai rv = Inr s"
  obtains out where
    "evaluate_outcome (es_show_g es) (es_show_n es) (es_engine es) rq rv = Inr out"
    "sn_evaluation_id s = i" "sn_created_at s = c" "sn_completed_at s = d"
    "sn_duration_seconds s = max 0 (total_seconds (d - c))"
    "sn_task_id s = ts_id (rt_specification (eo_task out))"
    "sn_task_fingerprint s = es_task_fingerprint es (eo_task out) (es_tests_fingerprint es (eo_task out))"
    "sn_tests_fingerprint s = es_tests_fingerprint es (eo_task out)"
    "sn_language s = rq_language rq" "sn_source_text s = rq_code rq"
    "sn_source_hash s = es_sha es (utf8 (rq_code rq))" "sn_source_size s = length (utf8 (rq_code rq))"
    "sn_status s = er_status (eo_result out)" "sn_tests s = er_tests (eo_result out)"
    "sn_score_breakdown s = er_score_breakdown (eo_result out)" "sn_final_score s = er_score (eo_result out)"
    "sn_complexity s = map_option sa_complexity (er_analysis (eo_result out))"
    "sn_execution_findings s = er_findings (eo_result out)"
    "sn_analysis_findings s = (case er_analysis (eo_result out) of None \<Rightarrow> [] | Some a \<Rightarrow> sa_findings a)"
    "sn_reproducibility_fingerprint s \<in> range (es_sha es)"
    "sn_ai_assessment s = map_option (\<lambda>assess. assess (s\<lparr>sn_ai_assessment := None\<rparr>) (eo_task out) ai) (es_assess es)"
  using assms
  by (auto simp: evaluate_snapshot_def build_evaluation_snapshot_def source_identity_def Let_def
      reproducibility_fingerprint_def canonical_hash_def split: sum.splits option.splits)

text \<open>
  The AI assessment is supplemental: with any AI service configured, an evaluation succeeds
  exactly when it succeeds without one, and the snapshot is the same in every deterministic field.
\<close>
theorem ai_keeps_deterministic_evidence:
  "map_sum id (\<lambda>s. s\<lparr>sn_ai_assessment := None\<rparr>) (evaluate_snapshot es rq i c d ai rv)
   = evaluate_snapshot (es\<lparr>es_assess := None\<rparr>) rq i c d ai rv"
  by (auto simp: evaluate_snapshot_def build_evaluation_snapshot_def es_tests_fingerprint_def
      es_task_fingerprint_def Let_def split: sum.splits option.splits prod.splits)

definition counts_add_up :: "evaluation_engine \<Rightarrow> bool" where
  "counts_add_up en \<longleftrightarrow> (\<forall>runner\<in>snd ` set (en_runners en). \<forall>task code.
     (case runner task code of
        Inl _ \<Rightarrow> True
      | Inr r \<Rightarrow> rr_infrastructure_error r = None \<longrightarrow> rr_passed r + rr_failed r = rr_total r))"

definition assessment_in_range :: "ai_assessment \<Rightarrow> bool" where
  "assessment_in_range a \<longleftrightarrow> score_column (aa_ai_score a) \<and> score_column (aa_judge_score a)
     \<and> score_column (opt_bind (aa_adversarial_tests a) av_robustness_score)
     \<and> length (aa_ai_reproducibility_fingerprint a) = 64"

lemma outcome_runner:
  assumes "evaluate_outcome sg sn en rq rv = Inr out" "counts_add_up en"
  shows "rr_passed (eo_runner_result out) + rr_failed (eo_runner_result out) = rr_total (eo_runner_result out)"
proof -
  from assms(1) obtain task where o: "prepare_request en rq rv = Inr task"
    "the (map_of (en_runners en) (rq_language rq)) task (rq_code rq) = Inr (eo_runner_result out)"
    "rr_infrastructure_error (eo_runner_result out) = None" by (rule evaluate_outcome_Inr)
  then obtain runner where "map_of (en_runners en) (rq_language rq) = Some runner"
    by (auto simp: prepare_request_def Let_def split: if_splits sum.splits option.splits)
  moreover from this have "runner \<in> snd ` set (en_runners en)" by (force dest: map_of_SomeD)
  with assms(2) have "case runner task (rq_code rq) of Inl _ \<Rightarrow> True
      | Inr r \<Rightarrow> rr_infrastructure_error r = None \<longrightarrow> rr_passed r + rr_failed r = rr_total r"
    unfolding counts_add_up_def by blast
  ultimately show ?thesis using o(2,3) by simp
qed

text \<open>
  A snapshot is always storable: when the digests have 64 characters, the code is not empty,
  the runners report passed and failed tests that add up to the total, and the AI assessment, if
  any, is in range, then the row built from the snapshot meets every check constraint of the
  evaluations table. In particular its scores are percentages.
\<close>

lemma evaluated_snapshot_storable:
  assumes "evaluate_snapshot es rq i c d ai rv = Inr s"
    and "\<And>x. length (es_sha es x) = 64" "rq_code rq \<noteq> []" "counts_add_up (es_engine es)"
    and "\<And>a. sn_ai_assessment s = Some a \<Longrightarrow> assessment_in_range a"
  shows "evaluation_checks (evaluation_record_from_snapshot s)"
proof -
  from assms(1) obtain out where o: "evaluate_outcome (es_show_g es) (es_show_n es) (es_engine es) rq rv = Inr out"
    and f: "sn_duration_seconds s = max 0 (total_seconds (d - c))"
    "sn_task_fingerprint s = es_task_fingerprint es (eo_task out) (es_tests_fingerprint es (eo_task out))"
    "sn_tests_fingerprint s = es_tests_fingerprint es (eo_task out)"
    "sn_source_hash s = es_sha es (utf8 (rq_code rq))" "sn_source_size s = length (utf8 (rq_code rq))"
    "sn_tests s = er_tests (eo_result out)"
    "sn_score_breakdown s = er_score_breakdown (eo_result out)" "sn_final_score s = er_score (eo_result out)"
    "sn_reproducibility_fingerprint s \<in> range (es_sha es)"
    by (rule evaluate_snapshot_Inr)
  note sum = outcome_runner[OF o assms(4)]
  obtain analysis where b: "er_score_breakdown (eo_result out) = calculate_score (tests_of (eo_runner_result out)) analysis"
    "er_score (eo_result out) = calculate_final_score (er_score_breakdown (eo_result out))"
    using o by (rule evaluate_outcome_Inr)
  have ok: "breakdown_ok (sn_score_breakdown s)"
    unfolding f b(1) using sum by (intro breakdown_calculate) (simp add: tests_of_def)
  have fin: "0 \<le> sn_final_score s" "sn_final_score s \<le> 100"
    using final_score_bounds[OF ok] by (simp_all add: f b(2))
  have size: "0 < sn_source_size s"
    using assms(3) by (cases "rq_code rq") (auto simp: f(5) utf8_def utf8_char_def Let_def)
  have hashes: "length (sn_task_fingerprint s) = 64" "length (sn_tests_fingerprint s) = 64"
    "length (sn_source_hash s) = 64" "length (sn_reproducibility_fingerprint s) = 64"
    using f(9) assms(2) by (auto simp: f(2-4) es_task_fingerprint_def es_tests_fingerprint_def
        task_fingerprint_def canonical_hash_def tests_fingerprint_def split: prod.splits)
  have counts: "tr_passed (sn_tests s) + tr_failed (sn_tests s) = tr_total (sn_tests s)"
    using sum by (simp add: f evaluate_outcome_result(1)[OF o] tests_of_def)
  have ai: "score_column (opt_bind (sn_ai_assessment s) aa_ai_score)"
    "score_column (opt_bind (sn_ai_assessment s) aa_judge_score)"
    "score_column (opt_bind (sn_ai_assessment s) (\<lambda>a. opt_bind (aa_adversarial_tests a) av_robustness_score))"
    "case map_option aa_ai_reproducibility_fingerprint (sn_ai_assessment s) of None \<Rightarrow> True | Some f \<Rightarrow> length f = 64"
    using assms(5) by (auto simp: assessment_in_range_def opt_bind_def score_column_def split: option.splits)
  have cols: "score_column (Some (sb_correctness (sn_score_breakdown s)))"
    "score_column (sb_code_quality (sn_score_breakdown s))" "score_column (sb_type_safety (sn_score_breakdown s))"
    "score_column (sb_security (sn_score_breakdown s))" "score_column (sb_complexity (sn_score_breakdown s))"
    using ok by (simp_all add: breakdown_ok_def percent_def score_column_def option.pred_set
        split: option.splits)
  have final: "score_column (Some (sn_final_score s))" using fin by (simp add: score_column_def)
  have dur: "0 \<le> sn_duration_seconds s" by (simp add: f(1))
  show ?thesis
    unfolding evaluation_checks_def evaluation_record_from_snapshot_def Let_def
    using ai(4) by (simp add: size hashes counts cols final ai(1-3) dur)
qed

definition ex_sha :: "bytes \<Rightarrow> string" where
  "ex_sha x = take 64 (map (\<lambda>w. char_of (unat w)) x @ replicate 64 (CHR ''0''))"

definition ex_service :: evaluation_service where
  "ex_service = \<lparr>es_engine = ex_engine, es_sha = ex_sha, es_repr = (\<lambda>_. ''5.0''), es_show_g = (\<lambda>_. []),
     es_show_n = (\<lambda>_. ''1''), es_test_files = (\<lambda>_. ([''tests''], [])), es_reference = (\<lambda>_. None),
     es_environment = \<lparr>ex_backend = ''local'', ex_sandbox_image = None, ex_sandbox_image_id = None\<rparr>,
     es_package_version = (\<lambda>_. Some ''1''), es_prompt_hashes = ([], []), es_assess = None,
     es_identity = (\<lambda>_. undefined)\<rparr>"

lemma ex_sha_length: "length (ex_sha x) = 64"
  by (simp add: ex_sha_def)

lemma ex_service_evaluates:
  "\<exists>s. evaluate_snapshot ex_service (ex_request ''a'') 7 0 10 None None = Inr s \<and> sn_ai_assessment s = None
     \<and> sn_evaluation_id s = 7"
proof -
  have "is_ok (evaluate_outcome (\<lambda>_. []) (\<lambda>_. ''1'') ex_engine (ex_request ''a'') None)"
    using ex_engine_runs by (auto simp: is_ok_def)
  then show ?thesis
    by (auto simp: evaluate_snapshot_def ex_service_def build_evaluation_snapshot_def Let_def is_ok_def
        split: sum.splits prod.splits)
qed

text \<open>
  Persistence is transparent: a stored evaluation returns the engine's own result with the new
  identifier, the creation time and the AI assessment filled in; the snapshot can be read back under
  that identifier and gives the same result; an evaluation that fails stores nothing.
\<close>
theorem evaluate_persistence_transparent:
  assumes "evaluate es True f db rq i c d = (db', res)"
  shows "(case res of
      Inl e \<Rightarrow> db' = db
    | Inr r \<Rightarrow> (\<exists>r0. evaluate es False f db rq i c d = (db, Inr r0)
        \<and> r = r0\<lparr>er_evaluation_id := Some i, er_created_at := Some c, er_ai_assessment := er_ai_assessment r\<rparr>)
      \<and> (\<exists>s. get_evaluation False db' i = Inr (Some s) \<and> stored_result s = r))"
proof (cases res)
  case (Inl e)
  then show ?thesis using assms
    by (auto simp: evaluate_def create_evaluation_def Let_def split: sum.splits if_splits prod.splits)
next
  case (Inr r)
  then obtain s where s: "evaluate_snapshot es rq i c d None None = Inr s"
    "create_evaluation f db s = (db', Inr s)" "r = stored_result s"
    using assms by (auto simp: evaluate_def create_evaluation_def Let_def split: sum.splits if_splits prod.splits)
  from s(1) obtain out where o: "evaluate_outcome (es_show_g es) (es_show_n es) (es_engine es) rq None = Inr out"
    and e: "sn_evaluation_id s = i" "sn_created_at s = c"
    "sn_task_id s = ts_id (rt_specification (eo_task out))" "sn_status s = er_status (eo_result out)"
    "sn_tests s = er_tests (eo_result out)" "sn_score_breakdown s = er_score_breakdown (eo_result out)"
    "sn_final_score s = er_score (eo_result out)"
    "sn_complexity s = map_option sa_complexity (er_analysis (eo_result out))"
    "sn_execution_findings s = er_findings (eo_result out)"
    "sn_analysis_findings s = (case er_analysis (eo_result out) of None \<Rightarrow> [] | Some a \<Rightarrow> sa_findings a)"
    by (rule evaluate_snapshot_Inr)
  let ?row = "evaluation_record_from_snapshot s"
  have id: "ev_evaluation_id ?row = i" using e(1) by (simp add: evaluation_record_from_snapshot_def Let_def)
  have db': "db_evaluations db' = db_evaluations db @ [?row]" "db_constraints db'"
    using s(2) by (auto simp: create_evaluation_def Let_def split: if_splits)
  have "row_get ev_evaluation_id (db_evaluations db') i = Some ?row"
    using row_get_wf[of ev_evaluation_id "db_evaluations db'" ?row] db' id by (simp add: db_constraints_def)
  then have "get_evaluation False db' i = Inr (Some s)"
    by (simp add: get_evaluation_def snapshot_reads_back)
  moreover have "evaluate es False f db rq i c d = (db, Inr (eo_result out))"
    using o by (simp add: evaluate_def)
  moreover have "r = (eo_result out)\<lparr>er_evaluation_id := Some i, er_created_at := Some c,
      er_ai_assessment := er_ai_assessment r\<rparr>"
    unfolding s(3) stored_result_def
    by (intro evaluation_result.equality)
      (simp_all add: e from_snapshot_def evaluate_outcome_result[OF o] split: option.splits)
  ultimately show ?thesis using Inr s(3) by auto
qed

theorem evaluate_persistence_transparent_witness:
  "case snd (evaluate ex_service True False empty_db (ex_request ''a'') 7 0 10) of
     Inl e \<Rightarrow> fst (evaluate ex_service True False empty_db (ex_request ''a'') 7 0 10) = empty_db
   | Inr r \<Rightarrow> (\<exists>s. get_evaluation False (fst (evaluate ex_service True False empty_db (ex_request ''a'') 7 0 10)) 7
       = Inr (Some s) \<and> stored_result s = r)"
proof -
  obtain db' res where r: "evaluate ex_service True False empty_db (ex_request ''a'') 7 0 10 = (db', res)"
    by force
  from evaluate_persistence_transparent[OF r] show ?thesis unfolding r by (cases res) simp_all
qed

end
