(* ===== verification/PythonRunner.thy ===== *)
theory PythonRunner
  imports DockerRunner EvaluationService
begin

text \<open>
  The local runner of \<^verbatim>\<open>src/app/runners/python_runner.py\<close>, with the report that its pytest plugin writes, and what
  both runners give the evaluation engine.
\<close>

section \<open>The report plugin\<close>

text \<open>
  \<^verbatim>\<open>pytest_sessionfinish\<close>: the numbers of passed, failed and erroneous tests of the terminal reporter, the number
  of collected tests, and the duration.
\<close>

definition session_report :: "nat \<Rightarrow> nat \<Rightarrow> nat \<Rightarrow> int \<Rightarrow> rat \<Rightarrow> pyval" where
  "session_report passed failed errors collected duration =
     (let all_tests = max collected (int passed + (int failed + int errors)) in
      json_object [(''passed'', PyInt (int passed)), (''failed'', PyInt (all_tests - int passed)),
        (''total'', PyInt all_tests), (''duration_seconds'', PyFloat duration)])"

section \<open>The runner\<close>

text \<open>
  What happens to the pytest process: it cannot be started, the time runs out (then it is killed with its group and
  the return code is that of the end), the caller cancels, or it ends, with its output and the report file: that
  cannot be read, is not UTF-8 (which \<^verbatim>\<open>_read_report\<close> does not catch), or has a text.
\<close>

datatype report_text = NoReport | UndecodableReport | ReportText string

datatype local_process =
    LocalCannotStart
  | LocalTimeout "int option"
  | LocalCancelled
  | LocalEnded "int option" string string report_text

definition local_report :: "(string \<Rightarrow> pyval option) \<Rightarrow> report_text \<Rightarrow> docker_exn + (nat \<times> nat \<times> nat) option" where
  "local_report loads file =
     (case file of
        NoReport \<Rightarrow> Inr None
      | UndecodableReport \<Rightarrow> Inl (OtherError ''UnicodeDecodeError'')
      | ReportText report \<Rightarrow>
          Inr (case loads report of None \<Rightarrow> None | Some raw \<Rightarrow> if is_dict raw then report_counts raw else None))"

definition python_evaluate ::
    "(string \<Rightarrow> pyval option) \<Rightarrow> registered_task \<Rightarrow> rat \<Rightarrow> local_process \<Rightarrow> docker_exn + runner_result" where
  "python_evaluate loads task duration process =
     (let timeout = ts_timeout_seconds (rt_specification task) in
      case process of
        LocalCannotStart \<Rightarrow> Inr ((no_tests None [] [] duration)
          \<lparr>rr_infrastructure_error := Some ''The Python test process could not be started.''\<rparr>)
      | LocalTimeout code \<Rightarrow> Inr ((no_tests code [] [] duration)
          \<lparr>rr_timed_out := True, rr_enforced_timeout_seconds := Some timeout\<rparr>)
      | LocalCancelled \<Rightarrow> Inl Cancelled
      | LocalEnded code stdout stderr file \<Rightarrow>
          (case local_report loads file of
             Inl e \<Rightarrow> Inl e
           | Inr None \<Rightarrow> Inr ((no_tests code stdout stderr duration)
               \<lparr>rr_infrastructure_error := Some ''Pytest did not produce a structured report.''\<rparr>)
           | Inr (Some (passed, failed, counted)) \<Rightarrow> Inr ((no_tests code stdout stderr duration)
               \<lparr>rr_passed := passed, rr_failed := failed, rr_total := counted,
                rr_enforced_timeout_seconds := Some timeout\<rparr>)))"

lemma counted_sum: "counted_with_verdict r \<Longrightarrow> rr_passed r + rr_failed r = rr_total r"
  by (simp add: counted_with_verdict_def)

lemma report_counts_sum: "report_counts raw = Some (p, f, n) \<Longrightarrow> p + f = n"
  by (auto simp: report_counts_def nat_add_distrib split: option.splits if_splits)

lemma python_result_sound: "python_evaluate loads task duration process = Inr r \<Longrightarrow> counted_with_verdict r"
  by (auto simp: python_evaluate_def local_report_def counted_with_verdict_def no_tests_def Let_def
      dest: report_counts_sum split: local_process.splits report_text.splits sum.splits option.splits if_splits)

text \<open>What the plugin writes, the runners read back.\<close>

lemma session_report_counts:
  "report_counts (session_report passed failed errors collected duration)
   = Some (passed, nat (max collected (int (passed + failed + errors))) - passed, nat (max collected (int (passed + failed + errors))))"
proof -
  define n where "n = max collected (int passed + (int failed + int errors))"
  have "get_field (session_report passed failed errors collected duration) ''passed'' = PyInt (int passed)"
    "get_field (session_report passed failed errors collected duration) ''failed'' = PyInt (n - int passed)"
    "get_field (session_report passed failed errors collected duration) ''total'' = PyInt n"
    by (simp_all add: session_report_def get_field_def json_object_def Let_def n_def)
  moreover have "int passed \<le> n" by (simp add: n_def)
  moreover have "max collected (int (passed + failed + errors)) = n" by (simp add: n_def algebra_simps)
  ultimately show ?thesis by (simp add: report_counts_def nat_diff_distrib)
qed

text \<open>
  The counts that the pytest plugin reports are accepted by the local runner and become the counts of its result: no test
  is lost, collected tests that neither passed nor failed count as failed, and the exit code and output are
  those of the process.
\<close>
lemma plugin_counts_accepted:
  assumes "loads file = Some (session_report passed failed errors collected seconds)"
  shows "\<exists>r. python_evaluate loads task duration (LocalEnded code out err (ReportText file)) = Inr r \<and> rr_passed r = passed
    \<and> int (rr_total r) = max collected (int (passed + failed + errors)) \<and> passed + rr_failed r = rr_total r
    \<and> counted_with_verdict r \<and> rr_infrastructure_error r = None \<and> rr_exit_code r = code \<and> rr_stdout r = out"
proof -
  have "is_dict (session_report passed failed errors collected seconds)"
    by (simp add: session_report_def is_dict_def json_object_def Let_def)
  with assms session_report_counts[of passed failed errors collected seconds]
  obtain r where r: "python_evaluate loads task duration (LocalEnded code out err (ReportText file)) = Inr r"
    "rr_passed r = passed" "rr_total r = nat (max collected (int (passed + failed + errors)))"
    "rr_infrastructure_error r = None" "rr_exit_code r = code" "rr_stdout r = out"
    by (simp add: python_evaluate_def local_report_def no_tests_def Let_def)
  have "0 \<le> max collected (int (passed + failed + errors))" by (rule max.coboundedI2) simp
  then have "int (rr_total r) = max collected (int (passed + failed + errors))" unfolding r(3) by (rule int_nat_eq[THEN trans, OF if_P])
  with r python_result_sound[OF r(1)] counted_sum[OF python_result_sound[OF r(1)]] show ?thesis by auto
qed

section \<open>Runners of an engine\<close>

text \<open>A runner all of whose results come from one of the two backends; what leaves a backend as an exception leaves the runner.\<close>

definition backed :: "(registered_task \<Rightarrow> string \<Rightarrow> string + runner_result) \<Rightarrow> bool" where
  "backed runner \<longleftrightarrow> (\<forall>task code r. runner task code = Inr r \<longrightarrow>
     (\<exists>dr eid directory h h'. docker_evaluate dr eid directory task code h = (h', Inr r))
     \<or> (\<exists>loads duration process. python_evaluate loads task duration process = Inr r))"

lemma backed_counts:
  assumes "\<And>runner. runner \<in> snd ` set (en_runners en) \<Longrightarrow> backed runner"
  shows "counts_add_up en"
  unfolding counts_add_up_def
proof (intro ballI allI)
  fix runner task code
  assume runner: "runner \<in> snd ` set (en_runners en)"
  have "rr_passed r + rr_failed r = rr_total r" if r: "runner task code = Inr r" for r
  proof -
    from assms[OF runner] r consider
        dr eid directory h h' where "docker_evaluate dr eid directory task code h = (h', Inr r)"
      | loads duration process where "python_evaluate loads task duration process = Inr r"
      unfolding backed_def by blast
    then have "counted_with_verdict r"
      using guarded_behaves(2)[OF evaluations_guarded(1)] python_result_sound by cases blast+
    then show ?thesis by (rule counted_sum)
  qed
  then show "case runner task code of Inl _ \<Rightarrow> True
      | Inr r \<Rightarrow> rr_infrastructure_error r = None \<longrightarrow> rr_passed r + rr_failed r = rr_total r"
    by (auto split: sum.splits)
qed

end
