(* ===== verification/UuidText.thy ===== *)
theory UuidText
  imports CanonicalJson
begin

text \<open>
  The text form of a UUID, as the queue stores it: \<^verbatim>\<open>str(UUID)\<close> and the \<^verbatim>\<open>UUID(hex)\<close> constructor of
  Python's standard library (a UUID is its 128-bit integer), with the round trip between them.
\<close>

section \<open>Formatting\<close>

text \<open>\<^verbatim>\<open>"%032x" % int\<close>.\<close>

fun hex_pad :: "nat \<Rightarrow> nat \<Rightarrow> string" where
  "hex_pad 0 n = []"
| "hex_pad (Suc k) n = hex_pad k (n div 16) @ [hex_digit (n mod 16)]"

definition uuid_hex :: "uuid \<Rightarrow> string" where
  "uuid_hex n = hex_pad 32 n"

definition str_uuid :: "uuid \<Rightarrow> string" where
  "str_uuid n = (let h = uuid_hex n in
     take 8 h @ ''-'' @ take 4 (drop 8 h) @ ''-'' @ take 4 (drop 12 h) @ ''-''
     @ take 4 (drop 16 h) @ ''-'' @ drop 20 h)"

section \<open>Parsing\<close>

text \<open>\<^verbatim>\<open>s.replace(sub, "")\<close> for a nonempty \<^verbatim>\<open>sub\<close>.\<close>

fun py_remove :: "string \<Rightarrow> string \<Rightarrow> string" where
  "py_remove sub [] = []"
| "py_remove sub (c # s) =
     (if sub \<noteq> [] \<and> take (length sub) (c # s) = sub then py_remove sub (drop (length sub - 1) s)
      else c # py_remove sub s)"

definition strip_chars :: "char set \<Rightarrow> string \<Rightarrow> string" where
  "strip_chars cs s = rev (dropWhile (\<lambda>c. c \<in> cs) (rev (dropWhile (\<lambda>c. c \<in> cs) s)))"

definition hex_value :: "char \<Rightarrow> nat option" where
  "hex_value c = (let n = of_char c :: nat in
     if 48 \<le> n \<and> n \<le> 57 then Some (n - 48)
     else if 97 \<le> n \<and> n \<le> 102 then Some (n - 87)
     else if 65 \<le> n \<and> n \<le> 70 then Some (n - 55)
     else None)"

text \<open>The digits of \<^verbatim>\<open>int(s, 16)\<close>: hexadecimal digits with single underscores between them.\<close>

fun hex_digits :: "nat \<Rightarrow> string \<Rightarrow> nat option" where
  "hex_digits acc [] = Some acc"
| "hex_digits acc (c # s) =
     (if c = CHR ''_'' then (case s of [] \<Rightarrow> None | d # s' \<Rightarrow>
          (case hex_value d of None \<Rightarrow> None | Some v \<Rightarrow> hex_digits (16 * acc + v) s'))
      else (case hex_value c of None \<Rightarrow> None | Some v \<Rightarrow> hex_digits (16 * acc + v) s))"

definition hex_number :: "string \<Rightarrow> nat option" where
  "hex_number s = (case s of [] \<Rightarrow> None | c # s' \<Rightarrow>
     (case hex_value c of None \<Rightarrow> None | Some v \<Rightarrow> hex_digits v s'))"

definition unprefixed :: "string \<Rightarrow> string" where
  "unprefixed s =
     (if take 2 s \<in> {''0x'', ''0X''}
      then (if take 1 (drop 2 s) = ''_'' then drop 3 s else drop 2 s) else s)"

definition int16 :: "string \<Rightarrow> int option" where
  "int16 s = (let t = py_strip s in
     case t of
       [] \<Rightarrow> None
     | c # u \<Rightarrow>
         if c = CHR ''-'' then map_option (\<lambda>n. - int n) (hex_number (unprefixed u))
         else if c = CHR ''+'' then map_option int (hex_number (unprefixed u))
         else map_option int (hex_number (unprefixed t)))"

definition UUID :: "string \<Rightarrow> uuid pyres" where
  "UUID hex =
     (let h = py_remove ''-'' (strip_chars {CHR ''{'', CHR ''}''}
                (py_remove ''uuid:'' (py_remove ''urn:'' hex)))
      in if length h \<noteq> 32 then Inl (ValueError ''badly formed hexadecimal UUID string'')
         else case int16 h of
           None \<Rightarrow> Inl (ValueError ''invalid literal for int() with base 16'')
         | Some i \<Rightarrow> if 0 \<le> i \<and> i < 2 ^ 128 then Inr (nat i)
                     else Inl (ValueError ''int is out of range (need a 128-bit value)''))"

section \<open>The round trip\<close>

definition is_hex :: "char \<Rightarrow> bool" where
  "is_hex c \<longleftrightarrow> (\<exists>n<16. c = hex_digit n)"

lemma hex_value_digit: "n < 16 \<Longrightarrow> hex_value (hex_digit n) = Some n"
  by (auto simp: hex_value_def hex_digit_def Let_def)

lemma hex_digit_plain: "n < 16 \<Longrightarrow> hex_digit n \<notin> {CHR ''_'', CHR ''-'', CHR ''+'', CHR ''x'', CHR ''X'',
    CHR ''u'', CHR ''{'', CHR ''}''} \<and> \<not> py_space (hex_digit n)"
  by (auto simp: hex_digit_def py_space_def Let_def dest!: arg_cong[of _ _ "of_char :: char \<Rightarrow> nat"]
      split: if_splits)

lemma py_remove_absent: "sub = x # xs \<Longrightarrow> x \<notin> set s \<Longrightarrow> py_remove sub s = s"
  by (induction s) auto

lemma py_remove_char: "py_remove [x] s = filter (\<lambda>c. c \<noteq> x) s"
  by (induction s) auto

lemma strip_chars_absent: "set s \<inter> cs = {} \<Longrightarrow> strip_chars cs s = s"
proof -
  have d: "set s \<inter> cs = {} \<Longrightarrow> dropWhile (\<lambda>c. c \<in> cs) s = s" for s by (cases s) auto
  assume "set s \<inter> cs = {}"
  then show ?thesis using d[of s] d[of "rev s"] by (simp add: strip_chars_def)
qed

lemma hex_pad_map: "hex_pad k n = map (\<lambda>i. hex_digit (n div 16 ^ (k - 1 - i) mod 16)) [0..<k]"
proof (induction k arbitrary: n)
  case (Suc k)
  have "n div 16 div 16 ^ (k - 1 - i) = n div 16 ^ (k - i)" if "i < k" for i
  proof -
    have "k - i = Suc (k - 1 - i)" using that by simp
    then show ?thesis by (simp add: div_mult2_eq)
  qed
  then show ?case by (simp add: Suc)
qed simp

lemma uuid_hex_map: "uuid_hex n = map (\<lambda>i. hex_digit (n div 16 ^ (31 - i) mod 16)) [0..<32]"
  by (simp add: uuid_hex_def hex_pad_map)

lemma uuid_hex_facts: "length (uuid_hex n) = 32" "\<forall>c\<in>set (uuid_hex n). is_hex c"
  by (auto simp: uuid_hex_map is_hex_def intro!: exI[of _ "_ mod 16"])

lemma hex_digits_map:
  "(\<And>d. d \<in> set ds \<Longrightarrow> d < 16) \<Longrightarrow>
     hex_digits acc (map hex_digit ds) = Some (foldl (\<lambda>a d. 16 * a + d) acc ds)"
proof (induction ds arbitrary: acc)
  case (Cons d ds)
  have "d < 16" using Cons.prems by simp
  then show ?case using Cons.IH[of "16 * acc + d"] Cons.prems hex_digit_plain[of d]
    by (simp add: hex_value_digit)
qed simp

lemma foldl_digits:
  "foldl (\<lambda>a i. 16 * a + n div 16 ^ (k - 1 - i) mod 16) 0 [0..<m] = n div 16 ^ (k - m) mod 16 ^ m"
  if "m \<le> k" for n :: nat
  using that
proof (induction m)
  case (Suc m)
  have e: "k - m = Suc (k - 1 - m)" "k - Suc m = k - 1 - m" using Suc.prems by simp_all
  let ?q = "n div 16 ^ (k - 1 - m)"
  have q: "16 * (?q div 16 mod 16 ^ m) + ?q mod 16 = ?q mod 16 ^ Suc m"
    by (simp add: mod_mult2_eq)
  have d: "n div 16 ^ (k - m) = ?q div 16"
    unfolding e(1) power_Suc by (metis div_mult2_eq mult.commute)
  have "foldl (\<lambda>a i. 16 * a + n div 16 ^ (k - 1 - i) mod 16) 0 [0..<Suc m]
      = 16 * (n div 16 ^ (k - m) mod 16 ^ m) + ?q mod 16"
    using Suc.IH Suc.prems by simp
  then show ?case unfolding d q e(2) .
qed simp

lemma hex_number_uuid: "n < 2 ^ 128 \<Longrightarrow> hex_number (uuid_hex n) = Some n"
proof -
  assume n: "n < 2 ^ 128"
  let ?ds = "map (\<lambda>i. n div 16 ^ (31 - i) mod 16) [0..<32]"
  have h: "uuid_hex n = map hex_digit ?ds" by (simp add: uuid_hex_map)
  have b: "d < 16" if "d \<in> set ?ds" for d using that by auto
  have cons: "?ds = hd ?ds # tl ?ds" by (simp add: upt_conv_Cons)
  have hd: "hd ?ds < 16" by (simp add: upt_conv_Cons)
  have "hex_number (uuid_hex n) = hex_digits (hd ?ds) (map hex_digit (tl ?ds))"
    unfolding h by (subst cons) (simp only: hex_number_def list.map list.case hex_value_digit[OF hd] option.case)
  also have "\<dots> = Some (foldl (\<lambda>a d. 16 * a + d) (hd ?ds) (tl ?ds))"
    by (rule hex_digits_map) (rule b, metis cons list.set_intros(2))
  also have "foldl (\<lambda>a d. 16 * a + d) (hd ?ds) (tl ?ds) = foldl (\<lambda>a d. 16 * a + d) 0 ?ds"
    by (subst (3) cons) (simp only: foldl.simps mult_0_right add_0)
  also have "\<dots> = n"
    using foldl_digits[of 32 32 n] n by (simp add: foldl_map)
  finally show ?thesis .
qed

lemma uuid_hex_plain:
  assumes "c \<in> set (uuid_hex n)"
  shows "c \<notin> {CHR ''_'', CHR ''-'', CHR ''+'', CHR ''x'', CHR ''X'', CHR ''u'', CHR ''{'', CHR ''}''}"
    "\<not> py_space c"
  using assms uuid_hex_facts(2)[of n] hex_digit_plain by (fastforce simp: is_hex_def)+

lemma str_uuid_filter: "filter (\<lambda>c. c \<noteq> CHR ''-'') (str_uuid n) = uuid_hex n"
proof -
  let ?h = "uuid_hex n"
  have plain: "filter (\<lambda>c. c \<noteq> CHR ''-'') s = s" if "set s \<subseteq> set ?h" for s
    using that uuid_hex_plain by (intro filter_True) blast
  have sub: "set (take k (drop j ?h)) \<subseteq> set ?h" "set (drop j ?h) \<subseteq> set ?h" "set (take k ?h) \<subseteq> set ?h" for j k
    by (meson order_trans set_drop_subset set_take_subset)+
  have "take 8 ?h @ take 4 (drop 8 ?h) @ take 4 (drop 12 ?h) @ take 4 (drop 16 ?h) @ drop 20 ?h = ?h"
    using take_add[of 8 4 ?h] take_add[of 12 4 ?h] take_add[of 16 4 ?h] append_take_drop_id[of 20 ?h]
    by simp
  then show ?thesis by (simp add: str_uuid_def Let_def plain sub)
qed

lemma str_uuid_set: "set (str_uuid n) \<subseteq> insert (CHR ''-'') (set (uuid_hex n))"
  by (auto simp: str_uuid_def Let_def dest: in_set_takeD in_set_dropD)

lemma int16_uuid: "n < 2 ^ 128 \<Longrightarrow> int16 (uuid_hex n) = Some (int n)"
proof -
  assume n: "n < 2 ^ 128"
  let ?h = "uuid_hex n"
  have strip: "py_strip ?h = ?h"
  proof -
    have d: "set s \<subseteq> set ?h \<Longrightarrow> dropWhile py_space s = s" for s
      using uuid_hex_plain(2) by (cases s) auto
    show ?thesis using d[of ?h] d[of "rev ?h"] by (simp add: py_strip_def)
  qed
  have un: "unprefixed ?h = ?h"
  proof -
    have "take 2 ?h \<notin> {''0x'', ''0X''}"
    proof
      assume "take 2 ?h \<in> {''0x'', ''0X''}"
      then have "CHR ''x'' \<in> set ?h \<or> CHR ''X'' \<in> set ?h"
        by (metis (no_types, lifting) in_set_takeD insertE list.set_intros singletonD)
      then show False using uuid_hex_plain(1) by blast
    qed
    then show ?thesis by (simp add: unprefixed_def)
  qed
  obtain c u where cu: "?h = c # u" using uuid_hex_facts(1)[of n] by (cases ?h) auto
  have "c \<noteq> CHR ''-''" "c \<noteq> CHR ''+''" using uuid_hex_plain(1)[of c n] cu by auto
  then have "int16 ?h = map_option int (hex_number (unprefixed ?h))"
    by (simp only: int16_def strip Let_def) (simp add: cu)
  then show ?thesis by (simp add: un hex_number_uuid[OF n])
qed

lemma UUID_str_uuid: "n < 2 ^ 128 \<Longrightarrow> UUID (str_uuid n) = Inr n"
proof -
  assume n: "n < 2 ^ 128"
  have s: "CHR ''u'' \<notin> set (str_uuid n)" "set (str_uuid n) \<inter> {CHR ''{'', CHR ''}''} = {}"
    using str_uuid_set[of n] uuid_hex_plain(1)[of _ n] by auto
  have "py_remove ''uuid:'' (py_remove ''urn:'' (str_uuid n)) = str_uuid n"
    using s(1) py_remove_absent[of "''urn:''" "CHR ''u''"] py_remove_absent[of "''uuid:''" "CHR ''u''"] by simp
  then have "py_remove ''-'' (strip_chars {CHR ''{'', CHR ''}''}
                (py_remove ''uuid:'' (py_remove ''urn:'' (str_uuid n)))) = uuid_hex n"
    using strip_chars_absent[OF s(2)] py_remove_char str_uuid_filter by simp
  then show ?thesis
    unfolding UUID_def Let_def using n by (simp add: uuid_hex_facts(1) int16_uuid)
qed

end
