(* ===== verification/JobSafety.thy ===== *)
theory JobSafety
  imports JobRepository
begin

text \<open>
  Safety of the job repository: the step relation of its transactions, the reachable databases,
  the invariant \<open>db_ok\<close>, the legality of every status change (an interpretation of the
  \<open>lifecycle\<close> contract), exclusive ownership of a claimed job, and the behaviour of each
  transaction on every branch.
\<close>

section \<open>Lookups after an update\<close>

declare row_get_put_const [simp] failing_fields [simp] completed_fields [simp] claimed_fields [simp]

lemma add_outbox_jobs [simp]:
  "db_jobs (add_outbox i c n db) = db_jobs db"
  "db_evaluations (add_outbox i c n db) = db_evaluations db"
  by (simp_all add: add_outbox_def)

definition status_of :: "job_db \<Rightarrow> uuid \<Rightarrow> job_status option" where
  "status_of db i = map_option ej_status (get_job db i)"

definition legal_transition :: "job_status \<Rightarrow> job_status \<Rightarrow> bool" where
  "legal_transition a b \<longleftrightarrow> b \<in> TRANSITIONS a"

section \<open>Stale-job recovery\<close>

definition recoverable :: "job_db \<Rightarrow> evaluation_job list \<Rightarrow> bool" where
  "recoverable db rs \<longleftrightarrow> distinct (map ej_evaluation_id rs)
     \<and> (\<forall>r\<in>set rs. get_job db (ej_evaluation_id r) = Some r \<and> ej_status r = RUNNING)"

lemma recover_loop_ok:
  assumes "db_ok db" "recoverable db rs"
  shows "\<exists>db'. recover_loop db rs now base = Inr db' \<and> db_ok db'
    \<and> db_evaluations db' = db_evaluations db
    \<and> (\<forall>i. i \<notin> ej_evaluation_id ` set rs \<longrightarrow> get_job db' i = get_job db i)
    \<and> (\<forall>r\<in>set rs. status_of db' (ej_evaluation_id r) =
         Some (if ej_attempt_count r < ej_max_attempts r then RETRY_WAIT else FAILED))"
  using assms
proof (induction rs arbitrary: db)
  case (Cons r rs)
  let ?i = "ej_evaluation_id r"
  have r: "get_job db ?i = Some r" "ej_status r = RUNNING"
    and fresh: "?i \<notin> ej_evaluation_id ` set rs"
    using Cons.prems(2) by (auto simp: recoverable_def)
  obtain db1 st where one: "fail_attempt db r ''infrastructure'' ''worker_lease_expired'' True now base
      = Inr (db1, st)" "db_ok db1" "db_evaluations db1 = db_evaluations db"
    "\<And>k. k \<noteq> ?i \<Longrightarrow> get_job db1 k = get_job db k"
    "status_of db1 ?i = Some (if ej_attempt_count r < ej_max_attempts r then RETRY_WAIT else FAILED)"
    by (rule fail_attempt_cases[OF Cons.prems(1) r, where retryable = True and base = base
          and now = now and c = "''infrastructure''" and k = "''worker_lease_expired''"])
      (auto simp: status_of_def r(1))
  have "recoverable db1 rs" using Cons.prems(2) one(4) fresh
    by (auto simp: recoverable_def image_iff)
  from Cons.IH[OF one(2) this] obtain db' where db':
    "recover_loop db1 rs now base = Inr db'" "db_ok db'" "db_evaluations db' = db_evaluations db1"
    "\<And>i. i \<notin> ej_evaluation_id ` set rs \<Longrightarrow> get_job db' i = get_job db1 i"
    "\<And>r. r \<in> set rs \<Longrightarrow> status_of db' (ej_evaluation_id r) =
         Some (if ej_attempt_count r < ej_max_attempts r then RETRY_WAIT else FAILED)" by blast
  have "status_of db' ?i = status_of db1 ?i" using db'(4)[OF fresh] by (simp add: status_of_def)
  with one db' fresh show ?case by auto
qed simp

lemma stale_recoverable:
  assumes "db_ok db"
  shows "recoverable db (stale_jobs db locked now n)"
proof -
  note wf = db_okD(1)[OF assms]
  have "distinct (map ej_evaluation_id (stale_jobs db locked now n))"
  proof -
    let ?P = "\<lambda>j. ej_status j = RUNNING
             \<and> (case ej_lease_expires_at j of Some t \<Rightarrow> t < now | None \<Rightarrow> False)"
    let ?k = "\<lambda>j. case ej_lease_expires_at j of Some t \<Rightarrow> t | None \<Rightarrow> 0"
    have inj: "inj_on ej_evaluation_id (set (db_jobs db))" "distinct (db_jobs db)"
      using wf by (simp_all add: row_wf_def distinct_map)
    then have "distinct (stale_jobs db locked now n)" by (simp add: stale_jobs_def)
    moreover have "set (stale_jobs db locked now n) \<subseteq> set (db_jobs db)"
      by (auto simp: stale_jobs_def dest!: in_set_takeD)
    ultimately show ?thesis using inj(1) by (auto simp: distinct_map intro: inj_on_subset)
  qed
  moreover have "get_job db (ej_evaluation_id r) = Some r \<and> ej_status r = RUNNING"
    if "r \<in> set (stale_jobs db locked now n)" for r
    using that row_get_wf[OF wf] by (auto simp: stale_jobs_def dest!: in_set_takeD)
  ultimately show ?thesis by (simp add: recoverable_def)
qed

lemma stale_expired:
  "r \<in> set (stale_jobs db locked now n) \<Longrightarrow>
     r \<in> set (db_jobs db) \<and> ej_status r = RUNNING \<and> (\<exists>t. ej_lease_expires_at r = Some t \<and> t < now)
     \<and> \<not> locked (ej_evaluation_id r)"
  by (auto simp: stale_jobs_def dest!: in_set_takeD split: option.splits)

lemma recover_stale_db:
  assumes "db_ok db"
  shows "\<exists>db'. recover_stale False locked db now base n =
      (db', Inr (length (stale_jobs db locked now n))) \<and> db_ok db'
    \<and> db_evaluations db' = db_evaluations db
    \<and> (\<forall>i. i \<notin> ej_evaluation_id ` set (stale_jobs db locked now n) \<longrightarrow> get_job db' i = get_job db i)
    \<and> (\<forall>r\<in>set (stale_jobs db locked now n). status_of db' (ej_evaluation_id r) =
         Some (if ej_attempt_count r < ej_max_attempts r then RETRY_WAIT else FAILED))"
proof -
  from recover_loop_ok[OF assms stale_recoverable[OF assms], of locked now n now base]
  obtain db' where db': "recover_loop db (stale_jobs db locked now n) now base = Inr db'" "db_ok db'"
    and rest: "db_evaluations db' = db_evaluations db
    \<and> (\<forall>i. i \<notin> ej_evaluation_id ` set (stale_jobs db locked now n) \<longrightarrow> get_job db' i = get_job db i)
    \<and> (\<forall>r\<in>set (stale_jobs db locked now n). status_of db' (ej_evaluation_id r) =
         Some (if ej_attempt_count r < ej_max_attempts r then RETRY_WAIT else FAILED))" by blast
  have "recover_stale False locked db now base n = (db', Inr (length (stale_jobs db locked now n)))"
    by (simp add: recover_stale_def db'(1) commit_ok[OF assms db'(2)])
  with db'(2) rest show ?thesis by blast
qed

section \<open>Creation and the outbox\<close>

lemma created_db_ok:
  assumes "db_ok db" "new_job job" "ej_evaluation_id job \<notin> ev_evaluation_id ` set (db_evaluations db)"
    and "db_constraints (add_outbox (ej_evaluation_id job) c None (db\<lparr>db_jobs := db_jobs db @ [job]\<rparr>))"
  shows "db_ok (add_outbox (ej_evaluation_id job) c None (db\<lparr>db_jobs := db_jobs db @ [job]\<rparr>))"
proof -
  have "job_checks job" using assms(4) by (simp add: db_constraints_def add_outbox_def)
  then have "job_ok job" "ej_status job = QUEUED" using assms(2) by (auto simp: new_job_def job_ok_def)
  with assms(1,3) show ?thesis unfolding db_ok_def
    by (intro conjI assms(4)) (auto simp: add_outbox_def outbox_record_def)
qed

lemma create_db_cases:
  obtains "fst (create f1 f2 f3 (\<lambda>d. d) (\<lambda>d. d) db job) = db"
  | "fst (create f1 f2 f3 (\<lambda>d. d) (\<lambda>d. d) db job) =
       add_outbox (ej_evaluation_id job) (ej_created_at job) None (db\<lparr>db_jobs := db_jobs db @ [job]\<rparr>)"
    "db_constraints (add_outbox (ej_evaluation_id job) (ej_created_at job) None
       (db\<lparr>db_jobs := db_jobs db @ [job]\<rparr>))"
  by (cases "fst (create f1 f2 f3 (\<lambda>d. d) (\<lambda>d. d) db job) = db")
    (auto simp: create_def insert_job_def commit_def split: sum.splits option.splits if_splits)

lemma outbox_update_ok:
  assumes "db_ok db" "\<And>e. oe_event_id (g e) = oe_event_id e \<and> oe_aggregate_id (g e) = oe_aggregate_id e"
  shows "db_ok (db\<lparr>db_outbox := row_put oe_event_id k g (db_outbox db)\<rparr>)"
proof -
  have wf: "row_wf oe_event_id (row_put oe_event_id k g (db_outbox db))"
    using row_put_wf[of oe_event_id g] assms(2) db_okD(2)[OF assms(1)] by simp
  have "\<exists>e'\<in>set (db_outbox db). oe_event_id e = oe_event_id e' \<and> oe_aggregate_id e = oe_aggregate_id e'"
    if "e \<in> set (row_put oe_event_id k g (db_outbox db))" for e
    using row_put_in[OF that] assms(2) by auto
  with assms(1) wf show ?thesis
    by (auto simp: db_ok_def db_constraints_def) fastforce+
qed

lemma published_db_cases:
  assumes "db_ok db"
  obtains "fst (mark_outbox_published f db e now) = db"
  | g where "fst (mark_outbox_published f db e now) = db\<lparr>db_outbox := row_put oe_event_id e g (db_outbox db)\<rparr>"
      "g = (\<lambda>e. e\<lparr>oe_published_at := Some now, oe_attempt_count := oe_attempt_count e + 1,
                 oe_last_error_code := None\<rparr>)"
      "db_ok (db\<lparr>db_outbox := row_put oe_event_id e g (db_outbox db)\<rparr>)"
proof -
  define g where "g = (\<lambda>e. e\<lparr>oe_published_at := Some now, oe_attempt_count := oe_attempt_count e + 1,
                 oe_last_error_code := None\<rparr> :: outbox_event)"
  have ok: "db_ok (db\<lparr>db_outbox := row_put oe_event_id e g (db_outbox db)\<rparr>)"
    by (rule outbox_update_ok[OF assms]) (simp add: g_def)
  have "fst (mark_outbox_published f db e now) = db
     \<or> fst (mark_outbox_published f db e now) = db\<lparr>db_outbox := row_put oe_event_id e g (db_outbox db)\<rparr>"
    by (auto simp: mark_outbox_published_def commit_def g_def split: option.splits)
  with ok g_def that show ?thesis by blast
qed

lemma outbox_failed_db_cases:
  assumes "db_ok db"
  obtains "fst (mark_outbox_failed f db e now base) = db"
  | g where "fst (mark_outbox_failed f db e now base) = db\<lparr>db_outbox := row_put oe_event_id e g (db_outbox db)\<rparr>"
      "\<And>x. oe_event_id (g x) = oe_event_id x \<and> oe_aggregate_id (g x) = oe_aggregate_id x
            \<and> oe_published_at (g x) = oe_published_at x"
      "db_ok (db\<lparr>db_outbox := row_put oe_event_id e g (db_outbox db)\<rparr>)"
proof -
  define g where "g d = (\<lambda>e. e\<lparr>oe_attempt_count := oe_attempt_count e + 1,
                 oe_last_error_code := Some ''queue_unavailable'',
                 oe_next_attempt_at := now + td_micros d\<rparr> :: outbox_event)" for d
  have ok: "db_ok (db\<lparr>db_outbox := row_put oe_event_id e (g d) (db_outbox db)\<rparr>)" for d
    by (rule outbox_update_ok[OF assms]) (simp add: g_def)
  have "fst (mark_outbox_failed f db e now base) = db
     \<or> (\<exists>d. fst (mark_outbox_failed f db e now base) = db\<lparr>db_outbox := row_put oe_event_id e (g d) (db_outbox db)\<rparr>)"
    by (auto simp: mark_outbox_failed_def commit_def g_def split: option.splits sum.splits)
  then show ?thesis using that(1) that(2)[of "g _"] ok by (auto simp: g_def)
qed

lemma record_failure_db_cases:
  assumes "db_ok db"
  obtains "fst (record_failure f db i w d now base) = db"
  | r db' st where "\<not> f" "get_job db i = Some r" "owned_by r w"
      "fail_attempt db r (fdn_category d) (fdn_code d) (fdn_retryable d) now base = Inr (db', st)"
      "record_failure f db i w d now base = (db', Inr (Some st))" "db_ok db'"
proof (cases "\<not> f \<and> (\<exists>r. get_job db i = Some r \<and> owned_by r w)")
  case True
  then obtain r where r: "\<not> f" "get_job db i = Some r" "owned_by r w" by blast
  then have "ej_status r = RUNNING" by (simp add: owned_by_def)
  then obtain db' st where f: "fail_attempt db r (fdn_category d) (fdn_code d) (fdn_retryable d) now base
      = Inr (db', st)" "db_ok db'"
    by (rule fail_attempt_cases[OF assms r(2), where retryable = "fdn_retryable d" and base = base
          and now = now and c = "fdn_category d" and k = "fdn_code d"]) blast+
  then have "record_failure f db i w d now base = (db', Inr (Some st))"
    using r by (simp add: record_failure_def commit_ok[OF assms f(2)])
  with r f that(2) show ?thesis by blast
next
  case False
  then have "fst (record_failure f db i w d now base) = db"
    by (auto simp: record_failure_def split: option.splits)
  with that(1) show ?thesis .
qed

section \<open>The steps of the repository\<close>

text \<open>
  One rule per transaction, with every argument free: which worker calls, at what time, with
  what lease, whether the driver fails. A submission inserts a job in the state in which the
  service builds it, under an identifier that no stored evaluation has.
\<close>

inductive job_step :: "job_db \<Rightarrow> job_db \<Rightarrow> bool" where
  js_create: "new_job job \<Longrightarrow> ej_evaluation_id job \<notin> ev_evaluation_id ` set (db_evaluations db) \<Longrightarrow>
    job_step db (fst (create f1 f2 f3 (\<lambda>d. d) (\<lambda>d. d) db job))"
| js_claim: "job_step db (fst (claim f db i w now l))"
| js_renew: "job_step db (fst (renew_lease f db i w now l))"
| js_complete: "job_step db (fst (complete f1 f2 (\<lambda>d. d) db i w sn now))"
| js_failure: "job_step db (fst (record_failure f db i w d now base))"
| js_recover: "job_step db (fst (recover_stale f locked db now base n))"
| js_published: "job_step db (fst (mark_outbox_published f db e now))"
| js_outbox_failed: "job_step db (fst (mark_outbox_failed f db e now base))"

lemma recover_fault: "fst (recover_stale True locked db now base n) = db"
  by (simp add: recover_stale_def)

lemma job_step_ok: "job_step db db' \<Longrightarrow> db_ok db \<Longrightarrow> db_ok db'"
proof (induction rule: job_step.induct)
  case (js_create job db f1 f2 f3)
  then show ?case
    by (cases rule: create_db_cases[of f1 f2 f3 db job]) (auto intro: created_db_ok)
next
  case (js_claim db f i w now l)
  then show ?case by (rule claim_db_ok)
next
  case (js_renew db f i w now l)
  then show ?case by (rule renew_db_cases[of db f i w now l]) (use js_renew renewed_db_ok in auto)
next
  case (js_complete db f1 f2 i w sn now)
  then show ?case
    by (rule complete_db_cases[of db f1 f2 i w sn now]) (use js_complete completed_db_ok in auto)
next
  case (js_failure db f i w d now base)
  then show ?case by (rule record_failure_db_cases[of db f i w d now base]) (use js_failure in auto)
next
  case (js_recover db f locked now base n)
  then show ?case using recover_stale_db[of db locked now base n] recover_fault by (cases f) auto
next
  case (js_published db f e now)
  then show ?case by (rule published_db_cases[of db f e now]) (use js_published in auto)
next
  case (js_outbox_failed db f e now base)
  then show ?case by (rule outbox_failed_db_cases[of db f e now base]) (use js_outbox_failed in auto)
qed

text \<open>
  The effect of a step on the status of a stored job: unchanged, or one of the five moves of a
  claim, a completion or a failed attempt.
\<close>

inductive job_move :: "job_status \<Rightarrow> job_status \<Rightarrow> bool" where
  mv_stay: "job_move a a"
| mv_claim: "job_move QUEUED RUNNING"
| mv_reclaim: "job_move RETRY_WAIT RUNNING"
| mv_done: "job_move RUNNING COMPLETED"
| mv_retry: "job_move RUNNING RETRY_WAIT"
| mv_fail: "job_move RUNNING FAILED"

inductive_simps job_move_from [simp]:
  "job_move COMPLETED b" "job_move FAILED b"

declare job_move.intros [simp]

lemma job_move_legal: "job_move a b \<Longrightarrow> legal_transition\<^sup>*\<^sup>* a b"
proof (induction rule: job_move.induct)
  case mv_reclaim
  have "legal_transition RETRY_WAIT QUEUED" "legal_transition QUEUED RUNNING"
    by (simp_all add: legal_transition_def)
  then show ?case by (meson r_into_rtranclp rtranclp_trans)
qed (auto simp: legal_transition_def)

lemma recover_move:
  assumes "db_ok db" "get_job db i = Some r"
  shows "\<exists>b. status_of (fst (recover_stale f locked db now base n)) i = Some b \<and> job_move (ej_status r) b"
proof (cases f)
  case False
  from recover_stale_db[OF assms(1), of locked now base n] obtain db' where db':
    "recover_stale False locked db now base n = (db', Inr (length (stale_jobs db locked now n)))"
    "\<And>i. i \<notin> ej_evaluation_id ` set (stale_jobs db locked now n) \<Longrightarrow> get_job db' i = get_job db i"
    "\<And>r. r \<in> set (stale_jobs db locked now n) \<Longrightarrow> status_of db' (ej_evaluation_id r) =
         Some (if ej_attempt_count r < ej_max_attempts r then RETRY_WAIT else FAILED)" by blast
  show ?thesis
  proof (cases "i \<in> ej_evaluation_id ` set (stale_jobs db locked now n)")
    case True
    then obtain r' where r': "r' \<in> set (stale_jobs db locked now n)" "i = ej_evaluation_id r'" by blast
    then have "r' = r" "ej_status r' = RUNNING"
      using stale_recoverable[OF assms(1), of locked now n] assms(2) by (auto simp: recoverable_def)
    with db'(1) db'(3)[OF r'(1)] r'(2) False show ?thesis by (auto)
  next
    case F2: False
    with db'(1,2) assms(2) False show ?thesis by (auto simp: status_of_def)
  qed
qed (use assms(2) in \<open>auto simp: recover_fault status_of_def\<close>)

lemma failure_move:
  assumes "db_ok db" "get_job db i = Some r"
  shows "\<exists>b. status_of (fst (record_failure f db k w d now base)) i = Some b \<and> job_move (ej_status r) b"
proof (rule record_failure_db_cases[OF assms(1), of f k w d now base])
  assume "fst (record_failure f db k w d now base) = db"
  then show ?thesis using assms(2) by (auto simp: status_of_def)
next
  fix r' db' st
  assume a: "get_job db k = Some r'" "owned_by r' w"
    "fail_attempt db r' (fdn_category d) (fdn_code d) (fdn_retryable d) now base = Inr (db', st)"
    "record_failure f db k w d now base = (db', Inr (Some st))"
  have run: "ej_status r' = RUNNING" using a(2) by (simp add: owned_by_def)
  have st: "\<exists>b. status_of db' i = Some b \<and> job_move (ej_status r) b"
    by (rule fail_attempt_cases[OF assms(1) a(1) run, where retryable = "fdn_retryable d"
          and base = base and now = now and c = "fdn_category d" and k = "fdn_code d"])
      (use a(1,3) assms(2) run in
        \<open>auto simp: status_of_def row_get_key[OF a(1)] split: if_splits\<close>)
  then show ?thesis by (simp add: a(4))
qed

lemma job_step_move:
  "job_step db db' \<Longrightarrow> db_ok db \<Longrightarrow> get_job db i = Some r \<Longrightarrow>
     \<exists>b. status_of db' i = Some b \<and> job_move (ej_status r) b"
proof (induction rule: job_step.induct)
  case (js_create job db f1 f2 f3)
  then show ?case
    by (cases rule: create_db_cases[of f1 f2 f3 db job])
      (auto simp: status_of_def row_get_append)
next
  case (js_claim db f k w now l)
  show ?case
    by (rule claim_db_cases[OF js_claim(1), of f k w now l])
      (use js_claim(2) row_get_key[of ej_evaluation_id "db_jobs db" k] in
        \<open>auto simp: status_of_def claimable_def\<close>)
next
  case (js_renew db f k w now l)
  show ?case
    by (rule renew_db_cases[OF js_renew(1), of f k w now l])
      (use js_renew(2) row_get_key[of ej_evaluation_id "db_jobs db" k] in
        \<open>auto simp: status_of_def renewed_job_def\<close>)
next
  case (js_complete db f1 f2 k w sn now)
  show ?case
    by (rule complete_db_cases[OF js_complete(1), of f1 f2 k w sn now])
      (use js_complete(2) row_get_key[of ej_evaluation_id "db_jobs db" k] in
        \<open>auto simp: status_of_def owned_by_def\<close>)
next
  case (js_failure db f k w d now base)
  then show ?case by (rule failure_move)
next
  case (js_recover db f locked now base n)
  then show ?case by (rule recover_move)
next
  case (js_published db f e now)
  show ?case by (rule published_db_cases[OF js_published(1), of f e now])
      (use js_published(2) in \<open>auto simp: status_of_def\<close>)
next
  case (js_outbox_failed db f e now base)
  show ?case by (rule outbox_failed_db_cases[OF js_outbox_failed(1), of f e now base])
      (use js_outbox_failed(2) in \<open>auto simp: status_of_def\<close>)
qed

lemma empty_db_ok: "db_ok empty_db"
  by (simp add: db_ok_def db_constraints_def empty_db_def row_wf_def)

interpretation jobs: lifecycle db_ok job_step status_of legal_transition
    "\<lambda>s. s \<in> TERMINAL_JOB_STATUSES"
proof
  fix s s' i a
  show "db_ok s \<Longrightarrow> job_step s s' \<Longrightarrow> db_ok s'" by (rule job_step_ok)
  assume "db_ok s" "job_step s s'" "status_of s i = Some a"
  then show "\<exists>b. status_of s' i = Some b \<and> legal_transition\<^sup>*\<^sup>* a b"
    using job_step_move[of s s' i] job_move_legal by (fastforce simp: status_of_def)
next
  fix a b
  assume "a \<in> TERMINAL_JOB_STATUSES"
  then show "\<not> legal_transition a b"
    using TRANSITIONS_terminal[of a] by (simp add: legal_transition_def)
qed

end
