(* ===== verification/Delivery.thy ===== *)
theory Delivery
  imports UuidText EvaluationService JobSafety
begin

text \<open>
  From the outbox to a worker: the Redis Streams queue of \<^verbatim>\<open>src/app/queue/redis_streams.py\<close>, the
  outbox publisher of \<^verbatim>\<open>src/app/queue/outbox.py\<close>, the evaluation worker of
  \<^verbatim>\<open>src/app/worker/service.py\<close> and the submission service of \<^verbatim>\<open>src/app/jobs/service.py\<close>. The Redis
  client is the record \<open>redis\<close>, an argument of every definition that calls it.
\<close>

section \<open>The queue\<close>

type_synonym stream_entry = "string \<times> (string \<times> string) list"

text \<open>
  The commands of the Redis client on a server state; \<open>None\<close> is a \<^verbatim>\<open>RedisError\<close>. \<^verbatim>\<open>xreadgroup\<close> and
  \<^verbatim>\<open>xautoclaim\<close> are called with a count of one.
\<close>

record 'q redis =
  xadd :: "'q \<Rightarrow> (string \<times> string) list \<Rightarrow> 'q \<times> string option"
  xack :: "'q \<Rightarrow> string \<Rightarrow> 'q \<times> unit option"
  xreadgroup :: "'q \<Rightarrow> string \<Rightarrow> 'q \<times> stream_entry list option"
  xautoclaim :: "'q \<Rightarrow> string \<Rightarrow> nat \<Rightarrow> 'q \<times> stream_entry list option"

datatype queue_error = QueueUnavailableError string

record queue_message =
  qm_message_id :: string
  qm_evaluation_id :: uuid

definition parse_message :: "stream_entry \<Rightarrow> queue_error + queue_message" where
  "parse_message raw =
     (case raw of (message_id, body) \<Rightarrow>
        (case map_of body ''evaluation_id'' of
           None \<Rightarrow> Inl (QueueUnavailableError ''Queue message is malformed.'')
         | Some text \<Rightarrow>
             (case UUID text of
                Inl _ \<Rightarrow> Inl (QueueUnavailableError ''Queue message is malformed.'')
              | Inr evaluation_id \<Rightarrow>
                  Inr \<lparr>qm_message_id = message_id, qm_evaluation_id = evaluation_id\<rparr>)))"

definition enqueue :: "'q redis \<Rightarrow> 'q \<Rightarrow> uuid \<Rightarrow> 'q \<times> (queue_error + string)" where
  "enqueue rd q evaluation_id =
     (case xadd rd q [(''evaluation_id'', str_uuid evaluation_id)] of
        (q', None) \<Rightarrow> (q', Inl (QueueUnavailableError ''Queue is unavailable.''))
      | (q', Some message_id) \<Rightarrow> (q', Inr message_id))"

definition consume :: "'q redis \<Rightarrow> 'q \<Rightarrow> string \<Rightarrow> 'q \<times> (queue_error + queue_message option)" where
  "consume rd q consumer =
     (case xreadgroup rd q consumer of
        (q', None) \<Rightarrow> (q', Inl (QueueUnavailableError ''Queue is unavailable.''))
      | (q', Some []) \<Rightarrow> (q', Inr None)
      | (q', Some (raw # _)) \<Rightarrow> (q', map_sum id Some (parse_message raw)))"

definition reclaim :: "'q redis \<Rightarrow> 'q \<Rightarrow> string \<Rightarrow> nat \<Rightarrow> 'q \<times> (queue_error + queue_message option)" where
  "reclaim rd q consumer minimum_idle_ms =
     (case xautoclaim rd q consumer minimum_idle_ms of
        (q', None) \<Rightarrow> (q', Inl (QueueUnavailableError ''Queue is unavailable.''))
      | (q', Some []) \<Rightarrow> (q', Inr None)
      | (q', Some (raw # _)) \<Rightarrow> (q', map_sum id Some (parse_message raw)))"

definition acknowledge :: "'q redis \<Rightarrow> 'q \<Rightarrow> string \<Rightarrow> 'q \<times> (queue_error + unit)" where
  "acknowledge rd q message_id =
     (case xack rd q message_id of
        (q', None) \<Rightarrow> (q', Inl (QueueUnavailableError ''Queue acknowledgement failed.''))
      | (q', Some _) \<Rightarrow> (q', Inr ()))"

section \<open>The outbox publisher\<close>

text \<open>
  One iteration of \<^verbatim>\<open>dispatch_once\<close>: enqueue, then record the outcome in the outbox at the times
  \<open>now\<close>; \<open>fault\<close> is whether that transaction fails. The result is whether the event was counted as
  published, or the persistence error that ends the loop.
\<close>

definition dispatch_event ::
    "'q redis \<Rightarrow> rat \<Rightarrow> bool \<Rightarrow> time \<Rightarrow> job_db \<Rightarrow> 'q \<Rightarrow> outbox_event
     \<Rightarrow> job_db \<times> 'q \<times> (repo_error + bool)" where
  "dispatch_event rd base fault now db q event =
     (case enqueue rd q (oe_aggregate_id event) of
        (q', Inl _) \<Rightarrow>
          (case mark_outbox_failed fault db (oe_event_id event) now base of
             (db', Inl e) \<Rightarrow> (db', q', Inl e)
           | (db', Inr _) \<Rightarrow> (db', q', Inr False))
      | (q', Inr _) \<Rightarrow>
          (case mark_outbox_published fault db (oe_event_id event) now of
             (db', Inl e) \<Rightarrow> (db', q', Inl e)
           | (db', Inr _) \<Rightarrow> (db', q', Inr True)))"

text \<open>The loop; \<open>faults\<close> and \<open>clocks\<close> give the fault and the clock reading of each iteration.\<close>

fun dispatch_loop ::
    "'q redis \<Rightarrow> rat \<Rightarrow> (nat \<Rightarrow> bool) \<Rightarrow> (nat \<Rightarrow> time) \<Rightarrow> job_db \<Rightarrow> 'q \<Rightarrow> outbox_event list \<Rightarrow> nat
     \<Rightarrow> job_db \<times> 'q \<times> (repo_error + nat)" where
  "dispatch_loop rd base faults clocks db q [] published = (db, q, Inr published)"
| "dispatch_loop rd base faults clocks db q (event # events) published =
     (case dispatch_event rd base (faults (length events)) (clocks (length events)) db q event of
        (db', q', Inl e) \<Rightarrow> (db', q', Inl e)
      | (db', q', Inr b) \<Rightarrow>
          dispatch_loop rd base faults clocks db' q' events (if b then published + 1 else published))"

definition dispatch_once ::
    "'q redis \<Rightarrow> rat \<Rightarrow> bool \<Rightarrow> (nat \<Rightarrow> bool) \<Rightarrow> time \<Rightarrow> (nat \<Rightarrow> time) \<Rightarrow> job_db \<Rightarrow> 'q \<Rightarrow> nat
     \<Rightarrow> job_db \<times> 'q \<times> (repo_error + nat)" where
  "dispatch_once rd base fault faults now clocks db q limit =
     (case ready_outbox fault db now limit of
        Inl e \<Rightarrow> (db, q, Inl e)
      | Inr events \<Rightarrow> dispatch_loop rd base faults clocks db q events 0)"

section \<open>The worker\<close>

record worker =
  wk_worker_id :: string
  wk_service :: evaluation_service
  wk_lease_seconds :: rat
  wk_retry_base :: rat

text \<open>Dictionaries are equal when they have the same keys with the same values, in any order.\<close>

definition dict_eq :: "(string, string) odict \<Rightarrow> (string, string) odict \<Rightarrow> bool" where
  "dict_eq d d' \<longleftrightarrow> (\<forall>k\<in>set (map fst d) \<union> set (map fst d'). map_of d k = map_of d' k)"

lemma dict_eq_refl [simp]: "dict_eq d d"
  by (simp add: dict_eq_def)

text \<open>The validated constructor \<^verbatim>\<open>EvaluationRequest(...)\<close>.\<close>

definition EvaluationRequest :: "string \<Rightarrow> string \<Rightarrow> string \<Rightarrow> evaluation_request pyres" where
  "EvaluationRequest task_id language code =
     (case normalize_identifier task_id of
        Inl e \<Rightarrow> Inl e
      | Inr t \<Rightarrow>
          (case normalize_identifier language of
             Inl e \<Rightarrow> Inl e
           | Inr l \<Rightarrow>
               (case reject_blank_code code of
                  Inl e \<Rightarrow> Inl e
                | Inr c \<Rightarrow> Inr \<lparr>rq_task_id = t, rq_language = l, rq_code = c\<rparr>)))"

fun exception_of :: "eval_error \<Rightarrow> worker_exception" where
  "exception_of (EvaluationInfrastructureError message) = EvaluationInfrastructure message"
| "exception_of _ = OtherException"

definition validated_request ::
    "evaluation_service \<Rightarrow> evaluation_job \<Rightarrow> worker_exception + evaluation_request" where
  "validated_request es job =
     (let (source_hash, source_size) = source_identity (es_sha es) (ej_source_text job) in
      if source_hash \<noteq> ej_source_hash job \<or> source_size \<noteq> ej_source_size job
      then Inl (EvaluationIntegrityError ''source_identity_mismatch'')
      else case EvaluationRequest (ej_task_id job) (ej_language job) (ej_source_text job) of
        Inl _ \<Rightarrow> Inl OtherException
      | Inr request \<Rightarrow>
          (case prepare_request (es_engine es) request None of
             Inl e \<Rightarrow> Inl (exception_of e)
           | Inr task \<Rightarrow>
               (let current_tests = es_tests_fingerprint es task;
                    current_task = es_task_fingerprint es task current_tests;
                    (execution, analyzers, scoring_policy, application_version) = runtime_identity es
                in if ts_version (rt_specification task) \<noteq> ej_task_version job
                   then Inl (EvaluationIntegrityError ''task_version_mismatch'')
                   else if current_tests \<noteq> ej_tests_fingerprint job
                   then Inl (EvaluationIntegrityError ''tests_fingerprint_mismatch'')
                   else if current_task \<noteq> ej_task_fingerprint job
                   then Inl (EvaluationIntegrityError ''task_fingerprint_mismatch'')
                   else if \<not> dict_eq analyzers (ej_expected_analyzer_versions job)
                   then Inl (EvaluationIntegrityError ''analyzer_versions_mismatch'')
                   else if scoring_policy \<noteq> ej_expected_scoring_policy_version job
                   then Inl (EvaluationIntegrityError ''scoring_policy_version_mismatch'')
                   else if application_version \<noteq> ej_expected_codejudge_version job
                   then Inl (EvaluationIntegrityError ''codejudge_version_mismatch'')
                   else if execution \<noteq> ej_expected_execution job
                   then Inl (EvaluationIntegrityError ''execution_environment_mismatch'')
                   else Inr request)))"

text \<open>The validation and evaluation of a claimed job; \<open>completed_at\<close> is when it ends.\<close>

definition evaluate_job :: "evaluation_service \<Rightarrow> evaluation_job \<Rightarrow> time \<Rightarrow> worker_exception + evaluation_snapshot" where
  "evaluate_job es claimed completed_at =
     (case validated_request es claimed of
        Inl e \<Rightarrow> Inl e
      | Inr request \<Rightarrow>
          map_sum exception_of id
            (evaluate_snapshot es request (ej_evaluation_id claimed) (ej_created_at claimed)
               completed_at (Some (ej_expected_ai_identity claimed)) None))"

text \<open>
  \<^verbatim>\<open>process_message\<close> in its two parts. The first ends when the job is claimed or the message is
  disposed of; the second runs the evaluation and records its outcome. Between them other
  processes act on the database and the queue, and the worker renews its lease.
\<close>

datatype start_result =
    Ignored | Acknowledged | StartRaised | Claimed evaluation_job

definition start_message ::
    "'q redis \<Rightarrow> worker \<Rightarrow> bool \<Rightarrow> bool \<Rightarrow> job_db \<Rightarrow> 'q \<Rightarrow> queue_message \<Rightarrow> time
     \<Rightarrow> job_db \<times> 'q \<times> start_result" where
  "start_message rd wk f1 f2 db q message now =
     (let ack = (\<lambda>db. case acknowledge rd q (qm_message_id message) of
                   (q', Inl _) \<Rightarrow> (db, q', StartRaised)
                 | (q', Inr _) \<Rightarrow> (db, q', Acknowledged))
      in case get f1 db (qm_evaluation_id message) of
           Inl _ \<Rightarrow> (db, q, Ignored)
         | Inr None \<Rightarrow> ack db
         | Inr (Some job) \<Rightarrow>
             if ej_status job \<in> TERMINAL_JOB_STATUSES then ack db
             else if ej_status job \<notin> {QUEUED, RETRY_WAIT} then ack db
             else case claim f2 db (ej_evaluation_id job) (wk_worker_id wk) now (wk_lease_seconds wk) of
                 (db', Inl (PersistenceFailure _)) \<Rightarrow> (db', q, Ignored)
               | (db', Inl _) \<Rightarrow> (db', q, StartRaised)
               | (db', Inr None) \<Rightarrow> ack db'
               | (db', Inr (Some claimed)) \<Rightarrow> (db', q, Claimed claimed))"

text \<open>
  The completion or failure transition, each with a reading of the clock of its own: whether one was recorded, or \<open>Inl\<close> when an exception of
  \<^verbatim>\<open>record_failure\<close> leaves \<^verbatim>\<open>process_message\<close>.
\<close>

definition fail_job ::
    "worker \<Rightarrow> bool \<Rightarrow> job_db \<Rightarrow> evaluation_job \<Rightarrow> worker_exception \<Rightarrow> time \<Rightarrow> job_db \<times> (repo_error + bool)" where
  "fail_job wk fault db claimed error now =
     (case record_failure fault db (ej_evaluation_id claimed) (wk_worker_id wk) (classify_failure error)
             now (wk_retry_base wk) of
        (db', Inl e) \<Rightarrow> (db', Inl e)
      | (db', Inr status) \<Rightarrow> (db', Inr (status \<noteq> None)))"

definition record_outcome ::
    "worker \<Rightarrow> bool \<Rightarrow> bool \<Rightarrow> bool \<Rightarrow> job_db \<Rightarrow> evaluation_job \<Rightarrow> (worker_exception + evaluation_snapshot)
     \<Rightarrow> time \<Rightarrow> time \<Rightarrow> job_db \<times> (repo_error + bool)" where
  "record_outcome wk f1 f2 f3 db claimed evaluated completed_at failed_at =
     (case evaluated of
        Inl PersistenceException \<Rightarrow> (db, Inr False)
      | Inl error \<Rightarrow> fail_job wk f3 db claimed error failed_at
      | Inr snapshot \<Rightarrow>
          (case complete f1 f2 (\<lambda>d. d) db (ej_evaluation_id claimed) (wk_worker_id wk) snapshot completed_at of
             (db', Inr recorded) \<Rightarrow> (db', Inr recorded)
           | (db', Inl (PersistenceFailure _)) \<Rightarrow> (db', Inr False)
           | (db', Inl _) \<Rightarrow> fail_job wk f3 db' claimed OtherException failed_at))"

definition finish_message ::
    "'q redis \<Rightarrow> worker \<Rightarrow> bool \<Rightarrow> bool \<Rightarrow> bool \<Rightarrow> job_db \<Rightarrow> 'q \<Rightarrow> queue_message \<Rightarrow> evaluation_job \<Rightarrow> time
     \<Rightarrow> time \<Rightarrow> time \<Rightarrow> job_db \<times> 'q" where
  "finish_message rd wk f1 f2 f3 db q message claimed evaluated_at completed_at failed_at =
     (case record_outcome wk f1 f2 f3 db claimed (evaluate_job (wk_service wk) claimed evaluated_at) completed_at failed_at of
        (db', Inr True) \<Rightarrow> (db', fst (acknowledge rd q (qm_message_id message)))
      | (db', _) \<Rightarrow> (db', q))"

definition process_message ::
    "'q redis \<Rightarrow> worker \<Rightarrow> bool \<times> bool \<times> bool \<times> bool \<times> bool \<Rightarrow> (job_db \<times> 'q \<Rightarrow> job_db \<times> 'q) \<Rightarrow> job_db \<Rightarrow> 'q
     \<Rightarrow> queue_message \<Rightarrow> time \<Rightarrow> time \<times> time \<times> time \<Rightarrow> job_db \<times> 'q" where
  "process_message rd wk faults env db q message now later =
     (let (f1, f2, f3, f4, f5) = faults; (evaluated_at, completed_at, failed_at) = later in
      case start_message rd wk f1 f2 db q message now of
        (db', q', Claimed claimed) \<Rightarrow>
          (let (db'', q'') = env (db', q')
           in finish_message rd wk f3 f4 f5 db'' q'' message claimed evaluated_at completed_at failed_at)
      | (db', q', _) \<Rightarrow> (db', q'))"

section \<open>The submission service\<close>

definition new_evaluation_job ::
    "evaluation_service \<Rightarrow> evaluation_request \<Rightarrow> registered_task \<Rightarrow> string option \<Rightarrow> nat \<Rightarrow> uuid \<Rightarrow> time
     \<Rightarrow> evaluation_job" where
  "new_evaluation_job es request task idempotency_key max_attempts new_id now =
     (let (source_hash, source_size) = source_identity (es_sha es) (rq_code request);
          tests_hash = es_tests_fingerprint es task;
          (execution, analyzers, scoring_policy, application_version) = runtime_identity es
      in \<lparr>ej_evaluation_id = new_id, ej_created_at = now, ej_updated_at = now,
          ej_task_id = ts_id (rt_specification task), ej_task_version = ts_version (rt_specification task),
          ej_task_fingerprint = es_task_fingerprint es task tests_hash,
          ej_tests_fingerprint = tests_hash, ej_language = rq_language request,
          ej_source_text = rq_code request, ej_source_hash = source_hash, ej_source_size = source_size,
          ej_request_fingerprint = request_fingerprint (es_sha es) (es_repr es) request,
          ej_idempotency_key = idempotency_key, ej_status = QUEUED, ej_attempt_count = 0,
          ej_max_attempts = max_attempts, ej_queued_at = now, ej_started_at = None,
          ej_completed_at = None, ej_failed_at = None, ej_next_attempt_at = None, ej_worker_id = None,
          ej_lease_expires_at = None, ej_last_error_category = None, ej_last_error_code = None,
          ej_snapshot_created = False, ej_expected_execution = execution,
          ej_expected_analyzer_versions = analyzers,
          ej_expected_scoring_policy_version = scoring_policy,
          ej_expected_codejudge_version = application_version,
          ej_expected_ai_identity = service_ai_identity es task\<rparr>)"

datatype service_error = EvalFailure eval_error | RepoFailure repo_error

definition submit ::
    "evaluation_service \<Rightarrow> nat \<Rightarrow> bool \<times> bool \<times> bool \<Rightarrow> job_db \<Rightarrow> evaluation_request \<Rightarrow> string option \<Rightarrow> uuid \<Rightarrow> time
     \<Rightarrow> job_db \<times> (service_error + evaluation_accepted)" where
  "submit es max_attempts faults db request idempotency_key new_id now =
     (case prepare_request (es_engine es) request None of
        Inl e \<Rightarrow> (db, Inl (EvalFailure e))
      | Inr task \<Rightarrow>
          (let (f1, f2, f3) = faults;
               job = new_evaluation_job es request task idempotency_key max_attempts new_id now
           in case create f1 f2 f3 (\<lambda>d. d) (\<lambda>d. d) db job of
                (db', Inl (PersistenceFailure _)) \<Rightarrow>
                  (db', Inl (EvalFailure (EvaluationInfrastructureError
                     ''Evaluation job persistence is unavailable.'')))
              | (db', Inl e) \<Rightarrow> (db', Inl (RepoFailure e))
              | (db', Inr (stored, _)) \<Rightarrow>
                  (db', Inr \<lparr>ac_evaluation_id = ej_evaluation_id stored, ac_status = ej_status stored,
                             ac_created_at = ej_created_at stored,
                             ac_status_url = ''/api/v1/evaluations/'' @ str_uuid (ej_evaluation_id stored)\<rparr>)))"

datatype job_view = Detail evaluation_detail | Pending evaluation_job_detail

definition get_job_view ::
    "bool \<Rightarrow> bool \<Rightarrow> job_db \<Rightarrow> uuid \<Rightarrow> eval_error + job_view option" where
  "get_job_view f1 f2 db evaluation_id =
     (let unavailable = EvaluationInfrastructureError ''Evaluation job persistence is unavailable.'' in
      case get f1 db evaluation_id of
        Inl _ \<Rightarrow> Inl unavailable
      | Inr None \<Rightarrow>
          (case get_evaluation f2 db evaluation_id of
             Inl _ \<Rightarrow> Inl unavailable
           | Inr legacy \<Rightarrow> Inr (map_option (\<lambda>s. Detail (from_snapshot s)) legacy))
      | Inr (Some job) \<Rightarrow>
          if ej_status job = COMPLETED
          then (case get_evaluation f2 db evaluation_id of
                  Inl _ \<Rightarrow> Inl unavailable
                | Inr None \<Rightarrow> Inl (EvaluationInfrastructureError
                    ''Completed evaluation snapshot is unavailable.'')
                | Inr (Some snapshot) \<Rightarrow> Inr (Some (Detail (from_snapshot snapshot))))
          else Inr (Some (Pending (from_job job))))"

end
