(* ===== verification/JobProperties.thy ===== *)
theory JobProperties
  imports JobSafety
begin

text \<open>
  What the job repository promises its clients (the API service, the worker, the recovery loop and
  the outbox publisher), as properties of the databases that the transactions reach from the empty
  one: the invariant, the absorbing terminal statuses, exclusive ownership, one stored evaluation
  per completed job, idempotent creation and the scope of stale-lease recovery.
\<close>

section \<open>Helper facts\<close>

lemma reachable_ok: "job_step\<^sup>*\<^sup>* empty_db db \<Longrightarrow> db_ok db"
  using jobs.inv_run empty_db_ok by blast

lemma recover_evaluations:
  "db_ok db \<Longrightarrow> db_evaluations (fst (recover_stale f locked db now base n)) = db_evaluations db"
  using recover_stale_db[of db locked now base n] recover_fault by (cases f) auto

text \<open>Stored evaluations are append-only.\<close>

lemma job_step_evaluations:
  "job_step db db' \<Longrightarrow> db_ok db \<Longrightarrow> \<exists>xs. db_evaluations db' = db_evaluations db @ xs"
proof (induction rule: job_step.induct)
  case (js_create job db f1 f2 f3)
  then show ?case by (cases rule: create_db_cases[of f1 f2 f3 db job]) auto
next
  case (js_claim db f i w now l)
  then show ?case by (rule claim_db_cases[of db f i w now l]) auto
next
  case (js_renew db f i w now l)
  then show ?case by (rule renew_db_cases[of db f i w now l]) auto
next
  case (js_complete db f1 f2 i w sn now)
  then show ?case by (rule complete_db_cases[of db f1 f2 i w sn now]) auto
next
  case (js_failure db f i w d now base)
  show ?case
  proof (rule record_failure_db_cases[OF js_failure, of f i w d now base])
    fix r db' st
    assume a: "get_job db i = Some r" "owned_by r w"
      "fail_attempt db r (fdn_category d) (fdn_code d) (fdn_retryable d) now base = Inr (db', st)"
      "record_failure f db i w d now base = (db', Inr (Some st))"
    have run: "ej_status r = RUNNING" using a(2) by (simp add: owned_by_def)
    show ?thesis
      by (rule fail_attempt_cases[OF js_failure a(1) run, where retryable = "fdn_retryable d"
            and base = base and now = now and c = "fdn_category d" and k = "fdn_code d"])
        (use a(3,4) in auto)
  qed simp
next
  case (js_recover db f locked now base n)
  then show ?case by (simp add: recover_evaluations)
next
  case (js_published db f e now)
  then show ?case by (rule published_db_cases[of db f e now]) auto
next
  case (js_outbox_failed db f e now base)
  then show ?case by (rule outbox_failed_db_cases[of db f e now base]) auto
qed

lemma job_run_evaluations:
  "job_step\<^sup>*\<^sup>* db db' \<Longrightarrow> db_ok db \<Longrightarrow> \<exists>xs. db_evaluations db' = db_evaluations db @ xs"
proof (induction rule: rtranclp_induct)
  case (step a b)
  then obtain xs where "db_evaluations a = db_evaluations db @ xs" by blast
  with job_step_evaluations[OF step.hyps(2) jobs.inv_run[OF step.hyps(1) step.prems]]
  show ?case by auto
qed simp

lemma evaluation_unique:
  assumes "db_ok db" "row \<in> set (db_evaluations db)"
  shows "filter (\<lambda>e. ev_evaluation_id e = ev_evaluation_id row) (db_evaluations db) = [row]"
  using db_okD(3)[OF assms(1)] assms(2)
proof (induction "db_evaluations db" arbitrary: db)
  case (Cons e es)
  have wf: "row_wf ev_evaluation_id (db_evaluations (db\<lparr>db_evaluations := es\<rparr>))"
    using Cons.prems(1) Cons.hyps(2)[symmetric] by (simp add: row_wf_def)
  show ?case
  proof (cases "row = e")
    case True
    have "filter (\<lambda>x. ev_evaluation_id x = ev_evaluation_id e) es = []"
      using Cons.prems(1) Cons.hyps(2)[symmetric] by (auto simp: row_wf_def filter_empty_conv rev_image_eqI)
    then show ?thesis using True Cons.hyps(2)[symmetric] by simp
  next
    case False
    then have "row \<in> set es" using Cons.prems(2) Cons.hyps(2)[symmetric] by simp
    moreover then have "ev_evaluation_id e \<noteq> ev_evaluation_id row"
      using Cons.prems(1) Cons.hyps(2)[symmetric] by (auto simp: row_wf_def rev_image_eqI)
    ultimately show ?thesis
      using Cons.hyps(1)[of "db\<lparr>db_evaluations := es\<rparr>"] wf Cons.hyps(2)[symmetric] by simp
  qed
qed simp

lemma complete_result:
  assumes "db_ok db" "get_job db i = Some r" "owned_by r w" "sn_evaluation_id sn = i"
    and "evaluation_checks (evaluation_record_from_snapshot sn)"
  shows "complete False f2 env db i w sn now =
     (db\<lparr>db_jobs := put_job (completed_job r now) (db_jobs db),
         db_evaluations := db_evaluations db @ [evaluation_record_from_snapshot sn]\<rparr>, Inr True)"
  using assms(2-4)
  by (simp add: complete_def owned_by_def commit_ok[OF assms(1) completed_db_ok[OF assms]]
      del: completed_fields)

lemma stored_id: "ev_evaluation_id (evaluation_record_from_snapshot sn) = sn_evaluation_id sn"
  by (simp add: evaluation_record_from_snapshot_def Let_def)

lemma keyed_job:
  assumes "db_ok db" "j \<in> set (db_jobs db)" "ej_idempotency_key j = Some key"
  shows "find (\<lambda>j. ej_idempotency_key j = Some key) (db_jobs db) = Some j"
proof -
  have d: "distinct (opt_filter ej_idempotency_key (db_jobs db))"
    using assms(1) by (simp add: db_ok_def db_constraints_def)
  from d assms(2,3) show ?thesis
  proof (induction "db_jobs db" arbitrary: db)
    case (Cons x xs)
    then show ?case
      using Cons.hyps(1)[of "db\<lparr>db_jobs := xs\<rparr>"] Cons.hyps(2)[symmetric]
      by (auto simp: set_opt_filter split: option.splits)
  qed simp
qed

lemma keyed_job_rejects_insert:
  assumes "db_ok db" "j \<in> set (db_jobs db)" "ej_idempotency_key j = Some key"
    "ej_idempotency_key job = Some key"
  shows "insert_job False db job = (db, Inl unavailable)"
proof -
  have "key \<in> set (opt_filter ej_idempotency_key (db_jobs db))"
    using assms(2,3) by (auto simp: set_opt_filter)
  then have "\<not> distinct (opt_filter ej_idempotency_key (db_jobs db @ [job]))"
    using assms(4) by (simp add: opt_filter_append)
  then show ?thesis
    by (auto simp: insert_job_def commit_def db_constraints_def add_outbox_def)
qed

section \<open>A concrete history\<close>

definition ex_ai :: ai_identity where
  "ex_ai = \<lparr>ii_enabled = False, ii_policy_version = ''1'', ii_judge_prompt_version = ''1'',
     ii_judge_prompt_hash = ''h'', ii_adversarial_prompt_version = ''1'',
     ii_adversarial_prompt_hash = ''h'', ii_provider_id = None, ii_judge_models = [],
     ii_adversarial_model = None, ii_temperature = 0, ii_top_p = 1, ii_max_output_tokens = 1,
     ii_reference_fingerprint = None\<rparr>"

definition ex_environment :: execution_environment where
  "ex_environment = \<lparr>ex_backend = ''docker'', ex_sandbox_image = None, ex_sandbox_image_id = None\<rparr>"

definition ex_hash :: string where
  "ex_hash = replicate 64 (CHR ''a'')"

definition ex_other_hash :: string where
  "ex_other_hash = replicate 64 (CHR ''b'')"

definition ex_job :: evaluation_job where
  "ex_job = \<lparr>ej_evaluation_id = 7, ej_created_at = 0, ej_updated_at = 0, ej_task_id = ''lru-cache'',
     ej_task_version = ''1'', ej_task_fingerprint = ex_hash, ej_tests_fingerprint = ex_hash,
     ej_language = ''python'', ej_source_text = ''x'', ej_source_hash = ex_hash, ej_source_size = 1,
     ej_request_fingerprint = ex_hash, ej_idempotency_key = Some ''k'', ej_status = QUEUED,
     ej_attempt_count = 0, ej_max_attempts = 2, ej_queued_at = 0, ej_started_at = None,
     ej_completed_at = None, ej_failed_at = None, ej_next_attempt_at = None, ej_worker_id = None,
     ej_lease_expires_at = None, ej_last_error_category = None, ej_last_error_code = None,
     ej_snapshot_created = False, ej_expected_execution = ex_environment,
     ej_expected_analyzer_versions = [], ej_expected_scoring_policy_version = ''1'',
     ej_expected_codejudge_version = ''0.1'', ej_expected_ai_identity = ex_ai\<rparr>"

definition ex_snapshot :: evaluation_snapshot where
  "ex_snapshot = \<lparr>sn_evaluation_id = 7, sn_created_at = 0, sn_completed_at = 5,
     sn_duration_seconds = 1, sn_task_id = ''lru-cache'', sn_task_version = ''1'',
     sn_task_fingerprint = ex_hash, sn_tests_fingerprint = ex_hash, sn_language = ''python'',
     sn_source_text = ''x'', sn_source_hash = ex_hash, sn_source_size = 1, sn_status = EvCompleted,
     sn_execution = ex_environment, sn_codejudge_version = ''0.1'', sn_scoring_policy_version = ''1'',
     sn_analyzer_versions = [], sn_tests = \<lparr>tr_passed = 8, tr_failed = 0, tr_total = 8,
       tr_duration_seconds = 1, tr_timed_out = False\<rparr>, sn_oom_killed = False,
     sn_score_breakdown = \<lparr>sb_correctness = 100, sb_code_quality = Some 100, sb_type_safety = Some 100,
       sb_security = Some 100, sb_complexity = Some 100\<rparr>, sn_final_score = 100, sn_complexity = None,
     sn_execution_findings = [], sn_analysis_findings = [], sn_reproducibility_fingerprint = ex_hash,
     sn_ai_assessment = None\<rparr>"

definition ex_created :: job_db where
  "ex_created = fst (create False False False (\<lambda>d. d) (\<lambda>d. d) empty_db ex_job)"

definition ex_running :: job_db where
  "ex_running = fst (claim False ex_created 7 ''w1'' 10 60)"

definition ex_completed :: job_db where
  "ex_completed = fst (complete False False (\<lambda>d. d) ex_running 7 ''w1'' ex_snapshot 20)"

lemma ex_new_job: "new_job ex_job" "ej_evaluation_id ex_job \<notin> ev_evaluation_id ` set (db_evaluations empty_db)"
  by (simp_all add: new_job_def ex_job_def empty_db_def)

lemma ex_history:
  "job_step\<^sup>*\<^sup>* empty_db ex_created" "job_step\<^sup>*\<^sup>* empty_db ex_running"
  "job_step\<^sup>*\<^sup>* ex_running ex_completed" "job_step\<^sup>*\<^sup>* empty_db ex_completed"
proof -
  have 1: "job_step empty_db ex_created"
    unfolding ex_created_def by (rule js_create[OF ex_new_job])
  have 2: "job_step ex_created ex_running" unfolding ex_running_def by (rule js_claim)
  have 3: "job_step ex_running ex_completed" unfolding ex_completed_def by (rule js_complete)
  show "job_step\<^sup>*\<^sup>* empty_db ex_created" using 1 by simp
  show r: "job_step\<^sup>*\<^sup>* empty_db ex_running" using 1 2 by (simp add: converse_rtranclp_into_rtranclp)
  show c: "job_step\<^sup>*\<^sup>* ex_running ex_completed" using 3 by simp
  show "job_step\<^sup>*\<^sup>* empty_db ex_completed" using r c by simp
qed

lemma ex_states:
  "status_of ex_created 7 = Some QUEUED" "status_of ex_running 7 = Some RUNNING"
  "status_of ex_completed 7 = Some COMPLETED"
  "map_option ej_worker_id (get_job ex_running 7) = Some (Some ''w1'')"
  "ej_request_fingerprint ex_job = ex_hash" "ej_idempotency_key ex_job = Some ''k''" "job_checks ex_job"
  by code_simp+

section \<open>Properties\<close>

text \<open>
  C4: Every database that the transactions of the repository reach from the empty one, in any
  order, with any worker, clock, lease and driver fault, satisfies the declared constraints and the
  job invariant: attempts are bounded, a job has an owner and a lease exactly while it runs, a retry
  time exactly while it waits, and a stored evaluation exactly when it is completed.
\<close>
theorem reachable_db_ok:
  "job_step\<^sup>*\<^sup>* empty_db db \<Longrightarrow> db_ok db"
  by (rule reachable_ok)

theorem reachable_db_ok_witness: "db_ok ex_completed \<and> status_of ex_completed 7 = Some COMPLETED"
  using reachable_db_ok[OF ex_history(4)] ex_states(3) by simp

text \<open>
  A job that is COMPLETED or FAILED keeps that status in every continuation of the history.
\<close>
theorem terminal_job_absorbing:
  assumes "job_step\<^sup>*\<^sup>* empty_db db" "status_of db i = Some s" "s \<in> TERMINAL_JOB_STATUSES"
    and "job_step\<^sup>*\<^sup>* db db'"
  shows "status_of db' i = Some s"
  using jobs.terminal_absorbing[OF assms(4) reachable_ok[OF assms(1)] assms(2,3)] .

text \<open>
  A stored job is never lost, and whatever the transactions do to it, its status moves along
  the declared transitions only.
\<close>
theorem job_history_legal:
  assumes "job_step\<^sup>*\<^sup>* empty_db db" "status_of db i = Some a" "job_step\<^sup>*\<^sup>* db db'"
  shows "\<exists>b. status_of db' i = Some b \<and> legal_transition\<^sup>*\<^sup>* a b"
  using jobs.run_legal[OF assms(3) reachable_ok[OF assms(1)] assms(2)] .

theorem job_history_legal_witness: "legal_transition\<^sup>*\<^sup>* RUNNING COMPLETED"
  using job_history_legal[OF ex_history(2) ex_states(2) ex_history(3)] ex_states(3) by simp

text \<open>
  A claim takes a job exactly when it is queued, or waits for a retry that is due; it then gives
  it to the caller with one more attempt and a lease of the requested length, and it changes
  nothing otherwise.
\<close>
theorem claim_behaviour:
  assumes "job_step\<^sup>*\<^sup>* empty_db db"
  shows "claim False db i w now l =
    (case get_job db i of
       None \<Rightarrow> (db, Inr None)
     | Some r \<Rightarrow>
         if ej_status r = QUEUED
            \<or> ej_status r = RETRY_WAIT \<and> (\<exists>t. ej_next_attempt_at r = Some t \<and> t \<le> now)
         then let r' = r\<lparr>ej_status := RUNNING, ej_attempt_count := ej_attempt_count r + 1,
                  ej_queued_at := (if ej_status r = QUEUED then ej_queued_at r else now),
                  ej_started_at := Some now, ej_updated_at := now, ej_worker_id := Some w,
                  ej_lease_expires_at := Some (now + td_micros l), ej_next_attempt_at := None\<rparr>
              in (db\<lparr>db_jobs := put_job r' (db_jobs db)\<rparr>, Inr (Some r'))
         else (db, Inr None))"
proof (cases "get_job db i")
  case (Some r)
  show ?thesis
  proof (cases "claimable r now")
    case True
    have "claimed_job (requeued r now) w now l = r\<lparr>ej_status := RUNNING,
       ej_attempt_count := ej_attempt_count r + 1,
       ej_queued_at := (if ej_status r = QUEUED then ej_queued_at r else now),
       ej_started_at := Some now, ej_updated_at := now, ej_worker_id := Some w,
       ej_lease_expires_at := Some (now + td_micros l), ej_next_attempt_at := None\<rparr>"
      using True by (auto simp: claimed_job_def requeued_def claimable_def)
    then show ?thesis using claim_taken[OF reachable_ok[OF assms] Some True, of w l] Some True
      by (simp add: claimable_def Let_def)
  next
    case False
    then show ?thesis using claim_refused[of db i now w l] Some by (auto simp: claimable_def)
  qed
qed (simp add: claim_def)

theorem claim_behaviour_witness: "snd (claim False ex_running 7 ''w2'' 11 60) = Inr None"
proof -
  obtain r where r: "get_job ex_running 7 = Some r" "ej_status r = RUNNING"
    using ex_states(2) by (auto simp: status_of_def)
  show ?thesis using claim_behaviour[OF ex_history(2), of 7 "''w2''" 11 60] r by simp
qed

text \<open>
  C6: While one worker owns a running job, no call of another worker has any effect on the
  database: it can neither claim, nor renew, nor complete, nor fail the job.
\<close>
theorem exclusive_ownership:
  assumes "job_step\<^sup>*\<^sup>* empty_db db" "get_job db i = Some r" "ej_status r = RUNNING"
    and "ej_worker_id r = Some w" "w' \<noteq> w" "sn_evaluation_id sn = i"
  shows "claim False db i w' now l = (db, Inr None)
    \<and> renew_lease False db i w' now l = (db, Inr False)
    \<and> complete False f env db i w' sn now = (db, Inr False)
    \<and> record_failure False db i w' d now base = (db, Inr None)"
proof (intro conjI)
  show "claim False db i w' now l = (db, Inr None)"
    by (rule claim_refused) (use assms(2,3) in \<open>simp add: claimable_def\<close>)
  show "renew_lease False db i w' now l = (db, Inr False)"
    using assms by (simp add: renew_lease_def owned_by_def)
  show "complete False f env db i w' sn now = (db, Inr False)"
    using assms by (simp add: complete_def)
  show "record_failure False db i w' d now base = (db, Inr None)"
    using assms by (simp add: record_failure_def owned_by_def)
qed

theorem exclusive_ownership_witness:
  "complete False False (\<lambda>d. d) ex_running 7 ''w2'' ex_snapshot 20 = (ex_running, Inr False)"
proof -
  obtain r where r: "get_job ex_running 7 = Some r" "ej_status r = RUNNING" "ej_worker_id r = Some ''w1''"
    using ex_states(2,4) by (auto simp: status_of_def)
  show ?thesis
    using exclusive_ownership[OF ex_history(2) r, of "''w2''" ex_snapshot 20 _ False "\<lambda>d. d"]
    by (simp add: ex_snapshot_def)
qed

text \<open>
  C5: The owner of a running job completes it exactly once, whenever the evaluation meets the
  check constraints of its table: the call stores one evaluation, which
  reads back as the snapshot, the job is COMPLETED, and no later history adds, changes or removes a
  stored evaluation of that job; repeating the call is answered with success and changes nothing.
\<close>
theorem complete_exactly_once:
  assumes "job_step\<^sup>*\<^sup>* empty_db db" "get_job db i = Some r" "ej_status r = RUNNING"
    and "ej_worker_id r = Some w" "sn_evaluation_id sn = i"
    and "evaluation_checks (evaluation_record_from_snapshot sn)"
    and "complete False f (\<lambda>d. d) db i w sn now = (db', res)" "job_step\<^sup>*\<^sup>* db' db''"
  shows "res = Inr True \<and> status_of db'' i = Some COMPLETED
    \<and> (\<exists>row. filter (\<lambda>e. ev_evaluation_id e = i) (db_evaluations db'') = [row]
         \<and> snapshot_from_record row = Inr sn)
    \<and> complete False f (\<lambda>d. d) db'' i w sn now = (db'', Inr True)"
proof -
  let ?row = "evaluation_record_from_snapshot sn"
  note ok = reachable_ok[OF assms(1)]
  have own: "owned_by r w" using assms(3,4) by (simp add: owned_by_def)
  have c: "db' = db\<lparr>db_jobs := put_job (completed_job r now) (db_jobs db),
         db_evaluations := db_evaluations db @ [?row]\<rparr>" "res = Inr True"
    using complete_result[OF ok assms(2) own assms(5,6), of f "\<lambda>d. d" now] assms(7) by auto
  have ok': "db_ok db'" using completed_db_ok[OF ok assms(2) own assms(5,6), of now] c(1) by simp
  have st': "status_of db' i = Some COMPLETED"
    using c(1) assms(2) row_get_key[OF assms(2)] by (auto simp: status_of_def)
  have st: "status_of db'' i = Some COMPLETED"
    using jobs.terminal_absorbing[OF assms(8) ok' st'] by (simp add: TERMINAL_JOB_STATUSES_def)
  have "?row \<in> set (db_evaluations db'')" using job_run_evaluations[OF assms(8) ok'] c(1) by auto
  from evaluation_unique[OF jobs.inv_run[OF assms(8) ok'] this]
  have one: "filter (\<lambda>e. ev_evaluation_id e = i) (db_evaluations db'') = [?row]"
    by (simp add: stored_id assms(5))
  have "complete False f (\<lambda>d. d) db'' i w sn now = (db'', Inr True)"
    using st assms(5) by (auto simp: complete_def status_of_def)
  with c(2) st one snapshot_reads_back show ?thesis by blast
qed

theorem complete_exactly_once_witness:
  "status_of ex_completed 7 = Some COMPLETED
   \<and> complete False False (\<lambda>d. d) ex_completed 7 ''w1'' ex_snapshot 20 = (ex_completed, Inr True)"
proof -
  obtain r where r: "get_job ex_running 7 = Some r" "ej_status r = RUNNING" "ej_worker_id r = Some ''w1''"
    using ex_states(2,4) by (auto simp: status_of_def)
  obtain res where res: "complete False False (\<lambda>d. d) ex_running 7 ''w1'' ex_snapshot 20 = (ex_completed, res)"
    unfolding ex_completed_def by (metis prod.collapse)
  have "evaluation_checks (evaluation_record_from_snapshot ex_snapshot)" by code_simp
  from complete_exactly_once[OF ex_history(2) r _ this res] show ?thesis by (simp add: ex_snapshot_def)
qed

text \<open>
  C7: Creation is idempotent, also when another session commits the same key between the lookup
  and the insert: a key that is already stored is answered with the stored job when the request
  is the same, and with a conflict when it is not; the database is left as the other session made it.
\<close>
theorem create_idempotent:
  assumes "db_ok db" "db_ok (env db)" "j \<in> set (db_jobs (env db))" "ej_idempotency_key j = Some key"
    and "ej_idempotency_key job = Some key"
    and "j \<in> set (db_jobs db) \<and> env = (\<lambda>d. d) \<or> (\<forall>x\<in>set (db_jobs db). ej_idempotency_key x \<noteq> Some key)"
  shows "create False False False env (\<lambda>d. d) db job =
    (env db, if ej_request_fingerprint j = ej_request_fingerprint job then Inr (j, False)
             else Inl IdempotencyConflictError)"
proof -
  note look = keyed_job[OF assms(2-4)]
  note rej = keyed_job_rejects_insert[OF assms(2-5)]
  from assms(6) show ?thesis
  proof
    assume "j \<in> set (db_jobs db) \<and> env = (\<lambda>d. d)"
    then show ?thesis using look assms(5)
      by (simp add: create_def get_by_idempotency_key_def reuse_def)
  next
    assume "\<forall>x\<in>set (db_jobs db). ej_idempotency_key x \<noteq> Some key"
    then have "find (\<lambda>j. ej_idempotency_key j = Some key) (db_jobs db) = None"
      by (simp add: find_None_iff)
    then show ?thesis using look rej assms(5)
      by (simp add: create_def get_by_idempotency_key_def reuse_def)
  qed
qed

theorem create_idempotent_witness:
  "create False False False (\<lambda>d. d) (\<lambda>d. d) ex_created ex_job = (ex_created, Inr (ex_job, False))
   \<and> create False False False (\<lambda>_. ex_created) (\<lambda>d. d) empty_db (ex_job\<lparr>ej_request_fingerprint := ex_other_hash\<rparr>)
      = (ex_created, Inl IdempotencyConflictError)"
proof -
  have in_db: "ex_job \<in> set (db_jobs ex_created)" by (simp add: ex_created_def) code_simp
  note c = create_idempotent[OF _ _ _ ex_states(6)]
  show ?thesis
    using c[OF reachable_ok[OF ex_history(1)], of "\<lambda>d. d" ex_job] in_db
      c[OF empty_db_ok, of "\<lambda>_. ex_created" "ex_job\<lparr>ej_request_fingerprint := ex_other_hash\<rparr>"]
      reachable_ok[OF ex_history(1)] ex_states(5,6)
    by (simp add: empty_db_def ex_hash_def ex_other_hash_def)
qed

text \<open>
  A new job under a fresh identifier and an unused key (or none) is stored together with exactly
  one unpublished outbox event, due at once; both are committed in one transaction.
\<close>
theorem create_enqueues:
  assumes "db_ok db" "new_job job" "job_checks job" "get_job db (ej_evaluation_id job) = None"
    and "\<forall>x\<in>set (db_jobs db). ej_idempotency_key job \<noteq> None \<longrightarrow> ej_idempotency_key x \<noteq> ej_idempotency_key job"
  shows "\<exists>db'. create False False False (\<lambda>d. d) (\<lambda>d. d) db job = (db', Inr (job, True))
    \<and> db_jobs db' = db_jobs db @ [job] \<and> db_evaluations db' = db_evaluations db
    \<and> (\<exists>e. db_outbox db' = db_outbox db @ [e] \<and> oe_aggregate_id e = ej_evaluation_id job
         \<and> oe_published_at e = None \<and> oe_next_attempt_at e = ej_created_at job
         \<and> oe_event_id e \<notin> oe_event_id ` set (db_outbox db))"
proof -
  let ?db' = "add_outbox (ej_evaluation_id job) (ej_created_at job) None (db\<lparr>db_jobs := db_jobs db @ [job]\<rparr>)"
  have fresh: "ej_evaluation_id job \<notin> ej_evaluation_id ` set (db_jobs db)"
    using assms(4) by (auto simp: row_get_None)
  have cons: "db_constraints ?db'"
    using assms(1,2,3,5) fresh
    by (auto simp: db_ok_def db_constraints_def add_outbox_def outbox_record_def row_wf_snoc row_get_None
        new_job_def set_opt_filter split: option.splits)
  have "create False False False (\<lambda>d. d) (\<lambda>d. d) db job = (?db', Inr (job, True))"
    using cons assms(5)
    by (auto simp: create_def insert_job_def commit_def get_by_idempotency_key_def find_None_iff
        split: option.splits sum.splits dest!: find_Some_in)
  moreover have "\<exists>e. db_outbox ?db' = db_outbox db @ [e] \<and> oe_aggregate_id e = ej_evaluation_id job
         \<and> oe_published_at e = None \<and> oe_next_attempt_at e = ej_created_at job
         \<and> oe_event_id e \<notin> oe_event_id ` set (db_outbox db)"
    using assms(1) by (auto simp: add_outbox_def outbox_record_def db_ok_def)
  ultimately show ?thesis by (auto simp: add_outbox_def)
qed

theorem create_enqueues_witness:
  "length (db_outbox (fst (create False False False (\<lambda>d. d) (\<lambda>d. d) empty_db ex_job))) = 1"
proof -
  have "get_job empty_db (ej_evaluation_id ex_job) = None" by (simp add: empty_db_def row_get_None)
  from create_enqueues[OF empty_db_ok ex_new_job(1) _ this] ex_states(7) show ?thesis
    by (auto simp: empty_db_def)
qed

text \<open>
  C9: Stale recovery touches exactly the jobs it selects, all of them running with an expired lease
  and not locked by another session: each goes to RETRY_WAIT while attempts remain and to FAILED
  otherwise; every other job, in particular every live lease, is left as it is, and the result is
  the number of recovered jobs. With a large enough limit and no locks, no expired lease remains.
\<close>
theorem recover_stale_scope:
  assumes "job_step\<^sup>*\<^sup>* empty_db db"
  shows "\<exists>db' S. recover_stale False locked db now base n = (db', Inr (length S))
    \<and> length S \<le> n
    \<and> (\<forall>r\<in>set S. get_job db (ej_evaluation_id r) = Some r \<and> ej_status r = RUNNING
         \<and> (\<exists>t. ej_lease_expires_at r = Some t \<and> t < now) \<and> \<not> locked (ej_evaluation_id r)
         \<and> status_of db' (ej_evaluation_id r) =
             Some (if ej_attempt_count r < ej_max_attempts r then RETRY_WAIT else FAILED))
    \<and> (\<forall>i. i \<notin> ej_evaluation_id ` set S \<longrightarrow> get_job db' i = get_job db i)
    \<and> (length (db_jobs db) \<le> n \<longrightarrow> (\<forall>i. \<not> locked i) \<longrightarrow>
         (\<forall>j\<in>set (db_jobs db). \<forall>t. ej_status j = RUNNING \<longrightarrow> ej_lease_expires_at j = Some t \<longrightarrow> t < now
            \<longrightarrow> j \<in> set S))"
proof -
  note ok = reachable_ok[OF assms]
  let ?S = "stale_jobs db locked now n"
  obtain db' where db': "recover_stale False locked db now base n = (db', Inr (length ?S))"
    "\<And>i. i \<notin> ej_evaluation_id ` set ?S \<Longrightarrow> get_job db' i = get_job db i"
    "\<And>r. r \<in> set ?S \<Longrightarrow> status_of db' (ej_evaluation_id r) =
         Some (if ej_attempt_count r < ej_max_attempts r then RETRY_WAIT else FAILED)"
    using recover_stale_db[OF ok, of locked now base n] by blast
  have all: "\<forall>j\<in>set (db_jobs db). \<forall>t. ej_status j = RUNNING \<longrightarrow> ej_lease_expires_at j = Some t \<longrightarrow> t < now
            \<longrightarrow> j \<in> set ?S" if "length (db_jobs db) \<le> n" "\<forall>i. \<not> locked i"
    using that by (simp add: stale_jobs_def le_trans[OF length_filter_le])
  have each: "get_job db (ej_evaluation_id r) = Some r \<and> ej_status r = RUNNING
         \<and> (\<exists>t. ej_lease_expires_at r = Some t \<and> t < now) \<and> \<not> locked (ej_evaluation_id r)"
    if "r \<in> set ?S" for r
    using stale_expired[OF that] row_get_wf[OF db_okD(1)[OF ok]] by simp
  have "length ?S \<le> n" by (simp add: stale_jobs_def)
  with db' each all show ?thesis by (intro exI[of _ db'] exI[of _ ?S]) simp
qed

theorem recover_stale_scope_witness:
  "status_of (fst (recover_stale False (\<lambda>_. False) ex_running (10 ^ 9) 5 10)) 7 = Some RETRY_WAIT"
proof -
  obtain j where j: "j \<in> set (db_jobs ex_running)" "ej_status j = RUNNING" "ej_evaluation_id j = 7"
    "ej_lease_expires_at j = Some 60000010" "ej_attempt_count j < ej_max_attempts j"
    "length (db_jobs ex_running) \<le> 10"
  proof -
    have "list_all (\<lambda>j. ej_status j = RUNNING \<and> ej_evaluation_id j = 7 \<and> ej_lease_expires_at j = Some 60000010
       \<and> ej_attempt_count j < ej_max_attempts j) (db_jobs ex_running) \<and> length (db_jobs ex_running) = 1"
      by code_simp
    then show thesis using that by (cases "db_jobs ex_running") (auto simp: list_all_iff)
  qed
  with recover_stale_scope[OF ex_history(2), of "\<lambda>_. False" "10 ^ 9" 5 10] show ?thesis by fastforce
qed

end
