(* ===== verification/DeliverySafety.thy ===== *)
theory DeliverySafety
  imports Delivery JobProperties
begin

text \<open>
  At-least-once delivery: the combined steps of the database, the queue, the publisher and the
  workers, and the invariant that every waiting job still has an unpublished outbox event or an
  unacknowledged message, so that it is never lost. The Redis server is a parameter; \<open>redis_laws\<close>
  states the documented behaviour of streams and consumer groups that the code relies on.
\<close>

section \<open>The queue contract\<close>

text \<open>
  \<open>outstanding\<close> is the set of entries of the stream that the consumer group has not acknowledged.
  Adding returns a new identifier; reading and claiming acknowledge nothing; acknowledging an
  identifier removes no other entry; identifiers are unique.
\<close>

definition redis_laws :: "'q redis \<Rightarrow> ('q \<Rightarrow> stream_entry set) \<Rightarrow> bool" where
  "redis_laws rd outstanding \<longleftrightarrow>
     (\<forall>q. inj_on fst (outstanding q))
     \<and> (\<forall>q b. outstanding q \<subseteq> outstanding (fst (xadd rd q b)))
     \<and> (\<forall>q b m. snd (xadd rd q b) = Some m \<longrightarrow> (m, b) \<in> outstanding (fst (xadd rd q b)))
     \<and> (\<forall>q m. {x \<in> outstanding q. fst x \<noteq> m} \<subseteq> outstanding (fst (xack rd q m)))
     \<and> (\<forall>q c. outstanding (fst (xreadgroup rd q c)) = outstanding q)
     \<and> (\<forall>q c n. outstanding (fst (xautoclaim rd q c n)) = outstanding q)"

definition body_of :: "uuid \<Rightarrow> (string \<times> string) list" where
  "body_of i = [(''evaluation_id'', str_uuid i)]"

text \<open>A message a worker holds denotes the stream entry it was delivered with.\<close>

definition delivered :: "stream_entry set \<Rightarrow> queue_message \<Rightarrow> bool" where
  "delivered out msg \<longleftrightarrow> (\<forall>b. (qm_message_id msg, b) \<in> out \<longrightarrow>
     parse_message (qm_message_id msg, b) = Inr msg)"

section \<open>Steps of the whole system\<close>

record 'q sys =
  sys_db :: job_db
  sys_queue :: 'q
  sys_clock :: time

text \<open>
  Every transaction reads the shared clock, which never goes back. A publisher step handles one
  ready event; a worker starts on a delivered message and finishes, at any later time and possibly
  more than once or never, with an evaluation result of any kind for the job of its message.
\<close>

inductive sys_step ::
    "'q redis \<Rightarrow> ('q \<Rightarrow> stream_entry set) \<Rightarrow> rat \<Rightarrow> 'q sys \<Rightarrow> 'q sys \<Rightarrow> bool"
  for rd :: "'q redis" and outstanding :: "'q \<Rightarrow> stream_entry set" and base :: rat where
  ss_submit: "new_job job \<Longrightarrow> ej_evaluation_id job < 2 ^ 128 \<Longrightarrow>
    ej_evaluation_id job \<notin> ev_evaluation_id ` set (db_evaluations (sys_db s)) \<Longrightarrow>
    sys_step rd outstanding base s
      (s\<lparr>sys_db := fst (create f1 f2 f3 (\<lambda>d. d) (\<lambda>d. d) (sys_db s) job)\<rparr>)"
| ss_dispatch: "ready_outbox False (sys_db s) (sys_clock s) n = Inr events \<Longrightarrow> e \<in> set events \<Longrightarrow>
    dispatch_event rd base f (sys_clock s) (sys_db s) (sys_queue s) e = (db', q', r) \<Longrightarrow>
    sys_step rd outstanding base s (s\<lparr>sys_db := db', sys_queue := q'\<rparr>)"
| ss_read: "sys_step rd outstanding base s (s\<lparr>sys_queue := fst (consume rd (sys_queue s) c)\<rparr>)"
| ss_reclaim: "sys_step rd outstanding base s (s\<lparr>sys_queue := fst (reclaim rd (sys_queue s) c n)\<rparr>)"
| ss_start: "delivered (outstanding (sys_queue s)) msg \<Longrightarrow>
    start_message rd wk f1 f2 (sys_db s) (sys_queue s) msg (sys_clock s) = (db', q', r) \<Longrightarrow>
    sys_step rd outstanding base s (s\<lparr>sys_db := db', sys_queue := q'\<rparr>)"
| ss_renew: "sys_step rd outstanding base s
    (s\<lparr>sys_db := fst (renew_lease f (sys_db s) i w (sys_clock s) l)\<rparr>)"
| ss_finish: "delivered (outstanding (sys_queue s)) msg \<Longrightarrow> wk_retry_base wk = base \<Longrightarrow>
    ej_evaluation_id claimed = qm_evaluation_id msg \<Longrightarrow>
    finish_message rd wk f1 f2 f3 (sys_db s) (sys_queue s) msg claimed t (sys_clock s) (sys_clock s) = (db', q') \<Longrightarrow>
    sys_step rd outstanding base s (s\<lparr>sys_db := db', sys_queue := q'\<rparr>)"
| ss_recover: "sys_step rd outstanding base s
    (s\<lparr>sys_db := fst (recover_stale f locked (sys_db s) (sys_clock s) base n)\<rparr>)"
| ss_tick: "sys_clock s \<le> t \<Longrightarrow> sys_step rd outstanding base s (s\<lparr>sys_clock := t\<rparr>)"

section \<open>The delivery invariant\<close>

definition waiting :: "evaluation_job \<Rightarrow> bool" where
  "waiting j \<longleftrightarrow> ej_status j \<in> {QUEUED, RETRY_WAIT}"

definition due_by :: "evaluation_job \<Rightarrow> time \<Rightarrow> bool" where
  "due_by j t = (case ej_next_attempt_at j of None \<Rightarrow> True | Some u \<Rightarrow> u \<le> t)"

definition event_covers :: "outbox_event list \<Rightarrow> evaluation_job \<Rightarrow> bool" where
  "event_covers outbox j \<longleftrightarrow> (\<exists>e\<in>set outbox. oe_published_at e = None
     \<and> oe_aggregate_id e = ej_evaluation_id j \<and> due_by j (oe_next_attempt_at e))"

definition message_covers :: "stream_entry set \<Rightarrow> time \<Rightarrow> evaluation_job \<Rightarrow> bool" where
  "message_covers out clock j \<longleftrightarrow> (\<exists>m. (m, body_of (ej_evaluation_id j)) \<in> out) \<and> due_by j clock"

definition safe :: "job_db \<Rightarrow> stream_entry set \<Rightarrow> time \<Rightarrow> bool" where
  "safe db out clock \<longleftrightarrow> (\<forall>i j. get_job db i = Some j \<longrightarrow> waiting j \<longrightarrow>
     ej_evaluation_id j < 2 ^ 128 \<and> (event_covers (db_outbox db) j \<or> message_covers out clock j))"

lemma safeI:
  assumes "\<And>i j. get_job db i = Some j \<Longrightarrow> waiting j \<Longrightarrow>
    ej_evaluation_id j < 2 ^ 128 \<and> (event_covers (db_outbox db) j \<or> message_covers out clock j)"
  shows "safe db out clock"
  using assms by (simp add: safe_def)

text \<open>Events may be appended or postponed, entries added, the clock may advance.\<close>

definition outbox_extends :: "outbox_event list \<Rightarrow> outbox_event list \<Rightarrow> bool" where
  "outbox_extends xs ys \<longleftrightarrow> (\<forall>e\<in>set xs. oe_published_at e = None \<longrightarrow>
     (\<exists>e'\<in>set ys. oe_published_at e' = None \<and> oe_aggregate_id e' = oe_aggregate_id e
        \<and> oe_next_attempt_at e \<le> oe_next_attempt_at e'))"

lemma due_by_mono: "due_by j t \<Longrightarrow> t \<le> u \<Longrightarrow> due_by j u"
  by (auto simp: due_by_def split: option.splits)

lemma event_covers_extends: "event_covers xs j \<Longrightarrow> outbox_extends xs ys \<Longrightarrow> event_covers ys j"
  unfolding event_covers_def outbox_extends_def by (metis due_by_mono)

lemma outbox_extends_refl: "outbox_extends xs xs"
  by (auto simp: outbox_extends_def)

lemma outbox_extends_append: "outbox_extends xs (xs @ ys)"
  by (auto simp: outbox_extends_def)

lemma outbox_extends_trans: "outbox_extends xs ys \<Longrightarrow> outbox_extends ys zs \<Longrightarrow> outbox_extends xs zs"
  unfolding outbox_extends_def by (metis order_trans)

lemma message_covers_mono: "message_covers out c j \<Longrightarrow> out \<subseteq> out' \<Longrightarrow> c \<le> c' \<Longrightarrow> message_covers out' c' j"
  using due_by_mono by (auto simp: message_covers_def)

text \<open>
  The frame rule: a step that only extends the outbox and the queue needs to be checked on the jobs
  whose rows it changed.
\<close>

lemma safe_frame:
  assumes "safe db out c" "outbox_extends (db_outbox db) (db_outbox db')" "out \<subseteq> out'" "c \<le> c'"
    and "\<And>i j. get_job db' i = Some j \<Longrightarrow> waiting j \<Longrightarrow> get_job db i \<noteq> Some j \<Longrightarrow>
      ej_evaluation_id j < 2 ^ 128 \<and> (event_covers (db_outbox db') j \<or> message_covers out' c' j)"
  shows "safe db' out' c'"
proof (rule safeI)
  fix i j
  assume j: "get_job db' i = Some j" "waiting j"
  show "ej_evaluation_id j < 2 ^ 128 \<and> (event_covers (db_outbox db') j \<or> message_covers out' c' j)"
  proof (cases "get_job db i = Some j")
    case True
    then show ?thesis using assms(1) j(2) event_covers_extends[OF _ assms(2)]
        message_covers_mono[OF _ assms(3,4)] unfolding safe_def by blast
  qed (use assms(5) j in blast)
qed

lemma safe_queue: "safe db out c \<Longrightarrow> out \<subseteq> out' \<Longrightarrow> c \<le> c' \<Longrightarrow> safe db out' c'"
  by (rule safe_frame[OF _ outbox_extends_refl]) auto

text \<open>Replacing one job row by a row that does not wait.\<close>

lemma safe_put:
  assumes "safe db out c" "get_job db i = Some r" "ej_evaluation_id r' = ej_evaluation_id r" "\<not> waiting r'"
    and "db_jobs db' = row_put ej_evaluation_id (ej_evaluation_id r) (\<lambda>_. r') (db_jobs db)"
    and "db_outbox db' = db_outbox db"
  shows "safe db' out c"
proof (rule safe_frame[OF assms(1)])
  fix k j
  assume "get_job db' k = Some j" "waiting j" "get_job db k \<noteq> Some j"
  then show "ej_evaluation_id j < 2 ^ 128 \<and> (event_covers (db_outbox db') j \<or> message_covers out c j)"
    using assms(2-5) row_get_put_const[of ej_evaluation_id r' "ej_evaluation_id r" "db_jobs db" k]
    by (auto split: if_splits)
qed (simp_all add: assms(6) outbox_extends_refl)

section \<open>Repository transactions keep the invariant\<close>

lemma add_outbox_outbox:
  "db_outbox (add_outbox i c n db) = db_outbox db @ [outbox_record (db_fresh db) i c n]"
  by (simp add: add_outbox_def)

lemma safe_create:
  assumes "safe db out c" "new_job job" "ej_evaluation_id job < 2 ^ 128"
  shows "safe (fst (create f1 f2 f3 (\<lambda>d. d) (\<lambda>d. d) db job)) out c"
proof (rule create_db_cases[of f1 f2 f3 db job])
  assume e: "fst (create f1 f2 f3 (\<lambda>d. d) (\<lambda>d. d) db job) = add_outbox (ej_evaluation_id job)
    (ej_created_at job) None (db\<lparr>db_jobs := db_jobs db @ [job]\<rparr>)"
  have "event_covers (db_outbox db @ [outbox_record (db_fresh db) (ej_evaluation_id job) (ej_created_at job) None]) job"
    using assms(2) by (auto simp: event_covers_def outbox_record_def due_by_def new_job_def)
  then show ?thesis unfolding e
    by (intro safe_frame[OF assms(1)])
      (use assms(3) in \<open>auto simp: add_outbox_outbox outbox_extends_append row_get_append table_simps
          split: option.splits if_splits\<close>)
qed (use assms(1) in simp)

lemma safe_claim:
  assumes "safe db out c" "db_ok db"
  shows "safe (fst (claim f db i w now l)) out c"
proof (rule claim_db_cases[OF assms(2), of f i w now l])
  fix r
  assume r: "get_job db i = Some r" "claimable r now"
    "fst (claim f db i w now l) = db\<lparr>db_jobs := put_job (claimed_job (requeued r now) w now l) (db_jobs db)\<rparr>"
  show ?thesis unfolding r(3)
    by (rule safe_put[OF assms(1) r(1), of "claimed_job (requeued r now) w now l"]) (simp_all add: waiting_def)
qed (use assms(1) in simp)

lemma safe_renew:
  assumes "safe db out c" "db_ok db"
  shows "safe (fst (renew_lease f db i w now l)) out c"
proof (rule renew_db_cases[OF assms(2), of f i w now l])
  fix r
  assume r: "get_job db i = Some r" "owned_by r w"
    "fst (renew_lease f db i w now l) = db\<lparr>db_jobs := put_job (renewed_job r now l) (db_jobs db)\<rparr>"
  show ?thesis unfolding r(3)
    by (rule safe_put[OF assms(1) r(1), of "renewed_job r now l"])
      (use r(2) in \<open>simp_all add: waiting_def renewed_job_def owned_by_def\<close>)
qed (use assms(1) in simp)

lemma safe_complete:
  assumes "safe db out c" "db_ok db"
  shows "safe (fst (complete f1 f2 (\<lambda>d. d) db i w sn now)) out c"
proof (rule complete_db_cases[OF assms(2), of f1 f2 i w sn now])
  fix r
  assume r: "get_job db i = Some r" "owned_by r w"
    "fst (complete f1 f2 (\<lambda>d. d) db i w sn now) = db\<lparr>db_jobs := put_job (completed_job r now) (db_jobs db),
       db_evaluations := db_evaluations db @ [evaluation_record_from_snapshot sn]\<rparr>"
  show ?thesis unfolding r(3)
    by (rule safe_put[OF assms(1) r(1), of "completed_job r now"]) (simp_all add: waiting_def)
qed (use assms(1) in simp)

lemma safe_fail_attempt:
  assumes "safe db out c" "db_ok db" "get_job db i = Some r" "ej_status r = RUNNING" "i < 2 ^ 128"
    and "fail_attempt db r cat code retryable now base = Inr (db', st)"
  shows "safe db' out c"
proof (rule fail_attempt_cases[OF assms(2,3,4), where retryable = retryable and base = base
      and now = now and c = cat and k = code])
  fix d
  let ?r' = "waiting_job (released_job r cat code now) (now + td_micros d)"
  let ?e = "outbox_record (db_fresh db) i now (Some (now + td_micros d))"
  assume "fail_attempt db r cat code retryable now base =
        Inr (add_outbox i now (Some (now + td_micros d)) (db\<lparr>db_jobs := put_job ?r' (db_jobs db)\<rparr>), RETRY_WAIT)"
  then have db': "db' = add_outbox i now (Some (now + td_micros d)) (db\<lparr>db_jobs := put_job ?r' (db_jobs db)\<rparr>)"
    using assms(6) by simp
  have id: "ej_evaluation_id r = i" using row_get_key[OF assms(3)] by simp
  have "event_covers (db_outbox db @ [?e]) ?r'"
    by (auto simp: event_covers_def outbox_record_def due_by_def waiting_job_def id released_job_def)
  then show ?thesis unfolding db'
    by (intro safe_frame[OF assms(1)])
      (use assms(5) id in \<open>auto simp: add_outbox_outbox outbox_extends_append split: if_splits\<close>)
next
  assume "fail_attempt db r cat code retryable now base =
        Inr (db\<lparr>db_jobs := put_job (failed_job (released_job r cat code now) now) (db_jobs db)\<rparr>, FAILED)"
  then have db': "db' = db\<lparr>db_jobs := put_job (failed_job (released_job r cat code now) now) (db_jobs db)\<rparr>"
    using assms(6) by simp
  show ?thesis unfolding db'
    by (rule safe_put[OF assms(1,3), of "failed_job (released_job r cat code now) now"])
      (simp_all add: waiting_def)
qed

text \<open>Running jobs have proper identifiers too: they were waiting once.\<close>

definition ids_ok :: "job_db \<Rightarrow> bool" where
  "ids_ok db \<longleftrightarrow> (\<forall>j\<in>set (db_jobs db). ej_evaluation_id j < 2 ^ 128)"

lemma safe_failure:
  assumes "safe db out c" "db_ok db" "ids_ok db"
  shows "safe (fst (record_failure f db i w d now base)) out c"
proof (rule record_failure_db_cases[OF assms(2), of f i w d now base])
  fix r db' st
  assume a: "get_job db i = Some r" "owned_by r w"
    "fail_attempt db r (fdn_category d) (fdn_code d) (fdn_retryable d) now base = Inr (db', st)"
    "record_failure f db i w d now base = (db', Inr (Some st))"
  have run: "ej_status r = RUNNING" using a(2) by (simp add: owned_by_def)
  have "i < 2 ^ 128" using assms(3) row_get_key[OF a(1)] by (auto simp: ids_ok_def)
  from safe_fail_attempt[OF assms(1,2) a(1) run this a(3)] show ?thesis by (simp add: a(4))
qed (use assms(1) in simp)

lemma ids_put:
  "ids_ok db \<Longrightarrow> get_job db i = Some r \<Longrightarrow> ej_evaluation_id r' = ej_evaluation_id r \<Longrightarrow>
    db_jobs db' = row_put ej_evaluation_id k (\<lambda>_. r') (db_jobs db) \<Longrightarrow> ids_ok db'"
  by (auto simp: ids_ok_def dest!: row_put_in row_get_key)

lemma fail_attempt_ids:
  assumes "db_ok db" "get_job db i = Some r" "ej_status r = RUNNING" "ids_ok db"
    and "fail_attempt db r cat code retryable now base = Inr (db', st)"
  shows "ids_ok db' \<and> db_ok db' \<and> (\<forall>k. k \<noteq> i \<longrightarrow> get_job db' k = get_job db k)"
proof (rule fail_attempt_cases[OF assms(1-3), where retryable = retryable and base = base
      and now = now and c = cat and k = code])
  fix d
  let ?r' = "waiting_job (released_job r cat code now) (now + td_micros d)"
  assume a: "fail_attempt db r cat code retryable now base =
        Inr (add_outbox i now (Some (now + td_micros d)) (db\<lparr>db_jobs := put_job ?r' (db_jobs db)\<rparr>), RETRY_WAIT)"
    "db_ok (add_outbox i now (Some (now + td_micros d)) (db\<lparr>db_jobs := put_job ?r' (db_jobs db)\<rparr>))"
  have "ids_ok (add_outbox i now (Some (now + td_micros d)) (db\<lparr>db_jobs := put_job ?r' (db_jobs db)\<rparr>))"
    by (rule ids_put[OF assms(4,2), of ?r']) simp_all
  with a assms(5) row_get_key[OF assms(2)] show ?thesis by auto
next
  let ?r' = "failed_job (released_job r cat code now) now"
  assume a: "fail_attempt db r cat code retryable now base = Inr (db\<lparr>db_jobs := put_job ?r' (db_jobs db)\<rparr>, FAILED)"
    "db_ok (db\<lparr>db_jobs := put_job ?r' (db_jobs db)\<rparr>)"
  have "ids_ok (db\<lparr>db_jobs := put_job ?r' (db_jobs db)\<rparr>)"
    by (rule ids_put[OF assms(4,2), of ?r']) simp_all
  with a assms(5) row_get_key[OF assms(2)] show ?thesis by auto
qed

lemma safe_recover_loop:
  "safe db out c \<Longrightarrow> db_ok db \<Longrightarrow> ids_ok db \<Longrightarrow> recoverable db rs \<Longrightarrow>
     recover_loop db rs now base = Inr db' \<Longrightarrow> safe db' out c"
proof (induction rs arbitrary: db)
  case (Cons r rs)
  let ?i = "ej_evaluation_id r"
  have r: "get_job db ?i = Some r" "ej_status r = RUNNING"
    and fresh: "?i \<notin> ej_evaluation_id ` set rs"
    using Cons.prems(4) by (auto simp: recoverable_def)
  from Cons.prems(5) obtain db1 st where one:
    "fail_attempt db r ''infrastructure'' ''worker_lease_expired'' True now base = Inr (db1, st)"
    "recover_loop db1 rs now base = Inr db'" by (auto split: sum.splits)
  have i: "?i < 2 ^ 128" using Cons.prems(3) row_get_key[OF r(1)] by (auto simp: ids_ok_def)
  note ids = fail_attempt_ids[OF Cons.prems(2) r Cons.prems(3) one(1)]
  have "recoverable db1 rs" using Cons.prems(4) ids fresh by (auto simp: recoverable_def image_iff)
  with safe_fail_attempt[OF Cons.prems(1,2) r i one(1)] ids one(2) show ?case
    by (intro Cons.IH) auto
qed simp

lemma safe_recover:
  assumes "safe db out c" "db_ok db" "ids_ok db"
  shows "safe (fst (recover_stale f locked db now base n)) out c"
proof (cases f)
  case False
  obtain db' where db': "recover_loop db (stale_jobs db locked now n) now base = Inr db'" "db_ok db'"
    using recover_loop_ok[OF assms(2) stale_recoverable[OF assms(2)], of locked now n now base] by blast
  have "fst (recover_stale False locked db now base n) = db'"
    by (simp add: recover_stale_def db'(1) commit_ok[OF assms(2) db'(2)])
  with safe_recover_loop[OF assms stale_recoverable[OF assms(2)] db'(1)] False show ?thesis by simp
qed (use assms(1) recover_fault in simp)

section \<open>Identifiers stay in range\<close>

lemma ids_create:
  "ids_ok db \<Longrightarrow> ej_evaluation_id job < 2 ^ 128 \<Longrightarrow> ids_ok (fst (create f1 f2 f3 (\<lambda>d. d) (\<lambda>d. d) db job))"
  by (rule create_db_cases[of f1 f2 f3 db job]) (auto simp: ids_ok_def)

lemma ids_claim: "ids_ok db \<Longrightarrow> db_ok db \<Longrightarrow> ids_ok (fst (claim f db i w now l))"
proof (rule claim_db_cases[of db f i w now l])
  fix r
  assume a: "ids_ok db" "get_job db i = Some r"
    "fst (claim f db i w now l) = db\<lparr>db_jobs := put_job (claimed_job (requeued r now) w now l) (db_jobs db)\<rparr>"
  show ?thesis unfolding a(3)
    by (rule ids_put[OF a(1,2), of "claimed_job (requeued r now) w now l"]) simp_all
qed simp_all

lemma ids_renew: "ids_ok db \<Longrightarrow> db_ok db \<Longrightarrow> ids_ok (fst (renew_lease f db i w now l))"
proof (rule renew_db_cases[of db f i w now l])
  fix r
  assume a: "ids_ok db" "get_job db i = Some r"
    "fst (renew_lease f db i w now l) = db\<lparr>db_jobs := put_job (renewed_job r now l) (db_jobs db)\<rparr>"
  show ?thesis unfolding a(3) by (rule ids_put[OF a(1,2), of "renewed_job r now l"]) (simp_all add: renewed_job_def)
qed simp_all

lemma ids_complete: "ids_ok db \<Longrightarrow> db_ok db \<Longrightarrow> ids_ok (fst (complete f1 f2 (\<lambda>d. d) db i w sn now))"
proof (rule complete_db_cases[of db f1 f2 i w sn now])
  fix r
  assume a: "ids_ok db" "get_job db i = Some r"
    "fst (complete f1 f2 (\<lambda>d. d) db i w sn now) = db\<lparr>db_jobs := put_job (completed_job r now) (db_jobs db),
       db_evaluations := db_evaluations db @ [evaluation_record_from_snapshot sn]\<rparr>"
  show ?thesis unfolding a(3) by (rule ids_put[OF a(1,2), of "completed_job r now"]) simp_all
qed simp_all

lemma ids_failure:
  assumes "ids_ok db" "db_ok db"
  shows "ids_ok (fst (record_failure f db i w d now base))"
proof (rule record_failure_db_cases[OF assms(2), of f i w d now base])
  fix r db' st
  assume a: "get_job db i = Some r" "owned_by r w"
    "fail_attempt db r (fdn_category d) (fdn_code d) (fdn_retryable d) now base = Inr (db', st)"
    "record_failure f db i w d now base = (db', Inr (Some st))"
  have run: "ej_status r = RUNNING" using a(2) by (simp add: owned_by_def)
  from fail_attempt_ids[OF assms(2) a(1) run assms(1) a(3)] show ?thesis by (simp add: a(4))
qed (use assms(1) in simp)

lemma ids_recover_loop:
  "ids_ok db \<Longrightarrow> db_ok db \<Longrightarrow> recoverable db rs \<Longrightarrow> recover_loop db rs now base = Inr db' \<Longrightarrow> ids_ok db'"
proof (induction rs arbitrary: db)
  case (Cons r rs)
  let ?i = "ej_evaluation_id r"
  have r: "get_job db ?i = Some r" "ej_status r = RUNNING"
    and fresh: "?i \<notin> ej_evaluation_id ` set rs"
    using Cons.prems(3) by (auto simp: recoverable_def)
  from Cons.prems(4) obtain db1 st where one:
    "fail_attempt db r ''infrastructure'' ''worker_lease_expired'' True now base = Inr (db1, st)"
    "recover_loop db1 rs now base = Inr db'" by (auto split: sum.splits)
  note ids = fail_attempt_ids[OF Cons.prems(2) r Cons.prems(1) one(1)]
  have "recoverable db1 rs" using Cons.prems(3) ids fresh by (auto simp: recoverable_def image_iff)
  with ids one(2) show ?case by (intro Cons.IH) auto
qed simp

lemma ids_recover:
  assumes "ids_ok db" "db_ok db"
  shows "ids_ok (fst (recover_stale f locked db now base n))"
proof (cases f)
  case False
  obtain db' where db': "recover_loop db (stale_jobs db locked now n) now base = Inr db'" "db_ok db'"
    using recover_loop_ok[OF assms(2) stale_recoverable[OF assms(2)], of locked now n now base] by blast
  have "fst (recover_stale False locked db now base n) = db'"
    by (simp add: recover_stale_def db'(1) commit_ok[OF assms(2) db'(2)])
  with ids_recover_loop[OF assms stale_recoverable[OF assms(2)] db'(1)] False show ?thesis by simp
qed (use assms(1) recover_fault in simp)

section \<open>Publishing and acknowledging\<close>

lemma event_unique:
  "db_ok db \<Longrightarrow> x \<in> set (db_outbox db) \<Longrightarrow> e \<in> set (db_outbox db) \<Longrightarrow> oe_event_id x = oe_event_id e \<Longrightarrow> x = e"
  by (metis db_okD(2) option.inject row_get_wf)

lemma ready_event:
  assumes "ready_outbox False db now n = Inr events" "e \<in> set events"
  shows "e \<in> set (db_outbox db)" "oe_published_at e = None" "oe_next_attempt_at e \<le> now"
  using assms by (auto simp: ready_outbox_def dest: in_set_takeD)

text \<open>Marking an event published is safe once its message is in the stream.\<close>

lemma safe_published:
  assumes "safe db out c" "db_ok db" "e \<in> set (db_outbox db)" "oe_next_attempt_at e \<le> c"
    and "(m, body_of (oe_aggregate_id e)) \<in> out"
  shows "safe (fst (mark_outbox_published f db (oe_event_id e) now)) out c"
proof (rule published_db_cases[OF assms(2), of f "oe_event_id e" now])
  fix g
  assume db': "fst (mark_outbox_published f db (oe_event_id e) now) =
    db\<lparr>db_outbox := row_put oe_event_id (oe_event_id e) g (db_outbox db)\<rparr>"
  show ?thesis unfolding db'
  proof (rule safeI)
    fix i j
    let ?out' = "row_put oe_event_id (oe_event_id e) g (db_outbox db)"
    assume j: "get_job (db\<lparr>db_outbox := ?out'\<rparr>) i = Some j" "waiting j"
    have old: "ej_evaluation_id j < 2 ^ 128 \<and> (event_covers (db_outbox db) j \<or> message_covers out c j)"
      using assms(1) j by (simp add: safe_def)
    have "event_covers ?out' j \<or> message_covers out c j" if ev: "event_covers (db_outbox db) j"
    proof -
      from ev obtain x where x: "x \<in> set (db_outbox db)" "oe_published_at x = None"
        "oe_aggregate_id x = ej_evaluation_id j" "due_by j (oe_next_attempt_at x)"
        by (auto simp: event_covers_def)
      show ?thesis
      proof (cases "oe_event_id x = oe_event_id e")
        case True
        then have "x = e" by (rule event_unique[OF assms(2) x(1) assms(3)])
        then have "message_covers out c j"
          using x assms(4,5) due_by_mono by (auto simp: message_covers_def)
        then show ?thesis ..
      next
        case False
        then have "x \<in> set ?out'" using x(1) by (force simp: row_put_def)
        with x show ?thesis by (auto simp: event_covers_def)
      qed
    qed
    with old show "ej_evaluation_id j < 2 ^ 128 \<and>
      (event_covers (db_outbox (db\<lparr>db_outbox := ?out'\<rparr>)) j \<or> message_covers out c j)" by auto
  qed
qed (use assms(1) in simp)

text \<open>A failed publication postpones the event, never before the time it was due.\<close>

lemma safe_outbox_failed:
  assumes "safe db out c" "db_ok db" "e \<in> set (db_outbox db)" "oe_next_attempt_at e \<le> c" "0 \<le> base"
  shows "safe (fst (mark_outbox_failed f db (oe_event_id e) c base)) out c"
proof (cases "fst (mark_outbox_failed f db (oe_event_id e) c base) = db")
  case False
  have row: "row_get oe_event_id (db_outbox db) (oe_event_id e) = Some e"
    by (rule row_get_wf[OF db_okD(2)[OF assms(2)] assms(3)])
  obtain d where d: "retry_delay_seconds (oe_attempt_count e + 1) base = Inr d"
    by (auto simp: retry_delay_seconds_def)
  have "0 \<le> d" using d assms(5)
    by (auto simp: retry_delay_seconds_def fmul_def intro!: fl64.rnd_nonneg mult_nonneg_nonneg)
  then have td: "0 \<le> td_micros d" by (rule td_micros_nonneg)
  let ?g = "\<lambda>e. e\<lparr>oe_attempt_count := oe_attempt_count e + 1,
      oe_last_error_code := Some ''queue_unavailable'', oe_next_attempt_at := c + td_micros d\<rparr>"
  have db': "fst (mark_outbox_failed f db (oe_event_id e) c base) =
      db\<lparr>db_outbox := row_put oe_event_id (oe_event_id e) ?g (db_outbox db)\<rparr>"
    using False row d by (auto simp: mark_outbox_failed_def commit_def split: if_splits)
  have "outbox_extends (db_outbox db) (row_put oe_event_id (oe_event_id e) ?g (db_outbox db))"
    unfolding outbox_extends_def
  proof (intro ballI impI)
    fix x
    assume x: "x \<in> set (db_outbox db)" "oe_published_at x = None"
    let ?x = "if oe_event_id x = oe_event_id e then ?g x else x"
    have in': "?x \<in> set (row_put oe_event_id (oe_event_id e) ?g (db_outbox db))"
      using x(1) by (auto simp: row_put_def)
    have "oe_event_id x = oe_event_id e \<Longrightarrow> x = e"
      by (rule event_unique[OF assms(2) x(1) assms(3)])
    then have "oe_next_attempt_at x \<le> oe_next_attempt_at ?x" using assms(4) td by auto
    then show "\<exists>e'\<in>set (row_put oe_event_id (oe_event_id e) ?g (db_outbox db)). oe_published_at e' = None
        \<and> oe_aggregate_id e' = oe_aggregate_id x \<and> oe_next_attempt_at x \<le> oe_next_attempt_at e'"
      by (intro bexI[OF _ in']) (use x(2) in auto)
  qed
  then show ?thesis unfolding db' by (intro safe_frame[OF assms(1)]) simp_all
qed (use assms(1) in simp)

text \<open>
  Acknowledging is safe when the job of the message does not wait, waits for a later time, or has
  an unpublished event.
\<close>

lemma safe_ack:
  assumes "safe db out c" "delivered out msg" "{x \<in> out. fst x \<noteq> qm_message_id msg} \<subseteq> out'"
    and "\<And>j. get_job db (qm_evaluation_id msg) = Some j \<Longrightarrow> waiting j \<Longrightarrow>
      \<not> due_by j c \<or> event_covers (db_outbox db) j"
  shows "safe db out' c"
proof (rule safeI)
  fix i j
  assume j: "get_job db i = Some j" "waiting j"
  have id: "ej_evaluation_id j = i" using row_get_key[OF j(1)] by simp
  have old: "ej_evaluation_id j < 2 ^ 128" "event_covers (db_outbox db) j \<or> message_covers out c j"
    using assms(1) j by (auto simp: safe_def)
  have "message_covers out' c j" if m: "message_covers out c j" and ne: "\<not> event_covers (db_outbox db) j"
  proof -
    from m obtain k where k: "(k, body_of i) \<in> out" "due_by j c" by (auto simp: message_covers_def id)
    have "k \<noteq> qm_message_id msg"
    proof
      assume "k = qm_message_id msg"
      then have "parse_message (k, body_of i) = Inr msg" using assms(2) k(1) by (auto simp: delivered_def)
      then have "qm_evaluation_id msg = i"
        using UUID_str_uuid[of i] old(1) by (auto simp: parse_message_def body_of_def id)
      with assms(4)[of j] j k(2) ne show False by simp
    qed
    with k assms(3) show ?thesis by (auto simp: message_covers_def id)
  qed
  with old show "ej_evaluation_id j < 2 ^ 128 \<and> (event_covers (db_outbox db) j \<or> message_covers out' c j)"
    by blast
qed

section \<open>The system invariant\<close>

definition sys_inv :: "('q \<Rightarrow> stream_entry set) \<Rightarrow> 'q sys \<Rightarrow> bool" where
  "sys_inv outstanding s \<longleftrightarrow> db_ok (sys_db s) \<and> ids_ok (sys_db s)
     \<and> safe (sys_db s) (outstanding (sys_queue s)) (sys_clock s)"

lemma redis_lawsD:
  assumes "redis_laws rd outstanding"
  shows "outstanding q \<subseteq> outstanding (fst (xadd rd q b))"
    "snd (xadd rd q b) = Some m \<Longrightarrow> (m, b) \<in> outstanding (fst (xadd rd q b))"
    "{x \<in> outstanding q. fst x \<noteq> m} \<subseteq> outstanding (fst (xack rd q m))"
    "outstanding (fst (xreadgroup rd q c)) = outstanding q"
    "outstanding (fst (xautoclaim rd q c n)) = outstanding q"
  using assms by (simp_all add: redis_laws_def)

lemma consume_queue: "fst (consume rd q c) = fst (xreadgroup rd q c)"
  by (simp add: consume_def split: prod.splits option.splits list.splits)

lemma reclaim_queue: "fst (reclaim rd q c n) = fst (xautoclaim rd q c n)"
  by (simp add: reclaim_def split: prod.splits option.splits list.splits)

lemma acknowledge_queue: "fst (acknowledge rd q m) = fst (xack rd q m)"
  by (simp add: acknowledge_def split: prod.splits option.splits)

lemma enqueue_cases:
  assumes "redis_laws rd outstanding"
  obtains q' err where "enqueue rd q i = (q', Inl err)" "outstanding q \<subseteq> outstanding q'"
  | q' m where "enqueue rd q i = (q', Inr m)" "outstanding q \<subseteq> outstanding q'" "(m, body_of i) \<in> outstanding q'"
proof (cases "snd (xadd rd q (body_of i))")
  case None
  then have "enqueue rd q i = (fst (xadd rd q (body_of i)), Inl (QueueUnavailableError ''Queue is unavailable.''))"
    by (auto simp: enqueue_def body_of_def split: prod.splits)
  with that(1) redis_lawsD(1)[OF assms] show ?thesis by blast
next
  case (Some m)
  then have "enqueue rd q i = (fst (xadd rd q (body_of i)), Inr m)"
    by (auto simp: enqueue_def body_of_def split: prod.splits)
  with that(2) redis_lawsD(1,2)[OF assms] Some show ?thesis by blast
qed

lemma inv_dispatch:
  assumes "redis_laws rd outstanding" "0 \<le> base" "sys_inv outstanding s"
    and "ready_outbox False (sys_db s) (sys_clock s) n = Inr events" "e \<in> set events"
    and "dispatch_event rd base f (sys_clock s) (sys_db s) (sys_queue s) e = (db', q', r)"
  shows "sys_inv outstanding (s\<lparr>sys_db := db', sys_queue := q'\<rparr>)"
proof -
  let ?c = "sys_clock s"
  note inv = assms(3)[unfolded sys_inv_def]
  note e = ready_event[OF assms(4,5)]
  show ?thesis
  proof (rule enqueue_cases[OF assms(1), of "sys_queue s" "oe_aggregate_id e"])
    fix q1 err
    assume q1: "enqueue rd (sys_queue s) (oe_aggregate_id e) = (q1, Inl err)"
      "outstanding (sys_queue s) \<subseteq> outstanding q1"
    have db': "db' = fst (mark_outbox_failed f (sys_db s) (oe_event_id e) ?c base)" "q' = q1"
      using assms(6) q1(1) by (auto simp: dispatch_event_def split: prod.splits sum.splits)
    have "safe (sys_db s) (outstanding q1) ?c" using inv q1(2) by (auto intro: safe_queue)
    then have "safe db' (outstanding q1) ?c" unfolding db'
      using inv e(1,3) assms(2) by (intro safe_outbox_failed) auto
    moreover have "job_step (sys_db s) db'" unfolding db' by (rule js_outbox_failed)
    moreover have "db_jobs db' = db_jobs (sys_db s)" unfolding db'
      by (rule outbox_failed_db_cases[of "sys_db s" f "oe_event_id e" ?c base]) (use inv in auto)
    ultimately show ?thesis using inv job_step_ok by (auto simp: sys_inv_def db' ids_ok_def)
  next
    fix q1 m
    assume q1: "enqueue rd (sys_queue s) (oe_aggregate_id e) = (q1, Inr m)"
      "outstanding (sys_queue s) \<subseteq> outstanding q1" "(m, body_of (oe_aggregate_id e)) \<in> outstanding q1"
    have db': "db' = fst (mark_outbox_published f (sys_db s) (oe_event_id e) ?c)" "q' = q1"
      using assms(6) q1(1) by (auto simp: dispatch_event_def split: prod.splits sum.splits)
    have "safe (sys_db s) (outstanding q1) ?c" using inv q1(2) by (auto intro: safe_queue)
    then have "safe db' (outstanding q1) ?c" unfolding db'
      using inv e(1,3) q1(3) by (intro safe_published) auto
    moreover have "job_step (sys_db s) db'" unfolding db' by (rule js_published)
    moreover have "db_jobs db' = db_jobs (sys_db s)" unfolding db'
      by (rule published_db_cases[of "sys_db s" f "oe_event_id e" ?c]) (use inv in auto)
    ultimately show ?thesis using inv job_step_ok by (auto simp: sys_inv_def db' ids_ok_def)
  qed
qed

lemma start_cases:
  assumes "start_message rd wk f1 f2 db q msg now = (db', q', r)" "db_ok db"
  obtains "db' = db" "q' = q"
  | "db' = db" "q' = fst (xack rd q (qm_message_id msg))"
    "\<And>j. get_job db (qm_evaluation_id msg) = Some j \<Longrightarrow> waiting j \<Longrightarrow> \<not> due_by j now"
  | "db' = fst (claim f2 db (qm_evaluation_id msg) (wk_worker_id wk) now (wk_lease_seconds wk))" "q' = q"
proof -
  let ?i = "qm_evaluation_id msg" and ?w = "wk_worker_id wk" and ?l = "wk_lease_seconds wk"
  have ack: "fst (acknowledge rd q (qm_message_id msg)) = fst (xack rd q (qm_message_id msg))"
    by (rule acknowledge_queue)
  show ?thesis
  proof (cases "f1 \<or> (\<exists>j. get_job db ?i = Some j \<and> waiting j)")
    case False
    then have "db' = db \<and> q' = fst (xack rd q (qm_message_id msg))"
      using assms(1) ack
      by (auto simp: start_message_def get_def Let_def waiting_def
          split: option.splits prod.splits sum.splits if_splits)
    with False that(2) show ?thesis by blast
  next
    case True
    show ?thesis
    proof (cases "f1")
      case True
      then have "db' = db \<and> q' = q" using assms(1) by (auto simp: start_message_def get_def Let_def)
      with that(1) show ?thesis by blast
    next
      case nf: False
      with True obtain j where j: "get_job db ?i = Some j" "waiting j" by blast
      have id: "ej_evaluation_id j = ?i" using row_get_key[OF j(1)] by simp
      have nt: "ej_status j \<notin> TERMINAL_JOB_STATUSES" "ej_status j \<in> {QUEUED, RETRY_WAIT}"
        using j(2) by (auto simp: waiting_def TERMINAL_JOB_STATUSES_def)
      have st: "start_message rd wk f1 f2 db q msg now =
          (case claim f2 db ?i ?w now ?l of
                 (db', Inl (PersistenceFailure _)) \<Rightarrow> (db', q, Ignored)
               | (db', Inl _) \<Rightarrow> (db', q, StartRaised)
               | (db', Inr None) \<Rightarrow> (case acknowledge rd q (qm_message_id msg) of
                   (q', Inl _) \<Rightarrow> (db', q', StartRaised)
                 | (q', Inr _) \<Rightarrow> (db', q', Acknowledged))
               | (db', Inr (Some claimed)) \<Rightarrow> (db', q, Claimed claimed))"
        using nf j(1) nt by (simp add: start_message_def get_def Let_def id)
      show ?thesis
      proof (cases "snd (claim f2 db ?i ?w now ?l) = Inr None")
        case True
        then have f2: "\<not> f2" by (auto simp: claim_def)
        have nc: "\<not> claimable j now"
          using True f2 claim_taken[OF assms(2) j(1), of now ?w ?l] by (cases f2) auto
        have "claim f2 db ?i ?w now ?l = (db, Inr None)"
          using claim_refused[of db ?i now ?w ?l] nc j(1) f2 by simp
        then have "db' = db \<and> q' = fst (xack rd q (qm_message_id msg))"
          using assms(1) st ack by (auto split: prod.splits sum.splits)
        moreover have "job_ok j" using get_job_ok(1)[OF assms(2) j(1)] .
        then have "\<not> due_by j now" using nc j(2)
          by (auto simp: claimable_def waiting_def due_by_def job_ok_def split: option.splits)
        ultimately show ?thesis using that(2) j(1) by auto
      next
        case False
        then have "db' = fst (claim f2 db ?i ?w now ?l) \<and> q' = q"
          using assms(1) st by (auto split: prod.splits sum.splits option.splits repo_error.splits)
        with that(3) show ?thesis by blast
      qed
    qed
  qed
qed

lemma inv_start:
  assumes "redis_laws rd outstanding" "sys_inv outstanding s" "delivered (outstanding (sys_queue s)) msg"
    and "start_message rd wk f1 f2 (sys_db s) (sys_queue s) msg (sys_clock s) = (db', q', r)"
  shows "sys_inv outstanding (s\<lparr>sys_db := db', sys_queue := q'\<rparr>)"
proof -
  note inv = assms(2)[unfolded sys_inv_def]
  have ok: "db_ok (sys_db s)" using inv by simp
  show ?thesis
  proof (rule start_cases[OF assms(4) ok])
    assume "db' = sys_db s" "q' = fst (xack rd (sys_queue s) (qm_message_id msg))"
      "\<And>j. get_job (sys_db s) (qm_evaluation_id msg) = Some j \<Longrightarrow> waiting j \<Longrightarrow> \<not> due_by j (sys_clock s)"
    then show ?thesis
      using inv safe_ack[OF _ assms(3) redis_lawsD(3)[OF assms(1)]]
      by (simp add: sys_inv_def)
  next
    assume "db' = fst (claim f2 (sys_db s) (qm_evaluation_id msg) (wk_worker_id wk) (sys_clock s) (wk_lease_seconds wk))"
      "q' = sys_queue s"
    then show ?thesis using inv ids_claim safe_claim claim_db_ok by (auto simp: sys_inv_def)
  qed (use assms(2) in \<open>simp add: sys_inv_def\<close>)
qed

text \<open>
  The outcome of an evaluation, whatever it is, keeps the invariant, and a recorded outcome leaves
  the job finished or covered by a fresh event, so its message may be acknowledged.
\<close>

lemma fail_attempt_covered:
  assumes "db_ok db" "get_job db i = Some r" "ej_status r = RUNNING"
    and "fail_attempt db r cat code retryable now base = Inr (db', st)"
    and "get_job db' i = Some j" "waiting j"
  shows "event_covers (db_outbox db') j"
proof (rule fail_attempt_cases[OF assms(1-3), where retryable = retryable and base = base
      and now = now and c = cat and k = code])
  fix d
  let ?r' = "waiting_job (released_job r cat code now) (now + td_micros d)"
  assume "fail_attempt db r cat code retryable now base =
        Inr (add_outbox i now (Some (now + td_micros d)) (db\<lparr>db_jobs := put_job ?r' (db_jobs db)\<rparr>), RETRY_WAIT)"
  then have db': "db' = add_outbox i now (Some (now + td_micros d)) (db\<lparr>db_jobs := put_job ?r' (db_jobs db)\<rparr>)"
    using assms(4) by simp
  have id: "ej_evaluation_id r = i" using row_get_key[OF assms(2)] by simp
  have "j = ?r'" using assms(2,5) id by (simp add: db')
  then show ?thesis
    by (auto simp: db' add_outbox_outbox event_covers_def outbox_record_def due_by_def waiting_job_def id
        released_job_def)
next
  assume "fail_attempt db r cat code retryable now base =
        Inr (db\<lparr>db_jobs := put_job (failed_job (released_job r cat code now) now) (db_jobs db)\<rparr>, FAILED)"
  then show ?thesis using assms row_get_key[OF assms(2)] by (auto simp: waiting_def)
qed

lemma record_failure_recorded:
  assumes "db_ok db" "record_failure f db i w d now base = (db', Inr (Some st))"
    and "get_job db' i = Some j" "waiting j"
  shows "event_covers (db_outbox db') j"
proof (rule record_failure_db_cases[OF assms(1), of f i w d now base])
  fix r db1 st1
  assume a: "get_job db i = Some r" "owned_by r w"
    "fail_attempt db r (fdn_category d) (fdn_code d) (fdn_retryable d) now base = Inr (db1, st1)"
    "record_failure f db i w d now base = (db1, Inr (Some st1))"
  have "ej_status r = RUNNING" using a(2) by (simp add: owned_by_def)
  from fail_attempt_covered[OF assms(1) a(1) this a(3)] a(4) assms(2-4) show ?thesis by simp
next
  assume u: "fst (record_failure f db i w d now base) = db"
  from assms(2) obtain r db1 where r: "\<not> f" "get_job db i = Some r" "owned_by r w"
    "fail_attempt db r (fdn_category d) (fdn_code d) (fdn_retryable d) now base = Inr (db1, st)"
    "commit db db1 (Some st) = (db', Inr (Some st))"
    by (auto simp: record_failure_def split: if_splits option.splits sum.splits)
      (auto simp: commit_def split: if_splits)
  then have run: "ej_status r = RUNNING" and "db1 = db'" by (auto simp: owned_by_def commit_def split: if_splits)
  with fail_attempt_covered[OF assms(1) r(2) run] r(4) assms(3,4) show ?thesis by simp
qed

lemma inv_fail_job:
  assumes "db_ok db" "ids_ok db" "safe db out c" "fail_job wk f db claimed err now = (db', r)"
  shows "db_ok db' \<and> ids_ok db' \<and> safe db' out c
    \<and> (r = Inr True \<longrightarrow> (\<forall>j. get_job db' (ej_evaluation_id claimed) = Some j \<longrightarrow> waiting j \<longrightarrow>
          event_covers (db_outbox db') j))"
proof -
  let ?i = "ej_evaluation_id claimed" and ?w = "wk_worker_id wk"
  let ?r = "record_failure f db ?i ?w (classify_failure err) now (wk_retry_base wk)"
  have db': "db' = fst ?r" using assms(4) by (auto simp: fail_job_def split: prod.splits sum.splits)
  have "db_ok db'" unfolding db' by (rule job_step_ok[OF js_failure assms(1)])
  moreover have "event_covers (db_outbox db') j"
    if rec: "r = Inr True" and j: "get_job db' ?i = Some j" "waiting j" for j
  proof -
    obtain st where "?r = (db', Inr (Some st))"
      using assms(4) rec by (auto simp: fail_job_def split: prod.splits sum.splits)
    from record_failure_recorded[OF assms(1) this j] show ?thesis .
  qed
  ultimately show ?thesis
    using ids_failure[OF assms(2,1)] safe_failure[OF assms(3,1,2)] by (auto simp: db')
qed

lemma complete_recorded:
  assumes "complete f1 f2 (\<lambda>d. d) db i w sn now = (db', Inr True)" "get_job db' i = Some j" "db_ok db"
  shows "\<not> waiting j"
proof (rule complete_db_cases[OF assms(3), of f1 f2 i w sn now])
  fix r
  assume a: "get_job db i = Some r" "fst (complete f1 f2 (\<lambda>d. d) db i w sn now) =
    db\<lparr>db_jobs := put_job (completed_job r now) (db_jobs db),
       db_evaluations := db_evaluations db @ [evaluation_record_from_snapshot sn]\<rparr>"
  then show ?thesis using assms(1,2) row_get_key[OF a(1)] by (auto simp: waiting_def)
next
  assume "fst (complete f1 f2 (\<lambda>d. d) db i w sn now) = db"
  then have [simp]: "db' = db" using assms(1) by simp
  have "ej_status j = COMPLETED \<or> ej_status j = RUNNING"
    using assms(1,2) by (auto simp: complete_def get_def split: if_splits option.splits sum.splits prod.splits)
  then show ?thesis by (auto simp: waiting_def)
qed

lemma inv_record_outcome:
  assumes "db_ok db" "ids_ok db" "safe db out c"
    and "record_outcome wk f1 f2 f3 db claimed evaluated now now = (db', r)"
  shows "db_ok db' \<and> ids_ok db' \<and> safe db' out c
    \<and> (r = Inr True \<longrightarrow> (\<forall>j. get_job db' (ej_evaluation_id claimed) = Some j \<longrightarrow> waiting j \<longrightarrow>
          event_covers (db_outbox db') j))"
proof (cases evaluated)
  case (Inl err)
  show ?thesis
  proof (cases "err = PersistenceException")
    case True
    then show ?thesis using Inl assms by (auto simp: record_outcome_def)
  next
    case False
    then have "fail_job wk f3 db claimed err now = (db', r)"
      using Inl assms(4) by (cases err) (simp_all add: record_outcome_def)
    from inv_fail_job[OF assms(1-3) this] show ?thesis .
  qed
next
  case (Inr sn)
  let ?c = "complete f1 f2 (\<lambda>d. d) db (ej_evaluation_id claimed) (wk_worker_id wk) sn now"
  obtain db1 r1 where c: "?c = (db1, r1)" by force
  have one: "db_ok db1" "ids_ok db1" "safe db1 out c"
    using job_step_ok[OF js_complete assms(1), of f1 f2] ids_complete[OF assms(2,1)]
      safe_complete[OF assms(3,1)] c by (metis fst_conv)+
  show ?thesis
  proof (cases r1)
    case r1: (Inr b)
    then have "db' = db1" "r = Inr b" using assms(4) Inr c by (auto simp: record_outcome_def)
    then show ?thesis using one complete_recorded[OF _ _ assms(1)] c r1 by auto
  next
    case (Inl e)
    show ?thesis
    proof (cases "\<exists>m. e = PersistenceFailure m")
      case True
      then show ?thesis using assms(4) Inr c Inl one by (auto simp: record_outcome_def)
    next
      case False
      then have "fail_job wk f3 db1 claimed OtherException now = (db', r)"
        using assms(4) Inr c Inl by (cases e) (auto simp: record_outcome_def)
      from inv_fail_job[OF one this] show ?thesis .
    qed
  qed
qed

lemma inv_finish:
  assumes "redis_laws rd outstanding" "sys_inv outstanding s" "delivered (outstanding (sys_queue s)) msg"
    and "ej_evaluation_id claimed = qm_evaluation_id msg"
    and "finish_message rd wk f1 f2 f3 (sys_db s) (sys_queue s) msg claimed t (sys_clock s) (sys_clock s) = (db', q')"
  shows "sys_inv outstanding (s\<lparr>sys_db := db', sys_queue := q'\<rparr>)"
proof -
  note inv = assms(2)[unfolded sys_inv_def]
  obtain db1 r where r: "record_outcome wk f1 f2 f3 (sys_db s) claimed
      (evaluate_job (wk_service wk) claimed t) (sys_clock s) (sys_clock s) = (db1, r)" by force
  have one: "db_ok db1" "ids_ok db1" "safe db1 (outstanding (sys_queue s)) (sys_clock s)"
    "r = Inr True \<Longrightarrow> get_job db1 (qm_evaluation_id msg) = Some j \<Longrightarrow> waiting j \<Longrightarrow> event_covers (db_outbox db1) j" for j
    using inv_record_outcome[OF _ _ _ r] inv assms(4) by auto
  show ?thesis
  proof (cases "r = Inr True")
    case True
    then have "db' = db1" "q' = fst (xack rd (sys_queue s) (qm_message_id msg))"
      using assms(5) r by (auto simp: finish_message_def acknowledge_queue)
    then show ?thesis
      using one True safe_ack[OF one(3) assms(3) redis_lawsD(3)[OF assms(1)]] by (auto simp: sys_inv_def)
  next
    case False
    then have "db' = db1" "q' = sys_queue s"
      using assms(5) r by (auto simp: finish_message_def split: sum.splits bool.splits)
    then show ?thesis using one by (simp add: sys_inv_def)
  qed
qed

lemma inv_step:
  assumes "redis_laws rd outstanding" "0 \<le> base" "sys_step rd outstanding base s s'" "sys_inv outstanding s"
  shows "sys_inv outstanding s'"
  using assms(3)
proof (cases rule: sys_step.cases)
  case (ss_submit job f1 f2 f3)
  then show ?thesis
    using assms(4) ids_create[of "sys_db s"] safe_create[of "sys_db s"]
      job_step_ok[OF js_create[of job "sys_db s" f1 f2 f3]]
    by (auto simp: sys_inv_def)
next
  case (ss_dispatch n events e f db' q' r)
  then show ?thesis using inv_dispatch[OF assms(1,2,4)] by blast
next
  case (ss_read c)
  then show ?thesis using assms(4) by (simp add: sys_inv_def consume_queue redis_lawsD[OF assms(1)])
next
  case (ss_reclaim c n)
  then show ?thesis using assms(4) by (simp add: sys_inv_def reclaim_queue redis_lawsD[OF assms(1)])
next
  case (ss_start msg wk f1 f2 db' q' r)
  then show ?thesis using inv_start[OF assms(1,4)] by blast
next
  case (ss_renew f i w l)
  then show ?thesis using assms(4) ids_renew safe_renew job_step_ok[OF js_renew] by (auto simp: sys_inv_def)
next
  case (ss_finish msg wk claimed f1 f2 f3 t db' q')
  then show ?thesis using inv_finish[OF assms(1,4)] by blast
next
  case (ss_recover f locked n)
  then show ?thesis using assms(4) ids_recover safe_recover job_step_ok[OF js_recover] by (auto simp: sys_inv_def)
next
  case (ss_tick t)
  then show ?thesis using assms(4) safe_queue[OF _ order_refl] by (auto simp: sys_inv_def)
qed

lemma sys_inv_run:
  assumes "redis_laws rd outstanding" "0 \<le> base" "sys_db s0 = empty_db"
    and "(sys_step rd outstanding base)\<^sup>*\<^sup>* s0 s"
  shows "sys_inv outstanding s"
  using assms(4)
proof (induction rule: rtranclp_induct)
  case base
  have "safe empty_db out c" for out c by (simp add: safe_def empty_db_def table_simps)
  then show ?case using empty_db_ok by (simp add: sys_inv_def assms(3) ids_ok_def empty_db_def)
qed (rule inv_step[OF assms(1,2)])

section \<open>A waiting job can always be run\<close>

text \<open>
  The reads of a worker, and what they are for the server. \<open>redis_delivers\<close>: an entry that is not acknowledged is delivered
  after some reads, by \<^verbatim>\<open>XREADGROUP\<close> if no consumer had it yet and by \<^verbatim>\<open>XAUTOCLAIM\<close> when it is pending long enough.
\<close>

datatype queue_read = Consume string | Reclaim string nat

fun read_message :: "'q redis \<Rightarrow> 'q \<Rightarrow> queue_read \<Rightarrow> 'q \<times> (queue_error + queue_message option)" where
  "read_message rd q (Consume consumer) = consume rd q consumer"
| "read_message rd q (Reclaim consumer minimum_idle_ms) = reclaim rd q consumer minimum_idle_ms"

fun raw_read :: "'q redis \<Rightarrow> 'q \<Rightarrow> queue_read \<Rightarrow> 'q \<times> stream_entry list option" where
  "raw_read rd q (Consume consumer) = xreadgroup rd q consumer"
| "raw_read rd q (Reclaim consumer minimum_idle_ms) = xautoclaim rd q consumer minimum_idle_ms"

definition read_all :: "'q redis \<Rightarrow> 'q \<Rightarrow> queue_read list \<Rightarrow> 'q" where
  "read_all rd = foldl (\<lambda>q r. fst (read_message rd q r))"

definition redis_delivers :: "'q redis \<Rightarrow> ('q \<Rightarrow> stream_entry set) \<Rightarrow> bool" where
  "redis_delivers rd outstanding \<longleftrightarrow>
     (\<forall>q x. x \<in> outstanding q \<longrightarrow>
        (\<exists>reads r. snd (raw_read rd (foldl (\<lambda>q r. fst (raw_read rd q r)) q reads) r) = Some [x]))"

lemma read_message_queue: "fst (read_message rd q r) = fst (raw_read rd q r)"
  by (cases r) (simp_all add: consume_queue reclaim_queue)

lemma read_message_parses:
  "snd (raw_read rd q r) = Some [x] \<Longrightarrow> snd (read_message rd q r) = map_sum id Some (parse_message x)"
  by (cases r) (auto simp: consume_def reclaim_def split: prod.splits)

text \<open>A pass of the publisher with a working queue puts a message for every event that it handles into the stream.\<close>

lemma published_Inr:
  assumes "db_ok db"
  obtains b where "mark_outbox_published False db e now = (fst (mark_outbox_published False db e now), Inr b)"
proof -
  have "db_ok (db\<lparr>db_outbox := row_put oe_event_id e (\<lambda>e. e\<lparr>oe_published_at := Some now,
      oe_attempt_count := oe_attempt_count e + 1, oe_last_error_code := None\<rparr>) (db_outbox db)\<rparr>)"
    by (rule outbox_update_ok[OF assms]) simp
  note commit = commit_ok[OF assms this]
  have "\<exists>b. snd (mark_outbox_published False db e now) = Inr b"
    unfolding mark_outbox_published_def if_False commit by (auto split: option.splits)
  with that show ?thesis by (metis prod.collapse)
qed

lemma dispatch_event_queues:
  assumes "redis_laws rd outstanding" "\<And>q b. snd (xadd rd q b) \<noteq> None" "db_ok db"
  obtains db' q' m where "dispatch_event rd base False now db q e = (db', q', Inr True)" "db_ok db'"
    "db_jobs db' = db_jobs db" "outstanding q \<subseteq> outstanding q'" "(m, body_of (oe_aggregate_id e)) \<in> outstanding q'"
proof -
  obtain q' m where q': "enqueue rd q (oe_aggregate_id e) = (q', Inr m)" "outstanding q \<subseteq> outstanding q'"
    "(m, body_of (oe_aggregate_id e)) \<in> outstanding q'"
    using assms(2)[of q "body_of (oe_aggregate_id e)"]
    by (rule_tac enqueue_cases[OF assms(1), of q "oe_aggregate_id e"])
      (auto simp: enqueue_def body_of_def split: prod.splits option.splits)
  define db' where "db' = fst (mark_outbox_published False db (oe_event_id e) now)"
  obtain b where b: "mark_outbox_published False db (oe_event_id e) now = (db', Inr b)"
    unfolding db'_def by (rule published_Inr[OF assms(3)])
  have "db_ok db' \<and> db_jobs db' = db_jobs db"
    by (rule published_db_cases[OF assms(3), of False "oe_event_id e" now]) (simp_all add: db'_def assms(3))
  with q' b that show ?thesis by (simp add: dispatch_event_def)
qed

lemma dispatch_loop_queues:
  assumes "redis_laws rd outstanding" "\<And>q b. snd (xadd rd q b) \<noteq> None" "db_ok db"
    and "dispatch_loop rd base (\<lambda>_. False) (\<lambda>_. now) db q events n = (db', q', r)"
  shows "db_ok db' \<and> db_jobs db' = db_jobs db \<and> outstanding q \<subseteq> outstanding q'
    \<and> (\<forall>e\<in>set events. \<exists>m. (m, body_of (oe_aggregate_id e)) \<in> outstanding q')"
  using assms(3,4)
proof (induction events arbitrary: db q n)
  case (Cons e events)
  obtain db1 q1 m where one: "dispatch_event rd base False now db q e = (db1, q1, Inr True)" "db_ok db1"
    "db_jobs db1 = db_jobs db" "outstanding q \<subseteq> outstanding q1" "(m, body_of (oe_aggregate_id e)) \<in> outstanding q1"
    by (rule dispatch_event_queues[OF assms(1,2) Cons.prems(1)])
  then have "dispatch_loop rd base (\<lambda>_. False) (\<lambda>_. now) db1 q1 events (n + 1) = (db', q', r)"
    using Cons.prems(2) by simp
  from Cons.IH[OF one(2) this] one(3-5) show ?case by auto
qed simp

lemma dispatch_once_covers:
  assumes "redis_laws rd outstanding" "\<And>q b. snd (xadd rd q b) \<noteq> None" "sys_inv outstanding s"
    and "get_job (sys_db s) i = Some j" "waiting j"
  obtains t limit db q r where "sys_clock s \<le> t"
    "dispatch_once rd base False (\<lambda>_. False) t (\<lambda>_. t) (sys_db s) (sys_queue s) limit = (db, q, r)"
    "db_ok db" "get_job db i = Some j" "message_covers (outstanding q) t j"
proof -
  note inv = assms(3)[unfolded sys_inv_def]
  have id: "ej_evaluation_id j = i" using row_get_key[OF assms(4)] by simp
  from inv assms(4,5) have "event_covers (db_outbox (sys_db s)) j
      \<or> message_covers (outstanding (sys_queue s)) (sys_clock s) j" by (auto simp: safe_def)
  then obtain e where e: "message_covers (outstanding (sys_queue s)) (sys_clock s) j
      \<or> e \<in> set (db_outbox (sys_db s)) \<and> oe_published_at e = None \<and> oe_aggregate_id e = i \<and> due_by j (oe_next_attempt_at e)"
    by (auto simp: event_covers_def id)
  define t where "t = max (sys_clock s) (oe_next_attempt_at e)"
  let ?n = "length (db_outbox (sys_db s))"
  let ?events = "take ?n (sort_key (\<lambda>e. (oe_created_at e, oe_event_id e))
             (filter (\<lambda>e. oe_published_at e = None \<and> oe_next_attempt_at e \<le> t) (db_outbox (sys_db s))))"
  obtain db q r where loop: "dispatch_loop rd base (\<lambda>_. False) (\<lambda>_. t) (sys_db s) (sys_queue s) ?events 0 = (db, q, r)"
    by (rule prod_cases3) (rule that)
  have pass: "dispatch_once rd base False (\<lambda>_. False) t (\<lambda>_. t) (sys_db s) (sys_queue s) ?n = (db, q, r)"
    using loop by (simp add: dispatch_once_def ready_outbox_def)
  have after: "db_ok db" "db_jobs db = db_jobs (sys_db s)" "outstanding (sys_queue s) \<subseteq> outstanding q"
    and sent: "\<forall>e\<in>set ?events. \<exists>m. (m, body_of (oe_aggregate_id e)) \<in> outstanding q"
    using dispatch_loop_queues[OF assms(1,2) _ loop] inv by blast+
  have later: "sys_clock s \<le> t" by (simp add: t_def)
  have "message_covers (outstanding q) t j"
  proof (cases "message_covers (outstanding (sys_queue s)) (sys_clock s) j")
    case True
    then show ?thesis using after(3) later by (rule message_covers_mono)
  next
    case False
    with e have e': "e \<in> set (db_outbox (sys_db s))" "oe_published_at e = None" "oe_aggregate_id e = i"
      "due_by j (oe_next_attempt_at e)" by auto
    then have "e \<in> set ?events" by (simp add: t_def)
    moreover have "due_by j t" by (rule due_by_mono[OF e'(4)]) (simp add: t_def)
    ultimately show ?thesis using sent e'(3) by (auto simp: message_covers_def id)
  qed
  with that[OF later pass after(1)] after(2) assms(4) show ?thesis by simp
qed

lemma covered_by_message_runs:
  assumes "redis_delivers rd outstanding" "db_ok db" "get_job db i = Some j" "waiting j" "i < 2 ^ 128"
    and "message_covers (outstanding q) now j"
  obtains reads r q' msg db' claimed where "read_message rd (read_all rd q reads) r = (q', Inr (Some msg))"
    "start_message rd wk False False db q' msg now = (db', q', Claimed claimed)"
    "ej_evaluation_id claimed = i" "status_of db' i = Some RUNNING"
proof -
  have id: "ej_evaluation_id j = i" using row_get_key[OF assms(3)] by simp
  from assms(6) obtain m where m: "(m, body_of i) \<in> outstanding q" "due_by j now"
    by (auto simp: message_covers_def id)
  from assms(1) m(1) obtain reads r where
    r: "snd (raw_read rd (foldl (\<lambda>q r. fst (raw_read rd q r)) q reads) r) = Some [(m, body_of i)]"
    unfolding redis_delivers_def by blast
  let ?msg = "\<lparr>qm_message_id = m, qm_evaluation_id = i\<rparr>"
  have "parse_message (m, body_of i) = Inr ?msg"
    by (simp add: parse_message_def body_of_def UUID_str_uuid[OF assms(5)])
  with read_message_parses[OF r] have "snd (read_message rd (read_all rd q reads) r) = Inr (Some ?msg)"
    by (simp add: read_all_def read_message_queue)
  then obtain q' where read: "read_message rd (read_all rd q reads) r = (q', Inr (Some ?msg))"
    by (metis prod.collapse)
  have cl: "claimable j now"
    using assms(4) m(2) get_job_ok(1)[OF assms(2,3)]
    by (auto simp: claimable_def waiting_def due_by_def job_ok_def split: option.splits)
  let ?r = "claimed_job (requeued j now) (wk_worker_id wk) now (wk_lease_seconds wk)"
  let ?db' = "db\<lparr>db_jobs := put_job ?r (db_jobs db)\<rparr>"
  have "start_message rd wk False False db q' ?msg now = (?db', q', Claimed ?r)"
    using assms(3,4) claim_taken[OF assms(2,3) cl]
    by (auto simp: start_message_def get_def Let_def waiting_def TERMINAL_JOB_STATUSES_def id)
  moreover have "status_of ?db' i = Some RUNNING" "ej_evaluation_id ?r = i" using assms(3) id by (simp_all add: status_of_def)
  ultimately show ?thesis using that read by blast
qed

section \<open>A concrete queue\<close>

text \<open>
  A stream as the number of entries ever added and the unacknowledged entries, the newest first;
  the identifier of the \<open>n\<close>-th entry is a string of length \<open>n\<close>.
\<close>

definition ex_redis :: "(nat \<times> stream_entry list) redis" where
  "ex_redis = \<lparr>
     xadd = (\<lambda>(n, es) b. ((n + 1, (replicate n (CHR ''m''), b) # es), Some (replicate n (CHR ''m'')))),
     xack = (\<lambda>(n, es) m. ((n, filter (\<lambda>x. fst x \<noteq> m) es), Some ())),
     xreadgroup = (\<lambda>(n, es) c. ((n, es), Some (take 1 (rev es)))),
     xautoclaim = (\<lambda>(n, es) c k. ((n, es), Some (take 1 (rev es))))\<rparr>"

definition ex_outstanding :: "nat \<times> stream_entry list \<Rightarrow> stream_entry set" where
  "ex_outstanding q = {(m, b). map_of (snd q) m = Some b \<and> length m < fst q}"

lemma ex_redis_laws: "redis_laws ex_redis ex_outstanding"
proof -
  have f: "map_of (filter (\<lambda>x. fst x \<noteq> m) es) k = (if k = m then None else map_of es k)"
    for m k and es :: "stream_entry list" by (induction es) auto
  show ?thesis
    by (auto simp: redis_laws_def ex_redis_def ex_outstanding_def inj_on_def f)
qed

section \<open>Properties\<close>

text \<open>
  C1: No submitted job is lost. Whatever the interleaving of submissions, publishers, workers,
  crashes, lease renewals and stale recovery, and whatever database and queue errors occur, a job
  that is QUEUED or in RETRY_WAIT always has an unpublished outbox event, or an unacknowledged
  message in the stream that is not earlier than its retry time. The hypotheses are the documented
  behaviour of Redis streams, a nonnegative retry delay and a shared clock.
\<close>
theorem no_job_lost:
  assumes "redis_laws rd outstanding" "0 \<le> base" "sys_db s0 = empty_db"
    and "(sys_step rd outstanding base)\<^sup>*\<^sup>* s0 s"
    and "get_job (sys_db s) i = Some j" "ej_status j \<in> {QUEUED, RETRY_WAIT}"
  shows "(\<exists>e\<in>set (db_outbox (sys_db s)). oe_published_at e = None \<and> oe_aggregate_id e = i)
    \<or> (\<exists>m. (m, body_of i) \<in> outstanding (sys_queue s))
       \<and> (case ej_next_attempt_at j of None \<Rightarrow> True | Some t \<Rightarrow> t \<le> sys_clock s)"
proof -
  have "sys_inv outstanding s" by (rule sys_inv_run[OF assms(1-4)])
  then have "event_covers (db_outbox (sys_db s)) j \<or> message_covers (outstanding (sys_queue s)) (sys_clock s) j"
    using assms(5,6) by (auto simp: sys_inv_def safe_def waiting_def)
  then show ?thesis using row_get_key[OF assms(5)]
    by (auto simp: event_covers_def message_covers_def due_by_def)
qed

definition ex_start :: "(nat \<times> stream_entry list) sys" where
  "ex_start = \<lparr>sys_db = empty_db, sys_queue = (0, []), sys_clock = 0\<rparr>"

definition ex_worker :: worker where
  "ex_worker = \<lparr>wk_worker_id = ''w2'', wk_service = ex_service, wk_lease_seconds = 60, wk_retry_base = 5\<rparr>"

definition ex_submitted :: "(nat \<times> stream_entry list) sys" where
  "ex_submitted = ex_start\<lparr>sys_db := ex_created\<rparr>"

lemma ex_submission: "(sys_step ex_redis ex_outstanding 5)\<^sup>*\<^sup>* ex_start ex_submitted"
proof -
  have "sys_step ex_redis ex_outstanding 5 ex_start
      (ex_start\<lparr>sys_db := fst (create False False False (\<lambda>d. d) (\<lambda>d. d) (sys_db ex_start) ex_job)\<rparr>)"
    by (rule ss_submit) (simp_all add: ex_new_job ex_start_def ex_job_def[THEN arg_cong, of ej_evaluation_id]
        empty_db_def)
  then show ?thesis by (simp add: ex_submitted_def ex_created_def ex_start_def)
qed

lemma ex_submitted_job:
  obtains j where "get_job (sys_db ex_submitted) 7 = Some j" "ej_status j \<in> {QUEUED, RETRY_WAIT}"
  using ex_states(1) by (auto simp: ex_submitted_def status_of_def)

theorem no_job_lost_witness:
  "(\<exists>e\<in>set (db_outbox (sys_db ex_submitted)). oe_published_at e = None \<and> oe_aggregate_id e = 7)
    \<or> (\<exists>m. (m, body_of 7) \<in> ex_outstanding (sys_queue ex_submitted))"
proof -
  obtain j where j: "get_job (sys_db ex_submitted) 7 = Some j" "ej_status j \<in> {QUEUED, RETRY_WAIT}"
    by (rule ex_submitted_job)
  have "sys_db ex_start = empty_db" by (simp add: ex_start_def)
  from no_job_lost[OF ex_redis_laws _ this ex_submission j] show ?thesis by auto
qed

text \<open>
  C2: A waiting job can always be run: from every reachable state, once the queue accepts messages again and delivers what is
  not acknowledged, one pass of the publisher and some reads of the queue, no earlier than the present, give a worker
  a message with which it claims the job. Whatever the worker and the reads before, the message comes from the queue.
\<close>
theorem waiting_job_can_run:
  assumes "redis_laws rd outstanding" "0 \<le> base" "sys_db s0 = empty_db"
    and "(sys_step rd outstanding base)\<^sup>*\<^sup>* s0 s"
    and "\<And>q b. snd (xadd rd q b) \<noteq> None" "redis_delivers rd outstanding"
    and "get_job (sys_db s) i = Some j" "ej_status j \<in> {QUEUED, RETRY_WAIT}"
  shows "\<exists>t limit db q r reads last_read q' msg db' claimed. sys_clock s \<le> t
    \<and> dispatch_once rd base False (\<lambda>_. False) t (\<lambda>_. t) (sys_db s) (sys_queue s) limit = (db, q, r)
    \<and> read_message rd (read_all rd q reads) last_read = (q', Inr (Some msg))
    \<and> start_message rd wk False False db q' msg t = (db', q', Claimed claimed)
    \<and> ej_evaluation_id claimed = i \<and> status_of db' i = Some RUNNING"
proof -
  have inv: "sys_inv outstanding s" by (rule sys_inv_run[OF assms(1-4)])
  have w: "waiting j" using assms(8) by (simp add: waiting_def)
  have range: "i < 2 ^ 128" using inv row_get_key[OF assms(7)] by (auto simp: sys_inv_def ids_ok_def)
  obtain t limit db q r where pass: "sys_clock s \<le> t"
    "dispatch_once rd base False (\<lambda>_. False) t (\<lambda>_. t) (sys_db s) (sys_queue s) limit = (db, q, r)"
    "db_ok db" "get_job db i = Some j" "message_covers (outstanding q) t j"
    by (rule dispatch_once_covers[OF assms(1,5) inv assms(7) w])
  obtain reads r' q' msg db' claimed where "read_message rd (read_all rd q reads) r' = (q', Inr (Some msg))"
    "start_message rd wk False False db q' msg t = (db', q', Claimed claimed)"
    "ej_evaluation_id claimed = i" "status_of db' i = Some RUNNING"
    by (rule covered_by_message_runs[OF assms(6) pass(3,4) w range pass(5)])
  with pass(1,2) show ?thesis by blast
qed

text \<open>A server that gives a reclaiming consumer the entry after as many others as its idle time says.\<close>

definition ex_delivering_redis :: "(nat \<times> stream_entry list) redis" where
  "ex_delivering_redis = ex_redis\<lparr>xautoclaim := (\<lambda>(n, es) c k. ((n, es), Some (take 1 (drop k es))))\<rparr>"

lemma ex_delivering_laws: "redis_laws ex_delivering_redis ex_outstanding" "redis_delivers ex_delivering_redis ex_outstanding"
proof -
  show "redis_laws ex_delivering_redis ex_outstanding"
    using ex_redis_laws by (auto simp: redis_laws_def ex_delivering_redis_def)
  show "redis_delivers ex_delivering_redis ex_outstanding"
    unfolding redis_delivers_def
  proof (intro allI impI)
    fix q x
    assume "x \<in> ex_outstanding q"
    then have "x \<in> set (snd q)" by (auto simp: ex_outstanding_def dest: map_of_SomeD)
    then obtain k where "k < length (snd q)" "snd q ! k = x" by (auto simp: in_set_conv_nth)
    then have "take 1 (drop k (snd q)) = [x]" by (simp add: hd_drop_conv_nth take_Suc)
    then show "\<exists>reads r. snd (raw_read ex_delivering_redis
        (foldl (\<lambda>q r. fst (raw_read ex_delivering_redis q r)) q reads) r) = Some [x]"
      by (intro exI[of _ "[]"] exI[of _ "Reclaim [] k"]) (cases q; simp add: ex_delivering_redis_def)
  qed
qed

lemma ex_delivering_submission: "(sys_step ex_delivering_redis ex_outstanding 5)\<^sup>*\<^sup>* ex_start ex_submitted"
proof -
  have "sys_step ex_delivering_redis ex_outstanding 5 ex_start
      (ex_start\<lparr>sys_db := fst (create False False False (\<lambda>d. d) (\<lambda>d. d) (sys_db ex_start) ex_job)\<rparr>)"
    by (rule ss_submit) (simp_all add: ex_new_job ex_start_def ex_job_def[THEN arg_cong, of ej_evaluation_id]
        empty_db_def)
  then show ?thesis by (simp add: ex_submitted_def ex_created_def ex_start_def)
qed

theorem waiting_job_can_run_witness:
  "\<exists>t limit db q r reads last_read q' msg db' claimed.
     dispatch_once ex_delivering_redis 5 False (\<lambda>_. False) t (\<lambda>_. t) (sys_db ex_submitted) (sys_queue ex_submitted) limit = (db, q, r)
     \<and> read_message ex_delivering_redis (read_all ex_delivering_redis q reads) last_read = (q', Inr (Some msg))
     \<and> start_message ex_delivering_redis ex_worker False False db q' msg t = (db', q', Claimed claimed)
     \<and> status_of db' 7 = Some RUNNING"
proof -
  obtain j where j: "get_job (sys_db ex_submitted) 7 = Some j" "ej_status j \<in> {QUEUED, RETRY_WAIT}"
    by (rule ex_submitted_job)
  have "sys_db ex_start = empty_db" by (simp add: ex_start_def)
  moreover have "snd (xadd ex_delivering_redis q b) \<noteq> None" for q b
    by (cases q) (simp add: ex_delivering_redis_def ex_redis_def)
  ultimately show ?thesis
    using waiting_job_can_run[OF ex_delivering_laws(1) _ _ ex_delivering_submission _ ex_delivering_laws(2) j, of ex_worker] by simp blast
qed

section \<open>Clock skew\<close>

text \<open>
  The shared clock is needed. A worker whose clock is behind the publisher's acknowledges the
  message of a retry that it does not consider due, and nothing delivers the job again.
\<close>

definition ex_retrying :: job_db where
  "ex_retrying = fst (record_failure False ex_running 7 ''w1''
     (classify_failure (EvaluationInfrastructure ''docker'')) 20 5)"

definition ex_message :: "nat \<Rightarrow> queue_message" where
  "ex_message n = \<lparr>qm_message_id = replicate n (CHR ''m''), qm_evaluation_id = 7\<rparr>"

definition ex_published :: "job_db \<times> (nat \<times> stream_entry list)" where
  "ex_published = (case dispatch_once ex_redis 5 False (\<lambda>_. False) 5000020 (\<lambda>_. 5000020) ex_retrying (0, []) 100
     of (db, q, _) \<Rightarrow> (db, q))"

definition ex_skewed :: "nat \<Rightarrow> job_db \<times> (nat \<times> stream_entry list) \<Rightarrow> job_db \<times> (nat \<times> stream_entry list)" where
  "ex_skewed n s = (case start_message ex_redis ex_worker False False (fst s) (snd s) (ex_message n) 5000019
     of (db, q, _) \<Rightarrow> (db, q))"

definition ex_stranded :: "job_db \<times> (nat \<times> stream_entry list)" where
  "ex_stranded = ex_skewed 1 (ex_skewed 0 ex_published)"

lemma ex_stranded_state:
  "status_of (fst ex_stranded) 7 = Some RETRY_WAIT" "snd (snd ex_stranded) = []"
  "list_all (\<lambda>e. oe_published_at e \<noteq> None) (db_outbox (fst ex_stranded))"
  "list_all (\<lambda>j. ej_status j \<noteq> RUNNING) (db_jobs (fst ex_stranded))"
  "map_option (\<lambda>j. ej_attempt_count j < ej_max_attempts j) (get_job (fst ex_stranded) 7) = Some True"
  by code_simp+

text \<open>
  C11: With a worker clock one microsecond behind the publisher's, a job that failed once can be
  stranded: it is in RETRY_WAIT with attempts left, the stream is empty, no publisher pass finds an
  event and no recovery finds a job, at any later time.
\<close>
theorem clock_skew_strands_retry:
  "status_of (fst ex_stranded) 7 = Some RETRY_WAIT \<and> snd (snd ex_stranded) = []
   \<and> map_option (\<lambda>j. ej_attempt_count j < ej_max_attempts j) (get_job (fst ex_stranded) 7) = Some True
   \<and> ready_outbox False (fst ex_stranded) now n = Inr []
   \<and> recover_stale False locked (fst ex_stranded) now base n = (fst ex_stranded, Inr 0)"
proof (intro conjI)
  let ?db = "fst ex_stranded"
  show "ready_outbox False ?db now n = Inr []"
    using ex_stranded_state(3) by (auto simp: ready_outbox_def list_all_iff filter_empty_conv)
  have "stale_jobs ?db locked now n = []"
    using ex_stranded_state(4) by (auto simp: stale_jobs_def list_all_iff filter_empty_conv)
  moreover have "db_constraints ?db"
    by code_simp
  ultimately show "recover_stale False locked ?db now base n = (?db, Inr 0)"
    by (simp add: recover_stale_def commit_def)
qed (rule ex_stranded_state(1,2,5))+

end
