(* ===== verification/AIService.thy ===== *)
theory AIService
  imports AIReview JobProperties
begin

text \<open>
  The AI service of \<^verbatim>\<open>src/app/ai/service.py\<close> with the payloads of \<^verbatim>\<open>src/app/ai/prompts.py\<close>: identity and
  provenance, the bounded orchestration of judges and adversarial tests, and the status decision. It always
  returns an assessment, and every assessment is in the range that the evaluation table accepts.
\<close>

section \<open>Identity and provenance\<close>

record ai_service =
  ai_enabled :: bool
  ai_provider :: "llm_provider option"
  ai_provider_id :: "string option"
  ai_judge_models :: "string list"
  ai_adversarial_model :: "string option"
  ai_judge :: "judge_service option"
  ai_adversarial :: "adversarial_service option"
  ai_max_input_bytes :: nat
  ai_max_output_tokens :: int
  ai_temperature :: rat
  ai_top_p :: rat
  ai_disagreement_threshold :: rat
  ai_read_bytes :: "string \<Rightarrow> bytes option" \<comment> \<open>\<open>None\<close> is an \<^verbatim>\<open>OSError\<close>\<close>
  ai_read_text :: "string \<Rightarrow> ai_exn + string"

definition ai_reference_fingerprint :: "ai_library \<Rightarrow> ai_service \<Rightarrow> registered_task \<Rightarrow> string option" where
  "ai_reference_fingerprint lib ai task =
     (case rt_reference_path task of
        None \<Rightarrow> None
      | Some path \<Rightarrow> map_option (al_sha lib) (ai_read_bytes ai path))"

definition ai_identity_of :: "ai_library \<Rightarrow> ai_service \<Rightarrow> registered_task \<Rightarrow> ai_identity" where
  "ai_identity_of lib ai task =
     \<lparr>ii_enabled = ai_enabled ai, ii_policy_version = AI_SCORING_POLICY_VERSION,
      ii_judge_prompt_version = JUDGE_PROMPT_VERSION, ii_judge_prompt_hash = text_hash lib JUDGE_SYSTEM_PROMPT,
      ii_adversarial_prompt_version = ADVERSARIAL_PROMPT_VERSION,
      ii_adversarial_prompt_hash = text_hash lib ADVERSARIAL_SYSTEM_PROMPT,
      ii_provider_id = (if ai_enabled ai then ai_provider_id ai else None),
      ii_judge_models = (if ai_enabled ai then ai_judge_models ai else []),
      ii_adversarial_model = (if ai_enabled ai then ai_adversarial_model ai else None),
      ii_temperature = ai_temperature ai, ii_top_p = ai_top_p ai,
      ii_max_output_tokens = ai_max_output_tokens ai,
      ii_reference_fingerprint = ai_reference_fingerprint lib ai task\<rparr>"

definition provenance :: "ai_identity \<Rightarrow> ai_provenance" where
  "provenance i =
     \<lparr>pv_policy_version = ii_policy_version i, pv_judge_prompt_version = ii_judge_prompt_version i,
      pv_judge_prompt_hash = ii_judge_prompt_hash i,
      pv_adversarial_prompt_version = ii_adversarial_prompt_version i,
      pv_adversarial_prompt_hash = ii_adversarial_prompt_hash i, pv_provider_id = ii_provider_id i,
      pv_judge_models = ii_judge_models i, pv_adversarial_model = ii_adversarial_model i,
      pv_temperature = ii_temperature i, pv_top_p = ii_top_p i, pv_max_output_tokens = ii_max_output_tokens i,
      pv_reference_fingerprint = ii_reference_fingerprint i\<rparr>"

section \<open>Payloads\<close>

definition py_opt :: "('a \<Rightarrow> pyval) \<Rightarrow> 'a option \<Rightarrow> pyval" where
  "py_opt f x = (case x of None \<Rightarrow> PyNone | Some v \<Rightarrow> f v)"

definition deterministic_evidence :: "ai_library \<Rightarrow> evaluation_snapshot \<Rightarrow> pyval" where
  "deterministic_evidence lib s = json_object
     [(''score'', PyFloat (sn_final_score s)),
      (''score_breakdown'', al_dump_breakdown lib (sn_score_breakdown s)),
      (''tests'', al_dump_tests lib (sn_tests s)),
      (''oom_killed'', PyBool (sn_oom_killed s)),
      (''execution_findings'', PyList (map (al_dump_finding lib) (sn_execution_findings s))),
      (''analysis_findings'', PyList (map (al_dump_finding lib) (sn_analysis_findings s))),
      (''complexity'', py_opt (al_dump_complexity lib) (sn_complexity s))]"

definition judge_payload :: "pyval \<Rightarrow> string \<Rightarrow> pyval \<Rightarrow> pyval" where
  "judge_payload task candidate_source evidence = json_object
     [(''public_task'', task), (''deterministic_evidence'', evidence),
      (''untrusted_candidate_source'', PyStr candidate_source)]"

definition adversarial_payload :: "pyval \<Rightarrow> string \<Rightarrow> pyval \<Rightarrow> pyval" where
  "adversarial_payload task candidate_source summary = json_object
     [(''public_task'', task), (''deterministic_summary'', summary),
      (''untrusted_candidate_source'', PyStr candidate_source)]"

definition line_count :: "string \<Rightarrow> nat" where
  "line_count s = length (splitlines s)"

section \<open>Assessments\<close>

fun ai_status_value :: "ai_status \<Rightarrow> string" where
  "ai_status_value AI_Disabled = ''disabled''"
| "ai_status_value AI_Completed = ''completed''"
| "ai_status_value AI_Partial = ''partial''"
| "ai_status_value AI_Unavailable = ''unavailable''"
| "ai_status_value AI_Disputed = ''disputed''"
| "ai_status_value AI_Skipped = ''skipped''"

definition assessment ::
    "ai_library \<Rightarrow> ai_status \<Rightarrow> string option \<Rightarrow> evaluation_snapshot \<Rightarrow> ai_identity \<Rightarrow> ai_provenance
     \<Rightarrow> rat option \<Rightarrow> rat option \<Rightarrow> bool \<Rightarrow> rat option \<Rightarrow> judge_result list \<Rightarrow> adversarial_result option
     \<Rightarrow> ai_assessment" where
  "assessment lib status reason snapshot identity prov ai_score judge_score judge_disputed spread judge_results adversarial =
     (let artifacts = json_object
            [(''deterministic_reproducibility_fingerprint'', PyStr (sn_reproducibility_fingerprint snapshot)),
             (''identity'', al_dump_identity lib identity),
             (''status'', PyStr (ai_status_value status)),
             (''reason'', py_opt PyStr reason),
             (''judge_response_hashes'', PyList (map (PyStr \<circ> jr_raw_response_hash) judge_results)),
             (''adversarial_response_hash'',
              py_opt PyStr (case adversarial of None \<Rightarrow> None | Some r \<Rightarrow> av_raw_response_hash r))]
      in \<lparr>aa_status = status, aa_reason = reason, aa_ai_score = ai_score, aa_judge_score = judge_score,
          aa_judge_disputed = judge_disputed, aa_judge_disagreement_spread = spread,
          aa_judge_results = judge_results, aa_adversarial_tests = adversarial, aa_provenance = prov,
          aa_ai_reproducibility_fingerprint = text_hash lib (al_canonical_json lib artifacts)\<rparr>)"

definition judge_one ::
    "ai_library \<Rightarrow> judge_service \<Rightarrow> pyval \<Rightarrow> nat \<Rightarrow> string \<Rightarrow> string + judge_result" where
  "judge_one lib jg payload lines model =
     (case judge lib jg model payload lines of
        Inr r \<Rightarrow> Inr r
      | Inl (ProviderError code) \<Rightarrow> Inl code
      | Inl _ \<Rightarrow> Inl ''provider_unavailable'')"

text \<open>The outcomes of the judges, in the order of the models: the results and the codes of the errors.\<close>

definition run_judges ::
    "ai_library \<Rightarrow> judge_service \<Rightarrow> string list \<Rightarrow> pyval \<Rightarrow> nat \<Rightarrow> judge_result list \<times> string list" where
  "run_judges lib jg models payload lines =
     (let outcomes = map (judge_one lib jg payload lines) models
      in (opt_filter (\<lambda>x. case x of Inr r \<Rightarrow> Some r | Inl _ \<Rightarrow> None) outcomes,
          opt_filter (\<lambda>x. case x of Inr _ \<Rightarrow> None | Inl c \<Rightarrow> Some c) outcomes))"

definition empty_adversarial :: "ai_component_status \<Rightarrow> string \<Rightarrow> adversarial_result" where
  "empty_adversarial status reason =
     \<lparr>av_status = status, av_reason = Some reason, av_generated = 0, av_structurally_accepted = 0,
      av_reference_valid = 0, av_candidate_passed = 0, av_candidate_failed = 0, av_robustness_score = None,
      av_tests = [], av_provider_id = None, av_model = None, av_prompt_version = None, av_prompt_hash = None,
      av_rendered_input_hash = None, av_provider_response_id = None, av_input_tokens = None,
      av_output_tokens = None, av_latency_ms = None, av_raw_response_hash = None\<rparr>"

definition run_adversarial ::
    "ai_library \<Rightarrow> ai_service \<Rightarrow> registered_task \<Rightarrow> pyval \<Rightarrow> string \<Rightarrow> adversarial_result" where
  "run_adversarial lib ai task payload candidate_source =
     (case rt_reference_path task of
        None \<Rightarrow> empty_adversarial Comp_Skipped ''reference_unavailable''
      | Some path \<Rightarrow>
     (case ai_adversarial ai of
        None \<Rightarrow> empty_adversarial Comp_Skipped ''sandbox_unavailable''
      | Some svc \<Rightarrow>
     (case (case ai_read_text ai path of
              Inl e \<Rightarrow> Inl e
            | Inr reference_source \<Rightarrow>
                adversarial_evaluate lib svc payload (ts_id (rt_specification task))
                  (ts_timeout_seconds (rt_specification task)) candidate_source reference_source) of
        Inr r \<Rightarrow> r
      | Inl (ProviderError code) \<Rightarrow> empty_adversarial Comp_Unavailable code
      | Inl OSError \<Rightarrow> empty_adversarial Comp_Skipped ''reference_unavailable''
      | Inl OtherException \<Rightarrow> empty_adversarial Comp_Unavailable ''adversarial_unavailable'')))"

text \<open>\<^verbatim>\<open>result.reason or \dots\<close>: an empty reason counts as none.\<close>

definition adversarial_reason :: "adversarial_result \<Rightarrow> string" where
  "adversarial_reason r =
     (case av_reason r of Some s \<Rightarrow> (if s = [] then ''adversarial_unavailable'' else s)
      | None \<Rightarrow> ''adversarial_unavailable'')"

text \<open>The status decision at the end of \<^verbatim>\<open>assess\<close>.\<close>

definition decide_status ::
    "bool \<Rightarrow> bool \<Rightarrow> bool \<Rightarrow> judge_result list \<Rightarrow> string list \<Rightarrow> adversarial_result \<Rightarrow> ai_status \<times> string option" where
  "decide_status disputed all_judges_valid adversarial_valid judge_results judge_errors adversarial =
     (let why = Some (case judge_errors of e # _ \<Rightarrow> e | [] \<Rightarrow> adversarial_reason adversarial)
      in if disputed then (AI_Disputed, Some ''judge_disagreement'')
         else if all_judges_valid \<and> adversarial_valid then (AI_Completed, None)
         else if judge_results \<noteq> [] \<or> adversarial_valid then (AI_Partial, why)
         else (AI_Unavailable, why))"

definition bare_assessment ::
    "ai_library \<Rightarrow> evaluation_snapshot \<Rightarrow> ai_status \<Rightarrow> string option \<Rightarrow> ai_identity \<Rightarrow> ai_assessment" where
  "bare_assessment lib snapshot status reason identity =
     assessment lib status reason snapshot identity (provenance identity) None None False None [] None"

text \<open>\<^verbatim>\<open>assess\<close> once the inputs are known to be small enough.\<close>

definition review ::
    "ai_library \<Rightarrow> ai_service \<Rightarrow> judge_service \<Rightarrow> evaluation_snapshot \<Rightarrow> registered_task \<Rightarrow> ai_identity
     \<Rightarrow> pyval \<Rightarrow> pyval \<Rightarrow> ai_assessment" where
  "review lib ai jg snapshot task identity judge_input adversarial_input =
     (let lines = line_count (sn_source_text snapshot);
          (judge_results, judge_errors) =
             run_judges lib jg (ai_judge_models ai) judge_input (if lines = 0 then 1 else lines);
          aggregate = (if judge_results = [] then None
             else case aggregate_judge_scores (map jr_score judge_results) of Inr a \<Rightarrow> Some a | Inl _ \<Rightarrow> None);
          judge_score = map_option fst aggregate;
          spread = map_option snd aggregate;
          disputed = (case spread of None \<Rightarrow> False | Some s \<Rightarrow> ai_disagreement_threshold ai < s);
          adversarial = run_adversarial lib ai task adversarial_input (sn_source_text snapshot);
          adversarial_valid = (av_status adversarial = Comp_Completed \<and> av_robustness_score adversarial \<noteq> None);
          all_judges_valid = (length judge_results = length (ai_judge_models ai) \<and> judge_errors = []);
          (status, reason) = decide_status disputed all_judges_valid adversarial_valid judge_results judge_errors adversarial;
          ai_score = (if status = AI_Completed
             then (case (judge_score, av_robustness_score adversarial) of
                     (Some j, Some r) \<Rightarrow> Some (calculate_ai_score j r) | _ \<Rightarrow> None)
             else None)
      in assessment lib status reason snapshot identity (provenance identity) ai_score judge_score disputed spread
           judge_results (Some adversarial))"

definition payload_size :: "ai_library \<Rightarrow> pyval \<Rightarrow> nat" where
  "payload_size lib payload = length (utf8 (al_canonical_json lib payload))"

definition assess ::
    "ai_library \<Rightarrow> ai_service \<Rightarrow> evaluation_snapshot \<Rightarrow> registered_task \<Rightarrow> ai_identity option \<Rightarrow> ai_assessment" where
  "assess lib ai snapshot task expected_identity =
     (let identity = ai_identity_of lib ai task in
      if \<not> ai_enabled ai then bare_assessment lib snapshot AI_Disabled None identity
      else if expected_identity \<noteq> None \<and> expected_identity \<noteq> Some identity
      then bare_assessment lib snapshot AI_Skipped (Some ''ai_identity_mismatch'') (the expected_identity)
      else case (ai_judge ai, ai_provider ai) of
        (Some jg, Some _) \<Rightarrow>
          (let task_payload = al_dump_task lib (rt_specification task);
               evidence = deterministic_evidence lib snapshot;
               judge_input = judge_payload task_payload (sn_source_text snapshot) evidence;
               adversarial_input = adversarial_payload task_payload (sn_source_text snapshot) evidence
           in if ai_max_input_bytes ai < payload_size lib judge_input
                 \<or> ai_max_input_bytes ai < payload_size lib adversarial_input
              then bare_assessment lib snapshot AI_Skipped (Some ''input_too_large'') identity
              else review lib ai jg snapshot task identity judge_input adversarial_input)
      | _ \<Rightarrow> bare_assessment lib snapshot AI_Unavailable (Some ''provider_unavailable'') identity)"

section \<open>Every assessment is sound\<close>

text \<open>
  What the clients rely on: the scores are percentages, there is a reason exactly when the review was
  neither disabled nor complete, only a complete review has an AI score, and it is complete only when
  every judge answered without a dispute and the adversarial tests completed.
\<close>

definition assessment_sound :: "string list \<Rightarrow> ai_assessment \<Rightarrow> bool" where
  "assessment_sound models a \<longleftrightarrow>
     assessment_in_range a \<and> score_column (aa_judge_disagreement_spread a)
     \<and> (aa_reason a = None \<longleftrightarrow> aa_status a \<in> {AI_Disabled, AI_Completed})
     \<and> (aa_judge_disputed a \<longleftrightarrow> aa_status a = AI_Disputed)
     \<and> (aa_ai_score a \<noteq> None \<longrightarrow> aa_status a = AI_Completed)
     \<and> (aa_status a = AI_Completed \<longrightarrow>
          map jr_model (aa_judge_results a) = models
          \<and> (\<exists>r. aa_adversarial_tests a = Some r \<and> av_status r = Comp_Completed \<and> av_robustness_score r \<noteq> None)
          \<and> (models \<noteq> [] \<longrightarrow> aa_ai_score a \<noteq> None))"

lemma assessment_fields:
  "aa_status (assessment lib st re sn i p a j d sp rs av) = st"
  "aa_reason (assessment lib st re sn i p a j d sp rs av) = re"
  "aa_ai_score (assessment lib st re sn i p a j d sp rs av) = a"
  "aa_judge_score (assessment lib st re sn i p a j d sp rs av) = j"
  "aa_judge_disputed (assessment lib st re sn i p a j d sp rs av) = d"
  "aa_judge_disagreement_spread (assessment lib st re sn i p a j d sp rs av) = sp"
  "aa_judge_results (assessment lib st re sn i p a j d sp rs av) = rs"
  "aa_adversarial_tests (assessment lib st re sn i p a j d sp rs av) = av"
  by (simp_all add: assessment_def Let_def)

lemma assessment_digest:
  "(\<And>x. length (al_sha lib x) = 64) \<Longrightarrow> length (aa_ai_reproducibility_fingerprint (assessment lib st re sn i p a j d sp rs av)) = 64"
  by (simp add: assessment_def Let_def text_hash_def)

lemma bare_sound:
  assumes "\<And>x. length (al_sha lib x) = 64" "(re = None) \<longleftrightarrow> st = AI_Disabled" "st \<in> {AI_Disabled, AI_Skipped, AI_Unavailable}"
  shows "assessment_sound models (bare_assessment lib sn st re i)"
  using assms by (auto simp: assessment_sound_def assessment_in_range_def bare_assessment_def assessment_fields
      assessment_digest score_column_def opt_bind_def)

lemma judge_model_of: "judge lib jg m p n = Inr r \<Longrightarrow> jr_model r = m"
  by (auto simp: judge_def split: sum.splits option.splits if_splits)

lemma judge_one_Inr: "judge_one lib jg payload lines m = Inr r \<Longrightarrow> judge lib jg m payload lines = Inr r"
  by (simp add: judge_one_def split: sum.splits ai_exn.splits)

lemma run_judges_results:
  assumes "run_judges lib jg models payload lines = (rs, es)"
  shows "\<forall>r \<in> set rs. is_percent (jr_score r)" "length rs + length es = length models"
    "es = [] \<Longrightarrow> map jr_model rs = models"
proof -
  let ?one = "judge_one lib jg payload lines"
  have rs: "rs = opt_filter (\<lambda>x. case x of Inr r \<Rightarrow> Some r | Inl _ \<Rightarrow> None) (map ?one models)"
    and es: "es = opt_filter (\<lambda>x. case x of Inr _ \<Rightarrow> None | Inl c \<Rightarrow> Some c) (map ?one models)"
    using assms by (simp_all add: run_judges_def Let_def)
  show "\<forall>r \<in> set rs. is_percent (jr_score r)"
    unfolding rs by (induction models) (auto split: sum.splits dest!: judge_one_Inr judge_score_of)
  show "length rs + length es = length models"
    unfolding rs es by (induction models) (auto split: sum.splits)
  show "es = [] \<Longrightarrow> map jr_model rs = models"
    unfolding rs es by (induction models) (auto split: sum.splits if_splits dest!: judge_one_Inr judge_model_of)
qed

lemma adversarial_robustness:
  assumes "adversarial_evaluate lib svc payload task_id timeout cand ref = Inr r" "av_robustness_score r = Some x"
  shows "is_percent x"
proof -
  from assms(1) obtain early st where "state_fair (\<lambda>n s t. av_svc_sandbox svc n s t task_id timeout) ref cand early st"
    "av_robustness_score r = (if early then None else robustness_of st)" by (rule adversarial_evaluate_Inr)
  with state_fair_counts(1)[OF this(1)] assms(2) show ?thesis
    by (intro robustness_percent[of st]) (auto split: if_splits)
qed

lemma run_adversarial_range: "score_column (av_robustness_score (run_adversarial lib ai task payload cand))"
proof -
  have ok: "score_column (av_robustness_score r)" if "adversarial_evaluate lib svc payload i t cand ref = Inr r" for svc i t ref r
    using adversarial_robustness[OF that] by (cases "av_robustness_score r") (auto simp: score_column_def is_percent_def)
  have empty: "score_column (av_robustness_score (empty_adversarial st re))" for st re
    by (simp add: empty_adversarial_def score_column_def)
  show ?thesis
    by (auto simp: run_adversarial_def empty intro: ok split: option.splits sum.splits ai_exn.splits)
qed


lemma decide_status_cases:
  assumes "decide_status disputed all_valid adv_valid rs es adv = (status, reason)"
  shows "(reason = None \<longleftrightarrow> status = AI_Completed)" "(disputed \<longleftrightarrow> status = AI_Disputed)"
    "status = AI_Completed \<Longrightarrow> all_valid \<and> adv_valid" "status \<noteq> AI_Disabled"
  using assms by (auto simp: decide_status_def Let_def split: if_splits)

lemma review_sound:
  assumes sha: "\<And>x. length (al_sha lib x) = 64"
  shows "assessment_sound (ai_judge_models ai) (review lib ai jg snapshot task identity ji advi)"
proof -
  define lines where "lines = (if line_count (sn_source_text snapshot) = 0 then 1 else line_count (sn_source_text snapshot))"
  obtain rs es where judges: "run_judges lib jg (ai_judge_models ai) ji lines = (rs, es)"
    by (cases "run_judges lib jg (ai_judge_models ai) ji lines")
  note res = run_judges_results[OF judges]
  define agg where "agg = (if rs = [] then None else
      case aggregate_judge_scores (map jr_score rs) of Inr a \<Rightarrow> Some a | Inl _ \<Rightarrow> None)"
  define disputed where "disputed = (case map_option snd agg of None \<Rightarrow> False | Some s \<Rightarrow> ai_disagreement_threshold ai < s)"
  define adv where "adv = run_adversarial lib ai task advi (sn_source_text snapshot)"
  define advv where "advv = (av_status adv = Comp_Completed \<and> av_robustness_score adv \<noteq> None)"
  define allv where "allv = (length rs = length (ai_judge_models ai) \<and> es = [])"
  obtain status reason where dec: "decide_status disputed allv advv rs es adv = (status, reason)"
    by (cases "decide_status disputed allv advv rs es adv")
  define ai_score where "ai_score = (if status = AI_Completed then
      (case (map_option fst agg, av_robustness_score adv) of (Some j, Some r) \<Rightarrow> Some (calculate_ai_score j r) | _ \<Rightarrow> None)
      else None)"
  have rev: "review lib ai jg snapshot task identity ji advi =
      assessment lib status reason snapshot identity (provenance identity) ai_score (map_option fst agg) disputed
        (map_option snd agg) rs (Some adv)"
    unfolding review_def Let_def lines_def[symmetric] judges prod.case
      agg_def[symmetric] disputed_def[symmetric] adv_def[symmetric] advv_def[symmetric] allv_def[symmetric]
      dec by (simp only: ai_score_def prod.case)
  have agg_range: "score_column (map_option fst agg)" "score_column (map_option snd agg)"
    using aggregate_percent[of "map jr_score rs"] res(1)
    by (auto simp: agg_def score_column_def is_percent_def split: sum.splits option.splits)
  have agg_some: "rs \<noteq> [] \<Longrightarrow> agg \<noteq> None"
    by (simp add: agg_def aggregate_judge_scores_def)
  have score: "score_column ai_score"
    using ai_score_percent by (auto simp: ai_score_def score_column_def is_percent_def split: option.splits)
  have adv_range: "score_column (av_robustness_score adv)" unfolding adv_def by (rule run_adversarial_range)
  note d = decide_status_cases[OF dec]
  have "map jr_model rs = ai_judge_models ai \<and> advv \<and> (ai_judge_models ai \<noteq> [] \<longrightarrow> ai_score \<noteq> None)"
    if c: "status = AI_Completed"
  proof -
    have m: "map jr_model rs = ai_judge_models ai" and v: advv using d(3)[OF c] res(3) by (auto simp: allv_def)
    have "ai_score \<noteq> None" if "ai_judge_models ai \<noteq> []"
    proof -
      have "rs \<noteq> []" using that m by auto
      with agg_some v c show ?thesis by (auto simp: ai_score_def advv_def)
    qed
    with m v show ?thesis by simp
  qed
  moreover have "ai_score \<noteq> None \<Longrightarrow> status = AI_Completed" by (simp add: ai_score_def split: if_splits)
  moreover have "status \<noteq> AI_Disabled" "reason = None \<longleftrightarrow> status = AI_Completed" "disputed \<longleftrightarrow> status = AI_Disputed"
    using d by blast+
  ultimately show ?thesis
    using agg_range score adv_range assessment_digest[OF sha]
    by (simp add: assessment_sound_def assessment_in_range_def rev assessment_fields opt_bind_def advv_def)
qed

lemma assess_assessment_sound:
  assumes "\<And>x. length (al_sha lib x) = 64"
  shows "assessment_sound (ai_judge_models ai) (assess lib ai snapshot task expected)"
  using bare_sound[OF assms] review_sound[OF assms, of ai]
  by (auto simp: assess_def Let_def split: option.splits)

text \<open>C12: Whatever the provider, the sandbox and the files do, the AI service returns a sound assessment
  (with 64-character digests): its AI, judge, robustness and disagreement scores are percentages, so that
  the evaluation can be stored; it has a reason exactly when it is neither disabled nor completed; it is
  disputed exactly when its status says so; only a completed assessment has an AI score, and it is completed
  only when every configured judge model answered, in order and without a dispute, and the adversarial
  tests completed, and then it has an AI score if any judge is configured. A disabled service answers
  \<open>disabled\<close>, and an expected identity that differs from the current one is never reviewed.\<close>
theorem assess_sound:
  assumes "\<And>x. length (al_sha lib x) = 64"
  shows "assessment_sound (ai_judge_models ai) (assess lib ai snapshot task expected)
    \<and> (ai_enabled ai \<longleftrightarrow> aa_status (assess lib ai snapshot task expected) \<noteq> AI_Disabled)
    \<and> (ai_enabled ai \<and> expected \<noteq> None \<and> expected \<noteq> Some (ai_identity_of lib ai task) \<longrightarrow>
         aa_status (assess lib ai snapshot task expected) = AI_Skipped
         \<and> aa_judge_results (assess lib ai snapshot task expected) = [])"
proof -
  have bare: "aa_status (bare_assessment lib snapshot st re i) = st"
    "aa_judge_results (bare_assessment lib snapshot st re i) = []" for st re i
    by (simp_all add: bare_assessment_def assessment_fields)
  have rev: "aa_status (review lib ai jg snapshot task i j v) \<noteq> AI_Disabled" for jg i j v
    by (auto simp: review_def Let_def assessment_fields split: prod.split dest: decide_status_cases(4))
  show ?thesis
    using assess_assessment_sound[OF assms] rev
    by (auto simp: assess_def Let_def bare split: option.splits)
qed

text \<open>One judge and one adversarial test that the candidate fails: a completed review.\<close>

definition ex_ai :: ai_service where
  "ex_ai = \<lparr>ai_enabled = True, ai_provider = Some (av_svc_provider ex_adversarial), ai_provider_id = Some ''p'',
     ai_judge_models = [''m''], ai_adversarial_model = Some ''m'',
     ai_judge = Some \<lparr>jg_provider = av_svc_provider ex_adversarial, jg_provider_id = ''p'',
        jg_max_output_tokens = 100, jg_temperature = 0, jg_top_p = 1\<rparr>,
     ai_adversarial = Some ex_adversarial, ai_max_input_bytes = 1000,
     ai_max_output_tokens = 100, ai_temperature = 0, ai_top_p = 1, ai_disagreement_threshold = 20,
     ai_read_bytes = (\<lambda>_. None), ai_read_text = (\<lambda>_. Inr ''good'')\<rparr>"

definition ex_ai_task :: registered_task where
  "ex_ai_task = \<lparr>rt_specification = \<lparr>ts_id = ''t'', ts_title = ''T'', ts_description = ''D'', ts_language = ''python'',
     ts_entrypoint = None, ts_timeout_seconds = 5, ts_version = ''1''\<rparr>, rt_tests_path = ''tests'',
     rt_reference_path = Some ''solution.py'', rt_revision = 1\<rparr>"

theorem assess_sound_witness:
  "aa_status (assess ex_library ex_ai ex_snapshot ex_ai_task None) = AI_Completed
   \<and> aa_ai_score (assess ex_library ex_ai ex_snapshot ex_ai_task None) \<noteq> None"
proof -
  have sha: "\<And>x. length (al_sha ex_library x) = 64" by (simp add: ex_library_def ex_sha_length)
  have comp: "aa_status (assess ex_library ex_ai ex_snapshot ex_ai_task None) = AI_Completed"
    by (simp add: Let_def assess_def review_def run_judges_def judge_one_def judge_def judge_output_valid_def is_percent_def
        ex_ai_def ex_ai_task_def ex_library_def ex_adversarial_def payload_size_def utf8_def utf8_char_def
        aggregate_judge_scores_def fsub_def run_adversarial_def adversarial_evaluate_def ex_run_def
        deduplicate_and_validate_def proposal_valid_def starts_with_def name_char_def text_hash_def validate_test_def
        MAX_GENERATED_TEST_BYTES_def MAX_TOTAL_GENERATED_TEST_BYTES_def adversarial_round_def
        successful_test_run_def robustness_of_def decide_status_def assessment_fields)
  from this assess_sound[OF sha, of ex_ai ex_snapshot ex_ai_task None] show ?thesis
    by (simp add: assessment_sound_def ex_ai_def)
qed

end
