(* ===== verification/EndToEnd.thy ===== *)
theory EndToEnd
  imports PythonRunner DeliverySafety AIService
begin

text \<open>
  The composition of the worker, the evaluation service, the AI service and the job repository: a worker
  that still owns its job always settles it. Either the evaluation succeeds, and its snapshot meets
  every constraint of the table, is stored and reads back; or it fails, and the failure is recorded with
  the status that the retry policy gives it. In both cases the message is acknowledged.
\<close>

section \<open>Evaluations of a worker\<close>

text \<open>
  The service of a deployment: real digests, runners whose results are those of the Docker runner or of the local one, for
  any daemon and any process, and the AI service of the model or none.
\<close>

definition deployed :: "ai_library \<Rightarrow> ai_service \<Rightarrow> evaluation_service \<Rightarrow> bool" where
  "deployed lib ai es \<longleftrightarrow> es_assess es \<in> {None, Some (assess lib ai)} \<and> (\<forall>runner\<in>snd ` set (en_runners (es_engine es)). backed runner)
     \<and> (\<forall>x. length (es_sha es x) = 64) \<and> (\<forall>x. length (al_sha lib x) = 64)"

lemma EvaluationRequest_code: "EvaluationRequest t l c = Inr rq \<Longrightarrow> rq_code rq = c \<and> c \<noteq> []"
  by (auto simp: EvaluationRequest_def reject_blank_code_def py_strip_def split: sum.splits if_splits)

lemma validated_request_code: "validated_request es job = Inr rq \<Longrightarrow> rq_code rq \<noteq> []"
  by (auto simp: validated_request_def Let_def dest: EvaluationRequest_code split: prod.splits if_splits sum.splits)

lemma exception_of_persistence [simp]: "exception_of e \<noteq> PersistenceException"
  by (cases e) simp_all

lemma evaluate_job_exception: "evaluate_job es job now \<noteq> Inl PersistenceException"
proof -
  have "validated_request es job \<noteq> Inl PersistenceException"
    by (auto simp: validated_request_def Let_def split: prod.splits if_splits sum.splits)
  then show ?thesis
    by (auto simp: evaluate_job_def map_sum_def split: sum.splits)
qed

lemma evaluate_job_storable:
  assumes "deployed lib ai es" "evaluate_job es job now = Inr s"
  shows "sn_evaluation_id s = ej_evaluation_id job" "evaluation_checks (evaluation_record_from_snapshot s)"
proof -
  from assms(2) obtain rq where rq: "validated_request es job = Inr rq"
    and s: "evaluate_snapshot es rq (ej_evaluation_id job) (ej_created_at job) now
      (Some (ej_expected_ai_identity job)) None = Inr s"
    by (auto simp: evaluate_job_def map_sum_def split: sum.splits)
  from s obtain out where "evaluate_outcome (es_show_g es) (es_show_n es) (es_engine es) rq None = Inr out"
    and id: "sn_evaluation_id s = ej_evaluation_id job" and
    ai: "sn_ai_assessment s = map_option (\<lambda>assess. assess (s\<lparr>sn_ai_assessment := None\<rparr>) (eo_task out)
      (Some (ej_expected_ai_identity job))) (es_assess es)"
    by (rule evaluate_snapshot_Inr)
  show "sn_evaluation_id s = ej_evaluation_id job" by (fact id)
  have "assessment_in_range a" if "sn_ai_assessment s = Some a" for a
    using that ai assms(1) assess_assessment_sound[of lib ai]
    by (auto simp: deployed_def assessment_sound_def)
  moreover have "counts_add_up (es_engine es)"
    by (rule backed_counts) (use assms(1) in \<open>auto simp: deployed_def\<close>)
  ultimately show "evaluation_checks (evaluation_record_from_snapshot s)"
    using evaluated_snapshot_storable[OF s] assms(1) validated_request_code[OF rq] by (simp add: deployed_def)
qed

section \<open>Recording the outcome\<close>

lemma fail_job_settles:
  assumes "db_ok db" "get_job db i = Some r" "owned_by r (wk_worker_id wk)" "ej_evaluation_id claimed = i"
  obtains db' where "fail_job wk False db claimed err now = (db', Inr True)"
    "status_of db' i = Some (if fdn_retryable (classify_failure err) \<and> ej_attempt_count r < ej_max_attempts r
       then RETRY_WAIT else FAILED)"
    "db_evaluations db' = db_evaluations db"
proof -
  let ?d = "classify_failure err"
  have run: "ej_status r = RUNNING" using assms(3) by (simp add: owned_by_def)
  have "\<exists>db'. fail_attempt db r (fdn_category ?d) (fdn_code ?d) (fdn_retryable ?d) now (wk_retry_base wk)
        = Inr (db', if fdn_retryable ?d \<and> ej_attempt_count r < ej_max_attempts r then RETRY_WAIT else FAILED)
      \<and> db_ok db' \<and> db_evaluations db' = db_evaluations db
      \<and> status_of db' i = Some (if fdn_retryable ?d \<and> ej_attempt_count r < ej_max_attempts r then RETRY_WAIT else FAILED)"
    by (rule fail_attempt_cases[OF assms(1,2) run, of "fdn_retryable ?d" "wk_retry_base wk" "fdn_category ?d" "fdn_code ?d" now])
      (use assms(2) row_get_key[OF assms(2)] in \<open>auto simp: status_of_def\<close>)
  then show ?thesis
    using that assms by (auto simp: fail_job_def record_failure_def commit_ok[OF assms(1)])
qed


text \<open>
  C3: A worker that still owns its job settles it, whatever the Docker daemon, the candidate, the analyzers, the model
  provider and the Redis server do. The engine has the modelled runners, Docker and local, which may also raise, and the
  digests have 64 characters. If the evaluation succeeds and the database accepts its row, the job is COMPLETED, the row
  meets every check constraint of the evaluations table, and the evaluation reads back as exactly the snapshot that was
  computed. If the evaluation succeeds and the driver refuses the row (because the database is unavailable, or does not
  take a text in it, as PostgreSQL does not take NUL), then nothing is stored and the message stays pending. If the
  evaluation fails, also by an unexpected exception, then no evaluation is stored, and with a database that is available
  the job waits for its next attempt if the failure is one of the infrastructure and attempts are left, and is FAILED if
  not. The message is acknowledged exactly in the first and the last case.
\<close>
theorem finish_message_settles:
  assumes "job_step\<^sup>*\<^sup>* empty_db db" "get_job db i = Some r" "owned_by r (wk_worker_id wk)"
    and "ej_evaluation_id claimed = i" "deployed lib ai (wk_service wk)"
    and "finish_message rd wk refused f False db q msg claimed evaluated_at completed_at failed_at = (db', q')"
  shows "case evaluate_job (wk_service wk) claimed evaluated_at of
       Inr s \<Rightarrow>
         if refused then db' = db \<and> q' = q
         else status_of db' i = Some COMPLETED \<and> get_evaluation False db' i = Inr (Some s)
           \<and> evaluation_checks (evaluation_record_from_snapshot s) \<and> q' = fst (acknowledge rd q (qm_message_id msg))
     | Inl e \<Rightarrow> status_of db' i = Some (if (\<exists>m. e = EvaluationInfrastructure m) \<and> ej_attempt_count r < ej_max_attempts r
           then RETRY_WAIT else FAILED) \<and> db_evaluations db' = db_evaluations db
         \<and> q' = fst (acknowledge rd q (qm_message_id msg))"
proof (cases "evaluate_job (wk_service wk) claimed evaluated_at")
  case (Inl e)
  then have p: "e \<noteq> PersistenceException" using evaluate_job_exception by blast
  obtain db1 where d: "fail_job wk False db claimed e failed_at = (db1, Inr True)"
    "status_of db1 i = Some (if fdn_retryable (classify_failure e) \<and> ej_attempt_count r < ej_max_attempts r
       then RETRY_WAIT else FAILED)" "db_evaluations db1 = db_evaluations db"
    using fail_job_settles[OF reachable_ok[OF assms(1)] assms(2-4)] by blast
  have "record_outcome wk refused f False db claimed (Inl e) completed_at failed_at = (db1, Inr True)"
    using d(1) p by (cases e) (simp_all add: record_outcome_def)
  moreover have "fdn_retryable (classify_failure e) \<longleftrightarrow> (\<exists>m. e = EvaluationInfrastructure m)" by (cases e) simp_all
  ultimately show ?thesis using assms(6) Inl d(2,3) by (auto simp: finish_message_def)
next
  case (Inr s)
  note ok = reachable_ok[OF assms(1)] and st = evaluate_job_storable[OF assms(5) Inr]
  have id: "sn_evaluation_id s = i" using st(1) assms(4) by simp
  show ?thesis
  proof (cases refused)
    case True
    with Inr id assms(4,6) show ?thesis by (simp add: finish_message_def record_outcome_def complete_def)
  next
    case False
    let ?row = "evaluation_record_from_snapshot s"
    let ?db = "db\<lparr>db_jobs := put_job (completed_job r completed_at) (db_jobs db), db_evaluations := db_evaluations db @ [?row]\<rparr>"
    have "complete False f (\<lambda>d. d) db i (wk_worker_id wk) s completed_at = (?db, Inr True)"
      by (rule complete_result[OF ok assms(2,3) id st(2)])
    then have fin: "db' = ?db" "q' = fst (acknowledge rd q (qm_message_id msg))"
      using assms(4,6) Inr False by (auto simp: finish_message_def record_outcome_def)
    have "db_ok ?db" by (rule completed_db_ok[OF ok assms(2,3) id st(2)])
    then have "row_wf ev_evaluation_id (db_evaluations db')" using fin(1) by (simp add: db_ok_def db_constraints_def)
    then have "row_get ev_evaluation_id (db_evaluations db') i = Some ?row"
      using row_get_wf[of ev_evaluation_id "db_evaluations db'" ?row] fin(1) id by (simp add: stored_id)
    then have "get_evaluation False db' i = Inr (Some s)" by (simp add: get_evaluation_def snapshot_reads_back)
    moreover have "status_of db' i = Some COMPLETED"
      using fin(1) assms(2) row_get_key[OF assms(2)] by (auto simp: status_of_def)
    ultimately show ?thesis using Inr fin(2) st(2) False by simp
  qed
qed

text \<open>A local runner whose process reports two passed tests and a failed one.\<close>

definition ex_local_runner :: "registered_task \<Rightarrow> string \<Rightarrow> string + runner_result" where
  "ex_local_runner task code =
     map_sum (\<lambda>_. ''CancelledError'') id (python_evaluate (\<lambda>_. Some (session_report 2 1 0 3 1)) task 1
       (LocalEnded (Some 1) [] [] (ReportText [])))"

lemma ex_local_backed: "backed ex_local_runner"
  by (auto simp: backed_def ex_local_runner_def map_sum_def split: sum.splits)

definition ex_local_engine :: evaluation_engine where
  "ex_local_engine = ex_engine\<lparr>en_runners := [(''python'', ex_local_runner)]\<rparr>"

lemma ex_local_runs:
  "\<exists>out. evaluate_outcome (\<lambda>_. []) (\<lambda>_. ''1'') ex_local_engine (ex_request ''a'') None = Inr out"
proof -
  have "is_ok (prepare_request ex_local_engine (ex_request ''a'') None)" by code_simp
  then obtain task where "prepare_request ex_local_engine (ex_request ''a'') None = Inr task"
    by (auto simp: is_ok_def split: sum.splits)
  moreover have "\<exists>a. run_analysis ex_local_engine (ex_request ''a'') = Inr a"
    by (simp add: run_analysis_def ex_local_engine_def ex_engine_def analyze_def ex_ruff_def ex_radon_def)
  moreover have "the (map_of (en_runners ex_local_engine) (rq_language (ex_request ''a''))) = ex_local_runner"
    by (simp add: ex_local_engine_def ex_request_def)
  moreover obtain r where "ex_local_runner task (rq_code (ex_request ''a'')) = Inr r" "rr_infrastructure_error r = None"
    using plugin_counts_accepted[of "\<lambda>_. Some (session_report 2 1 0 3 1)" "[]" 2 1 0 3 1 task 1 "Some 1" "[]" "[]"]
    by (auto simp: ex_local_runner_def)
  ultimately show ?thesis by (auto simp: evaluate_outcome_def Let_def)
qed

text \<open>A job whose recorded identities are those of the service that evaluates it, with one AI judge.\<close>

definition ex_worker_service :: evaluation_service where
  "ex_worker_service = ex_service\<lparr>es_engine := ex_local_engine, es_assess := Some (assess ex_library ex_ai), es_identity := ai_identity_of ex_library ex_ai\<rparr>"

definition ex_ai_worker :: worker where
  "ex_ai_worker = \<lparr>wk_worker_id = ''w1'', wk_service = ex_worker_service, wk_lease_seconds = 60, wk_retry_base = 5\<rparr>"

definition ex_claimed :: "registered_task \<Rightarrow> evaluation_job" where
  "ex_claimed task = new_evaluation_job ex_worker_service (ex_request ''a'') task None 3 7 0"

lemma new_job_validates:
  assumes "prepare_request (es_engine es) rq None = Inr task" "ts_id (rt_specification task) = rq_task_id rq"
    and "EvaluationRequest (rq_task_id rq) (rq_language rq) (rq_code rq) = Inr rq"
  shows "validated_request es (new_evaluation_job es rq task key n i now) = Inr rq"
  using assms by (simp add: validated_request_def new_evaluation_job_def Let_def split: prod.splits)

lemma evaluate_snapshot_succeeds:
  "evaluate_outcome (es_show_g es) (es_show_n es) (es_engine es) rq rv = Inr out \<Longrightarrow>
     \<exists>s. evaluate_snapshot es rq i c d ai rv = Inr s"
  by (simp add: evaluate_snapshot_def Let_def split: option.splits)

lemma ex_claimed_evaluates:
  obtains task s where "evaluate_job ex_worker_service (ex_claimed task) 19 = Inr s"
    "ej_evaluation_id (ex_claimed task) = 7"
proof -
  have "case prepare_request ex_local_engine (ex_request ''a'') None of Inl e \<Rightarrow> False
      | Inr task \<Rightarrow> ts_id (rt_specification task) = ''a''" by code_simp
  then obtain task where task: "prepare_request ex_local_engine (ex_request ''a'') None = Inr task"
    "ts_id (rt_specification task) = ''a''" by (auto split: sum.splits)
  have "EvaluationRequest (rq_task_id (ex_request ''a'')) (rq_language (ex_request ''a'')) (rq_code (ex_request ''a''))
      = Inr (ex_request ''a'')" by code_simp
  with task have v: "validated_request ex_worker_service (ex_claimed task) = Inr (ex_request ''a'')"
    unfolding ex_claimed_def
    by (intro new_job_validates) (simp_all add: ex_worker_service_def ex_service_def, simp_all add: ex_request_def)
  obtain out where "evaluate_outcome (es_show_g ex_worker_service) (es_show_n ex_worker_service)
      (es_engine ex_worker_service) (ex_request ''a'') None = Inr out"
    using ex_local_runs by (auto simp: ex_worker_service_def ex_service_def)
  from evaluate_snapshot_succeeds[OF this]
  obtain s where "evaluate_job ex_worker_service (ex_claimed task) 19 = Inr s"
    unfolding evaluate_job_def v by (metis sum.case(2) map_sum.simps(2) id_apply)
  then show ?thesis by (rule that) (simp add: ex_claimed_def new_evaluation_job_def Let_def split: prod.splits)
qed

theorem finish_message_settles_witness:
  "\<exists>task s. status_of (fst (finish_message ex_redis ex_ai_worker False False False ex_running (0, [])
       \<lparr>qm_message_id = ''0'', qm_evaluation_id = 7\<rparr> (ex_claimed task) 19 20 21)) 7 = Some COMPLETED
     \<and> sn_ai_assessment s \<noteq> None
     \<and> get_evaluation False (fst (finish_message ex_redis ex_ai_worker False False False ex_running (0, [])
         \<lparr>qm_message_id = ''0'', qm_evaluation_id = 7\<rparr> (ex_claimed task) 19 20 21)) 7 = Inr (Some s)"
proof -
  obtain r where r: "get_job ex_running 7 = Some r" "owned_by r (wk_worker_id ex_ai_worker)"
    using ex_states(2,4) by (auto simp: status_of_def owned_by_def ex_ai_worker_def)
  obtain task s where s: "evaluate_job ex_worker_service (ex_claimed task) 19 = Inr s"
    "ej_evaluation_id (ex_claimed task) = 7" by (rule ex_claimed_evaluates)
  have ai: "sn_ai_assessment s \<noteq> None"
    using s(1) by (auto simp: evaluate_job_def evaluate_snapshot_def ex_worker_service_def Let_def
        split: sum.splits)
  have dep: "deployed ex_library ex_ai (wk_service ex_ai_worker)"
    by (simp add: deployed_def ex_ai_worker_def ex_worker_service_def ex_service_def ex_sha_length ex_library_def
        ex_local_engine_def ex_engine_def ex_local_backed)
  have svc: "wk_service ex_ai_worker = ex_worker_service" by (simp add: ex_ai_worker_def)
  from finish_message_settles[OF ex_history(2) r s(2) dep surjective_pairing, of ex_redis False False "(0, [])"
      "\<lparr>qm_message_id = ''0'', qm_evaluation_id = 7\<rparr>" 19 20 21] ai
  show ?thesis unfolding svc s(1) by auto
qed

end
