(* ===== verification/History.thy ===== *)
theory History
  imports JobProperties "HOL-Library.Multiset"
begin

text \<open>
  The history queries: \<^verbatim>\<open>SqlAlchemyEvaluationJobRepository.list\<close> of \<^verbatim>\<open>src/app/jobs/repositories.py\<close>,
  which merges the jobs with the evaluations that predate jobs, and
  \<^verbatim>\<open>SqlAlchemyEvaluationRepository.list\<close> of \<^verbatim>\<open>src/app/db/repositories.py\<close>. The first fetches only
  \<^verbatim>\<open>limit + offset\<close> rows of each table before merging; it is shown to give the very page of the fully
  merged history.
\<close>

section \<open>Descending order and pages\<close>

text \<open>\<^verbatim>\<open>ORDER BY ... DESC\<close>, and Python's stable \<^verbatim>\<open>sort(reverse=True)\<close>.\<close>

definition sort_desc :: "('a \<Rightarrow> 'k::linorder) \<Rightarrow> 'a list \<Rightarrow> 'a list" where
  "sort_desc key xs = rev (sort_key key (rev xs))"

definition page :: "nat \<Rightarrow> nat \<Rightarrow> 'a list \<Rightarrow> 'a list" where
  "page limit offset xs = take limit (drop offset xs)"

lemma set_sort_desc [simp]: "set (sort_desc key xs) = set xs"
  by (simp add: sort_desc_def)

lemma mset_sort_desc [simp]: "mset (sort_desc key xs) = mset xs"
  by (simp add: sort_desc_def)

lemma sort_desc_sorted: "sorted_wrt (\<ge>) (map key (sort_desc key xs))"
proof -
  have "sorted (map key (sort_key key (rev xs)))" by simp
  then show ?thesis by (simp add: sort_desc_def rev_map[symmetric] sorted_wrt_rev)
qed

text \<open>Rows with distinct sort keys have only one descending arrangement.\<close>

lemma sort_desc_unique:
  assumes "sorted_wrt (\<ge>) (map key ys)" "mset ys = mset xs" "distinct (map key xs)"
  shows "ys = sort_desc key xs"
proof -
  have "sorted (map key (rev ys))" using assms(1) by (simp add: rev_map[symmetric] sorted_wrt_rev)
  moreover have inj: "inj_on key (set xs)" using assms(3) by (simp add: distinct_map)
  moreover have "mset (rev ys) = mset (rev xs)" using assms(2) by simp
  ultimately have "sort_key key (rev xs) = rev ys"
    by (intro sort_key_inj_key_eq) (auto dest: mset_eq_setD)
  then show ?thesis by (simp add: sort_desc_def)
qed

lemma sorted_split:
  fixes key :: "'a \<Rightarrow> 'k::linorder"
  assumes "sorted_wrt (\<ge>) (map key xs)"
  shows "sorted_wrt (\<ge>) (map key (take k xs))"
    and "a \<in> set (take k xs) \<Longrightarrow> b \<in> set (drop k xs) \<Longrightarrow> key b \<le> key a"
proof -
  have "sorted_wrt (\<ge>) (map key (take k xs) @ map key (drop k xs))"
    using assms by (metis append_take_drop_id map_append)
  then show "sorted_wrt (\<ge>) (map key (take k xs))"
    and "a \<in> set (take k xs) \<Longrightarrow> b \<in> set (drop k xs) \<Longrightarrow> key b \<le> key a"
    by (auto simp: sorted_wrt_append)
qed

lemma length_sorted_filter_ge:
  fixes key :: "'a \<Rightarrow> 'k::linorder"
  assumes "sorted_wrt (\<ge>) (map key zs)" "u \<in> set (take k zs)" "key u < m"
  shows "length (filter (\<lambda>z. m \<le> key z) zs) < k"
proof -
  from assms(2) obtain i where i: "i < k" "i < length zs" "u = zs ! i" by (auto simp: in_set_conv_nth)
  have "z \<notin> set (drop i zs)" if "m \<le> key z" for z
  proof
    assume "z \<in> set (drop i zs)"
    then obtain j where "j < length zs - i" "z = zs ! (i + j)" by (auto simp: in_set_conv_nth)
    then have "key z \<le> key u" using assms(1) i
      by (cases j) (auto simp: sorted_wrt_iff_nth_less)
    with that assms(3) show False by simp
  qed
  then have "filter (\<lambda>z. m \<le> key z) (drop i zs) = []" by (auto simp: filter_empty_conv)
  then have "filter (\<lambda>z. m \<le> key z) zs = filter (\<lambda>z. m \<le> key z) (take i zs)"
    by (metis append.right_neutral append_take_drop_id filter_append)
  then have "length (filter (\<lambda>z. m \<le> key z) zs) \<le> i"
    by (metis length_filter_le length_take min.cobounded2 le_trans)
  with i(1) show ?thesis by simp
qed

text \<open>The first \<open>k\<close> rows of a merge need only the first \<open>k\<close> rows of each part.\<close>

lemma take_sort_desc_merge:
  fixes key :: "'a \<Rightarrow> 'k::linorder"
  assumes srt: "sorted_wrt (\<ge>) (map key xs)" and dist: "distinct (map key (xs @ ys))"
  shows "take k (sort_desc key (take k xs @ ys)) = take k (sort_desc key (xs @ ys))"
proof (cases "length xs \<le> k")
  case False
  let ?zs = "sort_desc key (take k xs @ ys)" and ?d = "drop k xs"
  have zs: "sorted_wrt (\<ge>) (map key ?zs)" by (rule sort_desc_sorted)
  have top: "key d \<le> key u" if d: "d \<in> set ?d" and u: "u \<in> set (take k ?zs)" for d u
  proof (rule ccontr)
    assume "\<not> key d \<le> key u"
    then have "length (filter (\<lambda>z. key d \<le> key z) ?zs) < k"
      using length_sorted_filter_ge[OF zs u] by simp
    moreover have "length (filter (\<lambda>z. key d \<le> key z) ?zs) = length (filter (\<lambda>z. key d \<le> key z) (take k xs @ ys))"
      by (metis mset_filter mset_sort_desc size_mset)
    moreover have "\<forall>x \<in> set (take k xs). key d \<le> key x"
      using sorted_split(2)[OF srt _ d] by blast
    then have "filter (\<lambda>z. key d \<le> key z) (take k xs) = take k xs" by simp
    ultimately show False using False by simp
  qed
  have "take k ?zs @ sort_desc key (drop k ?zs @ ?d) = sort_desc key (xs @ ys)"
  proof (rule sort_desc_unique[OF _ _ dist])
    have "mset (take k ?zs) + mset (drop k ?zs) = mset (take k xs) + mset ys"
      by (metis append_take_drop_id mset_append mset_sort_desc)
    moreover have "mset (take k xs) + mset ?d = mset xs" by (metis append_take_drop_id mset_append)
    ultimately show "mset (take k ?zs @ sort_desc key (drop k ?zs @ ?d)) = mset (xs @ ys)"
      by (simp add: ac_simps)
    show "sorted_wrt (\<ge>) (map key (take k ?zs @ sort_desc key (drop k ?zs @ ?d)))"
      using top sorted_split[OF zs, where k = k] sort_desc_sorted[of key "drop k ?zs @ ?d"]
      by (auto simp: sorted_wrt_append)
  qed
  moreover have "k \<le> length ?zs" using False by (metis length_append length_take mset_sort_desc size_mset le_add1 min.absorb2 nat_le_linear)
  ultimately show ?thesis by (metis append_eq_conv_conj length_take min.absorb2 take_append take_all_iff)
qed simp


lemma sort_desc_cong:
  "mset xs = mset ys \<Longrightarrow> distinct (map key ys) \<Longrightarrow> sort_desc key xs = sort_desc key ys"
  by (intro sort_desc_unique) (simp_all add: sort_desc_sorted)

lemma distinct_map_mset: "mset xs = mset ys \<Longrightarrow> distinct (map key ys) \<Longrightarrow> distinct (map key xs)"
  by (metis mset_map mset_eq_imp_distinct_iff)

lemma distinct_map_take_append: "distinct (map key (xs @ ys)) \<Longrightarrow> distinct (map key (xs @ take k ys))"
proof -
  assume "distinct (map key (xs @ ys))"
  then have "distinct (take (length xs + k) (map key (xs @ ys)))" by (rule distinct_take)
  then show ?thesis by (simp add: take_map)
qed

lemma take_sort_desc_both:
  fixes key :: "'a \<Rightarrow> 'k::linorder"
  assumes dist: "distinct (map key (xs @ ys))"
  shows "take k (sort_desc key (take k (sort_desc key xs) @ take k (sort_desc key ys)))
         = take k (sort_desc key (xs @ ys))"
proof -
  let ?x = "sort_desc key xs" and ?y = "sort_desc key ys"
  have xy: "distinct (map key (?x @ ?y))" by (rule distinct_map_mset[OF _ dist]) simp
  have yx: "distinct (map key (?y @ take k ?x))"
    by (rule distinct_map_take_append, rule distinct_map_mset[OF _ dist]) simp
  have "take k (sort_desc key (take k ?x @ take k ?y)) = take k (sort_desc key (take k ?y @ take k ?x))"
    using distinct_map_take_append[OF distinct_map_mset[OF _ yx], of "take k ?x" ?y k]
    by (subst sort_desc_cong[of "take k ?y @ take k ?x" "take k ?x @ take k ?y"]) simp_all
  also have "\<dots> = take k (sort_desc key (?y @ take k ?x))"
    by (rule take_sort_desc_merge[OF sort_desc_sorted yx])
  also have "\<dots> = take k (sort_desc key (take k ?x @ ?y))"
    by (subst sort_desc_cong[OF _ yx, of "take k ?x @ ?y"]) simp_all
  also have "\<dots> = take k (sort_desc key (?x @ ?y))"
    by (rule take_sort_desc_merge[OF sort_desc_sorted xy])
  also have "\<dots> = take k (sort_desc key (xs @ ys))"
    by (subst sort_desc_cong[OF _ dist]) simp_all
  finally show ?thesis .
qed

section \<open>The merged job history\<close>

record history_filter =
  hf_task_id :: "string option"
  hf_language :: "string option"
  hf_minimum_score :: "rat option"
  hf_maximum_score :: "rat option"

text \<open>A \<^verbatim>\<open>WHERE\<close> clause that is present only when its argument is given; a comparison with \<^verbatim>\<open>NULL\<close> is not true.\<close>

definition matches :: "history_filter \<Rightarrow> string \<Rightarrow> string \<Rightarrow> rat option \<Rightarrow> bool" where
  "matches f task_id language final_score \<longleftrightarrow>
     (case hf_task_id f of None \<Rightarrow> True | Some t \<Rightarrow> task_id = t)
     \<and> (case hf_language f of None \<Rightarrow> True | Some l \<Rightarrow> language = l)
     \<and> (case hf_minimum_score f of None \<Rightarrow> True | Some m \<Rightarrow> (case final_score of None \<Rightarrow> False | Some s \<Rightarrow> m \<le> s))
     \<and> (case hf_maximum_score f of None \<Rightarrow> True | Some m \<Rightarrow> (case final_score of None \<Rightarrow> False | Some s \<Rightarrow> s \<le> m))"

text \<open>The jobs, each with the row of its evaluation when there is one (the outer join).\<close>

definition job_rows :: "history_filter \<Rightarrow> job_db \<Rightarrow> (evaluation_job \<times> evaluation_row option) list" where
  "job_rows f db =
     filter (\<lambda>(j, e). matches f (ej_task_id j) (ej_language j) (map_option ev_final_score e))
       (map (\<lambda>j. (j, row_get ev_evaluation_id (db_evaluations db) (ej_evaluation_id j))) (db_jobs db))"

text \<open>The evaluations without a job.\<close>

definition legacy_rows :: "history_filter \<Rightarrow> job_db \<Rightarrow> evaluation_row list" where
  "legacy_rows f db =
     filter (\<lambda>e. get_job db (ev_evaluation_id e) = None
                 \<and> matches f (ev_task_id e) (ev_language e) (Some (ev_final_score e))) (db_evaluations db)"

definition row_breakdown :: "evaluation_row \<Rightarrow> score_breakdown" where
  "row_breakdown e =
     \<lparr>sb_correctness = ev_correctness_score e, sb_code_quality = ev_code_quality_score e,
      sb_type_safety = ev_type_safety_score e, sb_security = ev_security_score e,
      sb_complexity = ev_complexity_score e\<rparr>"

definition job_summary :: "evaluation_job \<times> evaluation_row option \<Rightarrow> evaluation_job_summary" where
  "job_summary row =
     (let (j, e) = row
      in \<lparr>js_evaluation_id = ej_evaluation_id j, js_created_at = ej_created_at j, js_updated_at = ej_updated_at j,
          js_task_id = ej_task_id j, js_task_version = ej_task_version j, js_language = ej_language j,
          js_source_hash = ej_source_hash j, js_status = ej_status j, js_attempt_count = ej_attempt_count j,
          js_score = map_option ev_final_score e, js_score_breakdown = map_option row_breakdown e,
          js_ai_status = (case e of None \<Rightarrow> None | Some e \<Rightarrow> ev_ai_status e),
          js_ai_score = (case e of None \<Rightarrow> None | Some e \<Rightarrow> ev_ai_score e)\<rparr>)"

definition legacy_summary :: "evaluation_row \<Rightarrow> evaluation_job_summary" where
  "legacy_summary e =
     \<lparr>js_evaluation_id = ev_evaluation_id e, js_created_at = ev_created_at e, js_updated_at = ev_created_at e,
      js_task_id = ev_task_id e, js_task_version = ev_task_version e, js_language = ev_language e,
      js_source_hash = ev_source_hash e, js_status = COMPLETED, js_attempt_count = 0,
      js_score = Some (ev_final_score e), js_score_breakdown = Some (row_breakdown e),
      js_ai_status = ev_ai_status e, js_ai_score = ev_ai_score e\<rparr>"

definition summary_key :: "evaluation_job_summary \<Rightarrow> time \<times> uuid" where
  "summary_key s = (js_created_at s, js_evaluation_id s)"

text \<open>
  The method. The two statements may see different states of the database, \<open>db\<close> and \<open>db'\<close>. The scores of a
  summary are checked to lie between 0 and 100, which the table checks ensure.
\<close>

definition list_jobs ::
    "bool \<Rightarrow> job_db \<Rightarrow> job_db \<Rightarrow> nat \<Rightarrow> nat \<Rightarrow> history_filter \<Rightarrow> repo_error + evaluation_job_summary list" where
  "list_jobs fault db db' limit offset f =
     (if fault then Inl unavailable
      else
        (let requested_rows = limit + offset;
             rows = take requested_rows
                      (sort_desc (\<lambda>(j, e). (ej_created_at j, ej_evaluation_id j)) (job_rows f db));
             old_rows = take requested_rows
                      (sort_desc (\<lambda>e. (ev_created_at e, ev_evaluation_id e)) (legacy_rows f db'));
             summaries = sort_desc summary_key (map job_summary rows @ map legacy_summary old_rows)
         in Inr (page limit offset summaries)))"

text \<open>The whole history that matches, newest first.\<close>

definition full_history :: "job_db \<Rightarrow> job_db \<Rightarrow> history_filter \<Rightarrow> evaluation_job_summary list" where
  "full_history db db' f =
     sort_desc summary_key (map job_summary (job_rows f db) @ map legacy_summary (legacy_rows f db'))"

lemma map_insort_key: "map g (insort_key (\<lambda>x. key (g x)) x xs) = insort_key key (g x) (map g xs)"
  by (induction xs) auto

lemma map_sort_key: "map g (sort_key (\<lambda>x. key (g x)) xs) = sort_key key (map g xs)"
  by (induction xs) (simp_all add: map_insort_key)

lemma map_sort_desc: "map g (sort_desc (\<lambda>x. key (g x)) xs) = sort_desc key (map g xs)"
  by (simp add: sort_desc_def rev_map[symmetric] map_sort_key)

lemma page_take: "page limit offset (take (limit + offset) xs) = page limit offset xs"
  by (simp add: page_def drop_take)


lemma summary_keys:
  "summary_key (job_summary row) = (case row of (j, e) \<Rightarrow> (ej_created_at j, ej_evaluation_id j))"
  "summary_key (legacy_summary e) = (ev_created_at e, ev_evaluation_id e)"
  by (simp_all add: summary_key_def job_summary_def legacy_summary_def Let_def split: prod.split)

text \<open>Jobs are never deleted: a row without a job when the second statement runs had none before.\<close>

lemma summary_ids:
  "js_evaluation_id \<circ> job_summary = ej_evaluation_id \<circ> fst" "js_evaluation_id \<circ> legacy_summary = ev_evaluation_id"
  by (simp_all add: fun_eq_iff job_summary_def legacy_summary_def Let_def)

lemma history_rows_distinct:
  assumes "row_wf ej_evaluation_id (db_jobs db)" "row_wf ev_evaluation_id (db_evaluations db')"
    and "ej_evaluation_id ` set (db_jobs db) \<subseteq> ej_evaluation_id ` set (db_jobs db')"
  shows "distinct (map js_evaluation_id (map job_summary (job_rows f db) @ map legacy_summary (legacy_rows f db')))"
proof -
  have "distinct (map (ej_evaluation_id \<circ> fst) (job_rows f db))"
    using assms(1) unfolding job_rows_def by (intro distinct_map_filter) (simp add: row_wf_def comp_def)
  moreover have "distinct (map ev_evaluation_id (legacy_rows f db'))"
    using assms(2) unfolding legacy_rows_def by (intro distinct_map_filter) (simp add: row_wf_def)
  moreover have "(ej_evaluation_id \<circ> fst) ` set (job_rows f db) \<inter> ev_evaluation_id ` set (legacy_rows f db') = {}"
    using assms(3) by (auto simp: job_rows_def legacy_rows_def row_get_None) (metis imageI subsetD)
  ultimately show ?thesis by (simp only: map_append map_map summary_ids distinct_append set_map)
qed

lemma distinct_summary_key: "distinct (map js_evaluation_id xs) \<Longrightarrow> distinct (map summary_key xs)"
proof -
  have "map js_evaluation_id xs = map snd (map summary_key xs)" by (simp add: summary_key_def)
  then show "distinct (map js_evaluation_id xs) \<Longrightarrow> ?thesis" by (metis distinct_map)
qed

lemma history_ids_distinct:
  assumes "db_constraints db" "db_constraints db'"
    and "ej_evaluation_id ` set (db_jobs db) \<subseteq> ej_evaluation_id ` set (db_jobs db')"
  shows "distinct (map js_evaluation_id (map job_summary (job_rows f db) @ map legacy_summary (legacy_rows f db')))"
    and "distinct (map js_evaluation_id (full_history db db' f))"
proof -
  have "row_wf ej_evaluation_id (db_jobs db)" "row_wf ev_evaluation_id (db_evaluations db')"
    using assms(1,2) by (simp_all add: db_constraints_def)
  from history_rows_distinct[OF this assms(3)]
  show rows: "distinct (map js_evaluation_id (map job_summary (job_rows f db) @ map legacy_summary (legacy_rows f db')))" .
  show "distinct (map js_evaluation_id (full_history db db' f))"
    unfolding full_history_def by (rule distinct_map_mset[OF _ rows]) simp
qed

text \<open>C8: A page of the job history is the page of the fully merged history: fetching only the first
  \<^verbatim>\<open>limit + offset\<close> rows of the jobs and of the evaluations without a job, merging and slicing them, gives
  exactly the rows from \<open>offset\<close> to \<open>offset + limit\<close> of all matching jobs and evaluations together,
  newest first (ties by id), for every filter, limit and offset, and also when new jobs and evaluations
  appear between the two statements; and the whole history lists no evaluation twice.\<close>
theorem list_jobs_is_page:
  assumes "db_constraints db" "db_constraints db'"
    and "ej_evaluation_id ` set (db_jobs db) \<subseteq> ej_evaluation_id ` set (db_jobs db')"
  shows "list_jobs False db db' limit offset f = Inr (page limit offset (full_history db db' f))
    \<and> sorted_wrt (\<ge>) (map summary_key (full_history db db' f))
    \<and> distinct (map js_evaluation_id (full_history db db' f))"
proof -
  let ?jobs = "map job_summary (job_rows f db)" and ?old = "map legacy_summary (legacy_rows f db')"
  have dist: "distinct (map summary_key (?jobs @ ?old))"
    by (rule distinct_summary_key[OF history_ids_distinct(1)[OF assms]])
  have "map job_summary (take k (sort_desc (\<lambda>(j, e). (ej_created_at j, ej_evaluation_id j)) (job_rows f db)))
      = take k (sort_desc summary_key ?jobs)" for k
    using map_sort_desc[of job_summary summary_key "job_rows f db"] by (simp add: summary_keys take_map[symmetric])
  moreover have "map legacy_summary (take k (sort_desc (\<lambda>e. (ev_created_at e, ev_evaluation_id e)) (legacy_rows f db')))
      = take k (sort_desc summary_key ?old)" for k
    using map_sort_desc[of legacy_summary summary_key "legacy_rows f db'"] by (simp add: summary_keys take_map[symmetric])
  ultimately have "list_jobs False db db' limit offset f
      = Inr (page limit offset (sort_desc summary_key
          (take (limit + offset) (sort_desc summary_key ?jobs) @ take (limit + offset) (sort_desc summary_key ?old))))"
    by (simp add: list_jobs_def Let_def)
  also have "\<dots> = Inr (page limit offset (full_history db db' f))"
    using take_sort_desc_both[OF dist, of "limit + offset"] unfolding full_history_def by (metis page_take)
  finally show ?thesis using history_ids_distinct(2)[OF assms]
    by (simp add: full_history_def sort_desc_sorted)
qed


text \<open>A job and an older evaluation without one: the second page of one row is the job.\<close>

definition ex_history_db :: job_db where
  "ex_history_db = ex_created\<lparr>db_evaluations :=
     [(evaluation_record_from_snapshot ex_snapshot)\<lparr>ev_evaluation_id := 3, ev_created_at := 9\<rparr>]\<rparr>"

definition any_evaluation :: history_filter where
  "any_evaluation = \<lparr>hf_task_id = None, hf_language = None, hf_minimum_score = None, hf_maximum_score = None\<rparr>"

theorem list_jobs_is_page_witness:
  "map_sum id (map js_evaluation_id) (list_jobs False ex_history_db ex_history_db 1 1 any_evaluation) = Inr [7]"
proof -
  have "db_constraints ex_history_db" by code_simp
  from list_jobs_is_page[OF this this subset_refl, of 1 1 any_evaluation]
  have "list_jobs False ex_history_db ex_history_db 1 1 any_evaluation
      = Inr (page 1 1 (full_history ex_history_db ex_history_db any_evaluation))" by (rule conjunct1)
  moreover have "map js_evaluation_id (page 1 1 (full_history ex_history_db ex_history_db any_evaluation)) = [7]"
    by code_simp
  ultimately show ?thesis by simp
qed

section \<open>The evaluation history\<close>

record evaluation_summary =
  es_evaluation_id :: uuid
  es_created_at :: time
  es_task_id :: string
  es_task_version :: string
  es_language :: string
  es_source_hash :: string
  es_status :: evaluation_status
  es_score :: rat
  es_score_breakdown :: score_breakdown
  es_ai_status :: "ai_status option"
  es_ai_score :: "rat option"

definition evaluation_summary_of :: "evaluation_row \<Rightarrow> evaluation_summary" where
  "evaluation_summary_of e =
     \<lparr>es_evaluation_id = ev_evaluation_id e, es_created_at = ev_created_at e, es_task_id = ev_task_id e,
      es_task_version = ev_task_version e, es_language = ev_language e, es_source_hash = ev_source_hash e,
      es_status = ev_status e, es_score = ev_final_score e, es_score_breakdown = row_breakdown e,
      es_ai_status = ev_ai_status e, es_ai_score = ev_ai_score e\<rparr>"

definition list_evaluations ::
    "bool \<Rightarrow> evaluation_row list \<Rightarrow> nat \<Rightarrow> nat \<Rightarrow> history_filter \<Rightarrow> repo_error + evaluation_summary list" where
  "list_evaluations fault evaluations limit offset f =
     (if fault then Inl (PersistenceFailure ''Evaluation persistence is unavailable.'')
      else Inr (map evaluation_summary_of
             (page limit offset
               (sort_desc (\<lambda>e. (ev_created_at e, ev_evaluation_id e))
                 (filter (\<lambda>e. matches f (ev_task_id e) (ev_language e) (Some (ev_final_score e))) evaluations)))))"

lemma list_evaluations_page:
  "list_evaluations False evaluations limit offset f =
     Inr (page limit offset (sort_desc (\<lambda>s. (es_created_at s, es_evaluation_id s))
       (map evaluation_summary_of
         (filter (\<lambda>e. matches f (ev_task_id e) (ev_language e) (Some (ev_final_score e))) evaluations))))"
  using map_sort_desc[of evaluation_summary_of "\<lambda>s. (es_created_at s, es_evaluation_id s)"]
  by (simp add: list_evaluations_def page_def evaluation_summary_of_def take_map[symmetric] drop_map[symmetric])

end
