(* ===== verification/Caches.thy ===== *)
theory Caches
  imports PyValues
begin

text \<open>
  The bounded caches among the reference solutions: the LRU cache of
  \<^verbatim>\<open>src/app/tasks/definitions/lru_cache/reference/solution.py\<close> and the TTL cache of
  \<^verbatim>\<open>src/app/tasks/definitions/ttl_cache/reference/solution.py\<close>, both on an \<^verbatim>\<open>OrderedDict\<close>. The
  contract they share (a well-formed dictionary of bounded size) is the locale \<open>bounded_cache\<close>,
  interpreted for both. The LRU cache is shown to refine the recency list of its whole history.
\<close>

section \<open>The contract of a bounded cache\<close>

text \<open>
  \<open>step\<close> performs one operation; \<open>items\<close> is the dictionary and \<open>limit\<close> its largest size, which no
  operation changes.
\<close>

locale bounded_cache =
  fixes items :: "'c \<Rightarrow> ('k, 'v) odict"
    and limit :: "'c \<Rightarrow> nat"
    and step :: "'op \<Rightarrow> 'c \<Rightarrow> 'c"
  assumes step_wf: "od_wf (items c) \<Longrightarrow> od_wf (items (step op c))"
    and step_limit: "limit (step op c) = limit c"
    and step_size: "od_wf (items c) \<Longrightarrow> length (items c) \<le> limit c \<Longrightarrow> length (items (step op c)) \<le> limit c"
begin

lemma run_ok:
  "od_wf (items c) \<Longrightarrow> length (items c) \<le> limit c \<Longrightarrow>
     od_wf (items (fold step ops c)) \<and> length (items (fold step ops c)) \<le> limit c
     \<and> limit (fold step ops c) = limit c"
proof (induction ops arbitrary: c)
  case (Cons op ops)
  from Cons.IH[of "step op c"] step_wf[OF Cons.prems(1), of op] step_size[OF Cons.prems, of op]
  show ?case by (simp add: step_limit)
qed simp

lemma run_keys_finite:
  "od_wf (items c) \<Longrightarrow> length (items c) \<le> limit c \<Longrightarrow> card (fst ` set (items (fold step ops c))) \<le> limit c"
proof -
  assume "od_wf (items c)" "length (items c) \<le> limit c"
  from run_ok[OF this, of ops] show ?thesis
    by (metis card_length distinct_card image_set le_trans length_map od_wf_def)
qed

end

section \<open>The LRU cache\<close>

record lru_cache =
  lru_capacity :: int
  lru_items :: "(int, int) odict"

definition LRUCache :: "int \<Rightarrow> lru_cache" where
  "LRUCache capacity = \<lparr>lru_capacity = capacity, lru_items = []\<rparr>"

definition lru_get :: "lru_cache \<Rightarrow> int \<Rightarrow> lru_cache \<times> int" where
  "lru_get c key =
     (case map_of (lru_items c) key of
        None \<Rightarrow> (c, -1)
      | Some _ \<Rightarrow>
          (let items = od_move_to_end (lru_items c) key
           in (c\<lparr>lru_items := items\<rparr>, the (map_of items key))))"

definition lru_put :: "lru_cache \<Rightarrow> int \<Rightarrow> int \<Rightarrow> lru_cache" where
  "lru_put c key value =
     (let moved = (if map_of (lru_items c) key \<noteq> None then od_move_to_end (lru_items c) key else lru_items c);
          items = od_set moved key value
      in c\<lparr>lru_items := (if lru_capacity c < int (length items) then od_popfirst items else items)\<rparr>)"

datatype lru_op = LruGet int | LruPut int int

fun lru_step :: "lru_op \<Rightarrow> lru_cache \<Rightarrow> lru_cache" where
  "lru_step (LruGet k) c = fst (lru_get c k)"
| "lru_step (LruPut k v) c = lru_put c k v"

definition lru_limit :: "lru_cache \<Rightarrow> nat" where
  "lru_limit c = nat (lru_capacity c)"

lemma od_set_absent: "k \<notin> fst ` set d \<Longrightarrow> od_set d k v = d @ [(k, v)]"
  by (induction d k v rule: od_set.induct) auto

lemma od_set_last: "k \<notin> fst ` set d \<Longrightarrow> od_set (d @ [(k, x)]) k v = d @ [(k, v)]"
  by (induction d) auto

text \<open>After a put the key is the newest item, with the new value.\<close>

lemma lru_put_items:
  "lru_items (lru_put c key value) =
     (let d = od_del (lru_items c) key @ [(key, value)]
      in if lru_capacity c < int (length d) then tl d else d)"
proof (cases "map_of (lru_items c) key")
  case None
  then have "key \<notin> fst ` set (lru_items c)" by (simp add: map_of_eq_None_iff)
  then show ?thesis using None
    by (simp add: lru_put_def Let_def od_set_absent od_del_id od_popfirst_def)
next
  case (Some x)
  have "key \<notin> fst ` set (od_del (lru_items c) key)" by (simp add: od_del_keys)
  then show ?thesis using Some
    by (simp add: lru_put_def Let_def od_move_to_end_def od_set_last od_popfirst_def)
qed

lemma lru_get_items: "lru_items (fst (lru_get c key)) = od_move_to_end (lru_items c) key"
  by (simp add: lru_get_def od_move_to_end_def Let_def split: option.splits)

lemma lru_capacity_step [simp]: "lru_capacity (lru_step op c) = lru_capacity c"
  by (cases op) (simp_all add: lru_get_def lru_put_def Let_def split: option.splits)

lemma od_wf_Cons: "od_wf ((k, v) # d) \<longleftrightarrow> od_wf d \<and> k \<notin> fst ` set d"
  by (auto simp: od_wf_def)

lemma od_wf_take: "od_wf d \<Longrightarrow> od_wf (take n d)"
  by (simp add: od_wf_def take_map[symmetric] distinct_take)

lemma map_of_rev_wf: "od_wf d \<Longrightarrow> map_of (rev d) = map_of d"
  by (rule map_of_eqI) (auto simp: od_wf_def map_of_inject_set rev_map[symmetric] intro!: ext)

lemma od_wf_snoc: "od_wf (d @ [(k, v)]) \<longleftrightarrow> od_wf d \<and> k \<notin> fst ` set d"
  by (auto simp: od_wf_def)

interpretation lru: bounded_cache lru_items lru_limit lru_step
proof
  fix c op
  show "lru_limit (lru_step op c) = lru_limit c" by (simp add: lru_limit_def)
  assume wf: "od_wf (lru_items c)"
  have put_wf: "od_wf (od_del (lru_items c) k @ [(k, v)])" for k v
    using wf by (auto simp: od_wf_snoc od_del_keys)
  show "od_wf (lru_items (lru_step op c))"
    using wf put_wf by (cases op) (auto simp: lru_get_items lru_put_items Let_def od_popfirst_def[symmetric])
  assume len: "length (lru_items c) \<le> lru_limit c"
  show "length (lru_items (lru_step op c)) \<le> lru_limit c"
  proof (cases op)
    case (LruGet k)
    then show ?thesis using len by (simp add: lru_get_items length_od_move[OF wf])
  next
    case (LruPut k v)
    have "length (od_del (lru_items c) k) \<le> length (lru_items c)" by (simp add: od_del_def)
    with len LruPut show ?thesis by (auto simp: lru_put_items Let_def lru_limit_def)
  qed
qed

subsection \<open>Refinement of the recency list\<close>

text \<open>
  The abstract cache never evicts: it lists every key ever put, the most recently used first, with
  its latest value. A use moves a key to the front; a read of a key that is not among the first
  \<open>n\<close> is a miss and changes nothing.
\<close>

fun recency_step :: "nat \<Rightarrow> lru_op \<Rightarrow> (int \<times> int) list \<Rightarrow> (int \<times> int) list" where
  "recency_step n (LruPut k v) h = (k, v) # filter (\<lambda>p. fst p \<noteq> k) h"
| "recency_step n (LruGet k) h =
     (case map_of (take n h) k of
        None \<Rightarrow> h
      | Some v \<Rightarrow> (k, v) # filter (\<lambda>p. fst p \<noteq> k) h)"

definition recency :: "nat \<Rightarrow> lru_op list \<Rightarrow> (int \<times> int) list" where
  "recency n ops = fold (recency_step n) ops []"

lemma recency_step_wf: "od_wf h \<Longrightarrow> od_wf (recency_step n op h)"
  by (cases op) (auto simp: od_wf_Cons split: option.splits)

lemma recency_wf: "od_wf h \<Longrightarrow> od_wf (fold (recency_step n) ops h)"
  by (induction ops arbitrary: h) (simp_all add: recency_step_wf)

lemma filter_key_absent: "k \<notin> fst ` set h \<Longrightarrow> filter (\<lambda>p. fst p \<noteq> k) h = h"
  by (intro filter_True) (metis imageI)

lemma take_filter_present:
  assumes "od_wf h" "k \<in> fst ` set (take (Suc n) h)"
  shows "take n (filter (\<lambda>p. fst p \<noteq> k) h) = filter (\<lambda>p. fst p \<noteq> k) (take (Suc n) h)"
  using assms
proof (induction h arbitrary: n)
  case (Cons p h)
  show ?case
  proof (cases "fst p = k")
    case True
    then have k: "k \<notin> fst ` set h" using Cons.prems(1) by (simp add: od_wf_def)
    then have "k \<notin> fst ` set (take n h)" by (meson image_mono set_take_subset subsetD)
    with k True show ?thesis by (simp add: filter_key_absent)
  next
    case False
    then obtain m where m: "n = Suc m" "k \<in> fst ` set (take (Suc m) h)"
      using Cons.prems(2) by (cases n) auto
    have "od_wf h" using Cons.prems(1) by (simp add: od_wf_def)
    from Cons.IH[OF this m(2)] False m(1) show ?thesis by simp
  qed
qed simp

lemma take_filter_absent:
  assumes "k \<notin> fst ` set (take (Suc n) h)"
  shows "take n (filter (\<lambda>p. fst p \<noteq> k) h) = take n h"
  using assms by (induction h arbitrary: n) (auto simp: take_Cons' filter_key_absent split: nat.splits)

text \<open>Putting a key and evicting down to \<open>n\<close> items is the same whether the evicted items were kept or not.\<close>

lemma take_put:
  assumes "od_wf h"
  shows "take n ((k, v) # filter (\<lambda>p. fst p \<noteq> k) h) = take n ((k, v) # filter (\<lambda>p. fst p \<noteq> k) (take n h))"
proof (cases n)
  case (Suc m)
  show ?thesis
  proof (cases "k \<in> fst ` set (take n h)")
    case True
    from take_filter_present[OF assms, of k m] True Suc
    have eq: "take m (filter (\<lambda>p. fst p \<noteq> k) h) = filter (\<lambda>p. fst p \<noteq> k) (take n h)" by simp
    then have "take m (filter (\<lambda>p. fst p \<noteq> k) (take n h)) = filter (\<lambda>p. fst p \<noteq> k) (take n h)"
      by (metis take_all_iff length_take min.cobounded2 take_take min.idem)
    with eq Suc show ?thesis by simp
  next
    case False
    then show ?thesis using Suc by (simp add: take_filter_absent filter_key_absent)
  qed
qed simp

lemma tl_rev: "tl (rev xs) = rev (butlast xs)"
  by (metis butlast_rev rev_rev_ident)

lemma evict_rev:
  assumes "length g \<le> Suc (nat c)" "g \<noteq> []"
  shows "(if c < int (length g) then tl (rev g) else rev g) = rev (take (nat c) g)"
proof (cases "c < int (length g)")
  case True
  with assms have "length g - 1 = nat c" by (cases g) auto
  with True show ?thesis by (simp add: tl_rev butlast_conv_take)
qed simp

lemma lru_refines_step:
  assumes wf: "od_wf h" and n: "n = lru_limit c" and items: "lru_items c = rev (take n h)"
  shows "lru_items (lru_step op c) = rev (take n (recency_step n op h))"
proof (cases op)
  case (LruPut k v)
  let ?g = "(k, v) # filter (\<lambda>p. fst p \<noteq> k) (take n h)"
  have "length ?g \<le> Suc n" by (simp add: le_trans[OF length_filter_le])
  moreover have "lru_items (lru_put c k v) = (if lru_capacity c < int (length ?g) then tl (rev ?g) else rev ?g)"
    by (simp add: lru_put_items Let_def items od_del_def rev_filter[symmetric])
  ultimately have "lru_items (lru_put c k v) = rev (take n ?g)"
    using evict_rev[of ?g "lru_capacity c"] by (simp only: n lru_limit_def list.simps simp_thms)
  with take_put[OF wf, of n k v] LruPut show ?thesis by simp
next
  case (LruGet k)
  have wft: "od_wf (take n h)" using wf by (rule od_wf_take)
  have lookup: "map_of (rev (take n h)) k = map_of (take n h) k"
    using wft by (simp add: map_of_rev_wf)
  show ?thesis
  proof (cases "map_of (take n h) k")
    case None
    with LruGet lookup show ?thesis by (simp add: lru_get_items od_move_to_end_def items)
  next
    case (Some v)
    then have "k \<in> fst ` set (take n h)" by (metis map_of_eq_None_iff option.distinct(1))
    moreover from this obtain m where m: "n = Suc m" by (cases n) auto
    ultimately have "take m (filter (\<lambda>p. fst p \<noteq> k) h) = filter (\<lambda>p. fst p \<noteq> k) (take n h)"
      using take_filter_present[OF wf, of k m] by simp
    with Some LruGet lookup m show ?thesis
      by (simp add: lru_get_items od_move_to_end_def items od_del_def rev_filter[symmetric])
  qed
qed

lemma lru_refines:
  assumes "od_wf h" "n = lru_limit c" "lru_items c = rev (take n h)"
  shows "lru_items (fold lru_step ops c) = rev (take n (fold (recency_step n) ops h))"
  using assms
proof (induction ops arbitrary: c h)
  case (Cons op ops)
  from Cons.IH[OF recency_step_wf[OF Cons.prems(1)] _ lru_refines_step[OF Cons.prems]] Cons.prems(2)
  show ?case by (simp add: lru_limit_def)
qed simp

text \<open>C37: The LRU cache refines the recency list: after any sequence of gets and puts on a cache of
  any capacity, its \<^verbatim>\<open>OrderedDict\<close> holds exactly the first \<open>capacity\<close> entries of the list of all
  keys ever put in order of last use, the least recently used first, and a \<^verbatim>\<open>get\<close> returns the
  latest value of a key among them and -1 for any other key.\<close>
theorem lru_cache_refines_recency:
  "lru_items (fold lru_step ops (LRUCache capacity)) = rev (take (nat capacity) (recency (nat capacity) ops))
   \<and> snd (lru_get (fold lru_step ops (LRUCache capacity)) key)
     = (case map_of (take (nat capacity) (recency (nat capacity) ops)) key of None \<Rightarrow> -1 | Some v \<Rightarrow> v)"
proof -
  let ?c = "fold lru_step ops (LRUCache capacity)" and ?h = "take (nat capacity) (recency (nat capacity) ops)"
  have items: "lru_items ?c = rev ?h"
    unfolding recency_def by (rule lru_refines) (simp_all add: LRUCache_def lru_limit_def)
  have "od_wf (recency (nat capacity) ops)" unfolding recency_def by (rule recency_wf) simp
  then have wf: "od_wf ?h" by (rule od_wf_take)
  then have "map_of (rev ?h) key = map_of ?h key" by (simp add: map_of_rev_wf)
  moreover have "snd (lru_get c key) = (case map_of (lru_items c) key of None \<Rightarrow> -1 | Some v \<Rightarrow> v)"
    if "od_wf (lru_items c)" for c
    using that by (simp add: lru_get_def map_of_od_move Let_def split: option.splits)
  moreover have "od_wf (rev ?h)" using wf by (simp add: od_wf_def rev_map[symmetric])
  ultimately show ?thesis using items by simp
qed

section \<open>The TTL cache\<close>

text \<open>
  Keys are strings, \<open>now\<close> is a finite float; the types of \<^verbatim>\<open>capacity\<close> and \<^verbatim>\<open>ttl\<close> are checked by the code.
  An item is its value and the time it expires at.
\<close>

record ttl_cache =
  ttl_capacity :: int
  ttl_items :: "(string, pyval \<times> rat) odict"

definition TTLCache :: "pyval \<Rightarrow> string + ttl_cache" where
  "TTLCache capacity =
     (case plain_int capacity of
        Some n \<Rightarrow> if n \<le> 0 then Inl ''capacity must be a positive integer''
                  else Inr \<lparr>ttl_capacity = n, ttl_items = []\<rparr>
      | None \<Rightarrow> Inl ''capacity must be a positive integer'')"

definition ttl_purge :: "ttl_cache \<Rightarrow> rat \<Rightarrow> ttl_cache" where
  "ttl_purge c now =
     (let expired = map fst (filter (\<lambda>(_, _, expires_at). expires_at \<le> now) (ttl_items c))
      in c\<lparr>ttl_items := fold (\<lambda>key d. od_del d key) expired (ttl_items c)\<rparr>)"

definition ttl_put :: "ttl_cache \<Rightarrow> string \<Rightarrow> pyval \<Rightarrow> pyval \<Rightarrow> rat \<Rightarrow> string + ttl_cache" where
  "ttl_put c key value ttl now =
     (case plain_number ttl of
        None \<Rightarrow> Inl ''ttl must be positive''
      | Some t \<Rightarrow>
          if t \<le> 0 then Inl ''ttl must be positive''
          else (let c = ttl_purge c now;
                    kept = (if map_of (ttl_items c) key \<noteq> None then od_del (ttl_items c) key else ttl_items c);
                    items = od_set kept key (value, num (py_add (PyFloat now) ttl))
                in Inr (c\<lparr>ttl_items := (if ttl_capacity c < int (length items) then od_popfirst items else items)\<rparr>)))"

definition ttl_get :: "ttl_cache \<Rightarrow> string \<Rightarrow> rat \<Rightarrow> ttl_cache \<times> pyval" where
  "ttl_get c key now =
     (let c = ttl_purge c now
      in case map_of (ttl_items c) key of
           None \<Rightarrow> (c, PyNone)
         | Some item \<Rightarrow> (c\<lparr>ttl_items := od_move_to_end (ttl_items c) key\<rparr>, fst item))"

definition ttl_delete :: "ttl_cache \<Rightarrow> string \<Rightarrow> rat \<Rightarrow> ttl_cache \<times> bool" where
  "ttl_delete c key now =
     (let c = ttl_purge c now
      in (c\<lparr>ttl_items := od_del (ttl_items c) key\<rparr>, map_of (ttl_items c) key \<noteq> None))"

definition ttl_size :: "ttl_cache \<Rightarrow> rat \<Rightarrow> ttl_cache \<times> nat" where
  "ttl_size c now = (let c = ttl_purge c now in (c, length (ttl_items c)))"

datatype ttl_op = TtlPut string pyval pyval rat | TtlGet string rat | TtlDelete string rat | TtlSize rat

text \<open>A put that raises leaves the cache as it was.\<close>

fun ttl_step :: "ttl_op \<Rightarrow> ttl_cache \<Rightarrow> ttl_cache" where
  "ttl_step (TtlPut k v ttl now) c = (case ttl_put c k v ttl now of Inl _ \<Rightarrow> c | Inr c' \<Rightarrow> c')"
| "ttl_step (TtlGet k now) c = fst (ttl_get c k now)"
| "ttl_step (TtlDelete k now) c = fst (ttl_delete c k now)"
| "ttl_step (TtlSize now) c = fst (ttl_size c now)"

definition ttl_limit :: "ttl_cache \<Rightarrow> nat" where
  "ttl_limit c = nat (ttl_capacity c)"

text \<open>The items that a purge at \<open>now\<close> keeps.\<close>

definition live :: "rat \<Rightarrow> (string, pyval \<times> rat) odict \<Rightarrow> (string, pyval \<times> rat) odict" where
  "live now d = filter (\<lambda>(_, _, expires_at). now < expires_at) d"

lemma fold_od_del: "fold (\<lambda>k d. od_del d k) ks d = filter (\<lambda>p. fst p \<notin> set ks) d"
  by (induction ks arbitrary: d) (auto simp: od_del_def conj_commute intro!: filter_cong)

lemma ttl_purge_items:
  assumes "od_wf (ttl_items c)"
  shows "ttl_items (ttl_purge c now) = live now (ttl_items c)"
proof -
  have "fst p \<in> fst ` set (filter (\<lambda>(_, _, e). e \<le> now) (ttl_items c)) \<longleftrightarrow> snd (snd p) \<le> now"
    if "p \<in> set (ttl_items c)" for p
    using assms that by (force simp: od_wf_def distinct_map inj_on_def)
  then have "filter (\<lambda>p. fst p \<notin> fst ` set (filter (\<lambda>(_, _, e). e \<le> now) (ttl_items c))) (ttl_items c)
      = live now (ttl_items c)"
    unfolding live_def by (intro filter_cong) (simp_all only: case_prod_beta not_le)
  then show ?thesis by (simp add: ttl_purge_def Let_def fold_od_del)
qed

lemma ttl_purge_capacity [simp]: "ttl_capacity (ttl_purge c now) = ttl_capacity c"
  by (simp add: ttl_purge_def Let_def)

lemma live_wf [intro]: "od_wf d \<Longrightarrow> od_wf (live now d)"
  by (simp add: live_def od_wf_filter)

lemma length_live: "length (live now d) \<le> length d"
  by (simp add: live_def)

lemma ttl_put_items:
  assumes "od_wf (ttl_items c)" "ttl_put c key value ttl now = Inr c'"
  shows "ttl_items c' =
     (let d = od_del (live now (ttl_items c)) key @ [(key, value, num (py_add (PyFloat now) ttl))]
      in if ttl_capacity c < int (length d) then tl d else d)"
    and "ttl_capacity c' = ttl_capacity c"
proof -
  let ?l = "live now (ttl_items c)"
  have del: "(if map_of ?l key \<noteq> None then od_del ?l key else ?l) = od_del ?l key"
    by (simp add: od_del_id map_of_eq_None_iff)
  have fresh: "key \<notin> fst ` set (od_del ?l key)" by (simp add: od_del_keys)
  from assms(2) have c': "c' = (ttl_purge c now)\<lparr>ttl_items :=
      (let items = od_set (od_del ?l key) key (value, num (py_add (PyFloat now) ttl))
       in if ttl_capacity c < int (length items) then od_popfirst items else items)\<rparr>"
    by (simp only: ttl_put_def ttl_purge_items[OF assms(1)] Let_def del ttl_purge_capacity)
       (simp split: option.splits if_splits)
  then show "ttl_items c' = (let d = od_del ?l key @ [(key, value, num (py_add (PyFloat now) ttl))]
      in if ttl_capacity c < int (length d) then tl d else d)"
    by (simp add: Let_def od_set_absent[OF fresh] od_popfirst_def)
  from c' show "ttl_capacity c' = ttl_capacity c" by simp
qed

lemma ttl_get_items:
  "od_wf (ttl_items c) \<Longrightarrow> ttl_items (fst (ttl_get c k now)) = od_move_to_end (live now (ttl_items c)) k"
  by (simp add: ttl_get_def ttl_purge_items Let_def od_move_to_end_def split: option.splits)

lemma ttl_get_value:
  "od_wf (ttl_items c) \<Longrightarrow>
     snd (ttl_get c k now) = (case map_of (live now (ttl_items c)) k of None \<Rightarrow> PyNone | Some (v, _) \<Rightarrow> v)"
  by (auto simp: ttl_get_def ttl_purge_items Let_def split: option.splits)

lemma ttl_delete_items:
  "od_wf (ttl_items c) \<Longrightarrow> ttl_items (fst (ttl_delete c k now)) = od_del (live now (ttl_items c)) k"
  by (simp add: ttl_delete_def ttl_purge_items Let_def)

lemma ttl_size_items:
  "od_wf (ttl_items c) \<Longrightarrow> ttl_items (fst (ttl_size c now)) = live now (ttl_items c)"
  by (simp add: ttl_size_def ttl_purge_items Let_def)

lemmas ttl_items_simps = ttl_get_items ttl_delete_items ttl_size_items

lemma ttl_step_capacity [simp]: "ttl_capacity (ttl_step op c) = ttl_capacity c"
  by (cases op) (auto simp: ttl_get_def ttl_delete_def ttl_size_def ttl_put_def Let_def split: option.splits)

interpretation ttl: bounded_cache ttl_items ttl_limit ttl_step
proof
  fix c op
  show "ttl_limit (ttl_step op c) = ttl_limit c" by (simp add: ttl_limit_def)
  assume wf: "od_wf (ttl_items c)"
  show "od_wf (ttl_items (ttl_step op c))"
  proof (cases op)
    case (TtlPut k v t now)
    show ?thesis
    proof (cases "ttl_put c k v t now")
      case (Inr c')
      have "od_wf (od_del (live now (ttl_items c)) k @ [(k, x)])" for x
        using wf by (auto simp: od_wf_snoc od_del_keys)
      with Inr TtlPut show ?thesis
        by (auto simp: ttl_put_items[OF wf Inr] Let_def od_popfirst_def[symmetric])
    qed (use wf TtlPut in simp)
  qed (use wf in \<open>auto simp: ttl_items_simps\<close>)
  assume len: "length (ttl_items c) \<le> ttl_limit c"
  have live_len: "length (live now (ttl_items c)) \<le> ttl_limit c" for now
    using len length_live le_trans by blast
  have del_len: "length (od_del (live now (ttl_items c)) k) \<le> ttl_limit c" for now k
    using live_len by (metis length_filter_le le_trans od_del_def)
  show "length (ttl_items (ttl_step op c)) \<le> ttl_limit c"
  proof (cases op)
    case (TtlPut k v t now)
    show ?thesis
    proof (cases "ttl_put c k v t now")
      case (Inr c')
      with TtlPut del_len[of now k] show ?thesis
        by (auto simp: ttl_put_items[OF wf Inr] Let_def ttl_limit_def)
    qed (use len TtlPut in simp)
  next
    case (TtlGet k now)
    with wf live_len show ?thesis by (simp add: ttl_items_simps length_od_move live_wf)
  qed (use wf live_len del_len in \<open>auto simp: ttl_items_simps\<close>)
qed

lemma map_of_live_snoc:
  assumes "k \<notin> fst ` set d"
  shows "map_of (live t (d @ [(k, v, e)])) k = (if e \<le> t then None else Some (v, e))"
proof -
  have "k \<notin> fst ` set (live t d)" using assms by (auto simp: live_def)
  then have "map_of (live t d) k = None" by (simp add: map_of_eq_None_iff)
  then show ?thesis by (simp add: live_def map_add_def not_le)
qed

lemma TTLCache_Inr: "TTLCache capacity = Inr c \<longleftrightarrow> (\<exists>n > 0. capacity = PyInt n \<and> c = \<lparr>ttl_capacity = n, ttl_items = []\<rparr>)"
  by (auto simp: TTLCache_def plain_int_def split: option.splits pyval.splits)

lemma ttl_reachable:
  assumes "TTLCache capacity = Inr c0"
  shows "od_wf (ttl_items (fold ttl_step ops c0))"
    and "length (ttl_items (fold ttl_step ops c0)) \<le> ttl_limit (fold ttl_step ops c0)"
    and "0 < ttl_capacity (fold ttl_step ops c0)"
proof -
  have "ttl_capacity (fold ttl_step ops c0) = ttl_capacity c0" by (induction ops arbitrary: c0) simp_all
  with assms show "0 < ttl_capacity (fold ttl_step ops c0)" by (auto simp: TTLCache_Inr)
  from assms have "od_wf (ttl_items c0)" "length (ttl_items c0) \<le> ttl_limit c0" by (auto simp: TTLCache_Inr)
  from ttl.run_ok[OF this, of ops]
  show "od_wf (ttl_items (fold ttl_step ops c0))"
    "length (ttl_items (fold ttl_step ops c0)) \<le> ttl_limit (fold ttl_step ops c0)" by simp_all
qed

text \<open>The TTL cache, after any sequence of operations (with any clock readings) on a cache that
  was constructed: its keys are distinct and at most \<open>capacity\<close> many. A put then keeps exactly the
  other unexpired items in their order, less the least recently used one when the cache is full of
  unexpired items, and adds the new item as the most recent; a get before the new item's expiry
  returns its value and a get from then on returns \<^verbatim>\<open>None\<close>.\<close>
theorem ttl_cache_put:
  assumes "TTLCache capacity = Inr c0" "c = fold ttl_step ops c0" "ttl_put c key value ttl now = Inr c'"
  shows "distinct (map fst (ttl_items c)) \<and> length (ttl_items c) \<le> nat (ttl_capacity c)
    \<and> ttl_items c' =
        (let others = filter (\<lambda>(k, _, expires_at). k \<noteq> key \<and> now < expires_at) (ttl_items c)
         in (if length others = nat (ttl_capacity c) then tl others else others)
            @ [(key, value, num (py_add (PyFloat now) ttl))])
    \<and> snd (ttl_get c' key later) = (if num (py_add (PyFloat now) ttl) \<le> later then PyNone else value)"
proof -
  note reach = ttl_reachable[OF assms(1), of ops, folded assms(2)]
  let ?o = "filter (\<lambda>(k, _, e). k \<noteq> key \<and> now < e) (ttl_items c)"
  let ?n = "(key, value, num (py_add (PyFloat now) ttl))"
  have o: "od_del (live now (ttl_items c)) key = ?o"
    by (auto simp: od_del_def live_def intro!: filter_cong)
  have "length ?o \<le> nat (ttl_capacity c)"
    using reach(2) by (metis length_filter_le le_trans ttl_limit_def)
  then have full: "ttl_capacity c < int (length (?o @ [?n])) \<longleftrightarrow> length ?o = nat (ttl_capacity c)"
    using reach(3) by (simp, linarith)
  from full reach(3) have tl: "length ?o = nat (ttl_capacity c) \<Longrightarrow> tl (?o @ [?n]) = tl ?o @ [?n]"
    by (cases ?o) simp_all
  have items: "ttl_items c' = (if length ?o = nat (ttl_capacity c) then tl ?o else ?o) @ [?n]"
    using ttl_put_items(1)[OF reach(1) assms(3)] full tl unfolding o Let_def by simp
  have wf': "od_wf (ttl_items c')"
    using ttl.step_wf[OF reach(1), of "TtlPut key value ttl now"] assms(3) by simp
  then have fresh: "key \<notin> fst ` set (if length ?o = nat (ttl_capacity c) then tl ?o else ?o)"
    unfolding items od_wf_snoc by (rule conjunct2)
  have "map_of (live later (ttl_items c')) key =
      (if num (py_add (PyFloat now) ttl) \<le> later then None else Some (value, num (py_add (PyFloat now) ttl)))"
    unfolding items by (rule map_of_live_snoc[OF fresh])
  with items reach ttl_get_value[OF wf', of key later] show ?thesis
    by (auto simp: Let_def od_wf_def ttl_limit_def)
qed

text \<open>A cache of one item: the second put evicts the first key, and its item expires at 3.5.\<close>

theorem ttl_cache_put_witness:
  "ttl_items (ttl_step (TtlPut ''b'' PyNone (PyFloat (3/2)) 2)
      (fold ttl_step [TtlPut ''a'' (PyInt 7) (PyInt 10) 1] \<lparr>ttl_capacity = 1, ttl_items = []\<rparr>))
   = [(''b'', PyNone, 7/2)]"
proof -
  let ?new = "\<lparr>ttl_capacity = 1, ttl_items = []\<rparr>"
  let ?c = "fold ttl_step [TtlPut ''a'' (PyInt 7) (PyInt 10) 1] ?new"
  have c: "TTLCache (PyInt 1) = Inr ?new" by (simp add: TTLCache_def plain_int_def)
  have "num (py_add (PyFloat 1) (PyInt 10)) = 11" by code_simp
  then have c1: "?c = \<lparr>ttl_capacity = 1, ttl_items = [(''a'', PyInt 7, 11)]\<rparr>"
    by (simp add: ttl_put_def ttl_purge_def plain_number_def Let_def)
  have p: "ttl_put ?c ''b'' PyNone (PyFloat (3/2)) 2 = Inr (ttl_step (TtlPut ''b'' PyNone (PyFloat (3/2)) 2) ?c)"
    unfolding c1 by (simp add: ttl_put_def plain_number_def Let_def)
  have e: "num (py_add (PyFloat 2) (PyFloat (3/2))) = 7/2" by code_simp
  from ttl_cache_put[OF c refl p, of 3] show ?thesis unfolding c1 e by (simp del: ttl_step.simps)
qed

end
