(* ===== verification/RateLimiter.thy ===== *)
theory RateLimiter
  imports PyValues
begin

text \<open>
  The sliding-window rate limiter of
  \<^verbatim>\<open>src/app/tasks/definitions/rate_limiter/reference/solution.py\<close>. Its decisions are shown equal to
  those of a reference limiter that keeps the whole log of calls and counts, for every call, the
  allowed calls of the same key inside the window. The window boundary is a binary64 difference;
  that it never moves back is what makes popping events for good correct.
\<close>

section \<open>The limiter\<close>

text \<open>A \<^verbatim>\<open>defaultdict(deque)\<close> is a total function: a missing key reads as the empty queue.\<close>

record limiter =
  rl_limit :: int
  rl_window :: rat
  rl_events :: "string \<Rightarrow> rat list"
  rl_last_call :: "string \<rightharpoonup> rat"

definition SlidingWindowRateLimiter :: "pyval \<Rightarrow> pyval \<Rightarrow> string + limiter" where
  "SlidingWindowRateLimiter limit window_seconds =
     (case plain_int limit of
        None \<Rightarrow> Inl ''limit must be a positive integer''
      | Some n \<Rightarrow>
          if n \<le> 0 then Inl ''limit must be a positive integer''
          else (case plain_number window_seconds of
                  None \<Rightarrow> Inl ''window_seconds must be positive''
                | Some w \<Rightarrow>
                    if w \<le> 0 then Inl ''window_seconds must be positive''
                    else Inr \<lparr>rl_limit = n, rl_window = fl64 w, rl_events = (\<lambda>_. []), rl_last_call = Map.empty\<rparr>))"

definition allow :: "limiter \<Rightarrow> string \<Rightarrow> rat \<Rightarrow> limiter \<times> (string + bool)" where
  "allow l key now =
     (if (case rl_last_call l key of None \<Rightarrow> False | Some previous \<Rightarrow> now < previous)
      then (l, Inl ''timestamps must be nondecreasing per key'')
      else
        (let l = l\<lparr>rl_last_call := (rl_last_call l)(key \<mapsto> now)\<rparr>;
             boundary = fsub now (rl_window l);
             events = dropWhile (\<lambda>e. e \<le> boundary) (rl_events l key)
         in if rl_limit l \<le> int (length events)
            then (l\<lparr>rl_events := (rl_events l)(key := events)\<rparr>, Inr False)
            else (l\<lparr>rl_events := (rl_events l)(key := events @ [now])\<rparr>, Inr True)))"

type_synonym call = "string \<times> rat"

fun allow_all :: "limiter \<Rightarrow> call list \<Rightarrow> (string + bool) list" where
  "allow_all l [] = []"
| "allow_all l ((key, now) # calls) = (let (l', r) = allow l key now in r # allow_all l' calls)"

section \<open>The reference limiter on the log of calls\<close>

type_synonym call_log = "(call \<times> (string + bool)) list"

definition answered :: "call_log \<Rightarrow> string \<Rightarrow> rat list" where
  "answered lg key = map (snd \<circ> fst) (filter (\<lambda>(c, r). fst c = key \<and> \<not> isl r) lg)"

definition allowed :: "call_log \<Rightarrow> string \<Rightarrow> rat list" where
  "allowed lg key = map (snd \<circ> fst) (filter (\<lambda>(c, r). fst c = key \<and> r = Inr True) lg)"

text \<open>
  A call before the latest answered call of its key is refused with an error; any other is allowed
  when fewer than \<open>limit\<close> calls of its key were allowed after \<open>now - window\<close>.
\<close>

definition decide :: "int \<Rightarrow> rat \<Rightarrow> call_log \<Rightarrow> call \<Rightarrow> string + bool" where
  "decide limit window lg c =
     (let (key, now) = c
      in if \<exists>t \<in> set (answered lg key). now < t
         then Inl ''timestamps must be nondecreasing per key''
         else Inr (int (length (filter (\<lambda>t. fsub now window < t) (allowed lg key))) < limit))"

fun decide_all :: "int \<Rightarrow> rat \<Rightarrow> call_log \<Rightarrow> call list \<Rightarrow> (string + bool) list" where
  "decide_all limit window lg [] = []"
| "decide_all limit window lg (c # calls) =
     (let r = decide limit window lg c in r # decide_all limit window (lg @ [(c, r)]) calls)"

section \<open>Equivalence\<close>

lemma answered_snoc:
  "answered (lg @ [((k, t), r)]) key = answered lg key @ (if k = key \<and> \<not> isl r then [t] else [])"
  by (simp add: answered_def)

lemma allowed_snoc:
  "allowed (lg @ [((k, t), r)]) key = allowed lg key @ (if k = key \<and> r = Inr True then [t] else [])"
  by (simp add: allowed_def)

lemma dropWhile_le_sorted: "sorted xs \<Longrightarrow> dropWhile (\<lambda>e. e \<le> b) xs = filter (\<lambda>e. b < e) xs"
  for b :: "'a::linorder"
proof (induction xs)
  case (Cons x xs)
  show ?case
  proof (cases "x \<le> b")
    case False
    with Cons.prems have "filter (\<lambda>e. b < e) xs = xs" by (intro filter_True) auto
    with False show ?thesis by simp
  qed (use Cons in simp)
qed simp

lemma fsub_mono: "x \<le> y \<Longrightarrow> fsub x w \<le> fsub y w"
  by (simp add: fsub_def fl64_mono)

text \<open>What the limiter keeps of the log, for one key.\<close>

definition tracks :: "limiter \<Rightarrow> call_log \<Rightarrow> string \<Rightarrow> bool" where
  "tracks l lg key \<longleftrightarrow>
     sorted (answered lg key) \<and> sorted (allowed lg key)
     \<and> set (allowed lg key) \<subseteq> set (answered lg key)
     \<and> (case rl_last_call l key of
          None \<Rightarrow> answered lg key = [] \<and> rl_events l key = []
        | Some t \<Rightarrow> answered lg key \<noteq> [] \<and> t = last (answered lg key) \<and> sorted (rl_events l key)
            \<and> set (rl_events l key) \<subseteq> set (allowed lg key)
            \<and> (\<forall>b \<ge> fsub t (rl_window l). filter ((<) b) (rl_events l key) = filter ((<) b) (allowed lg key)))"

lemma sorted_last: "sorted xs \<Longrightarrow> x \<in> set xs \<Longrightarrow> x \<le> last xs"
  for x :: "'a::linorder"
  by (induction xs) (auto split: if_splits)

lemma tracks_late:
  assumes "tracks l lg key"
  shows "(\<exists>t \<in> set (answered lg key). now < t)
         \<longleftrightarrow> (case rl_last_call l key of None \<Rightarrow> False | Some previous \<Rightarrow> now < previous)"
proof (cases "rl_last_call l key")
  case (Some t)
  with assms have "sorted (answered lg key)" "answered lg key \<noteq> []" "t = last (answered lg key)"
    by (simp_all add: tracks_def)
  with Some show ?thesis using sorted_last order_less_le_trans by (fastforce simp: last_in_set)
qed (use assms in \<open>simp add: tracks_def\<close>)

text \<open>Popping at an earlier boundary first changes nothing: the boundary only moves forward.\<close>

lemma tracks_events:
  assumes "tracks l lg key" "\<not> (\<exists>t \<in> set (answered lg key). now < t)"
  shows "dropWhile (\<lambda>e. e \<le> fsub now (rl_window l)) (rl_events l key)
         = filter (\<lambda>t. fsub now (rl_window l) < t) (allowed lg key)"
proof (cases "rl_last_call l key")
  case None
  with assms(1) have "allowed lg key = []" "rl_events l key = []" by (auto simp: tracks_def)
  then show ?thesis by simp
next
  case (Some t)
  with assms have t: "t \<in> set (answered lg key)" and srt: "sorted (rl_events l key)"
    and ev: "\<And>b. fsub t (rl_window l) \<le> b \<Longrightarrow> filter ((<) b) (rl_events l key) = filter ((<) b) (allowed lg key)"
    by (auto simp: tracks_def)
  from t assms(2) have "t \<le> now" by (meson not_le)
  then have "fsub t (rl_window l) \<le> fsub now (rl_window l)" by (rule fsub_mono)
  from ev[OF this] show ?thesis by (simp add: dropWhile_le_sorted[OF srt])
qed

lemma allow_decides:
  assumes tr: "\<And>k. tracks l lg k" and a: "allow l key now = (l', r)"
  shows "r = decide (rl_limit l) (rl_window l) lg (key, now)"
    and "rl_limit l' = rl_limit l" "rl_window l' = rl_window l"
    and "tracks l' (lg @ [((key, now), r)]) k"
proof -
  let ?late = "\<exists>t \<in> set (answered lg key). now < t"
  let ?in = "filter (\<lambda>t. fsub now (rl_window l) < t) (allowed lg key)"
  note late = tracks_late[OF tr, of key now, symmetric]
  note ev = tracks_events[OF tr, of key now]
  have cases: "(l', r) = (if ?late then (l, Inl ''timestamps must be nondecreasing per key'')
      else (l\<lparr>rl_last_call := (rl_last_call l)(key \<mapsto> now),
              rl_events := (rl_events l)(key := ?in @ (if int (length ?in) < rl_limit l then [now] else []))\<rparr>,
            Inr (int (length ?in) < rl_limit l)))"
    using a[symmetric] unfolding allow_def late by (auto simp: ev Let_def)
  then show r: "r = decide (rl_limit l) (rl_window l) lg (key, now)"
    and "rl_limit l' = rl_limit l" "rl_window l' = rl_window l"
    by (auto simp: decide_def split: if_splits)
  show "tracks l' (lg @ [((key, now), r)]) k"
  proof (cases "?late \<or> k \<noteq> key")
    case True
    with cases tr[of k] show ?thesis
      by (auto simp: tracks_def answered_snoc allowed_snoc split: if_splits option.splits)
  next
    case False
    then have ord: "\<forall>t \<in> set (answered lg key). t \<le> now" by (auto simp: not_less)
    moreover have "set (allowed lg key) \<subseteq> set (answered lg key)" using tr[of key] by (simp add: tracks_def)
    ultimately have ord': "\<forall>t \<in> set (allowed lg key). t \<le> now" by blast
    from False cases have r: "r = Inr (int (length ?in) < rl_limit l)"
      and ev': "rl_events l' key = ?in @ (if int (length ?in) < rl_limit l then [now] else [])"
      and lc: "rl_last_call l' key = Some now" and w: "rl_window l' = rl_window l" by auto
    have later: "filter (\<lambda>x. fsub now (rl_window l) < x \<and> b < x) (allowed lg key) = filter ((<) b) (allowed lg key)"
      if "fsub now (rl_window l) \<le> b" for b
      using that by (auto intro!: filter_cong)
    show ?thesis using False tr[of key] ord ord'
      by (auto simp: tracks_def answered_snoc allowed_snoc r ev' lc w sorted_append sorted_wrt_filter later)
  qed
qed


lemma allow_all_decides:
  "(\<And>k. tracks l lg k) \<Longrightarrow> allow_all l calls = decide_all (rl_limit l) (rl_window l) lg calls"
proof (induction calls arbitrary: l lg)
  case (Cons c calls)
  obtain key now where c: "c = (key, now)" by (cases c)
  obtain l' r where a: "allow l key now = (l', r)" by (cases "allow l key now")
  note step = allow_decides[OF Cons.prems a]
  from Cons.IH[OF step(4)] step(1-3) show ?case by (simp add: c a Let_def)
qed simp

lemma SlidingWindowRateLimiter_Inr:
  "SlidingWindowRateLimiter limit window = Inr l \<longleftrightarrow>
     (\<exists>n w. limit = PyInt n \<and> 0 < n \<and> plain_number window = Some w \<and> 0 < w
        \<and> l = \<lparr>rl_limit = n, rl_window = fl64 w, rl_events = (\<lambda>_. []), rl_last_call = Map.empty\<rparr>)"
  by (auto simp: SlidingWindowRateLimiter_def plain_int_def split: option.splits pyval.splits)

text \<open>C38: On every sequence of calls, for any keys and timestamps, a constructed rate limiter gives
  exactly the answers of the reference limiter on the log of all calls: an error for a timestamp
  before the latest answered call of the key, and otherwise \<^verbatim>\<open>True\<close> iff fewer than \<open>limit\<close> calls of the
  key were allowed with a timestamp above \<open>now - window\<close>, computed in binary64. Forgetting the popped
  events, and the keys' separate queues, never change an answer.\<close>
theorem rate_limiter_equals_reference:
  assumes "SlidingWindowRateLimiter limit window_seconds = Inr l"
  shows "allow_all l calls = decide_all (rl_limit l) (rl_window l) [] calls"
  using assms
  by (intro allow_all_decides) (auto simp: SlidingWindowRateLimiter_Inr tracks_def answered_def allowed_def)

text \<open>One call per second: the second call of \<open>a\<close> is refused, one a full window later is allowed.\<close>

theorem rate_limiter_equals_reference_witness:
  "decide_all 1 1 [] [(''a'', 0), (''a'', 1/2), (''b'', 1/2), (''a'', 1)] = [Inr True, Inr False, Inr True, Inr True]"
proof -
  let ?l = "\<lparr>rl_limit = 1, rl_window = 1, rl_events = (\<lambda>_. []), rl_last_call = Map.empty\<rparr>"
  have one: "fl64 1 = 1" by code_simp
  have l: "SlidingWindowRateLimiter (PyInt 1) (PyInt 1) = Inr ?l"
    by (simp add: SlidingWindowRateLimiter_def plain_int_def plain_number_def one)
  have "allow_all ?l [(''a'', 0), (''a'', 1/2), (''b'', 1/2), (''a'', 1)] = [Inr True, Inr False, Inr True, Inr True]"
    by code_simp
  with rate_limiter_equals_reference[OF l] show ?thesis by (simp del: allow_all.simps decide_all.simps)
qed

text \<open>
  The boundary is rounded: for timestamps so large that \<open>now - window\<close> rounds to \<open>now\<close>, each event
  is already outside the window of the next call at the same instant, and nothing is limited.
\<close>

lemma rate_limiter_absorbed_window:
  "allow_all \<lparr>rl_limit = 1, rl_window = 1, rl_events = (\<lambda>_. []), rl_last_call = Map.empty\<rparr>
     [(''a'', 2 ^ 60), (''a'', 2 ^ 60), (''a'', 2 ^ 60)] = [Inr True, Inr True, Inr True]"
  by code_simp

end
