(* ===== verification/CircuitBreaker.thy ===== *)
theory CircuitBreaker
  imports PyValues
begin

text \<open>
  The circuit breaker of \<^verbatim>\<open>src/app/tasks/definitions/circuit_breaker/reference/solution.py\<close> as a state
  machine: \<open>cb_call\<close> is the whole \<^verbatim>\<open>call\<close> method on one outcome of the operation, \<open>cb_step\<close> the
  relation of one method call, and the lemmas show what a breaker that was constructed and used in
  any way does.
\<close>

section \<open>State and operations\<close>

datatype circuit_state = closed_circuit | open_circuit | half_open_circuit

record breaker =
  cb_threshold :: int
  cb_recovery_timeout :: rat
  cb_state :: circuit_state
  cb_failure_count :: int
  cb_opened_at :: "rat option"
  cb_last_now :: "rat option"

definition CircuitBreaker :: "pyval \<Rightarrow> pyval \<Rightarrow> string + breaker" where
  "CircuitBreaker failure_threshold recovery_timeout =
     (case plain_int failure_threshold of
        None \<Rightarrow> Inl ''failure_threshold must be a positive integer''
      | Some n \<Rightarrow>
          if n \<le> 0 then Inl ''failure_threshold must be a positive integer''
          else (case plain_number recovery_timeout of
                  None \<Rightarrow> Inl ''recovery_timeout must be positive''
                | Some w \<Rightarrow>
                    if w \<le> 0 then Inl ''recovery_timeout must be positive''
                    else Inr \<lparr>cb_threshold = n, cb_recovery_timeout = fl64 w, cb_state = closed_circuit,
                              cb_failure_count = 0, cb_opened_at = None, cb_last_now = None\<rparr>))"

definition state :: "breaker \<Rightarrow> string" where
  "state b = (case cb_state b of closed_circuit \<Rightarrow> ''closed'' | open_circuit \<Rightarrow> ''open'' | half_open_circuit \<Rightarrow> ''half_open'')"

text \<open>
  What the operation does when it is called: it returns, raises an \<^verbatim>\<open>Exception\<close>, or raises a
  \<^verbatim>\<open>BaseException\<close> that is no \<^verbatim>\<open>Exception\<close> (a cancellation, \<^verbatim>\<open>KeyboardInterrupt\<close>), which the
  \<^verbatim>\<open>except\<close> clause does not catch. The operation does not use the breaker itself.
\<close>

datatype 'r outcome = Returns 'r | RaisesException string | RaisesBaseException string

text \<open>How \<^verbatim>\<open>call\<close> ends: \<open>Propagated\<close> is the operation's own exception, the others are the breaker's.\<close>

datatype 'r call_result =
    Returned 'r
  | Propagated string
  | CallValueError string
  | CircuitOpenError string
  | CallAssertionError

definition cb_open :: "breaker \<Rightarrow> rat \<Rightarrow> breaker" where
  "cb_open b now = b\<lparr>cb_state := open_circuit, cb_opened_at := Some now, cb_failure_count := 0\<rparr>"

text \<open>The \<^verbatim>\<open>try\<close> statement and what follows it.\<close>

definition cb_attempt :: "breaker \<Rightarrow> 'r outcome \<Rightarrow> rat \<Rightarrow> breaker \<times> 'r call_result" where
  "cb_attempt b operation now =
     (case operation of
        RaisesException e \<Rightarrow>
          (if cb_state b = half_open_circuit then cb_open b now
           else (let b = b\<lparr>cb_failure_count := cb_failure_count b + 1\<rparr>
                 in if cb_threshold b \<le> cb_failure_count b then cb_open b now else b),
           Propagated e)
      | RaisesBaseException e \<Rightarrow> (b, Propagated e)
      | Returns r \<Rightarrow>
          (b\<lparr>cb_state := closed_circuit, cb_failure_count := 0, cb_opened_at := None\<rparr>, Returned r))"

text \<open>The check on the clock: no call may be earlier than the latest one.\<close>

definition in_order :: "breaker \<Rightarrow> rat \<Rightarrow> bool" where
  "in_order b now \<longleftrightarrow> (case cb_last_now b of None \<Rightarrow> True | Some last_now \<Rightarrow> \<not> now < last_now)"

definition cb_call :: "breaker \<Rightarrow> 'r outcome \<Rightarrow> rat \<Rightarrow> breaker \<times> 'r call_result" where
  "cb_call b operation now =
     (if \<not> in_order b now
      then (b, CallValueError ''timestamps must be nondecreasing'')
      else
        (let b = b\<lparr>cb_last_now := Some now\<rparr>
         in if cb_state b = open_circuit
            then (case cb_opened_at b of
                    None \<Rightarrow> (b, CallAssertionError)
                  | Some opened_at \<Rightarrow>
                      if now < fadd opened_at (cb_recovery_timeout b)
                      then (b, CircuitOpenError ''circuit is open'')
                      else cb_attempt (b\<lparr>cb_state := half_open_circuit\<rparr>) operation now)
            else cb_attempt b operation now))"

definition cb_reset :: "breaker \<Rightarrow> breaker" where
  "cb_reset b = b\<lparr>cb_state := closed_circuit, cb_failure_count := 0, cb_opened_at := None, cb_last_now := None\<rparr>"

section \<open>Reachable breakers\<close>

text \<open>One use of the breaker, on any operation at any time.\<close>

inductive cb_step :: "breaker \<Rightarrow> breaker \<Rightarrow> bool" where
  Call: "cb_call b (operation :: pyval outcome) now = (b', r) \<Longrightarrow> cb_step b b'"
| Reset: "cb_step b (cb_reset b)"

inductive cb_reachable :: "breaker \<Rightarrow> bool" where
  New: "CircuitBreaker failure_threshold recovery_timeout = Inr b \<Longrightarrow> cb_reachable b"
| Step: "cb_reachable b \<Longrightarrow> cb_step b b' \<Longrightarrow> cb_reachable b'"

inductive_cases cb_stepE: "cb_step b b'"

definition cb_ok :: "breaker \<Rightarrow> bool" where
  "cb_ok b \<longleftrightarrow>
     0 < cb_threshold b \<and> 0 \<le> cb_failure_count b \<and> cb_failure_count b < cb_threshold b
     \<and> (cb_state b = closed_circuit \<longleftrightarrow> cb_opened_at b = None)
     \<and> (cb_state b \<noteq> closed_circuit \<longrightarrow> cb_failure_count b = 0)
     \<and> (case cb_opened_at b of None \<Rightarrow> True
        | Some t \<Rightarrow> (case cb_last_now b of None \<Rightarrow> False | Some n \<Rightarrow> t \<le> n))"

lemma CircuitBreaker_Inr:
  "CircuitBreaker ft rt = Inr b \<longleftrightarrow>
     (\<exists>n w. ft = PyInt n \<and> 0 < n \<and> plain_number rt = Some w \<and> 0 < w
        \<and> b = \<lparr>cb_threshold = n, cb_recovery_timeout = fl64 w, cb_state = closed_circuit,
               cb_failure_count = 0, cb_opened_at = None, cb_last_now = None\<rparr>)"
  by (auto simp: CircuitBreaker_def plain_int_def split: option.splits pyval.splits)

lemma cb_attempt_ok:
  assumes "cb_ok b" "cb_last_now b = Some now" "cb_state b \<noteq> open_circuit"
  shows "cb_ok (fst (cb_attempt b operation now))"
  using assms
  by (cases "cb_state b") (auto simp: cb_ok_def cb_attempt_def cb_open_def Let_def split: outcome.splits option.splits)

lemma cb_ok_tick:
  assumes "cb_ok b" "in_order b now"
  shows "cb_ok (b\<lparr>cb_last_now := Some now\<rparr>)"
    and "cb_state b = open_circuit \<Longrightarrow> cb_ok (b\<lparr>cb_last_now := Some now, cb_state := half_open_circuit\<rparr>)"
  using assms by (auto simp: cb_ok_def in_order_def split: option.splits)

lemma cb_call_ok:
  assumes "cb_ok b"
  shows "cb_ok (fst (cb_call b operation now))"
  using assms cb_ok_tick[OF assms, of now]
    cb_attempt_ok[of "b\<lparr>cb_last_now := Some now\<rparr>" now operation]
    cb_attempt_ok[of "b\<lparr>cb_last_now := Some now, cb_state := half_open_circuit\<rparr>" now operation]
  by (auto simp: cb_call_def Let_def split: option.splits)

lemma cb_step_ok: "cb_step b b' \<Longrightarrow> cb_ok b \<Longrightarrow> cb_ok b'"
proof (erule cb_stepE)
  fix operation :: "pyval outcome" and now r
  assume "cb_ok b" "cb_call b operation now = (b', r)"
  then show "cb_ok b'" using cb_call_ok[of b operation now] by simp
qed (auto simp: cb_reset_def cb_ok_def)

lemma cb_reachable_ok: "cb_reachable b \<Longrightarrow> cb_ok b"
proof (induction rule: cb_reachable.induct)
  case (New ft rt b)
  then show ?case by (auto simp: CircuitBreaker_Inr cb_ok_def)
qed (rule cb_step_ok)

section \<open>Tripping and recovery\<close>

definition cb_fail :: "string \<Rightarrow> rat \<Rightarrow> breaker \<Rightarrow> breaker" where
  "cb_fail e now b = fst (cb_call b (RaisesException e :: pyval outcome) now)"

lemma cb_fail_closed:
  assumes "cb_state b = closed_circuit" "in_order b now"
  shows "cb_fail e now b =
    (if cb_threshold b \<le> cb_failure_count b + 1
     then b\<lparr>cb_last_now := Some now, cb_state := open_circuit, cb_opened_at := Some now, cb_failure_count := 0\<rparr>
     else b\<lparr>cb_last_now := Some now, cb_failure_count := cb_failure_count b + 1\<rparr>)"
  using assms by (simp add: cb_fail_def cb_call_def cb_attempt_def cb_open_def Let_def)

lemma cb_fail_run:
  assumes "cb_state b = closed_circuit" "sorted ts" "\<forall>t \<in> set ts. in_order b t"
    and "cb_failure_count b + int (length ts) < cb_threshold b"
  shows "fold (cb_fail e) ts b =
    (if ts = [] then b else b\<lparr>cb_last_now := Some (last ts), cb_failure_count := cb_failure_count b + int (length ts)\<rparr>)"
  using assms
proof (induction ts arbitrary: b)
  case (Cons t ts)
  let ?b = "b\<lparr>cb_last_now := Some t, cb_failure_count := cb_failure_count b + 1\<rparr>"
  have b: "cb_fail e t b = ?b" using cb_fail_closed[of b t e] Cons.prems by simp
  have "fold (cb_fail e) ts ?b = (if ts = [] then ?b else ?b\<lparr>cb_last_now := Some (last ts),
      cb_failure_count := cb_failure_count ?b + int (length ts)\<rparr>)"
    using Cons.prems by (intro Cons.IH) (auto simp: in_order_def not_less)
  with b show ?case by simp
qed simp

lemma cb_trips:
  assumes "cb_state b = closed_circuit" "sorted (ts @ [t])" "\<forall>t \<in> set (ts @ [t]). in_order b t"
    and "cb_failure_count b + int (length ts) + 1 = cb_threshold b"
  shows "fold (cb_fail e) (ts @ [t]) b =
    b\<lparr>cb_last_now := Some t, cb_state := open_circuit, cb_opened_at := Some t, cb_failure_count := 0\<rparr>"
proof -
  have run: "fold (cb_fail e) ts b = (if ts = [] then b else
      b\<lparr>cb_last_now := Some (last ts), cb_failure_count := cb_failure_count b + int (length ts)\<rparr>)"
    using assms by (intro cb_fail_run) (auto simp: sorted_append)
  have "in_order (fold (cb_fail e) ts b) t"
    using assms(2,3) by (auto simp: run in_order_def sorted_append not_less)
  then show ?thesis
    using cb_fail_closed[of "fold (cb_fail e) ts b" t e] assms(1,4) by (auto simp: run)
qed

text \<open>While the circuit is open no operation runs.\<close>

lemma cb_call_open:
  assumes "cb_state b = open_circuit" "cb_opened_at b = Some opened" "in_order b now"
  shows "now < fadd opened (cb_recovery_timeout b) \<Longrightarrow>
      cb_call b operation now = (b\<lparr>cb_last_now := Some now\<rparr>, CircuitOpenError ''circuit is open'')"
    and "\<not> now < fadd opened (cb_recovery_timeout b) \<Longrightarrow>
      cb_call b operation now = cb_attempt (b\<lparr>cb_last_now := Some now, cb_state := half_open_circuit\<rparr>) operation now"
  using assms by (simp_all add: cb_call_def Let_def)

fun cb_calls :: "breaker \<Rightarrow> ('r outcome \<times> rat) list \<Rightarrow> breaker \<times> 'r call_result list" where
  "cb_calls b [] = (b, [])"
| "cb_calls b ((operation, now) # calls) =
     (let (b', r) = cb_call b operation now; (b'', rs) = cb_calls b' calls in (b'', r # rs))"

lemma cb_calls_rejected:
  assumes "cb_state b = open_circuit" "cb_opened_at b = Some opened"
    and "sorted (map snd calls)" "\<forall>c \<in> set calls. in_order b (snd c) \<and> snd c < fadd opened (cb_recovery_timeout b)"
  shows "cb_calls b calls =
    (if calls = [] then b else b\<lparr>cb_last_now := Some (snd (last calls))\<rparr>,
     replicate (length calls) (CircuitOpenError ''circuit is open''))"
  using assms
proof (induction calls arbitrary: b)
  case (Cons c calls)
  obtain operation now where c: "c = (operation, now)" by (cases c)
  let ?b = "b\<lparr>cb_last_now := Some now\<rparr>"
  have call: "cb_call b operation now = (?b, CircuitOpenError ''circuit is open'')"
    using Cons.prems c by (intro cb_call_open(1)) auto
  have "cb_calls ?b calls = (if calls = [] then ?b else ?b\<lparr>cb_last_now := Some (snd (last calls))\<rparr>,
     replicate (length calls) (CircuitOpenError ''circuit is open''))"
    using Cons.prems c by (intro Cons.IH) (auto simp: in_order_def not_less)
  with call c show ?case by simp
qed simp

text \<open>A reachable closed breaker protects the operation: consecutive failures leave it closed until
  their number (with those already counted) reaches the threshold, and the failure that reaches it
  opens the circuit. From then on every call before the recovery deadline, whatever the operation,
  ends in \<^verbatim>\<open>CircuitOpenError\<close> with the operation not run and the circuit still open. The first call
  at or after the deadline is a probe: when the operation returns, the circuit closes with no failure
  counted; when it raises an \<^verbatim>\<open>Exception\<close> the circuit opens anew at that time; any other
  \<^verbatim>\<open>BaseException\<close> leaves it half open.\<close>
theorem circuit_breaker_protects:
  assumes "cb_reachable b" "state b = ''closed''"
    and "sorted (ts @ [t])" "\<forall>u \<in> set (ts @ [t]). in_order b u"
    and "cb_failure_count b + int (length ts) + 1 = cb_threshold b"
    and "b' = fold (cb_fail e) (ts @ [t]) b"
    and "sorted (t # map snd calls @ [probe])"
    and "\<forall>c \<in> set calls. snd c < fadd t (cb_recovery_timeout b)"
    and "fadd t (cb_recovery_timeout b) \<le> probe"
    and "cb_calls b' calls = (b'', rs)"
  shows "(\<forall>n \<le> length ts. state (fold (cb_fail e) (take n ts) b) = ''closed'') \<and> state b' = ''open''
    \<and> state b'' = ''open'' \<and> rs = replicate (length calls) (CircuitOpenError ''circuit is open'')
    \<and> cb_call b'' (Returns v) probe
        = (b''\<lparr>cb_last_now := Some probe, cb_state := closed_circuit, cb_failure_count := 0, cb_opened_at := None\<rparr>, Returned v)
    \<and> cb_call b'' (RaisesException e) probe
        = (b''\<lparr>cb_last_now := Some probe, cb_state := open_circuit, cb_opened_at := Some probe, cb_failure_count := 0\<rparr>,
           Propagated e)
    \<and> cb_call b'' (RaisesBaseException e) probe
        = (b''\<lparr>cb_last_now := Some probe, cb_state := half_open_circuit\<rparr>, Propagated e)"
proof -
  have closed: "cb_state b = closed_circuit" using assms(2) by (auto simp: state_def split: circuit_state.splits)
  have n: "state (fold (cb_fail e) (take n ts) b) = ''closed''" if "n \<le> length ts" for n
  proof -
    have "sorted (take n ts)" using assms(3) by (simp add: sorted_append sorted_wrt_take)
    then have "fold (cb_fail e) (take n ts) b = (if take n ts = [] then b else b\<lparr>cb_last_now := Some (last (take n ts)),
        cb_failure_count := cb_failure_count b + int (length (take n ts))\<rparr>)"
      using assms(4,5) closed that by (intro cb_fail_run) (auto dest: in_set_takeD)
    with assms(2) show ?thesis by (simp add: state_def)
  qed
  note b' = cb_trips[OF closed assms(3,4,5), of e, folded assms(6)]
  have "cb_calls b' calls = (if calls = [] then b' else b'\<lparr>cb_last_now := Some (snd (last calls))\<rparr>,
     replicate (length calls) (CircuitOpenError ''circuit is open''))"
    using assms(7,8) by (intro cb_calls_rejected) (auto simp: b' in_order_def not_less sorted_append)
  with assms(10) have b'': "b'' = (if calls = [] then b' else b'\<lparr>cb_last_now := Some (snd (last calls))\<rparr>)"
    and rs: "rs = replicate (length calls) (CircuitOpenError ''circuit is open'')" by auto
  have st: "cb_state b'' = open_circuit" "cb_opened_at b'' = Some t" "cb_failure_count b'' = 0"
    "cb_recovery_timeout b'' = cb_recovery_timeout b" by (simp_all add: b'' b')
  have "in_order b'' probe" using assms(7) by (auto simp: b'' b' in_order_def not_less sorted_append)
  note probe = cb_call_open(2)[OF st(1,2) this, unfolded st(4), unfolded not_less, OF assms(9)]
  have "state b' = ''open''" "state b'' = ''open''" by (simp_all add: b' state_def st(1))
  with n rs show ?thesis by (simp add: probe cb_attempt_def cb_open_def)
qed


lemma cb_no_assertion_error: "cb_reachable b \<Longrightarrow> snd (cb_call b operation now) \<noteq> CallAssertionError"
  by (frule cb_reachable_ok)
     (auto simp: cb_ok_def cb_call_def cb_attempt_def Let_def split: option.splits outcome.splits)

text \<open>Threshold 2, timeout 10: failures at 1 and 2 open the circuit, a call at 5 is rejected, one at 12 is a probe.\<close>

definition ex_breaker :: breaker where
  "ex_breaker = \<lparr>cb_threshold = 2, cb_recovery_timeout = 10, cb_state = closed_circuit,
     cb_failure_count = 0, cb_opened_at = None, cb_last_now = None\<rparr>"

theorem circuit_breaker_protects_witness:
  "state (fst (cb_calls (fold (cb_fail ''x'') [1, 2] ex_breaker) [(Returns PyNone, 5)])) = ''open''"
proof -
  let ?ops = "[(Returns PyNone, 5)] :: (pyval outcome \<times> rat) list"
  let ?b = "fold (cb_fail ''x'') ([1] @ [2]) ex_breaker"
  have ten: "fl64 10 = 10" and twelve: "fadd 2 10 = 12" by code_simp+
  have "CircuitBreaker (PyInt 2) (PyInt 10) = Inr ex_breaker"
    by (simp add: CircuitBreaker_def plain_int_def plain_number_def ten ex_breaker_def)
  then have reach: "cb_reachable ex_breaker" by (rule New)
  have h: "state ex_breaker = ''closed''" "sorted ([1] @ [2] :: rat list)" "\<forall>u \<in> set ([1] @ [2]). in_order ex_breaker u"
    "cb_failure_count ex_breaker + int (length [1 :: rat]) + 1 = cb_threshold ex_breaker"
    "sorted (2 # map snd ?ops @ [12])" "\<forall>c \<in> set ?ops. snd c < fadd 2 (cb_recovery_timeout ex_breaker)"
    "fadd 2 (cb_recovery_timeout ex_breaker) \<le> 12"
    by (simp_all add: ex_breaker_def state_def in_order_def twelve)
  note p = circuit_breaker_protects[OF reach h(1-4) refl h(5-7) surjective_pairing, of "''x''"]
  have "state (fst (cb_calls ?b ?ops)) = ''open''" by (rule p[THEN conjunct2, THEN conjunct2, THEN conjunct1])
  then show ?thesis by (simp del: cb_calls.simps)
qed

end
