(* ===== verification/RetryBackoff.thy ===== *)
theory RetryBackoff
  imports PyValues
begin

text \<open>
  The capped exponential backoff of
  \<^verbatim>\<open>src/app/tasks/definitions/retry_backoff/reference/solution.py\<close>. The loop stops early once the cap
  is reached; it is shown equal to the plain iteration, bounded and monotone, in binary64
  arithmetic. (A product beyond the largest double is infinite in Python; the \<^verbatim>\<open>min\<close> with the finite
  cap gives the cap for it and for the exact product alike.)
\<close>

datatype backoff_error = BackoffValueError string | BackoffTypeError

text \<open>The test \<^verbatim>\<open>isinstance(v, bool)\<close>, and the comparison that raises on a value that is no number.\<close>

definition is_bool :: "pyval \<Rightarrow> bool" where
  "is_bool v = (case v of PyBool _ \<Rightarrow> True | _ \<Rightarrow> False)"

fun backoff_loop :: "nat \<Rightarrow> rat \<Rightarrow> rat \<Rightarrow> rat \<Rightarrow> rat" where
  "backoff_loop 0 factor cap delay = delay"
| "backoff_loop (Suc n) factor cap delay =
     (if cap \<le> delay \<or> factor = 1 then delay
      else backoff_loop n factor cap (min cap (fmul delay factor)))"

text \<open>The second and the later checks compare numbers; a string or \<^verbatim>\<open>None\<close> there raises \<^verbatim>\<open>TypeError\<close>.\<close>

definition backoff_retry_delay :: "pyval \<Rightarrow> pyval \<Rightarrow> pyval \<Rightarrow> pyval \<Rightarrow> backoff_error + rat" where
  "backoff_retry_delay attempt base_delay max_delay multiplier =
     (case plain_int attempt of
        None \<Rightarrow> Inl (BackoffValueError ''attempt must be a positive integer'')
      | Some n \<Rightarrow>
     if n < 1 then Inl (BackoffValueError ''attempt must be a positive integer'')
     else if is_bool base_delay then Inl (BackoffValueError ''base_delay must be positive'')
     else (case plain_number base_delay of None \<Rightarrow> Inl BackoffTypeError | Some b \<Rightarrow>
     if b \<le> 0 then Inl (BackoffValueError ''base_delay must be positive'')
     else if is_bool max_delay then Inl (BackoffValueError ''max_delay must be at least base_delay'')
     else (case plain_number max_delay of None \<Rightarrow> Inl BackoffTypeError | Some m \<Rightarrow>
     if m < b then Inl (BackoffValueError ''max_delay must be at least base_delay'')
     else if is_bool multiplier then Inl (BackoffValueError ''multiplier must be at least one'')
     else (case plain_number multiplier of None \<Rightarrow> Inl BackoffTypeError | Some f \<Rightarrow>
     if f < 1 then Inl (BackoffValueError ''multiplier must be at least one'')
     else (let delay = fl64 b; cap = fl64 m; factor = fl64 f
           in Inr (min (backoff_loop (nat (n - 1)) factor cap delay) cap))))))"

text \<open>The plain iteration.\<close>

definition backoff_iter :: "nat \<Rightarrow> rat \<Rightarrow> rat \<Rightarrow> rat \<Rightarrow> rat" where
  "backoff_iter n factor cap delay = ((\<lambda>d. min cap (fmul d factor)) ^^ n) delay"

lemma fmul_ge: "fl64 d = d \<Longrightarrow> 0 \<le> d \<Longrightarrow> 1 \<le> f \<Longrightarrow> d \<le> fmul d f"
proof -
  assume d: "fl64 d = d" "0 \<le> d" and "1 \<le> f"
  then have "d * 1 \<le> d * f" by (intro mult_left_mono)
  then have "fl64 d \<le> fl64 (d * f)" by (intro fl64_mono) simp
  with d show "d \<le> fmul d f" by (simp add: fmul_def)
qed

text \<open>A delay between 0 and the cap, all doubles.\<close>

definition delay_ok :: "rat \<Rightarrow> rat \<Rightarrow> bool" where
  "delay_ok cap d \<longleftrightarrow> fl64 d = d \<and> fl64 cap = cap \<and> 0 \<le> d \<and> d \<le> cap"

lemma delay_ok_next:
  assumes "delay_ok cap d" "1 \<le> f"
  shows "delay_ok cap (min cap (fmul d f))" "d \<le> min cap (fmul d f)"
  using assms fmul_ge[of d f] by (auto simp: delay_ok_def fmul_def min_def)

lemma backoff_iter_Suc: "backoff_iter (Suc n) f cap d = backoff_iter n f cap (min cap (fmul d f))"
  by (simp add: backoff_iter_def funpow_Suc_right del: funpow.simps)

lemma backoff_iter_fix: "min cap (fmul d f) = d \<Longrightarrow> backoff_iter n f cap d = d"
  by (induction n) (simp_all add: backoff_iter_def)

lemma backoff_stop:
  assumes "delay_ok cap d" "1 \<le> f" "cap \<le> d \<or> f = 1"
  shows "min cap (fmul d f) = d"
proof -
  have "f = 1 \<Longrightarrow> fmul d f = d" using assms(1) by (simp add: delay_ok_def fmul_def)
  with assms fmul_ge[of d f] show ?thesis by (auto simp: delay_ok_def min_def)
qed

lemma backoff_loop_iter:
  "delay_ok cap d \<Longrightarrow> 1 \<le> f \<Longrightarrow> backoff_loop n f cap d = backoff_iter n f cap d"
proof (induction n arbitrary: d)
  case (Suc n)
  show ?case
  proof (cases "cap \<le> d \<or> f = 1")
    case True
    with backoff_stop[OF Suc.prems True] show ?thesis by (simp add: backoff_iter_fix)
  next
    case False
    with Suc.IH[OF delay_ok_next(1)[OF Suc.prems] Suc.prems(2)] show ?thesis by (simp add: backoff_iter_Suc)
  qed
qed (simp add: backoff_iter_def)

lemma backoff_iter_ok: "delay_ok cap d \<Longrightarrow> 1 \<le> f \<Longrightarrow> delay_ok cap (backoff_iter n f cap d)"
  by (induction n) (simp_all add: backoff_iter_def delay_ok_next)

lemma backoff_iter_mono:
  assumes "delay_ok cap d" "1 \<le> f" "m \<le> n"
  shows "backoff_iter m f cap d \<le> backoff_iter n f cap d"
  using assms(3)
proof (induction n rule: dec_induct)
  case (step n)
  have "backoff_iter n f cap d \<le> backoff_iter (Suc n) f cap d"
    using delay_ok_next(2)[OF backoff_iter_ok[OF assms(1,2), of n] assms(2)] by (simp add: backoff_iter_def)
  with step.IH show ?case by (rule order_trans)
qed simp

lemma backoff_Inr:
  assumes "backoff_retry_delay (PyInt n) base_delay max_delay multiplier = Inr r"
  obtains b m f where "1 \<le> n" "plain_number base_delay = Some b" "plain_number max_delay = Some m"
    "plain_number multiplier = Some f" "0 < b" "b \<le> m" "1 \<le> f"
    "r = min (backoff_loop (nat (n - 1)) (fl64 f) (fl64 m) (fl64 b)) (fl64 m)"
  using assms
  by (auto simp: backoff_retry_delay_def plain_int_def Let_def not_less not_le split: option.splits if_splits)

text \<open>The retry delay of every accepted call equals the plain iteration of
  \<^verbatim>\<open>delay = min(cap, delay * factor)\<close> from the base delay, \<^verbatim>\<open>attempt - 1\<close> times in binary64: leaving the
  loop early never changes it. It lies between the base delay and the cap (as doubles), and a later
  attempt never waits less than an earlier one; and whether a call is accepted does not depend on which
  positive attempt it is.\<close>
theorem backoff_delay_iterates:
  assumes "backoff_retry_delay (PyInt n) base_delay max_delay multiplier = Inr r" "n \<le> n'"
  shows "r = backoff_iter (nat (n - 1)) (fl64 (num multiplier)) (fl64 (num max_delay)) (fl64 (num base_delay))
    \<and> fl64 (num base_delay) \<le> r \<and> r \<le> fl64 (num max_delay)
    \<and> (\<exists>r'. backoff_retry_delay (PyInt n') base_delay max_delay multiplier = Inr r' \<and> r \<le> r')"
proof -
  from assms(1) obtain b m f where n: "1 \<le> n" and p: "plain_number base_delay = Some b"
    "plain_number max_delay = Some m" "plain_number multiplier = Some f" and o: "0 < b" "b \<le> m" "1 \<le> f"
    and r: "r = min (backoff_loop (nat (n - 1)) (fl64 f) (fl64 m) (fl64 b)) (fl64 m)"
    by (rule backoff_Inr)
  have num: "num base_delay = b" "num max_delay = m" "num multiplier = f" using p by (simp_all add: num_def)
  have f: "1 \<le> fl64 f" using fl64_mono[OF o(3)] fl64.rnd_1 by simp
  have ok: "delay_ok (fl64 m) (fl64 b)"
    using o fl64_mono[of b m] fl64_mono[of 0 b] by (simp add: delay_ok_def)
  let ?i = "\<lambda>k. backoff_iter k (fl64 f) (fl64 m) (fl64 b)"
  have cap: "min (backoff_loop k (fl64 f) (fl64 m) (fl64 b)) (fl64 m) = ?i k" for k
    using backoff_loop_iter[OF ok f, of k] backoff_iter_ok[OF ok f, of k] by (simp add: delay_ok_def)
  have base: "fl64 b \<le> ?i k" for k
    using backoff_iter_mono[OF ok f, of 0 k] by (simp add: backoff_iter_def)
  have nb: "\<not> is_bool base_delay" "\<not> is_bool max_delay" "\<not> is_bool multiplier"
    using p by (auto simp: is_bool_def plain_number_def split: pyval.splits)
  have n': "backoff_retry_delay (PyInt n') base_delay max_delay multiplier = Inr (?i (nat (n' - 1)))"
    using n assms(2) p o nb by (simp add: backoff_retry_delay_def plain_int_def cap)
  have "?i (nat (n - 1)) \<le> ?i (nat (n' - 1))" using assms(2) by (intro backoff_iter_mono[OF ok f]) simp
  moreover have "?i k \<le> fl64 m" for k using backoff_iter_ok[OF ok f, of k] by (simp add: delay_ok_def)
  ultimately show ?thesis using r cap base num n' by simp
qed

text \<open>Base 0.1, multiplier 2, cap 1: the third attempt waits 0.4, the fifth the cap.\<close>

theorem backoff_delay_iterates_witness:
  "\<exists>r. backoff_retry_delay (PyInt 5) (PyFloat (fl64 (1/10))) (PyInt 1) (PyFloat 2) = Inr r \<and> fl64 (4/10) \<le> r"
proof -
  have "backoff_retry_delay (PyInt 3) (PyFloat (fl64 (1/10))) (PyInt 1) (PyFloat 2) = Inr (fl64 (4/10))"
    by code_simp
  from backoff_delay_iterates[OF this, of 5] show ?thesis by auto
qed

end
