(* ===== verification/DependencyResolver.thy ===== *)
theory DependencyResolver
  imports PyValues
begin

text \<open>
  The dependency resolver of
  \<^verbatim>\<open>src/app/tasks/definitions/dependency_resolver/reference/solution.py\<close>: Kahn's algorithm with a heap
  of available nodes. A heap is the sorted list of its elements, of which \<^verbatim>\<open>heappop\<close> removes the
  least; a set that is iterated is iterated in sorted order, on which no result depends. The main
  loop is a \<open>partial_function\<close>; it is shown to return on every graph, with the greedy topological
  order or with the cycle error, the latter exactly on the cyclic graphs.
\<close>

section \<open>The resolver\<close>

datatype resolver_error = ResolverTypeError string | DependencyCycleError string

type_synonym requirements = "(string, string set) odict"

fun read_dependencies :: "pyval list \<Rightarrow> string set \<Rightarrow> resolver_error + string set" where
  "read_dependencies [] unique = Inr unique"
| "read_dependencies (PyStr dependency # raw) unique = read_dependencies raw (insert dependency unique)"
| "read_dependencies (_ # raw) unique = Inl (ResolverTypeError ''node names must be strings'')"

text \<open>The first loop: checks the graph and collects the dependencies and all nodes.\<close>

fun read_graph :: "(pyval \<times> pyval) list \<Rightarrow> requirements \<Rightarrow> string set \<Rightarrow> resolver_error + (requirements \<times> string set)" where
  "read_graph [] dependencies all_nodes = Inr (dependencies, all_nodes)"
| "read_graph (item # items) dependencies all_nodes =
     (case item of
        (PyStr node, raw_dependencies) \<Rightarrow>
          (case raw_dependencies of
             PyList raw \<Rightarrow>
               (case read_dependencies raw {} of
                  Inl e \<Rightarrow> Inl e
                | Inr unique \<Rightarrow> read_graph items (od_set dependencies node unique) (insert node all_nodes \<union> unique))
           | _ \<Rightarrow> Inl (ResolverTypeError ''dependencies must be lists''))
      | _ \<Rightarrow> Inl (ResolverTypeError ''node names must be strings''))"

text \<open>
  The dictionaries \<^verbatim>\<open>dependents\<close> and \<^verbatim>\<open>indegree\<close> have all nodes as keys and are read at no other key:
  total functions that start as the empty set and 0.
\<close>

record links =
  dependents :: "string \<Rightarrow> string set"
  indegree :: "string \<Rightarrow> int"

definition link_node :: "string \<times> string set \<Rightarrow> links \<Rightarrow> links" where
  "link_node item l =
     (let (node, required) = item;
          l = l\<lparr>indegree := (indegree l)(node := int (card required))\<rparr>
      in l\<lparr>dependents := fold (\<lambda>dependency deps. deps(dependency := insert node (deps dependency)))
                           (sorted_list_of_set required) (dependents l)\<rparr>)"

definition link_nodes :: "requirements \<Rightarrow> links" where
  "link_nodes dependencies = fold link_node dependencies \<lparr>dependents = (\<lambda>_. {}), indegree = (\<lambda>_. 0)\<rparr>"

definition release :: "string \<Rightarrow> (string \<Rightarrow> int) \<times> string list \<Rightarrow> (string \<Rightarrow> int) \<times> string list" where
  "release waiting s =
     (let (degree, available) = s;
          degree = degree(waiting := degree waiting - 1)
      in (degree, if degree waiting = 0 then insort waiting available else available))"

partial_function (option) resolve_loop ::
  "(string \<Rightarrow> string set) \<Rightarrow> (string \<Rightarrow> int) \<Rightarrow> string list \<Rightarrow> string list \<Rightarrow> string list option" where
  "resolve_loop deps degree available resolved =
     (case available of
        [] \<Rightarrow> Some resolved
      | node # rest \<Rightarrow>
          (let (degree', available') = fold release (sorted_list_of_set (deps node)) (degree, rest)
           in resolve_loop deps degree' available' (resolved @ [node])))"

declare resolve_loop.simps [code]

definition resolve_dependencies :: "pyval \<Rightarrow> (resolver_error + string list) option" where
  "resolve_dependencies graph =
     (case graph of
        PyDict items \<Rightarrow>
          (case read_graph items [] {} of
             Inl e \<Rightarrow> Some (Inl e)
           | Inr (dependencies, all_nodes) \<Rightarrow>
               (let l = link_nodes dependencies;
                    available = sorted_list_of_set (Set.filter (\<lambda>n. indegree l n = 0) all_nodes)
                in case resolve_loop (dependents l) (indegree l) available [] of
                     None \<Rightarrow> None
                   | Some resolved \<Rightarrow>
                       if length resolved \<noteq> card all_nodes
                       then Some (Inl (DependencyCycleError ''dependency graph contains a cycle''))
                       else Some (Inr resolved)))
      | _ \<Rightarrow> Some (Inl (ResolverTypeError ''graph must be a dictionary'')))"

section \<open>The dependency relation\<close>

text \<open>What a node requires; a node that is only a dependency requires nothing.\<close>

definition requires :: "requirements \<Rightarrow> string \<Rightarrow> string set" where
  "requires dependencies node = (case map_of dependencies node of None \<Rightarrow> {} | Some r \<Rightarrow> r)"

definition graph_ok :: "requirements \<Rightarrow> string set \<Rightarrow> bool" where
  "graph_ok dependencies nodes \<longleftrightarrow>
     od_wf dependencies \<and> finite nodes \<and> fst ` set dependencies \<subseteq> nodes
     \<and> (\<forall>n. finite (requires dependencies n) \<and> requires dependencies n \<subseteq> nodes)"

lemma read_dependencies_finite: "read_dependencies raw u = Inr r \<Longrightarrow> finite u \<Longrightarrow> finite r"
  by (induction raw u rule: read_dependencies.induct) auto

lemma requires_keys: "d \<in> requires deps n \<Longrightarrow> n \<in> fst ` set deps"
  by (auto simp: requires_def intro: od_get_key split: option.splits)

lemma requires_od_set: "requires (od_set d k r) n = (if n = k then r else requires d n)"
  by (simp add: requires_def map_of_od_set)

lemma read_graph_ok:
  "read_graph items d a = Inr (deps, nodes) \<Longrightarrow> graph_ok d a \<Longrightarrow> graph_ok deps nodes"
proof (induction items d a rule: read_graph.induct)
  case (2 item items d a)
  then obtain node raw u where item: "item = (PyStr node, PyList raw)" and u: "read_dependencies raw {} = Inr u"
    and rest: "read_graph items (od_set d node u) (insert node a \<union> u) = Inr (deps, nodes)"
    by (auto split: prod.splits pyval.splits sum.splits)
  have "finite u" using read_dependencies_finite[OF u] by simp
  then have "graph_ok (od_set d node u) (insert node a \<union> u)"
    using 2(3) by (auto simp: graph_ok_def requires_od_set odict_simps)
  with 2(1)[OF item[symmetric] refl refl u rest] show ?case by simp
qed auto

lemma fold_insert_at:
  "distinct ds \<Longrightarrow> fold (\<lambda>d deps. deps(d := insert node (deps d))) ds f
     = (\<lambda>d. if d \<in> set ds then insert node (f d) else f d)"
  by (induction ds arbitrary: f) (auto simp: fun_eq_iff)

lemma link_node_simps:
  assumes "finite required"
  shows "indegree (link_node (node, required) l) = (indegree l)(node := int (card required))"
    and "dependents (link_node (node, required) l)
         = (\<lambda>d. if d \<in> required then insert node (dependents l d) else dependents l d)"
  using assms by (simp_all add: link_node_def fold_insert_at Let_def fun_eq_iff)

lemma fold_link_node:
  assumes "od_wf d" "\<forall>(k, r) \<in> set d. finite r"
  shows "indegree (fold link_node d l) n = (case map_of d n of None \<Rightarrow> indegree l n | Some r \<Rightarrow> int (card r))
     \<and> dependents (fold link_node d l) x = dependents l x \<union> {n. \<exists>r. map_of d n = Some r \<and> x \<in> r}"
  using assms
proof (induction d arbitrary: l)
  case (Cons p d)
  obtain k r where p: "p = (k, r)" by (cases p)
  have fresh: "map_of d k = None" using Cons.prems(1) p by (simp add: od_wf_def map_of_eq_None_iff)
  have wf: "od_wf d" "\<forall>(k, r) \<in> set d. finite r" and fin: "finite r" using Cons.prems p by (auto simp: od_wf_def)
  from Cons.IH[OF wf, of "link_node (k, r) l"] fresh p show ?case
    by (auto simp: link_node_simps[OF fin] split: option.splits if_splits)
qed auto

lemma link_nodes_requires:
  assumes "graph_ok deps nodes"
  shows "indegree (link_nodes deps) n = int (card (requires deps n))"
    and "dependents (link_nodes deps) x = {n. x \<in> requires deps n}"
proof -
  have wf: "od_wf deps" using assms by (simp add: graph_ok_def)
  have "finite r" if "(k, r) \<in> set deps" for k r
  proof -
    have "requires deps k = r" using wf that by (simp add: requires_def od_wf_def)
    then show ?thesis using assms by (auto simp: graph_ok_def)
  qed
  then have fin: "\<forall>(k, r) \<in> set deps. finite r" by blast
  note links = fold_link_node[OF wf fin, of "\<lparr>dependents = (\<lambda>_. {}), indegree = (\<lambda>_. 0)\<rparr>"]
  show "indegree (link_nodes deps) n = int (card (requires deps n))"
    unfolding link_nodes_def using links by (simp add: requires_def split: option.splits)
  show "dependents (link_nodes deps) x = {n. x \<in> requires deps n}"
    unfolding link_nodes_def using links[of n x] by (auto simp: requires_def split: option.splits)
qed

section \<open>The loop\<close>

text \<open>The nodes that can come next: not yet resolved, with everything they require resolved.\<close>

definition ready :: "requirements \<Rightarrow> string set \<Rightarrow> string set \<Rightarrow> string set" where
  "ready deps nodes resolved = {n \<in> nodes - resolved. requires deps n \<subseteq> resolved}"

text \<open>Each node of the order is the least one that was ready when it was chosen.\<close>

definition greedy :: "requirements \<Rightarrow> string set \<Rightarrow> string list \<Rightarrow> bool" where
  "greedy deps nodes order \<longleftrightarrow>
     (\<forall>i < length order. ready deps nodes (set (take i order)) \<noteq> {}
        \<and> order ! i = Min (ready deps nodes (set (take i order))))"

lemma fold_release:
  assumes "distinct ds" "distinct av" "sorted av" "set av \<inter> set ds = {}" "fold release ds (g, av) = (g', av')"
  shows "g' = (\<lambda>n. if n \<in> set ds then g n - 1 else g n)
     \<and> set av' = set av \<union> {d \<in> set ds. g d = 1} \<and> distinct av' \<and> sorted av'"
  using assms
proof (induction ds arbitrary: g av)
  case (Cons d ds)
  let ?g = "g(d := g d - 1)" and ?av = "if g d = 1 then insort d av else av"
  have "release d (g, av) = (?g, ?av)" by (simp add: release_def)
  then have f: "fold release ds (?g, ?av) = (g', av')" using Cons.prems(5) by simp
  have av: "distinct ?av" "sorted ?av" "set ?av \<inter> set ds = {}" "distinct ds"
    using Cons.prems by (auto simp: distinct_insort sorted_insort set_insort_key)
  from Cons.IH[OF av(4,1,2,3) f] have "g' = (\<lambda>n. if n \<in> set ds then ?g n - 1 else ?g n)
     \<and> set av' = set ?av \<union> {d \<in> set ds. ?g d = 1} \<and> distinct av' \<and> sorted av'" .
  with Cons.prems(1) show ?case by (auto simp: set_insort_key fun_eq_iff)
qed simp

definition loop_inv :: "requirements \<Rightarrow> string set \<Rightarrow> (string \<Rightarrow> int) \<Rightarrow> string list \<Rightarrow> string list \<Rightarrow> bool" where
  "loop_inv deps nodes degree available resolved \<longleftrightarrow>
     distinct resolved \<and> set resolved \<subseteq> nodes \<and> (\<forall>n \<in> set resolved. requires deps n \<subseteq> set resolved)
     \<and> sorted available \<and> distinct available \<and> set available = ready deps nodes (set resolved)
     \<and> (\<forall>n. degree n = int (card (requires deps n - set resolved)))
     \<and> greedy deps nodes resolved"

lemma greedy_snoc:
  "greedy deps nodes order \<Longrightarrow> n \<in> ready deps nodes (set order) \<Longrightarrow> n = Min (ready deps nodes (set order))
     \<Longrightarrow> greedy deps nodes (order @ [n])"
  by (auto simp: greedy_def nth_append less_Suc_eq)

lemma card_Diff_insert_in: "finite A \<Longrightarrow> x \<in> A \<Longrightarrow> x \<notin> B \<Longrightarrow> int (card (A - insert x B)) = int (card (A - B)) - 1"
proof -
  assume "finite A" "x \<in> A" "x \<notin> B"
  moreover have "A - insert x B = (A - B) - {x}" by blast
  moreover have "0 < card (A - B)" using calculation by (auto simp: card_gt_0_iff)
  ultimately show ?thesis by (simp add: of_nat_diff Suc_leI)
qed

lemma card_one_at: "x \<in> A \<Longrightarrow> finite A \<Longrightarrow> card A = 1 \<longleftrightarrow> A = {x}"
  by (auto simp: card_1_singleton_iff)

lemma loop_inv_step:
  assumes ok: "graph_ok deps nodes" and inv: "loop_inv deps nodes degree (node # rest) resolved"
    and rel: "fold release (sorted_list_of_set {n. node \<in> requires deps n}) (degree, rest) = (degree', available')"
  shows "loop_inv deps nodes degree' available' (resolved @ [node])" "node \<in> nodes - set resolved"
proof -
  let ?D = "{n. node \<in> requires deps n}"
  have req: "finite (requires deps n)" "requires deps n \<subseteq> nodes" for n using ok by (auto simp: graph_ok_def)
  have node: "node \<in> ready deps nodes (set resolved)" using inv unfolding loop_inv_def by (metis list.set_intros(1))
  then show fresh: "node \<in> nodes - set resolved" by (simp add: ready_def)
  have "?D \<subseteq> fst ` set deps" by (auto intro: requires_keys)
  then have fin: "finite ?D" by (rule finite_subset) simp
  have D: "?D \<subseteq> nodes" using \<open>?D \<subseteq> fst ` set deps\<close> ok by (auto simp: graph_ok_def)
  have deg: "degree n = int (card (requires deps n - set resolved))" for n using inv by (simp add: loop_inv_def)
  have unresolved: "n \<notin> set resolved" if "n \<in> ?D" for n
    using inv fresh that unfolding loop_inv_def by blast
  have sl: "sorted (node # rest)" "distinct (node # rest)" "set (node # rest) = ready deps nodes (set resolved)"
    using inv by (simp_all add: loop_inv_def)
  have least: "Min (ready deps nodes (set resolved)) = node"
    using sl by (intro Min_eqI) (auto simp flip: sl(3))
  have notready: "n \<notin> ready deps nodes (set resolved)" if "n \<in> ?D" for n using that fresh by (auto simp: ready_def)
  then have "set rest \<inter> set (sorted_list_of_set ?D) = {}" using sl(3) fin by auto
  from fold_release[OF _ _ _ this rel] sl(1,2) fin
  have d': "degree' = (\<lambda>n. if n \<in> ?D then degree n - 1 else degree n)"
    and av': "set available' = set rest \<union> {d \<in> ?D. degree d = 1}" "distinct available'" "sorted available'"
    by simp_all
  have one: "degree d = 1 \<longleftrightarrow> requires deps d \<subseteq> insert node (set resolved)" if "d \<in> ?D" for d
  proof -
    have "node \<in> requires deps d - set resolved" using that fresh by blast
    moreover have "finite (requires deps d - set resolved)" using req(1) by blast
    ultimately have "card (requires deps d - set resolved) = 1 \<longleftrightarrow> requires deps d - set resolved = {node}"
      by (intro card_one_at)
    also have "\<dots> \<longleftrightarrow> requires deps d \<subseteq> insert node (set resolved)" using that fresh by blast
    finally show ?thesis using deg[of d] by simp
  qed
  have restD: "set rest = ready deps nodes (set resolved) - {node}" using sl(2,3) by auto
  have "n \<in> set available' \<longleftrightarrow> n \<in> ready deps nodes (set (resolved @ [node]))" for n
  proof (cases "n \<in> ?D")
    case True
    moreover have "n \<noteq> node" using True node fresh by (auto simp: ready_def)
    ultimately show ?thesis
      using one[OF True] notready[OF True] unresolved[OF True] D by (auto simp: av'(1) restD ready_def)
  next
    case False
    then have "requires deps n \<subseteq> insert node (set resolved) \<longleftrightarrow> requires deps n \<subseteq> set resolved" by blast
    with False show ?thesis by (auto simp: av'(1) restD ready_def)
  qed
  then have "set available' = ready deps nodes (set (resolved @ [node]))" by blast
  moreover have "degree' n = int (card (requires deps n - set (resolved @ [node])))" for n
    using card_Diff_insert_in[OF req(1)[of n], of node "set resolved"] fresh deg[of n] d'
    by (auto simp: Diff_insert0 simp flip: Diff_insert2)
  moreover have "greedy deps nodes (resolved @ [node])"
    using inv node least by (auto simp: loop_inv_def intro!: greedy_snoc)
  moreover have "requires deps node \<subseteq> set resolved" using node by (simp add: ready_def)
  ultimately show "loop_inv deps nodes degree' available' (resolved @ [node])"
    using inv av'(2,3) fresh unfolding loop_inv_def by auto
qed

text \<open>The loop returns: every round resolves one more node.\<close>

lemma resolve_loop_returns:
  assumes ok: "graph_ok deps nodes" and "loop_inv deps nodes degree available resolved"
  shows "\<exists>order degree'. resolve_loop (\<lambda>x. {n. x \<in> requires deps n}) degree available resolved = Some order
     \<and> loop_inv deps nodes degree' [] order"
  using assms(2)
proof (induction "card (nodes - set resolved)" arbitrary: degree available resolved rule: less_induct)
  case less
  show ?case
  proof (cases available)
    case Nil
    with less.prems show ?thesis by (auto simp: resolve_loop.simps)
  next
    case (Cons node rest)
    obtain degree' available' where
      rel: "fold release (sorted_list_of_set {n. node \<in> requires deps n}) (degree, rest) = (degree', available')"
      by (cases "fold release (sorted_list_of_set {n. node \<in> requires deps n}) (degree, rest)")
    note step = loop_inv_step[OF ok less.prems[unfolded Cons] rel]
    have "nodes - set (resolved @ [node]) \<subset> nodes - set resolved" using step(2) by auto
    then have "card (nodes - set (resolved @ [node])) < card (nodes - set resolved)"
      using ok by (intro psubset_card_mono) (auto simp: graph_ok_def)
    from less.hyps[OF this step(1)] show ?thesis by (simp add: resolve_loop.simps[of _ degree] Cons rel)
  qed
qed

section \<open>Orders and cycles\<close>

text \<open>The edges: from a dependency to the node that requires it.\<close>

definition edges :: "requirements \<Rightarrow> (string \<times> string) set" where
  "edges deps = {(d, n). d \<in> requires deps n}"

lemma edges_finite: "graph_ok deps nodes \<Longrightarrow> finite (edges deps)"
proof -
  assume ok: "graph_ok deps nodes"
  have "edges deps \<subseteq> nodes \<times> fst ` set deps"
    using ok requires_keys by (fastforce simp: edges_def graph_ok_def)
  then show ?thesis using ok by (auto simp: graph_ok_def intro: finite_subset)
qed

text \<open>Nodes left over with nothing ready each wait for one another: a cycle.\<close>

lemma stuck_cyclic:
  assumes ok: "graph_ok deps nodes" and "ready deps nodes resolved = {}" "n \<in> nodes - resolved"
  shows "\<not> acyclic (edges deps)"
proof
  assume "acyclic (edges deps)"
  then have "wf (edges deps)" using edges_finite[OF ok] by (simp add: finite_acyclic_wf)
  then obtain m where m: "m \<in> nodes - resolved" "\<And>d. (d, m) \<in> edges deps \<Longrightarrow> d \<notin> nodes - resolved"
    using assms(3) by (metis wfE_min)
  then have "requires deps m \<subseteq> resolved" using ok unfolding edges_def graph_ok_def by blast
  with m(1) assms(2) show False by (auto simp: ready_def)
qed

definition position :: "string list \<Rightarrow> string \<Rightarrow> nat" where
  "position order n = length (takeWhile (\<lambda>x. x \<noteq> n) order)"

lemma position_nth: "distinct order \<Longrightarrow> i < length order \<Longrightarrow> position order (order ! i) = i"
proof (induction order arbitrary: i)
  case (Cons x order)
  then show ?case by (cases i) (auto simp: position_def)
qed simp

lemma position_less: "d \<in> set (take i order) \<Longrightarrow> position order d < i"
proof (induction order arbitrary: i)
  case (Cons x order)
  then show ?case by (cases i) (auto simp: position_def)
qed simp

lemma greedy_before:
  assumes "greedy deps nodes order" "finite nodes" "i < length order" "d \<in> requires deps (order ! i)"
  shows "d \<in> set (take i order)"
proof -
  let ?r = "ready deps nodes (set (take i order))"
  have "finite ?r" using assms(2) by (simp add: ready_def)
  then have "order ! i \<in> ?r" using assms(1,3) by (metis greedy_def Min_in)
  with assms(4) show ?thesis by (auto simp: ready_def)
qed

lemma greedy_acyclic:
  assumes "graph_ok deps nodes" "distinct order" "greedy deps nodes order" "set order = nodes"
  shows "acyclic (edges deps)"
proof -
  have "edges deps \<subseteq> measure (position order)"
  proof (clarsimp simp: edges_def)
    fix d n assume d: "d \<in> requires deps n"
    then have "n \<in> fst ` set deps" by (rule requires_keys)
    with assms(1,4) have "n \<in> set order" by (auto simp: graph_ok_def)
    then obtain i where i: "i < length order" "n = order ! i" by (metis in_set_conv_nth)
    have "d \<in> set (take i order)" using assms(1,3) i d by (intro greedy_before) (auto simp: graph_ok_def)
    then show "position order d < position order n"
      using i assms(2) by (simp add: position_nth position_less)
  qed
  then show ?thesis by (rule acyclic_subset[OF wf_acyclic[OF wf_measure]])
qed

lemma ready_init:
  assumes "graph_ok deps nodes"
  shows "loop_inv deps nodes (indegree (link_nodes deps))
           (sorted_list_of_set (Set.filter (\<lambda>n. indegree (link_nodes deps) n = 0) nodes)) []"
proof -
  have "finite nodes" "\<And>n. finite (requires deps n)" using assms by (auto simp: graph_ok_def)
  then show ?thesis by (auto simp: loop_inv_def ready_def greedy_def link_nodes_requires[OF assms])
qed

lemma resolve_dependencies_loop:
  assumes "read_graph items [] {} = Inr (deps, nodes)"
  obtains order degree where "graph_ok deps nodes" "loop_inv deps nodes degree [] order"
    "resolve_dependencies (PyDict items) =
       Some (if set order = nodes then Inr order
             else Inl (DependencyCycleError ''dependency graph contains a cycle''))"
proof -
  have ok: "graph_ok deps nodes" by (rule read_graph_ok[OF assms]) (simp add: graph_ok_def requires_def)
  from resolve_loop_returns[OF ok ready_init[OF ok]] obtain order degree where
    loop: "resolve_loop (\<lambda>x. {n. x \<in> requires deps n}) (indegree (link_nodes deps))
        (sorted_list_of_set (Set.filter (\<lambda>n. indegree (link_nodes deps) n = 0) nodes)) [] = Some order"
    and inv: "loop_inv deps nodes degree [] order" by blast
  have "dependents (link_nodes deps) = (\<lambda>x. {n. x \<in> requires deps n})"
    by (simp add: fun_eq_iff link_nodes_requires[OF ok])
  moreover have "distinct order" "set order \<subseteq> nodes" "finite nodes"
    using inv ok by (simp_all add: loop_inv_def graph_ok_def)
  then have "length order = card nodes \<longleftrightarrow> set order = nodes"
    by (metis card_subset_eq distinct_card)
  ultimately have "resolve_dependencies (PyDict items) =
       Some (if set order = nodes then Inr order
             else Inl (DependencyCycleError ''dependency graph contains a cycle''))"
    using loop assms by (simp add: resolve_dependencies_def Let_def)
  with ok inv show ?thesis by (rule that)
qed

text \<open>C34: The resolver returns on every well-typed graph. On an acyclic one the result lists every
  node exactly once, each after everything it requires, and each the least (as a string) of the nodes
  that were ready at that point, which determines the result; on a cyclic graph, and on no other, it
  raises \<^verbatim>\<open>DependencyCycleError\<close>.\<close>
theorem resolve_dependencies_correct:
  assumes "read_graph items [] {} = Inr (deps, nodes)"
  shows "if acyclic (edges deps)
         then \<exists>order. resolve_dependencies (PyDict items) = Some (Inr order)
           \<and> distinct order \<and> set order = nodes
           \<and> (\<forall>i < length order. requires deps (order ! i) \<subseteq> set (take i order)
                \<and> order ! i = Min (ready deps nodes (set (take i order))))
         else resolve_dependencies (PyDict items)
              = Some (Inl (DependencyCycleError ''dependency graph contains a cycle''))"
proof -
  from assms obtain order degree where ok: "graph_ok deps nodes" and inv: "loop_inv deps nodes degree [] order"
    and res: "resolve_dependencies (PyDict items) =
       Some (if set order = nodes then Inr order
             else Inl (DependencyCycleError ''dependency graph contains a cycle''))"
    by (rule resolve_dependencies_loop)
  have fin: "distinct order" "greedy deps nodes order" "set order \<subseteq> nodes" "ready deps nodes (set order) = {}"
    using inv by (auto simp: loop_inv_def)
  have iff: "set order = nodes \<longleftrightarrow> acyclic (edges deps)"
    using greedy_acyclic[OF ok fin(1,2)] stuck_cyclic[OF ok fin(4)] fin(3) by blast
  have "requires deps (order ! i) \<subseteq> set (take i order)" if "i < length order" for i
    using greedy_before[OF fin(2) _ that] ok by (auto simp: graph_ok_def)
  with iff res fin show ?thesis by (auto simp: greedy_def)
qed

text \<open>A diamond with an extra leaf, and a cycle of two.\<close>

definition ex_graph :: "(pyval \<times> pyval) list" where
  "ex_graph = [(PyStr ''app'', PyList [PyStr ''lib'', PyStr ''db'']), (PyStr ''lib'', PyList [PyStr ''core'']),
               (PyStr ''db'', PyList [PyStr ''core'', PyStr ''core''])]"

theorem resolve_dependencies_correct_witness:
  "\<exists>order. resolve_dependencies (PyDict ex_graph) = Some (Inr order)
     \<and> distinct order \<and> set order = {''app'', ''core'', ''db'', ''lib''}"
proof -
  let ?deps = "[(''app'', {''db'', ''lib''}), (''lib'', {''core''}), (''db'', {''core''})] :: requirements"
  have r: "read_graph ex_graph [] {} = Inr (?deps, {''app'', ''core'', ''db'', ''lib''})"
    by (auto simp: ex_graph_def)
  have "edges ?deps \<subseteq> measure (position [''core'', ''db'', ''lib'', ''app''])"
    by (auto simp: edges_def requires_def position_def split: if_splits)
  then have "acyclic (edges ?deps)" by (rule acyclic_subset[OF wf_acyclic[OF wf_measure]])
  from resolve_dependencies_correct[OF r, unfolded if_P[OF this]] show ?thesis
    by (elim exE conjE) (intro exI conjI)
qed

lemma resolve_cycle_example:
  "resolve_dependencies (PyDict [(PyStr ''a'', PyList [PyStr ''b'']), (PyStr ''b'', PyList [PyStr ''a''])])
     = Some (Inl (DependencyCycleError ''dependency graph contains a cycle''))"
  by code_simp

end
