(* ===== verification/FrameDecoder.thy ===== *)
theory FrameDecoder
  imports PyValues DecimalText
begin

text \<open>
  The incremental decoder of length-prefixed frames of
  \<^verbatim>\<open>src/app/tasks/definitions/frame_decoder/reference/solution.py\<close>. \<open>feed_step\<close> is one round of the
  \<^verbatim>\<open>while True\<close> loop of \<^verbatim>\<open>feed\<close>, \<open>feed_loop\<close> the loop with its termination proof. It is shown that
  how a stream is cut into chunks does not matter and that every stream of encoded frames decodes.
\<close>

section \<open>The decoder\<close>

record decoder =
  fd_maximum :: int
  fd_buffer :: string
  fd_expected :: "nat option"

definition LengthPrefixedDecoder :: "pyval \<Rightarrow> string + decoder" where
  "LengthPrefixedDecoder max_frame_size =
     (case plain_int max_frame_size of
        Some n \<Rightarrow> if \<not> (0 < n \<and> n \<le> 1000000) then Inl ''max_frame_size must be between 1 and 1,000,000''
                  else Inr \<lparr>fd_maximum = n, fd_buffer = [], fd_expected = None\<rparr>
      | None \<Rightarrow> Inl ''max_frame_size must be between 1 and 1,000,000'')"

text \<open>\<^verbatim>\<open>s.isascii() and s.isdigit()\<close>: not empty, and ASCII digits only.\<close>

definition ascii_digits :: "string \<Rightarrow> bool" where
  "ascii_digits s \<longleftrightarrow> s \<noteq> [] \<and> list_all ascii_digit s"

definition valid_prefix :: "string \<Rightarrow> bool" where
  "valid_prefix p \<longleftrightarrow> p \<noteq> [] \<and> ascii_digits p \<and> (p = ''0'' \<or> hd p \<noteq> CHR ''0'')"

datatype frame_error = FrameTypeError string | FrameValueError string | IntConversionError

text \<open>\<open>None\<close>: the partial prefix is fine.\<close>

definition validate_partial_prefix :: "int \<Rightarrow> string \<Rightarrow> frame_error option" where
  "validate_partial_prefix maximum buffer =
     (if buffer = [] then None
      else if \<not> ascii_digits buffer then Some (FrameValueError ''malformed frame length'')
      else if hd buffer = CHR ''0'' \<and> 1 < length buffer then Some (FrameValueError ''malformed frame length'')
      else (case int_of_digits buffer of
              None \<Rightarrow> Some IntConversionError
            | Some n \<Rightarrow> if maximum < n then Some (FrameValueError ''frame exceeds maximum size'') else None))"

text \<open>How a round ends: with an error, leaving the loop, or with one more frame.\<close>

datatype round =
    Fails frame_error
  | Stops string "nat option"
  | Frame string string

definition take_frame :: "string \<Rightarrow> nat \<Rightarrow> round" where
  "take_frame buffer expected =
     (if length buffer < expected then Stops buffer (Some expected)
      else Frame (take expected buffer) (drop expected buffer))"

definition feed_step :: "int \<Rightarrow> string \<Rightarrow> nat option \<Rightarrow> round" where
  "feed_step maximum buffer expected =
     (case expected of
        None \<Rightarrow>
          if CHR '':'' \<notin> set buffer
          then (case validate_partial_prefix maximum buffer of Some e \<Rightarrow> Fails e | None \<Rightarrow> Stops buffer None)
          else
            (let prefix = takeWhile (\<lambda>c. c \<noteq> CHR '':'') buffer
             in if \<not> valid_prefix prefix then Fails (FrameValueError ''malformed frame length'')
                else (case int_of_digits prefix of
                        None \<Rightarrow> Fails IntConversionError
                      | Some n \<Rightarrow>
                          if maximum < n then Fails (FrameValueError ''frame exceeds maximum size'')
                          else take_frame (drop (length prefix + 1) buffer) (nat n)))
      | Some n \<Rightarrow> take_frame buffer n)"

lemma take_frame_shorter: "take_frame buffer n = Frame f rest \<Longrightarrow> length rest + n = length buffer"
  by (auto simp: take_frame_def split: if_splits)

lemma feed_step_shorter:
  "feed_step maximum buffer expected = Frame f rest \<Longrightarrow>
     length rest < length buffer + (if expected = None then 0 else 1)"
proof (cases expected)
  case None
  let ?p = "takeWhile (\<lambda>c. c \<noteq> CHR '':'') buffer"
  assume "feed_step maximum buffer expected = Frame f rest"
  with None obtain n where "CHR '':'' \<in> set buffer" "take_frame (drop (length ?p + 1) buffer) (nat n) = Frame f rest"
    by (auto simp: feed_step_def Let_def split: if_splits option.splits)
  with take_frame_shorter[OF this(2)] None show ?thesis by (cases buffer) auto
qed (auto simp: feed_step_def dest!: take_frame_shorter)

function feed_loop :: "int \<Rightarrow> string \<Rightarrow> nat option \<Rightarrow> string list \<Rightarrow> frame_error + (string list \<times> string \<times> nat option)" where
  "feed_loop maximum buffer expected frames =
     (case feed_step maximum buffer expected of
        Fails e \<Rightarrow> Inl e
      | Stops buffer expected \<Rightarrow> Inr (frames, buffer, expected)
      | Frame frame rest \<Rightarrow> feed_loop maximum rest None (frames @ [frame]))"
  by pat_completeness auto

termination
  by (relation "measure (\<lambda>(_, buffer, expected, _). length buffer + (if expected = None then 0 else 1))")
     (auto dest: feed_step_shorter)

declare feed_loop.simps [simp del]

definition fd_reset :: "decoder \<Rightarrow> decoder" where
  "fd_reset d = d\<lparr>fd_buffer := [], fd_expected := None\<rparr>"

text \<open>Every error of the loop is a \<^verbatim>\<open>ValueError\<close>: the decoder is reset and the error raised.\<close>

definition feed :: "decoder \<Rightarrow> pyval \<Rightarrow> decoder \<times> (frame_error + string list)" where
  "feed d chunk =
     (case chunk of
        PyStr s \<Rightarrow>
          (case feed_loop (fd_maximum d) (fd_buffer d @ s) (fd_expected d) [] of
             Inl e \<Rightarrow> (fd_reset d, Inl e)
           | Inr (frames, buffer, expected) \<Rightarrow> (d\<lparr>fd_buffer := buffer, fd_expected := expected\<rparr>, Inr frames))
      | _ \<Rightarrow> (d, Inl (FrameTypeError ''chunk must be a string'')))"

definition finish :: "decoder \<Rightarrow> decoder \<times> (frame_error + unit)" where
  "finish d =
     (if fd_buffer d \<noteq> [] \<or> fd_expected d \<noteq> None
      then (fd_reset d, Inl (FrameValueError ''truncated frame''))
      else (d, Inr ()))"


section \<open>Chunks\<close>

lemma feed_loop_acc:
  "feed_loop m buffer expected (pre @ frames)
   = map_sum id (\<lambda>(fs, b, e). (pre @ fs, b, e)) (feed_loop m buffer expected frames)"
proof (induction m buffer expected frames rule: feed_loop.induct)
  case (1 m buffer expected frames)
  then show ?case by (simp add: feed_loop.simps[of m buffer] split: round.splits)
qed

lemma validate_partial_append:
  assumes "validate_partial_prefix m p = Some e" "CHR '':'' \<notin> set q"
  shows "\<exists>e'. validate_partial_prefix m (p @ q) = Some e'"
  using assms digits_value_append_ge[of p q]
  by (auto simp: validate_partial_prefix_def ascii_digits_def int_of_digits_def split: if_splits)

lemma int_of_digits_append:
  assumes "case int_of_digits p of None \<Rightarrow> True | Some n \<Rightarrow> m < n"
  shows "case int_of_digits (p @ q) of None \<Rightarrow> True | Some n \<Rightarrow> m < n"
proof (cases "4300 < length (p @ q)")
  case False
  then have "\<not> 4300 < length p" by simp
  with assms have "m < int (digits_value p)" by (simp add: int_of_digits_def)
  also have "\<dots> \<le> int (digits_value (p @ q))" by (simp add: digits_value_append_ge)
  finally show ?thesis by (simp add: int_of_digits_def)
qed (simp add: int_of_digits_def)

lemma validate_partial_prefix_bad:
  assumes "validate_partial_prefix m p = Some e" "valid_prefix (p @ q)"
  shows "case int_of_digits (p @ q) of None \<Rightarrow> True | Some n \<Rightarrow> m < n"
proof -
  have p: "p \<noteq> []" using assms(1) by (auto simp: validate_partial_prefix_def)
  with assms(2) have "ascii_digits p" by (simp add: valid_prefix_def ascii_digits_def)
  moreover have "\<not> (hd p = CHR ''0'' \<and> 1 < length p)"
  proof
    assume "hd p = CHR ''0'' \<and> 1 < length p"
    with assms(2) p have "p @ q = ''0''" by (simp add: valid_prefix_def)
    then have "length p \<le> 1" by (metis le_add1 length_append length_Cons list.size(3) One_nat_def)
    with \<open>hd p = CHR ''0'' \<and> 1 < length p\<close> show False by simp
  qed
  ultimately have "case int_of_digits p of None \<Rightarrow> True | Some n \<Rightarrow> m < n"
    using assms(1) p by (simp add: validate_partial_prefix_def split: option.splits if_splits)
  then show ?thesis by (rule int_of_digits_append)
qed

lemma take_frame_append:
  "take_frame buffer n = Frame f rest \<Longrightarrow> take_frame (buffer @ tail) n = Frame f (rest @ tail)"
  "take_frame buffer n = Stops b e \<Longrightarrow> b = buffer \<and> e = Some n"
  "take_frame buffer n \<noteq> Fails x"
  by (auto simp: take_frame_def split: if_splits)

lemma takeWhile_colon: "CHR '':'' \<in> set buffer \<Longrightarrow>
    takeWhile (\<lambda>c. c \<noteq> CHR '':'') (buffer @ tail) = takeWhile (\<lambda>c. c \<noteq> CHR '':'') buffer
    \<and> length (takeWhile (\<lambda>c. c \<noteq> CHR '':'') buffer) < length buffer"
  by (induction buffer) auto

lemma takeWhile_no_colon: "CHR '':'' \<notin> set buffer \<Longrightarrow>
    takeWhile (\<lambda>c. c \<noteq> CHR '':'') (buffer @ tail) = buffer @ takeWhile (\<lambda>c. c \<noteq> CHR '':'') tail"
  by (induction buffer) auto

text \<open>More input after a round: a frame stays, a stopped round goes on from where it stopped, and an error stays one.\<close>

lemma feed_step_Frame:
  "feed_step m buffer expected = Frame f rest \<Longrightarrow> feed_step m (buffer @ tail) expected = Frame f (rest @ tail)"
  by (cases expected; cases "CHR '':'' \<in> set buffer")
     (auto simp: feed_step_def Let_def takeWhile_colon Suc_leI take_frame_append(1) split: if_splits option.splits)

lemma feed_step_colon:
  assumes "CHR '':'' \<in> set buffer"
  obtains e where "\<And>t. feed_step m (buffer @ t) None = Fails e"
    | n rest where "\<And>t. feed_step m (buffer @ t) None = take_frame (rest @ t) n"
proof -
  let ?p = "takeWhile (\<lambda>c. c \<noteq> CHR '':'') buffer"
  have step: "feed_step m (buffer @ t) None =
      (if \<not> valid_prefix ?p then Fails (FrameValueError ''malformed frame length'')
       else case int_of_digits ?p of None \<Rightarrow> Fails IntConversionError
       | Some n \<Rightarrow> if m < n then Fails (FrameValueError ''frame exceeds maximum size'')
                   else take_frame (drop (Suc (length ?p)) buffer @ t) (nat n))" for t
    using assms takeWhile_colon[OF assms, of t] by (simp add: feed_step_def Let_def split: option.split)
  show thesis
  proof (cases "valid_prefix ?p")
    case True
    show thesis
    proof (cases "int_of_digits ?p")
      case (Some n)
      then show thesis using step True that by (cases "m < n") auto
    qed (use step True that in auto)
  qed (use step that in auto)
qed

lemma feed_step_Stops:
  assumes "feed_step m buffer expected = Stops b e"
  shows "feed_step m (buffer @ tail) expected = feed_step m (b @ tail) e"
proof (cases expected)
  case None
  show ?thesis
  proof (cases "CHR '':'' \<in> set buffer")
    case True
    then show ?thesis
    proof (cases rule: feed_step_colon[where m = m])
      case (1 x)
      with 1[of "[]"] None assms show ?thesis by simp
    next
      case (2 n rest)
      with 2[of "[]"] None assms have "take_frame rest n = Stops b e" by simp
      from take_frame_append(2)[OF this] 2[of tail] None show ?thesis by (simp add: feed_step_def[of _ _ "Some _"])
    qed
  next
    case False
    with assms None show ?thesis by (auto simp: feed_step_def[of m buffer] split: option.splits)
  qed
next
  case (Some n)
  with assms have "take_frame buffer n = Stops b e" by (simp add: feed_step_def)
  from take_frame_append(2)[OF this] Some show ?thesis by simp
qed

lemma feed_step_Fails:
  assumes "feed_step m buffer expected = Fails e"
  shows "\<exists>e'. feed_step m (buffer @ tail) expected = Fails e'"
proof (cases expected)
  case None
  show ?thesis
  proof (cases "CHR '':'' \<in> set buffer")
    case True
    with assms None show ?thesis
      by (auto simp: feed_step_def Let_def takeWhile_colon take_frame_append(3) split: if_splits option.splits)
  next
    case False
    with assms None have bad: "validate_partial_prefix m buffer = Some e"
      by (auto simp: feed_step_def split: option.splits)
    show ?thesis
    proof (cases "CHR '':'' \<in> set tail")
      case True
      have "takeWhile (\<lambda>c. c \<noteq> CHR '':'') (buffer @ tail) = buffer @ takeWhile (\<lambda>c. c \<noteq> CHR '':'') tail"
        using False by (rule takeWhile_no_colon)
      with validate_partial_prefix_bad[OF bad, of "takeWhile (\<lambda>c. c \<noteq> CHR '':'') tail"] True None show ?thesis
        by (auto simp: feed_step_def Let_def split: option.splits)
    next
      case outside: False
      with validate_partial_append[OF bad outside] None False show ?thesis by (auto simp: feed_step_def)
    qed
  qed
qed (use assms take_frame_append(3) in \<open>auto simp: feed_step_def\<close>)

lemma feed_loop_append:
  "case feed_loop m buffer expected frames of
     Inl e \<Rightarrow> \<exists>e'. feed_loop m (buffer @ tail) expected frames = Inl e'
   | Inr (fs, b, x) \<Rightarrow> feed_loop m (buffer @ tail) expected frames = feed_loop m (b @ tail) x fs"
proof (induction m buffer expected frames rule: feed_loop.induct)
  case (1 m buffer expected frames)
  show ?case
  proof (cases "feed_step m buffer expected")
    case (Fails e)
    with feed_step_Fails[OF Fails, of tail] show ?thesis by (auto simp: feed_loop.simps)
  next
    case (Stops b e)
    from feed_step_Stops[OF Stops, of tail] have "feed_loop m (buffer @ tail) expected frames = feed_loop m (b @ tail) e frames"
      by (simp add: feed_loop.simps)
    with Stops show ?thesis by (simp add: feed_loop.simps[of m buffer])
  next
    case (Frame f rest)
    have "feed_loop m buffer expected frames = feed_loop m rest None (frames @ [f])"
      "feed_loop m (buffer @ tail) expected frames = feed_loop m (rest @ tail) None (frames @ [f])"
      by (simp_all add: feed_loop.simps[of m buffer] feed_loop.simps[of m "buffer @ tail"] Frame
          feed_step_Frame[OF Frame, of tail])
    with 1[OF Frame] show ?thesis by (simp only:)
  qed
qed


text \<open>Feeding chunk after chunk, up to the first error.\<close>

fun feed_all :: "decoder \<Rightarrow> string list \<Rightarrow> decoder \<times> (frame_error + string list)" where
  "feed_all d [] = (d, Inr [])"
| "feed_all d (chunk # chunks) =
     (case feed d (PyStr chunk) of
        (d', Inl e) \<Rightarrow> (d', Inl e)
      | (d', Inr fs) \<Rightarrow> (case feed_all d' chunks of (d'', Inl e) \<Rightarrow> (d'', Inl e) | (d'', Inr fs') \<Rightarrow> (d'', Inr (fs @ fs'))))"

text \<open>Between calls the decoder waits for input: another round would stop at once.\<close>

definition waits :: "decoder \<Rightarrow> bool" where
  "waits d \<longleftrightarrow> feed_step (fd_maximum d) (fd_buffer d) (fd_expected d) = Stops (fd_buffer d) (fd_expected d)"

lemma feed_loop_waits: "feed_loop m buffer expected frames = Inr (fs, b, e) \<Longrightarrow> feed_step m b e = Stops b e"
proof (induction m buffer expected frames rule: feed_loop.induct)
  case (1 m buffer expected frames)
  show ?case
  proof (cases "feed_step m buffer expected")
    case (Stops b' e')
    then have "b' = b" "e' = e" using 1(2) by (simp_all add: feed_loop.simps[of m buffer])
    with Stops feed_step_Stops[OF Stops, of "[]"] show ?thesis by simp
  next
    case (Frame f rest)
    with 1(1)[OF Frame] 1(2) show ?thesis by (simp add: feed_loop.simps[of m buffer])
  qed (use 1(2) in \<open>simp add: feed_loop.simps\<close>)
qed

lemma feed_all_concat:
  assumes "waits d"
  shows "case feed d (PyStr (concat chunks)) of
     (d', Inr fs) \<Rightarrow> feed_all d chunks = (d', Inr fs)
   | (d', Inl e) \<Rightarrow> \<exists>e'. feed_all d chunks = (d', Inl e')"
  using assms
proof (induction chunks arbitrary: d)
  case Nil
  then have "feed d (PyStr []) = (d, Inr [])" by (simp add: waits_def feed_def feed_loop.simps)
  then show ?case by simp
next
  case (Cons c chunks)
  let ?m = "fd_maximum d" and ?x = "fd_expected d" and ?b = "fd_buffer d @ c" and ?t = "concat chunks"
  note app = feed_loop_append[where m = ?m and buffer = ?b and expected = ?x and frames = "[]" and tail = ?t]
  show ?case
  proof (cases "feed_loop ?m ?b ?x []")
    case (Inl e)
    with app obtain e' where "feed_loop ?m (?b @ ?t) ?x [] = Inl e'" by auto
    with Inl show ?thesis by (simp add: feed_def)
  next
    case (Inr r)
    obtain fs b x where r: "r = (fs, b, x)" by (cases r)
    let ?d = "d\<lparr>fd_buffer := b, fd_expected := x\<rparr>"
    have first: "feed d (PyStr c) = (?d, Inr fs)" using Inr r by (simp add: feed_def)
    have "waits ?d" using feed_loop_waits[of ?m ?b ?x "[]" fs b x] Inr r by (simp add: waits_def)
    note IH = Cons.IH[OF this]
    have whole: "feed_loop ?m (?b @ ?t) ?x [] = map_sum id (\<lambda>(gs, b, e). (fs @ gs, b, e)) (feed_loop ?m (b @ ?t) x [])"
      using app Inr r feed_loop_acc[where m = ?m and buffer = "b @ ?t" and expected = x and pre = fs and frames = "[]"] by simp
    show ?thesis
    proof (cases "feed_loop ?m (b @ ?t) x []")
      case (Inl e)
      with IH whole first show ?thesis by (auto simp: feed_def fd_reset_def split: prod.splits sum.splits)
    next
      case tail: (Inr r')
      obtain gs b' x' where r': "r' = (gs, b', x')" by (cases r')
      from IH tail r' have "feed_all ?d chunks = (d\<lparr>fd_buffer := b', fd_expected := x'\<rparr>, Inr gs)" by (simp add: feed_def)
      with first have "feed_all d (c # chunks) = (d\<lparr>fd_buffer := b', fd_expected := x'\<rparr>, Inr (fs @ gs))" by simp
      with whole tail r' show ?thesis by (simp add: feed_def)
    qed
  qed
qed

lemma LengthPrefixedDecoder_Inr:
  "LengthPrefixedDecoder v = Inr d \<longleftrightarrow>
     (\<exists>n. v = PyInt n \<and> 0 < n \<and> n \<le> 1000000 \<and> d = \<lparr>fd_maximum = n, fd_buffer = [], fd_expected = None\<rparr>)"
  by (auto simp: LengthPrefixedDecoder_def plain_int_def split: option.splits pyval.splits)

lemma new_waits: "LengthPrefixedDecoder v = Inr d \<Longrightarrow> waits d"
  by (auto simp: LengthPrefixedDecoder_Inr waits_def feed_step_def validate_partial_prefix_def)

section \<open>Encoded frames\<close>

definition encode :: "string \<Rightarrow> string" where
  "encode frame = str_nat (length frame) @ '':'' @ frame"

lemma valid_prefix_str_nat: "valid_prefix (str_nat n)"
  using str_nat_digits[of _ n] str_nat_leading[of n]
  by (cases "n = 0") (auto simp: valid_prefix_def ascii_digits_def list_all_iff str_nat_zero ascii_digit_def)

lemma str_nat_no_colon: "takeWhile (\<lambda>c. c \<noteq> CHR '':'') (str_nat n @ CHR '':'' # s) = str_nat n"
proof -
  have "CHR '':'' \<notin> set (str_nat n)" using str_nat_digits[of "CHR '':''" n] by (auto simp: ascii_digit_def)
  then show ?thesis by (simp add: takeWhile_no_colon)
qed

lemma feed_step_encode:
  assumes "int (length f) \<le> m" "m \<le> 1000000"
  shows "feed_step m (encode f @ rest) None = Frame f rest"
proof -
  have "length f < 10 ^ Suc 6" using assms by simp
  then have "length (str_nat (length f)) \<le> Suc 6" by (rule length_str_nat)
  then have "int_of_digits (str_nat (length f)) = Some (int (length f))" by (simp add: int_of_digits_def)
  with assms(1) valid_prefix_str_nat show ?thesis
    by (simp add: feed_step_def encode_def str_nat_no_colon take_frame_def Let_def)
qed

lemma feed_loop_encode:
  "\<forall>f \<in> set fs. int (length f) \<le> m \<Longrightarrow> m \<le> 1000000 \<Longrightarrow>
     feed_loop m (concat (map encode fs)) None frames = Inr (frames @ fs, [], None)"
proof (induction fs arbitrary: frames)
  case Nil
  then show ?case by (simp add: feed_loop.simps feed_step_def validate_partial_prefix_def)
next
  case (Cons f fs)
  have "feed_step m (encode f @ concat (map encode fs)) None = Frame f (concat (map encode fs))"
    using Cons.prems by (intro feed_step_encode) auto
  with Cons.IH[of "frames @ [f]"] Cons.prems show ?case by (simp add: feed_loop.simps[of m "_ @ _"])
qed

text \<open>C35: However a stream is cut into chunks, a decoder gives the same frames and ends in the same
  state as when it is fed the whole stream at once; and it raises an error on the chunks exactly when it
  raises one on the whole stream, being reset by it either way.\<close>
theorem frame_decoder_chunking:
  assumes "LengthPrefixedDecoder max_frame_size = Inr d"
  shows "case feed d (PyStr (concat chunks)) of
     (d', Inr fs) \<Rightarrow> feed_all d chunks = (d', Inr fs)
   | (d', Inl e) \<Rightarrow> \<exists>e'. feed_all d chunks = (d', Inl e')"
  using new_waits[OF assms] by (rule feed_all_concat)

text \<open>C36: Every sequence of frames no longer than the maximum, each encoded as its decimal length, a
  colon and its characters, decodes to itself however the encoded stream is cut into chunks, and the
  decoder finishes cleanly.\<close>
theorem frame_roundtrip:
  assumes "LengthPrefixedDecoder max_frame_size = Inr d"
    and "\<forall>f \<in> set fs. int (length f) \<le> fd_maximum d" "concat chunks = concat (map encode fs)"
  shows "feed_all d chunks = (d, Inr fs) \<and> finish d = (d, Inr ())"
proof -
  from assms(1) obtain n where d: "d = \<lparr>fd_maximum = n, fd_buffer = [], fd_expected = None\<rparr>" "n \<le> 1000000"
    by (auto simp: LengthPrefixedDecoder_Inr)
  have "feed d (PyStr (concat chunks)) = (d, Inr fs)"
    using feed_loop_encode[of fs n "[]"] assms(2,3) d by (simp add: feed_def)
  with feed_all_concat[OF new_waits[OF assms(1)], of chunks] d show ?thesis by (simp add: finish_def)
qed

text \<open>The frames \<open>hi\<close> and the empty frame, cut inside the first frame and inside a prefix.\<close>

definition ex_decoder :: decoder where
  "ex_decoder = \<lparr>fd_maximum = 5, fd_buffer = [], fd_expected = None\<rparr>"

lemma ex_decoder_new: "LengthPrefixedDecoder (PyInt 5) = Inr ex_decoder"
  by (simp add: LengthPrefixedDecoder_def plain_int_def ex_decoder_def)

theorem frame_roundtrip_witness:
  "feed_all ex_decoder [''2:h'', ''i0'', '':''] = (ex_decoder, Inr [''hi'', ''''])"
proof -
  have "concat [''2:h'', ''i0'', '':''] = concat (map encode [''hi'', ''''])" by code_simp
  with frame_roundtrip[OF ex_decoder_new, of "[''hi'', '''']"] show ?thesis
    by (simp add: ex_decoder_def del: feed_all.simps)
qed

theorem frame_decoder_chunking_witness:
  "\<exists>d' e. feed_all ex_decoder [''1:a0'', ''3:''] = (d', Inl e)"
proof -
  have "snd (feed ex_decoder (PyStr (concat [''1:a0'', ''3:'']))) = Inl (FrameValueError ''malformed frame length'')"
    by code_simp
  with frame_decoder_chunking[OF ex_decoder_new, of "[''1:a0'', ''3:'']"] show ?thesis
    by (auto simp del: feed_all.simps concat.simps split: prod.splits)
qed

end
