(* ===== verification/ReservationBook.thy ===== *)
theory ReservationBook
  imports PyValues
begin

text \<open>
  The reservation book of
  \<^verbatim>\<open>src/app/tasks/definitions/interval_reservation/reference/solution.py\<close>: half-open integer intervals
  on named resources. The invariant is that the reservations of one resource never overlap; with it,
  \<^verbatim>\<open>reservations\<close> is a schedule in which each one ends before the next begins.
\<close>

section \<open>The book\<close>

type_synonym book = "(string, string \<times> int \<times> int) odict"

definition reserve :: "book \<Rightarrow> pyval \<Rightarrow> pyval \<Rightarrow> pyval \<Rightarrow> pyval \<Rightarrow> book \<times> (string + bool)" where
  "reserve by_id reservation_id resource start stop =
     (case nonempty_str reservation_id of
        None \<Rightarrow> (by_id, Inl ''reservation_id must be a nonempty string'')
      | Some i \<Rightarrow> (case nonempty_str resource of
        None \<Rightarrow> (by_id, Inl ''resource must be a nonempty string'')
      | Some r \<Rightarrow> (case (plain_int start, plain_int stop) of
        (Some s, Some e) \<Rightarrow>
          if s < 0 \<or> e \<le> s then (by_id, Inl ''interval must use nonnegative integers with start < end'')
          else if i \<in> fst ` set by_id then (by_id, Inl ''reservation id already exists'')
          else if \<exists>(_, existing_resource, existing_start, existing_end) \<in> set by_id.
                    existing_resource = r \<and> s < existing_end \<and> existing_start < e
          then (by_id, Inr False)
          else (od_set by_id i (r, s, e), Inr True)
      | _ \<Rightarrow> (by_id, Inl ''interval must use nonnegative integers with start < end''))))"

definition cancel :: "book \<Rightarrow> string \<Rightarrow> book \<times> bool" where
  "cancel by_id reservation_id = (od_del by_id reservation_id, map_of by_id reservation_id \<noteq> None)"

record reservation =
  rv_id :: string
  rv_start :: int
  rv_end :: int

definition reservations :: "book \<Rightarrow> string \<Rightarrow> reservation list" where
  "reservations by_id resource =
     sort_key (\<lambda>item. (rv_start item, rv_end item, rv_id item))
       (map (\<lambda>(i, _, s, e). \<lparr>rv_id = i, rv_start = s, rv_end = e\<rparr>)
         (filter (\<lambda>(_, candidate_resource, _, _). candidate_resource = resource) by_id))"

datatype book_op = Reserve pyval pyval pyval pyval | Cancel string

fun book_step :: "book_op \<Rightarrow> book \<Rightarrow> book" where
  "book_step (Reserve i r s e) b = fst (reserve b i r s e)"
| "book_step (Cancel i) b = fst (cancel b i)"

section \<open>No overlap\<close>

definition apart :: "string \<times> string \<times> int \<times> int \<Rightarrow> string \<times> string \<times> int \<times> int \<Rightarrow> bool" where
  "apart x y \<longleftrightarrow> (case (x, y) of ((_, r, s, e), (_, r', s', e')) \<Rightarrow> r = r' \<longrightarrow> e \<le> s' \<or> e' \<le> s)"

definition book_ok :: "book \<Rightarrow> bool" where
  "book_ok b \<longleftrightarrow> od_wf b \<and> (\<forall>(i, r, s, e) \<in> set b. i \<noteq> [] \<and> r \<noteq> [] \<and> 0 \<le> s \<and> s < e) \<and> pairwise apart (set b)"

lemma od_set_fresh: "k \<notin> fst ` set d \<Longrightarrow> od_set d k v = d @ [(k, v)]"
  by (induction d k v rule: od_set.induct) (auto split: if_splits)

lemma apart_sym: "apart x y \<longleftrightarrow> apart y x"
  by (auto simp: apart_def)

lemma reserve_cases:
  "reserve b (PyStr i) (PyStr r) (PyInt s) (PyInt e) =
     (if i = [] then (b, Inl ''reservation_id must be a nonempty string'')
      else if r = [] then (b, Inl ''resource must be a nonempty string'')
      else if s < 0 \<or> e \<le> s then (b, Inl ''interval must use nonnegative integers with start < end'')
      else if i \<in> fst ` set b then (b, Inl ''reservation id already exists'')
      else if \<exists>x \<in> set b. \<not> apart (i, r, s, e) x then (b, Inr False)
      else (b @ [(i, r, s, e)], Inr True))"
proof -
  have "(\<exists>(_, r', s', e') \<in> set b. r' = r \<and> s < e' \<and> s' < e) \<longleftrightarrow> (\<exists>x \<in> set b. \<not> apart (i, r, s, e) x)"
    by (rule bex_cong) (auto simp: apart_def)
  then show ?thesis by (simp add: reserve_def nonempty_str_def plain_int_def od_set_fresh)
qed

lemma reserve_True:
  assumes "reserve b i r s e = (b', Inr True)"
  obtains i' r' s' e' where "i = PyStr i'" "r = PyStr r'" "s = PyInt s'" "e = PyInt e'"
  using assms by (auto simp: reserve_def split: option.splits if_splits)

lemma book_ok_reserve:
  assumes "book_ok b"
  shows "book_ok (fst (reserve b i r s e))"
proof (cases "snd (reserve b i r s e) = Inr True")
  case True
  then obtain i' r' s' e' where v: "i = PyStr i'" "r = PyStr r'" "s = PyInt s'" "e = PyInt e'"
    by (metis prod.collapse reserve_True)
  from True have "fst (reserve b i r s e) = b @ [(i', r', s', e')]" "i' \<noteq> []" "r' \<noteq> []" "0 \<le> s'" "s' < e'"
    "i' \<notin> fst ` set b" "\<forall>x \<in> set b. apart (i', r', s', e') x"
    by (auto simp: v reserve_cases split: if_splits)
  with assms show ?thesis
    by (auto simp: book_ok_def od_wf_def pairwise_insert apart_sym[of _ "(i', r', s', e')"])
next
  case False
  then have "fst (reserve b i r s e) = b" by (auto simp: reserve_def split: option.splits if_splits)
  with assms show ?thesis by simp
qed

lemma book_ok_step: "book_ok b \<Longrightarrow> book_ok (book_step op b)"
proof (cases op)
  case (Cancel i)
  assume "book_ok b"
  then have "book_ok (od_del b i)"
    by (auto simp: book_ok_def od_del_def od_wf_filter intro: pairwise_subset)
  with Cancel show ?thesis by (simp add: cancel_def)
qed (simp add: book_ok_reserve)

lemma book_reachable: "book_ok (fold book_step ops [])"
proof -
  have "book_ok b \<Longrightarrow> book_ok (fold book_step ops b)" for b
    by (induction ops arbitrary: b) (simp_all add: book_ok_step)
  moreover have "book_ok []" by (simp add: book_ok_def)
  ultimately show ?thesis .
qed

section \<open>The schedule of a resource\<close>

lemma reservations_set:
  "set (reservations b r) = {x. (rv_id x, r, rv_start x, rv_end x) \<in> set b}"
  by (force simp: reservations_def image_iff)

lemma reservations_distinct:
  assumes "od_wf b"
  shows "distinct (map rv_id (reservations b r))"
proof -
  let ?mk = "\<lambda>(i, _, s, e). \<lparr>rv_id = i, rv_start = s, rv_end = e\<rparr>"
  let ?f = "filter (\<lambda>(_, r', _, _). r' = r) b"
  have "map rv_id (map ?mk ?f) = map fst ?f" by (auto simp: case_prod_beta)
  moreover have "od_wf ?f" using assms by (rule od_wf_filter)
  ultimately have "distinct (map rv_id (map ?mk ?f))" by (simp only: od_wf_def)
  then show ?thesis unfolding reservations_def distinct_map set_sort distinct_sort by blast
qed

lemma schedule:
  assumes ok: "book_ok b"
  shows "sorted_wrt (\<lambda>x y. rv_end x \<le> rv_start y) (reservations b r)"
  unfolding sorted_wrt_iff_nth_less
proof (intro allI impI)
  fix i j assume ij: "i < j" "j < length (reservations b r)"
  let ?x = "reservations b r ! i" and ?y = "reservations b r ! j"
  let ?key = "\<lambda>x. (rv_start x, rv_end x, rv_id x)"
  have "sorted (map ?key (reservations b r))" unfolding reservations_def by simp
  then have "?key ?x \<le> ?key ?y" using ij by (auto simp: sorted_iff_nth_mono)
  then have start: "rv_start ?x \<le> rv_start ?y" by (auto simp: less_eq_prod_def split: if_splits)
  have "rv_id ?x \<noteq> rv_id ?y"
    using reservations_distinct[of b r] ok ij by (auto simp: book_ok_def distinct_conv_nth)
  moreover have "(rv_id ?x, r, rv_start ?x, rv_end ?x) \<in> set b" "(rv_id ?y, r, rv_start ?y, rv_end ?y) \<in> set b"
    using nth_mem[of i "reservations b r"] nth_mem[of j "reservations b r"] ij unfolding reservations_set by auto
  ultimately have "rv_end ?x \<le> rv_start ?y \<or> rv_end ?y \<le> rv_start ?x" "rv_start ?y < rv_end ?y"
    using ok by (auto simp: book_ok_def pairwise_def apart_def)
  with start show "rv_end ?x \<le> rv_start ?y" by linarith
qed

text \<open>Half-open intervals of integers are apart iff they share no point.\<close>

lemma apart_points:
  fixes s :: int
  assumes "s < e" "s' < e'"
  shows "(e \<le> s' \<or> e' \<le> s) \<longleftrightarrow> {s..<e} \<inter> {s'..<e'} = {}"
proof -
  have "max s s' \<in> {s..<e} \<inter> {s'..<e'}" if "\<not> (e \<le> s' \<or> e' \<le> s)" using that assms by auto
  then show ?thesis by fastforce
qed

text \<open>After any sequence of reservations and cancellations on an empty book, the reservations listed
  for a resource are exactly those in the book, with distinct ids, in an order in which each ends no later
  than the next starts. A request with a nonempty id and resource and integers \<open>0 \<le> s < e\<close> is then
  granted, and recorded, iff its id is new and no point of \<open>[s, e)\<close> is taken on that resource; with a new
  id and a point taken it is answered \<^verbatim>\<open>False\<close> and with a known id it is an error, the book unchanged.\<close>
theorem reservation_book_schedule:
  assumes "b = fold book_step ops []" "i \<noteq> []" "r \<noteq> []" "0 \<le> s" "s < e"
  shows "sorted_wrt (\<lambda>x y. rv_end x \<le> rv_start y) (reservations b r) \<and> distinct (map rv_id (reservations b r))
    \<and> set (reservations b r) = {x. (rv_id x, r, rv_start x, rv_end x) \<in> set b}
    \<and> reserve b (PyStr i) (PyStr r) (PyInt s) (PyInt e) =
        (if i \<in> fst ` set b then (b, Inl ''reservation id already exists'')
         else if \<exists>x \<in> set (reservations b r). {rv_start x..<rv_end x} \<inter> {s..<e} \<noteq> {} then (b, Inr False)
         else (b @ [(i, r, s, e)], Inr True))"
proof -
  have ok: "book_ok b" unfolding assms(1) by (rule book_reachable)
  have "(\<exists>x \<in> set b. \<not> apart (i, r, s, e) x) \<longleftrightarrow>
      (\<exists>i' s' e'. (i', r, s', e') \<in> set b \<and> \<not> (e \<le> s' \<or> e' \<le> s))"
    by (force simp: apart_def)
  also have "\<dots> \<longleftrightarrow> (\<exists>i' s' e'. (i', r, s', e') \<in> set b \<and> {s'..<e'} \<inter> {s..<e} \<noteq> {})"
  proof -
    have "(e \<le> s' \<or> e' \<le> s) \<longleftrightarrow> {s'..<e'} \<inter> {s..<e} = {}" if "(i', r, s', e') \<in> set b" for i' s' e'
      using apart_points[of s e s' e'] assms(5) ok that by (auto simp: book_ok_def Int_commute)
    then show ?thesis by metis
  qed
  also have "\<dots> \<longleftrightarrow> (\<exists>x \<in> set (reservations b r). {rv_start x..<rv_end x} \<inter> {s..<e} \<noteq> {})"
    unfolding reservations_set by (metis (mono_tags, lifting) mem_Collect_eq reservation.select_convs(1,2,3))
  finally have taken: "(\<exists>x \<in> set b. \<not> apart (i, r, s, e) x) \<longleftrightarrow>
      (\<exists>x \<in> set (reservations b r). {rv_start x..<rv_end x} \<inter> {s..<e} \<noteq> {})" .
  have "reserve b (PyStr i) (PyStr r) (PyInt s) (PyInt e) =
        (if i \<in> fst ` set b then (b, Inl ''reservation id already exists'')
         else if \<exists>x \<in> set (reservations b r). {rv_start x..<rv_end x} \<inter> {s..<e} \<noteq> {} then (b, Inr False)
         else (b @ [(i, r, s, e)], Inr True))"
    using assms unfolding reserve_cases taken by simp
  with schedule[OF ok] reservations_distinct[of b r] ok reservations_set[of b r] show ?thesis
    by (simp only: book_ok_def)
qed

text \<open>A room booked for [9, 11): [11, 12) is free, [10, 12) is not.\<close>

theorem reservation_book_schedule_witness:
  "reserve (fold book_step [Reserve (PyStr ''a'') (PyStr ''room'') (PyInt 9) (PyInt 11)] [])
     (PyStr ''b'') (PyStr ''room'') (PyInt 11) (PyInt 12)
   = ([(''a'', ''room'', 9, 11), (''b'', ''room'', 11, 12)], Inr True)"
proof -
  let ?b = "fold book_step [Reserve (PyStr ''a'') (PyStr ''room'') (PyInt 9) (PyInt 11)] []"
  have b: "?b = [(''a'', ''room'', 9, 11)]" by (simp add: reserve_cases)
  have r: "reservations [(''a'', ''room'', 9, 11)] ''room'' = [\<lparr>rv_id = ''a'', rv_start = 9, rv_end = 11\<rparr>]"
    by (simp add: reservations_def)
  from reservation_book_schedule[OF refl, of "''b''" "''room''" 11 12 "[Reserve (PyStr ''a'') (PyStr ''room'') (PyInt 9) (PyInt 11)]"]
  show ?thesis unfolding b r by simp
qed

end
