(* ===== verification/LogicalPath.thy ===== *)
theory LogicalPath
  imports PyValues
begin

text \<open>
  The lexical path normaliser of
  \<^verbatim>\<open>src/app/tasks/definitions/logical_path/reference/solution.py\<close>, with the \<^verbatim>\<open>split\<close> and \<^verbatim>\<open>join\<close> of
  strings it uses. Its results are shown to be in normal form, normalising again to themselves, and a
  relative path to be the path under the working directory.
\<close>

section \<open>Splitting and joining\<close>

text \<open>\<^verbatim>\<open>s.split(sep)\<close> for a single character: one piece more than there are separators.\<close>

fun split_char :: "char \<Rightarrow> string \<Rightarrow> string list" where
  "split_char sep [] = [[]]"
| "split_char sep (c # s) =
     (if c = sep then [] # split_char sep s
      else (case split_char sep s of [] \<Rightarrow> [[c]] | p # ps \<Rightarrow> (c # p) # ps))"

fun join_char :: "char \<Rightarrow> string list \<Rightarrow> string" where
  "join_char sep [] = []"
| "join_char sep [p] = p"
| "join_char sep (p # q # ps) = p @ sep # join_char sep (q # ps)"

lemma split_char_nonempty [simp]: "split_char sep s \<noteq> []"
  by (induction s) (auto split: list.splits)

lemma split_char_pieces: "p \<in> set (split_char sep s) \<Longrightarrow> sep \<notin> set p"
  by (induction s arbitrary: p) (auto split: list.splits if_splits)

lemma split_char_append: "split_char sep (s @ sep # t) = split_char sep s @ split_char sep t"
  by (induction s) (auto split: list.splits simp: append_eq_Cons_conv)

lemma split_char_id: "sep \<notin> set p \<Longrightarrow> split_char sep p = [p]"
  by (induction p) auto

lemma split_join: "ps \<noteq> [] \<Longrightarrow> \<forall>p \<in> set ps. sep \<notin> set p \<Longrightarrow> split_char sep (join_char sep ps) = ps"
  by (induction sep ps rule: join_char.induct) (auto simp: split_char_id split_char_append)

section \<open>The normaliser\<close>

fun components_loop :: "string list \<Rightarrow> string list \<Rightarrow> string + string list" where
  "components_loop [] result = Inr result"
| "components_loop (c # cs) result =
     (if c = [] \<or> c = ''.'' then components_loop cs result
      else if c = ''..'' then
        (if result = [] then Inl ''path traverses above root'' else components_loop cs (butlast result))
      else components_loop cs (result @ [c]))"

definition components :: "string \<Rightarrow> string list \<Rightarrow> string + string list" where
  "components value initial = components_loop (split_char CHR ''/'' value) initial"

definition normalize_path :: "pyval \<Rightarrow> pyval \<Rightarrow> string + string" where
  "normalize_path path cwd =
     (case nonempty_str path of
        None \<Rightarrow> Inl ''path must be a nonempty string''
      | Some p \<Rightarrow>
          (case nonempty_str cwd of
             None \<Rightarrow> Inl ''cwd must be a nonempty absolute string''
           | Some d \<Rightarrow>
               if hd d \<noteq> CHR ''/'' then Inl ''cwd must be a nonempty absolute string''
               else (case (if hd p = CHR ''/'' then Inr [] else components d []) of
                       Inl e \<Rightarrow> Inl e
                     | Inr base \<Rightarrow>
                         (case components p base of
                            Inl e \<Rightarrow> Inl e
                          | Inr resolved \<Rightarrow> Inr (CHR ''/'' # join_char CHR ''/'' resolved)))))"

section \<open>Normal forms\<close>

definition plain_component :: "string \<Rightarrow> bool" where
  "plain_component c \<longleftrightarrow> c \<noteq> [] \<and> c \<noteq> ''.'' \<and> c \<noteq> ''..'' \<and> CHR ''/'' \<notin> set c"

lemma components_loop_plain:
  "components_loop cs r = Inr r' \<Longrightarrow> \<forall>c \<in> set r. plain_component c \<Longrightarrow> \<forall>c \<in> set cs. CHR ''/'' \<notin> set c
     \<Longrightarrow> \<forall>c \<in> set r'. plain_component c"
proof (induction cs r rule: components_loop.induct)
  case (2 c cs r)
  consider "c = [] \<or> c = ''.''" | "c = ''..''" "r \<noteq> []" | "plain_component c"
    using 2(4,6) by (fastforce simp: plain_component_def)
  then show ?case
  proof cases
    case 2
    then have "\<forall>x \<in> set (butlast r). plain_component x" using "2.prems"(2) by (auto dest: in_set_butlastD)
    with 2 "2.IH"(2) "2.prems" show ?thesis by simp
  next
    case 3
    then have n: "\<not> (c = [] \<or> c = ''.'')" "c \<noteq> ''..''" by (simp_all add: plain_component_def)
    have "components_loop cs (r @ [c]) = Inr r'" using "2.prems"(1) n by simp
    then show ?thesis using 3 "2.prems"(2,3) by (intro "2.IH"(3)[OF n]) simp_all
  qed (use "2.IH"(1) "2.prems" in auto)
qed simp

lemma components_plain:
  "components s r = Inr r' \<Longrightarrow> \<forall>c \<in> set r. plain_component c \<Longrightarrow> \<forall>c \<in> set r'. plain_component c"
  unfolding components_def by (rule components_loop_plain) (auto dest: split_char_pieces)

lemma components_loop_id: "\<forall>c \<in> set cs. plain_component c \<Longrightarrow> components_loop cs r = Inr (r @ cs)"
  by (induction cs arbitrary: r) (auto simp: plain_component_def)

lemma components_loop_append:
  "components_loop (cs @ ds) r = (case components_loop cs r of Inl e \<Rightarrow> Inl e | Inr r' \<Rightarrow> components_loop ds r')"
  by (induction cs r rule: components_loop.induct) auto

lemma components_append:
  "components (s @ CHR ''/'' # t) r = (case components s r of Inl e \<Rightarrow> Inl e | Inr r' \<Rightarrow> components t r')"
  by (simp add: components_def split_char_append components_loop_append split: sum.split)

lemma components_slash: "components (CHR ''/'' # t) r = components t r"
  using components_append[of "[]" t r] by (simp add: components_def)

lemma components_join:
  assumes "\<forall>c \<in> set cs. plain_component c"
  shows "components (join_char CHR ''/'' cs) [] = Inr cs"
proof (cases "cs = []")
  case False
  then have "split_char CHR ''/'' (join_char CHR ''/'' cs) = cs"
    using assms by (intro split_join) (auto simp: plain_component_def)
  with assms show ?thesis by (simp add: components_def components_loop_id)
qed (simp add: components_def)

lemma normalize_path_Inr:
  assumes "normalize_path path cwd = Inr r"
  obtains cs where "\<forall>c \<in> set cs. plain_component c" "r = CHR ''/'' # join_char CHR ''/'' cs"
  using assms
  by (auto simp: normalize_path_def split: option.splits if_splits sum.splits dest!: components_plain)

lemma normalize_path_absolute:
  "cwd \<noteq> [] \<Longrightarrow> hd cwd = CHR ''/'' \<Longrightarrow> normalize_path (PyStr (CHR ''/'' # p)) (PyStr cwd) =
     (case components p [] of Inl e \<Rightarrow> Inl e | Inr cs \<Rightarrow> Inr (CHR ''/'' # join_char CHR ''/'' cs))"
  by (simp add: normalize_path_def nonempty_str_def components_slash)

text \<open>Every path that normalises does so to a slash followed by components joined by slashes, none
  of them empty, a dot or two dots, or containing a slash; and that result normalises to itself under
  every working directory.\<close>
theorem normalize_path_idempotent:
  assumes "normalize_path path cwd = Inr r"
  shows "(\<exists>cs. (\<forall>c \<in> set cs. plain_component c) \<and> r = CHR ''/'' # join_char CHR ''/'' cs)
     \<and> normalize_path (PyStr r) (PyStr (CHR ''/'' # d)) = Inr r"
proof -
  from assms obtain cs where "\<forall>c \<in> set cs. plain_component c" "r = CHR ''/'' # join_char CHR ''/'' cs"
    by (rule normalize_path_Inr)
  then show ?thesis by (auto simp: normalize_path_absolute components_join)
qed

theorem normalize_path_idempotent_witness:
  "normalize_path (PyStr ''/srv/logs'') (PyStr ''/x'') = Inr ''/srv/logs''"
proof -
  have "normalize_path (PyStr ''../logs/./'') (PyStr ''/srv/app'') = Inr ''/srv/logs''" by code_simp
  from normalize_path_idempotent[OF this, of "''x''"] show ?thesis by simp
qed

text \<open>A relative path resolves as the absolute path of the working directory, a slash and the path:
  to the same result, or to the same error when either climbs above the root.\<close>
theorem normalize_path_relative:
  assumes "p \<noteq> []" "hd p \<noteq> CHR ''/''" "cwd \<noteq> []" "hd cwd = CHR ''/''"
  shows "normalize_path (PyStr p) (PyStr cwd) = normalize_path (PyStr (cwd @ CHR ''/'' # p)) (PyStr ''/'')"
  using assms by (auto simp: normalize_path_def nonempty_str_def components_append split: sum.splits)

theorem normalize_path_relative_witness:
  "normalize_path (PyStr ''../../a'') (PyStr ''/b'') = Inl ''path traverses above root''"
proof -
  have "normalize_path (PyStr ''/b/../../a'') (PyStr ''/'') = Inl ''path traverses above root''" by code_simp
  with normalize_path_relative[of "''../../a''" "''/b''"] show ?thesis by simp
qed

end
