(* ===== verification/ConfigMerge.thy ===== *)
theory ConfigMerge
  imports PyValues
begin

text \<open>
  The recursive merge of configuration layers of
  \<^verbatim>\<open>src/app/tasks/definitions/config_layer_merge/reference/solution.py\<close>. The code copies every value it
  stores, so that the merge is a function on values. It is characterised by what the last layer says
  of each key, shown to leave no null in any dictionary and to be idempotent in its last layer.
\<close>

section \<open>The merge\<close>

type_synonym pydict = "(pyval, pyval) odict"

text \<open>Every key of every dictionary inside a value is a string.\<close>

fun validate_keys :: "pyval \<Rightarrow> bool" and validate_items :: "(pyval \<times> pyval) list \<Rightarrow> bool"
  and validate_list :: "pyval list \<Rightarrow> bool" where
  "validate_keys (PyDict items) = validate_items items"
| "validate_keys (PyList vs) = validate_list vs"
| "validate_keys _ = True"
| "validate_items [] = True"
| "validate_items ((key, nested) # items) = (is_str key \<and> validate_keys nested \<and> validate_items items)"
| "validate_list [] = True"
| "validate_list (nested # vs) = (validate_keys nested \<and> validate_list vs)"

fun merge_into :: "pydict \<Rightarrow> (pyval \<times> pyval) list \<Rightarrow> pydict" where
  "merge_into target [] = target"
| "merge_into target ((key, PyNone) # items) = merge_into (od_del target key) items"
| "merge_into target ((key, PyDict value) # items) =
     (let existing = (case map_of target key of Some (PyDict e) \<Rightarrow> e | _ \<Rightarrow> []);
          nested = merge_into existing value
      in merge_into (od_set target key (PyDict nested)) items)"
| "merge_into target ((key, value) # items) = merge_into (od_set target key value) items"

definition dict_items :: "pyval \<Rightarrow> (pyval \<times> pyval) list" where
  "dict_items v = (case v of PyDict items \<Rightarrow> items | _ \<Rightarrow> [])"

text \<open>The checking loop stops at the first layer that is no dictionary or has a key that is no string.\<close>

fun check_layers :: "pyval list \<Rightarrow> string option" where
  "check_layers [] = None"
| "check_layers (layer # layers) =
     (if \<not> is_dict layer then Some ''every layer must be a dictionary''
      else if \<not> validate_keys layer then Some ''configuration keys must be strings''
      else check_layers layers)"

definition merge_config_layers :: "pyval \<Rightarrow> string + pydict" where
  "merge_config_layers layers =
     (case layers of
        PyList ls \<Rightarrow>
          (case check_layers ls of
             Some e \<Rightarrow> Inl e
           | None \<Rightarrow> Inr (foldl (\<lambda>result layer. merge_into result (dict_items layer)) [] ls))
      | _ \<Rightarrow> Inl ''layers must be a list'')"

section \<open>What the last layer decides\<close>

text \<open>The value of a key after a layer, from its value before and the layer's own entry.\<close>

definition overlay :: "pyval option \<Rightarrow> pyval option \<Rightarrow> pyval option" where
  "overlay before entry =
     (case entry of
        None \<Rightarrow> before
      | Some PyNone \<Rightarrow> None
      | Some (PyDict d) \<Rightarrow> Some (PyDict (merge_into (case before of Some (PyDict e) \<Rightarrow> e | _ \<Rightarrow> []) d))
      | Some v \<Rightarrow> Some v)"

lemma overlay_None [simp]: "overlay before None = before"
  by (simp add: overlay_def)

lemma merge_into_Cons:
  "merge_into target ((key, val) # items) =
     merge_into (case overlay (map_of target key) (Some val) of
                   None \<Rightarrow> od_del target key | Some v \<Rightarrow> od_set target key v) items"
  by (cases val) (simp_all add: overlay_def Let_def)

lemma merge_into_lookup:
  "od_wf items \<Longrightarrow> map_of (merge_into target items) k = overlay (map_of target k) (map_of items k)"
proof (induction items arbitrary: target)
  case (Cons p items)
  obtain key val where p: "p = (key, val)" by (cases p)
  let ?o = "overlay (map_of target key) (Some val)"
  have wf: "od_wf items" and fresh: "map_of items key = None"
    using Cons.prems p by (auto simp: od_wf_def map_of_eq_None_iff)
  have "map_of (case ?o of None \<Rightarrow> od_del target key | Some v \<Rightarrow> od_set target key v) k =
      (if k = key then ?o else map_of target k)"
    by (simp add: odict_simps split: option.split)
  with Cons.IH[OF wf] fresh p show ?case by (simp add: merge_into_Cons)
qed simp

text \<open>Every dictionary inside a value has distinct keys, as a Python \<^verbatim>\<open>dict\<close> has.\<close>

fun dict_wf :: "pyval \<Rightarrow> bool" and items_wf :: "(pyval \<times> pyval) list \<Rightarrow> bool" where
  "dict_wf (PyDict items) = (od_wf items \<and> items_wf items)"
| "dict_wf _ = True"
| "items_wf [] = True"
| "items_wf ((key, val) # items) = (dict_wf val \<and> items_wf items)"

lemma items_wf_iff: "items_wf items \<longleftrightarrow> (\<forall>(k, v) \<in> set items. dict_wf v)"
  by (induction items) auto

section \<open>Idempotence\<close>

lemma od_set_same: "map_of d k = Some v \<Longrightarrow> od_set d k v = d"
  by (induction d k v rule: od_set.induct) (auto split: if_splits)

lemma merge_into_settled:
  "\<forall>(k, v) \<in> set items. overlay (map_of t k) (Some v) = map_of t k \<Longrightarrow> merge_into t items = t"
proof (induction items)
  case (Cons p items)
  obtain key val where p: "p = (key, val)" by (cases p)
  with Cons.prems have "overlay (map_of t key) (Some val) = map_of t key" by simp
  then have "(case overlay (map_of t key) (Some val) of None \<Rightarrow> od_del t key | Some v \<Rightarrow> od_set t key v) = t"
    by (auto simp: od_set_same od_del_id map_of_eq_None_iff split: option.split)
  with Cons p show ?case by (simp add: merge_into_Cons)
qed simp

lemma merge_into_idem:
  "dict_wf layer \<Longrightarrow> layer = PyDict items \<Longrightarrow> merge_into (merge_into t items) items = merge_into t items"
proof (induction layer arbitrary: items t rule: pyval.induct)
  case (PyDict xs)
  then have wf: "od_wf items" "items_wf items" by auto
  have "overlay (map_of (merge_into t items) k) (Some v) = map_of (merge_into t items) k"
    if kv: "(k, v) \<in> set items" for k v
  proof -
    have v: "map_of items k = Some v" using kv wf(1) by (simp add: od_wf_def)
    have "merge_into (merge_into e n) n = merge_into e n" if "v = PyDict n" for e n
      using PyDict.IH(2)[of "(k, v)" v n e] kv PyDict.prems that wf(2) by (fastforce simp: items_wf_iff)
    then show ?thesis
      unfolding merge_into_lookup[OF wf(1)] v by (cases v) (simp_all add: overlay_def)
  qed
  then show ?case by (intro merge_into_settled) blast
qed simp_all

section \<open>No null is left\<close>

fun null_free :: "(pyval \<times> pyval) list \<Rightarrow> bool" where
  "null_free [] = True"
| "null_free ((k, PyNone) # items) = False"
| "null_free ((k, PyDict d) # items) = (null_free d \<and> null_free items)"
| "null_free ((k, v) # items) = null_free items"

lemma null_free_iff:
  "null_free items \<longleftrightarrow> (\<forall>(k, v) \<in> set items. v \<noteq> PyNone \<and> (\<forall>d. v = PyDict d \<longrightarrow> null_free d))"
  by (induction items rule: null_free.induct) auto

lemma set_od_set: "set (od_set d k v) \<subseteq> insert (k, v) (set d)"
  by (induction d k v rule: od_set.induct) auto

lemma null_free_subset: "null_free t \<Longrightarrow> set t' \<subseteq> set t \<Longrightarrow> null_free t'"
  using null_free_iff[of t] null_free_iff[of t'] by blast

lemma null_free_set:
  assumes "null_free t" "v \<noteq> PyNone" "\<forall>d. v = PyDict d \<longrightarrow> null_free d"
  shows "null_free (od_set t k v)"
proof -
  have "null_free ((k, v) # t)" using assms null_free_iff[of "(k, v) # t"] null_free_iff[of t] by simp
  then show ?thesis by (rule null_free_subset) (use set_od_set[of t k v] in simp)
qed

lemma null_free_del: "null_free t \<Longrightarrow> null_free (od_del t k)"
  by (erule null_free_subset) (auto simp: od_del_def)

lemma null_free_existing: "null_free t \<Longrightarrow> null_free (case map_of t k of Some (PyDict e) \<Rightarrow> e | _ \<Rightarrow> [])"
  by (auto simp: null_free_iff[of t] split: option.splits pyval.splits dest!: map_of_SomeD)

lemma merge_into_null_free: "null_free t \<Longrightarrow> null_free (merge_into t items)"
  by (induction t items rule: merge_into.induct)
     (simp_all add: Let_def null_free_set null_free_del null_free_existing)

section \<open>The property\<close>

lemma check_layers_append:
  "check_layers (ls @ ms) = (case check_layers ls of None \<Rightarrow> check_layers ms | Some e \<Rightarrow> Some e)"
  by (induction ls) auto

text \<open>When layers ending in \<open>layer\<close> merge, so do the layers before it, and every key of the result is
  decided by \<open>layer\<close> first: a key it does not mention keeps its value, a null removes the key, a dictionary
  merges into the dictionary that was there (or into an empty one), and any other value replaces. The
  result has no null in any dictionary reached through dictionaries, and applying the last layer a second
  time changes nothing, not even the order of the keys.\<close>
theorem config_merge_last_layer:
  assumes "merge_config_layers (PyList (layers @ [PyDict layer])) = Inr result" "dict_wf (PyDict layer)"
  shows "\<exists>before. merge_config_layers (PyList layers) = Inr before
      \<and> (\<forall>k. map_of result k = overlay (map_of before k) (map_of layer k)) \<and> null_free result
      \<and> merge_config_layers (PyList (layers @ [PyDict layer, PyDict layer])) = Inr result"
proof -
  let ?f = "\<lambda>result layer. merge_into result (dict_items layer)"
  define before where "before = foldl ?f [] layers"
  from assms(1) have chk: "check_layers layers = None" "check_layers [PyDict layer] = None"
    and res: "result = merge_into before layer"
    by (auto simp: merge_config_layers_def check_layers_append before_def dict_items_def
        split: option.splits if_splits)
  have "null_free t \<Longrightarrow> null_free (foldl ?f t layers)" for t
    by (induction layers arbitrary: t) (simp_all add: merge_into_null_free)
  then have "null_free result" unfolding res before_def by (intro merge_into_null_free) simp
  moreover have "merge_into result layer = result"
    unfolding res by (rule merge_into_idem[OF assms(2) refl])
  moreover have "od_wf layer" using assms(2) by simp
  ultimately show ?thesis
    using chk res merge_into_lookup[of layer before]
    by (auto simp: merge_config_layers_def check_layers_append before_def dict_items_def split: if_splits)
qed

theorem config_merge_last_layer_witness:
  "\<exists>before. merge_config_layers (PyList [PyDict [(PyStr ''db'', PyDict [(PyStr ''host'', PyStr ''a''), (PyStr ''port'', PyInt 1)])]])
      = Inr before
    \<and> merge_config_layers (PyList ([PyDict [(PyStr ''db'', PyDict [(PyStr ''host'', PyStr ''a''), (PyStr ''port'', PyInt 1)])]]
        @ [PyDict [(PyStr ''db'', PyDict [(PyStr ''port'', PyNone)])], PyDict [(PyStr ''db'', PyDict [(PyStr ''port'', PyNone)])]]))
      = Inr [(PyStr ''db'', PyDict [(PyStr ''host'', PyStr ''a'')])]"
proof -
  let ?a = "[PyDict [(PyStr ''db'', PyDict [(PyStr ''host'', PyStr ''a''), (PyStr ''port'', PyInt 1)])]]"
  let ?l = "[(PyStr ''db'', PyDict [(PyStr ''port'', PyNone)])]"
  have m: "merge_config_layers (PyList (?a @ [PyDict ?l])) = Inr [(PyStr ''db'', PyDict [(PyStr ''host'', PyStr ''a'')])]"
    by code_simp
  have "dict_wf (PyDict ?l)" by (simp add: od_wf_def)
  from config_merge_last_layer[OF m this] show ?thesis by (elim exE conjE) (intro exI conjI)
qed

end
