(* ===== verification/EventParser.thy ===== *)
theory EventParser
  imports PyValues Scoring
begin

text \<open>
  The parser of newline-delimited JSON events of
  \<^verbatim>\<open>src/app/tasks/definitions/structured_event_parser/reference/solution.py\<close>. The JSON decoder is the
  argument \<open>loads\<close>: \<open>None\<close> is its \<^verbatim>\<open>JSONDecodeError\<close>. Nothing is assumed of it.
\<close>

section \<open>The parser\<close>

datatype event_error = EventTypeError string | EventValueError string

record event =
  ev_id :: string
  ev_timestamp :: int
  ev_kind :: string
  ev_payload :: "(pyval \<times> pyval) list"

definition event_kinds :: "string list" where
  "event_kinds = [''created'', ''updated'', ''deleted'']"

definition field :: "(pyval \<times> pyval) list \<Rightarrow> string \<Rightarrow> pyval option" where
  "field raw name = map_of raw (PyStr name)"

text \<open>The state of the loop besides the result: the ids seen and the latest timestamp.\<close>

record parse_state =
  ps_seen :: "string list"
  ps_previous :: "int option"

text \<open>The body of the loop for a decoded line.\<close>

definition parse_fields :: "parse_state \<Rightarrow> (pyval \<times> pyval) list \<Rightarrow> event_error + event" where
  "parse_fields st raw =
     (if \<exists>k \<in> set (map fst raw). k \<notin> set (map PyStr [''id'', ''timestamp'', ''kind'', ''payload''])
      then Inl (EventValueError ''unknown event field'')
      else (case (field raw ''id'', field raw ''timestamp'', field raw ''kind'') of
        (Some event_id, Some timestamp, Some kind) \<Rightarrow>
          (let payload = (case field raw ''payload'' of Some p \<Rightarrow> p | None \<Rightarrow> PyDict [])
           in case nonempty_str event_id of
                None \<Rightarrow> Inl (EventValueError ''id must be a nonempty string'')
              | Some i \<Rightarrow> (case plain_int timestamp of
                None \<Rightarrow> Inl (EventValueError ''timestamp must be a nonnegative integer'')
              | Some t \<Rightarrow>
                  if t < 0 then Inl (EventValueError ''timestamp must be a nonnegative integer'')
                  else (case nonempty_str kind of
                    None \<Rightarrow> Inl (EventValueError ''invalid event kind'')
                  | Some k \<Rightarrow>
                      if k \<notin> set event_kinds then Inl (EventValueError ''invalid event kind'')
                      else (case payload of
                        PyDict p \<Rightarrow>
                          if i \<in> set (ps_seen st) then Inl (EventValueError ''duplicate event id'')
                          else if (case ps_previous st of None \<Rightarrow> False | Some u \<Rightarrow> t < u)
                          then Inl (EventValueError ''timestamps must be nondecreasing'')
                          else Inr \<lparr>ev_id = i, ev_timestamp = t, ev_kind = k, ev_payload = p\<rparr>
                      | _ \<Rightarrow> Inl (EventValueError ''payload must be an object'')))))
      | _ \<Rightarrow> Inl (EventValueError ''missing required event field'')))"

fun parse_lines :: "(string \<Rightarrow> pyval option) \<Rightarrow> pyval list \<Rightarrow> parse_state \<Rightarrow> event list \<Rightarrow> event_error + event list" where
  "parse_lines loads [] st result = Inr result"
| "parse_lines loads (line # lines) st result =
     (case line of
        PyStr s \<Rightarrow>
          if py_strip s = [] then parse_lines loads lines st result
          else (case loads s of
            None \<Rightarrow> Inl (EventValueError ''malformed JSON'')
          | Some (PyDict raw) \<Rightarrow>
              (case parse_fields st raw of
                 Inl e \<Rightarrow> Inl e
               | Inr ev \<Rightarrow>
                   parse_lines loads lines
                     \<lparr>ps_seen = ev_id ev # ps_seen st, ps_previous = Some (ev_timestamp ev)\<rparr> (result @ [ev]))
          | Some _ \<Rightarrow> Inl (EventTypeError ''each event must be an object''))
      | _ \<Rightarrow> Inl (EventTypeError ''every line must be a string''))"

definition parse_events :: "(string \<Rightarrow> pyval option) \<Rightarrow> pyval \<Rightarrow> event_error + event list" where
  "parse_events loads lines =
     (case lines of
        PyList ls \<Rightarrow> parse_lines loads ls \<lparr>ps_seen = [], ps_previous = None\<rparr> []
      | _ \<Rightarrow> Inl (EventTypeError ''lines must be a list''))"

section \<open>What is accepted\<close>

definition nonblank :: "pyval \<Rightarrow> bool" where
  "nonblank line = (case line of PyStr s \<Rightarrow> py_strip s \<noteq> [] | _ \<Rightarrow> True)"

text \<open>The event is the object on the line, field by field.\<close>

definition event_of_line :: "(string \<Rightarrow> pyval option) \<Rightarrow> pyval \<Rightarrow> event \<Rightarrow> bool" where
  "event_of_line loads line ev \<longleftrightarrow>
     (\<exists>s raw. line = PyStr s \<and> loads s = Some (PyDict raw)
        \<and> field raw ''id'' = Some (PyStr (ev_id ev)) \<and> field raw ''timestamp'' = Some (PyInt (ev_timestamp ev))
        \<and> field raw ''kind'' = Some (PyStr (ev_kind ev))
        \<and> (case field raw ''payload'' of Some p \<Rightarrow> p = PyDict (ev_payload ev) | None \<Rightarrow> ev_payload ev = []))"

definition event_ok :: "event \<Rightarrow> bool" where
  "event_ok ev \<longleftrightarrow> ev_id ev \<noteq> [] \<and> 0 \<le> ev_timestamp ev \<and> ev_kind ev \<in> set event_kinds"

definition tracks_events :: "parse_state \<Rightarrow> event list \<Rightarrow> bool" where
  "tracks_events st evs \<longleftrightarrow>
     set (ps_seen st) = ev_id ` set evs
     \<and> ps_previous st = (if evs = [] then None else Some (ev_timestamp (last evs)))"

lemma parse_fields_Inr:
  assumes "parse_fields st raw = Inr ev"
  shows "field raw ''id'' = Some (PyStr (ev_id ev))" "field raw ''timestamp'' = Some (PyInt (ev_timestamp ev))"
    "field raw ''kind'' = Some (PyStr (ev_kind ev))"
    "case field raw ''payload'' of Some p \<Rightarrow> p = PyDict (ev_payload ev) | None \<Rightarrow> ev_payload ev = []"
    "event_ok ev" "ev_id ev \<notin> set (ps_seen st)"
    "case ps_previous st of None \<Rightarrow> True | Some u \<Rightarrow> u \<le> ev_timestamp ev"
  using assms
  by (auto simp: parse_fields_def Let_def event_ok_def not_less split: if_splits option.splits pyval.splits)


definition events_ok :: "event list \<Rightarrow> bool" where
  "events_ok evs \<longleftrightarrow> distinct (map ev_id evs) \<and> sorted (map ev_timestamp evs) \<and> list_all event_ok evs"

lemma events_ok_snoc:
  assumes "events_ok evs" "tracks_events st evs" "parse_fields st raw = Inr ev"
  shows "events_ok (evs @ [ev])"
proof -
  note f = parse_fields_Inr[OF assms(3)]
  have "\<forall>t \<in> set (map ev_timestamp evs). t \<le> ev_timestamp ev"
  proof (cases "evs = []")
    case False
    with assms(2) f(7) have last: "ev_timestamp (last evs) \<le> ev_timestamp ev" by (simp add: tracks_events_def)
    have "t \<le> ev_timestamp (last evs)" if "t \<in> set (map ev_timestamp evs)" for t
    proof -
      have "sorted (map ev_timestamp (butlast evs @ [last evs]))" using assms(1) False by (simp add: events_ok_def)
      moreover have "t \<in> set (map ev_timestamp (butlast evs @ [last evs]))" using that False by simp
      ultimately show ?thesis by (auto simp: sorted_append)
    qed
    with last show ?thesis by force
  qed simp
  with assms f(5,6) show ?thesis by (auto simp: events_ok_def tracks_events_def sorted_append)
qed

lemma parse_lines_Inr:
  assumes "parse_lines loads ls st evs = Inr out" "events_ok evs" "tracks_events st evs"
  shows "\<exists>new. out = evs @ new \<and> events_ok out \<and> list_all2 (event_of_line loads) (filter nonblank ls) new"
  using assms
proof (induction ls arbitrary: st evs)
  case (Cons line ls)
  then obtain s where line: "line = PyStr s" by (auto split: pyval.splits)
  show ?case
  proof (cases "py_strip s = []")
    case True
    with Cons line show ?thesis by (simp add: nonblank_def)
  next
    case False
    with Cons.prems(1) line obtain raw ev where l: "loads s = Some (PyDict raw)" "parse_fields st raw = Inr ev"
      and rest: "parse_lines loads ls \<lparr>ps_seen = ev_id ev # ps_seen st, ps_previous = Some (ev_timestamp ev)\<rparr> (evs @ [ev])
                 = Inr out"
      by (auto split: option.splits pyval.splits sum.splits)
    have "tracks_events \<lparr>ps_seen = ev_id ev # ps_seen st, ps_previous = Some (ev_timestamp ev)\<rparr> (evs @ [ev])"
      using Cons.prems(3) by (simp add: tracks_events_def)
    from Cons.IH[OF rest events_ok_snoc[OF Cons.prems(2,3) l(2)] this] obtain new where
      "out = evs @ ev # new" "events_ok out" "list_all2 (event_of_line loads) (filter nonblank ls) new" by auto
    moreover have "event_of_line loads line ev"
      using line l(1) parse_fields_Inr[OF l(2)] by (auto simp: event_of_line_def)
    ultimately show ?thesis using line False by (auto simp: nonblank_def[of "PyStr s"])
  qed
qed simp

text \<open>Whatever the JSON decoder, an accepted list of lines gives one event per line that is not blank,
  in order, with the id, timestamp, kind and payload of the object decoded from that line; all ids are
  distinct and nonempty, the timestamps nonnegative and nondecreasing and the kinds among the three known
  ones.\<close>
theorem parse_events_accepts:
  assumes "parse_events loads (PyList lines) = Inr evs"
  shows "list_all2 (event_of_line loads) (filter nonblank lines) evs
    \<and> distinct (map ev_id evs) \<and> sorted (map ev_timestamp evs)
    \<and> (\<forall>ev \<in> set evs. ev_id ev \<noteq> [] \<and> 0 \<le> ev_timestamp ev \<and> ev_kind ev \<in> {''created'', ''updated'', ''deleted''})"
proof -
  have "events_ok evs \<and> list_all2 (event_of_line loads) (filter nonblank lines) evs"
    using parse_lines_Inr[of loads lines "\<lparr>ps_seen = [], ps_previous = None\<rparr>" "[]" evs] assms
    by (auto simp: parse_events_def events_ok_def tracks_events_def)
  then show ?thesis by (auto simp: events_ok_def event_ok_def event_kinds_def list_all_iff)
qed

text \<open>A decoder that knows two lines, and a blank line between them.\<close>

definition ex_loads :: "string \<Rightarrow> pyval option" where
  "ex_loads s =
     (if s = ''first'' then Some (PyDict [(PyStr ''id'', PyStr ''a''), (PyStr ''timestamp'', PyInt 3), (PyStr ''kind'', PyStr ''created'')])
      else if s = ''second'' then Some (PyDict [(PyStr ''kind'', PyStr ''deleted''), (PyStr ''id'', PyStr ''b''), (PyStr ''timestamp'', PyInt 3)])
      else None)"

theorem parse_events_accepts_witness:
  "list_all2 (event_of_line ex_loads) (filter nonblank [PyStr ''first'', PyStr '' '', PyStr ''second''])
     [\<lparr>ev_id = ''a'', ev_timestamp = 3, ev_kind = ''created'', ev_payload = []\<rparr>,
      \<lparr>ev_id = ''b'', ev_timestamp = 3, ev_kind = ''deleted'', ev_payload = []\<rparr>]"
proof -
  have "parse_events ex_loads (PyList [PyStr ''first'', PyStr '' '', PyStr ''second'']) =
      Inr [\<lparr>ev_id = ''a'', ev_timestamp = 3, ev_kind = ''created'', ev_payload = []\<rparr>,
           \<lparr>ev_id = ''b'', ev_timestamp = 3, ev_kind = ''deleted'', ev_payload = []\<rparr>]"
    by (simp add: parse_events_def parse_fields_def ex_loads_def field_def py_strip_def py_space_def event_kinds_def)
  from parse_events_accepts[OF this] show ?thesis by (rule conjunct1)
qed

end
