(* ===== verification/BatchProcessor.thy ===== *)
theory BatchProcessor
  imports PyValues
begin

text \<open>
  The asynchronous batch processor of \<^verbatim>\<open>src/app/tasks/definitions/async_batch_processor/reference/solution.py\<close> as a
  transition system: the coroutine \<^verbatim>\<open>process_batch\<close> and one task per item, interleaved by the event loop in any
  order. A transition runs a task or the coroutine from one \<^verbatim>\<open>await\<close> to the next. What a worker does is not restricted: it
  ends with a result or an exception at any time after it was called, also when it has been asked to stop.
\<close>

section \<open>The state\<close>

datatype 'e batch_exn = CancelledError | WorkerError 'e

text \<open>
  A task has not entered the semaphore, runs the worker, or has ended; the flag says that its cancellation has been
  requested.
\<close>

datatype ('r, 'e) batch_task = Pending bool | Active bool | Ended "'e batch_exn + 'r"

text \<open>
  The coroutine awaits the first \<^verbatim>\<open>gather\<close> (which its caller may have cancelled), awaits the second one in its handler
  with the exception that it will raise, has returned or has raised.
\<close>

datatype ('r, 'e) batch_main =
    Gathering | GatherCancelled | Cleaning "'e batch_exn" | BatchReturned "'r list" | BatchRaised "'e batch_exn"

record ('r, 'e) batch =
  bt_tasks :: "('r, 'e) batch_task list"
  bt_free :: nat \<comment> \<open>the value of the semaphore\<close>
  bt_main :: "('r, 'e) batch_main"
  bt_calls :: "nat list" \<comment> \<open>the items for which the worker was called, in order\<close>

definition process_batch :: "nat \<Rightarrow> pyval \<Rightarrow> string + ('r, 'e) batch" where
  "process_batch items concurrency =
     (case plain_int concurrency of
        None \<Rightarrow> Inl ''concurrency must be a positive integer''
      | Some n \<Rightarrow>
          if n \<le> 0 then Inl ''concurrency must be a positive integer''
          else Inr \<lparr>bt_tasks = replicate items (Pending False), bt_free = nat n, bt_main = Gathering, bt_calls = []\<rparr>)"

section \<open>Transitions\<close>

primrec task_cancel :: "('r, 'e) batch_task \<Rightarrow> ('r, 'e) batch_task" where
  "task_cancel (Pending c) = Pending True"
| "task_cancel (Active c) = Active True"
| "task_cancel (Ended r) = Ended r"

definition cancel_all :: "('r, 'e) batch \<Rightarrow> ('r, 'e) batch" where
  "cancel_all st = st\<lparr>bt_tasks := map task_cancel (bt_tasks st)\<rparr>"

primrec has_ended :: "('r, 'e) batch_task \<Rightarrow> bool" where
  "has_ended (Pending c) = False"
| "has_ended (Active c) = False"
| "has_ended (Ended r) = True"

primrec result_of :: "('r, 'e) batch_task \<Rightarrow> 'r option" where
  "result_of (Pending c) = None"
| "result_of (Active c) = None"
| "result_of (Ended r) = (case r of Inl _ \<Rightarrow> None | Inr v \<Rightarrow> Some v)"

text \<open>The results in the order of the items, when every task has one.\<close>

fun all_results :: "('r, 'e) batch_task list \<Rightarrow> 'r list option" where
  "all_results [] = Some []"
| "all_results (t # ts) = (case (result_of t, all_results ts) of (Some v, Some vs) \<Rightarrow> Some (v # vs) | _ \<Rightarrow> None)"

datatype ('r, 'e) batch_label =
    Enter nat \<comment> \<open>a task passes \<^verbatim>\<open>async with semaphore\<close> and calls the worker\<close>
  | WorkerEnds nat "'e batch_exn + 'r" \<comment> \<open>the worker ends and the task leaves the semaphore\<close>
  | CancelledWaiting nat \<comment> \<open>the cancellation reaches a task that waits for the semaphore or has not started\<close>
  | GatherReturns
  | GatherRaises nat \<comment> \<open>\<^verbatim>\<open>gather\<close> passes on the exception of a task\<close>
  | GatherRaisesCancelled \<comment> \<open>all tasks ended well, but the caller had cancelled\<close>
  | CallerCancels
  | CleanedUp

definition task_at :: "('r, 'e) batch \<Rightarrow> nat \<Rightarrow> ('r, 'e) batch_task option" where
  "task_at st i = (if i < length (bt_tasks st) then Some (bt_tasks st ! i) else None)"

fun batch_do :: "('r, 'e) batch_label \<Rightarrow> ('r, 'e) batch \<Rightarrow> ('r, 'e) batch option" where
  "batch_do (Enter i) st =
     (if task_at st i = Some (Pending False) \<and> 0 < bt_free st
      then Some (st\<lparr>bt_tasks := (bt_tasks st)[i := Active False], bt_free := bt_free st - 1, bt_calls := bt_calls st @ [i]\<rparr>)
      else None)"
| "batch_do (WorkerEnds i r) st =
     (case task_at st i of
        Some (Active c) \<Rightarrow> Some (st\<lparr>bt_tasks := (bt_tasks st)[i := Ended r], bt_free := bt_free st + 1\<rparr>)
      | _ \<Rightarrow> None)"
| "batch_do (CancelledWaiting i) st =
     (if task_at st i = Some (Pending True)
      then Some (st\<lparr>bt_tasks := (bt_tasks st)[i := Ended (Inl CancelledError)]\<rparr>) else None)"
| "batch_do GatherReturns st =
     (case (bt_main st, all_results (bt_tasks st)) of
        (Gathering, Some vs) \<Rightarrow> Some (st\<lparr>bt_main := BatchReturned vs\<rparr>) | _ \<Rightarrow> None)"
| "batch_do (GatherRaises i) st =
     (case task_at st i of
        Some (Ended (Inl e)) \<Rightarrow>
          (if bt_main st \<in> {Gathering, GatherCancelled} then Some (cancel_all (st\<lparr>bt_main := Cleaning e\<rparr>)) else None)
      | _ \<Rightarrow> None)"
| "batch_do GatherRaisesCancelled st =
     (if bt_main st = GatherCancelled \<and> all_results (bt_tasks st) \<noteq> None
      then Some (cancel_all (st\<lparr>bt_main := Cleaning CancelledError\<rparr>)) else None)"
| "batch_do CallerCancels st =
     (case bt_main st of
        Gathering \<Rightarrow> Some (cancel_all (st\<lparr>bt_main := GatherCancelled\<rparr>))
      | GatherCancelled \<Rightarrow> Some (cancel_all st)
      | Cleaning e \<Rightarrow> Some (cancel_all (st\<lparr>bt_main := Cleaning CancelledError\<rparr>))
      | _ \<Rightarrow> None)"
| "batch_do CleanedUp st =
     (case bt_main st of
        Cleaning e \<Rightarrow> if list_all has_ended (bt_tasks st) then Some (st\<lparr>bt_main := BatchRaised e\<rparr>) else None
      | _ \<Rightarrow> None)"

fun batch_run :: "('r, 'e) batch_label list \<Rightarrow> ('r, 'e) batch \<Rightarrow> ('r, 'e) batch option" where
  "batch_run [] st = Some st"
| "batch_run (l # ls) st = (case batch_do l st of None \<Rightarrow> None | Some st' \<Rightarrow> batch_run ls st')"

section \<open>The invariant\<close>

definition is_active :: "('r, 'e) batch_task \<Rightarrow> bool" where
  "is_active t \<longleftrightarrow> (case t of Active _ \<Rightarrow> True | _ \<Rightarrow> False)"

definition active_count :: "('r, 'e) batch \<Rightarrow> nat" where
  "active_count st = length (filter is_active (bt_tasks st))"

text \<open>What a task is tells whether the worker was called for it; a task cancelled while it waited was not.\<close>

definition call_agrees :: "nat list \<Rightarrow> nat \<Rightarrow> ('r, 'e) batch_task \<Rightarrow> bool" where
  "call_agrees calls i t \<longleftrightarrow>
     (case t of Pending _ \<Rightarrow> i \<notin> set calls | Active _ \<Rightarrow> i \<in> set calls
      | Ended r \<Rightarrow> i \<in> set calls \<or> r = Inl CancelledError)"

definition main_agrees :: "('r, 'e) batch_main \<Rightarrow> ('r, 'e) batch_task list \<Rightarrow> bool" where
  "main_agrees m ts \<longleftrightarrow>
     (case m of
        Gathering \<Rightarrow> True
      | GatherCancelled \<Rightarrow> list_all (\<lambda>t. task_cancel t = t) ts
      | Cleaning e \<Rightarrow> list_all (\<lambda>t. task_cancel t = t) ts
      | BatchReturned vs \<Rightarrow> ts = map (\<lambda>v. Ended (Inr v)) vs
      | BatchRaised e \<Rightarrow> list_all has_ended ts)"

definition batch_ok :: "nat \<Rightarrow> nat \<Rightarrow> ('r, 'e) batch \<Rightarrow> bool" where
  "batch_ok items limit st \<longleftrightarrow>
     length (bt_tasks st) = items \<and> bt_free st + active_count st = limit \<and> distinct (bt_calls st)
     \<and> set (bt_calls st) \<subseteq> {..<items} \<and> (\<forall>i<items. call_agrees (bt_calls st) i (bt_tasks st ! i))
     \<and> main_agrees (bt_main st) (bt_tasks st)"

lemma task_at_Some [simp]: "task_at st i = Some t \<longleftrightarrow> i < length (bt_tasks st) \<and> bt_tasks st ! i = t"
  by (auto simp: task_at_def)

lemma task_cancel_idem [simp]: "task_cancel (task_cancel t) = task_cancel t"
  by (cases t) auto

lemma is_active_simps [simp]: "is_active (Active c)" "\<not> is_active (Pending c)" "\<not> is_active (Ended r)"
  "is_active (task_cancel t) = is_active t"
  by (simp_all add: is_active_def) (cases t; simp)

lemma has_ended_cancel [simp]: "has_ended (task_cancel t) = has_ended t"
  by (cases t) auto

lemma has_ended_iff: "has_ended t \<longleftrightarrow> (\<exists>r. t = Ended r)"
  by (cases t) auto

lemma call_agrees_simps [simp]:
  "call_agrees calls i (Pending c) \<longleftrightarrow> i \<notin> set calls" "call_agrees calls i (Active c) \<longleftrightarrow> i \<in> set calls"
  "call_agrees calls i (Ended r) \<longleftrightarrow> i \<in> set calls \<or> r = Inl CancelledError"
  "call_agrees calls i (task_cancel t) = call_agrees calls i t"
  by (cases t; simp add: call_agrees_def)+

lemma call_agrees_other: "i \<noteq> j \<Longrightarrow> call_agrees (calls @ [j]) i t = call_agrees calls i t"
  by (simp add: call_agrees_def split: batch_task.splits)

lemma all_results_map [simp]: "all_results (map (\<lambda>v. Ended (Inr v)) vs) = Some vs"
  by (induction vs) auto

lemma all_results_iff: "all_results ts = Some vs \<longleftrightarrow> ts = map (\<lambda>v. Ended (Inr v)) vs"
proof
  show "all_results ts = Some vs \<Longrightarrow> ts = map (\<lambda>v. Ended (Inr v)) vs"
  proof (induction ts arbitrary: vs)
    case (Cons t ts)
    then show ?case by (cases t) (auto split: option.splits sum.splits)
  qed simp
qed simp

lemma filter_update:
  assumes "i < length xs"
  shows "length (filter P (xs[i := x])) + (if P (xs ! i) then 1 else 0) = length (filter P xs) + (if P x then 1 else 0)"
  using assms
proof (induction xs arbitrary: i)
  case (Cons y ys)
  then show ?case
  proof (cases i)
    case (Suc j)
    with Cons.prems have "j < length ys" by simp
    from Cons.IH[OF this] Suc show ?thesis by (cases "P y") simp_all
  qed simp
qed simp

lemma batch_init_ok: "process_batch items (PyInt (int limit)) = Inr st \<Longrightarrow> batch_ok items limit st \<and> 0 < limit"
  by (auto simp: process_batch_def batch_ok_def active_count_def main_agrees_def split: if_splits)

lemma fixed_update: "list_all (\<lambda>t. task_cancel t = t) ts \<Longrightarrow> list_all (\<lambda>t. task_cancel t = t) (ts[i := Ended r])"
  by (auto simp: list_all_iff dest!: set_update_subset_insert[THEN subsetD])

lemma active_update:
  assumes "i < length (bt_tasks st)"
  shows "active_count (st\<lparr>bt_tasks := (bt_tasks st)[i := t]\<rparr>) + (if is_active (bt_tasks st ! i) then 1 else 0)
    = active_count st + (if is_active t then 1 else 0)"
  using filter_update[OF assms, of is_active t] by (simp add: active_count_def)

lemma active_cancel [simp]: "active_count (cancel_all st) = active_count st"
  by (simp add: active_count_def cancel_all_def filter_map comp_def)

lemma cancel_all_ok:
  assumes "batch_ok items limit st" "m = GatherCancelled \<or> (\<exists>e. m = Cleaning e)"
  shows "batch_ok items limit (cancel_all (st\<lparr>bt_main := m\<rparr>))"
proof -
  have "main_agrees m (map task_cancel (bt_tasks st))"
    using assms(2) by (auto simp: main_agrees_def list_all_iff)
  with assms(1) active_cancel[of "st\<lparr>bt_main := m\<rparr>"] show ?thesis
    by (simp add: batch_ok_def cancel_all_def active_count_def)
qed

lemma main_update:
  assumes "main_agrees m ts" "i < length ts" "\<not> has_ended (ts ! i)"
    and "ts ! i = Pending False \<or> (\<exists>r. t = Ended r)"
  shows "main_agrees m (ts[i := t])"
  using assms by (cases m) (auto simp: main_agrees_def list_all_length nth_list_update)

text \<open>A task that ends, or one that calls the worker, in place \<open>i\<close>.\<close>

lemma task_ends_ok:
  assumes "batch_ok items limit st" "i < length (bt_tasks st)" "\<not> has_ended (bt_tasks st ! i)"
    and "is_active (bt_tasks st ! i) \<or> r = Inl CancelledError"
    and "n = (if is_active (bt_tasks st ! i) then 1 else 0)"
  shows "batch_ok items limit (st\<lparr>bt_tasks := (bt_tasks st)[i := Ended r], bt_free := bt_free st + n\<rparr>)"
proof -
  have "i \<in> set (bt_calls st) \<or> r = Inl CancelledError"
    using assms(1-4) by (cases "bt_tasks st ! i") (auto simp: batch_ok_def)
  moreover have "main_agrees (bt_main st) ((bt_tasks st)[i := Ended r])"
    using assms(1-3) by (intro main_update) (auto simp: batch_ok_def)
  ultimately show ?thesis
    using assms(1,2,5) active_update[OF assms(2), of "Ended r"]
    by (auto simp: batch_ok_def nth_list_update active_count_def)
qed

lemma task_enters_ok:
  assumes "batch_ok items limit st" "i < length (bt_tasks st)" "bt_tasks st ! i = Pending False" "0 < bt_free st"
  shows "batch_ok items limit
    (st\<lparr>bt_tasks := (bt_tasks st)[i := Active False], bt_free := bt_free st - 1, bt_calls := bt_calls st @ [i]\<rparr>)"
proof -
  have "i \<notin> set (bt_calls st)" using assms(1-3) by (auto simp: batch_ok_def)
  moreover have "main_agrees (bt_main st) ((bt_tasks st)[i := Active False])"
    using assms(1-3) by (intro main_update) (auto simp: batch_ok_def)
  ultimately show ?thesis
    using assms active_update[OF assms(2), of "Active False"]
    by (auto simp: batch_ok_def nth_list_update active_count_def call_agrees_other)
qed

lemma batch_do_ok:
  assumes "batch_do l st = Some st'" "batch_ok items limit st"
  shows "batch_ok items limit st'"
proof (cases l)
  case (Enter i)
  with assms show ?thesis by (auto split: if_splits intro: task_enters_ok[simplified])
next
  case (WorkerEnds i r)
  with assms task_ends_ok[of items limit st i r 1] show ?thesis
    by (auto split: option.splits batch_task.splits)
next
  case (CancelledWaiting i)
  with assms task_ends_ok[of items limit st i "Inl CancelledError" 0] show ?thesis by (auto split: if_splits)
next
  case GatherReturns
  with assms show ?thesis
    by (auto simp: batch_ok_def main_agrees_def active_count_def all_results_iff split: batch_main.splits option.splits)
next
  case (GatherRaises i)
  with assms cancel_all_ok[OF assms(2)] show ?thesis
    by (auto split: option.splits batch_task.splits sum.splits if_splits)
next
  case GatherRaisesCancelled
  with assms cancel_all_ok[OF assms(2)] show ?thesis by (auto split: if_splits)
next
  case CallerCancels
  then show ?thesis
    using assms cancel_all_ok[OF assms(2), of "bt_main st"] cancel_all_ok[OF assms(2)]
    by (auto split: batch_main.splits)
next
  case CleanedUp
  with assms show ?thesis
    by (auto simp: batch_ok_def main_agrees_def active_count_def split: batch_main.splits if_splits)
qed

lemma batch_run_ok: "batch_run ls st = Some st' \<Longrightarrow> batch_ok items limit st \<Longrightarrow> batch_ok items limit st'"
  by (induction ls st rule: batch_run.induct) (auto split: option.splits dest: batch_do_ok)

lemma process_batch_Inr:
  assumes "process_batch items concurrency = Inr st"
  shows "\<exists>limit. 0 < limit \<and> plain_int concurrency = Some (int limit) \<and> batch_ok items limit st \<and> bt_calls st = []
    \<and> bt_main st = Gathering \<and> bt_tasks st = replicate items (Pending False)"
  using assms by (auto simp: process_batch_def batch_ok_def active_count_def main_agrees_def
      split: option.splits if_splits intro!: exI[of _ "nat _"])

section \<open>Calls and results of a run\<close>

text \<open>The items whose tasks enter the semaphore in a run.\<close>

fun entered :: "('r, 'e) batch_label list \<Rightarrow> nat list" where
  "entered [] = []"
| "entered (Enter i # ls) = i # entered ls"
| "entered (_ # ls) = entered ls"

lemma cancel_all_simps [simp]:
  "bt_main (cancel_all st) = bt_main st" "bt_calls (cancel_all st) = bt_calls st" "bt_free (cancel_all st) = bt_free st"
  "bt_tasks (cancel_all st) = map task_cancel (bt_tasks st)"
  by (simp_all add: cancel_all_def)

lemma batch_do_calls: "batch_do l st = Some st' \<Longrightarrow> bt_calls st' = bt_calls st @ entered [l]"
  by (induction l st rule: batch_do.induct)
    (auto split: if_splits option.splits batch_main.splits batch_task.splits sum.splits)

lemma batch_run_calls: "batch_run ls st = Some st' \<Longrightarrow> bt_calls st' = bt_calls st @ entered ls"
proof (induction ls st rule: batch_run.induct)
  case (2 l ls st)
  then obtain st1 where "batch_do l st = Some st1" "bt_calls st' = bt_calls st1 @ entered ls"
    by (auto split: option.splits)
  then show ?case using batch_do_calls[of l st st1] by (cases l) auto
qed simp

lemma task_cancel_Ended [simp]: "task_cancel t = Ended r \<longleftrightarrow> t = Ended r"
  by (cases t) auto

lemma batch_do_ends:
  assumes "batch_do l st = Some st'" "i < length (bt_tasks st)" "bt_tasks st' ! i = Ended (Inr v)"
  shows "bt_tasks st ! i = Ended (Inr v) \<or> l = WorkerEnds i (Inr v)"
  using assms by (cases l) (auto simp: nth_list_update
    split: if_splits option.splits batch_main.splits batch_task.splits sum.splits)

lemma batch_do_length: "batch_do l st = Some st' \<Longrightarrow> length (bt_tasks st') = length (bt_tasks st)"
  by (cases l) (auto split: if_splits option.splits batch_main.splits batch_task.splits sum.splits)

lemma batch_run_ends:
  "batch_run ls st = Some st' \<Longrightarrow> i < length (bt_tasks st) \<Longrightarrow> bt_tasks st' ! i = Ended (Inr v)
   \<Longrightarrow> bt_tasks st ! i = Ended (Inr v) \<or> WorkerEnds i (Inr v) \<in> set ls"
proof (induction ls st rule: batch_run.induct)
  case (2 l ls st)
  from "2.prems"(1) obtain st1 where st1: "batch_do l st = Some st1" "batch_run ls st1 = Some st'"
    by (auto split: option.splits)
  from "2.IH"[OF st1] "2.prems" batch_do_length[OF st1(1)]
  have "bt_tasks st1 ! i = Ended (Inr v) \<or> WorkerEnds i (Inr v) \<in> set ls" by simp
  then show ?case using batch_do_ends[OF st1(1) "2.prems"(2)] by auto
qed simp

definition batch_final :: "('r, 'e) batch \<Rightarrow> bool" where
  "batch_final st \<longleftrightarrow> (case bt_main st of BatchReturned _ \<Rightarrow> True | BatchRaised _ \<Rightarrow> True | _ \<Rightarrow> False)"

lemma final_ended: "batch_ok items limit st \<Longrightarrow> batch_final st \<Longrightarrow> list_all has_ended (bt_tasks st)"
  by (auto simp: batch_ok_def batch_final_def main_agrees_def list_all_iff split: batch_main.splits)

lemma ended_inactive: "list_all has_ended (bt_tasks st) \<Longrightarrow> active_count st = 0"
  by (auto simp: active_count_def list_all_iff has_ended_iff filter_empty_conv)

text \<open>
  C32: However the event loop interleaves the tasks, process_batch never has more than concurrency workers running and calls the
  worker at most once for every item; when it returns, it called the worker for every item and returns the
  workers' results in the order of the items; and whether it returns or raises (a worker failed or the caller
  cancelled), no task is left behind.
\<close>
theorem batch_outcome:
  assumes "process_batch items concurrency = Inr st0" and "batch_run ls st0 = Some st"
  shows "\<exists>limit. plain_int concurrency = Some (int limit) \<and> active_count st \<le> limit \<and> distinct (entered ls)
    \<and> (\<forall>vs. bt_main st = BatchReturned vs \<longrightarrow> length vs = items \<and> set (entered ls) = {..<items}
        \<and> (\<forall>i<items. WorkerEnds i (Inr (vs ! i)) \<in> set ls))
    \<and> (batch_final st \<longrightarrow> list_all has_ended (bt_tasks st) \<and> active_count st = 0)"
proof -
  obtain limit where limit: "plain_int concurrency = Some (int limit)" and ok0: "batch_ok items limit st0"
    and start: "bt_calls st0 = []" "bt_tasks st0 = replicate items (Pending False)"
    using process_batch_Inr[OF assms(1)] by blast
  have ok: "batch_ok items limit st" by (rule batch_run_ok[OF assms(2) ok0])
  have calls: "bt_calls st = entered ls" using batch_run_calls[OF assms(2)] start(1) by simp
  have returned: "length vs = items \<and> set (entered ls) = {..<items} \<and> (\<forall>i<items. WorkerEnds i (Inr (vs ! i)) \<in> set ls)"
    if "bt_main st = BatchReturned vs" for vs
  proof -
    have tasks: "bt_tasks st = map (\<lambda>v. Ended (Inr v)) vs" using ok that by (simp add: batch_ok_def main_agrees_def)
    moreover have len: "length vs = items" using ok tasks by (simp add: batch_ok_def)
    ultimately have "i \<in> set (entered ls) \<and> WorkerEnds i (Inr (vs ! i)) \<in> set ls" if "i < items" for i
      using ok that calls batch_run_ends[OF assms(2), of i "vs ! i"] start(2) by (auto simp: batch_ok_def)
    with ok len calls show ?thesis by (auto simp: batch_ok_def)
  qed
  have "active_count st \<le> limit" "distinct (entered ls)" using ok calls by (auto simp: batch_ok_def)
  with limit returned final_ended[OF ok] ended_inactive[of st] show ?thesis by blast
qed

section \<open>Progress\<close>

primrec task_weight :: "('r, 'e) batch_task \<Rightarrow> nat" where
  "task_weight (Pending c) = 2"
| "task_weight (Active c) = 1"
| "task_weight (Ended r) = 0"

definition main_weight :: "('r, 'e) batch_main \<Rightarrow> nat" where
  "main_weight m = (case m of Gathering \<Rightarrow> 2 | GatherCancelled \<Rightarrow> 2 | Cleaning _ \<Rightarrow> 1 | _ \<Rightarrow> 0)"

definition batch_weight :: "('r, 'e) batch \<Rightarrow> nat" where
  "batch_weight st = sum_list (map task_weight (bt_tasks st)) + main_weight (bt_main st)"

lemma task_weight_cancel [simp]: "task_weight (task_cancel t) = task_weight t"
  by (cases t) auto

lemma weight_update:
  "i < length ts \<Longrightarrow> sum_list (map task_weight (ts[i := t])) + task_weight (ts ! i)
     = sum_list (map task_weight ts) + task_weight t"
proof (induction ts arbitrary: i)
  case (Cons u us)
  then show ?case
  proof (cases i)
    case (Suc j)
    with Cons.IH[of j] Cons.prems show ?thesis by simp
  qed simp
qed simp

lemma batch_do_weight:
  assumes "batch_do l st = Some st'" "l \<noteq> CallerCancels"
  shows "batch_weight st' < batch_weight st"
proof (cases l)
  case (Enter i)
  with assms show ?thesis using weight_update[of i "bt_tasks st" "Active False"]
    by (auto simp: batch_weight_def split: if_splits)
next
  case (WorkerEnds i r)
  with assms show ?thesis using weight_update[of i "bt_tasks st" "Ended r"]
    by (auto simp: batch_weight_def split: option.splits batch_task.splits)
next
  case (CancelledWaiting i)
  with assms show ?thesis using weight_update[of i "bt_tasks st" "Ended (Inl CancelledError)"]
    by (auto simp: batch_weight_def split: if_splits)
qed (use assms in \<open>auto simp: batch_weight_def main_weight_def comp_def
      split: if_splits option.splits batch_main.splits batch_task.splits sum.splits\<close>)

lemma batch_run_weight:
  "batch_run ls st = Some st' \<Longrightarrow> CallerCancels \<notin> set ls \<Longrightarrow> length ls + batch_weight st' \<le> batch_weight st"
proof (induction ls st rule: batch_run.induct)
  case (2 l ls st)
  then obtain st1 where "batch_do l st = Some st1" "length ls + batch_weight st' \<le> batch_weight st1"
    by (auto split: option.splits)
  with batch_do_weight[of l st st1] "2.prems" show ?case by auto
qed simp

lemma all_results_None:
  assumes "list_all has_ended ts" "all_results ts = None"
  shows "\<exists>i e. i < length ts \<and> ts ! i = Ended (Inl e)"
  using assms
proof (induction ts)
  case (Cons t ts)
  then obtain r where r: "t = Ended r" by (auto simp: has_ended_iff)
  show ?case
  proof (cases r)
    case (Inl e)
    with r show ?thesis by (intro exI[of _ 0] exI[of _ e]) simp
  next
    case (Inr v)
    with Cons r obtain i e where "i < length ts" "ts ! i = Ended (Inl e)" by (auto split: option.splits)
    then show ?thesis by (intro exI[of _ "Suc i"] exI[of _ e]) simp
  qed
qed simp

lemma ended_not_stuck:
  assumes "list_all has_ended (bt_tasks st)" "\<not> batch_final st"
  shows "\<exists>l. l \<noteq> CallerCancels \<and> batch_do l st \<noteq> None"
proof (cases "bt_main st")
  case (Cleaning e)
  with assms(1) show ?thesis by (intro exI[of _ CleanedUp]) simp
next
  case Gathering
  with all_results_None[OF assms(1)] show ?thesis
  proof (cases "all_results (bt_tasks st)")
    case (Some vs)
    with Gathering show ?thesis by (intro exI[of _ GatherReturns]) simp
  next
    case None
    then obtain i e where "i < length (bt_tasks st)" "bt_tasks st ! i = Ended (Inl e)"
      using all_results_None[OF assms(1)] by blast
    with Gathering show ?thesis by (intro exI[of _ "GatherRaises i"]) (simp add: task_at_def)
  qed
next
  case GatherCancelled
  show ?thesis
  proof (cases "all_results (bt_tasks st)")
    case (Some vs)
    with GatherCancelled show ?thesis by (intro exI[of _ GatherRaisesCancelled]) simp
  next
    case None
    then obtain i e where "i < length (bt_tasks st)" "bt_tasks st ! i = Ended (Inl e)"
      using all_results_None[OF assms(1)] by blast
    with GatherCancelled show ?thesis by (intro exI[of _ "GatherRaises i"]) (simp add: task_at_def)
  qed
qed (use assms(2) in \<open>simp_all add: batch_final_def\<close>)

lemma batch_not_stuck:
  assumes "batch_ok items limit st" "0 < limit" "\<not> batch_final st"
  shows "\<exists>l. l \<noteq> CallerCancels \<and> batch_do l st \<noteq> None"
proof (cases "list_all has_ended (bt_tasks st)")
  case False
  then obtain i where i: "i < length (bt_tasks st)" "\<not> has_ended (bt_tasks st ! i)" by (auto simp: list_all_length)
  show ?thesis
  proof (cases "active_count st = 0")
    case True
    then have "0 < bt_free st" "\<not> is_active (bt_tasks st ! i)"
      using assms(1,2) i(1) by (auto simp: batch_ok_def active_count_def filter_empty_conv)
    moreover from this(2) i(2) obtain c where "bt_tasks st ! i = Pending c" by (cases "bt_tasks st ! i") auto
    ultimately show ?thesis using i(1)
      by (cases c) (auto simp: task_at_def intro: exI[of _ "Enter i"] exI[of _ "CancelledWaiting i"])
  next
    case False
    then obtain t where "t \<in> set (bt_tasks st)" "is_active t" by (auto simp: active_count_def filter_empty_conv)
    then obtain k c where "k < length (bt_tasks st)" "bt_tasks st ! k = Active c"
      by (auto simp: in_set_conv_nth is_active_def split: batch_task.splits)
    then show ?thesis by (intro exI[of _ "WorkerEnds k (Inl CancelledError)"]) (simp add: task_at_def)
  qed
qed (rule ended_not_stuck[OF _ assms(3)])

lemma initial_weight: "sum_list (map task_weight (replicate n (Pending c))) = 2 * n"
  by (induction n) auto

text \<open>
  C33: A batch cannot get stuck: in every state it can reach, unless the coroutine has returned or raised, the event loop can take a
  further step once the running workers end; and without new cancellations by the caller a batch of n items is over after at
  most 2 n + 2 steps, so that it ends when its workers do.
\<close>
theorem batch_progress:
  assumes "process_batch items concurrency = Inr st0" and "batch_run ls st0 = Some st"
  shows "(batch_final st \<or> (\<exists>l. l \<noteq> CallerCancels \<and> batch_do l st \<noteq> None))
    \<and> (CallerCancels \<notin> set ls \<longrightarrow> length ls \<le> 2 * items + 2)"
proof -
  obtain limit where limit: "0 < limit" and ok0: "batch_ok items limit st0"
    and start: "bt_main st0 = Gathering" "bt_tasks st0 = replicate items (Pending False)"
    using process_batch_Inr[OF assms(1)] by blast
  have "batch_weight st0 = 2 * items + 2" using start initial_weight by (simp add: batch_weight_def main_weight_def)
  with batch_run_weight[OF assms(2)] have "CallerCancels \<notin> set ls \<longrightarrow> length ls \<le> 2 * items + 2" by auto
  with batch_not_stuck[OF batch_run_ok[OF assms(2) ok0] limit] show ?thesis by blast
qed

section \<open>Runs of the official cases\<close>

text \<open>Two items, the first of which is held back by its worker; and a batch that its caller cancels.\<close>

definition ordered_run :: "(nat, string) batch_label list" where
  "ordered_run = [Enter 0, Enter 1, WorkerEnds 1 (Inr 20), WorkerEnds 0 (Inr 10), GatherReturns]"

definition cancelled_run :: "(nat, string) batch_label list" where
  "cancelled_run = [Enter 0, Enter 1, CallerCancels, CancelledWaiting 2, WorkerEnds 0 (Inl CancelledError), GatherRaises 2,
     WorkerEnds 1 (Inl CancelledError), CleanedUp]"

definition run_from :: "nat \<Rightarrow> pyval \<Rightarrow> ('r, 'e) batch_label list \<Rightarrow> ('r, 'e) batch option" where
  "run_from items concurrency ls = (case process_batch items concurrency of Inl _ \<Rightarrow> None | Inr st \<Rightarrow> batch_run ls st)"

lemma run_from_Some:
  "run_from items concurrency ls = Some st \<Longrightarrow> \<exists>st0. process_batch items concurrency = Inr st0 \<and> batch_run ls st0 = Some st"
  by (auto simp: run_from_def split: sum.splits)

lemma example_runs:
  "map_option bt_main (run_from 2 (PyInt 2) ordered_run) = Some (BatchReturned [10, 20])"
  "map_option bt_main (run_from 3 (PyInt 2) cancelled_run) = Some (BatchRaised CancelledError)"
  by code_simp+

theorem batch_outcome_witness:
  "\<exists>st. run_from 2 (PyInt 2) ordered_run = Some st \<and> bt_main st = BatchReturned [10, 20] \<and> active_count st \<le> 2
     \<and> set (entered ordered_run) = {..<2} \<and> list_all has_ended (bt_tasks st)"
proof -
  obtain st where st: "run_from 2 (PyInt 2) ordered_run = Some st" "bt_main st = BatchReturned [10, 20]"
    using example_runs(1) by auto
  obtain st0 where "process_batch 2 (PyInt 2) = Inr st0" "batch_run ordered_run st0 = Some st"
    using run_from_Some[OF st(1)] by blast
  from batch_outcome[OF this] st(2) have "set (entered ordered_run) = {..<2}" "batch_final st \<longrightarrow> list_all has_ended (bt_tasks st)"
    "active_count st \<le> 2" by (auto simp: plain_int_def)
  with st show ?thesis by (simp add: batch_final_def)
qed

theorem batch_progress_witness:
  "\<exists>st. run_from 3 (PyInt 2) (take 4 cancelled_run) = Some st \<and> (\<exists>l. l \<noteq> CallerCancels \<and> batch_do l st \<noteq> None)"
proof -
  have "map_option bt_main (run_from 3 (PyInt 2) (take 4 cancelled_run)) = Some GatherCancelled" by code_simp
  then obtain st where st: "run_from 3 (PyInt 2) (take 4 cancelled_run) = Some st" "bt_main st = GatherCancelled" by auto
  obtain st0 where "process_batch 3 (PyInt 2) = Inr st0" "batch_run (take 4 cancelled_run) st0 = Some st"
    using run_from_Some[OF st(1)] by blast
  from conjunct1[OF batch_progress[OF this]] st show ?thesis by (simp add: batch_final_def)
qed

end
