(* ===== verification/CandidateWorker.thy ===== *)
theory CandidateWorker
  imports Harness
begin

text \<open>
  The other side of the harness: the candidate worker of \<^verbatim>\<open>src/sandbox/candidate_worker.py\<close>, which carries out
  one command after the other on the candidate's module, the supervisor of \<^verbatim>\<open>src/sandbox/entrypoint.py\<close>,
  which runs a case in a fresh worker, and the transport of \<^verbatim>\<open>src/app/runners/docker_runner.py\<close> between
  supervisor and harness. The candidate is an argument: what its constructors, functions, methods and
  attributes do. JSON is not modelled as text; \<open>size\<close> gives the length of the text of a value.
\<close>

section \<open>Candidates\<close>

type_synonym py_exception = "string \<times> string" \<comment> \<open>the name of the type and \<^verbatim>\<open>str(error)\<close>\<close>

text \<open>
  What a call of the candidate does: it ends with a state of the object and a result, or first calls one of
  the objects of the worker, in the state that the object has at that time. Arguments are passed
  as values: candidates that change a list or dictionary of the worker are not represented.
\<close>

datatype 's action =
    Finish 's "py_exception + pyval"
  | CallBack nat 's "py_exception + pyval \<Rightarrow> 's action"

type_synonym kwargs = "(string \<times> pyval) list"

text \<open>\<open>None\<close> is a missing attribute of the module or of the object.\<close>

record 'o candidate =
  cd_construct :: "string \<Rightarrow> (pyval list \<Rightarrow> kwargs \<Rightarrow> py_exception + 'o) option"
  cd_function :: "string \<Rightarrow> (pyval list \<Rightarrow> kwargs \<Rightarrow> unit action) option"
  cd_method :: "'o \<Rightarrow> string \<Rightarrow> (pyval list \<Rightarrow> kwargs \<Rightarrow> 'o action) option"
  cd_attr :: "'o \<Rightarrow> string \<Rightarrow> (py_exception + pyval) option"
  cd_class :: "'o \<Rightarrow> string"

section \<open>The invocation context\<close>

record telemetry =
  tl_calls :: nat
  tl_active :: nat
  tl_maximum_active :: nat
  tl_cancelled :: nat
  tl_observed :: "pyval list"

definition Telemetry :: telemetry where
  "Telemetry = \<lparr>tl_calls = 0, tl_active = 0, tl_maximum_active = 0, tl_cancelled = 0, tl_observed = []\<rparr>"

text \<open>
  The objects of the worker by identity, the position in \<open>cx_heap\<close>: sentinels, operations with their tracker
  and specification, and instances of candidate classes. Trackers are numbered in the same way.
\<close>

datatype 'o host_object = Sentinel | Operation nat pyval | Instance 'o

record 'o invocation =
  cx_objects :: "(string, pyval) odict"
  cx_opaque :: "(string, nat) odict"
  cx_heap :: "'o host_object list"
  cx_trackers :: "telemetry list"

definition InvocationContext :: "'o invocation" where
  "InvocationContext = \<lparr>cx_objects = [], cx_opaque = [], cx_heap = [], cx_trackers = []\<rparr>"

definition allocate :: "'o invocation \<Rightarrow> 'o host_object \<Rightarrow> 'o invocation \<times> pyval" where
  "allocate cx obj = (cx\<lparr>cx_heap := cx_heap cx @ [obj]\<rparr>, PyObject (length (cx_heap cx)))"

text \<open>\<^verbatim>\<open>repr\<close> of a string without quotes and escapes, as \<^verbatim>\<open>str(KeyError(key))\<close> shows it.\<close>

definition quoted :: "string \<Rightarrow> string" where
  "quoted s = [CHR 0x27] @ s @ [CHR 0x27]"

definition key_error :: "string \<Rightarrow> py_exception" where
  "key_error key = (''KeyError'', quoted key)"

definition hashable :: "pyval \<Rightarrow> bool" where
  "hashable v = (case v of PyList _ \<Rightarrow> False | PyDict _ \<Rightarrow> False | _ \<Rightarrow> True)"

text \<open>The dictionaries with one key that stand for other values.\<close>

datatype form =
    RefForm string | OpaqueForm string | TupleForm "pyval list" | DictForm "pyval list" | CallableForm pyval
  | WorkerForm | PlainForm

definition form_of :: "(pyval \<times> pyval) list \<Rightarrow> form" where
  "form_of items =
     (case items of
        [(key, PyStr s)] \<Rightarrow>
          if key = PyStr ''$ref'' then RefForm s else if key = PyStr ''$opaque'' then OpaqueForm s else PlainForm
      | [(key, PyList vs)] \<Rightarrow>
          if key = PyStr ''$tuple'' then TupleForm vs else if key = PyStr ''$dict'' then DictForm vs else PlainForm
      | [(key, PyDict spec)] \<Rightarrow>
          if key = PyStr ''$callable'' then CallableForm (PyDict spec)
          else if key = PyStr ''$async_worker'' then WorkerForm else PlainForm
      | _ \<Rightarrow> PlainForm)"

definition pair_of :: "pyval \<Rightarrow> (pyval \<times> pyval) option" where
  "pair_of v = (case v of PyList [k, w] \<Rightarrow> Some (k, w) | _ \<Rightarrow> None)"

lemma form_of_size:
  "form_of items = TupleForm vs \<Longrightarrow> size_list size vs < size_list (size_prod size size) items"
  "form_of items = DictForm vs \<Longrightarrow> size_list size vs < size_list (size_prod size size) items"
  by (auto simp: form_of_def split: list.splits prod.splits pyval.splits if_splits)

lemma pair_of_size: "pair_of v = Some (k, w) \<Longrightarrow> size k < size v \<and> size w < size v"
  by (auto simp: pair_of_def split: pyval.splits list.splits)

definition decode_opaque :: "string \<Rightarrow> 'o invocation \<Rightarrow> 'o invocation \<times> pyval" where
  "decode_opaque token cx =
     (case map_of (cx_opaque cx) token of
        Some n \<Rightarrow> (cx, PyObject n)
      | None \<Rightarrow>
          (let (cx', w) = allocate cx Sentinel in (cx'\<lparr>cx_opaque := cx_opaque cx @ [(token, length (cx_heap cx))]\<rparr>, w)))"

definition decode_callable :: "pyval \<Rightarrow> 'o invocation \<Rightarrow> 'o invocation \<times> pyval" where
  "decode_callable spec cx =
     allocate (cx\<lparr>cx_trackers := cx_trackers cx @ [Telemetry]\<rparr>) (Operation (length (cx_trackers cx)) spec)"

definition map_outcome :: "('a \<Rightarrow> 'b) \<Rightarrow> 's \<times> ('e + 'a) \<Rightarrow> 's \<times> ('e + 'b)" where
  "map_outcome f r = map_prod id (map_sum id f) r"

text \<open>
  \<^verbatim>\<open>InvocationContext.decode\<close>; \<open>ts\<close> are the trackers of the step. An asynchronous worker cannot be decoded
  here: commands with one are outside of the model.
\<close>

function decode :: "pyval \<Rightarrow> 'o invocation \<times> nat list \<Rightarrow> ('o invocation \<times> nat list) \<times> (py_exception + pyval)"
  and decode_list :: "pyval list \<Rightarrow> 'o invocation \<times> nat list \<Rightarrow> ('o invocation \<times> nat list) \<times> (py_exception + pyval list)"
  and decode_pairs :: "pyval list \<Rightarrow> (pyval, pyval) odict \<Rightarrow> 'o invocation \<times> nat list
    \<Rightarrow> ('o invocation \<times> nat list) \<times> (py_exception + (pyval, pyval) odict)"
  and decode_items :: "(pyval \<times> pyval) list \<Rightarrow> 'o invocation \<times> nat list
    \<Rightarrow> ('o invocation \<times> nat list) \<times> (py_exception + (pyval \<times> pyval) list)" where
  "decode v st =
     (case v of
        PyList vs \<Rightarrow> map_outcome PyList (decode_list vs st)
      | PyDict items \<Rightarrow>
          (case form_of items of
             RefForm name \<Rightarrow>
               (st, case map_of (cx_objects (fst st)) name of None \<Rightarrow> Inl (key_error name) | Some w \<Rightarrow> Inr w)
           | OpaqueForm token \<Rightarrow> (case decode_opaque token (fst st) of (cx, w) \<Rightarrow> ((cx, snd st), Inr w))
           | TupleForm vs \<Rightarrow> map_outcome PyTuple (decode_list vs st)
           | DictForm ps \<Rightarrow> map_outcome PyDict (decode_pairs ps [] st)
           | CallableForm spec \<Rightarrow>
               (case decode_callable spec (fst st) of
                  (cx, w) \<Rightarrow> ((cx, snd st @ [length (cx_trackers (fst st))]), Inr w))
           | WorkerForm \<Rightarrow> (st, Inl (''NotModelled'', []))
           | PlainForm \<Rightarrow> map_outcome PyDict (decode_items items st))
      | _ \<Rightarrow> (st, Inr v))"
| "decode_list vs st =
     (case vs of
        [] \<Rightarrow> (st, Inr [])
      | v # vs' \<Rightarrow>
          (case decode v st of
             (st', Inl e) \<Rightarrow> (st', Inl e)
           | (st', Inr w) \<Rightarrow> map_outcome (\<lambda>ws. w # ws) (decode_list vs' st')))"
| "decode_pairs ps d st =
     (case ps of
        [] \<Rightarrow> (st, Inr d)
      | p # ps' \<Rightarrow>
          (case pair_of p of
             None \<Rightarrow> decode_pairs ps' d st
           | Some (k, v) \<Rightarrow>
               (case decode k st of
                  (st1, Inl e) \<Rightarrow> (st1, Inl e)
                | (st1, Inr k') \<Rightarrow>
                    (case decode v st1 of
                       (st2, Inl e) \<Rightarrow> (st2, Inl e)
                     | (st2, Inr v') \<Rightarrow>
                         if hashable k' then decode_pairs ps' (od_set d k' v') st2
                         else (st2, Inl (''TypeError'', ''unhashable type''))))))"
| "decode_items items st =
     (case items of
        [] \<Rightarrow> (st, Inr [])
      | (k, v) # items' \<Rightarrow>
          (case decode v st of
             (st', Inl e) \<Rightarrow> (st', Inl e)
           | (st', Inr w) \<Rightarrow> map_outcome (\<lambda>ws. (k, w) # ws) (decode_items items' st')))"
  by pat_completeness auto

definition decode_measure :: "(pyval \<times> 'a + pyval list \<times> 'b) + (pyval list \<times> 'c \<times> 'd + (pyval \<times> pyval) list \<times> 'e) \<Rightarrow> nat" where
  "decode_measure x = (case x of
     Inl (Inl (v, _)) \<Rightarrow> size v | Inl (Inr (vs, _)) \<Rightarrow> size_list size vs
   | Inr (Inl (ps, _, _)) \<Rightarrow> size_list size ps | Inr (Inr (items, _)) \<Rightarrow> size_list (size_prod size size) items)"

termination decode
  by (relation "measure decode_measure") (auto simp: decode_measure_def dest: form_of_size pair_of_size)

declare decode.simps [simp del] decode_list.simps [simp del] decode_pairs.simps [simp del] decode_items.simps [simp del]

section \<open>Encoding results\<close>

definition type_name :: "('o \<Rightarrow> string) \<Rightarrow> 'o invocation \<Rightarrow> nat \<Rightarrow> string" where
  "type_name class_name cx n =
     (if n < length (cx_heap cx)
      then case cx_heap cx ! n of
             Instance x \<Rightarrow> class_name x | Operation _ _ \<Rightarrow> ''function'' | Sentinel \<Rightarrow> ''object''
      else ''object'')"

function (sequential) encode_value :: "('o \<Rightarrow> string) \<Rightarrow> 'o invocation \<Rightarrow> pyval \<Rightarrow> py_exception + pyval"
  and encode_list :: "('o \<Rightarrow> string) \<Rightarrow> 'o invocation \<Rightarrow> pyval list \<Rightarrow> py_exception + pyval list"
  and encode_items :: "('o \<Rightarrow> string) \<Rightarrow> 'o invocation \<Rightarrow> (pyval \<times> pyval) list \<Rightarrow> py_exception + (pyval \<times> pyval) list" where
  "encode_value cn cx (PyObject n) =
     (case find (\<lambda>(token, m). m = n) (cx_opaque cx) of
        Some (token, _) \<Rightarrow> Inr (json_object [(''$opaque'', PyStr token)])
      | None \<Rightarrow> Inl (''TypeError'', ''Result type is not protocol-safe: '' @ type_name cn cx n))"
| "encode_value cn cx (PyList vs) = map_sum id PyList (encode_list cn cx vs)"
| "encode_value cn cx (PyTuple vs) =
     map_sum id (\<lambda>ws. json_object [(''$tuple'', PyList ws)]) (encode_list cn cx vs)"
| "encode_value cn cx (PyDict items) =
     map_sum id (\<lambda>ws. if list_all (is_str \<circ> fst) items then PyDict ws
                      else json_object [(''$dict'', PyList (map (\<lambda>(k, w). PyList [k, w]) ws))])
       (encode_items cn cx items)"
| "encode_value cn cx v = Inr v"
| "encode_list cn cx [] = Inr []"
| "encode_list cn cx (v # vs) =
     (case encode_value cn cx v of
        Inl e \<Rightarrow> Inl e
      | Inr w \<Rightarrow> map_sum id (\<lambda>ws. w # ws) (encode_list cn cx vs))"
| "encode_items cn cx [] = Inr []"
| "encode_items cn cx ((k, v) # items) =
     (case encode_value cn cx k of
        Inl e \<Rightarrow> Inl e
      | Inr k' \<Rightarrow>
          (case encode_value cn cx v of
             Inl e \<Rightarrow> Inl e
           | Inr w \<Rightarrow> map_sum id (\<lambda>ws. (k', w) # ws) (encode_items cn cx items)))"
  by pat_completeness auto

definition encode_measure ::
    "('a \<times> 'b \<times> pyval) + ('a \<times> 'b \<times> pyval list + 'a \<times> 'b \<times> (pyval \<times> pyval) list) \<Rightarrow> nat" where
  "encode_measure x = (case x of
     Inl (_, _, v) \<Rightarrow> size v | Inr (Inl (_, _, vs)) \<Rightarrow> size_list size vs
   | Inr (Inr (_, _, items)) \<Rightarrow> size_list (size_prod size size) items)"

termination encode_value
  by (relation "measure encode_measure") (auto simp: encode_measure_def)

definition encode_telemetry :: "telemetry \<Rightarrow> pyval" where
  "encode_telemetry t = json_object
     [(''calls'', PyInt (int (tl_calls t))), (''active'', PyInt (int (tl_active t))),
      (''maximum_active'', PyInt (int (tl_maximum_active t))), (''cancelled'', PyInt (int (tl_cancelled t))),
      (''observed'', PyList (tl_observed t))]"

section \<open>Calls\<close>

text \<open>
  The names of the exceptions of \<^verbatim>\<open>builtins\<close> that are subclasses of \<^verbatim>\<open>Exception\<close>, without those that are not
  made of a message alone (\<^verbatim>\<open>KeyError\<close>, the three Unicode errors with positions, exception groups).
\<close>

definition BUILTIN_EXCEPTIONS :: "string list" where
  "BUILTIN_EXCEPTIONS =
     [''ArithmeticError'', ''AssertionError'', ''AttributeError'', ''BlockingIOError'', ''BrokenPipeError'',
      ''BufferError'', ''BytesWarning'', ''ChildProcessError'', ''ConnectionAbortedError'', ''ConnectionError'',
      ''ConnectionRefusedError'', ''ConnectionResetError'', ''DeprecationWarning'', ''EOFError'',
      ''EncodingWarning'', ''Exception'', ''FileExistsError'', ''FileNotFoundError'', ''FloatingPointError'',
      ''FutureWarning'', ''ImportError'', ''ImportWarning'', ''IndentationError'', ''IndexError'',
      ''InterruptedError'', ''IsADirectoryError'', ''LookupError'', ''MemoryError'', ''ModuleNotFoundError'',
      ''NameError'', ''NotADirectoryError'', ''NotImplementedError'', ''OSError'', ''OverflowError'',
      ''PendingDeprecationWarning'', ''PermissionError'', ''ProcessLookupError'', ''RecursionError'',
      ''ReferenceError'', ''ResourceWarning'', ''RuntimeError'', ''RuntimeWarning'', ''StopAsyncIteration'',
      ''StopIteration'', ''SyntaxError'', ''SyntaxWarning'', ''SystemError'', ''TabError'', ''TimeoutError'',
      ''TypeError'', ''UnboundLocalError'', ''UnicodeError'', ''UnicodeWarning'', ''UserWarning'', ''ValueError'',
      ''Warning'', ''ZeroDivisionError'']"

definition string_field_or :: "pyval \<Rightarrow> string \<Rightarrow> string \<Rightarrow> string" where
  "string_field_or spec key fallback = (case spec of
     PyDict items \<Rightarrow> (case map_of items (PyStr key) of Some (PyStr s) \<Rightarrow> s | _ \<Rightarrow> fallback) | _ \<Rightarrow> fallback)"

definition get_attribute :: "'o candidate \<Rightarrow> 'o invocation \<Rightarrow> pyval \<Rightarrow> string \<Rightarrow> py_exception + pyval" where
  "get_attribute cd cx target attribute =
     (case target of
        PyObject n \<Rightarrow>
          (if n < length (cx_heap cx)
           then case cx_heap cx ! n of
                  Instance x \<Rightarrow>
                    (case cd_attr cd x attribute of None \<Rightarrow> Inl (''AttributeError'', attribute) | Some r \<Rightarrow> r)
                | _ \<Rightarrow> Inl (''AttributeError'', attribute)
           else Inl (''AttributeError'', attribute))
      | _ \<Rightarrow> Inl (''AttributeError'', attribute))"

text \<open>\<^verbatim>\<open>operation\<close>, the function that \<^verbatim>\<open>_callable\<close> makes of a tracker and a specification.\<close>

definition update_tracker :: "nat \<Rightarrow> (telemetry \<Rightarrow> telemetry) \<Rightarrow> 'o invocation \<Rightarrow> 'o invocation" where
  "update_tracker t f cx = cx\<lparr>cx_trackers := (cx_trackers cx)[t := f (cx_trackers cx ! t)]\<rparr>"

definition operation_return :: "pyval \<Rightarrow> 'o invocation \<Rightarrow> 'o invocation \<times> (py_exception + pyval)" where
  "operation_return spec cx = (case decode (get_field spec ''return'') (cx, []) of ((cx', _), r) \<Rightarrow> (cx', r))"

definition run_operation ::
    "'o candidate \<Rightarrow> nat \<Rightarrow> pyval \<Rightarrow> 'o invocation \<Rightarrow> 'o invocation \<times> (py_exception + pyval)" where
  "run_operation cd t spec cx0 =
     (let cx = update_tracker t (\<lambda>l. l\<lparr>tl_calls := tl_calls l + 1\<rparr>) cx0;
          kind = get_field spec ''kind'' in
      if kind = PyStr ''raise''
      then (let name = string_field_or spec ''exception'' ''RuntimeError'' in
            (cx, Inl (if name \<in> set BUILTIN_EXCEPTIONS then name else ''RuntimeError'', string_field_or spec ''message'' [])))
      else if kind = PyStr ''observe_attribute''
      then (let object_id = string_field_or spec ''object_id'' [] in
            case map_of (cx_objects cx) object_id of
              None \<Rightarrow> (cx, Inl (key_error object_id))
            | Some target \<Rightarrow>
                (case get_attribute cd cx target (string_field_or spec ''attribute'' []) of
                   Inl e \<Rightarrow> (cx, Inl e)
                 | Inr v \<Rightarrow>
                     operation_return spec (update_tracker t (\<lambda>l. l\<lparr>tl_observed := tl_observed l @ [v]\<rparr>) cx)))
      else operation_return spec cx)"

definition call_object :: "'o candidate \<Rightarrow> nat \<Rightarrow> 'o invocation \<Rightarrow> 'o invocation \<times> (py_exception + pyval)" where
  "call_object cd n cx =
     (if n < length (cx_heap cx)
      then case cx_heap cx ! n of
             Operation t spec \<Rightarrow> run_operation cd t spec cx
           | _ \<Rightarrow> (cx, Inl (''TypeError'', ''object is not callable''))
      else (cx, Inl (''TypeError'', ''object is not callable'')))"

text \<open>An action, whose state is written back (by \<open>write\<close>) before every call and at the end.\<close>

primrec run_action ::
    "'o candidate \<Rightarrow> ('s \<Rightarrow> 'o invocation \<Rightarrow> 'o invocation) \<Rightarrow> 's action \<Rightarrow> 'o invocation
     \<Rightarrow> 'o invocation \<times> (py_exception + pyval)" where
  "run_action cd write (Finish s r) = (\<lambda>cx. (write s cx, r))"
| "run_action cd write (CallBack n s k) =
     (\<lambda>cx. case call_object cd n (write s cx) of (cx', r) \<Rightarrow> run_action cd write (k r) cx')"

section \<open>Steps\<close>

text \<open>A step threads the context and the trackers it creates; an error is the exception that ends it.\<close>

type_synonym 'o step_state = "'o invocation \<times> nat list"

definition and_do :: "'s \<times> ('e + 'a) \<Rightarrow> ('a \<Rightarrow> 's \<Rightarrow> 's \<times> ('e + 'b)) \<Rightarrow> 's \<times> ('e + 'b)" where
  "and_do r f = (case r of (st, Inl e) \<Rightarrow> (st, Inl e) | (st, Inr x) \<Rightarrow> f x st)"

text \<open>\<^verbatim>\<open>str(raw[key])\<close>, for strings; anything else is not sent by the harness.\<close>

definition required_field :: "pyval \<Rightarrow> string \<Rightarrow> py_exception + string" where
  "required_field raw key = (case raw of
     PyDict items \<Rightarrow> (case map_of items (PyStr key) of
        None \<Rightarrow> Inl (key_error key) | Some (PyStr s) \<Rightarrow> Inr s | Some _ \<Rightarrow> Inl (''NotModelled'', []))
   | _ \<Rightarrow> Inl (key_error key))"

text \<open>Unpacking with \<^verbatim>\<open>*\<close> and \<^verbatim>\<open>**\<close>.\<close>

definition star_args :: "pyval \<Rightarrow> py_exception + pyval list" where
  "star_args v = (case v of
     PyList vs \<Rightarrow> Inr vs | PyTuple vs \<Rightarrow> Inr vs | PyStr s \<Rightarrow> Inr (map (\<lambda>c. PyStr [c]) s) | PyDict items \<Rightarrow> Inr (map fst items)
   | _ \<Rightarrow> Inl (''TypeError'', ''argument after * must be an iterable''))"

definition star_kwargs :: "pyval \<Rightarrow> py_exception + kwargs" where
  "star_kwargs v = (case v of
     PyDict items \<Rightarrow>
       (if list_all (is_str \<circ> fst) items
        then Inr (map (map_prod (\<lambda>k. case k of PyStr s \<Rightarrow> s | _ \<Rightarrow> []) id) items)
        else Inl (''TypeError'', ''keywords must be strings''))
   | _ \<Rightarrow> Inl (''TypeError'', ''argument after ** must be a mapping''))"

definition decode_arguments ::
    "pyval \<Rightarrow> 'o step_state \<Rightarrow> 'o step_state \<times> (py_exception + pyval list \<times> kwargs)" where
  "decode_arguments raw st =
     and_do (decode (field_or raw ''args'' (PyList [])) st) (\<lambda>args st1.
     and_do (decode (field_or raw ''kwargs'' (PyDict [])) st1) (\<lambda>kwargs st2.
       (st2, case star_args args of
               Inl e \<Rightarrow> Inl e
             | Inr vs \<Rightarrow> (case star_kwargs kwargs of Inl e \<Rightarrow> Inl e | Inr kws \<Rightarrow> Inr (vs, kws)))))"

definition set_object :: "string \<Rightarrow> pyval \<Rightarrow> 'o invocation \<Rightarrow> 'o invocation" where
  "set_object object_id v cx = cx\<lparr>cx_objects := od_set (cx_objects cx) object_id v\<rparr>"

definition get_object :: "string \<Rightarrow> 'o invocation \<Rightarrow> py_exception + pyval" where
  "get_object object_id cx = (case map_of (cx_objects cx) object_id of None \<Rightarrow> Inl (key_error object_id) | Some v \<Rightarrow> Inr v)"

definition step_store :: "pyval \<Rightarrow> 'o step_state \<Rightarrow> 'o step_state \<times> (py_exception + pyval)" where
  "step_store raw st =
     and_do (decode (field_or raw ''value'' PyNone) st) (\<lambda>v st1.
     and_do (st1, required_field raw ''object_id'') (\<lambda>object_id (cx, ts).
       ((set_object object_id v cx, ts), Inr PyNone)))"

text \<open>\<^verbatim>\<open>getattr(module, str(raw["symbol"]))\<close> and the like.\<close>

definition attribute_or :: "'a option \<Rightarrow> string \<Rightarrow> py_exception + 'a" where
  "attribute_or r name = (case r of None \<Rightarrow> Inl (''AttributeError'', name) | Some f \<Rightarrow> Inr f)"

definition step_construct ::
    "'o candidate \<Rightarrow> pyval \<Rightarrow> 'o step_state \<Rightarrow> 'o step_state \<times> (py_exception + pyval)" where
  "step_construct cd raw st =
     and_do (st, required_field raw ''symbol'') (\<lambda>symbol st0.
     and_do (st0, attribute_or (cd_construct cd symbol) symbol) (\<lambda>f st1.
     and_do (decode_arguments raw st1) (\<lambda>(args, kwargs) st2.
     and_do (st2, f args kwargs) (\<lambda>x st3.
     and_do (st3, required_field raw ''object_id'') (\<lambda>object_id (cx, ts).
       case allocate cx (Instance x) of (cx', v) \<Rightarrow> ((set_object object_id v cx', ts), Inr PyNone))))))"

text \<open>With \<^verbatim>\<open>cancel_after_worker_start\<close>, \<^verbatim>\<open>next\<close> finds no asynchronous worker among the arguments.\<close>

definition step_function ::
    "'o candidate \<Rightarrow> pyval \<Rightarrow> 'o step_state \<Rightarrow> 'o step_state \<times> (py_exception + pyval)" where
  "step_function cd raw st =
     and_do (st, required_field raw ''symbol'') (\<lambda>symbol st0.
     and_do (st0, attribute_or (cd_function cd symbol) symbol) (\<lambda>f st1.
     and_do (decode_arguments raw st1) (\<lambda>(args, kwargs) (cx, ts).
       if get_field raw ''cancel_after_worker_start'' = PyBool True then ((cx, ts), Inl (''StopIteration'', []))
       else (case run_action cd (\<lambda>s cx. cx) (f args kwargs) cx of (cx', r) \<Rightarrow> ((cx', ts), r)))))"

definition instance_at :: "'o invocation \<Rightarrow> pyval \<Rightarrow> (nat \<times> 'o) option" where
  "instance_at cx v = (case v of
     PyObject n \<Rightarrow> (if n < length (cx_heap cx)
       then (case cx_heap cx ! n of Instance x \<Rightarrow> Some (n, x) | _ \<Rightarrow> None) else None)
   | _ \<Rightarrow> None)"

definition write_instance :: "nat \<Rightarrow> 'o \<Rightarrow> 'o invocation \<Rightarrow> 'o invocation" where
  "write_instance n x cx = cx\<lparr>cx_heap := (cx_heap cx)[n := Instance x]\<rparr>"

text \<open>The object is read again after its arguments are decoded, which does not change it.\<close>

definition step_method ::
    "'o candidate \<Rightarrow> pyval \<Rightarrow> 'o step_state \<Rightarrow> 'o step_state \<times> (py_exception + pyval)" where
  "step_method cd raw st =
     and_do (st, required_field raw ''object_id'') (\<lambda>object_id st0.
     and_do (st0, get_object object_id (fst st0)) (\<lambda>target st1.
     and_do (st1, required_field raw ''method'') (\<lambda>name st2.
     and_do (st2, attribute_or (instance_at (fst st2) target) name) (\<lambda>(n, x) st3.
     and_do (st3, attribute_or (cd_method cd x name) name) (\<lambda>f st4.
     and_do (decode_arguments raw st4) (\<lambda>(args, kwargs) (cx, ts).
       case run_action cd (write_instance n) (f args kwargs) cx of (cx', r) \<Rightarrow> ((cx', ts), r)))))))"

definition step_attr ::
    "'o candidate \<Rightarrow> pyval \<Rightarrow> 'o step_state \<Rightarrow> 'o step_state \<times> (py_exception + pyval)" where
  "step_attr cd raw st =
     and_do (st, required_field raw ''object_id'') (\<lambda>object_id st0.
     and_do (st0, get_object object_id (fst st0)) (\<lambda>target st1.
     and_do (st1, required_field raw ''attribute'') (\<lambda>name st2.
       (st2, get_attribute cd (fst st2) target name))))"

definition step_operation ::
    "'o candidate \<Rightarrow> string \<Rightarrow> pyval \<Rightarrow> 'o step_state \<Rightarrow> ('o step_state \<times> (py_exception + pyval)) option" where
  "step_operation cd operation raw st =
     (if operation = ''store'' then Some (step_store raw st)
      else if operation = ''construct'' then Some (step_construct cd raw st)
      else if operation = ''call_function'' then Some (step_function cd raw st)
      else if operation = ''call_method'' then Some (step_method cd raw st)
      else if operation = ''get_attr'' then Some (step_attr cd raw st)
      else if operation = ''get_object''
      then Some (and_do (st, required_field raw ''object_id'') (\<lambda>object_id st0.
             (st0, get_object object_id (fst st0))))
      else None)"

definition protocol_error :: "string \<Rightarrow> pyval" where
  "protocol_error reason = json_object [(''ok'', PyBool False), (''protocol_error'', PyStr reason)]"

definition step_outcome :: "('o \<Rightarrow> string) \<Rightarrow> 'o step_state \<Rightarrow> py_exception + pyval \<Rightarrow> pyval" where
  "step_outcome class_name st r =
     (let (cx, ts) = st;
          seen = (''telemetry'', PyList (map (\<lambda>t. encode_telemetry (cx_trackers cx ! t)) ts)) in
      case (case r of Inl e \<Rightarrow> Inl e | Inr v \<Rightarrow> encode_value class_name cx v) of
        Inr w \<Rightarrow> json_object [(''ok'', PyBool True), (''result'', w), seen]
      | Inl (kind, message) \<Rightarrow>
          json_object [(''ok'', PyBool False),
            (''exception'', json_object [(''type'', PyStr kind), (''message'', PyStr message)]), seen])"

definition run_step :: "'o candidate \<Rightarrow> 'o invocation \<Rightarrow> pyval \<Rightarrow> 'o invocation \<times> pyval" where
  "run_step cd cx raw =
     (case get_field raw ''op'' of
        PyStr operation \<Rightarrow>
          (case step_operation cd operation raw (cx, []) of
             None \<Rightarrow> (cx, protocol_error ''unsupported_step'')
           | Some (st, r) \<Rightarrow> (fst st, step_outcome (cd_class cd) st r))
      | _ \<Rightarrow> (cx, protocol_error ''invalid_step''))"

section \<open>The worker and its supervisor\<close>

definition MAX_STEPS :: nat where "MAX_STEPS = 128"
definition MAX_LINE_BYTES :: nat where "MAX_LINE_BYTES = 64 * 1024"

text \<open>
  One request to \<^verbatim>\<open>main\<close> of the worker; \<open>loaded\<close> is what \<^verbatim>\<open>_load_solution\<close> returns, a candidate or the
  description of the error. The state is the context with the number of steps so far.
\<close>

definition worker_request ::
    "pyval + 'o candidate \<Rightarrow> nat \<times> 'o invocation \<Rightarrow> pyval \<Rightarrow> (nat \<times> 'o invocation) \<times> pyval" where
  "worker_request loaded st request =
     (let (count, cx) = st in
      if get_field request ''op'' \<noteq> PyStr ''step''
      then (st, json_object [(''protocol_error'', PyStr ''invalid_request'')])
      else if MAX_STEPS < count + 1
      then ((count + 1, cx), json_object [(''protocol_error'', PyStr ''too_many_steps'')])
      else case loaded of
        Inl startup_error \<Rightarrow> ((count + 1, cx), json_object [(''startup_error'', startup_error)])
      | Inr cd \<Rightarrow> (case run_step cd cx (get_field request ''step'') of (cx', outcome) \<Rightarrow> ((count + 1, cx'), outcome)))"

text \<open>The loop of \<^verbatim>\<open>_run_case\<close>: the protocol error that ends it, a startup error, or all outcomes.\<close>

datatype case_result = CaseFailed string | CaseStartup pyval | CaseOutcomes "pyval list"

definition has_field :: "pyval \<Rightarrow> string \<Rightarrow> bool" where
  "has_field v key = (case v of PyDict items \<Rightarrow> map_of items (PyStr key) \<noteq> None | _ \<Rightarrow> False)"

definition step_request :: "pyval \<Rightarrow> pyval" where
  "step_request step = json_object [(''op'', PyStr ''step''), (''step'', step)]"

fun run_case_steps ::
    "(pyval \<Rightarrow> nat) \<Rightarrow> pyval + 'o candidate \<Rightarrow> nat \<times> 'o invocation \<Rightarrow> pyval list \<Rightarrow> pyval list \<Rightarrow> case_result" where
  "run_case_steps size_of loaded st [] outcomes = CaseOutcomes outcomes"
| "run_case_steps size_of loaded st (step # steps) outcomes =
     (if MAX_LINE_BYTES < size_of (step_request step) + 1 then CaseFailed ''request_too_large''
      else case worker_request loaded st (step_request step) of
        (st', raw) \<Rightarrow>
          if MAX_LINE_BYTES < size_of raw + 1 then CaseFailed ''response_too_large''
          else if has_field raw ''startup_error'' then CaseStartup (get_field raw ''startup_error'')
          else run_case_steps size_of loaded st' steps (outcomes @ [raw]))"

definition supervisor_response :: "pyval \<Rightarrow> (string \<times> pyval) list \<Rightarrow> pyval" where
  "supervisor_response request_id payload = json_object ((''id'', request_id) # payload)"

text \<open>A startup error that is null counts as none, as in the source.\<close>

definition run_case :: "(pyval \<Rightarrow> nat) \<Rightarrow> pyval + 'o candidate \<Rightarrow> pyval \<Rightarrow> pyval list \<Rightarrow> pyval" where
  "run_case size_of loaded request_id steps =
     (case run_case_steps size_of loaded (0, InvocationContext) steps [] of
        CaseFailed reason \<Rightarrow>
          supervisor_response request_id [(''ok'', PyBool False), (''protocol_error'', PyStr reason)]
      | CaseStartup startup_error \<Rightarrow>
          supervisor_response request_id [(''ok'', PyBool True),
            (''candidate'', json_object [if startup_error \<noteq> PyNone then (''startup_error'', startup_error)
                                         else (''outcomes'', PyList [])])]
      | CaseOutcomes outcomes \<Rightarrow>
          supervisor_response request_id [(''ok'', PyBool True),
            (''candidate'', json_object [(''outcomes'', PyList outcomes)])])"

text \<open>One line of \<^verbatim>\<open>main\<close> of the supervisor.\<close>

definition supervisor_line :: "(pyval \<Rightarrow> nat) \<Rightarrow> pyval + 'o candidate \<Rightarrow> pyval \<Rightarrow> pyval" where
  "supervisor_line size_of loaded request =
     (let refuse = (\<lambda>request_id reason.
            supervisor_response request_id [(''ok'', PyBool False), (''protocol_error'', PyStr reason)]) in
      if MAX_LINE_BYTES < size_of request + 1 then refuse PyNone ''request_too_large''
      else if \<not> is_dict request then refuse PyNone ''invalid_request''
      else if get_field request ''op'' = PyStr ''shutdown''
      then supervisor_response (get_field request ''id'') [(''ok'', PyBool True)]
      else case (get_field request ''op'' = PyStr ''run_case'', get_field request ''steps'') of
        (True, PyList steps) \<Rightarrow> run_case size_of loaded (get_field request ''id'') steps
      | _ \<Rightarrow> refuse (get_field request ''id'') ''unsupported_op'')"

section \<open>Passing a case\<close>

text \<open>
  What a case is about: the outcomes of its commands on the candidate, one after the other, in a fresh worker. The
  supervisor and the worker implement this as long as the case has no more steps and no longer lines than they allow.
\<close>

fun outcomes_of :: "'o candidate \<Rightarrow> 'o invocation \<Rightarrow> pyval list \<Rightarrow> pyval list" where
  "outcomes_of cd cx [] = []"
| "outcomes_of cd cx (step # steps) = (case run_step cd cx step of (cx', raw) \<Rightarrow> raw # outcomes_of cd cx' steps)"

definition passes_case :: "(pyval \<Rightarrow> string) \<Rightarrow> 'o candidate \<Rightarrow> official_case \<Rightarrow> bool" where
  "passes_case py_str cd c \<longleftrightarrow>
     list_all2 (matches_step py_str) (oc_steps c) (outcomes_of cd InvocationContext (map xs_command (oc_steps c)))"

definition fits :: "(pyval \<Rightarrow> nat) \<Rightarrow> pyval \<Rightarrow> bool" where
  "fits size_of v \<longleftrightarrow> size_of v < MAX_LINE_BYTES"

definition case_response :: "'o candidate \<Rightarrow> pyval \<Rightarrow> pyval list \<Rightarrow> pyval" where
  "case_response cd request_id steps = supervisor_response request_id [(''ok'', PyBool True),
     (''candidate'', json_object [(''outcomes'', PyList (outcomes_of cd InvocationContext steps))])]"

lemma length_outcomes_of [simp]: "length (outcomes_of cd cx steps) = length steps"
  by (induction cd cx steps rule: outcomes_of.induct) (simp_all split: prod.splits)

lemma get_field_json: "get_field (json_object fs) key = (case map_of fs key of None \<Rightarrow> PyNone | Some v \<Rightarrow> v)"
proof -
  have "map_of (map (map_prod PyStr id) fs) (PyStr key) = map_of fs key"
    by (induction fs) auto
  then show ?thesis by (simp add: get_field_def json_object_def)
qed

lemma has_field_json: "has_field (json_object fs) key \<longleftrightarrow> key \<in> fst ` set fs"
  by (induction fs) (auto simp: has_field_def json_object_def)

lemma is_dict_json [simp]: "is_dict (json_object fs)"
  by (simp add: is_dict_def json_object_def)

lemma run_step_outcome: "run_step cd cx raw = (cx', w) \<Longrightarrow> \<not> has_field w ''startup_error''"
  by (auto simp: run_step_def protocol_error_def step_outcome_def Let_def has_field_json
      split: pyval.splits option.splits prod.splits sum.splits)

lemma worker_step:
  "count < MAX_STEPS \<Longrightarrow>
   worker_request (Inr cd) (count, cx) (step_request step) = (case run_step cd cx step of (cx', raw) \<Rightarrow> ((count + 1, cx'), raw))"
  by (simp add: worker_request_def step_request_def get_field_json)

lemma run_case_steps_outcomes:
  assumes "count + length steps \<le> MAX_STEPS" "list_all (\<lambda>step. fits size_of (step_request step)) steps"
    and "list_all (fits size_of) (outcomes_of cd cx steps)"
  shows "run_case_steps size_of (Inr cd) (count, cx) steps outcomes = CaseOutcomes (outcomes @ outcomes_of cd cx steps)"
  using assms
proof (induction steps arbitrary: count cx outcomes)
  case (Cons step steps)
  obtain cx' raw where step: "run_step cd cx step = (cx', raw)" by fastforce
  from Cons.prems(1) have "worker_request (Inr cd) (count, cx) (step_request step) = ((count + 1, cx'), raw)"
    by (subst worker_step) (simp_all add: step)
  moreover have "\<not> has_field raw ''startup_error''" by (rule run_step_outcome[OF step])
  ultimately show ?case
    using Cons.prems Cons.IH[of "count + 1" cx'] by (simp add: step fits_def)
qed simp

lemma run_case_response:
  assumes "length steps \<le> MAX_STEPS" "list_all (\<lambda>step. fits size_of (step_request step)) steps"
    and "list_all (fits size_of) (outcomes_of cd InvocationContext steps)"
  shows "run_case size_of (Inr cd) request_id steps = case_response cd request_id steps"
  using run_case_steps_outcomes[of 0 steps size_of cd InvocationContext "[]"] assms
  by (simp add: run_case_def case_response_def)

end
