(* ===== verification/SandboxRun.thy ===== *)
theory SandboxRun
  imports DockerRunner CandidateWorker
begin

text \<open>
  The composition of the Docker runner, the trusted harness, the transport, the supervisor and the candidate worker:
  with a daemon that works, the result of an evaluation counts the official cases that the candidate passes,
  where passing is defined on the candidate alone. What does not fit into the lines of the protocol, or
  takes more than 128 steps, is excluded by a hypothesis on the lines that are exchanged.
\<close>

section \<open>One case\<close>

definition case_commands :: "official_case \<Rightarrow> pyval list" where
  "case_commands c = map xs_command (oc_steps c)"

definition case_fits :: "(pyval \<Rightarrow> nat) \<Rightarrow> 'o candidate \<Rightarrow> int \<Rightarrow> official_case \<Rightarrow> bool" where
  "case_fits size_of cd n c \<longleftrightarrow> length (case_commands c) \<le> MAX_STEPS
     \<and> fits size_of (with_id n (case_payload c))
     \<and> list_all (\<lambda>step. fits size_of (step_request step)) (case_commands c)
     \<and> list_all (fits size_of) (outcomes_of cd InvocationContext (case_commands c))
     \<and> fits size_of (case_response cd (PyInt n) (case_commands c))"

text \<open>The supervisor of a container whose solution is the candidate.\<close>

abbreviation supervised :: "(pyval \<Rightarrow> nat) \<Rightarrow> 'o candidate \<Rightarrow> pyval \<Rightarrow> pyval" where
  "supervised size_of cd \<equiv> supervisor_line size_of (Inr cd)"

lemma with_id_json: "with_id n (json_object fs) = json_object ((''id'', PyInt n) # fs)"
  by (simp add: with_id_def json_object_def)

lemma limits [simp]: "REPORT_LIMIT_BYTES = MAX_LINE_BYTES"
  by (simp add: REPORT_LIMIT_BYTES_def MAX_LINE_BYTES_def)

lemma supervised_case:
  "case_fits size_of cd n c \<Longrightarrow>
   supervised size_of cd (with_id n (case_payload c)) = case_response cd (PyInt n) (case_commands c)"
  by (simp add: supervisor_line_def case_fits_def fits_def[of _ "with_id n (case_payload c)"] run_case_response)
    (simp add: case_payload_def with_id_json get_field_json run_case_response case_commands_def)

lemma id_matches: "protocol_response n \<lparr>ln_length = l, ln_newline = b, ln_value = Some (json_object ((''id'', PyInt n) # fs))\<rparr>
    = Inr (json_object ((''id'', PyInt n) # fs))"
  by (simp add: protocol_response_def get_field_json key_eq_def)

lemma reply_case:
  assumes "case_fits size_of cd n c"
  shows "reply_of size_of (supervised size_of cd) n (case_payload c) = Inr (case_response cd (PyInt n) (case_commands c))"
proof -
  have "reply_of size_of (supervised size_of cd) n (case_payload c) = reply_value (supervised size_of cd) n (case_payload c)"
    using assms by (intro reply_of_fits) (simp_all add: supervised_case, simp_all add: case_fits_def fits_def)
  then show ?thesis
    by (simp add: reply_value_def supervised_case[OF assms]) (simp add: case_response_def supervisor_response_def id_matches)
qed

lemma read_case_response:
  "read_response py_str c (case_response cd n (case_commands c)) = Inr (Inr (passes_case py_str cd c))"
  by (simp add: read_response_def case_response_def supervisor_response_def get_field_json truthy_def number_of_def
      passes_case_def case_commands_def is_dict_def[of PyNone])

section \<open>All cases\<close>

fun all_fit :: "(pyval \<Rightarrow> nat) \<Rightarrow> 'o candidate \<Rightarrow> int \<Rightarrow> official_case list \<Rightarrow> bool" where
  "all_fit size_of cd n [] \<longleftrightarrow>
     fits size_of (with_id n (json_object [(''op'', PyStr ''shutdown'')]))
     \<and> fits size_of (supervisor_response (PyInt n) [(''ok'', PyBool True)])"
| "all_fit size_of cd n (c # cs) \<longleftrightarrow> case_fits size_of cd n c \<and> all_fit size_of cd (n + 1) cs"

definition count_passes :: "'o candidate \<Rightarrow> official_case list \<Rightarrow> nat" where
  "count_passes cd cs = length (filter (passes_case (\<lambda>_. []) cd) cs)"

lemma supervised_run:
  "all_fit size_of cd n cs \<Longrightarrow>
   run_cases (\<lambda>_. []) (reply_transport size_of (supervised size_of cd)) n cs m
   = (n + int (length cs), Inr (CasesPassed (m + count_passes cd cs))) \<and> all_fit size_of cd (n + int (length cs)) []"
proof (induction cs arbitrary: n m)
  case Nil
  then show ?case by (simp add: count_passes_def)
next
  case (Cons c cs)
  then have c: "case_fits size_of cd n c" and cs: "all_fit size_of cd (n + 1) cs" by simp_all
  have shift: "n + 1 + int (length cs) = n + int (length (c # cs))" by simp
  from Cons.IH[OF cs] show ?case
    by (simp add: reply_transport_def reply_case[OF c] read_case_response count_passes_def) (simp add: algebra_simps)
qed

lemma supervised_shutdown:
  assumes "all_fit size_of cd n []"
  shows "reply_of size_of (supervised size_of cd) n (json_object [(''op'', PyStr ''shutdown'')])
    = Inr (supervisor_response (PyInt n) [(''ok'', PyBool True)])"
proof -
  have answer: "supervised size_of cd (with_id n (json_object [(''op'', PyStr ''shutdown'')]))
      = supervisor_response (PyInt n) [(''ok'', PyBool True)]"
    using assms by (simp add: supervisor_line_def fits_def with_id_json get_field_json)
  with assms have "reply_of size_of (supervised size_of cd) n (json_object [(''op'', PyStr ''shutdown'')])
      = reply_value (supervised size_of cd) n (json_object [(''op'', PyStr ''shutdown'')])"
    by (intro reply_of_fits) (simp_all add: fits_def)
  with answer show ?thesis by (simp add: reply_value_def supervisor_response_def id_matches)
qed

text \<open>
  C14: The chain from the Docker runner down to the candidate implements its specification: when the Docker commands
  succeed, nothing is cancelled and the lines of the protocol suffice, an evaluation returns, and it reports as passed exactly the
  number of official cases whose commands, carried out one after the other on the candidate in a
  fresh worker, have the expected outcomes, and as failed all others.
\<close>
theorem runner_counts_passed_cases:
  assumes "table (ts_id (rt_specification task), rt_revision task) = Some cs" "all_fit size_of cd 1 cs"
  shows "\<exists>h' r. docker_evaluate (working_runner size_of (supervised size_of cd) table) eid directory task code h = (h', Inr r)
    \<and> rr_passed r = count_passes cd cs \<and> rr_failed r = length cs - count_passes cd cs \<and> rr_total r = length cs
    \<and> rr_exit_code r = Some 0"
proof -
  let ?n = "1 + int (length cs)"
  let ?report = "\<lparr>hr_passed = count_passes cd cs, hr_failed = length cs - count_passes cd cs, hr_total = length cs,
    hr_syntax_error = False, hr_import_error = False\<rparr>"
  note run = supervised_run[OF assms(2), of 0]
  have "harness_evaluate (\<lambda>_. []) table (reply_transport size_of (supervised size_of cd)) 1
      (ts_id (rt_specification task)) (rt_revision task) = (?n, Inr ?report)"
    using run by (simp add: harness_evaluate_def assms(1))
  moreover have "get_field (supervisor_response (PyInt ?n) [(''ok'', PyBool True)]) ''ok'' = PyBool True"
    by (simp add: supervisor_response_def get_field_json)
  ultimately obtain h' x where h': "docker_evaluate (working_runner size_of (supervised size_of cd) table) eid directory task code h = (h', x)"
    and x: "reports ?report x"
    using working_evaluate[of table size_of "supervised size_of cd" task ?n ?report, OF _ supervised_shutdown[OF conjunct2[OF run]]]
    by blast
  from x obtain r where r: "x = Inr r" "rr_passed r = count_passes cd cs" "rr_failed r = length cs - count_passes cd cs"
    "rr_total r = length cs" "rr_exit_code r = Some 0" by (rule reports_Inr) simp
  from h' r show ?thesis by blast
qed

text \<open>An empty module, which passes the first of two cases: reading back what was stored, and calling a function.\<close>

definition ex_module :: "unit candidate" where
  "ex_module = \<lparr>cd_construct = (\<lambda>_. None), cd_function = (\<lambda>_. None), cd_method = (\<lambda>_ _. None), cd_attr = (\<lambda>_ _. None),
     cd_class = (\<lambda>_. [])\<rparr>"

definition ex_two_cases :: "official_case list" where
  "ex_two_cases =
     [official_case_of ''stored'' [expect (store_command ''x'' (PyList [PyInt 1])) PyNone,
        expect (stored_command ''x'') (PyList [PyInt 1])],
      official_case_of ''called'' [expect (function_command ''f'' [] []) (PyInt 1)]]"

theorem runner_counts_passed_cases_witness:
  "\<forall>task code. \<exists>h' r. docker_evaluate (working_runner (\<lambda>_. 100) (supervised (\<lambda>_. 100) ex_module) (\<lambda>_. Some ex_two_cases))
      ''0'' ''/tmp'' task code [] = (h', Inr r)
    \<and> rr_passed r = 1 \<and> rr_failed r = 1 \<and> rr_total r = 2"
proof (intro allI)
  fix task code
  have count: "count_passes ex_module ex_two_cases = 1" by code_simp
  have length: "length ex_two_cases = 2" "list_all (\<lambda>c. length (oc_steps c) \<le> 2) ex_two_cases" by code_simp+
  have small: "fits (\<lambda>_. 100) = (\<lambda>_. True)" by (rule ext) (simp add: fits_def MAX_LINE_BYTES_def)
  have "all_fit (\<lambda>_. 100) ex_module n cs" if "list_all (\<lambda>c. length (oc_steps c) \<le> 2) cs" for n cs
    using that by (induction cs arbitrary: n) (simp_all add: small case_fits_def case_commands_def MAX_STEPS_def list_all_iff)
  from runner_counts_passed_cases[of "\<lambda>_. Some ex_two_cases" task ex_two_cases, OF refl this[OF length(2)], of "''0''" "''/tmp''" code "[]"]
  show "\<exists>h' r. docker_evaluate (working_runner (\<lambda>_. 100) (supervised (\<lambda>_. 100) ex_module) (\<lambda>_. Some ex_two_cases))
      ''0'' ''/tmp'' task code [] = (h', Inr r)
    \<and> rr_passed r = 1 \<and> rr_failed r = 1 \<and> rr_total r = 2" unfolding count length by auto
qed

end
