(* ===== verification/OfficialCases.thy ===== *)
theory OfficialCases
  imports Harness
begin

text \<open>
  The official cases of \<^verbatim>\<open>src/app/runners/trusted_harness.py\<close>, for every revision of every task. Three
  characters outside of Latin-1 occur in the cases of the frame decoder, an emoji and two fullwidth digits; they are
  arguments. A float is the binary64 value of its literal.
\<close>

definition lru_cases :: "official_case list" where
  \<open>lru_cases =
     [official_case_of ''basic insertion and retrieval''
        [expect (construct_command ''LRUCache'' ''c'' [PyInt 2]) PyNone,
         expect (method_command ''c'' ''put'' [PyInt 1, PyInt 10] []) PyNone,
         expect (method_command ''c'' ''get'' [PyInt 1] []) (PyInt 10)],
      official_case_of ''missing key''
        [expect (construct_command ''LRUCache'' ''c'' [PyInt 2]) PyNone,
         expect (method_command ''c'' ''get'' [PyInt 99] []) (PyInt (-1))],
      official_case_of ''update existing key''
        [expect (construct_command ''LRUCache'' ''c'' [PyInt 2]) PyNone,
         expect (method_command ''c'' ''put'' [PyInt 1, PyInt 10] []) PyNone,
         expect (method_command ''c'' ''put'' [PyInt 1, PyInt 20] []) PyNone,
         expect (method_command ''c'' ''get'' [PyInt 1] []) (PyInt 20)],
      official_case_of ''least recently used eviction''
        ([expect (construct_command ''LRUCache'' ''c'' [PyInt 2]) PyNone] @
         map (\<lambda>key. expect (method_command ''c'' ''put'' [(PyInt key), PyInt (key * 10)] []) PyNone)
           [1, 2, 3] @
         [expect (method_command ''c'' ''get'' [PyInt 1] []) (PyInt (-1)),
          expect (method_command ''c'' ''get'' [PyInt 2] []) (PyInt 20),
          expect (method_command ''c'' ''get'' [PyInt 3] []) (PyInt 30)]),
      official_case_of ''access changes recency''
        [expect (construct_command ''LRUCache'' ''c'' [PyInt 2]) PyNone,
         expect (method_command ''c'' ''put'' [PyInt 1, PyInt 10] []) PyNone,
         expect (method_command ''c'' ''put'' [PyInt 2, PyInt 20] []) PyNone,
         expect (method_command ''c'' ''get'' [PyInt 1] []) (PyInt 10),
         expect (method_command ''c'' ''put'' [PyInt 3, PyInt 30] []) PyNone,
         expect (method_command ''c'' ''get'' [PyInt 2] []) (PyInt (-1)),
         expect (method_command ''c'' ''get'' [PyInt 1] []) (PyInt 10)],
      official_case_of ''capacity one''
        [expect (construct_command ''LRUCache'' ''c'' [PyInt 1]) PyNone,
         expect (method_command ''c'' ''put'' [PyInt 1, PyInt 10] []) PyNone,
         expect (method_command ''c'' ''put'' [PyInt 2, PyInt 20] []) PyNone,
         expect (method_command ''c'' ''get'' [PyInt 1] []) (PyInt (-1)),
         expect (method_command ''c'' ''get'' [PyInt 2] []) (PyInt 20)],
      official_case_of ''multiple evictions''
        ([expect (construct_command ''LRUCache'' ''c'' [PyInt 2]) PyNone] @
         map (\<lambda>key. expect (method_command ''c'' ''put'' [(PyInt key), PyInt (key * 10)] []) PyNone)
           [1, 2, 3, 4] @
         map (\<lambda>(key, value). expect (method_command ''c'' ''get'' [key] []) value)
           [(PyInt 1, PyInt (-1)), (PyInt 2, PyInt (-1)), (PyInt 3, PyInt 30), (PyInt 4, PyInt 40)]),
      official_case_of ''update refreshes recency''
        [expect (construct_command ''LRUCache'' ''c'' [PyInt 2]) PyNone,
         expect (method_command ''c'' ''put'' [PyInt 1, PyInt 10] []) PyNone,
         expect (method_command ''c'' ''put'' [PyInt 2, PyInt 20] []) PyNone,
         expect (method_command ''c'' ''put'' [PyInt 1, PyInt 11] []) PyNone,
         expect (method_command ''c'' ''put'' [PyInt 3, PyInt 30] []) PyNone,
         expect (method_command ''c'' ''get'' [PyInt 1] []) (PyInt 11),
         expect (method_command ''c'' ''get'' [PyInt 2] []) (PyInt (-1))]]\<close>

definition ttl_cases :: "official_case list" where
  \<open>ttl_cases =
     [official_case_of ''put get overwrite and missing''
        [expect (construct_command ''TTLCache'' ''c'' [PyInt 2]) PyNone,
         expect (method_command ''c'' ''get'' [PyStr ''missing'', PyInt 0] []) PyNone,
         expect (method_command ''c'' ''put'' [PyStr ''a'', PyDict [(PyStr ''$opaque'', PyStr ''marker'')]]
           [(''ttl'', PyInt 5), (''now'', PyInt 0)]) PyNone,
         expect (method_command ''c'' ''get'' [PyStr ''a'', PyInt 1] [])
           (PyDict [(PyStr ''$opaque'', PyStr ''marker'')]),
         expect (method_command ''c'' ''put'' [PyStr ''a'', PyStr ''new'']
           [(''ttl'', PyInt 10), (''now'', PyInt 2)]) PyNone,
         expect (method_command ''c'' ''get'' [PyStr ''a'', PyFloat (fl64 (119 / 10))] []) (PyStr ''new''),
         expect (method_command ''c'' ''size'' [PyFloat (fl64 (119 / 10))] []) (PyInt 1)],
      official_case_of ''inclusive expiration boundary''
        [expect (construct_command ''TTLCache'' ''c'' [PyInt 2]) PyNone,
         expect (method_command ''c'' ''put'' [PyStr ''a'', PyInt 1] [(''ttl'', PyInt 5), (''now'', PyInt 10)])
           PyNone,
         expect (method_command ''c'' ''get'' [PyStr ''a'', PyFloat (fl64 (14999 / 1000))] []) (PyInt 1),
         expect (method_command ''c'' ''get'' [PyStr ''a'', PyInt 15] []) PyNone,
         expect (method_command ''c'' ''size'' [PyInt 15] []) (PyInt 0),
         expect (method_command ''c'' ''delete'' [PyStr ''a'', PyInt 15] []) (PyBool False)],
      official_case_of ''invalid capacity and ttl''
        (map (\<lambda>(index, capacity). expect_raise (construct_command ''TTLCache'' (''bad'' @ str_nat index)
          [capacity]) ''ValueError'' None)
           (List.enumerate 0 [PyInt 0, PyInt (-1), PyBool True, PyFloat (fl64 (3 / 2))]) @
         [expect (construct_command ''TTLCache'' ''valid'' [PyInt 1]) PyNone] @
         map (\<lambda>ttl. expect_raise (method_command ''valid'' ''put'' [PyStr ''a'', PyInt 1]
           [(''ttl'', ttl), (''now'', PyInt 0)]) ''ValueError'' None)
           [PyInt 0, PyFloat (fl64 (- 1 / 10)), PyBool True]),
      official_case_of ''capacity evicts live LRU''
        ([expect (construct_command ''TTLCache'' ''c'' [PyInt 2]) PyNone,
          expect (method_command ''c'' ''put'' [PyStr ''a'', PyInt 1] [(''ttl'', PyInt 100), (''now'', PyInt 0)])
            PyNone,
          expect (method_command ''c'' ''put'' [PyStr ''b'', PyInt 2] [(''ttl'', PyInt 100), (''now'', PyInt 1)])
            PyNone,
          expect (method_command ''c'' ''get'' [PyStr ''a'', PyInt 2] []) (PyInt 1),
          expect (method_command ''c'' ''put'' [PyStr ''c'', PyInt 3] [(''ttl'', PyInt 100), (''now'', PyInt 3)])
            PyNone] @
         map (\<lambda>(key, value). expect (method_command ''c'' ''get'' [key, PyInt 4] []) value)
           [(PyStr ''b'', PyNone), (PyStr ''a'', PyInt 1), (PyStr ''c'', PyInt 3)]),
      official_case_of ''expired entries do not consume capacity''
        ([expect (construct_command ''TTLCache'' ''c'' [PyInt 2]) PyNone,
          expect (method_command ''c'' ''put'' [PyStr ''expired'', PyInt 1]
            [(''ttl'', PyInt 1), (''now'', PyInt 0)]) PyNone,
          expect (method_command ''c'' ''put'' [PyStr ''live'', PyInt 2]
            [(''ttl'', PyInt 10), (''now'', PyInt 0)]) PyNone,
          expect (method_command ''c'' ''put'' [PyStr ''new'', PyInt 3]
            [(''ttl'', PyInt 10), (''now'', PyInt 2)]) PyNone] @
         map (\<lambda>(key, value). expect (method_command ''c'' ''get'' [key, PyInt 2] []) value)
           [(PyStr ''expired'', PyNone), (PyStr ''live'', PyInt 2), (PyStr ''new'', PyInt 3)] @
         [expect (method_command ''c'' ''size'' [PyInt 2] []) (PyInt 2)]),
      official_case_of ''overwrite refreshes expiration and recency''
        ([expect (construct_command ''TTLCache'' ''c'' [PyInt 2]) PyNone,
          expect (method_command ''c'' ''put'' [PyStr ''a'', PyInt 1] [(''ttl'', PyInt 2), (''now'', PyInt 0)])
            PyNone,
          expect (method_command ''c'' ''put'' [PyStr ''b'', PyInt 2] [(''ttl'', PyInt 20), (''now'', PyInt 0)])
            PyNone,
          expect (method_command ''c'' ''put'' [PyStr ''a'', PyInt 10] [(''ttl'', PyInt 20), (''now'', PyInt 1)])
            PyNone,
          expect (method_command ''c'' ''put'' [PyStr ''c'', PyInt 3] [(''ttl'', PyInt 20), (''now'', PyInt 2)])
            PyNone] @
         map (\<lambda>(key, value). expect (method_command ''c'' ''get'' [key, PyInt 3] []) value)
           [(PyStr ''a'', PyInt 10), (PyStr ''b'', PyNone), (PyStr ''c'', PyInt 3)]),
      official_case_of ''delete and independent instances''
        [expect (construct_command ''TTLCache'' ''first'' [PyInt 1]) PyNone,
         expect (construct_command ''TTLCache'' ''second'' [PyInt 1]) PyNone,
         expect (method_command ''first'' ''put'' [PyStr ''a'', PyInt 1]
           [(''ttl'', PyInt 10), (''now'', PyInt 0)]) PyNone,
         expect (method_command ''second'' ''get'' [PyStr ''a'', PyInt 0] []) PyNone,
         expect (method_command ''first'' ''delete'' [PyStr ''a'', PyInt 1] []) (PyBool True),
         expect (method_command ''first'' ''delete'' [PyStr ''a'', PyInt 1] []) (PyBool False),
         expect (method_command ''first'' ''size'' [PyInt 1] []) (PyInt 0)]]\<close>

definition rate_cases :: "official_case list" where
  \<open>rate_cases =
     [official_case_of ''limit and rejected attempts''
        ([expect (construct_command ''SlidingWindowRateLimiter'' ''r'' [PyInt 2, PyInt 10]) PyNone] @
         map (\<lambda>(now, allowed). expect (method_command ''r'' ''allow'' [PyStr ''user'', now] []) allowed)
           [(PyInt 0, PyBool True), (PyInt 1, PyBool True), (PyInt 2, PyBool False), (PyInt 10, PyBool True),
            (PyFloat (fl64 (21 / 2)), PyBool False), (PyInt 11, PyBool True)]),
      official_case_of ''exact boundary''
        ([expect (construct_command ''SlidingWindowRateLimiter'' ''r'' [PyInt 1, PyInt 5]) PyNone] @
         map (\<lambda>(now, allowed). expect (method_command ''r'' ''allow'' [PyStr ''key'', now] []) allowed)
           [(PyInt 10, PyBool True), (PyFloat (fl64 (14999 / 1000)), PyBool False), (PyInt 15, PyBool True)]),
      official_case_of ''invalid configuration''
        (map (\<lambda>(index, limit). expect_raise (construct_command ''SlidingWindowRateLimiter''
          (''l'' @ str_nat index) [limit, PyInt 1]) ''ValueError'' None)
           (List.enumerate 0 [PyInt 0, PyInt (-1), PyBool True, PyFloat (fl64 (3 / 2))]) @
         map (\<lambda>(index, window). expect_raise (construct_command ''SlidingWindowRateLimiter''
           (''w'' @ str_nat index) [PyInt 1, window]) ''ValueError'' None)
           (List.enumerate 0 [PyInt 0, PyInt (-1), PyBool True])),
      official_case_of ''independent keys''
        ([expect (construct_command ''SlidingWindowRateLimiter'' ''r'' [PyInt 1, PyInt 10]) PyNone] @
         map (\<lambda>(key, now, allowed). expect (method_command ''r'' ''allow'' [key, now] []) allowed)
           [(PyStr ''a'', PyInt 0, PyBool True), (PyStr ''a'', PyInt 1, PyBool False),
            (PyStr ''b'', PyInt 1, PyBool True), (PyStr ''b'', PyInt 2, PyBool False)]),
      official_case_of ''prune old but retain live''
        ([expect (construct_command ''SlidingWindowRateLimiter'' ''r'' [PyInt 3, PyInt 10]) PyNone] @
         map (\<lambda>(now, allowed). expect (method_command ''r'' ''allow'' [PyStr ''key'', now] []) allowed)
           [(PyInt 0, PyBool True), (PyInt 1, PyBool True), (PyInt 9, PyBool True), (PyInt 10, PyBool True),
            (PyFloat (fl64 (21 / 2)), PyBool False), (PyInt 11, PyBool True), (PyInt 19, PyBool True)]),
      official_case_of ''nonmonotonic per key''
        [expect (construct_command ''SlidingWindowRateLimiter'' ''r'' [PyInt 2, PyInt 10]) PyNone,
         expect (method_command ''r'' ''allow'' [PyStr ''a'', PyInt 5] []) (PyBool True),
         expect_raise (method_command ''r'' ''allow'' [PyStr ''a'', PyFloat (fl64 (49 / 10))] []) ''ValueError''
           None,
         expect (method_command ''r'' ''allow'' [PyStr ''b'', PyInt (-100)] []) (PyBool True),
         expect (method_command ''r'' ''allow'' [PyStr ''a'', PyInt 5] []) (PyBool True)],
      official_case_of ''independent instances''
        [expect (construct_command ''SlidingWindowRateLimiter'' ''first'' [PyInt 1, PyInt 10]) PyNone,
         expect (construct_command ''SlidingWindowRateLimiter'' ''second'' [PyInt 1, PyInt 10]) PyNone,
         expect (method_command ''first'' ''allow'' [PyStr ''same'', PyInt 0] []) (PyBool True),
         expect (method_command ''first'' ''allow'' [PyStr ''same'', PyInt 1] []) (PyBool False),
         expect (method_command ''second'' ''allow'' [PyStr ''same'', PyInt 1] []) (PyBool True)]]\<close>

definition retry_cases :: "official_case list" where
  \<open>retry_cases =
     ([official_case_of ''growth and default multiplier''
         (map (\<lambda>(attempt, expected). expect (function_command ''retry_delay''
           [attempt, PyFloat (fl64 (1 / 2)), PyInt 100] []) expected)
           [(PyInt 1, PyFloat (fl64 (1 / 2))), (PyInt 2, PyInt 1), (PyInt 3, PyInt 2), (PyInt 6, PyInt 16)]),
       official_case_of ''inclusive stable cap''
         (map (\<lambda>(args, expected). expect (function_command ''retry_delay'' args []) expected)
           [([PyInt 3, PyInt 2, PyInt 8], PyInt 8), ([PyInt 4, PyInt 2, PyInt 8], PyInt 8),
            ([PyInt 100, PyInt 2, PyInt 8], PyInt 8), ([PyInt 10000, PyFloat (fl64 (1 / 10)), PyInt 5], PyInt 5)]),
       official_case_of ''custom multiplier''
         (map (\<lambda>(args, expected). expect (function_command ''retry_delay'' args []) expected)
           [([PyInt 1, PyInt 3, PyInt 100, PyInt 3], PyInt 3), ([PyInt 2, PyInt 3, PyInt 100, PyInt 3], PyInt 9),
            ([PyInt 4, PyInt 3, PyInt 100, PyInt 3], PyInt 81), ([PyInt 50, PyInt 3, PyInt 100, PyInt 1], PyInt
              3)])] @
      map (\<lambda>(index, attempt). official_case_of (''invalid attempt '' @ str_nat index)
          [expect_raise (function_command ''retry_delay'' [attempt, PyInt 1, PyInt 10] []) ''ValueError'' None])
        (List.enumerate 0 [PyInt 0, PyInt (-1), PyBool True, PyFloat (fl64 (3 / 2)), PyStr ''2'']) @
      map (\<lambda>(index, (base, cap, multiplier)). official_case_of (''invalid configuration '' @ str_nat index)
          [expect_raise (function_command ''retry_delay'' [PyInt 1, base, cap, multiplier] []) ''ValueError'' None])
        (List.enumerate 0 [(PyInt 0, PyInt 10, PyInt 2), (PyInt (-1), PyInt 10, PyInt 2),
         (PyInt 2, PyInt 1, PyInt 2), (PyInt 1, PyInt 10, PyFloat (fl64 (1 / 2))),
         (PyBool True, PyInt 10, PyInt 2)]) @
      [official_case_of ''pure repeatable calls''
         [expect (function_command ''retry_delay'' [PyInt 7, PyFloat (fl64 (1 / 4)), PyInt 20, PyInt 2] [])
           (PyInt 16),
          expect (function_command ''retry_delay'' [PyInt 7, PyFloat (fl64 (1 / 4)), PyInt 20, PyInt 2] [])
            (PyInt 16),
          expect (function_command ''retry_delay'' [PyInt 8, PyFloat (fl64 (1 / 4)), PyInt 20, PyInt 2] [])
            (PyInt 20)]])\<close>

definition dependency_cases :: "official_case list" where
  \<open>dependency_cases =
     ([official_case_of ''empty single and chain''
         [expect (function_command ''resolve_dependencies'' [PyDict []] []) (PyList []),
          expect (function_command ''resolve_dependencies'' [PyDict [(PyStr ''app'', PyList [])]] [])
            (PyList [PyStr ''app'']),
          expect (function_command ''resolve_dependencies'' [PyDict [(PyStr ''app'', PyList [PyStr ''service'']),
            (PyStr ''service'', PyList [PyStr ''db'']), (PyStr ''db'', PyList [])]] [])
              (PyList [PyStr ''db'', PyStr ''service'', PyStr ''app''])],
       official_case_of ''unknown leaf dependencies''
         [expect (function_command ''resolve_dependencies'' [PyDict [(PyStr ''app'', PyList [PyStr ''db''])]] [])
           (PyList [PyStr ''db'', PyStr ''app'']),
          expect (function_command ''resolve_dependencies'' [PyDict [(PyStr ''z'', PyList
            [PyStr ''a'', PyStr ''m''])]] []) (PyList [PyStr ''a'', PyStr ''m'', PyStr ''z''])],
       official_case_of ''global lexical tie breaking''
         [expect (function_command ''resolve_dependencies'' [PyDict [(PyStr ''web'', PyList [PyStr ''core'']),
           (PyStr ''worker'', PyList [PyStr ''core'']), (PyStr ''core'', PyList []),
             (PyStr ''audit'', PyList [])]] []) (PyList [PyStr ''audit'', PyStr ''core'', PyStr ''web'', PyStr
               ''worker'']),
          expect (function_command ''resolve_dependencies'' [PyDict [(PyStr ''audit'', PyList []),
            (PyStr ''core'', PyList []), (PyStr ''worker'', PyList [PyStr ''core'']),
              (PyStr ''web'', PyList [PyStr ''core''])]] []) (PyList [PyStr ''audit'', PyStr ''core'', PyStr
                ''web'', PyStr ''worker''])],
       official_case_of ''cycles''
         [expect_raise (function_command ''resolve_dependencies'' [PyDict
           [(PyStr ''a'', PyList [PyStr ''b'']), (PyStr ''b'', PyList [PyStr ''a''])]] [])
             ''DependencyCycleError'' None,
          expect_raise (function_command ''resolve_dependencies'' [PyDict
            [(PyStr ''self'', PyList [PyStr ''self''])]] []) ''DependencyCycleError'' None],
       official_case_of ''diamond graph''
         [expect (function_command ''resolve_dependencies'' [PyDict [(PyStr ''deploy'', PyList
           [PyStr ''api'', PyStr ''worker'']), (PyStr ''api'', PyList [PyStr ''core'']),
             (PyStr ''worker'', PyList [PyStr ''core'']), (PyStr ''core'', PyList [PyStr ''config''])]] [])
               (PyList [PyStr ''config'', PyStr ''core'', PyStr ''api'', PyStr ''worker'', PyStr ''deploy''])],
       official_case_of ''duplicate edges''
         [expect (function_command ''resolve_dependencies'' [PyDict [(PyStr ''app'', PyList
           [PyStr ''db'', PyStr ''db'']), (PyStr ''db'', PyList [])]] []) (PyList [PyStr ''db'', PyStr ''app''])],
       official_case_of ''disconnected components''
         [expect (function_command ''resolve_dependencies'' [PyDict [(PyStr ''z'', PyList [PyStr ''y'']),
           (PyStr ''b'', PyList [PyStr ''a'']), (PyStr ''m'', PyList [])]] [])
             (PyList [PyStr ''a'', PyStr ''b'', PyStr ''m'', PyStr ''y'', PyStr ''z''])],
       official_case_of ''input not mutated''
         [expect (store_command ''graph'' (PyDict [(PyStr ''app'', PyList [PyStr ''db'', PyStr ''cache'']),
           (PyStr ''db'', PyList [])])) PyNone,
          expect (function_command ''resolve_dependencies'' [ref_value ''graph''] [])
            (PyList [PyStr ''cache'', PyStr ''db'', PyStr ''app'']),
          expect (stored_command ''graph'') (PyDict [(PyStr ''app'', PyList [PyStr ''db'', PyStr ''cache'']),
            (PyStr ''db'', PyList [])])]] @
      map (\<lambda>(index, graph). official_case_of (''invalid graph shape '' @ str_nat index)
          [expect_raise (function_command ''resolve_dependencies'' [graph] []) ''TypeError'' None])
        (List.enumerate 0 [PyNone, PyDict [(PyStr ''$dict'', PyList [PyList [PyInt 1, PyList []]])],
         PyDict [(PyStr ''a'', PyList [PyInt 1])],
         PyDict [(PyStr ''a'', PyDict [(PyStr ''$tuple'', PyList [PyStr ''b''])])]]))\<close>

definition async_cases :: "official_case list" where
  \<open>async_cases =
     [official_case_of ''empty and invalid concurrency''
        ([with_telemetry (expect (function_command ''process_batch'' [PyList [], async_worker ''identity'' [],
          PyInt 1] []) (PyList [])) [(''calls'', PyInt 0)]] @
         map (\<lambda>concurrency. expect_raise (function_command ''process_batch''
           [PyList [], async_worker ''identity'' [], concurrency] []) ''ValueError'' None)
           [PyInt 0, PyInt (-1), PyBool True, PyFloat (fl64 (3 / 2))]),
      official_case_of ''once per item and input order''
        [with_telemetry (expect (function_command ''process_batch'' [PyList [PyStr ''first'', PyStr ''second''],
          async_worker ''ordered'' [(''blocked_value'', PyStr ''first''), (''transform'', PyStr ''upper'')],
            PyInt 2] []) (PyList [PyStr ''FIRST'', PyStr ''SECOND''])) [(''calls'', PyInt 2),
              (''maximum_active'', PyInt 2)]],
      official_case_of ''bounded concurrency with parallelism''
        [with_telemetry (expect (function_command ''process_batch'' [PyList [PyInt 1, PyInt 2, PyInt 3, PyInt 4],
          async_worker ''concurrency_probe'' [(''target_active'', PyInt 2), (''transform'', PyStr ''double'')],
            PyInt 2] []) (PyList [PyInt 2, PyInt 4, PyInt 6, PyInt 8]))
              [(''calls'', PyInt 4), (''maximum_active'', PyInt 2)]],
      official_case_of ''failure cancels unfinished tasks''
        [with_telemetry (expect_raise (function_command ''process_batch''
          [PyList [PyInt 1, PyInt 2], async_worker ''failure_cleanup'' [(''failure_value'', PyInt 1),
            (''message'', PyStr ''boom'')], PyInt 2] []) ''RuntimeError'' (Some ''boom''))
              [(''calls'', PyInt 2), (''cancelled'', PyInt 1)]],
      official_case_of ''batch cancellation cleans workers''
        [with_telemetry (expect_raise (function_command ''process_batch''
          [PyList [PyInt 1, PyInt 2, PyInt 3], async_worker ''block'' [], PyInt 2]
            [(''cancel_after_worker_start'', PyBool True)]) ''CancelledError'' None)
              [(''calls'', PyInt 2), (''cancelled'', PyInt 2)]],
      official_case_of ''concurrency larger than batch''
        [with_telemetry (expect (function_command ''process_batch'' [PyList [PyInt 1, PyInt 2], async_worker
          ''identity'' [(''transform'', PyStr ''increment'')], PyInt 10] []) (PyList [PyInt 2, PyInt 3]))
            [(''calls'', PyInt 2)]]]\<close>

definition circuit_cases :: "official_case list" where
  \<open>circuit_cases =
     (let failure = callback_raise ''RuntimeError'' ''operation failed'' in
     [official_case_of ''success resets closed failure count''
        [expect (construct_command ''CircuitBreaker'' ''b'' [PyInt 2, PyInt 10]) PyNone,
         expect_raise (method_command ''b'' ''call'' [failure] [(''now'', PyInt 0)]) ''RuntimeError'' None,
         expect (attr_command ''b'' ''state'') (PyStr ''closed''),
         expect (method_command ''b'' ''call'' [callback_return (PyStr ''ok'')] [(''now'', PyInt 1)])
           (PyStr ''ok''),
         expect_raise (method_command ''b'' ''call'' [failure] [(''now'', PyInt 2)]) ''RuntimeError'' None,
         expect (attr_command ''b'' ''state'') (PyStr ''closed'')],
      official_case_of ''threshold opens and blocks''
        [expect (construct_command ''CircuitBreaker'' ''b'' [PyInt 2, PyInt 10]) PyNone,
         expect_raise (method_command ''b'' ''call'' [failure] [(''now'', PyInt 0)]) ''RuntimeError'' None,
         expect_raise (method_command ''b'' ''call'' [failure] [(''now'', PyInt 1)]) ''RuntimeError'' None,
         expect (attr_command ''b'' ''state'') (PyStr ''open''),
         with_telemetry (expect_raise (method_command ''b'' ''call'' [callback_return PyNone]
           [(''now'', PyFloat (fl64 (10999 / 1000)))]) ''CircuitOpenError'' None) [(''calls'', PyInt 0)],
         expect (attr_command ''b'' ''state'') (PyStr ''open'')],
      official_case_of ''invalid configuration''
        (map (\<lambda>(index, threshold). expect_raise (construct_command ''CircuitBreaker''
          (''t'' @ str_nat index) [threshold, PyInt 1]) ''ValueError'' None)
           (List.enumerate 0 [PyInt 0, PyInt (-1), PyBool True, PyFloat (fl64 (3 / 2))]) @
         map (\<lambda>(index, timeout). expect_raise (construct_command ''CircuitBreaker''
           (''r'' @ str_nat index) [PyInt 1, timeout]) ''ValueError'' None)
           (List.enumerate 0 [PyInt 0, PyInt (-1), PyBool True])),
      official_case_of ''half-open success''
        [expect (construct_command ''CircuitBreaker'' ''b'' [PyInt 1, PyInt 5]) PyNone,
         expect_raise (method_command ''b'' ''call'' [failure] [(''now'', PyInt 10)]) ''RuntimeError'' None,
         expect_raise (method_command ''b'' ''call'' [callback_return PyNone]
           [(''now'', PyFloat (fl64 (14999 / 1000)))]) ''CircuitOpenError'' None,
         with_telemetry (expect (method_command ''b'' ''call'' [callback_observe (PyInt 42) ''b'' ''state'']
           [(''now'', PyInt 15)]) (PyInt 42)) [(''calls'', PyInt 1), (''observed'', PyList [PyStr ''half_open''])],
         expect (attr_command ''b'' ''state'') (PyStr ''closed'')],
      official_case_of ''failed half-open probe reopens''
        [expect (construct_command ''CircuitBreaker'' ''b'' [PyInt 1, PyInt 5]) PyNone,
         expect_raise (method_command ''b'' ''call'' [failure] [(''now'', PyInt 0)]) ''RuntimeError'' None,
         expect_raise (method_command ''b'' ''call'' [failure] [(''now'', PyInt 5)]) ''RuntimeError'' None,
         expect (attr_command ''b'' ''state'') (PyStr ''open''),
         expect_raise (method_command ''b'' ''call'' [callback_return (PyStr ''too early'')]
           [(''now'', PyFloat (fl64 (9999 / 1000)))]) ''CircuitOpenError'' None,
         expect (method_command ''b'' ''call'' [callback_return (PyStr ''recovered'')] [(''now'', PyInt 10)])
           (PyStr ''recovered''),
         expect (attr_command ''b'' ''state'') (PyStr ''closed'')],
      official_case_of ''nonmonotonic and independent''
        [expect (construct_command ''CircuitBreaker'' ''first'' [PyInt 2, PyInt 5]) PyNone,
         expect (construct_command ''CircuitBreaker'' ''second'' [PyInt 2, PyInt 5]) PyNone,
         expect (method_command ''first'' ''call'' [callback_return (PyInt 1)] [(''now'', PyInt 10)]) (PyInt 1),
         expect_raise (method_command ''first'' ''call'' [callback_return (PyInt 2)] [(''now'', PyInt 9)])
           ''ValueError'' None,
         expect (method_command ''second'' ''call'' [callback_return (PyInt 3)] [(''now'', PyInt (-100))])
           (PyInt 3),
         expect (attr_command ''second'' ''state'') (PyStr ''closed'')],
      official_case_of ''reset clears time history''
        [expect (construct_command ''CircuitBreaker'' ''b'' [PyInt 1, PyInt 100]) PyNone,
         expect_raise (method_command ''b'' ''call'' [failure] [(''now'', PyInt 50)]) ''RuntimeError'' None,
         expect (attr_command ''b'' ''state'') (PyStr ''open''),
         expect (method_command ''b'' ''reset'' [] []) PyNone,
         expect (attr_command ''b'' ''state'') (PyStr ''closed''),
         expect (method_command ''b'' ''call'' [callback_return (PyStr ''ok'')] [(''now'', PyInt 0)])
           (PyStr ''ok'')]])\<close>

definition structured_event_cases :: "official_case list" where
  \<open>structured_event_cases =
     (let normal = PyList [PyStr ''{"id":"a","timestamp":1,"kind":"created","payload":{"x":2}}'', PyStr ''   '',
       PyStr ''{"id":"b","timestamp":1,"kind":"updated"}'', PyStr
         ''{"id":"c","timestamp":3,"kind":"deleted","payload":{}}''] in
     ([official_case_of ''parse normalize and preserve order''
         [expect (function_command ''parse_events'' [normal] []) (PyList
           [PyDict [(PyStr ''id'', PyStr ''a''), (PyStr ''timestamp'', PyInt 1),
             (PyStr ''kind'', PyStr ''created''), (PyStr ''payload'', PyDict [(PyStr ''x'', PyInt 2)])], PyDict
               [(PyStr ''id'', PyStr ''b''), (PyStr ''timestamp'', PyInt 1), (PyStr ''kind'', PyStr ''updated''),
                 (PyStr ''payload'', PyDict [])], PyDict [(PyStr ''id'', PyStr ''c''),
                   (PyStr ''timestamp'', PyInt 3), (PyStr ''kind'', PyStr ''deleted''),
                     (PyStr ''payload'', PyDict [])]])],
       official_case_of ''empty and blank input''
         [expect (function_command ''parse_events'' [PyList []] []) (PyList []),
          expect (function_command ''parse_events'' [PyList [PyStr [], PyStr [CHR 0x09], PyStr ''  '']] [])
            (PyList [])],
       official_case_of ''none outer input''
         [expect_raise (function_command ''parse_events'' [PyNone] []) ''TypeError'' None],
       official_case_of ''tuple outer input''
         [expect_raise (function_command ''parse_events'' [PyDict [(PyStr ''$tuple'', PyList [])]] [])
           ''TypeError'' None],
       official_case_of ''string outer input''
         [expect_raise (function_command ''parse_events'' [PyStr ''one line''] []) ''TypeError'' None],
       official_case_of ''item and decoded types''
         [expect_raise (function_command ''parse_events'' [PyList [PyInt 1]] []) ''TypeError'' None,
          expect_raise (function_command ''parse_events'' [PyList [PyStr ''[]'']] []) ''TypeError'' None]] @
      map (\<lambda>(name, line). official_case_of name
          [expect_raise (function_command ''parse_events'' [PyList [line]] []) ''ValueError'' None])
        [(''malformed json'', PyStr ''{''),
         (''missing required field'', PyStr ''{"timestamp":1,"kind":"created"}''),
         (''empty id'', PyStr ''{"id":"","timestamp":1,"kind":"created"}''),
         (''boolean timestamp'', PyStr ''{"id":"a","timestamp":true,"kind":"created"}''),
         (''negative timestamp'', PyStr ''{"id":"a","timestamp":-1,"kind":"created"}''),
         (''invalid kind'', PyStr ''{"id":"a","timestamp":1,"kind":"other"}''),
         (''nonstring kind'', PyStr ''{"id":"a","timestamp":1,"kind":[]}''),
         (''nonobject payload'', PyStr ''{"id":"a","timestamp":1,"kind":"created","payload":[]}''),
         (''unknown field'', PyStr ''{"id":"a","timestamp":1,"kind":"created","extra":1}'')] @
      [official_case_of ''duplicate ids and decreasing timestamps''
         [expect_raise (function_command ''parse_events'' [PyList [PyStr
           ''{"id":"a","timestamp":1,"kind":"created"}'', PyStr ''{"id":"a","timestamp":2,"kind":"updated"}'']]
             []) ''ValueError'' (Some ''duplicate''),
          expect_raise (function_command ''parse_events'' [PyList [PyStr
            ''{"id":"a","timestamp":2,"kind":"created"}'', PyStr ''{"id":"b","timestamp":1,"kind":"updated"}'']]
              []) ''ValueError'' (Some ''nondecreasing'')],
       official_case_of ''fresh payload mappings''
         [expect (function_command ''parse_events''
           [PyList [PyStr ''{"id":"a","timestamp":0,"kind":"created","payload":{"x":1}}'']] [])
             (PyList [PyDict [(PyStr ''id'', PyStr ''a''), (PyStr ''timestamp'', PyInt 0),
               (PyStr ''kind'', PyStr ''created''), (PyStr ''payload'', PyDict
                 [(PyStr ''x'', PyInt 1)])]])]]))\<close>

definition interval_reservation_cases :: "official_case list" where
  \<open>interval_reservation_cases =
     ([official_case_of ''overlap adjacency and ordering''
         [expect (construct_command ''ReservationBook'' ''book'' []) PyNone,
          expect (method_command ''book'' ''reserve'' [PyStr ''late'', PyStr ''room'', PyInt 10, PyInt 20] [])
            (PyBool True),
          expect (method_command ''book'' ''reserve'' [PyStr ''early'', PyStr ''room'', PyInt 0, PyInt 10] [])
            (PyBool True),
          expect (method_command ''book'' ''reserve'' [PyStr ''overlap'', PyStr ''room'', PyInt 9, PyInt 11] [])
            (PyBool False),
          expect (method_command ''book'' ''reservations'' [PyStr ''room''] [])
            (PyList [PyDict [(PyStr ''id'', PyStr ''early''), (PyStr ''start'', PyInt 0),
              (PyStr ''end'', PyInt 10)], PyDict [(PyStr ''id'', PyStr ''late''), (PyStr ''start'', PyInt 10),
                (PyStr ''end'', PyInt 20)]])],
       official_case_of ''resources independent and rejected id reusable''
         [expect (construct_command ''ReservationBook'' ''book'' []) PyNone,
          expect (method_command ''book'' ''reserve'' [PyStr ''a'', PyStr ''one'', PyInt 0, PyInt 5] [])
            (PyBool True),
          expect (method_command ''book'' ''reserve'' [PyStr ''retry'', PyStr ''one'', PyInt 1, PyInt 2] [])
            (PyBool False),
          expect (method_command ''book'' ''reserve'' [PyStr ''retry'', PyStr ''two'', PyInt 1, PyInt 2] [])
            (PyBool True)],
       official_case_of ''cancel idempotently releases interval''
         [expect (construct_command ''ReservationBook'' ''book'' []) PyNone,
          expect (method_command ''book'' ''reserve'' [PyStr ''a'', PyStr ''room'', PyInt 1, PyInt 4] [])
            (PyBool True),
          expect (method_command ''book'' ''cancel'' [PyStr ''a''] []) (PyBool True),
          expect (method_command ''book'' ''cancel'' [PyStr ''a''] []) (PyBool False),
          expect (method_command ''book'' ''reserve'' [PyStr ''b'', PyStr ''room'', PyInt 1, PyInt 4] [])
            (PyBool True)],
       official_case_of ''accepted ids globally unique''
         [expect (construct_command ''ReservationBook'' ''book'' []) PyNone,
          expect (method_command ''book'' ''reserve'' [PyStr ''same'', PyStr ''one'', PyInt 0, PyInt 1] [])
            (PyBool True),
          expect_raise (method_command ''book'' ''reserve'' [PyStr ''same'', PyStr ''two'', PyInt 10, PyInt 11]
            []) ''ValueError'' (Some ''already exists'')]] @
      map (\<lambda>(name, reservation_id, resource, start, end). official_case_of name
          [expect (construct_command ''ReservationBook'' ''book'' []) PyNone,
           expect_raise (method_command ''book'' ''reserve'' [reservation_id, resource, start, end] [])
             ''ValueError'' None])
        [(''empty reservation id'', PyStr [], PyStr ''room'', PyInt 0, PyInt 1),
         (''empty resource'', PyStr ''id'', PyStr [], PyInt 0, PyInt 1),
         (''negative start'', PyStr ''id'', PyStr ''room'', PyInt (-1), PyInt 1),
         (''empty interval'', PyStr ''id'', PyStr ''room'', PyInt 1, PyInt 1),
         (''reversed interval'', PyStr ''id'', PyStr ''room'', PyInt 2, PyInt 1),
         (''boolean start'', PyStr ''id'', PyStr ''room'', PyBool True, PyInt 2),
         (''boolean end'', PyStr ''id'', PyStr ''room'', PyInt 0, PyBool False)] @
      [official_case_of ''containment and equal ranges overlap''
         [expect (construct_command ''ReservationBook'' ''book'' []) PyNone,
          expect (method_command ''book'' ''reserve'' [PyStr ''outer'', PyStr ''room'', PyInt 5, PyInt 20] [])
            (PyBool True),
          expect (method_command ''book'' ''reserve'' [PyStr ''inner'', PyStr ''room'', PyInt 10, PyInt 12] [])
            (PyBool False),
          expect (method_command ''book'' ''reserve'' [PyStr ''same-range'', PyStr ''room'', PyInt 5, PyInt 20]
            []) (PyBool False)],
       official_case_of ''reservation views are stable copies''
         [expect (construct_command ''ReservationBook'' ''book'' []) PyNone,
          expect (method_command ''book'' ''reserve'' [PyStr ''a'', PyStr ''room'', PyInt 0, PyInt 1] [])
            (PyBool True),
          expect (method_command ''book'' ''reservations'' [PyStr ''room''] [])
            (PyList [PyDict [(PyStr ''id'', PyStr ''a''), (PyStr ''start'', PyInt 0), (PyStr ''end'', PyInt 1)]]),
          expect (method_command ''book'' ''reservations'' [PyStr ''room''] [])
            (PyList [PyDict [(PyStr ''id'', PyStr ''a''), (PyStr ''start'', PyInt 0),
              (PyStr ''end'', PyInt 1)]])]])\<close>

definition config_layer_cases :: "official_case list" where
  \<open>config_layer_cases =
     ([official_case_of ''recursive merge replacement and deletion''
         [expect (function_command ''merge_config_layers'' [PyList [PyDict
           [(PyStr ''service'', PyDict [(PyStr ''host'', PyStr ''a''), (PyStr ''port'', PyInt 80)]),
             (PyStr ''debug'', PyBool False), (PyStr ''obsolete'', PyInt 1)], PyDict
               [(PyStr ''service'', PyDict [(PyStr ''port'', PyInt 443), (PyStr ''tls'', PyBool True)]),
                 (PyStr ''debug'', PyBool True), (PyStr ''obsolete'', PyNone)]]] [])
                   (PyDict [(PyStr ''service'', PyDict [(PyStr ''host'', PyStr ''a''),
                     (PyStr ''port'', PyInt 443), (PyStr ''tls'', PyBool True)]), (PyStr ''debug'', PyBool True)])],
       official_case_of ''empty layers and missing deletion''
         [expect (function_command ''merge_config_layers'' [PyList []] []) (PyDict []),
          expect (function_command ''merge_config_layers'' [PyList [PyDict [(PyStr ''missing'', PyNone)]]] [])
            (PyDict [])],
       official_case_of ''mappings and scalars replace each other''
         [expect (function_command ''merge_config_layers'' [PyList [PyDict [(PyStr ''a'', PyInt 1)], PyDict
           [(PyStr ''a'', PyDict [(PyStr ''b'', PyInt 2)])]]] []) (PyDict
             [(PyStr ''a'', PyDict [(PyStr ''b'', PyInt 2)])]),
          expect (function_command ''merge_config_layers'' [PyList [PyDict
            [(PyStr ''a'', PyDict [(PyStr ''b'', PyInt 2)])], PyDict [(PyStr ''a'', PyList [PyInt 3])]]] [])
              (PyDict [(PyStr ''a'', PyList [PyInt 3])])],
       official_case_of ''input layers are not mutated''
         [expect (store_command ''layers'' (PyList [PyDict [(PyStr ''a'', PyDict
           [(PyStr ''items'', PyList [PyInt 1, PyDict [(PyStr ''x'', PyInt 2)]])])]])) PyNone,
          expect (function_command ''merge_config_layers'' [ref_value ''layers''] [])
            (PyDict [(PyStr ''a'', PyDict [(PyStr ''items'', PyList [PyInt 1, PyDict [(PyStr ''x'', PyInt 2)]])])]),
          expect (stored_command ''layers'') (PyList [PyDict [(PyStr ''a'', PyDict
            [(PyStr ''items'', PyList [PyInt 1, PyDict [(PyStr ''x'', PyInt 2)]])])]])],
       official_case_of ''none outer value''
         [expect_raise (function_command ''merge_config_layers'' [PyNone] []) ''TypeError'' None],
       official_case_of ''mapping outer value''
         [expect_raise (function_command ''merge_config_layers'' [PyDict []] []) ''TypeError'' None],
       official_case_of ''tuple outer value''
         [expect_raise (function_command ''merge_config_layers'' [PyDict [(PyStr ''$tuple'', PyList [])]] [])
           ''TypeError'' None],
       official_case_of ''nonmapping layer''
         [expect_raise (function_command ''merge_config_layers'' [PyList
           [PyDict [(PyStr ''valid'', PyInt 1)], PyList []]] []) ''TypeError'' None]] @
      map (\<lambda>(name, value). official_case_of name
          [expect_raise (function_command ''merge_config_layers'' [value] []) ''TypeError'' None])
        [
         (''top-level nonstring key'', PyList [PyDict [(PyStr ''$dict'', PyList
           [PyList [PyInt 1, PyStr ''bad'']])]]),
         (''nested nonstring key'', PyList [PyDict [(PyStr ''nested'', PyDict
           [(PyStr ''$dict'', PyList [PyList [PyInt 2, PyStr ''bad'']])])]]),
         (''list-contained nonstring key'', PyList [PyDict [(PyStr ''items'', PyList
           [PyDict [(PyStr ''$dict'', PyList [PyList [PyInt 3, PyStr ''bad'']])]])]])] @
      [official_case_of ''nested deletion retains parent''
         [expect (function_command ''merge_config_layers'' [PyList [PyDict
           [(PyStr ''a'', PyDict [(PyStr ''x'', PyInt 1), (PyStr ''y'', PyInt 2)])], PyDict
             [(PyStr ''a'', PyDict [(PyStr ''x'', PyNone)])]]] []) (PyDict
               [(PyStr ''a'', PyDict [(PyStr ''y'', PyInt 2)])])]])\<close>

definition logical_path_cases :: "official_case list" where
  \<open>logical_path_cases =
     [official_case_of ''absolute normalization''
        [expect (function_command ''normalize_path'' [PyStr ''//api/./v1/../v2//''] []) (PyStr ''/api/v2''),
         expect (function_command ''normalize_path'' [PyStr ''/''] []) (PyStr ''/'')],
      official_case_of ''relative path uses normalized cwd''
        [expect (function_command ''normalize_path'' [PyStr ''../logs/./today'', PyStr ''/srv/app/''] [])
          (PyStr ''/srv/logs/today''),
         expect (function_command ''normalize_path'' [PyStr ''child'', PyStr ''/a//b/../c''] [])
           (PyStr ''/a/c/child'')],
      official_case_of ''absolute path ignores cwd components''
        [expect (function_command ''normalize_path'' [PyStr ''/safe'', PyStr ''/ignored/../cwd''] [])
          (PyStr ''/safe'')],
      official_case_of ''empty path''
        [expect_raise (function_command ''normalize_path'' [PyStr [], PyStr ''/''] []) ''ValueError'' None],
      official_case_of ''empty cwd''
        [expect_raise (function_command ''normalize_path'' [PyStr ''a'', PyStr []] []) ''ValueError'' None],
      official_case_of ''relative cwd''
        [expect_raise (function_command ''normalize_path'' [PyStr ''a'', PyStr ''relative''] []) ''ValueError''
          None],
      official_case_of ''exact root boundary''
        [expect (function_command ''normalize_path'' [PyStr ''..'', PyStr ''/a''] []) (PyStr ''/''),
         expect (function_command ''normalize_path'' [PyStr ''a/..'', PyStr ''/''] []) (PyStr ''/'')],
      official_case_of ''above-root traversal''
        [expect_raise (function_command ''normalize_path'' [PyStr ''../x'', PyStr ''/''] []) ''ValueError''
          (Some ''above root''),
         expect_raise (function_command ''normalize_path'' [PyStr ''x'', PyStr ''/../bad''] []) ''ValueError''
           (Some ''above root'')],
      official_case_of ''backslash is ordinary''
        [expect (function_command ''normalize_path'' [PyStr (''a'' @ [CHR 0x5C] @ ''b/../c''), PyStr ''/root'']
          []) (PyStr ''/root/c''),
         expect (function_command ''normalize_path'' [PyStr (''a'' @ [CHR 0x5C] @ ''b''), PyStr ''/root''] [])
           (PyStr (''/root/a'' @ [CHR 0x5C] @ ''b''))],
      official_case_of ''absolute path replaces cwd''
        [expect (function_command ''normalize_path'' [PyStr ''/x/../y'', PyStr ''/base''] [])
          (PyStr ''/y'')]]\<close>

definition frame_decoder_cases :: "char \<Rightarrow> char \<Rightarrow> char \<Rightarrow> official_case list"
  where
  \<open>frame_decoder_cases smile wide_one wide_two =
     ([official_case_of ''multiple and empty frames''
         [expect (construct_command ''LengthPrefixedDecoder'' ''decoder'' [PyInt 20]) PyNone,
          expect (method_command ''decoder'' ''feed'' [PyStr ''3:abc0:5:hello''] [])
            (PyList [PyStr ''abc'', PyStr [], PyStr ''hello'']),
          expect (method_command ''decoder'' ''finish'' [] []) PyNone],
       official_case_of ''prefix and payload cross chunks''
         [expect (construct_command ''LengthPrefixedDecoder'' ''decoder'' [PyInt 20]) PyNone,
          expect (method_command ''decoder'' ''feed'' [PyStr ''1''] []) (PyList []),
          expect (method_command ''decoder'' ''feed'' [PyStr ''1:hello''] []) (PyList []),
          expect (method_command ''decoder'' ''feed'' [PyStr '' world''] []) (PyList [PyStr ''hello world''])],
       official_case_of ''complete frames before incomplete tail''
         [expect (construct_command ''LengthPrefixedDecoder'' ''decoder'' [PyInt 10]) PyNone,
          expect (method_command ''decoder'' ''feed'' [PyStr ''1:a3:x''] []) (PyList [PyStr ''a'']),
          expect (method_command ''decoder'' ''feed'' [PyStr ''yz''] []) (PyList [PyStr ''xyz''])],
       official_case_of ''empty feed''
         [expect (construct_command ''LengthPrefixedDecoder'' ''decoder'' [PyInt 4]) PyNone,
          expect (method_command ''decoder'' ''feed'' [PyStr []] []) (PyList []),
          expect (method_command ''decoder'' ''feed'' [PyStr ''2:ok''] []) (PyList [PyStr ''ok''])]] @
      map (\<lambda>(index, maximum). official_case_of (''invalid maximum '' @ str_nat index)
          [expect_raise (construct_command ''LengthPrefixedDecoder'' ''decoder'' [maximum]) ''ValueError'' None])
        (List.enumerate 0 [PyInt 0, PyInt (-1), PyBool True, PyFloat (fl64 (3 / 2)), PyInt 1000001]) @
      map (\<lambda>(index, encoded). official_case_of (''malformed prefix '' @ str_nat index)
          [expect (construct_command ''LengthPrefixedDecoder'' ''decoder'' [PyInt 10]) PyNone,
           expect_raise (method_command ''decoder'' ''feed'' [encoded] []) ''ValueError'' None,
           expect (method_command ''decoder'' ''feed'' [PyStr ''2:ok''] []) (PyList [PyStr ''ok''])])
        (List.enumerate 0 [PyStr '':'', PyStr ''01:a'', PyStr ''x:a'', PyStr ([wide_one] @ [wide_two] @ '':a'')]) @
      [official_case_of ''oversized partial prefix resets''
         [expect (construct_command ''LengthPrefixedDecoder'' ''decoder'' [PyInt 3]) PyNone,
          expect_raise (method_command ''decoder'' ''feed'' [PyStr ''4''] []) ''ValueError'' (Some ''maximum''),
          expect (method_command ''decoder'' ''feed'' [PyStr ''3:yes''] []) (PyList [PyStr ''yes''])],
       official_case_of ''nonstring chunk preserves buffer''
         [expect (construct_command ''LengthPrefixedDecoder'' ''decoder'' [PyInt 10]) PyNone,
          expect (method_command ''decoder'' ''feed'' [PyStr ''3:a''] []) (PyList []),
          expect_raise (method_command ''decoder'' ''feed'' [PyInt 1] []) ''TypeError'' None,
          expect (method_command ''decoder'' ''feed'' [PyStr ''bc''] []) (PyList [PyStr ''abc''])],
       official_case_of ''finish rejects truncation and resets''
         [expect (construct_command ''LengthPrefixedDecoder'' ''decoder'' [PyInt 10]) PyNone,
          expect (method_command ''decoder'' ''feed'' [PyStr ''3:ab''] []) (PyList []),
          expect_raise (method_command ''decoder'' ''finish'' [] []) ''ValueError'' (Some ''truncated''),
          expect (method_command ''decoder'' ''feed'' [PyStr ''1:x''] []) (PyList [PyStr ''x''])],
       official_case_of ''payload contains prefix characters and unicode''
         [expect (construct_command ''LengthPrefixedDecoder'' ''decoder'' [PyInt 10]) PyNone,
          expect (method_command ''decoder'' ''feed'' [PyStr (''4:a:'' @ [smile] @ ''b'')] [])
            (PyList [PyStr (''a:'' @ [smile] @ ''b'')])]])\<close>

definition ttl_v2_cases :: "official_case list" where
  \<open>ttl_v2_cases =
     (let cases = ttl_cases in
      cases[4 := official_case_of ''expired entries are purged before live LRU eviction''
             (oc_steps (cases ! 4) @
              [expect (construct_command ''TTLCache'' ''mru'' [PyInt 2]) PyNone,
               expect (method_command ''mru'' ''put'' [PyStr ''live'', PyInt 1]
                 [(''ttl'', PyInt 20), (''now'', PyInt 0)]) PyNone,
               expect (method_command ''mru'' ''put'' [PyStr ''expired'', PyInt 2]
                 [(''ttl'', PyInt 1), (''now'', PyInt 0)]) PyNone,
               expect (method_command ''mru'' ''put'' [PyStr ''new'', PyInt 3]
                 [(''ttl'', PyInt 20), (''now'', PyInt 2)]) PyNone,
               expect (method_command ''mru'' ''get'' [PyStr ''live'', PyInt 2] []) (PyInt 1),
               expect (method_command ''mru'' ''get'' [PyStr ''expired'', PyInt 2] []) PyNone,
               expect (method_command ''mru'' ''get'' [PyStr ''new'', PyInt 2] []) (PyInt 3)]),
        6 := official_case_of ''delete live missing expired and repeated''
             (oc_steps (cases ! 6) @
              [expect (construct_command ''TTLCache'' ''expiry'' [PyInt 2]) PyNone,
               expect (method_command ''expiry'' ''put'' [PyStr ''stale'', PyInt 1]
                 [(''ttl'', PyInt 1), (''now'', PyInt 0)]) PyNone,
               expect (method_command ''expiry'' ''put'' [PyStr ''live'', PyInt 2]
                 [(''ttl'', PyInt 10), (''now'', PyInt 0)]) PyNone,
               expect (method_command ''expiry'' ''delete'' [PyStr ''stale'', PyInt 1] []) (PyBool False),
               expect (method_command ''expiry'' ''delete'' [PyStr ''missing'', PyInt 1] []) (PyBool False),
               expect (method_command ''expiry'' ''delete'' [PyStr ''live'', PyInt 1] []) (PyBool True),
               expect (method_command ''expiry'' ''delete'' [PyStr ''live'', PyInt 1] []) (PyBool False)])])\<close>

definition retry_v2_cases :: "official_case list" where
  \<open>retry_v2_cases =
     (let cases = retry_cases in
      cases[1 := official_case_of ''inclusive stable cap including equal base and cap''
             (oc_steps (cases ! 1) @
              [expect (function_command ''retry_delay'' [PyInt 1, PyInt 4, PyInt 4] []) (PyInt 4),
               expect (function_command ''retry_delay'' [PyInt 2, PyInt 4, PyInt 4] []) (PyInt 4),
               expect (function_command ''retry_delay'' [PyInt 10000, PyInt 4, PyInt 4, PyInt 3] []) (PyInt 4),
               expect_raise (function_command ''retry_delay'' [PyInt 1, PyInt 5, PyInt 4] []) ''ValueError''
                 None])])\<close>

definition frame_decoder_v2_cases :: "char \<Rightarrow> char \<Rightarrow> char \<Rightarrow> official_case
  list" where
  \<open>frame_decoder_v2_cases smile wide_one wide_two =
     (let cases = frame_decoder_cases smile wide_one wide_two in
      cases[(length cases - 1) := official_case_of ''unicode payload character counts across chunk boundaries''
             (oc_steps (cases ! (length cases - 1)) @
              [expect (construct_command ''LengthPrefixedDecoder'' ''split'' [PyInt 10]) PyNone,
               expect (method_command ''split'' ''feed'' [PyStr ''5''] []) (PyList []),
               expect (method_command ''split'' ''feed'' [PyStr '':ab''] []) (PyList []),
               expect (method_command ''split'' ''feed'' [PyStr [smile]] []) (PyList []),
               expect (method_command ''split'' ''feed'' [PyStr [CHR 0xE7]] []) (PyList []),
               expect (method_command ''split'' ''feed'' [PyStr ''d''] [])
                 (PyList [PyStr (''ab'' @ [smile] @ [CHR 0xE7] @ ''d'')]),
               expect (construct_command ''LengthPrefixedDecoder'' ''boundary'' [PyInt 10]) PyNone,
               expect (method_command ''boundary'' ''feed'' [PyStr (''4:'' @ [smile])] []) (PyList []),
               expect (method_command ''boundary'' ''feed'' [PyStr ''ab''] []) (PyList []),
               expect (method_command ''boundary'' ''feed'' [PyStr [CHR 0xE7]] [])
                 (PyList [PyStr ([smile] @ ''ab'' @ [CHR 0xE7])])])])\<close>

section \<open>The tables\<close>

definition OFFICIAL_CASES :: "char \<Rightarrow> char \<Rightarrow> char \<Rightarrow> (string, official_case list) odict" where
  "OFFICIAL_CASES smile wide_one wide_two =
     [(''lru-cache'', lru_cases), (''ttl-cache'', ttl_cases), (''rate-limiter'', rate_cases),
      (''retry-backoff'', retry_cases), (''dependency-resolver'', dependency_cases),
      (''async-batch-processor'', async_cases), (''circuit-breaker'', circuit_cases),
      (''structured-event-parser'', structured_event_cases), (''interval-reservation'', interval_reservation_cases),
      (''config-layer-merge'', config_layer_cases), (''logical-path'', logical_path_cases),
      (''frame-decoder'', frame_decoder_cases smile wide_one wide_two)]"

text \<open>The later entries replace none of the earlier ones, whose revision is 1.\<close>

definition OFFICIAL_CASES_BY_REVISION :: "char \<Rightarrow> char \<Rightarrow> char \<Rightarrow> string \<times> int \<Rightarrow> official_case list option" where
  "OFFICIAL_CASES_BY_REVISION smile wide_one wide_two = map_of
     (map (\<lambda>(task_id, cases). ((task_id, 1), cases)) (OFFICIAL_CASES smile wide_one wide_two)
      @ [((''frame-decoder'', 2), frame_decoder_v2_cases smile wide_one wide_two), ((''retry-backoff'', 2), retry_v2_cases),
         ((''ttl-cache'', 2), ttl_v2_cases)])"

definition OFFICIAL_TEST_CASE_COUNTS :: "char \<Rightarrow> char \<Rightarrow> char \<Rightarrow> (string, nat) odict" where
  "OFFICIAL_TEST_CASE_COUNTS smile wide_one wide_two =
     map (\<lambda>(task_id, cases). (task_id, length cases)) (OFFICIAL_CASES smile wide_one wide_two)"

text \<open>The assertion at the end of the module.\<close>

lemma official_test_case_counts:
  "OFFICIAL_TEST_CASE_COUNTS smile wide_one wide_two =
     [(''lru-cache'', 8), (''ttl-cache'', 7), (''rate-limiter'', 7), (''retry-backoff'', 14), (''dependency-resolver'', 12),
      (''async-batch-processor'', 6), (''circuit-breaker'', 7), (''structured-event-parser'', 17),
      (''interval-reservation'', 13), (''config-layer-merge'', 12), (''logical-path'', 10), (''frame-decoder'', 17)]"
  by (simp add: OFFICIAL_TEST_CASE_COUNTS_def OFFICIAL_CASES_def lru_cases_def ttl_cases_def rate_cases_def retry_cases_def
      dependency_cases_def async_cases_def circuit_cases_def structured_event_cases_def interval_reservation_cases_def
      config_layer_cases_def logical_path_cases_def frame_decoder_cases_def Let_def enumerate_eq_zip)

end
