(* ===== verification/References.thy ===== *)
theory References
  imports SandboxRun OfficialCases Caches RateLimiter CircuitBreaker RetryBackoff DependencyResolver
    ReservationBook LogicalPath ConfigMerge EventParser FrameDecoder
begin

text \<open>
  The reference solutions as candidates: what their classes and functions, which the component theories model, do when the worker
  calls them with Python arguments. Every one of them passes all official cases of its
  task, in every revision; so the Docker runner reports them as correct.
\<close>

section \<open>Binding arguments\<close>

text \<open>Arguments of the types that the models of the solutions do not cover.\<close>

definition not_modelled :: py_exception where
  "not_modelled = (''NotModelled'', [])"

definition bad_call :: py_exception where
  "bad_call = (''TypeError'', ''the arguments do not match the parameters'')"

text \<open>Parameters that can be given by position or by name, in order, with the defaults of the last ones.\<close>

definition bind_parameters ::
    "string list \<Rightarrow> (string \<times> pyval) list \<Rightarrow> pyval list \<Rightarrow> kwargs \<Rightarrow> py_exception + pyval list" where
  "bind_parameters params defaults args kwargs =
     (let given = zip params args @ kwargs in
      if length params < length args \<or> \<not> distinct (map fst given) \<or> \<not> list_all (\<lambda>(p, _). p \<in> set params) given
      then Inl bad_call
      else traverse (\<lambda>p. case map_of (given @ defaults) p of None \<Rightarrow> Inl bad_call | Some v \<Rightarrow> Inr v) params)"

definition bound_function ::
    "string list \<Rightarrow> (string \<times> pyval) list \<Rightarrow> (pyval list \<Rightarrow> 's \<Rightarrow> 's action) \<Rightarrow> 's \<Rightarrow> pyval list \<Rightarrow> kwargs \<Rightarrow> 's action" where
  "bound_function params defaults f s args kwargs =
     (case bind_parameters params defaults args kwargs of Inl e \<Rightarrow> Finish s (Inl e) | Inr vs \<Rightarrow> f vs s)"

definition bound_constructor ::
    "string list \<Rightarrow> (pyval list \<Rightarrow> py_exception + 'o) \<Rightarrow> pyval list \<Rightarrow> kwargs \<Rightarrow> py_exception + 'o" where
  "bound_constructor params f args kwargs =
     (case bind_parameters params [] args kwargs of Inl e \<Rightarrow> Inl e | Inr vs \<Rightarrow> f vs)"

definition finish_pair :: "'s \<times> (py_exception + pyval) \<Rightarrow> 's action" where
  "finish_pair r = Finish (fst r) (snd r)"

definition value_error :: "string \<Rightarrow> py_exception" where
  "value_error m = (''ValueError'', m)"

definition type_error :: "string \<Rightarrow> py_exception" where
  "type_error m = (''TypeError'', m)"

text \<open>A module with one class, and a module with one function.\<close>

definition class_module ::
    "string \<Rightarrow> (pyval list \<Rightarrow> kwargs \<Rightarrow> py_exception + 'o)
     \<Rightarrow> (string \<times> ('o \<Rightarrow> pyval list \<Rightarrow> kwargs \<Rightarrow> 'o action)) list \<Rightarrow> (string \<times> ('o \<Rightarrow> pyval)) list \<Rightarrow> 'o candidate" where
  "class_module class_name constructor methods attributes =
     \<lparr>cd_construct = (\<lambda>symbol. if symbol = class_name then Some constructor else None), cd_function = (\<lambda>_. None),
      cd_method = (\<lambda>x name. map_option (\<lambda>f. f x) (map_of methods name)),
      cd_attr = (\<lambda>x name. map_option (\<lambda>f. Inr (f x)) (map_of attributes name)), cd_class = (\<lambda>_. class_name)\<rparr>"

definition function_module :: "string \<Rightarrow> (pyval list \<Rightarrow> kwargs \<Rightarrow> unit action) \<Rightarrow> unit candidate" where
  "function_module function_name f =
     \<lparr>cd_construct = (\<lambda>_. None), cd_function = (\<lambda>symbol. if symbol = function_name then Some f else None),
      cd_method = (\<lambda>_ _. None), cd_attr = (\<lambda>_ _. None), cd_class = (\<lambda>_. [])\<rparr>"

section \<open>The caches\<close>

definition lru_module :: "lru_cache candidate" where
  "lru_module = class_module ''LRUCache''
     (bound_constructor [''capacity''] (\<lambda>vs. case vs of [PyInt n] \<Rightarrow> Inr (LRUCache n) | _ \<Rightarrow> Inl not_modelled))
     [(''get'', bound_function [''key''] [] (\<lambda>vs c. finish_pair
         (case vs of [PyInt key] \<Rightarrow> map_prod id (Inr \<circ> PyInt) (lru_get c key) | _ \<Rightarrow> (c, Inl not_modelled)))),
      (''put'', bound_function [''key'', ''value''] [] (\<lambda>vs c. finish_pair
         (case vs of [PyInt key, PyInt v] \<Rightarrow> (lru_put c key v, Inr PyNone) | _ \<Rightarrow> (c, Inl not_modelled))))] []"

definition with_now :: "pyval \<Rightarrow> 's \<Rightarrow> (rat \<Rightarrow> 's \<times> (py_exception + pyval)) \<Rightarrow> 's \<times> (py_exception + pyval)" where
  "with_now v s f = (case plain_number v of None \<Rightarrow> (s, Inl not_modelled) | Some now \<Rightarrow> f now)"

definition ttl_module :: "ttl_cache candidate" where
  "ttl_module = class_module ''TTLCache''
     (bound_constructor [''capacity''] (\<lambda>vs. map_sum value_error id (TTLCache (hd vs))))
     [(''put'', bound_function [''key'', ''value'', ''ttl'', ''now''] [] (\<lambda>vs c. finish_pair
         (case vs of [PyStr key, v, ttl, now] \<Rightarrow> with_now now c (\<lambda>t.
            case ttl_put c key v ttl t of Inl m \<Rightarrow> (c, Inl (value_error m)) | Inr c' \<Rightarrow> (c', Inr PyNone))
          | _ \<Rightarrow> (c, Inl not_modelled)))),
      (''get'', bound_function [''key'', ''now''] [] (\<lambda>vs c. finish_pair
         (case vs of [PyStr key, now] \<Rightarrow> with_now now c (\<lambda>t. map_prod id Inr (ttl_get c key t))
          | _ \<Rightarrow> (c, Inl not_modelled)))),
      (''delete'', bound_function [''key'', ''now''] [] (\<lambda>vs c. finish_pair
         (case vs of [PyStr key, now] \<Rightarrow> with_now now c (\<lambda>t. map_prod id (Inr \<circ> PyBool) (ttl_delete c key t))
          | _ \<Rightarrow> (c, Inl not_modelled)))),
      (''size'', bound_function [''now''] [] (\<lambda>vs c. finish_pair
         (with_now (hd vs) c (\<lambda>t. map_prod id (Inr \<circ> PyInt \<circ> int) (ttl_size c t)))))] []"

section \<open>Limiters, breakers and delays\<close>

definition rate_module :: "limiter candidate" where
  "rate_module = class_module ''SlidingWindowRateLimiter''
     (bound_constructor [''limit'', ''window_seconds'']
       (\<lambda>vs. map_sum value_error id (SlidingWindowRateLimiter (vs ! 0) (vs ! 1))))
     [(''allow'', bound_function [''key'', ''now''] [] (\<lambda>vs l. finish_pair
         (case vs of [PyStr key, now] \<Rightarrow> with_now now l (\<lambda>t. map_prod id (map_sum value_error PyBool) (allow l key t))
          | _ \<Rightarrow> (l, Inl not_modelled))))] []"

text \<open>
  \<^verbatim>\<open>call\<close> of the breaker calls the operation in the middle: the state in which it does so, and what the model's \<^verbatim>\<open>call\<close> makes
  of the outcome. When the call is refused the operation is not called.
\<close>

definition cb_entered :: "breaker \<Rightarrow> rat \<Rightarrow> breaker" where
  "cb_entered b now =
     (let b = b\<lparr>cb_last_now := Some now\<rparr> in if cb_state b = open_circuit then b\<lparr>cb_state := half_open_circuit\<rparr> else b)"

definition cb_finished :: "breaker \<Rightarrow> rat \<Rightarrow> py_exception + pyval \<Rightarrow> breaker \<times> (py_exception + pyval)" where
  "cb_finished b now r =
     (case cb_call b (case r of Inr v \<Rightarrow> Returns v | Inl (kind, _) \<Rightarrow> RaisesException kind) now of
        (b', Returned v) \<Rightarrow> (b', Inr v)
      | (b', Propagated _) \<Rightarrow> (b', r)
      | (b', CallValueError m) \<Rightarrow> (b', Inl (value_error m))
      | (b', CircuitOpenError m) \<Rightarrow> (b', Inl (''CircuitOpenError'', m))
      | (b', CallAssertionError) \<Rightarrow> (b', Inl (''AssertionError'', [])))"

definition cb_refuses :: "breaker \<Rightarrow> rat \<Rightarrow> bool" where
  "cb_refuses b now \<longleftrightarrow> (case snd (cb_call b (Returns PyNone) now) of Returned _ \<Rightarrow> False | _ \<Rightarrow> True)"

definition cb_action :: "breaker \<Rightarrow> pyval \<Rightarrow> rat \<Rightarrow> breaker action" where
  "cb_action b operation now =
     (if cb_refuses b now then finish_pair (cb_finished b now (Inr PyNone))
      else case operation of
        PyObject n \<Rightarrow> CallBack n (cb_entered b now) (\<lambda>r. finish_pair (cb_finished b now r))
      | _ \<Rightarrow> finish_pair (cb_finished b now (Inl (type_error ''object is not callable''))))"

lemma cb_call_entered:
  "\<not> cb_refuses b now \<Longrightarrow> cb_call b operation now = cb_attempt (cb_entered b now) operation now"
  by (auto simp: cb_refuses_def cb_call_def cb_entered_def Let_def split: option.splits if_splits)

definition breaker_module :: "breaker candidate" where
  "breaker_module = class_module ''CircuitBreaker''
     (bound_constructor [''failure_threshold'', ''recovery_timeout'']
       (\<lambda>vs. map_sum value_error id (CircuitBreaker (vs ! 0) (vs ! 1))))
     [(''call'', bound_function [''operation'', ''now''] [] (\<lambda>vs b.
         case plain_number (vs ! 1) of None \<Rightarrow> Finish b (Inl not_modelled) | Some now \<Rightarrow> cb_action b (vs ! 0) now)),
      (''reset'', bound_function [] [] (\<lambda>_ b. Finish (cb_reset b) (Inr PyNone)))]
     [(''state'', \<lambda>b. PyStr (state b))]"

fun backoff_exception :: "backoff_error \<Rightarrow> py_exception" where
  "backoff_exception (BackoffValueError m) = value_error m"
| "backoff_exception BackoffTypeError = type_error ''unorderable types''"

definition retry_module :: "unit candidate" where
  "retry_module = function_module ''retry_delay''
     (bound_function [''attempt'', ''base_delay'', ''max_delay'', ''multiplier''] [(''multiplier'', PyFloat 2)] (\<lambda>vs s. Finish s
       (map_sum backoff_exception PyFloat (backoff_retry_delay (vs ! 0) (vs ! 1) (vs ! 2) (vs ! 3)))) ())"

section \<open>Functions on data\<close>

fun resolver_exception :: "resolver_error \<Rightarrow> py_exception" where
  "resolver_exception (ResolverTypeError m) = type_error m"
| "resolver_exception (DependencyCycleError m) = (''DependencyCycleError'', m)"

text \<open>The resolver returns on every graph.\<close>

definition dependency_module :: "unit candidate" where
  "dependency_module = function_module ''resolve_dependencies'' (bound_function [''graph''] [] (\<lambda>vs s. Finish s
     (case resolve_dependencies (hd vs) of
        None \<Rightarrow> Inl not_modelled
      | Some r \<Rightarrow> map_sum resolver_exception (\<lambda>names. PyList (map PyStr names)) r)) ())"

fun event_exception :: "event_error \<Rightarrow> py_exception" where
  "event_exception (EventTypeError m) = type_error m"
| "event_exception (EventValueError m) = value_error m"

definition event_value :: "event \<Rightarrow> pyval" where
  "event_value ev = json_object [(''id'', PyStr (ev_id ev)), (''timestamp'', PyInt (ev_timestamp ev)),
     (''kind'', PyStr (ev_kind ev)), (''payload'', PyDict (ev_payload ev))]"

definition event_module :: "(string \<Rightarrow> pyval option) \<Rightarrow> unit candidate" where
  "event_module loads = function_module ''parse_events'' (bound_function [''lines''] [] (\<lambda>vs s. Finish s
     (map_sum event_exception (\<lambda>evs. PyList (map event_value evs)) (parse_events loads (hd vs)))) ())"

definition reservation_value :: "reservation \<Rightarrow> pyval" where
  "reservation_value r = json_object [(''id'', PyStr (rv_id r)), (''start'', PyInt (rv_start r)), (''end'', PyInt (rv_end r))]"

definition reservation_module :: "book candidate" where
  "reservation_module = class_module ''ReservationBook'' (bound_constructor [] (\<lambda>_. Inr []))
     [(''reserve'', bound_function [''reservation_id'', ''resource'', ''start'', ''end''] [] (\<lambda>vs b. finish_pair
         (map_prod id (map_sum value_error PyBool) (reserve b (vs ! 0) (vs ! 1) (vs ! 2) (vs ! 3))))),
      (''cancel'', bound_function [''reservation_id''] [] (\<lambda>vs b. finish_pair
         (case vs of [PyStr i] \<Rightarrow> map_prod id (Inr \<circ> PyBool) (cancel b i) | _ \<Rightarrow> (b, Inl not_modelled)))),
      (''reservations'', bound_function [''resource''] [] (\<lambda>vs b. finish_pair
         (case vs of [PyStr r] \<Rightarrow> (b, Inr (PyList (map reservation_value (reservations b r)))) | _ \<Rightarrow> (b, Inl not_modelled))))] []"

definition config_module :: "unit candidate" where
  "config_module = function_module ''merge_config_layers'' (bound_function [''layers''] [] (\<lambda>vs s. Finish s
     (map_sum type_error PyDict (merge_config_layers (hd vs)))) ())"

definition path_module :: "unit candidate" where
  "path_module = function_module ''normalize_path'' (bound_function [''path'', ''cwd''] [(''cwd'', PyStr ''/'')] (\<lambda>vs s. Finish s
     (map_sum value_error PyStr (normalize_path (vs ! 0) (vs ! 1)))) ())"

fun frame_exception :: "frame_error \<Rightarrow> py_exception" where
  "frame_exception (FrameTypeError m) = type_error m"
| "frame_exception (FrameValueError m) = value_error m"
| "frame_exception IntConversionError = value_error ''Exceeds the limit for integer string conversion''"

definition frame_module :: "decoder candidate" where
  "frame_module = class_module ''LengthPrefixedDecoder''
     (bound_constructor [''max_frame_size''] (\<lambda>vs. map_sum value_error id (LengthPrefixedDecoder (hd vs))))
     [(''feed'', bound_function [''chunk''] [] (\<lambda>vs d. finish_pair
         (map_prod id (map_sum frame_exception (\<lambda>frames. PyList (map PyStr frames))) (feed d (hd vs))))),
      (''finish'', bound_function [] [] (\<lambda>_ d. finish_pair (map_prod id (map_sum frame_exception (\<lambda>_. PyNone)) (finish d))))] []"

section \<open>All official cases pass\<close>

definition passes_all :: "'o candidate \<Rightarrow> official_case list \<Rightarrow> bool" where
  "passes_all cd cs \<longleftrightarrow> list_all (passes_case (\<lambda>_. []) cd) cs"

lemma passes_slices: "passes_all cd (take n cs) \<Longrightarrow> passes_all cd (drop n cs) \<Longrightarrow> passes_all cd cs"
  unfolding passes_all_def by (metis append_take_drop_id list_all_append)

lemma passes_count: "passes_all cd cs \<Longrightarrow> count_passes cd cs = length cs"
  by (simp add: passes_all_def count_passes_def list_all_iff filter_id_conv)

text \<open>A case whose steps are the first of another one passes with it.\<close>

lemma outcomes_prefix: "outcomes_of cd cx (steps @ rest) = outcomes_of cd cx steps @ drop (length steps) (outcomes_of cd cx (steps @ rest))"
  by (induction cd cx steps rule: outcomes_of.induct) (simp_all split: prod.splits)

lemma passes_prefix: "prefix (oc_steps c) (oc_steps c') \<Longrightarrow> passes_case f cd c' \<Longrightarrow> passes_case f cd c"
  unfolding passes_case_def prefix_def
  by (metis length_map length_outcomes_of list_all2_append map_append outcomes_prefix)

lemma passes_all_prefix:
  "list_all2 (\<lambda>c c'. prefix (oc_steps c) (oc_steps c')) cs cs' \<Longrightarrow> passes_all cd cs' \<Longrightarrow> passes_all cd cs"
  unfolding passes_all_def by (induction rule: list_all2_induct) (auto intro: passes_prefix)

lemma lru_passes: "passes_all lru_module lru_cases"
  by code_simp

lemma ttl_passes_first: "passes_all ttl_module (take 3 ttl_v2_cases)"
  by code_simp

lemma ttl_passes_middle: "passes_all ttl_module (take 2 (drop 3 ttl_v2_cases))"
  by code_simp

lemma ttl_passes_last: "passes_all ttl_module (drop 2 (drop 3 ttl_v2_cases))"
  by code_simp

lemmas ttl_passes = passes_slices[OF ttl_passes_first passes_slices[OF ttl_passes_middle ttl_passes_last]]

lemma rate_passes_first: "passes_all rate_module (take 3 rate_cases)"
  by code_simp

lemma rate_passes_last: "passes_all rate_module (drop 3 rate_cases)"
  by code_simp

lemmas rate_passes = passes_slices[OF rate_passes_first rate_passes_last]

lemma retry_passes_first: "passes_all retry_module (take 1 retry_v2_cases)"
  by code_simp

lemma retry_passes_second: "passes_all retry_module (take 1 (drop 1 retry_v2_cases))"
  by code_simp

lemma retry_passes_third: "passes_all retry_module (take 6 (drop 1 (drop 1 retry_v2_cases)))"
  by code_simp

lemma retry_passes_last: "passes_all retry_module (drop 6 (drop 1 (drop 1 retry_v2_cases)))"
  by code_simp

lemmas retry_passes = passes_slices[OF retry_passes_first
    passes_slices[OF retry_passes_second passes_slices[OF retry_passes_third retry_passes_last]]]

lemma dependency_passes: "passes_all dependency_module dependency_cases"
  by code_simp

lemma breaker_passes_first: "passes_all breaker_module (take 3 circuit_cases)"
  by code_simp

lemma breaker_passes_last: "passes_all breaker_module (drop 3 circuit_cases)"
  by code_simp

lemmas breaker_passes = passes_slices[OF breaker_passes_first breaker_passes_last]

lemma reservation_passes: "passes_all reservation_module interval_reservation_cases"
  by code_simp

lemma config_passes: "passes_all config_module config_layer_cases"
  by code_simp

lemma path_passes: "passes_all path_module logical_path_cases"
  by code_simp

text \<open>
  The frame decoder does not tell characters apart that are neither digits nor colons; three characters beyond ASCII stand
  for the emoji and the two fullwidth digits of its cases.
\<close>

lemma frame_passes: "passes_all frame_module (frame_decoder_v2_cases CHR 0x80 CHR 0x81 CHR 0x82)"
  by code_simp

text \<open>What \<^verbatim>\<open>json.loads\<close> makes of the lines in the cases of the event parser; \<open>None\<close> is a \<^verbatim>\<open>JSONDecodeError\<close>.\<close>

definition official_lines :: "(string \<times> pyval option) list" where
  \<open>official_lines =
     [(''{"id":"a","timestamp":1,"kind":"created","payload":{"x":2}}'',
        Some (PyDict [(PyStr ''id'', PyStr ''a''), (PyStr ''timestamp'', PyInt 1),
          (PyStr ''kind'', PyStr ''created''), (PyStr ''payload'', PyDict [(PyStr ''x'', PyInt 2)])])),
      (''{"id":"b","timestamp":1,"kind":"updated"}'',
        Some (PyDict [(PyStr ''id'', PyStr ''b''), (PyStr ''timestamp'', PyInt 1),
          (PyStr ''kind'', PyStr ''updated'')])),
      (''{"id":"c","timestamp":3,"kind":"deleted","payload":{}}'',
        Some (PyDict [(PyStr ''id'', PyStr ''c''), (PyStr ''timestamp'', PyInt 3),
          (PyStr ''kind'', PyStr ''deleted''), (PyStr ''payload'', PyDict [])])),
      (''{'',
        None),
      (''{"timestamp":1,"kind":"created"}'',
        Some (PyDict [(PyStr ''timestamp'', PyInt 1), (PyStr ''kind'', PyStr ''created'')])),
      (''{"id":"","timestamp":1,"kind":"created"}'',
        Some (PyDict [(PyStr ''id'', PyStr []), (PyStr ''timestamp'', PyInt 1),
          (PyStr ''kind'', PyStr ''created'')])),
      (''{"id":"a","timestamp":true,"kind":"created"}'',
        Some (PyDict [(PyStr ''id'', PyStr ''a''), (PyStr ''timestamp'', PyBool True),
          (PyStr ''kind'', PyStr ''created'')])),
      (''{"id":"a","timestamp":-1,"kind":"created"}'',
        Some (PyDict [(PyStr ''id'', PyStr ''a''), (PyStr ''timestamp'', PyInt (-1)),
          (PyStr ''kind'', PyStr ''created'')])),
      (''{"id":"a","timestamp":1,"kind":"other"}'',
        Some (PyDict [(PyStr ''id'', PyStr ''a''), (PyStr ''timestamp'', PyInt 1),
          (PyStr ''kind'', PyStr ''other'')])),
      (''{"id":"a","timestamp":1,"kind":[]}'',
        Some (PyDict [(PyStr ''id'', PyStr ''a''), (PyStr ''timestamp'', PyInt 1), (PyStr ''kind'', PyList [])])),
      (''{"id":"a","timestamp":1,"kind":"created","payload":[]}'',
        Some (PyDict [(PyStr ''id'', PyStr ''a''), (PyStr ''timestamp'', PyInt 1),
          (PyStr ''kind'', PyStr ''created''), (PyStr ''payload'', PyList [])])),
      (''{"id":"a","timestamp":1,"kind":"created","extra":1}'',
        Some (PyDict [(PyStr ''id'', PyStr ''a''), (PyStr ''timestamp'', PyInt 1),
          (PyStr ''kind'', PyStr ''created''), (PyStr ''extra'', PyInt 1)])),
      (''[]'',
        Some (PyList [])),
      (''{"id":"a","timestamp":1,"kind":"created"}'',
        Some (PyDict [(PyStr ''id'', PyStr ''a''), (PyStr ''timestamp'', PyInt 1),
          (PyStr ''kind'', PyStr ''created'')])),
      (''{"id":"a","timestamp":2,"kind":"updated"}'',
        Some (PyDict [(PyStr ''id'', PyStr ''a''), (PyStr ''timestamp'', PyInt 2),
          (PyStr ''kind'', PyStr ''updated'')])),
      (''{"id":"a","timestamp":2,"kind":"created"}'',
        Some (PyDict [(PyStr ''id'', PyStr ''a''), (PyStr ''timestamp'', PyInt 2),
          (PyStr ''kind'', PyStr ''created'')])),
      (''{"id":"a","timestamp":0,"kind":"created","payload":{"x":1}}'',
        Some (PyDict [(PyStr ''id'', PyStr ''a''), (PyStr ''timestamp'', PyInt 0),
          (PyStr ''kind'', PyStr ''created''), (PyStr ''payload'', PyDict [(PyStr ''x'', PyInt 1)])]))]\<close>

definition reads_lines :: "(string \<Rightarrow> pyval option) \<Rightarrow> bool" where
  "reads_lines loads \<longleftrightarrow> (\<forall>(line, v) \<in> set official_lines. loads line = v)"

definition line_reader :: "(string \<Rightarrow> pyval option) \<Rightarrow> string \<Rightarrow> pyval option" where
  "line_reader loads line = (case map_of official_lines line of Some v \<Rightarrow> v | None \<Rightarrow> loads line)"

lemma line_reader: "reads_lines loads \<Longrightarrow> line_reader loads = loads"
  by (rule ext) (auto simp: line_reader_def reads_lines_def dest!: map_of_SomeD split: option.splits)

lemma event_reader_passes: "passes_all (event_module (line_reader loads)) structured_event_cases"
  by code_simp

lemma event_passes: "reads_lines loads \<Longrightarrow> passes_all (event_module loads) structured_event_cases"
  using event_reader_passes[of loads] by (simp add: line_reader)

text \<open>The second revisions only add steps.\<close>

lemma second_revisions_extend:
  "list_all2 (\<lambda>c c'. prefix (oc_steps c) (oc_steps c')) ttl_cases ttl_v2_cases"
  "list_all2 (\<lambda>c c'. prefix (oc_steps c) (oc_steps c')) retry_cases retry_v2_cases"
  "list_all2 (\<lambda>c c'. prefix (oc_steps c) (oc_steps c')) (frame_decoder_cases smile one two) (frame_decoder_v2_cases smile one two)"
proof -
  have update: "list_all2 (\<lambda>c c'. prefix (oc_steps c) (oc_steps c')) xs (xs[i := official_case_of m (oc_steps (xs ! i) @ ys)])"
    for xs i m ys
  proof (rule list_all2_all_nthI)
    fix n assume "n < length xs"
    then show "prefix (oc_steps (xs ! n)) (oc_steps (xs[i := official_case_of m (oc_steps (xs ! i) @ ys)] ! n))"
      by (cases "n = i") (simp_all add: official_case_of_def)
  qed simp
  have trans: "list_all2 (\<lambda>c c'. prefix (oc_steps c) (oc_steps c')) xs zs"
    if "list_all2 (\<lambda>c c'. prefix (oc_steps c) (oc_steps c')) xs zs'"
      "list_all2 (\<lambda>c c'. prefix (oc_steps c) (oc_steps c')) zs' zs" for xs zs zs'
    using that by (rule list_all2_trans[rotated]) (auto intro: prefix_order.trans)
  show "list_all2 (\<lambda>c c'. prefix (oc_steps c) (oc_steps c')) retry_cases retry_v2_cases"
    "list_all2 (\<lambda>c c'. prefix (oc_steps c) (oc_steps c')) (frame_decoder_cases smile one two) (frame_decoder_v2_cases smile one two)"
    unfolding retry_v2_cases_def frame_decoder_v2_cases_def Let_def by (rule update)+
  have second: "ttl_cases ! 6 = ttl_cases[4 := c] ! 6" for c by (simp add: nth_list_update)
  show "list_all2 (\<lambda>c c'. prefix (oc_steps c) (oc_steps c')) ttl_cases ttl_v2_cases"
    unfolding ttl_v2_cases_def Let_def
    by (rule trans[OF update], subst (2) second, rule update)
qed

text \<open>
  C15: The official cases of eleven tasks are fair (LRU cache, TTL cache, rate limiter, retry policy, dependency resolver,
  circuit breaker, structured events, interval reservations, config layers, logical paths and frame decoder): their reference
  solution, called by the candidate worker as the harness commands, has exactly the expected outcomes in all official
  cases of all revisions of the task: the results, the types and messages of the exceptions, and what the operations
  observe while they are called. The twelfth task, the asynchronous batch processor, is not among them: its coroutine has
  properties of its own, but its official cases run in an event loop that the model of the candidate worker does not have.
\<close>
theorem references_pass_official_cases:
  assumes "reads_lines loads"
  shows "passes_all lru_module lru_cases \<and> passes_all ttl_module ttl_cases \<and> passes_all ttl_module ttl_v2_cases
    \<and> passes_all rate_module rate_cases \<and> passes_all retry_module retry_cases \<and> passes_all retry_module retry_v2_cases
    \<and> passes_all dependency_module dependency_cases \<and> passes_all breaker_module circuit_cases
    \<and> passes_all (event_module loads) structured_event_cases
    \<and> passes_all reservation_module interval_reservation_cases \<and> passes_all config_module config_layer_cases
    \<and> passes_all path_module logical_path_cases
    \<and> passes_all frame_module (frame_decoder_cases CHR 0x80 CHR 0x81 CHR 0x82)
    \<and> passes_all frame_module (frame_decoder_v2_cases CHR 0x80 CHR 0x81 CHR 0x82)"
  using assms lru_passes passes_all_prefix[OF second_revisions_extend(1) ttl_passes] ttl_passes rate_passes
    passes_all_prefix[OF second_revisions_extend(2) retry_passes] retry_passes dependency_passes breaker_passes
    event_passes reservation_passes config_passes path_passes
    passes_all_prefix[OF second_revisions_extend(3) frame_passes] frame_passes
  by simp

lemma reader_reads: "reads_lines (line_reader loads)"
proof -
  have "distinct (map fst official_lines)" by code_simp
  then show ?thesis by (auto simp: reads_lines_def line_reader_def)
qed

theorem references_pass_official_cases_witness:
  "passes_all (event_module (line_reader (\<lambda>_. None))) structured_event_cases \<and> passes_all breaker_module circuit_cases"
  using references_pass_official_cases[OF reader_reads, of "\<lambda>_. None"] by simp

end
