(* ===== verification/Provider.thy ===== *)
theory Provider
  imports AIReview
begin

text \<open>
  The adapter for chat completions of \<^verbatim>\<open>src/app/ai/providers/openai_compatible.py\<close>: the body of a request, a bounded number of
  attempts with a pause after each transient failure, the bounded reading of a response, and the extraction of the
  assistant's text. The HTTP client and the JSON reader are arguments; what the client does may be different at
  every attempt.
\<close>

section \<open>Errors and responses\<close>

record provider_error =
  pe_code :: string
  pe_transient :: bool
  pe_http_status :: "int option"
  pe_detail_code :: "string option"

definition provider_error :: "string \<Rightarrow> provider_error" where
  "provider_error code = \<lparr>pe_code = code, pe_transient = False, pe_http_status = None, pe_detail_code = None\<rparr>"

definition transient_error :: "string \<Rightarrow> provider_error" where
  "transient_error code = (provider_error code)\<lparr>pe_transient := True\<rparr>"

datatype provider_exn = Raised provider_error | OtherRaised

definition malformed :: "string \<Rightarrow> provider_exn" where
  "malformed detail_code =
     Raised ((provider_error ''malformed_provider_response'')\<lparr>pe_detail_code := Some detail_code\<rparr>)"

definition refused :: provider_exn where
  "refused = Raised ((provider_error ''provider_refusal'')\<lparr>pe_detail_code := Some ''refusal''\<rparr>)"

record full_response = provider_response +
  pd_http_status :: int
  pd_envelope_type :: string
  pd_choices_count :: nat
  pd_finish_reason :: "string option"
  pd_content_type :: string
  pd_content_length :: nat
  pd_usage_present :: bool
  pd_provider_response_model :: "string option"

section \<open>Reading fields\<close>

definition field_of :: "pyval \<Rightarrow> string \<Rightarrow> pyval option" where
  "field_of v key = (case v of PyDict items \<Rightarrow> map_of items (PyStr key) | _ \<Rightarrow> None)"

definition field_get :: "pyval \<Rightarrow> string \<Rightarrow> pyval" where
  "field_get v key = (case field_of v key of None \<Rightarrow> PyNone | Some w \<Rightarrow> w)"

definition as_list :: "pyval \<Rightarrow> pyval list option" where
  "as_list v = (case v of PyList vs \<Rightarrow> Some vs | _ \<Rightarrow> None)"

definition as_string :: "pyval \<Rightarrow> string option" where
  "as_string v = (case v of PyStr s \<Rightarrow> Some s | _ \<Rightarrow> None)"

fun first_string :: "pyval list \<Rightarrow> string option" where
  "first_string [] = None"
| "first_string (v # vs) = (case as_string v of Some s \<Rightarrow> Some s | None \<Rightarrow> first_string vs)"

definition optional_nonnegative_int :: "pyval \<Rightarrow> nat option" where
  "optional_nonnegative_int v = (case plain_int v of Some n \<Rightarrow> (if 0 \<le> n then Some (nat n) else None) | None \<Rightarrow> None)"

section \<open>The text of a completion\<close>

text \<open>\<^verbatim>\<open>_normalize_completion\<close>: the completion and its choices, of which there is at least one.\<close>

definition choices_detail :: "pyval \<Rightarrow> string" where
  "choices_detail v = (if field_of v ''choices'' = None then ''missing_choices'' else ''invalid_choices_type'')"

definition checked_choices :: "pyval \<Rightarrow> string \<Rightarrow> pyval list \<Rightarrow> provider_exn + pyval \<times> string \<times> pyval list" where
  "checked_choices completion envelope_type choices =
     (case choices of
        [] \<Rightarrow> Inl (malformed ''empty_choices'')
      | choice # _ \<Rightarrow>
          if \<not> is_dict choice then Inl (malformed ''invalid_choice'') else Inr (completion, envelope_type, choices))"

definition normalize_completion :: "pyval \<Rightarrow> provider_exn + pyval \<times> string \<times> pyval list" where
  "normalize_completion payload =
     (case as_list (field_get payload ''choices'') of
        Some choices \<Rightarrow> checked_choices payload ''root'' choices
      | None \<Rightarrow>
          (let data = field_get payload ''data'' in
           if \<not> is_dict data then Inl (malformed (choices_detail payload))
           else case as_list (field_get data ''choices'') of
             None \<Rightarrow> Inl (malformed (choices_detail data))
           | Some choices \<Rightarrow> checked_choices data ''data-wrapper'' choices))"

text \<open>The membership test on the type of a part raises a \<^verbatim>\<open>TypeError\<close> when that is a list or a dictionary.\<close>

fun text_parts :: "pyval list \<Rightarrow> provider_exn + string list" where
  "text_parts [] = Inr []"
| "text_parts (part # parts) =
     (if \<not> is_dict part then Inl (malformed ''unsupported_content_type'')
      else case field_get part ''type'' of
        PyStr part_type \<Rightarrow>
          if part_type = ''refusal'' then Inl refused
          else (case (part_type \<in> {''text'', ''output_text''}, as_string (field_get part ''text'')) of
            (True, Some s) \<Rightarrow> map_sum id (\<lambda>texts. s # texts) (text_parts parts)
          | _ \<Rightarrow> Inl (malformed ''unsupported_content_type''))
      | PyList _ \<Rightarrow> Inl OtherRaised
      | PyDict _ \<Rightarrow> Inl OtherRaised
      | _ \<Rightarrow> Inl (malformed ''unsupported_content_type''))"

text \<open>What is said of a message whose content is neither a string nor a list.\<close>

definition no_content :: "pyval \<Rightarrow> provider_exn" where
  "no_content message =
     (if as_string (field_get message ''refusal'') \<noteq> None then refused
      else if field_get message ''tool_calls'' \<noteq> PyNone \<or> field_get message ''function_call'' \<noteq> PyNone
      then malformed ''tool_call_only''
      else if \<exists>key \<in> {''reasoning'', ''reasoning_content'', ''reasoning_details''}. field_of message key \<noteq> None
      then malformed ''reasoning_only''
      else if field_of message ''content'' = None then malformed ''missing_content''
      else if field_get message ''content'' = PyNone then malformed ''null_content''
      else malformed ''unsupported_content_type'')"

definition extract_assistant_text :: "pyval \<Rightarrow> provider_exn + string \<times> string" where
  "extract_assistant_text message =
     (case field_get message ''content'' of
        PyStr content \<Rightarrow> if content = [] then Inl (malformed ''empty_content'') else Inr (content, ''string'')
      | PyList parts \<Rightarrow>
          if parts = [] then Inl (malformed ''empty_content'')
          else (case text_parts parts of
            Inl e \<Rightarrow> Inl e
          | Inr texts \<Rightarrow> if concat texts = [] then Inl (malformed ''empty_content'') else Inr (concat texts, ''text-parts''))
      | _ \<Rightarrow> Inl (no_content message))"

definition response_content :: "pyval \<Rightarrow> provider_exn + string \<times> string" where
  "response_content choice =
     (let message = field_get choice ''message'' in
      if \<not> is_dict message
      then Inl (malformed (if field_of choice ''message'' = None then ''missing_message'' else ''invalid_message_type''))
      else extract_assistant_text message)"

text \<open>What \<^verbatim>\<open>_request\<close> makes of the payload of an accepted response; \<open>latency_ms\<close> is measured by the caller.\<close>

definition completion_response :: "int \<Rightarrow> nat \<Rightarrow> pyval \<Rightarrow> provider_exn + full_response" where
  "completion_response http_status latency_ms payload =
     (if \<not> is_dict payload then Inl (malformed ''unsupported_root_type'')
      else case normalize_completion payload of
        Inl e \<Rightarrow> Inl e
      | Inr (completion, envelope_type, choices) \<Rightarrow>
          (let first_choice = hd choices in
           case response_content first_choice of
             Inl e \<Rightarrow> Inl e
           | Inr (content, content_type) \<Rightarrow>
               (let usage = field_get completion ''usage'' in
                Inr \<lparr>pr_content = content,
                  pr_response_id = first_string [field_get completion ''id'', field_get payload ''id''],
                  pr_input_tokens = optional_nonnegative_int (field_get usage ''prompt_tokens''),
                  pr_output_tokens = optional_nonnegative_int (field_get usage ''completion_tokens''),
                  pr_latency_ms = latency_ms,
                  pd_http_status = http_status, pd_envelope_type = envelope_type, pd_choices_count = length choices,
                  pd_finish_reason = as_string (field_get first_choice ''finish_reason''),
                  pd_content_type = content_type, pd_content_length = length (utf8 content),
                  pd_usage_present = is_dict usage,
                  pd_provider_response_model = first_string [field_get completion ''model'', field_get payload ''model'']\<rparr>)))"

section \<open>One attempt\<close>

text \<open>
  How sending ends: with a timeout, a request error or another exception, possibly after some chunks of a response, or
  with a whole response.
\<close>

datatype stream_end = StreamEnds | StreamTimeout | StreamRequestError | StreamOther

datatype http_outcome = NotSent stream_end | Streamed int "bytes list" stream_end

fun read_chunks :: "nat \<Rightarrow> bytes \<Rightarrow> bytes list \<Rightarrow> bytes option" where
  "read_chunks max_response_bytes payload [] = Some payload"
| "read_chunks max_response_bytes payload (chunk # chunks) =
     (if max_response_bytes < length payload + length chunk then None
      else read_chunks max_response_bytes (payload @ chunk) chunks)"

fun stream_error :: "stream_end \<Rightarrow> provider_exn" where
  "stream_error StreamTimeout = Raised (transient_error ''provider_timeout'')"
| "stream_error StreamRequestError = Raised (transient_error ''provider_unavailable'')"
| "stream_error _ = OtherRaised"

definition status_error :: "int \<Rightarrow> provider_error option" where
  "status_error status =
     (if status = 401 then Some ((provider_error ''provider_unauthorized'')\<lparr>pe_http_status := Some 401\<rparr>)
      else if status = 403 then Some ((provider_error ''provider_forbidden'')\<lparr>pe_http_status := Some 403\<rparr>)
      else if status = 404 then Some ((provider_error ''provider_not_found'')\<lparr>pe_http_status := Some 404\<rparr>)
      else if status = 429 then Some ((transient_error ''provider_rate_limited'')\<lparr>pe_http_status := Some 429\<rparr>)
      else if 500 \<le> status \<and> status \<le> 599
      then Some ((transient_error ''provider_unavailable'')\<lparr>pe_http_status := Some status\<rparr>)
      else if 400 \<le> status then Some ((provider_error ''provider_request_rejected'')\<lparr>pe_http_status := Some status\<rparr>)
      else None)"

record provider_config =
  pc_max_attempts :: nat
  pc_max_response_bytes :: nat
  pc_limited :: bool \<comment> \<open>there is a semaphore for requests\<close>
  pc_loads :: "bytes \<Rightarrow> pyval option"

definition provider_request :: "provider_config \<Rightarrow> nat \<Rightarrow> http_outcome \<Rightarrow> provider_exn + full_response" where
  "provider_request pc latency_ms outcome =
     (case outcome of
        NotSent e \<Rightarrow> Inl (stream_error e)
      | Streamed status chunks e \<Rightarrow>
          (case read_chunks (pc_max_response_bytes pc) [] chunks of
             None \<Rightarrow> Inl (Raised (provider_error ''provider_output_too_large''))
           | Some payload \<Rightarrow>
               if e \<noteq> StreamEnds then Inl (stream_error e)
               else case status_error status of
                 Some error \<Rightarrow> Inl (Raised error)
               | None \<Rightarrow>
                   (case pc_loads pc payload of
                      None \<Rightarrow> Inl (malformed ''malformed_json'')
                    | Some value \<Rightarrow> completion_response status latency_ms value)))"

section \<open>The attempts\<close>

datatype provider_event = Acquired | Sent nat | Released | Paused nat

definition attempt_events :: "provider_config \<Rightarrow> nat \<Rightarrow> provider_event list" where
  "attempt_events pc attempt = (if pc_limited pc then [Acquired, Sent attempt, Released] else [Sent attempt])"

text \<open>
  The loop of \<^verbatim>\<open>_complete\<close> from an attempt on, with the attempts that are left. \<open>answer\<close> gives the latency and the
  outcome of every attempt, \<open>pause\<close> whether a pause is interrupted.
\<close>

fun attempts_from ::
    "provider_config \<Rightarrow> (nat \<Rightarrow> nat \<times> http_outcome) \<Rightarrow> (nat \<Rightarrow> bool) \<Rightarrow> nat \<Rightarrow> nat
     \<Rightarrow> provider_event list \<times> (provider_exn + full_response)" where
  "attempts_from pc answer interrupted attempt 0 = ([], Inl (Raised (transient_error ''provider_unavailable'')))"
| "attempts_from pc answer interrupted attempt (Suc n) =
     (case provider_request pc (fst (answer attempt)) (snd (answer attempt)) of
        Inl (Raised error) \<Rightarrow>
          if \<not> pe_transient error \<or> pc_max_attempts pc \<le> attempt
          then (attempt_events pc attempt, Inl (Raised error))
          else if interrupted attempt then (attempt_events pc attempt @ [Paused attempt], Inl OtherRaised)
          else map_prod (\<lambda>events. attempt_events pc attempt @ Paused attempt # events) id
                 (attempts_from pc answer interrupted (attempt + 1) n)
      | r \<Rightarrow> (attempt_events pc attempt, r))"

definition provider_complete ::
    "provider_config \<Rightarrow> (nat \<Rightarrow> nat \<times> http_outcome) \<Rightarrow> (nat \<Rightarrow> bool) \<Rightarrow> provider_event list \<times> (provider_exn + full_response)" where
  "provider_complete pc answer interrupted = attempts_from pc answer interrupted 1 (pc_max_attempts pc)"

text \<open>The body of a request; \<open>schema\<close> is the response schema of a structured request.\<close>

definition request_body :: "(pyval \<Rightarrow> string) \<Rightarrow> llm_request \<Rightarrow> pyval option \<Rightarrow> int option \<Rightarrow> pyval" where
  "request_body canonical request schema seed = json_object
     ([(''model'', PyStr (lr_model request)),
       (''messages'', PyList
         [json_object [(''role'', PyStr ''system''), (''content'', PyStr (lr_system_prompt request))],
          json_object [(''role'', PyStr ''user''), (''content'', PyStr (canonical (lr_input_payload request)))]]),
       (''temperature'', PyFloat (lr_temperature request)), (''top_p'', PyFloat (lr_top_p request)),
       (''max_tokens'', PyInt (lr_max_output_tokens request)), (''stream'', PyBool False)]
      @ (case schema of None \<Rightarrow> [] | Some s \<Rightarrow>
          [(''response_format'', json_object [(''type'', PyStr ''json_schema''),
             (''json_schema'', json_object [(''name'', PyStr (''codejudge_'' @ lr_component request)),
                (''strict'', PyBool True), (''schema'', s)])])])
      @ (case seed of None \<Rightarrow> [] | Some n \<Rightarrow> [(''seed'', PyInt n)]))"

text \<open>The adapter as the provider of the judge and of the adversarial tests; \<open>world\<close> answers the requests by their bodies.\<close>

definition openai_provider ::
    "provider_config \<Rightarrow> (pyval \<Rightarrow> string) \<Rightarrow> (string \<Rightarrow> pyval) \<Rightarrow> (pyval \<Rightarrow> nat \<Rightarrow> nat \<times> http_outcome)
     \<Rightarrow> (nat \<Rightarrow> bool) \<Rightarrow> llm_provider" where
  "openai_provider pc canonical schema world interrupted request =
     (case snd (provider_complete pc (world (request_body canonical request (Some (schema (lr_component request))) None))
             interrupted) of
        Inl (Raised error) \<Rightarrow> Inl (ProviderError (pe_code error))
      | Inl OtherRaised \<Rightarrow> Inl OtherException
      | Inr r \<Rightarrow> Inr (provider_response.truncate r))"

section \<open>Properties\<close>

definition attempt_result :: "provider_config \<Rightarrow> (nat \<Rightarrow> nat \<times> http_outcome) \<Rightarrow> nat \<Rightarrow> provider_exn + full_response" where
  "attempt_result pc answer k = provider_request pc (fst (answer k)) (snd (answer k))"

definition transient_at :: "provider_config \<Rightarrow> (nat \<Rightarrow> nat \<times> http_outcome) \<Rightarrow> nat \<Rightarrow> bool" where
  "transient_at pc answer k \<longleftrightarrow>
     (case attempt_result pc answer k of Inl (Raised error) \<Rightarrow> pe_transient error | _ \<Rightarrow> False)"

definition events_until :: "provider_config \<Rightarrow> nat \<Rightarrow> nat \<Rightarrow> provider_event list" where
  "events_until pc a k = concat (map (\<lambda>j. attempt_events pc j @ [Paused j]) [a..<k]) @ attempt_events pc k"

lemma attempts_from_spec:
  assumes "a + n = pc_max_attempts pc"
  shows "\<exists>k. a \<le> k \<and> k \<le> pc_max_attempts pc \<and> (\<forall>j. a \<le> j \<and> j < k \<longrightarrow> transient_at pc answer j)
    \<and> (k = pc_max_attempts pc \<or> \<not> transient_at pc answer k)
    \<and> attempts_from pc answer (\<lambda>_. False) a (Suc n) = (events_until pc a k, attempt_result pc answer k)"
  using assms
proof (induction n arbitrary: a)
  case 0
  then show ?case
    by (intro exI[of _ a]) (auto simp: events_until_def attempt_result_def split: sum.splits provider_exn.splits)
next
  case (Suc n)
  show ?case
  proof (cases "transient_at pc answer a")
    case False
    then have "attempts_from pc answer (\<lambda>_. False) a (Suc (Suc n)) = (events_until pc a a, attempt_result pc answer a)"
      by (auto simp: transient_at_def attempt_result_def events_until_def split: sum.splits provider_exn.splits)
    with False Suc.prems show ?thesis by (intro exI[of _ a]) auto
  next
    case True
    from Suc.prems have "Suc a + n = pc_max_attempts pc" by simp
    from Suc.IH[OF this] obtain k where k: "Suc a \<le> k" "k \<le> pc_max_attempts pc"
      "\<forall>j. Suc a \<le> j \<and> j < k \<longrightarrow> transient_at pc answer j" "k = pc_max_attempts pc \<or> \<not> transient_at pc answer k"
      and run: "attempts_from pc answer (\<lambda>_. False) (Suc a) (Suc n) = (events_until pc (Suc a) k, attempt_result pc answer k)"
      by blast
    from k(1) have "events_until pc a k = attempt_events pc a @ Paused a # events_until pc (Suc a) k"
      by (simp add: events_until_def upt_conv_Cons)
    moreover from True Suc.prems have "attempts_from pc answer (\<lambda>_. False) a (Suc (Suc n))
        = map_prod (\<lambda>events. attempt_events pc a @ Paused a # events) id (attempts_from pc answer (\<lambda>_. False) (Suc a) (Suc n))"
      by (auto simp: transient_at_def attempt_result_def split: sum.splits provider_exn.splits)
    moreover have "\<forall>j. a \<le> j \<and> j < k \<longrightarrow> transient_at pc answer j"
      using k(3) True by (metis Suc_leI le_neq_implies_less)
    ultimately show ?thesis
      using k(1,2,4) run by (intro exI[of _ k]) (simp del: attempts_from.simps)
  qed
qed

text \<open>
  C19: The retries of the model provider: it sends one request after the other, pausing one second after the first, two
  after the second and so on, up to the first that does not fail with a transient error, and at most the configured
  number of them; it returns or raises what the last one gives. No request slot is held during a pause.
\<close>
theorem provider_retries_transient_errors:
  assumes "0 < pc_max_attempts pc"
  shows "\<exists>k. 1 \<le> k \<and> k \<le> pc_max_attempts pc \<and> (\<forall>j. 1 \<le> j \<and> j < k \<longrightarrow> transient_at pc answer j)
    \<and> (k = pc_max_attempts pc \<or> \<not> transient_at pc answer k)
    \<and> provider_complete pc answer (\<lambda>_. False) = (events_until pc 1 k, attempt_result pc answer k)"
proof -
  from assms obtain n where "1 + n = pc_max_attempts pc" by (cases "pc_max_attempts pc") auto
  from attempts_from_spec[OF this, of answer] show ?thesis by (simp add: provider_complete_def flip: \<open>1 + n = _\<close>)
qed

text \<open>A provider with three attempts that is overloaded once, and then answers.\<close>

definition ex_provider :: provider_config where
  "ex_provider = \<lparr>pc_max_attempts = 3, pc_max_response_bytes = 1000, pc_limited = True,
     pc_loads = (\<lambda>_. Some (json_object [(''choices'', PyList [json_object
       [(''message'', json_object [(''content'', PyStr ''ok''), (''reasoning'', PyStr ''private'')])]])]))\<rparr>"

definition ex_answers :: "nat \<Rightarrow> nat \<times> http_outcome" where
  "ex_answers attempt = (5, Streamed (if attempt = 1 then 429 else 200) [[123], [125]] StreamEnds)"

theorem provider_retries_transient_errors_witness:
  "fst (provider_complete ex_provider ex_answers (\<lambda>_. False))
     = [Acquired, Sent 1, Released, Paused 1, Acquired, Sent 2, Released]
   \<and> map_sum id pr_content (snd (provider_complete ex_provider ex_answers (\<lambda>_. False))) = Inr ''ok''"
proof -
  have t: "transient_at ex_provider ex_answers 1" "\<not> transient_at ex_provider ex_answers 2"
    and r: "map_sum id pr_content (attempt_result ex_provider ex_answers 2) = Inr ''ok''"
    and ev: "events_until ex_provider 1 2 = [Acquired, Sent 1, Released, Paused 1, Acquired, Sent 2, Released]"
    and n: "pc_max_attempts ex_provider = 3" by code_simp+
  obtain k where k: "1 \<le> k" "\<forall>j. 1 \<le> j \<and> j < k \<longrightarrow> transient_at ex_provider ex_answers j"
    "k = 3 \<or> \<not> transient_at ex_provider ex_answers k"
    and run: "provider_complete ex_provider ex_answers (\<lambda>_. False) = (events_until ex_provider 1 k, attempt_result ex_provider ex_answers k)"
    using provider_retries_transient_errors[of ex_provider ex_answers] n by auto
  have "k = 2"
  proof (rule antisym)
    show "k \<le> 2" using k(2) t(2) by (meson not_less_iff_gr_or_eq one_le_numeral linorder_not_le)
    show "2 \<le> k" using k(1,3) t(1) by (cases "k = 1") auto
  qed
  with run r ev show ?thesis by simp
qed

lemma read_chunks_Some:
  "read_chunks n payload chunks = Some p \<longleftrightarrow> p = payload @ concat chunks \<and> (length p \<le> n \<or> chunks = [])"
  if "length payload \<le> n" for n
  using that
proof (induction chunks arbitrary: payload)
  case (Cons chunk chunks)
  then show ?case by auto
qed auto

lemma extract_text_nonempty: "extract_assistant_text message = Inr (content, kind) \<Longrightarrow> content \<noteq> []"
  by (auto simp: extract_assistant_text_def split: pyval.splits if_splits sum.splits)

text \<open>
  The final text of an answer, apart from how the code finds it: the message of the first choice, of the root or else of
  its \<^verbatim>\<open>data\<close>; and the text that a content stands for, a string or a list of text parts.
\<close>

definition answer_message :: "pyval \<Rightarrow> pyval" where
  "answer_message v =
     (let completion = (if as_list (field_get v ''choices'') \<noteq> None then v else field_get v ''data'') in
      case field_get completion ''choices'' of
        PyList (choice # _) \<Rightarrow> field_get choice ''message''
      | _ \<Rightarrow> PyNone)"

definition text_part :: "pyval \<Rightarrow> string option" where
  "text_part part =
     (if field_get part ''type'' \<in> {PyStr ''text'', PyStr ''output_text''} then as_string (field_get part ''text'') else None)"

definition content_text :: "pyval \<Rightarrow> string option" where
  "content_text content =
     (case content of
        PyStr s \<Rightarrow> Some s
      | PyList parts \<Rightarrow> if None \<in> set (map text_part parts) then None else Some (concat (map (the \<circ> text_part) parts))
      | _ \<Rightarrow> None)"

lemma text_parts_Inr:
  "text_parts parts = Inr texts \<Longrightarrow> None \<notin> set (map text_part parts) \<and> texts = map (the \<circ> text_part) parts"
proof (induction parts arbitrary: texts)
  case (Cons part parts)
  then obtain s rest where "text_part part = Some s" "text_parts parts = Inr rest" "texts = s # rest"
    by (auto simp: text_part_def map_sum_def split: if_splits bool.splits pyval.splits option.splits sum.splits)
  with Cons.IH show ?case by auto
qed simp

lemma extract_text_content:
  "extract_assistant_text message = Inr (content, kind) \<Longrightarrow> content_text (field_get message ''content'') = Some content"
  by (auto simp: extract_assistant_text_def content_text_def dest: text_parts_Inr split: pyval.splits if_splits sum.splits)

lemma normalized_message:
  assumes "normalize_completion v = Inr (completion, kind, choices)"
  shows "choices \<noteq> [] \<and> answer_message v = field_get (hd choices) ''message''"
  using assms
  by (auto simp: normalize_completion_def checked_choices_def answer_message_def as_list_def Let_def
      split: if_splits option.splits list.splits pyval.splits)

lemma completion_response_sound:
  assumes "completion_response status latency v = Inr r"
  shows "pr_content r \<noteq> [] \<and> pr_latency_ms r = latency
    \<and> content_text (field_get (answer_message v) ''content'') = Some (pr_content r)"
proof -
  from assms obtain completion kind choices content content_kind where
    n: "normalize_completion v = Inr (completion, kind, choices)" and
    c: "response_content (hd choices) = Inr (content, content_kind)" and r: "pr_content r = content" "pr_latency_ms r = latency"
    by (auto simp: completion_response_def Let_def split: if_splits sum.splits prod.splits)
  from c have "extract_assistant_text (field_get (hd choices) ''message'') = Inr (content, content_kind)"
    by (auto simp: response_content_def Let_def split: if_splits)
  with normalized_message[OF n] extract_text_nonempty extract_text_content r show ?thesis by metis
qed

text \<open>
  C20: A response of the model provider is sound, whatever the server sends: it comes from one complete answer, with a
  status below 400 and a body within the byte limit, and its text is not empty and is the text of the content field of
  the message of the answer's first choice: that string, or the concatenation of its parts if all of them are text. So
  neither reasoning nor tool calls nor refusals can end up in it.
\<close>
theorem provider_response_sound:
  assumes "snd (provider_complete pc answer interrupted) = Inr r"
  shows "\<exists>k status chunks v. answer k = (pr_latency_ms r, Streamed status chunks StreamEnds) \<and> status < 400
      \<and> length (concat chunks) \<le> pc_max_response_bytes pc \<and> pc_loads pc (concat chunks) = Some v
      \<and> completion_response status (pr_latency_ms r) v = Inr r
      \<and> pr_content r \<noteq> [] \<and> content_text (field_get (answer_message v) ''content'') = Some (pr_content r)"
proof -
  have "\<exists>k. attempt_result pc answer k = Inr r" if "snd (attempts_from pc answer interrupted a n) = Inr r" for a n
    using that
    by (induction pc answer interrupted a n rule: attempts_from.induct)
      (auto simp: attempt_result_def split: sum.splits provider_exn.splits if_splits)
  then obtain k where k: "attempt_result pc answer k = Inr r" using assms by (auto simp: provider_complete_def)
  obtain latency outcome where a: "answer k = (latency, outcome)" by fastforce
  from k a obtain status chunks v where o: "outcome = Streamed status chunks StreamEnds" "status_error status = None"
    "read_chunks (pc_max_response_bytes pc) [] chunks = Some (concat chunks)"
    "length (concat chunks) \<le> pc_max_response_bytes pc" "pc_loads pc (concat chunks) = Some v"
    "completion_response status latency v = Inr r"
    by (auto simp: attempt_result_def provider_request_def read_chunks_Some malformed_def split: http_outcome.splits option.splits if_splits)
  have "status < 400" using o(2) by (auto simp: status_error_def split: if_splits)
  with completion_response_sound[OF o(6)] a o show ?thesis by blast
qed

theorem provider_response_sound_witness:
  "\<exists>r. snd (provider_complete ex_provider ex_answers (\<lambda>_. False)) = Inr r \<and> pr_content r \<noteq> []
     \<and> (\<exists>v. pc_loads ex_provider (concat [[123], [125]]) = Some v
          \<and> content_text (field_get (answer_message v) ''content'') = Some (pr_content r))"
proof -
  have "case snd (provider_complete ex_provider ex_answers (\<lambda>_. False)) of Inl _ \<Rightarrow> False | Inr _ \<Rightarrow> True" by code_simp
  then obtain r where "snd (provider_complete ex_provider ex_answers (\<lambda>_. False)) = Inr r" by (auto split: sum.splits)
  with provider_response_sound[OF this] show ?thesis by (fastforce simp: ex_answers_def)
qed

end
