(* ===== verification/NumberText.thy ===== *)
theory NumberText
  imports DecimalText PyFloat Scoring
begin

text \<open>
  \<^verbatim>\<open>int(s)\<close> and \<^verbatim>\<open>float(s)\<close> of the interpreter for arbitrary strings of Latin-1 characters: surrounding white
  space, a sign, underscores between digits, exponents, infinities and NaN, rounding to a double and overflow
  to infinity. The floats here have the infinities and NaN that \<^verbatim>\<open>float\<close> can return.
\<close>

section \<open>Floats with infinities and NaN\<close>

datatype env_float = Finite rat | PosInf | NegInf | NaN

fun float_less :: "env_float \<Rightarrow> env_float \<Rightarrow> bool" where
  "float_less (Finite x) (Finite y) = (x < y)"
| "float_less (Finite x) PosInf = True"
| "float_less NegInf (Finite y) = True"
| "float_less NegInf PosInf = True"
| "float_less _ _ = False"

definition float_le :: "env_float \<Rightarrow> env_float \<Rightarrow> bool" where
  "float_le x y \<longleftrightarrow> float_less x y \<or> x = y \<and> x \<noteq> NaN"

fun float_neg :: "env_float \<Rightarrow> env_float" where
  "float_neg (Finite x) = Finite (- x)"
| "float_neg PosInf = NegInf"
| "float_neg NegInf = PosInf"
| "float_neg NaN = NaN"

text \<open>A nonnegative number as a double: rounded, and infinite from \<open>2 ^ 1024\<close> on.\<close>

definition to_double :: "rat \<Rightarrow> env_float" where
  "to_double x = (if 1024 < bit_length \<lfloor>fl64 x\<rfloor> then PosInf else Finite (fl64 x))"

section \<open>Numerals\<close>

text \<open>The white space around a numeral: the C set for an ASCII string, the Unicode set otherwise.\<close>

definition strip_with :: "(char \<Rightarrow> bool) \<Rightarrow> string \<Rightarrow> string" where
  "strip_with p s = rev (dropWhile p (rev (dropWhile p s)))"

definition c_space :: "char \<Rightarrow> bool" where
  "c_space c \<longleftrightarrow> (let n = of_char c :: nat in 9 \<le> n \<and> n \<le> 13 \<or> n = 32)"

definition strip_numeral :: "string \<Rightarrow> string" where
  "strip_numeral s = strip_with (if list_all (\<lambda>c. of_char c < (128 :: nat)) s then c_space else py_space) s"

text \<open>A sign, and what follows it.\<close>

fun split_sign :: "string \<Rightarrow> bool \<times> string" where
  "split_sign (c # s) = (if c = CHR ''-'' then (True, s) else if c = CHR ''+'' then (False, s) else (False, c # s))"
| "split_sign [] = (False, [])"

text \<open>Every underscore stands between two digits; the digits without them.\<close>

fun underscores_ok :: "char option \<Rightarrow> string \<Rightarrow> bool" where
  "underscores_ok prev [] = True"
| "underscores_ok prev [c] = (c \<noteq> CHR ''_'')"
| "underscores_ok prev (c # d # s) =
     ((c = CHR ''_'' \<longrightarrow> (case prev of None \<Rightarrow> False | Some p \<Rightarrow> ascii_digit p) \<and> ascii_digit d)
      \<and> underscores_ok (Some c) (d # s))"

definition without_underscores :: "string \<Rightarrow> string option" where
  "without_underscores s = (if underscores_ok None s then Some (filter (\<lambda>c. c \<noteq> CHR ''_'') s) else None)"

definition py_int :: "string \<Rightarrow> int option" where
  "py_int raw =
     (let (negative, body) = split_sign (strip_numeral raw) in
      case without_underscores body of
        None \<Rightarrow> None
      | Some ds \<Rightarrow>
          if ds = [] \<or> \<not> list_all ascii_digit ds then None
          else map_option (\<lambda>n. if negative then - n else n) (int_of_digits ds))"

text \<open>\<^verbatim>\<open>digits [. digits] [e [sign] digits]\<close> with at least one digit in the mantissa.\<close>

definition exponent_of :: "string \<Rightarrow> int option" where
  "exponent_of s =
     (case s of
        [] \<Rightarrow> Some 0
      | c # rest \<Rightarrow>
          if c \<notin> {CHR ''e'', CHR ''E''} then None
          else (let (negative, ds) = split_sign rest in
                if ds = [] \<or> \<not> list_all ascii_digit ds then None
                else Some (if negative then - int (digits_value ds) else int (digits_value ds))))"

definition power_of_ten :: "int \<Rightarrow> rat" where
  "power_of_ten e = (if 0 \<le> e then 10 ^ nat e else 1 / 10 ^ nat (- e))"

definition decimal_value :: "string \<Rightarrow> rat option" where
  "decimal_value s =
     (let whole = takeWhile ascii_digit s; rest = dropWhile ascii_digit s;
          (fraction, tail) = (case rest of
             c # r \<Rightarrow> if c = CHR ''.'' then (takeWhile ascii_digit r, dropWhile ascii_digit r) else ([], rest)
           | [] \<Rightarrow> ([], []))
      in if whole @ fraction = [] then None
         else map_option (\<lambda>e. of_nat (digits_value (whole @ fraction)) * power_of_ten (e - int (length fraction)))
                (exponent_of tail))"

definition unsigned_float :: "string \<Rightarrow> env_float option" where
  "unsigned_float s =
     (let lowered = py_lower s in
      if lowered = ''inf'' \<or> lowered = ''infinity'' then Some PosInf
      else if lowered = ''nan'' then Some NaN
      else map_option to_double (decimal_value s))"

definition py_float :: "string \<Rightarrow> env_float option" where
  "py_float raw =
     Option.bind (without_underscores (strip_numeral raw)) (\<lambda>s.
       let (negative, body) = split_sign s in
       map_option (\<lambda>v. if negative then float_neg v else v) (unsigned_float body))"

text \<open>\<^verbatim>\<open>s.upper()\<close>; the two characters whose capital is not a Latin-1 character stay as they are.\<close>

definition upper_char :: "char \<Rightarrow> string" where
  "upper_char c = (let n = of_char c :: nat in
     if n = 223 then ''SS''
     else if 97 \<le> n \<and> n \<le> 122 \<or> 224 \<le> n \<and> n \<le> 254 \<and> n \<noteq> 247 then [char_of (n - 32)] else [c])"

definition py_upper :: "string \<Rightarrow> string" where
  "py_upper s = concat (map upper_char s)"

section \<open>Reading back what is written\<close>

lemma split_sign_digit: "ascii_digit c \<Longrightarrow> split_sign (c # s) = (False, c # s)"
  by (auto simp: ascii_digit_def)

lemma strip_digits: "list_all ascii_digit s \<Longrightarrow> strip_numeral s = s"
proof -
  assume digits: "list_all ascii_digit s"
  then have "list_all (\<lambda>c. of_char c < (128 :: nat)) s" and none: "\<And>c. c \<in> set s \<Longrightarrow> \<not> c_space c"
    by (auto simp: list_all_iff ascii_digit_def c_space_def Let_def)
  have "dropWhile c_space xs = xs" if "set xs \<subseteq> set s" for xs
    using that none by (cases xs) auto
  then show ?thesis
    using \<open>list_all (\<lambda>c. of_char c < (128 :: nat)) s\<close> by (simp add: strip_numeral_def strip_with_def)
qed

lemma underscores_ok_digits: "list_all ascii_digit s \<Longrightarrow> underscores_ok p s"
  by (induction p s rule: underscores_ok.induct) (auto simp: ascii_digit_def)

lemma py_int_digits:
  assumes "list_all ascii_digit s" and "s \<noteq> []"
  shows "py_int s = int_of_digits s"
proof -
  obtain c r where "s = c # r" using assms(2) by (cases s) auto
  moreover have "filter (\<lambda>c. c \<noteq> CHR ''_'') s = s"
    using assms(1) by (auto simp: list_all_iff ascii_digit_def intro!: filter_True)
  ultimately show ?thesis
    using assms split_sign_digit[of c r] by (simp add: py_int_def strip_digits without_underscores_def
      underscores_ok_digits option.map_ident)
qed

text \<open>\<^verbatim>\<open>int(str(n))\<close> is \<open>n\<close>, up to the digit limit of the interpreter.\<close>

lemma py_int_str_nat: "length (str_nat n) \<le> 4300 \<Longrightarrow> py_int (str_nat n) = Some (int n)"
  using str_nat_digits[of _ n]
  by (subst py_int_digits) (auto simp: list_all_iff int_of_digits_def)

lemma number_examples:
  "py_int '' -1_000 '' = Some (- 1000)" "py_int ''1__0'' = None" "py_int ''4.0'' = None"
  "py_float ''nan'' = Some NaN" "py_float '' -Infinity'' = Some NegInf" "py_float ''.'' = None"
  "py_float ''1_0.'' = Some (Finite 10)" "py_float ''2.5e-1'' = Some (Finite (1 / 4))"
  by code_simp+

end
