(* ===== verification/Settings.thy ===== *)
theory Settings
  imports Analyzers LogicalPath NumberText
begin

text \<open>
  The configuration of \<^verbatim>\<open>src/app/core/config.py\<close>: reading and checking the settings from the environment, and the checks of
  the constructor. The process environment is a map. A \<^verbatim>\<open>ValueError\<close> is its message; of the conversions of the standard
  library and of the enums, whose messages quote the text, only the quoted text is kept.
\<close>

section \<open>The settings\<close>

datatype execution_backend = DOCKER | LOCAL

datatype evaluation_mode = SYNC | ASYNC

record settings =
  sg_app_name :: string
  sg_app_env :: string
  sg_log_level :: string
  sg_default_execution_timeout :: env_float
  sg_max_code_size :: int
  sg_execution_backend :: execution_backend
  sg_sandbox_image :: string
  sg_sandbox_memory_mb :: int
  sg_sandbox_cpus :: env_float
  sg_sandbox_pids_limit :: int
  sg_sandbox_timeout_seconds :: env_float
  sg_sandbox_output_limit_bytes :: int
  sg_static_analysis_enabled :: bool
  sg_static_analysis_timeout_seconds :: env_float
  sg_static_analysis_output_limit_bytes :: int
  sg_persistence_enabled :: bool
  sg_database_url :: "string option"
  sg_evaluation_mode :: evaluation_mode
  sg_redis_url :: "string option"
  sg_worker_concurrency :: int
  sg_worker_lease_seconds :: env_float
  sg_worker_max_attempts :: int
  sg_outbox_poll_interval_seconds :: env_float
  sg_retry_base_delay_seconds :: env_float
  sg_llm_enabled :: bool
  sg_llm_base_url :: "string option"
  sg_llm_api_key :: "string option"
  sg_llm_provider_id :: string
  sg_llm_judge_models :: "string list"
  sg_llm_adversarial_model :: "string option"
  sg_llm_timeout_seconds :: env_float
  sg_llm_max_attempts :: int
  sg_llm_max_output_tokens :: int
  sg_llm_max_input_bytes :: int
  sg_llm_max_response_bytes :: int
  sg_llm_max_adversarial_tests :: int
  sg_llm_temperature :: env_float
  sg_llm_top_p :: env_float
  sg_llm_disagreement_threshold :: env_float
  sg_benchmark_enabled :: bool
  sg_benchmark_config_path :: "string option"
  sg_benchmark_base_url :: "string option"
  sg_benchmark_api_key :: "string option"
  sg_benchmark_provider_id :: string
  sg_benchmark_generation_concurrency :: int
  sg_max_benchmark_models :: int
  sg_max_benchmark_tasks :: int
  sg_max_benchmark_samples_per_task :: int
  sg_max_benchmark_total_generations :: int

text \<open>The defaults of the fields.\<close>

definition default_settings :: settings where
  "default_settings =
     \<lparr>sg_app_name = ''CodeJudge AI'', sg_app_env = ''development'', sg_log_level = ''INFO'',
      sg_default_execution_timeout = Finite 5, sg_max_code_size = 102400,
      sg_execution_backend = DOCKER, sg_sandbox_image = ''codejudge-python-sandbox:phase2'',
      sg_sandbox_memory_mb = 256, sg_sandbox_cpus = Finite (1 / 2), sg_sandbox_pids_limit = 64,
      sg_sandbox_timeout_seconds = Finite 8, sg_sandbox_output_limit_bytes = 1048576,
      sg_static_analysis_enabled = True, sg_static_analysis_timeout_seconds = Finite 5,
      sg_static_analysis_output_limit_bytes = 262144, sg_persistence_enabled = False,
      sg_database_url = None, sg_evaluation_mode = SYNC, sg_redis_url = None,
      sg_worker_concurrency = 1, sg_worker_lease_seconds = Finite 60, sg_worker_max_attempts = 3,
      sg_outbox_poll_interval_seconds = Finite 1, sg_retry_base_delay_seconds = Finite 5,
      sg_llm_enabled = False, sg_llm_base_url = None, sg_llm_api_key = None,
      sg_llm_provider_id = ''default-openai-compatible'', sg_llm_judge_models = [],
      sg_llm_adversarial_model = None, sg_llm_timeout_seconds = Finite 30, sg_llm_max_attempts = 2,
      sg_llm_max_output_tokens = 2000, sg_llm_max_input_bytes = 100000,
      sg_llm_max_response_bytes = 262144, sg_llm_max_adversarial_tests = 5,
      sg_llm_temperature = Finite 0, sg_llm_top_p = Finite 1,
      sg_llm_disagreement_threshold = Finite 20, sg_benchmark_enabled = False,
      sg_benchmark_config_path = None, sg_benchmark_base_url = None, sg_benchmark_api_key = None,
      sg_benchmark_provider_id = ''default-benchmark-openai-compatible'',
      sg_benchmark_generation_concurrency = 2, sg_max_benchmark_models = 20,
      sg_max_benchmark_tasks = 20, sg_max_benchmark_samples_per_task = 10,
      sg_max_benchmark_total_generations = 500\<rparr>"

section \<open>Reading the environment\<close>

type_synonym environment = "string \<Rightarrow> string option"

definition environment_text :: "environment \<Rightarrow> string \<Rightarrow> string \<Rightarrow> string" where
  "environment_text env name fallback = (case env name of None \<Rightarrow> fallback | Some v \<Rightarrow> v)"

definition environment_value :: "environment \<Rightarrow> string \<Rightarrow> string \<Rightarrow> string + string" where
  "environment_value env name fallback =
     (let v = py_strip (environment_text env name fallback) in
      if v = [] then Inl (name @ '' must not be blank'') else Inr v)"

definition invalid_literal :: "string \<Rightarrow> string" where
  "invalid_literal s = ''invalid literal: '' @ s"

text \<open>A value that is set is converted, and the conversion may raise.\<close>

definition converted :: "environment \<Rightarrow> (string \<Rightarrow> 'a option) \<Rightarrow> string \<Rightarrow> 'a \<Rightarrow> string + 'a" where
  "converted env convert name fallback =
     (case env name of
        None \<Rightarrow> Inr fallback
      | Some raw \<Rightarrow> (case convert raw of None \<Rightarrow> Inl (invalid_literal raw) | Some v \<Rightarrow> Inr v))"

definition positive_float :: "environment \<Rightarrow> string \<Rightarrow> env_float \<Rightarrow> string + env_float" where
  "positive_float env name fallback = and_then (converted env py_float name fallback) (\<lambda>v.
     if float_le v (Finite 0) then Inl (name @ '' must be greater than zero'') else Inr v)"

definition positive_int :: "environment \<Rightarrow> string \<Rightarrow> int \<Rightarrow> string + int" where
  "positive_int env name fallback = and_then (converted env py_int name fallback) (\<lambda>v.
     if v \<le> 0 then Inl (name @ '' must be greater than zero'') else Inr v)"

definition bounded_float :: "environment \<Rightarrow> string \<Rightarrow> env_float \<Rightarrow> rat \<Rightarrow> rat \<Rightarrow> string \<Rightarrow> string + env_float" where
  "bounded_float env name fallback minimum maximum bounds = and_then (converted env py_float name fallback) (\<lambda>v.
     if float_less v (Finite minimum) \<or> float_less (Finite maximum) v then Inl (name @ '' must be between '' @ bounds)
     else Inr v)"

definition boolean :: "environment \<Rightarrow> string \<Rightarrow> bool \<Rightarrow> string + bool" where
  "boolean env name fallback =
     (case env name of
        None \<Rightarrow> Inr fallback
      | Some raw \<Rightarrow>
          (let normalized = py_lower (py_strip raw) in
           if normalized \<in> {''1'', ''true'', ''yes'', ''on''} then Inr True
           else if normalized \<in> {''0'', ''false'', ''no'', ''off''} then Inr False
           else Inl (name @ '' must be a boolean value'')))"

definition ExecutionBackend :: "string \<Rightarrow> string + execution_backend" where
  "ExecutionBackend s =
     (if s = ''docker'' then Inr DOCKER else if s = ''local'' then Inr LOCAL else Inl (invalid_literal s))"

definition EvaluationMode :: "string \<Rightarrow> string + evaluation_mode" where
  "EvaluationMode s = (if s = ''sync'' then Inr SYNC else if s = ''async'' then Inr ASYNC else Inl (invalid_literal s))"

text \<open>\<^verbatim>\<open>value.strip() or None\<close>, and with \<^verbatim>\<open>rstrip("/")\<close> in between.\<close>

definition some_nonempty :: "string \<Rightarrow> string option" where
  "some_nonempty s = (if s = [] then None else Some s)"

definition stripped_or_none :: "environment \<Rightarrow> string \<Rightarrow> string option" where
  "stripped_or_none env name = Option.bind (env name) (some_nonempty \<circ> py_strip)"

definition rstrip_slashes :: "string \<Rightarrow> string" where
  "rstrip_slashes s = rev (dropWhile (\<lambda>c. c = CHR ''/'') (rev s))"

definition base_url_or_none :: "environment \<Rightarrow> string \<Rightarrow> string option" where
  "base_url_or_none env name = Option.bind (env name) (some_nonempty \<circ> rstrip_slashes \<circ> py_strip)"

definition judge_models :: "environment \<Rightarrow> string list" where
  "judge_models env =
     (let raw = environment_text env ''LLM_JUDGE_MODELS'' (environment_text env ''LLM_JUDGE_MODEL'' []) in
      filter (\<lambda>m. m \<noteq> []) (map py_strip (split_char CHR '','' raw)))"

text \<open>The fields in the order in which they are read; every one may raise.\<close>

type_synonym reader = "settings \<Rightarrow> string + settings"

definition read_with :: "string + 'a \<Rightarrow> ('a \<Rightarrow> settings \<Rightarrow> settings) \<Rightarrow> reader" where
  "read_with r update s = map_sum id (\<lambda>v. update v s) r"

primrec run_readers :: "reader list \<Rightarrow> reader" where
  "run_readers [] s = Inr s"
| "run_readers (r # rs) s = and_then (r s) (run_readers rs)"

definition environment_readers :: "environment \<Rightarrow> reader list" where
  "environment_readers env =
     [read_with (boolean env ''PERSISTENCE_ENABLED'' False)
        (\<lambda>v s. s\<lparr>sg_persistence_enabled := v\<rparr>),
      read_with (Inr (environment_text env ''APP_NAME'' ''CodeJudge AI''))
        (\<lambda>v s. s\<lparr>sg_app_name := v\<rparr>),
      read_with (Inr (environment_text env ''APP_ENV'' ''development''))
        (\<lambda>v s. s\<lparr>sg_app_env := v\<rparr>),
      read_with (Inr (py_upper (environment_text env ''LOG_LEVEL'' ''INFO'')))
        (\<lambda>v s. s\<lparr>sg_log_level := v\<rparr>),
      read_with (positive_float env ''DEFAULT_EXECUTION_TIMEOUT'' (Finite 5))
        (\<lambda>v s. s\<lparr>sg_default_execution_timeout := v\<rparr>),
      read_with (positive_int env ''MAX_CODE_SIZE'' 102400) (\<lambda>v s. s\<lparr>sg_max_code_size := v\<rparr>),
      read_with (and_then (environment_value env ''EXECUTION_BACKEND'' ''docker'') (ExecutionBackend \<circ> py_lower))
        (\<lambda>v s. s\<lparr>sg_execution_backend := v\<rparr>),
      read_with (environment_value env ''SANDBOX_IMAGE'' ''codejudge-python-sandbox:phase2'')
        (\<lambda>v s. s\<lparr>sg_sandbox_image := v\<rparr>),
      read_with (positive_int env ''SANDBOX_MEMORY_MB'' 256)
        (\<lambda>v s. s\<lparr>sg_sandbox_memory_mb := v\<rparr>),
      read_with (positive_float env ''SANDBOX_CPUS'' (Finite (1 / 2)))
        (\<lambda>v s. s\<lparr>sg_sandbox_cpus := v\<rparr>),
      read_with (positive_int env ''SANDBOX_PIDS_LIMIT'' 64)
        (\<lambda>v s. s\<lparr>sg_sandbox_pids_limit := v\<rparr>),
      read_with (positive_float env ''SANDBOX_TIMEOUT_SECONDS'' (Finite 8))
        (\<lambda>v s. s\<lparr>sg_sandbox_timeout_seconds := v\<rparr>),
      read_with (positive_int env ''SANDBOX_OUTPUT_LIMIT_BYTES'' 1048576)
        (\<lambda>v s. s\<lparr>sg_sandbox_output_limit_bytes := v\<rparr>),
      read_with (boolean env ''STATIC_ANALYSIS_ENABLED'' True)
        (\<lambda>v s. s\<lparr>sg_static_analysis_enabled := v\<rparr>),
      read_with (positive_float env ''STATIC_ANALYSIS_TIMEOUT_SECONDS'' (Finite 5))
        (\<lambda>v s. s\<lparr>sg_static_analysis_timeout_seconds := v\<rparr>),
      read_with (positive_int env ''STATIC_ANALYSIS_OUTPUT_LIMIT_BYTES'' 262144)
        (\<lambda>v s. s\<lparr>sg_static_analysis_output_limit_bytes := v\<rparr>),
      read_with (Inr (stripped_or_none env ''DATABASE_URL'')) (\<lambda>v s. s\<lparr>sg_database_url := v\<rparr>),
      read_with (and_then (environment_value env ''EVALUATION_MODE'' ''sync'') (EvaluationMode \<circ> py_lower))
        (\<lambda>v s. s\<lparr>sg_evaluation_mode := v\<rparr>),
      read_with (Inr (stripped_or_none env ''REDIS_URL'')) (\<lambda>v s. s\<lparr>sg_redis_url := v\<rparr>),
      read_with (positive_int env ''WORKER_CONCURRENCY'' 1)
        (\<lambda>v s. s\<lparr>sg_worker_concurrency := v\<rparr>),
      read_with (positive_float env ''WORKER_LEASE_SECONDS'' (Finite 60))
        (\<lambda>v s. s\<lparr>sg_worker_lease_seconds := v\<rparr>),
      read_with (positive_int env ''WORKER_MAX_ATTEMPTS'' 3)
        (\<lambda>v s. s\<lparr>sg_worker_max_attempts := v\<rparr>),
      read_with (positive_float env ''OUTBOX_POLL_INTERVAL_SECONDS'' (Finite 1))
        (\<lambda>v s. s\<lparr>sg_outbox_poll_interval_seconds := v\<rparr>),
      read_with (positive_float env ''RETRY_BASE_DELAY_SECONDS'' (Finite 5))
        (\<lambda>v s. s\<lparr>sg_retry_base_delay_seconds := v\<rparr>),
      read_with (boolean env ''LLM_ENABLED'' False) (\<lambda>v s. s\<lparr>sg_llm_enabled := v\<rparr>),
      read_with (Inr (base_url_or_none env ''LLM_BASE_URL'')) (\<lambda>v s. s\<lparr>sg_llm_base_url := v\<rparr>),
      read_with (Inr (stripped_or_none env ''LLM_API_KEY'')) (\<lambda>v s. s\<lparr>sg_llm_api_key := v\<rparr>),
      read_with (environment_value env ''LLM_PROVIDER_ID'' ''default-openai-compatible'')
        (\<lambda>v s. s\<lparr>sg_llm_provider_id := v\<rparr>),
      read_with (Inr (judge_models env)) (\<lambda>v s. s\<lparr>sg_llm_judge_models := v\<rparr>),
      read_with (Inr (stripped_or_none env ''LLM_ADVERSARIAL_MODEL''))
        (\<lambda>v s. s\<lparr>sg_llm_adversarial_model := v\<rparr>),
      read_with (positive_float env ''LLM_TIMEOUT_SECONDS'' (Finite 30))
        (\<lambda>v s. s\<lparr>sg_llm_timeout_seconds := v\<rparr>),
      read_with (positive_int env ''LLM_MAX_ATTEMPTS'' 2) (\<lambda>v s. s\<lparr>sg_llm_max_attempts := v\<rparr>),
      read_with (positive_int env ''LLM_MAX_OUTPUT_TOKENS'' 2000)
        (\<lambda>v s. s\<lparr>sg_llm_max_output_tokens := v\<rparr>),
      read_with (positive_int env ''LLM_MAX_INPUT_BYTES'' 100000)
        (\<lambda>v s. s\<lparr>sg_llm_max_input_bytes := v\<rparr>),
      read_with (positive_int env ''LLM_MAX_RESPONSE_BYTES'' 262144)
        (\<lambda>v s. s\<lparr>sg_llm_max_response_bytes := v\<rparr>),
      read_with (positive_int env ''LLM_MAX_ADVERSARIAL_TESTS'' 5)
        (\<lambda>v s. s\<lparr>sg_llm_max_adversarial_tests := v\<rparr>),
      read_with (bounded_float env ''LLM_TEMPERATURE'' (Finite 0) 0 2 ''0 and 2'')
        (\<lambda>v s. s\<lparr>sg_llm_temperature := v\<rparr>),
      read_with (bounded_float env ''LLM_TOP_P'' (Finite 1) (fl64 (1 / 1000000)) 1 ''1e-06 and 1'')
        (\<lambda>v s. s\<lparr>sg_llm_top_p := v\<rparr>),
      read_with (bounded_float env ''LLM_DISAGREEMENT_THRESHOLD'' (Finite 20) 0 100 ''0 and 100'')
        (\<lambda>v s. s\<lparr>sg_llm_disagreement_threshold := v\<rparr>),
      read_with (boolean env ''BENCHMARK_ENABLED'' False) (\<lambda>v s. s\<lparr>sg_benchmark_enabled := v\<rparr>),
      read_with (Inr (stripped_or_none env ''BENCHMARK_CONFIG''))
        (\<lambda>v s. s\<lparr>sg_benchmark_config_path := v\<rparr>),
      read_with (Inr (base_url_or_none env ''BENCHMARK_BASE_URL''))
        (\<lambda>v s. s\<lparr>sg_benchmark_base_url := v\<rparr>),
      read_with (Inr (stripped_or_none env ''BENCHMARK_API_KEY''))
        (\<lambda>v s. s\<lparr>sg_benchmark_api_key := v\<rparr>),
      read_with (environment_value env ''BENCHMARK_PROVIDER_ID'' ''default-benchmark-openai-compatible'')
        (\<lambda>v s. s\<lparr>sg_benchmark_provider_id := v\<rparr>),
      read_with (positive_int env ''BENCHMARK_GENERATION_CONCURRENCY'' 2)
        (\<lambda>v s. s\<lparr>sg_benchmark_generation_concurrency := v\<rparr>),
      read_with (positive_int env ''MAX_BENCHMARK_MODELS'' 20)
        (\<lambda>v s. s\<lparr>sg_max_benchmark_models := v\<rparr>),
      read_with (positive_int env ''MAX_BENCHMARK_TASKS'' 20)
        (\<lambda>v s. s\<lparr>sg_max_benchmark_tasks := v\<rparr>),
      read_with (positive_int env ''MAX_BENCHMARK_SAMPLES_PER_TASK'' 10)
        (\<lambda>v s. s\<lparr>sg_max_benchmark_samples_per_task := v\<rparr>),
      read_with (positive_int env ''MAX_BENCHMARK_TOTAL_GENERATIONS'' 500)
        (\<lambda>v s. s\<lparr>sg_max_benchmark_total_generations := v\<rparr>)]"

section \<open>The checks of the constructor\<close>

text \<open>The truth value of an optional string, and the check of its prefix.\<close>

definition given :: "string option \<Rightarrow> bool" where
  "given v \<longleftrightarrow> v \<noteq> None \<and> v \<noteq> Some []"

definition given_without :: "string list \<Rightarrow> string option \<Rightarrow> bool" where
  "given_without schemes v \<longleftrightarrow>
     given v \<and> (case v of Some s \<Rightarrow> \<not> list_ex (\<lambda>p. take (length p) s = p) schemes | None \<Rightarrow> False)"

definition not_positive :: "env_float \<Rightarrow> bool" where
  "not_positive v \<longleftrightarrow> float_le v (Finite 0)"

text \<open>The conditions of \<open>__post_init__\<close>, in their order, with the messages of the \<^verbatim>\<open>ValueError\<close>.\<close>

definition settings_checks :: "settings \<Rightarrow> (bool \<times> string) list" where
  "settings_checks s =
     [(sg_persistence_enabled s \<and> \<not> given (sg_database_url s), ''DATABASE_URL is required when persistence is enabled''),
      (given_without [''postgresql+asyncpg://''] (sg_database_url s), ''DATABASE_URL must use postgresql+asyncpg''),
      (sg_evaluation_mode s = ASYNC \<and> \<not> sg_persistence_enabled s,
        ''PERSISTENCE_ENABLED must be true in async evaluation mode''),
      (sg_evaluation_mode s = ASYNC \<and> \<not> given (sg_redis_url s), ''REDIS_URL is required in async evaluation mode''),
      (given_without [''redis://'', ''rediss://''] (sg_redis_url s), ''REDIS_URL must use redis or rediss''),
      (sg_worker_concurrency s \<le> 0, ''WORKER_CONCURRENCY must be greater than zero''),
      (not_positive (sg_worker_lease_seconds s), ''WORKER_LEASE_SECONDS must be greater than zero''),
      (sg_worker_max_attempts s \<le> 0, ''WORKER_MAX_ATTEMPTS must be greater than zero''),
      (not_positive (sg_outbox_poll_interval_seconds s), ''OUTBOX_POLL_INTERVAL_SECONDS must be greater than zero''),
      (not_positive (sg_retry_base_delay_seconds s), ''RETRY_BASE_DELAY_SECONDS must be greater than zero''),
      (sg_llm_enabled s \<and> \<not> sg_persistence_enabled s, ''PERSISTENCE_ENABLED must be true when LLM evaluation is enabled''),
      (sg_llm_enabled s \<and> \<not> given (sg_llm_base_url s), ''LLM_BASE_URL is required when LLM evaluation is enabled''),
      (sg_llm_enabled s \<and> \<not> given (sg_llm_api_key s), ''LLM_API_KEY is required when LLM evaluation is enabled''),
      (sg_llm_enabled s \<and> sg_llm_judge_models s = [], ''LLM_JUDGE_MODEL or LLM_JUDGE_MODELS is required''),
      (sg_llm_enabled s \<and> \<not> given (sg_llm_adversarial_model s), ''LLM_ADVERSARIAL_MODEL is required''),
      (given_without [''http://'', ''https://''] (sg_llm_base_url s), ''LLM_BASE_URL must use http or https''),
      (py_strip (sg_llm_provider_id s) = [], ''LLM_PROVIDER_ID must not be blank''),
      (list_ex (\<lambda>m. py_strip m = []) (sg_llm_judge_models s), ''LLM judge model names must not be blank''),
      (not_positive (sg_llm_timeout_seconds s), ''LLM_TIMEOUT_SECONDS must be greater than zero''),
      (sg_llm_max_attempts s \<le> 0, ''LLM_MAX_ATTEMPTS must be greater than zero''),
      (sg_llm_max_output_tokens s \<le> 0, ''LLM_MAX_OUTPUT_TOKENS must be greater than zero''),
      (sg_llm_max_input_bytes s \<le> 0 \<or> sg_llm_max_response_bytes s \<le> 0,
        ''LLM input and response limits must be greater than zero''),
      (sg_llm_max_adversarial_tests s \<le> 0, ''LLM_MAX_ADVERSARIAL_TESTS must be greater than zero''),
      (\<not> (float_le (Finite 0) (sg_llm_temperature s) \<and> float_le (sg_llm_temperature s) (Finite 2)),
        ''LLM_TEMPERATURE must be between 0 and 2''),
      (\<not> (float_less (Finite 0) (sg_llm_top_p s) \<and> float_le (sg_llm_top_p s) (Finite 1)),
        ''LLM_TOP_P must be greater than zero and at most one''),
      (\<not> (float_le (Finite 0) (sg_llm_disagreement_threshold s) \<and> float_le (sg_llm_disagreement_threshold s) (Finite 100)),
        ''LLM_DISAGREEMENT_THRESHOLD must be between 0 and 100''),
      (sg_benchmark_enabled s \<and> (\<not> sg_persistence_enabled s \<or> \<not> given (sg_database_url s)),
        ''Benchmarking requires PostgreSQL persistence''),
      (sg_benchmark_enabled s \<and> \<not> given (sg_redis_url s), ''REDIS_URL is required when benchmarking is enabled''),
      (sg_benchmark_enabled s \<and> \<not> given (sg_benchmark_config_path s)
         \<and> (\<not> given (sg_benchmark_base_url s) \<or> \<not> given (sg_benchmark_api_key s)),
        ''BENCHMARK_CONFIG or BENCHMARK_BASE_URL and BENCHMARK_API_KEY are required when benchmarking is enabled''),
      (given_without [''http://'', ''https://''] (sg_benchmark_base_url s), ''BENCHMARK_BASE_URL must use http or https''),
      (py_strip (sg_benchmark_provider_id s) = [], ''BENCHMARK_PROVIDER_ID must not be blank''),
      (list_ex (\<lambda>v. v \<le> 0) [sg_benchmark_generation_concurrency s, sg_max_benchmark_models s, sg_max_benchmark_tasks s,
         sg_max_benchmark_samples_per_task s, sg_max_benchmark_total_generations s],
        ''Benchmark concurrency and limits must be greater than zero'')]"

definition Settings :: "settings \<Rightarrow> string + settings" where
  "Settings s = (case find fst (settings_checks s) of None \<Rightarrow> Inr s | Some (_, message) \<Rightarrow> Inl message)"

definition from_env :: "environment \<Rightarrow> string + settings" where
  "from_env env = and_then (run_readers (environment_readers env) default_settings) Settings"

section \<open>Settings that can be constructed\<close>

text \<open>A number that the checks accept as positive: positive, or NaN, for which every comparison is false.\<close>

definition positive_or_nan :: "env_float \<Rightarrow> bool" where
  "positive_or_nan v \<longleftrightarrow> (case v of Finite x \<Rightarrow> 0 < x | PosInf \<Rightarrow> True | NegInf \<Rightarrow> False | NaN \<Rightarrow> True)"

definition between :: "rat \<Rightarrow> rat \<Rightarrow> env_float \<Rightarrow> bool" where
  "between a b v \<longleftrightarrow> (case v of Finite x \<Rightarrow> a \<le> x \<and> x \<le> b | _ \<Rightarrow> False)"

lemma positive_or_nan_iff: "positive_or_nan v \<longleftrightarrow> \<not> float_le v (Finite 0)"
  by (cases v) (auto simp: positive_or_nan_def float_le_def)

lemma between_iff: "float_le (Finite a) v \<and> float_le v (Finite b) \<longleftrightarrow> between a b v"
  by (cases v) (auto simp: between_def float_le_def)

text \<open>Limits, addresses and modes fit together.\<close>

definition limits_positive :: "settings \<Rightarrow> bool" where
  "limits_positive s \<longleftrightarrow>
     list_all (\<lambda>v. 0 < v) [sg_max_code_size s, sg_sandbox_memory_mb s, sg_sandbox_pids_limit s, sg_sandbox_output_limit_bytes s,
       sg_static_analysis_output_limit_bytes s, sg_worker_concurrency s, sg_worker_max_attempts s, sg_llm_max_attempts s,
       sg_llm_max_output_tokens s, sg_llm_max_input_bytes s, sg_llm_max_response_bytes s, sg_llm_max_adversarial_tests s,
       sg_benchmark_generation_concurrency s, sg_max_benchmark_models s, sg_max_benchmark_tasks s,
       sg_max_benchmark_samples_per_task s, sg_max_benchmark_total_generations s]
     \<and> list_all positive_or_nan [sg_default_execution_timeout s, sg_sandbox_cpus s, sg_sandbox_timeout_seconds s,
         sg_static_analysis_timeout_seconds s, sg_worker_lease_seconds s, sg_outbox_poll_interval_seconds s,
         sg_retry_base_delay_seconds s, sg_llm_timeout_seconds s]
     \<and> between 0 2 (sg_llm_temperature s) \<and> between (fl64 (1 / 1000000)) 1 (sg_llm_top_p s)
     \<and> between 0 100 (sg_llm_disagreement_threshold s)"

definition modes_configured :: "settings \<Rightarrow> bool" where
  "modes_configured s \<longleftrightarrow>
     (sg_persistence_enabled s \<longrightarrow> given (sg_database_url s))
     \<and> (sg_evaluation_mode s = ASYNC \<longrightarrow> sg_persistence_enabled s \<and> given (sg_redis_url s))
     \<and> (sg_llm_enabled s \<longrightarrow> sg_persistence_enabled s \<and> given (sg_llm_base_url s) \<and> given (sg_llm_api_key s)
          \<and> sg_llm_judge_models s \<noteq> [] \<and> given (sg_llm_adversarial_model s))
     \<and> (sg_benchmark_enabled s \<longrightarrow> sg_persistence_enabled s \<and> given (sg_redis_url s)
          \<and> (given (sg_benchmark_config_path s) \<or> given (sg_benchmark_base_url s) \<and> given (sg_benchmark_api_key s)))"

lemma Settings_Inr: "Settings s = Inr s' \<longleftrightarrow> s' = s \<and> list_all (\<lambda>c. \<not> fst c) (settings_checks s)"
proof (cases "find fst (settings_checks s)")
  case None
  then have "list_all (\<lambda>c. \<not> fst c) (settings_checks s)"
    unfolding find_None_iff list_all_iff by blast
  with None show ?thesis by (auto simp: Settings_def)
next
  case (Some c)
  then have "\<not> list_all (\<lambda>c. \<not> fst c) (settings_checks s)" by (auto simp: find_Some_iff list_all_iff dest: nth_mem)
  with Some show ?thesis by (auto simp: Settings_def split: prod.splits)
qed

lemma read_with_Inr [simp]: "read_with r f s = Inr s' \<longleftrightarrow> (\<exists>v. r = Inr v \<and> s' = f v s)"
  by (cases r) (auto simp: read_with_def)

lemma betweenI: "float_le (Finite a) v \<Longrightarrow> float_le v (Finite b) \<Longrightarrow> between a b v"
  by (simp flip: between_iff)

lemma less_not_NaN: "float_less x v \<Longrightarrow> v \<noteq> NaN"
  by (cases v) auto

lemma readers_positive:
  "positive_int env name d = Inr v \<Longrightarrow> 0 < v" "positive_float env name e = Inr w \<Longrightarrow> positive_or_nan w"
  by (auto simp: positive_int_def positive_float_def positive_or_nan_iff split: if_splits)

lemma bounded_between: "bounded_float env name d a b t = Inr v \<Longrightarrow> v \<noteq> NaN \<Longrightarrow> between a b v"
  by (cases v) (auto simp: bounded_float_def between_def float_le_def split: if_splits)

text \<open>What the readers of the environment guarantee on their own, for the fields that \<open>__post_init__\<close>
  does not check again: every reader keeps it, whatever the order.\<close>

definition limits_read :: "settings \<Rightarrow> bool" where
  "limits_read s \<longleftrightarrow>
     0 < sg_max_code_size s \<and> 0 < sg_sandbox_memory_mb s \<and> 0 < sg_sandbox_pids_limit s
     \<and> 0 < sg_sandbox_output_limit_bytes s \<and> 0 < sg_static_analysis_output_limit_bytes s
     \<and> positive_or_nan (sg_default_execution_timeout s) \<and> positive_or_nan (sg_sandbox_cpus s)
     \<and> positive_or_nan (sg_sandbox_timeout_seconds s) \<and> positive_or_nan (sg_static_analysis_timeout_seconds s)
     \<and> (sg_llm_top_p s \<noteq> NaN \<longrightarrow> between (fl64 (1 / 1000000)) 1 (sg_llm_top_p s))"

definition keeps :: "(settings \<Rightarrow> bool) \<Rightarrow> reader \<Rightarrow> bool" where
  "keeps P r \<longleftrightarrow> (\<forall>s s'. r s = Inr s' \<longrightarrow> P s \<longrightarrow> P s')"

lemma keeps_run: "list_all (keeps P) rs \<Longrightarrow> keeps P (run_readers rs)"
proof (induction rs)
  case (Cons r rs)
  show ?case unfolding keeps_def
  proof (intro allI impI)
    fix s s'
    assume "run_readers (r # rs) s = Inr s'" "P s"
    then obtain s1 where "r s = Inr s1" "run_readers rs s1 = Inr s'" by auto
    with Cons \<open>P s\<close> show "P s'" unfolding keeps_def list.pred_inject by blast
  qed
qed (simp add: keeps_def)

lemma keeps_read_with: "(\<And>v s. r = Inr v \<Longrightarrow> P s \<Longrightarrow> P (f v s)) \<Longrightarrow> keeps P (read_with r f)"
  by (auto simp: keeps_def)

lemma readers_keep_limits: "keeps limits_read (run_readers (environment_readers env))"
  unfolding environment_readers_def
  by (rule keeps_run, simp only: list.pred_inject, intro conjI TrueI)
    (rule keeps_read_with, (auto simp: limits_read_def dest: readers_positive bounded_between)[1])+

lemma default_limits: "limits_read default_settings"
proof -
  have "fl64 (1 / 1000000) \<le> 1" by code_simp
  then show ?thesis by (simp add: default_settings_def limits_read_def positive_or_nan_def between_def)
qed

text \<open>C21: Settings.from_env either refuses the environment or returns settings that can be used: every size,
  count and limit is positive, every timeout, lease and delay is positive (or the NaN that the comparisons
  let through), the sampling parameters of the judge lie in their intervals, and each enabled mode has the
  addresses, keys and models that it needs.\<close>
theorem settings_from_env_valid:
  assumes "from_env env = Inr s"
  shows "limits_positive s \<and> modes_configured s"
proof -
  obtain s0 where "run_readers (environment_readers env) default_settings = Inr s0" and "Settings s0 = Inr s"
    using assms by (auto simp: from_env_def)
  then have limits: "limits_read s" and checks: "list_all (\<lambda>c. \<not> fst c) (settings_checks s)"
    using readers_keep_limits default_limits by (auto simp: Settings_Inr keeps_def)
  show ?thesis
  proof
    show "limits_positive s"
      using limits checks unfolding limits_positive_def limits_read_def settings_checks_def
      by (simp add: not_positive_def flip: positive_or_nan_iff) (blast intro: betweenI dest: less_not_NaN)
    show "modes_configured s"
      using checks unfolding modes_configured_def settings_checks_def by simp
  qed
qed


definition ex_environment :: environment where
  "ex_environment = map_of
     [(''EVALUATION_MODE'', '' Async ''), (''PERSISTENCE_ENABLED'', ''yes''),
      (''DATABASE_URL'', ''postgresql+asyncpg://db/judge''), (''REDIS_URL'', ''redis://queue''),
      (''WORKER_CONCURRENCY'', ''1_6''), (''WORKER_LEASE_SECONDS'', ''7.5e1''), (''LLM_TOP_P'', ''0.5'')]"

lemma settings_from_env_valid_witness:
  "\<exists>s. from_env ex_environment = Inr s \<and> sg_evaluation_mode s = ASYNC \<and> sg_worker_concurrency s = 16
     \<and> sg_worker_lease_seconds s = Finite 75 \<and> limits_positive s \<and> modes_configured s"
proof -
  have "map_sum id (\<lambda>s. (sg_evaluation_mode s, sg_worker_concurrency s, sg_worker_lease_seconds s)) (from_env ex_environment)
      = Inr (ASYNC, 16, Finite 75)" by code_simp
  then obtain s where s: "from_env ex_environment = Inr s"
    and read: "sg_evaluation_mode s = ASYNC" "sg_worker_concurrency s = 16" "sg_worker_lease_seconds s = Finite 75"
    by (cases "from_env ex_environment") auto
  from read settings_from_env_valid[OF s] show ?thesis by (intro exI[of _ s] conjI s) simp_all
qed

text \<open>The NaN that the checks let through: a lease for which no comparison with the clock is true.\<close>

lemma nan_lease_accepted:
  "map_sum id sg_worker_lease_seconds (from_env [''WORKER_LEASE_SECONDS'' \<mapsto> ''nan'']) = Inr NaN"
  by code_simp

end
