(* ===== verification/BenchmarkModels.thy ===== *)
theory BenchmarkModels
  imports JobModels
begin

text \<open>
  The benchmark models of \<^verbatim>\<open>src/app/benchmarks/models.py\<close> that are persisted, and the columns and constraints that
  \<^verbatim>\<open>src/app/db/models.py\<close> declares for their tables. Decimals are exact rationals; the ranges of the integer
  columns are not modelled.
\<close>

section \<open>Models\<close>

datatype output_mode = STRUCTURED_JSON | RAW_SOURCE

datatype run_status = RUN_QUEUED | RUN_RUNNING | RUN_COMPLETED | RUN_PARTIAL | RUN_FAILED

datatype sample_status =
    SAMPLE_QUEUED | GENERATING | GENERATED | EVALUATING | SAMPLE_COMPLETED
  | GENERATION_FAILED | EVALUATION_FAILED | SKIPPED

definition TERMINAL_SAMPLE_STATUSES :: "sample_status set" where
  "TERMINAL_SAMPLE_STATUSES = {SAMPLE_COMPLETED, GENERATION_FAILED, EVALUATION_FAILED, SKIPPED}"

record pricing_snapshot =
  pc_pricing_version :: string
  pc_input_cost_per_million_tokens :: rat
  pc_output_cost_per_million_tokens :: rat
  pc_currency :: string

record benchmark_model_config =
  mc_model_config_id :: uuid
  mc_benchmark_run_id :: uuid
  mc_ordinal :: nat
  mc_provider_id :: string
  mc_model :: string
  mc_display_name :: string
  mc_temperature :: rat
  mc_top_p :: rat
  mc_max_output_tokens :: nat
  mc_seed :: "int option"
  mc_output_mode :: output_mode
  mc_request_timeout_seconds :: rat
  mc_max_concurrent_requests :: "nat option"
  mc_coding_prompt_hash :: string
  mc_model_configuration_fingerprint :: string
  mc_pricing :: "pricing_snapshot option"

text \<open>A run as its row; the model configurations are rows of their own table.\<close>

record benchmark_run =
  br_benchmark_run_id :: uuid
  br_created_at :: time
  br_started_at :: "time option"
  br_completed_at :: "time option"
  br_status :: run_status
  br_dataset_id :: string
  br_dataset_version :: string
  br_dataset_fingerprint :: string
  br_benchmark_policy_version :: string
  br_coding_prompt_version :: string
  br_coding_prompt_hash :: string
  br_evaluator_fingerprint :: string
  br_benchmark_run_fingerprint :: string
  br_samples_per_task :: nat
  br_planned_sample_count :: nat
  br_request_fingerprint :: string
  br_idempotency_key :: "string option"

record benchmark_sample =
  bs_benchmark_sample_id :: uuid
  bs_benchmark_run_id :: uuid
  bs_model_config_id :: uuid
  bs_evaluation_id :: uuid
  bs_task_id :: string
  bs_task_version :: string
  bs_task_fingerprint :: string
  bs_tests_fingerprint :: string
  bs_task_weight :: rat
  bs_sample_index :: nat
  bs_status :: sample_status
  bs_attempt_count :: nat
  bs_max_attempts :: nat
  bs_worker_id :: "string option"
  bs_lease_expires_at :: "time option"
  bs_failure_code :: "string option"
  bs_evaluation_duration_seconds :: "rat option"
  bs_total_duration_seconds :: "rat option"
  bs_created_at :: time
  bs_updated_at :: time
  bs_completed_at :: "time option"

record generated_artifact =
  ga_benchmark_sample_id :: uuid
  ga_source :: string
  ga_source_hash :: string
  ga_source_size :: nat
  ga_generation_attempts :: nat
  ga_provider_response_id :: "string option"
  ga_input_tokens :: "nat option"
  ga_output_tokens :: "nat option"
  ga_generation_latency_ms :: nat
  ga_pricing_version :: "string option"
  ga_generation_cost :: "rat option"
  ga_currency :: "string option"
  ga_created_at :: time

section \<open>Columns and checks\<close>

text \<open>The bounded string columns: a longer value is an error of the driver.\<close>

definition run_columns :: "benchmark_run \<Rightarrow> bool" where
  "run_columns r \<longleftrightarrow> length (br_dataset_fingerprint r) \<le> 64 \<and> length (br_coding_prompt_hash r) \<le> 64
     \<and> length (br_evaluator_fingerprint r) \<le> 64 \<and> length (br_benchmark_run_fingerprint r) \<le> 64
     \<and> length (br_request_fingerprint r) \<le> 64
     \<and> (case br_idempotency_key r of None \<Rightarrow> True | Some key \<Rightarrow> length key \<le> 255)"

definition config_columns :: "benchmark_model_config \<Rightarrow> bool" where
  "config_columns c \<longleftrightarrow> length (mc_coding_prompt_hash c) \<le> 64 \<and> length (mc_model_configuration_fingerprint c) \<le> 64
     \<and> (case mc_pricing c of None \<Rightarrow> True | Some p \<Rightarrow> length (pc_currency p) \<le> 3)"

definition sample_columns :: "benchmark_sample \<Rightarrow> bool" where
  "sample_columns s \<longleftrightarrow> length (bs_task_fingerprint s) \<le> 64 \<and> length (bs_tests_fingerprint s) \<le> 64
     \<and> (case bs_failure_code s of None \<Rightarrow> True | Some code \<Rightarrow> length code \<le> 128)"

definition artifact_columns :: "generated_artifact \<Rightarrow> bool" where
  "artifact_columns a \<longleftrightarrow> length (ga_source_hash a) \<le> 64
     \<and> (case ga_currency a of None \<Rightarrow> True | Some c \<Rightarrow> length c \<le> 3)"

text \<open>The check constraints; those of the status columns hold by type.\<close>

definition run_checks :: "benchmark_run \<Rightarrow> bool" where
  "run_checks r \<longleftrightarrow> 0 < br_samples_per_task r \<and> 0 < br_planned_sample_count r"

definition config_checks :: "benchmark_model_config \<Rightarrow> bool" where
  "config_checks c \<longleftrightarrow> 0 < mc_max_output_tokens c
     \<and> 0 < mc_request_timeout_seconds c \<and> mc_request_timeout_seconds c \<le> 600
     \<and> (case mc_max_concurrent_requests c of None \<Rightarrow> True | Some n \<Rightarrow> 0 < n \<and> n \<le> 100)"

definition sample_checks :: "benchmark_sample \<Rightarrow> bool" where
  "sample_checks s \<longleftrightarrow> 0 < bs_sample_index s \<and> 0 < bs_task_weight s
     \<and> 0 < bs_max_attempts s \<and> bs_attempt_count s \<le> bs_max_attempts s"

definition artifact_checks :: "generated_artifact \<Rightarrow> bool" where
  "artifact_checks a \<longleftrightarrow> 0 < ga_source_size a"

end
