(* ===== verification/BenchmarkRepository.thy ===== *)
theory BenchmarkRepository
  imports BenchmarkModels "HOL-Library.Multiset"
begin

text \<open>
  The PostgreSQL repository of benchmark runs, \<^verbatim>\<open>src/app/benchmarks/repositories.py\<close>: the plan, the lease and the
  outcome of every sample, the outbox, and the status of the run that follows from its samples. As in the job
  repository a transaction is one function on the database and \<open>fault\<close> is whether the driver raises
  \<^verbatim>\<open>SQLAlchemyError\<close>.
\<close>

section \<open>The database\<close>

record bench_db =
  bd_runs :: "benchmark_run list"
  bd_configs :: "benchmark_model_config list"
  bd_samples :: "benchmark_sample list"
  bd_artifacts :: "generated_artifact list"
  bd_outbox :: "outbox_event list"
  bd_evaluations :: "evaluation_row list"
  bd_fresh :: uuid

definition empty_bench :: bench_db where
  "empty_bench = \<lparr>bd_runs = [], bd_configs = [], bd_samples = [], bd_artifacts = [], bd_outbox = [],
     bd_evaluations = [], bd_fresh = 0\<rparr>"

abbreviation get_sample :: "bench_db \<Rightarrow> uuid \<Rightarrow> benchmark_sample option" where
  "get_sample db i \<equiv> row_get bs_benchmark_sample_id (bd_samples db) i"

abbreviation get_run :: "bench_db \<Rightarrow> uuid \<Rightarrow> benchmark_run option" where
  "get_run db i \<equiv> row_get br_benchmark_run_id (bd_runs db) i"

abbreviation get_artifact :: "bench_db \<Rightarrow> uuid \<Rightarrow> generated_artifact option" where
  "get_artifact db i \<equiv> row_get ga_benchmark_sample_id (bd_artifacts db) i"

definition put_sample :: "benchmark_sample \<Rightarrow> bench_db \<Rightarrow> bench_db" where
  "put_sample s db = db\<lparr>bd_samples := row_put bs_benchmark_sample_id (bs_benchmark_sample_id s) (\<lambda>_. s) (bd_samples db)\<rparr>"

definition put_run :: "benchmark_run \<Rightarrow> bench_db \<Rightarrow> bench_db" where
  "put_run r db = db\<lparr>bd_runs := row_put br_benchmark_run_id (br_benchmark_run_id r) (\<lambda>_. r) (bd_runs db)\<rparr>"

text \<open>Primary and foreign keys, unique and check constraints.\<close>

definition bench_keys :: "bench_db \<Rightarrow> bool" where
  "bench_keys db \<longleftrightarrow>
     row_wf br_benchmark_run_id (bd_runs db) \<and> row_wf mc_model_config_id (bd_configs db)
     \<and> row_wf bs_benchmark_sample_id (bd_samples db) \<and> row_wf ga_benchmark_sample_id (bd_artifacts db)
     \<and> row_wf oe_event_id (bd_outbox db) \<and> row_wf ev_evaluation_id (bd_evaluations db)
     \<and> distinct (opt_filter br_idempotency_key (bd_runs db))
     \<and> distinct (map (\<lambda>c. (mc_benchmark_run_id c, mc_ordinal c)) (bd_configs db))
     \<and> distinct (map (\<lambda>s. (bs_model_config_id s, bs_task_id s, bs_sample_index s)) (bd_samples db))
     \<and> row_wf bs_evaluation_id (bd_samples db)"

definition bench_references :: "bench_db \<Rightarrow> bool" where
  "bench_references db \<longleftrightarrow>
     (\<forall>c\<in>set (bd_configs db). mc_benchmark_run_id c \<in> br_benchmark_run_id ` set (bd_runs db))
     \<and> (\<forall>s\<in>set (bd_samples db). bs_benchmark_run_id s \<in> br_benchmark_run_id ` set (bd_runs db)
          \<and> bs_model_config_id s \<in> mc_model_config_id ` set (bd_configs db))
     \<and> (\<forall>a\<in>set (bd_artifacts db). ga_benchmark_sample_id a \<in> bs_benchmark_sample_id ` set (bd_samples db))
     \<and> (\<forall>e\<in>set (bd_outbox db). oe_aggregate_id e \<in> bs_benchmark_sample_id ` set (bd_samples db))"

definition bench_checks :: "bench_db \<Rightarrow> bool" where
  "bench_checks db \<longleftrightarrow>
     (\<forall>r\<in>set (bd_runs db). run_checks r) \<and> (\<forall>c\<in>set (bd_configs db). config_checks c)
     \<and> (\<forall>s\<in>set (bd_samples db). sample_checks s) \<and> (\<forall>a\<in>set (bd_artifacts db). artifact_checks a)
     \<and> (\<forall>e\<in>set (bd_evaluations db). evaluation_checks e)"

definition bench_columns :: "bench_db \<Rightarrow> bool" where
  "bench_columns db \<longleftrightarrow>
     (\<forall>r\<in>set (bd_runs db). run_columns r) \<and> (\<forall>c\<in>set (bd_configs db). config_columns c)
     \<and> (\<forall>s\<in>set (bd_samples db). sample_columns s) \<and> (\<forall>a\<in>set (bd_artifacts db). artifact_columns a)"

definition bench_constraints :: "bench_db \<Rightarrow> bool" where
  "bench_constraints db \<longleftrightarrow> bench_keys db \<and> bench_references db \<and> bench_checks db"

definition bench_commit :: "string \<Rightarrow> bench_db \<Rightarrow> bench_db \<Rightarrow> 'a \<Rightarrow> bench_db \<times> (repo_error + 'a)" where
  "bench_commit message db db' result =
     (if bench_columns db' \<and> bench_constraints db' then (db', Inr result) else (db, Inl (PersistenceFailure message)))"

definition BENCHMARK_SAMPLE_REQUESTED :: string where
  "BENCHMARK_SAMPLE_REQUESTED = ''benchmark.sample.requested''"

definition bench_outbox_record :: "uuid \<Rightarrow> uuid \<Rightarrow> time \<Rightarrow> time option \<Rightarrow> outbox_event" where
  "bench_outbox_record event_id sample_id created_at next_attempt_at =
     \<lparr>oe_event_id = event_id, oe_aggregate_id = sample_id, oe_event_type = BENCHMARK_SAMPLE_REQUESTED,
      oe_created_at = created_at, oe_published_at = None, oe_attempt_count = 0,
      oe_next_attempt_at = (case next_attempt_at of None \<Rightarrow> created_at | Some t \<Rightarrow> t),
      oe_last_error_code = None\<rparr>"

definition add_bench_outbox :: "uuid \<Rightarrow> time \<Rightarrow> time option \<Rightarrow> bench_db \<Rightarrow> bench_db" where
  "add_bench_outbox sample_id created_at next_attempt_at db =
     db\<lparr>bd_outbox := bd_outbox db @ [bench_outbox_record (bd_fresh db) sample_id created_at next_attempt_at],
        bd_fresh := bd_fresh db + 1\<rparr>"

section \<open>The plan\<close>

definition plan_unavailable :: repo_error where
  "plan_unavailable = PersistenceFailure ''Benchmark persistence is unavailable.''"

definition run_by_idempotency_key :: "bool \<Rightarrow> bench_db \<Rightarrow> string \<Rightarrow> repo_error + benchmark_run option" where
  "run_by_idempotency_key fault db key =
     (if fault then Inl (PersistenceFailure ''Benchmark idempotency lookup is unavailable.'')
      else Inr (find (\<lambda>r. br_idempotency_key r = Some key) (bd_runs db)))"

definition reuse_run :: "benchmark_run \<Rightarrow> string \<Rightarrow> repo_error + benchmark_run \<times> bool" where
  "reuse_run existing identity =
     (if br_request_fingerprint existing \<noteq> identity then Inl IdempotencyConflictError else Inr (existing, False))"

fun add_requests :: "benchmark_sample list \<Rightarrow> bench_db \<Rightarrow> bench_db" where
  "add_requests [] db = db"
| "add_requests (sample # samples) db =
     add_requests samples (add_bench_outbox (bs_benchmark_sample_id sample) (bs_created_at sample) None db)"

definition planned_db ::
    "bench_db \<Rightarrow> benchmark_run \<Rightarrow> benchmark_model_config list \<Rightarrow> benchmark_sample list \<Rightarrow> bench_db" where
  "planned_db db run configs samples =
     add_requests samples (db\<lparr>bd_runs := bd_runs db @ [run], bd_configs := bd_configs db @ configs,
       bd_samples := bd_samples db @ samples\<rparr>)"

text \<open>
  \<^verbatim>\<open>create_plan\<close>: only an integrity error of the insert is answered by a second lookup. \<open>env\<close> is what other sessions
  commit before the insert, \<open>env'\<close> before that lookup.
\<close>

definition create_plan ::
    "bool \<Rightarrow> bool \<Rightarrow> bool \<Rightarrow> (bench_db \<Rightarrow> bench_db) \<Rightarrow> (bench_db \<Rightarrow> bench_db) \<Rightarrow> bench_db \<Rightarrow> benchmark_run
     \<Rightarrow> benchmark_model_config list \<Rightarrow> benchmark_sample list \<Rightarrow> bench_db \<times> (repo_error + benchmark_run \<times> bool)" where
  "create_plan f1 f2 f3 env env' db run configs samples =
     (case (case br_idempotency_key run of None \<Rightarrow> Inr None | Some key \<Rightarrow> run_by_idempotency_key f1 db key) of
        Inl e \<Rightarrow> (db, Inl e)
      | Inr (Some existing) \<Rightarrow> (db, reuse_run existing (br_request_fingerprint run))
      | Inr None \<Rightarrow>
          (let db1 = env db; db2 = planned_db db1 run configs samples in
           if f2 \<or> \<not> bench_columns db2 then (db1, Inl plan_unavailable)
           else if bench_constraints db2 then (db2, Inr (run, True))
           else (case br_idempotency_key run of
              None \<Rightarrow> (env' db1, Inl plan_unavailable)
            | Some key \<Rightarrow>
                (case run_by_idempotency_key f3 (env' db1) key of
                   Inl e \<Rightarrow> (env' db1, Inl e)
                 | Inr (Some existing) \<Rightarrow> (env' db1, reuse_run existing (br_request_fingerprint run))
                 | Inr None \<Rightarrow> (env' db1, Inl plan_unavailable)))))"

section \<open>The status of a run\<close>

definition samples_of :: "bench_db \<Rightarrow> uuid \<Rightarrow> benchmark_sample list" where
  "samples_of db run_id = filter (\<lambda>s. bs_benchmark_run_id s = run_id) (bd_samples db)"

definition finished_run :: "benchmark_run \<Rightarrow> benchmark_sample list \<Rightarrow> time \<Rightarrow> benchmark_run" where
  "finished_run run samples now =
     run\<lparr>br_status := (if filter (\<lambda>s. bs_status s = SKIPPED) samples \<noteq> [] then RUN_PARTIAL else RUN_COMPLETED),
         br_completed_at := (if br_completed_at run = None then Some now else br_completed_at run)\<rparr>"

definition finish_run_if_terminal :: "bench_db \<Rightarrow> uuid \<Rightarrow> time \<Rightarrow> bench_db \<times> bool" where
  "finish_run_if_terminal db run_id now =
     (case get_run db run_id of
        None \<Rightarrow> (db, False)
      | Some run \<Rightarrow>
          if filter (\<lambda>s. bs_status s \<notin> TERMINAL_SAMPLE_STATUSES) (samples_of db run_id) = []
          then (put_run (finished_run run (samples_of db run_id) now) db, True)
          else (db, False))"

section \<open>Leases and outcomes\<close>

definition claimed_sample :: "bench_db \<Rightarrow> benchmark_sample \<Rightarrow> string \<Rightarrow> time \<Rightarrow> rat \<Rightarrow> benchmark_sample" where
  "claimed_sample db record worker_id now lease_seconds =
     record\<lparr>bs_status := (if get_artifact db (bs_benchmark_sample_id record) \<noteq> None then EVALUATING else GENERATING),
            bs_attempt_count := bs_attempt_count record + 1, bs_worker_id := Some worker_id,
            bs_lease_expires_at := Some (now + td_micros lease_seconds), bs_updated_at := now\<rparr>"

definition start_run :: "uuid \<Rightarrow> time \<Rightarrow> bench_db \<Rightarrow> bench_db" where
  "start_run run_id now db =
     (case get_run db run_id of
        None \<Rightarrow> db
      | Some run \<Rightarrow>
          if br_status run = RUN_QUEUED then put_run (run\<lparr>br_status := RUN_RUNNING, br_started_at := Some now\<rparr>) db
          else db)"

definition bench_claim ::
    "bool \<Rightarrow> bench_db \<Rightarrow> uuid \<Rightarrow> string \<Rightarrow> time \<Rightarrow> rat \<Rightarrow> bench_db \<times> (repo_error + benchmark_sample option)" where
  "bench_claim fault db sample_id worker_id now lease_seconds =
     (if fault then (db, Inl (PersistenceFailure ''Benchmark sample claim is unavailable.''))
      else case get_sample db sample_id of
        None \<Rightarrow> (db, Inr None)
      | Some record \<Rightarrow>
          if bs_status record \<in> TERMINAL_SAMPLE_STATUSES then (db, Inr None)
          else if bs_status record \<notin> {SAMPLE_QUEUED, GENERATED} then (db, Inr None)
          else let claimed = claimed_sample db record worker_id now lease_seconds in
            bench_commit ''Benchmark sample claim is unavailable.'' db
              (start_run (bs_benchmark_run_id record) now (put_sample claimed db)) (Some claimed))"

definition owns_active_benchmark_lease :: "benchmark_sample \<Rightarrow> string \<Rightarrow> time \<Rightarrow> bool" where
  "owns_active_benchmark_lease record worker_id now \<longleftrightarrow>
     bs_worker_id record = Some worker_id
     \<and> (case bs_lease_expires_at record of None \<Rightarrow> False | Some t \<Rightarrow> now < t)
     \<and> bs_status record \<in> {GENERATING, EVALUATING}"

text \<open>\<^verbatim>\<open>renew_lease\<close> returns the time of the renewal and the new expiry.\<close>

definition bench_renew_lease ::
    "bool \<Rightarrow> bench_db \<Rightarrow> uuid \<Rightarrow> string \<Rightarrow> time \<Rightarrow> rat \<Rightarrow> bench_db \<times> (repo_error + (time \<times> time) option)" where
  "bench_renew_lease fault db sample_id worker_id now lease_seconds =
     (if fault then (db, Inl (PersistenceFailure ''Benchmark lease renewal is unavailable.''))
      else case get_sample db sample_id of
        None \<Rightarrow> (db, Inr None)
      | Some record \<Rightarrow>
          if bs_worker_id record \<noteq> Some worker_id
             \<or> (case bs_lease_expires_at record of None \<Rightarrow> True | Some t \<Rightarrow> t \<le> now) then (db, Inr None)
          else if bs_status record \<notin> {GENERATING, EVALUATING} then (db, Inr None)
          else let lease_expires_at = now + td_micros lease_seconds in
            bench_commit ''Benchmark lease renewal is unavailable.'' db
              (put_sample (record\<lparr>bs_lease_expires_at := Some lease_expires_at, bs_updated_at := now\<rparr>) db)
              (Some (now, lease_expires_at)))"

definition store_artifact ::
    "bool \<Rightarrow> bench_db \<Rightarrow> uuid \<Rightarrow> string \<Rightarrow> generated_artifact \<Rightarrow> time \<Rightarrow> bench_db \<times> (repo_error + bool)" where
  "store_artifact fault db sample_id worker_id artifact now =
     (if fault then (db, Inl (PersistenceFailure ''Benchmark artifact persistence is unavailable.''))
      else case get_sample db sample_id of
        None \<Rightarrow> (db, Inr False)
      | Some record \<Rightarrow>
          if \<not> owns_active_benchmark_lease record worker_id now then (db, Inr False)
          else (case get_artifact db sample_id of
             Some existing \<Rightarrow> (db, Inr (ga_source_hash existing = ga_source_hash artifact))
           | None \<Rightarrow>
               if bs_status record \<noteq> GENERATING then (db, Inr False)
               else bench_commit ''Benchmark artifact persistence is unavailable.'' db
                 (put_sample (record\<lparr>bs_status := EVALUATING, bs_updated_at := now\<rparr>)
                   (db\<lparr>bd_artifacts := bd_artifacts db @ [artifact]\<rparr>)) True))"

definition completed_sample :: "benchmark_sample \<Rightarrow> evaluation_snapshot \<Rightarrow> time \<Rightarrow> rat \<Rightarrow> benchmark_sample" where
  "completed_sample record snapshot now total_duration_seconds =
     record\<lparr>bs_status := SAMPLE_COMPLETED, bs_failure_code := None,
            bs_evaluation_duration_seconds := Some (sn_duration_seconds snapshot),
            bs_total_duration_seconds := Some total_duration_seconds, bs_completed_at := Some now, bs_updated_at := now,
            bs_worker_id := None, bs_lease_expires_at := None\<rparr>"

definition bench_complete ::
    "bool \<Rightarrow> bench_db \<Rightarrow> uuid \<Rightarrow> string \<Rightarrow> evaluation_snapshot \<Rightarrow> time \<Rightarrow> rat \<Rightarrow> bench_db \<times> (repo_error + bool)" where
  "bench_complete fault db sample_id worker_id snapshot now total_duration_seconds =
     (if fault then (db, Inl (PersistenceFailure ''Benchmark completion persistence is unavailable.''))
      else case get_sample db sample_id of
        None \<Rightarrow> (db, Inr False)
      | Some record \<Rightarrow>
          if sn_evaluation_id snapshot \<noteq> bs_evaluation_id record then (db, Inr False)
          else if bs_status record = SAMPLE_COMPLETED then (db, Inr True)
          else if \<not> owns_active_benchmark_lease record worker_id now then (db, Inr False)
          else let store = (\<lambda>db1. bench_commit ''Benchmark completion persistence is unavailable.'' db
                 (fst (finish_run_if_terminal (put_sample (completed_sample record snapshot now total_duration_seconds) db1)
                    (bs_benchmark_run_id record) now)) True) in
            (case row_get ev_evaluation_id (bd_evaluations db) (sn_evaluation_id snapshot) of
               None \<Rightarrow> store (db\<lparr>bd_evaluations := bd_evaluations db @ [evaluation_record_from_snapshot snapshot]\<rparr>)
             | Some existing \<Rightarrow>
                 if ev_source_hash existing \<noteq> sn_source_hash snapshot
                 then (db, Inl (PersistenceFailure ''Benchmark evaluation identity conflict.''))
                 else store db))"

text \<open>The two outcomes of a failed attempt, shared by \<^verbatim>\<open>record_failure\<close> and \<^verbatim>\<open>recover_stale\<close>.\<close>

definition released_sample :: "benchmark_sample \<Rightarrow> string \<Rightarrow> time \<Rightarrow> benchmark_sample" where
  "released_sample record code now =
     record\<lparr>bs_failure_code := Some code, bs_worker_id := None, bs_lease_expires_at := None, bs_updated_at := now\<rparr>"

definition requeue_sample :: "bench_db \<Rightarrow> benchmark_sample \<Rightarrow> time \<Rightarrow> rat \<Rightarrow> repo_error + bench_db" where
  "requeue_sample db record now base =
     (let i = bs_benchmark_sample_id record;
          status = (if get_artifact db i \<noteq> None then GENERATED else SAMPLE_QUEUED) in
      case retry_delay_seconds (bs_attempt_count record) base of
        Inl e \<Rightarrow> Inl e
      | Inr delay \<Rightarrow> Inr (add_bench_outbox i now (Some (now + td_micros delay))
            (put_sample (record\<lparr>bs_status := status\<rparr>) db)))"

definition end_sample :: "bench_db \<Rightarrow> benchmark_sample \<Rightarrow> sample_status \<Rightarrow> time \<Rightarrow> bench_db" where
  "end_sample db record status now =
     fst (finish_run_if_terminal (put_sample (record\<lparr>bs_status := status, bs_completed_at := Some now\<rparr>) db)
       (bs_benchmark_run_id record) now)"

definition bench_record_failure ::
    "bool \<Rightarrow> bench_db \<Rightarrow> uuid \<Rightarrow> string \<Rightarrow> string \<Rightarrow> bool \<Rightarrow> bool \<Rightarrow> time \<Rightarrow> rat
     \<Rightarrow> bench_db \<times> (repo_error + sample_status option)" where
  "bench_record_failure fault db sample_id worker_id code generation retryable now base =
     (if fault then (db, Inl (PersistenceFailure ''Benchmark failure persistence is unavailable.''))
      else case get_sample db sample_id of
        None \<Rightarrow> (db, Inr None)
      | Some record \<Rightarrow>
          if \<not> owns_active_benchmark_lease record worker_id now then (db, Inr None)
          else let released = released_sample record code now in
            if retryable \<and> bs_attempt_count record < bs_max_attempts record
            then (case requeue_sample db released now base of
               Inl e \<Rightarrow> (db, Inl e)
             | Inr db' \<Rightarrow> bench_commit ''Benchmark failure persistence is unavailable.'' db db'
                 (map_option bs_status (get_sample db' sample_id)))
            else let status = (if generation then GENERATION_FAILED else EVALUATION_FAILED) in
              bench_commit ''Benchmark failure persistence is unavailable.'' db
                (end_sample db released status now) (Some status))"

section \<open>Recovery\<close>

text \<open>
  The query of \<^verbatim>\<open>recover_stale\<close> has no order: \<open>scan\<close> is the order in which the database returns the rows, \<open>locked\<close>
  tells which of them another transaction holds.
\<close>

definition row_order :: "(benchmark_sample list \<Rightarrow> benchmark_sample list) \<Rightarrow> bool" where
  "row_order scan \<longleftrightarrow> (\<forall>xs. mset (scan xs) = mset xs)"

definition stale_samples ::
    "(benchmark_sample list \<Rightarrow> benchmark_sample list) \<Rightarrow> (uuid \<Rightarrow> bool) \<Rightarrow> bench_db \<Rightarrow> time \<Rightarrow> nat \<Rightarrow> benchmark_sample list" where
  "stale_samples scan locked db now limit =
     take limit (filter (\<lambda>s. \<not> locked (bs_benchmark_sample_id s))
       (scan (filter (\<lambda>s. bs_status s \<in> {GENERATING, EVALUATING}
           \<and> (case bs_lease_expires_at s of Some t \<Rightarrow> t < now | None \<Rightarrow> False)) (bd_samples db))))"

definition recover_sample :: "bench_db \<Rightarrow> benchmark_sample \<Rightarrow> time \<Rightarrow> rat \<Rightarrow> repo_error + bench_db" where
  "recover_sample db record now base =
     (let released = released_sample record ''worker_lease_expired'' now in
      if bs_attempt_count record < bs_max_attempts record then requeue_sample db released now base
      else Inr (end_sample db released SKIPPED now))"

fun recover_samples :: "bench_db \<Rightarrow> benchmark_sample list \<Rightarrow> time \<Rightarrow> rat \<Rightarrow> repo_error + bench_db" where
  "recover_samples db [] now base = Inr db"
| "recover_samples db (record # records) now base =
     (case recover_sample db record now base of
        Inl e \<Rightarrow> Inl e
      | Inr db' \<Rightarrow> recover_samples db' records now base)"

definition bench_recover_stale ::
    "bool \<Rightarrow> (benchmark_sample list \<Rightarrow> benchmark_sample list) \<Rightarrow> (uuid \<Rightarrow> bool) \<Rightarrow> bench_db \<Rightarrow> time \<Rightarrow> rat \<Rightarrow> nat
     \<Rightarrow> bench_db \<times> (repo_error + nat)" where
  "bench_recover_stale fault scan locked db now base limit =
     (if fault then (db, Inl (PersistenceFailure ''Benchmark recovery persistence is unavailable.''))
      else let records = stale_samples scan locked db now limit in
        (case recover_samples db records now base of
           Inl e \<Rightarrow> (db, Inl e)
         | Inr db' \<Rightarrow> bench_commit ''Benchmark recovery persistence is unavailable.'' db db' (length records)))"

definition open_runs :: "bench_db \<Rightarrow> nat \<Rightarrow> uuid list" where
  "open_runs db limit =
     take limit (map br_benchmark_run_id (sort_key br_created_at
       (filter (\<lambda>r. br_status r \<in> {RUN_QUEUED, RUN_RUNNING}) (bd_runs db))))"

fun finish_runs :: "bench_db \<Rightarrow> uuid list \<Rightarrow> time \<Rightarrow> nat \<Rightarrow> bench_db \<times> nat" where
  "finish_runs db [] now finalized = (db, finalized)"
| "finish_runs db (run_id # run_ids) now finalized =
     (case finish_run_if_terminal db run_id now of
        (db', finished) \<Rightarrow> finish_runs db' run_ids now (if finished then finalized + 1 else finalized))"

definition reconcile_terminal_runs :: "bool \<Rightarrow> bench_db \<Rightarrow> time \<Rightarrow> nat \<Rightarrow> bench_db \<times> (repo_error + nat)" where
  "reconcile_terminal_runs fault db now limit =
     (if fault then (db, Inl (PersistenceFailure ''Benchmark run reconciliation is unavailable.''))
      else case finish_runs db (open_runs db limit) now 0 of
        (db', finalized) \<Rightarrow> bench_commit ''Benchmark run reconciliation is unavailable.'' db db' finalized)"

section \<open>The outbox\<close>

definition bench_ready_outbox :: "bool \<Rightarrow> bench_db \<Rightarrow> time \<Rightarrow> nat \<Rightarrow> repo_error + outbox_event list" where
  "bench_ready_outbox fault db now limit =
     (if fault then Inl (PersistenceFailure ''Benchmark outbox persistence is unavailable.'')
      else Inr (take limit (sort_key (\<lambda>e. (oe_created_at e, oe_event_id e))
             (filter (\<lambda>e. oe_published_at e = None \<and> oe_next_attempt_at e \<le> now) (bd_outbox db)))))"

definition bench_update_outbox ::
    "bool \<Rightarrow> bench_db \<Rightarrow> uuid \<Rightarrow> time \<Rightarrow> bool \<Rightarrow> rat \<Rightarrow> bench_db \<times> (repo_error + bool)" where
  "bench_update_outbox fault db event_id now published base =
     (if fault then (db, Inl (PersistenceFailure ''Benchmark outbox persistence is unavailable.''))
      else case row_get oe_event_id (bd_outbox db) event_id of
        None \<Rightarrow> (db, Inr False)
      | Some event \<Rightarrow>
          if oe_published_at event \<noteq> None then (db, Inr published)
          else let put = (\<lambda>e. bench_commit ''Benchmark outbox persistence is unavailable.'' db
                 (db\<lparr>bd_outbox := row_put oe_event_id event_id (\<lambda>_. e) (bd_outbox db)\<rparr>) True);
                   counted = event\<lparr>oe_attempt_count := oe_attempt_count event + 1\<rparr> in
            if published then put (counted\<lparr>oe_published_at := Some now, oe_last_error_code := None\<rparr>)
            else (case retry_delay_seconds (oe_attempt_count counted) base of
               Inl e \<Rightarrow> (db, Inl e)
             | Inr delay \<Rightarrow> put (counted\<lparr>oe_last_error_code := Some ''queue_unavailable'',
                   oe_next_attempt_at := now + td_micros delay\<rparr>)))"

definition bench_mark_outbox_published :: "bool \<Rightarrow> bench_db \<Rightarrow> uuid \<Rightarrow> time \<Rightarrow> bench_db \<times> (repo_error + bool)" where
  "bench_mark_outbox_published fault db event_id now = bench_update_outbox fault db event_id now True 0"

definition bench_mark_outbox_failed ::
    "bool \<Rightarrow> bench_db \<Rightarrow> uuid \<Rightarrow> time \<Rightarrow> rat \<Rightarrow> bench_db \<times> (repo_error + bool)" where
  "bench_mark_outbox_failed fault db event_id now base = bench_update_outbox fault db event_id now False base"

section \<open>The steps\<close>

text \<open>A plan as \<^verbatim>\<open>BenchmarkService.create\<close> builds it: see the theory BenchmarkPlan.\<close>

definition new_sample :: "benchmark_run \<Rightarrow> benchmark_sample \<Rightarrow> bool" where
  "new_sample run s \<longleftrightarrow> bs_benchmark_run_id s = br_benchmark_run_id run \<and> bs_status s = SAMPLE_QUEUED
     \<and> bs_attempt_count s = 0 \<and> 0 < bs_max_attempts s \<and> bs_worker_id s = None \<and> bs_lease_expires_at s = None
     \<and> bs_failure_code s = None \<and> bs_completed_at s = None"

definition new_plan :: "benchmark_run \<Rightarrow> benchmark_model_config list \<Rightarrow> benchmark_sample list \<Rightarrow> bool" where
  "new_plan run configs samples \<longleftrightarrow> br_status run = RUN_QUEUED \<and> br_started_at run = None \<and> br_completed_at run = None
     \<and> samples \<noteq> [] \<and> list_all (new_sample run) samples"

text \<open>
  One rule per transaction, with every argument free; \<open>be_evaluation\<close> is an evaluation that another part of the program
  stores in the shared table.
\<close>

inductive bench_step :: "bench_db \<Rightarrow> bench_db \<Rightarrow> bool" where
  be_create: "new_plan run configs samples \<Longrightarrow>
    bench_step db (fst (create_plan f1 f2 f3 (\<lambda>d. d) (\<lambda>d. d) db run configs samples))"
| be_claim: "bench_step db (fst (bench_claim f db i w now l))"
| be_renew: "bench_step db (fst (bench_renew_lease f db i w now l))"
| be_artifact: "ga_benchmark_sample_id a = i \<Longrightarrow> bench_step db (fst (store_artifact f db i w a now))"
| be_complete: "bench_step db (fst (bench_complete f db i w sn now d))"
| be_failure: "bench_step db (fst (bench_record_failure f db i w code g r now base))"
| be_recover: "row_order scan \<Longrightarrow>
    bench_step db (fst (bench_recover_stale f scan locked db now base n))"
| be_reconcile: "bench_step db (fst (reconcile_terminal_runs f db now n))"
| be_outbox: "bench_step db (fst (bench_update_outbox f db e now p base))"
| be_evaluation: "evaluation_checks row \<Longrightarrow> row_get ev_evaluation_id (bd_evaluations db) (ev_evaluation_id row) = None \<Longrightarrow>
    bench_step db (db\<lparr>bd_evaluations := bd_evaluations db @ [row]\<rparr>)"

end
