(* ===== verification/BenchmarkSafety.thy ===== *)
theory BenchmarkSafety
  imports BenchmarkRepository Lifecycle
begin

text \<open>
  Safety of the benchmark repository: the invariant that ties the attempts, leases and artifacts of the samples and the
  status of their run together, its preservation by every transaction, and two interpretations of the \<open>lifecycle\<close>
  contract, one for samples and one for runs.
\<close>

section \<open>The invariant\<close>

definition terminal_sample :: "benchmark_sample \<Rightarrow> bool" where
  "terminal_sample s \<longleftrightarrow> bs_status s \<in> TERMINAL_SAMPLE_STATUSES"

definition active_sample :: "benchmark_sample \<Rightarrow> bool" where
  "active_sample s \<longleftrightarrow> bs_status s \<in> {GENERATING, EVALUATING}"

definition finished :: "benchmark_run \<Rightarrow> bool" where
  "finished r \<longleftrightarrow> br_status r \<in> {RUN_COMPLETED, RUN_PARTIAL}"

text \<open>
  A sample: attempts are bounded, with one left while it waits; it has an owner and a lease exactly while it is worked
  on and an end time exactly when it is terminal; it has no artifact while it waits for its generation or is generated,
  and one while it waits for its evaluation or is evaluated; a completed sample has a stored evaluation and no failure
  code, a failed or skipped one has a failure code. Of the artifact of a terminal sample nothing is said: a failed one may
  lack it, and \<^verbatim>\<open>complete\<close> itself also accepts a sample in generation.
\<close>

definition sample_ok :: "bench_db \<Rightarrow> benchmark_sample \<Rightarrow> bool" where
  "sample_ok db s \<longleftrightarrow>
     (bs_status s \<in> {SAMPLE_QUEUED, GENERATED} \<longrightarrow> bs_attempt_count s < bs_max_attempts s)
     \<and> (active_sample s \<longleftrightarrow> bs_worker_id s \<noteq> None) \<and> (active_sample s \<longleftrightarrow> bs_lease_expires_at s \<noteq> None)
     \<and> (active_sample s \<longrightarrow> 0 < bs_attempt_count s)
     \<and> (terminal_sample s \<longleftrightarrow> bs_completed_at s \<noteq> None)
     \<and> (bs_status s \<in> {SAMPLE_QUEUED, GENERATING} \<longrightarrow> get_artifact db (bs_benchmark_sample_id s) = None)
     \<and> (bs_status s \<in> {GENERATED, EVALUATING} \<longrightarrow> get_artifact db (bs_benchmark_sample_id s) \<noteq> None)
     \<and> (bs_status s = SAMPLE_COMPLETED \<longrightarrow> bs_failure_code s = None
          \<and> row_get ev_evaluation_id (bd_evaluations db) (bs_evaluation_id s) \<noteq> None)
     \<and> (terminal_sample s \<and> bs_status s \<noteq> SAMPLE_COMPLETED \<longrightarrow> bs_failure_code s \<noteq> None)"

text \<open>
  A run: it is finished exactly when all its samples are terminal, partial exactly when one of them was given up, and
  queued only while no sample was ever claimed.
\<close>

definition run_ok :: "benchmark_run \<Rightarrow> benchmark_sample set \<Rightarrow> bool" where
  "run_ok r ss \<longleftrightarrow> ss \<noteq> {} \<and> br_status r \<noteq> RUN_FAILED
     \<and> (finished r \<longleftrightarrow> (\<forall>s\<in>ss. terminal_sample s))
     \<and> (br_status r = RUN_PARTIAL \<longleftrightarrow> finished r \<and> (\<exists>s\<in>ss. bs_status s = SKIPPED))
     \<and> (finished r \<longleftrightarrow> br_completed_at r \<noteq> None)
     \<and> (br_status r = RUN_QUEUED \<longleftrightarrow> br_started_at r = None)
     \<and> (br_status r = RUN_QUEUED \<longrightarrow> (\<forall>s\<in>ss. bs_status s = SAMPLE_QUEUED \<and> bs_attempt_count s = 0))"

definition bench_ok :: "bench_db \<Rightarrow> bool" where
  "bench_ok db \<longleftrightarrow> bench_columns db \<and> bench_constraints db
     \<and> (\<forall>s\<in>set (bd_samples db). sample_ok db s)
     \<and> (\<forall>r\<in>set (bd_runs db). run_ok r (set (samples_of db (br_benchmark_run_id r))))
     \<and> (\<forall>e\<in>set (bd_outbox db). oe_event_id e < bd_fresh db)"

section \<open>Updates\<close>

lemma put_sample_fields [simp]:
  "bd_runs (put_sample s db) = bd_runs db" "bd_configs (put_sample s db) = bd_configs db"
  "bd_artifacts (put_sample s db) = bd_artifacts db" "bd_outbox (put_sample s db) = bd_outbox db"
  "bd_evaluations (put_sample s db) = bd_evaluations db" "bd_fresh (put_sample s db) = bd_fresh db"
  by (simp_all add: put_sample_def)

lemma put_run_fields [simp]:
  "bd_samples (put_run r db) = bd_samples db" "bd_configs (put_run r db) = bd_configs db"
  "bd_artifacts (put_run r db) = bd_artifacts db" "bd_outbox (put_run r db) = bd_outbox db"
  "bd_evaluations (put_run r db) = bd_evaluations db" "bd_fresh (put_run r db) = bd_fresh db"
  by (simp_all add: put_run_def)

lemma add_bench_outbox_fields [simp]:
  "bd_runs (add_bench_outbox i c n db) = bd_runs db" "bd_configs (add_bench_outbox i c n db) = bd_configs db"
  "bd_samples (add_bench_outbox i c n db) = bd_samples db" "bd_artifacts (add_bench_outbox i c n db) = bd_artifacts db"
  "bd_evaluations (add_bench_outbox i c n db) = bd_evaluations db"
  by (simp_all add: add_bench_outbox_def)

lemma samples_of_frame [simp]:
  "samples_of (put_run r db) k = samples_of db k" "samples_of (add_bench_outbox i c n db) k = samples_of db k"
  by (simp_all add: samples_of_def)

lemma get_sample_put:
  "get_sample (put_sample s db) i = (if i = bs_benchmark_sample_id s
     then map_option (\<lambda>_. s) (get_sample db i) else get_sample db i)"
  by (simp add: put_sample_def row_get_put_const)

lemma get_run_put:
  "get_run (put_run r db) i = (if i = br_benchmark_run_id r
     then map_option (\<lambda>_. r) (get_run db i) else get_run db i)"
  by (simp add: put_run_def row_get_put_const)

lemma sample_ok_frame:
  "bd_artifacts db' = bd_artifacts db \<Longrightarrow> bd_evaluations db' = bd_evaluations db \<Longrightarrow> sample_ok db' s = sample_ok db s"
  by (simp add: sample_ok_def)

lemma sample_ok_mono:
  "sample_ok db s \<Longrightarrow> get_artifact db' (bs_benchmark_sample_id s) = get_artifact db (bs_benchmark_sample_id s) \<Longrightarrow>
   (row_get ev_evaluation_id (bd_evaluations db) (bs_evaluation_id s) \<noteq> None \<longrightarrow>
      row_get ev_evaluation_id (bd_evaluations db') (bs_evaluation_id s) \<noteq> None) \<Longrightarrow> sample_ok db' s"
  unfolding sample_ok_def by metis

text \<open>
  What an update never changes of a sample and of a run: the columns that the triggers of the migration protect, and the
  time of creation.
\<close>

definition same_plan :: "benchmark_sample \<Rightarrow> benchmark_sample \<Rightarrow> bool" where
  "same_plan s' s \<longleftrightarrow> bs_benchmark_sample_id s' = bs_benchmark_sample_id s
     \<and> bs_benchmark_run_id s' = bs_benchmark_run_id s \<and> bs_model_config_id s' = bs_model_config_id s
     \<and> bs_evaluation_id s' = bs_evaluation_id s \<and> bs_task_id s' = bs_task_id s
     \<and> bs_sample_index s' = bs_sample_index s \<and> bs_task_version s' = bs_task_version s
     \<and> bs_task_fingerprint s' = bs_task_fingerprint s \<and> bs_tests_fingerprint s' = bs_tests_fingerprint s
     \<and> bs_task_weight s' = bs_task_weight s \<and> bs_max_attempts s' = bs_max_attempts s
     \<and> bs_created_at s' = bs_created_at s"

definition same_request :: "benchmark_run \<Rightarrow> benchmark_run \<Rightarrow> bool" where
  "same_request r' r \<longleftrightarrow>
     r'\<lparr>br_status := br_status r, br_started_at := br_started_at r, br_completed_at := br_completed_at r\<rparr> = r"

lemma same_request_refl [simp]: "same_request r r"
  by (simp add: same_request_def)

lemma same_request_trans: "same_request b a \<Longrightarrow> same_request c b \<Longrightarrow> same_request c a"
  by (cases a, cases b, cases c) (simp add: same_request_def)

lemma bench_okD:
  assumes "bench_ok db"
  shows "row_wf bs_benchmark_sample_id (bd_samples db)" "row_wf br_benchmark_run_id (bd_runs db)"
    "bench_columns db" "bench_constraints db"
  using assms by (auto simp: bench_ok_def bench_constraints_def bench_keys_def)

lemma get_sample_ok:
  assumes "bench_ok db" "get_sample db i = Some s"
  shows "sample_ok db s" "bs_benchmark_sample_id s = i" "s \<in> set (bd_samples db)" "sample_checks s" "sample_columns s"
  using assms row_get_key[OF assms(2)]
  by (auto simp: bench_ok_def bench_constraints_def bench_checks_def bench_columns_def)

lemma get_run_ok:
  assumes "bench_ok db" "get_run db k = Some r"
  shows "run_ok r (set (samples_of db k))" "br_benchmark_run_id r = k" "r \<in> set (bd_runs db)"
  using assms row_get_key[OF assms(2)] by (auto simp: bench_ok_def)

lemma run_of_sample:
  assumes "bench_ok db" "get_sample db i = Some s"
  obtains r where "get_run db (bs_benchmark_run_id s) = Some r"
proof -
  have "bs_benchmark_run_id s \<in> br_benchmark_run_id ` set (bd_runs db)"
    using assms(1) get_sample_ok(3)[OF assms] by (auto simp: bench_ok_def bench_constraints_def bench_references_def)
  with row_get_wf[OF bench_okD(2)[OF assms(1)]] that show ?thesis by (metis imageE)
qed

lemma put_sample_rows:
  assumes "row_wf bs_benchmark_sample_id (bd_samples db)" "get_sample db (bs_benchmark_sample_id s) = Some r"
  shows "set (bd_samples (put_sample s db)) = insert s {x \<in> set (bd_samples db). bs_benchmark_sample_id x \<noteq> bs_benchmark_sample_id s}"
  using row_get_key[OF assms(2)] by (force simp: put_sample_def row_put_def)

lemma samples_of_put:
  assumes "row_wf bs_benchmark_sample_id (bd_samples db)" "get_sample db (bs_benchmark_sample_id s) = Some r"
    and "same_plan s r"
  shows "set (samples_of (put_sample s db) k) =
    (if k = bs_benchmark_run_id s then insert s {x \<in> set (samples_of db k). bs_benchmark_sample_id x \<noteq> bs_benchmark_sample_id s}
     else set (samples_of db k))"
proof -
  have "x = r" if "x \<in> set (bd_samples db)" "bs_benchmark_sample_id x = bs_benchmark_sample_id s" for x
    using row_get_wf[OF assms(1) that(1)] assms(2) that(2) by simp
  with assms(3) show ?thesis
    unfolding samples_of_def set_filter put_sample_rows[OF assms(1,2)] by (auto simp: same_plan_def)
qed

lemma map_put_sample:
  assumes "row_wf bs_benchmark_sample_id (bd_samples db)" "get_sample db (bs_benchmark_sample_id s) = Some r" "h s = h r"
  shows "map h (bd_samples (put_sample s db)) = map h (bd_samples db)"
  using row_put_map[OF assms] by (simp add: put_sample_def)

lemma put_sample_constraints:
  assumes "bench_columns db" "bench_constraints db" "get_sample db (bs_benchmark_sample_id s) = Some r"
    and "same_plan s r" "sample_checks s" "sample_columns s"
  shows "bench_columns (put_sample s db)" "bench_constraints (put_sample s db)"
proof -
  have wf: "row_wf bs_benchmark_sample_id (bd_samples db)" using assms(2) by (simp add: bench_constraints_def bench_keys_def)
  note rows = put_sample_rows[OF wf assms(3)]
  note keep = map_put_sample[OF wf assms(3)]
  have r: "r \<in> set (bd_samples db)" using row_get_in[OF assms(3)] .
  have ids: "bs_benchmark_sample_id ` set (bd_samples (put_sample s db)) = bs_benchmark_sample_id ` set (bd_samples db)"
    using keep[of bs_benchmark_sample_id] assms(4) by (metis list.set_map same_plan_def)
  show "bench_columns (put_sample s db)"
    using assms(1,6) by (auto simp: bench_columns_def rows)
  have "bench_keys (put_sample s db)"
    using assms(2,4) keep[of bs_benchmark_sample_id] keep[of bs_evaluation_id]
      keep[of "\<lambda>s. (bs_model_config_id s, bs_task_id s, bs_sample_index s)"]
    by (simp add: bench_constraints_def bench_keys_def row_wf_def same_plan_def)
  moreover have "bench_references (put_sample s db)"
    using assms(2,4) r unfolding bench_constraints_def bench_references_def ids by (auto simp: rows same_plan_def)
  moreover have "bench_checks (put_sample s db)"
    using assms(2,5) by (auto simp: bench_constraints_def bench_checks_def rows)
  ultimately show "bench_constraints (put_sample s db)" by (simp add: bench_constraints_def)
qed

lemma put_run_rows:
  assumes "row_wf br_benchmark_run_id (bd_runs db)" "get_run db (br_benchmark_run_id r') = Some r"
  shows "set (bd_runs (put_run r' db)) = insert r' {x \<in> set (bd_runs db). br_benchmark_run_id x \<noteq> br_benchmark_run_id r'}"
  using row_get_key[OF assms(2)] by (force simp: put_run_def row_put_def)

lemma put_run_constraints:
  assumes "bench_columns db" "bench_constraints db" "get_run db (br_benchmark_run_id r') = Some r"
    and "br_idempotency_key r' = br_idempotency_key r" "run_checks r'" "run_columns r'"
  shows "bench_columns (put_run r' db)" "bench_constraints (put_run r' db)"
proof -
  have wf: "row_wf br_benchmark_run_id (bd_runs db)" using assms(2) by (simp add: bench_constraints_def bench_keys_def)
  note rows = put_run_rows[OF wf assms(3)]
  have keep: "map h (bd_runs (put_run r' db)) = map h (bd_runs db)" if "h r' = h r" for h :: "benchmark_run \<Rightarrow> 'a"
    using row_put_map[OF wf assms(3), of h r'] that by (simp add: put_run_def)
  have key: "map br_benchmark_run_id (bd_runs (put_run r' db)) = map br_benchmark_run_id (bd_runs db)"
    using row_put_map[OF wf assms(3), of br_benchmark_run_id r'] row_get_key[OF assms(3)] by (simp add: put_run_def)
  have ids: "br_benchmark_run_id ` set (bd_runs (put_run r' db)) = br_benchmark_run_id ` set (bd_runs db)"
    using key by (metis list.set_map)
  have idem: "opt_filter br_idempotency_key (bd_runs (put_run r' db)) = opt_filter br_idempotency_key (bd_runs db)"
    using row_put_map[OF wf assms(3,4)] by (intro opt_filter_cong) (simp add: put_run_def)
  show "bench_columns (put_run r' db)" using assms(1,6) by (auto simp: bench_columns_def rows)
  have "bench_keys (put_run r' db)"
    using assms(2) key idem by (simp add: bench_constraints_def bench_keys_def row_wf_def)
  moreover have "bench_references (put_run r' db)"
    using assms(2) unfolding bench_constraints_def bench_references_def ids by simp
  moreover have "bench_checks (put_run r' db)"
    using assms(2,5) by (auto simp: bench_constraints_def bench_checks_def rows)
  ultimately show "bench_constraints (put_run r' db)" by (simp add: bench_constraints_def)
qed

lemma commit_bench_ok: "bench_ok db' \<Longrightarrow> bench_commit m db db' x = (db', Inr x)"
  by (simp add: bench_commit_def bench_ok_def)

lemma commit_bench_fst: "fst (bench_commit m db db' x) = db
   \<or> fst (bench_commit m db db' x) = db' \<and> bench_columns db' \<and> bench_constraints db'"
  by (simp add: bench_commit_def)


section \<open>Each change keeps the invariant\<close>

text \<open>An update of a sample whose run is open before and after it.\<close>

lemma put_open_ok:
  assumes "bench_ok db" "get_sample db (bs_benchmark_sample_id s) = Some r" "same_plan s r"
    and "sample_checks s" "sample_columns s" "sample_ok db s"
    and "\<not> terminal_sample r" "\<not> terminal_sample s"
    and "\<And>run. get_run db (bs_benchmark_run_id s) = Some run \<Longrightarrow> br_status run \<noteq> RUN_QUEUED"
  shows "bench_ok (put_sample s db)"
proof -
  note wf = bench_okD(1)[OF assms(1)]
  have r: "r \<in> set (samples_of db (bs_benchmark_run_id s))"
    using row_get_in[OF assms(2)] assms(3) by (simp add: samples_of_def same_plan_def)
  have "run_ok run (set (samples_of (put_sample s db) (br_benchmark_run_id run)))" if "run \<in> set (bd_runs db)" for run
  proof (cases "br_benchmark_run_id run = bs_benchmark_run_id s")
    case True
    have ok: "run_ok run (set (samples_of db (bs_benchmark_run_id s)))"
      using assms(1) that True by (auto simp: bench_ok_def)
    have "br_status run \<noteq> RUN_QUEUED" using assms(9) row_get_wf[OF bench_okD(2)[OF assms(1)] that] True by simp
    with ok r assms(7,8) show ?thesis
      unfolding True samples_of_put[OF wf assms(2,3)] by (auto simp: run_ok_def finished_def)
  next
    case False
    with that assms(1) show ?thesis by (simp add: samples_of_put[OF wf assms(2,3)] bench_ok_def)
  qed
  moreover have "\<forall>x\<in>set (bd_samples (put_sample s db)). sample_ok (put_sample s db) x"
    using assms(1,6) unfolding put_sample_rows[OF wf assms(2)] by (auto simp: bench_ok_def sample_ok_frame[of "put_sample s db" db])
  ultimately show ?thesis
    using put_sample_constraints[OF bench_okD(3,4)[OF assms(1)] assms(2-5)] assms(1) by (simp add: bench_ok_def)
qed

text \<open>The end of a sample whose run is open: the run is finished with its last sample.\<close>

lemma put_end_ok:
  assumes "bench_ok db" "get_sample db (bs_benchmark_sample_id s) = Some r" "same_plan s r"
    and "sample_checks s" "sample_columns s" "sample_ok db s" "active_sample r" "terminal_sample s"
  shows "bench_ok (fst (finish_run_if_terminal (put_sample s db) (bs_benchmark_run_id s) now))"
proof -
  let ?k = "bs_benchmark_run_id s"
  let ?db = "put_sample s db"
  let ?ss = "set (samples_of ?db ?k)"
  note wf = bench_okD(1)[OF assms(1)]
  have k: "?k = bs_benchmark_run_id r" using assms(3) by (simp add: same_plan_def)
  have r: "r \<in> set (samples_of db ?k)"
    using row_get_in[OF assms(2)] k by (simp add: samples_of_def)
  obtain run where run: "get_run db ?k = Some run"
    using run_of_sample[OF assms(1,2)] k by auto
  note ok = get_run_ok[OF assms(1) run]
  have open_run: "\<not> finished run" "br_status run = RUN_RUNNING" "br_completed_at run = None" "br_started_at run \<noteq> None"
  proof -
    show "\<not> finished run" using ok(1) r assms(7)
      by (auto simp: run_ok_def terminal_sample_def active_sample_def TERMINAL_SAMPLE_STATUSES_def)
    moreover have "br_status run \<noteq> RUN_QUEUED" using ok(1) r assms(7) by (auto simp: run_ok_def active_sample_def)
    ultimately show "br_status run = RUN_RUNNING" "br_completed_at run = None" "br_started_at run \<noteq> None"
      using ok(1) by (cases "br_status run"; auto simp: run_ok_def finished_def)+
  qed
  have members: "?ss = insert s {x \<in> set (samples_of db ?k). bs_benchmark_sample_id x \<noteq> bs_benchmark_sample_id s}"
    by (simp add: samples_of_put[OF wf assms(2,3)])
  have samples: "\<forall>x\<in>set (bd_samples ?db). sample_ok ?db x"
    using assms(1,6) unfolding put_sample_rows[OF wf assms(2)] by (auto simp: bench_ok_def sample_ok_frame[of ?db db])
  have others: "run_ok x (set (samples_of ?db (br_benchmark_run_id x)))"
    if "x \<in> set (bd_runs db)" "br_benchmark_run_id x \<noteq> ?k" for x
    using that assms(1) by (simp add: samples_of_put[OF wf assms(2,3)] bench_ok_def)
  note cons = put_sample_constraints[OF bench_okD(3,4)[OF assms(1)] assms(2-5)]
  have unique: "x = run" if "x \<in> set (bd_runs db)" "br_benchmark_run_id x = ?k" for x
    using row_get_wf[OF bench_okD(2)[OF assms(1)] that(1)] run that(2) by simp
  show ?thesis
  proof (cases "\<forall>x\<in>?ss. terminal_sample x")
    case False
    then have eq: "fst (finish_run_if_terminal ?db ?k now) = ?db"
      using run by (auto simp: finish_run_if_terminal_def filter_empty_conv terminal_sample_def)
    have "run_ok run ?ss" using open_run False ok(1) members by (auto simp: run_ok_def finished_def)
    then have "\<forall>x\<in>set (bd_runs db). run_ok x (set (samples_of ?db (br_benchmark_run_id x)))"
      using others unique ok(2) by metis
    with eq show ?thesis using cons samples assms(1) by (simp add: bench_ok_def)
  next
    case True
    let ?run = "finished_run run (samples_of ?db ?k) now"
    have id: "br_benchmark_run_id ?run = ?k" using ok(2) by (simp add: finished_run_def)
    have eq: "fst (finish_run_if_terminal ?db ?k now) = put_run ?run ?db"
      using run True by (auto simp: finish_run_if_terminal_def filter_empty_conv terminal_sample_def)
    have old: "run_checks run" "run_columns run"
      using assms(1) ok(3) by (auto simp: bench_ok_def bench_constraints_def bench_checks_def bench_columns_def)
    have get: "get_run ?db (br_benchmark_run_id ?run) = Some run" unfolding id using run by simp
    have kept: "br_idempotency_key ?run = br_idempotency_key run" "run_checks ?run" "run_columns ?run"
      using old by (simp_all add: finished_run_def run_checks_def run_columns_def)
    have "run_ok ?run ?ss"
      using True members open_run unfolding run_ok_def finished_run_def finished_def by (auto simp: filter_empty_conv)
    moreover have wf': "row_wf br_benchmark_run_id (bd_runs ?db)" using bench_okD(2)[OF assms(1)] by simp
    ultimately have "\<forall>x\<in>set (bd_runs (put_run ?run ?db)). run_ok x (set (samples_of (put_run ?run ?db) (br_benchmark_run_id x)))"
      unfolding put_run_rows[OF wf' get] using others id by auto
    moreover have "\<forall>x\<in>set (bd_samples (put_run ?run ?db)). sample_ok (put_run ?run ?db) x"
      using samples by (simp add: sample_ok_frame[of "put_run ?run ?db" ?db])
    ultimately show ?thesis unfolding eq
      using put_run_constraints[OF cons get kept] assms(1) by (simp add: bench_ok_def)
  qed
qed

lemma start_run_ok:
  assumes "bench_ok db"
  shows "bench_ok (start_run k now db)"
proof (cases "\<exists>run. get_run db k = Some run \<and> br_status run = RUN_QUEUED")
  case False
  then have "start_run k now db = db" by (auto simp: start_run_def split: option.splits)
  with assms show ?thesis by simp
next
  case True
  then obtain run where run: "get_run db k = Some run" "br_status run = RUN_QUEUED" by blast
  let ?run = "run\<lparr>br_status := RUN_RUNNING, br_started_at := Some now\<rparr>"
  note ok = get_run_ok[OF assms(1) run(1)]
  have eq: "start_run k now db = put_run ?run db" using run by (simp add: start_run_def)
  have get: "get_run db (br_benchmark_run_id ?run) = Some run" using run(1) ok(2) by simp
  have old: "run_checks run" "run_columns run"
    using assms(1) ok(3) by (auto simp: bench_ok_def bench_constraints_def bench_checks_def bench_columns_def)
  then have kept: "br_idempotency_key ?run = br_idempotency_key run" "run_checks ?run" "run_columns ?run"
    by (simp_all add: run_checks_def run_columns_def)
  have "\<not> (\<forall>s\<in>set (samples_of db k). terminal_sample s)"
    using ok(1) run(2) by (auto simp: run_ok_def finished_def)
  then have "run_ok ?run (set (samples_of db k))"
    using ok(1) run(2) by (auto simp: run_ok_def finished_def)
  then have "\<forall>x\<in>set (bd_runs (put_run ?run db)). run_ok x (set (samples_of (put_run ?run db) (br_benchmark_run_id x)))"
    unfolding put_run_rows[OF bench_okD(2)[OF assms(1)] get] using assms(1) ok(2) by (auto simp: bench_ok_def)
  moreover have "\<forall>x\<in>set (bd_samples (put_run ?run db)). sample_ok (put_run ?run db) x"
    using assms(1) by (simp add: sample_ok_frame[of "put_run ?run db" db] bench_ok_def)
  ultimately show ?thesis unfolding eq
    using put_run_constraints[OF bench_okD(3,4)[OF assms(1)] get kept] assms(1) by (simp add: bench_ok_def)
qed

lemma add_bench_outbox_ok:
  assumes "bench_ok db" "i \<in> bs_benchmark_sample_id ` set (bd_samples db)"
  shows "bench_ok (add_bench_outbox i c n db)"
proof -
  have "bench_columns (add_bench_outbox i c n db)" using assms(1) by (simp add: bench_ok_def bench_columns_def)
  moreover have "bench_constraints (add_bench_outbox i c n db)" using assms
    by (auto simp: bench_ok_def bench_constraints_def bench_keys_def bench_references_def bench_checks_def
        add_bench_outbox_def bench_outbox_record_def row_wf_snoc row_get_None)
  moreover have "\<forall>s\<in>set (bd_samples (add_bench_outbox i c n db)). sample_ok (add_bench_outbox i c n db) s"
    using assms(1) by (simp add: sample_ok_frame[of "add_bench_outbox i c n db" db] bench_ok_def)
  moreover have "\<forall>e\<in>set (bd_outbox (add_bench_outbox i c n db)). oe_event_id e < bd_fresh (add_bench_outbox i c n db)"
    using assms(1) by (auto simp: bench_ok_def add_bench_outbox_def bench_outbox_record_def)
  ultimately show ?thesis using assms(1) by (simp add: bench_ok_def)
qed


section \<open>Evolution\<close>

text \<open>
  The transitions of the two status columns; the code has no table of them, they are what its operations do.
\<close>

fun sample_transitions :: "sample_status \<Rightarrow> sample_status set" where
  "sample_transitions SAMPLE_QUEUED = {GENERATING}"
| "sample_transitions GENERATED = {EVALUATING}"
| "sample_transitions GENERATING =
     {EVALUATING, SAMPLE_QUEUED, SAMPLE_COMPLETED, GENERATION_FAILED, EVALUATION_FAILED, SKIPPED}"
| "sample_transitions EVALUATING = {GENERATED, SAMPLE_COMPLETED, GENERATION_FAILED, EVALUATION_FAILED, SKIPPED}"
| "sample_transitions _ = {}"

fun run_transitions :: "run_status \<Rightarrow> run_status set" where
  "run_transitions RUN_QUEUED = {RUN_RUNNING}"
| "run_transitions RUN_RUNNING = {RUN_COMPLETED, RUN_PARTIAL}"
| "run_transitions _ = {}"

definition sample_legal :: "sample_status \<Rightarrow> sample_status \<Rightarrow> bool" where
  "sample_legal a b \<longleftrightarrow> b \<in> sample_transitions a"

definition run_legal :: "run_status \<Rightarrow> run_status \<Rightarrow> bool" where
  "run_legal a b \<longleftrightarrow> b \<in> run_transitions a"

text \<open>
  How a row may change over any number of steps: the plan of a sample and the request of a run are fixed, the attempts of
  a sample only grow, the status follows the transitions, and a terminal row does not change at all.
\<close>

definition sample_evolves :: "benchmark_sample \<Rightarrow> benchmark_sample \<Rightarrow> bool" where
  "sample_evolves s s' \<longleftrightarrow> same_plan s' s \<and> bs_attempt_count s \<le> bs_attempt_count s'
     \<and> sample_legal\<^sup>*\<^sup>* (bs_status s) (bs_status s') \<and> (terminal_sample s \<longrightarrow> s' = s)"

definition run_evolves :: "benchmark_run \<Rightarrow> benchmark_run \<Rightarrow> bool" where
  "run_evolves r r' \<longleftrightarrow> same_request r' r
     \<and> run_legal\<^sup>*\<^sup>* (br_status r) (br_status r') \<and> (finished r \<longrightarrow> r' = r)"

definition evolves :: "bench_db \<Rightarrow> bench_db \<Rightarrow> bool" where
  "evolves db db' \<longleftrightarrow> bench_ok db'
     \<and> (\<forall>i s. get_sample db i = Some s \<longrightarrow> (\<exists>s'. get_sample db' i = Some s' \<and> sample_evolves s s'))
     \<and> (\<forall>k r. get_run db k = Some r \<longrightarrow> (\<exists>r'. get_run db' k = Some r' \<and> run_evolves r r'))"

lemma sample_evolves_refl [simp]: "sample_evolves s s"
  by (simp add: sample_evolves_def same_plan_def)

lemma sample_evolves_trans: "sample_evolves a b \<Longrightarrow> sample_evolves b c \<Longrightarrow> sample_evolves a c"
  by (auto simp: sample_evolves_def same_plan_def)

lemma run_evolves_refl [simp]: "run_evolves r r"
  by (simp add: run_evolves_def)

lemma run_evolves_trans: "run_evolves a b \<Longrightarrow> run_evolves b c \<Longrightarrow> run_evolves a c"
  by (auto simp: run_evolves_def intro: same_request_trans)

lemma evolves_refl: "bench_ok db \<Longrightarrow> evolves db db"
  by (simp add: evolves_def)

lemma evolves_trans:
  assumes "evolves a b" "evolves b c"
  shows "evolves a c"
  using assms unfolding evolves_def by (meson run_evolves_trans sample_evolves_trans)

lemma evolves_ok: "evolves db db' \<Longrightarrow> bench_ok db'"
  by (simp add: evolves_def)

lemma evolves_frame:
  assumes "bench_ok db'" "bd_samples db' = bd_samples db" "bd_runs db' = bd_runs db"
  shows "evolves db db'"
  using assms by (simp add: evolves_def)

lemma evolves_put:
  assumes "get_sample db (bs_benchmark_sample_id s) = Some r" "sample_evolves r s" "bench_ok (put_sample s db)"
  shows "evolves db (put_sample s db)"
  using assms by (auto simp: evolves_def get_sample_put)

lemma legal_simps:
  "sample_legal SAMPLE_QUEUED GENERATING" "sample_legal GENERATED EVALUATING" "sample_legal GENERATING EVALUATING"
  "sample_legal GENERATING SAMPLE_QUEUED" "sample_legal EVALUATING GENERATED"
  "b \<in> TERMINAL_SAMPLE_STATUSES \<Longrightarrow> sample_legal GENERATING b" "b \<in> TERMINAL_SAMPLE_STATUSES \<Longrightarrow> sample_legal EVALUATING b"
  by (auto simp: sample_legal_def TERMINAL_SAMPLE_STATUSES_def)

lemma evolves_start:
  assumes "bench_ok db"
  shows "evolves db (start_run k now db)"
proof (cases "\<exists>run. get_run db k = Some run \<and> br_status run = RUN_QUEUED")
  case False
  then have "start_run k now db = db" by (auto simp: start_run_def split: option.splits)
  with assms show ?thesis by (simp add: evolves_refl)
next
  case True
  then obtain run where run: "get_run db k = Some run" "br_status run = RUN_QUEUED" by blast
  let ?run = "run\<lparr>br_status := RUN_RUNNING, br_started_at := Some now\<rparr>"
  have id: "br_benchmark_run_id run = k" by (rule get_run_ok(2)[OF assms run(1)])
  have eq: "start_run k now db = put_run ?run db" using run by (simp add: start_run_def)
  have "run_legal RUN_QUEUED RUN_RUNNING" by (simp add: run_legal_def)
  then have "run_evolves run ?run" using run(2) by (auto simp: run_evolves_def finished_def same_request_def)
  with run(1) id start_run_ok[OF assms, of k now] show ?thesis unfolding eq evolves_def by (auto simp: get_run_put)
qed

lemma evolves_end:
  assumes "bench_ok db" "get_sample db (bs_benchmark_sample_id s) = Some r" "same_plan s r"
    and "sample_checks s" "sample_columns s" "sample_ok db s" "active_sample r" "terminal_sample s"
    and "bs_attempt_count s = bs_attempt_count r"
  shows "evolves db (fst (finish_run_if_terminal (put_sample s db) (bs_benchmark_run_id s) now))"
proof -
  let ?k = "bs_benchmark_run_id s"
  let ?db = "put_sample s db"
  obtain run where run: "get_run db ?k = Some run"
    using run_of_sample[OF assms(1,2)] assms(3) by (auto simp: same_plan_def)
  note ok = get_run_ok[OF assms(1) run]
  have r: "r \<in> set (samples_of db ?k)"
    using row_get_in[OF assms(2)] assms(3) by (simp add: samples_of_def same_plan_def)
  have open_run: "br_status run = RUN_RUNNING" using ok(1) r assms(7)
    by (cases "br_status run")
      (auto simp: run_ok_def finished_def terminal_sample_def active_sample_def TERMINAL_SAMPLE_STATUSES_def)
  have "sample_evolves r s" using assms(3,7,8,9)
    by (auto simp: sample_evolves_def active_sample_def terminal_sample_def TERMINAL_SAMPLE_STATUSES_def
        intro!: r_into_rtranclp legal_simps)
  then have samples: "get_sample db i = Some x \<Longrightarrow> \<exists>s'. get_sample ?db i = Some s' \<and> sample_evolves x s'" for i x
    using assms(2) by (auto simp: get_sample_put)
  have "run_legal RUN_RUNNING (br_status (finished_run run (samples_of ?db ?k) now))"
    by (simp add: finished_run_def run_legal_def)
  with run open_run ok(2) have runs: "get_run db k = Some x \<Longrightarrow>
      \<exists>r'. get_run (fst (finish_run_if_terminal ?db ?k now)) k = Some r' \<and> run_evolves x r'" for k x
    by (auto simp: finish_run_if_terminal_def get_run_put run_evolves_def finished_def finished_run_def same_request_def)
  have same: "bd_samples (fst (finish_run_if_terminal ?db ?k now)) = bd_samples ?db"
    by (simp add: finish_run_if_terminal_def split: option.splits)
  show ?thesis unfolding evolves_def same
    using put_end_ok[OF assms(1-8)] samples runs by simp
qed


section \<open>The operations\<close>

lemma put_sample_start_run: "start_run k now (put_sample s db) = put_sample s (start_run k now db)"
  by (simp add: start_run_def put_sample_def put_run_def split: option.splits)

lemma start_run_frame [simp]:
  "bd_samples (start_run k now db) = bd_samples db" "bd_artifacts (start_run k now db) = bd_artifacts db"
  "bd_evaluations (start_run k now db) = bd_evaluations db"
  by (simp_all add: start_run_def split: option.splits)

lemma start_run_started:
  "bench_ok db \<Longrightarrow> get_run (start_run k now db) k = Some run \<Longrightarrow> br_status run \<noteq> RUN_QUEUED"
  by (auto simp: start_run_def get_run_put split: option.splits if_splits dest!: get_run_ok(2))

lemma evolves_open:
  assumes "bench_ok db" "get_sample db (bs_benchmark_sample_id s) = Some r" "same_plan s r"
    and "sample_checks s" "sample_columns s" "sample_ok db s" "sample_legal\<^sup>*\<^sup>* (bs_status r) (bs_status s)"
    and "\<not> terminal_sample r" "\<not> terminal_sample s" "bs_attempt_count r \<le> bs_attempt_count s"
    and "\<And>run. get_run db (bs_benchmark_run_id s) = Some run \<Longrightarrow> br_status run \<noteq> RUN_QUEUED"
  shows "evolves db (put_sample s db)"
  by (rule evolves_put[OF assms(2)])
    (use assms in \<open>auto simp: sample_evolves_def intro!: put_open_ok\<close>)

lemma active_started:
  assumes "bench_ok db" "get_sample db i = Some s" "active_sample s" "get_run db (bs_benchmark_run_id s) = Some run"
  shows "br_status run \<noteq> RUN_QUEUED"
proof -
  have "s \<in> set (samples_of db (bs_benchmark_run_id s))" using get_sample_ok(3)[OF assms(1,2)] by (simp add: samples_of_def)
  with get_run_ok(1)[OF assms(1,4)] assms(3) show ?thesis by (auto simp: run_ok_def active_sample_def)
qed

lemmas status_defs = terminal_sample_def active_sample_def TERMINAL_SAMPLE_STATUSES_def

definition claimable_sample :: "benchmark_sample \<Rightarrow> bool" where
  "claimable_sample s \<longleftrightarrow> bs_status s \<in> {SAMPLE_QUEUED, GENERATED}"

lemma claim_evolves:
  assumes "bench_ok db" "get_sample db i = Some r" "claimable_sample r"
  shows "evolves db (start_run (bs_benchmark_run_id r) now (put_sample (claimed_sample db r w now l) db))"
proof -
  let ?s = "claimed_sample db r w now l"
  let ?db = "start_run (bs_benchmark_run_id r) now db"
  note r = get_sample_ok[OF assms(1,2)]
  note ev = evolves_start[OF assms(1), of "bs_benchmark_run_id r" now]
  have "evolves ?db (put_sample ?s ?db)"
  proof (rule evolves_open[OF evolves_ok[OF ev]])
    show "get_sample ?db (bs_benchmark_sample_id ?s) = Some r" using assms(2) r(2) by (simp add: claimed_sample_def)
    show "sample_ok ?db ?s" using r(1,2) assms(3)
      by (cases "bs_status r") (auto simp: sample_ok_def claimed_sample_def claimable_sample_def status_defs)
    show "sample_checks ?s" using r(1,4) assms(3)
      by (cases "bs_status r") (auto simp: sample_checks_def sample_ok_def claimed_sample_def claimable_sample_def)
    show "sample_columns ?s" using r(5) by (simp add: sample_columns_def claimed_sample_def)
    show "sample_legal\<^sup>*\<^sup>* (bs_status r) (bs_status ?s)" using r(1,2) assms(3)
      by (cases "bs_status r") (auto simp: claimed_sample_def claimable_sample_def sample_ok_def intro!: r_into_rtranclp legal_simps)
    show "get_run ?db (bs_benchmark_run_id ?s) = Some run \<Longrightarrow> br_status run \<noteq> RUN_QUEUED" for run
      using start_run_started[OF assms(1)] by (simp add: claimed_sample_def)
  qed (use assms(3) in \<open>auto simp: same_plan_def claimed_sample_def claimable_sample_def status_defs\<close>)
  with ev show ?thesis unfolding put_sample_start_run by (rule evolves_trans)
qed

lemma bench_claim_taken:
  assumes "bench_ok db" "get_sample db i = Some r" "claimable_sample r"
  shows "bench_claim False db i w now l =
    (start_run (bs_benchmark_run_id r) now (put_sample (claimed_sample db r w now l) db),
     Inr (Some (claimed_sample db r w now l)))"
proof -
  have "bs_status r \<notin> TERMINAL_SAMPLE_STATUSES" using assms(3) by (auto simp: claimable_sample_def status_defs)
  then show ?thesis
    using assms claim_evolves[OF assms, of now w l]
    by (simp add: bench_claim_def Let_def claimable_sample_def commit_bench_ok evolves_def)
qed

lemma bench_claim_refused:
  "(\<And>r. get_sample db i = Some r \<Longrightarrow> \<not> claimable_sample r) \<Longrightarrow> fst (bench_claim f db i w now l) = db"
  by (auto simp: bench_claim_def claimable_sample_def split: option.splits)

lemma renew_evolves:
  assumes "bench_ok db" "get_sample db i = Some r" "active_sample r" "bs_worker_id r = Some w"
  shows "evolves db (put_sample (r\<lparr>bs_lease_expires_at := Some t, bs_updated_at := now\<rparr>) db)"
proof (rule evolves_open[OF assms(1)])
  note r = get_sample_ok[OF assms(1,2)]
  let ?s = "r\<lparr>bs_lease_expires_at := Some t, bs_updated_at := now\<rparr>"
  show "get_sample db (bs_benchmark_sample_id ?s) = Some r" using assms(2) r(2) by simp
  show "sample_ok db ?s" using r(1) assms(3) by (cases "bs_status r") (auto simp: sample_ok_def status_defs)
  show "sample_checks ?s" "sample_columns ?s" using r(4,5) by (simp_all add: sample_checks_def sample_columns_def)
  show "get_run db (bs_benchmark_run_id ?s) = Some run \<Longrightarrow> br_status run \<noteq> RUN_QUEUED" for run
    using active_started[OF assms(1-3)] by simp
qed (use assms(3) in \<open>auto simp: same_plan_def status_defs\<close>)

lemma commit_step: "evolves db db' \<Longrightarrow> evolves db (fst (bench_commit m db db' x))"
  by (simp add: commit_bench_ok evolves_def)

lemma renew_step:
  assumes "bench_ok db"
  shows "evolves db (fst (bench_renew_lease f db i w now l))"
proof (cases "\<exists>r. \<not> f \<and> get_sample db i = Some r \<and> active_sample r \<and> bs_worker_id r = Some w
    \<and> \<not> (case bs_lease_expires_at r of None \<Rightarrow> True | Some t \<Rightarrow> t \<le> now)")
  case True
  then obtain r where r: "\<not> f" "get_sample db i = Some r" "active_sample r" "bs_worker_id r = Some w"
    "\<not> (case bs_lease_expires_at r of None \<Rightarrow> True | Some t \<Rightarrow> t \<le> now)" by blast
  from renew_evolves[OF assms r(2-4), where t = "now + td_micros l" and now = now] r show ?thesis
    by (simp add: bench_renew_lease_def Let_def active_sample_def commit_step)
next
  case False
  then have "fst (bench_renew_lease f db i w now l) = db"
    by (auto simp: bench_renew_lease_def active_sample_def split: option.splits)
  with assms show ?thesis by (simp add: evolves_refl)
qed


lemma row_get_snoc_other: "key a \<noteq> k \<Longrightarrow> row_get key (t @ [a]) k = row_get key t k"
  by (simp add: table_simps split: option.splits)

lemma artifact_evolves:
  assumes "bench_ok db" "get_sample db i = Some r" "bs_status r = GENERATING" "ga_benchmark_sample_id a = i"
    and "s = r\<lparr>bs_status := EVALUATING, bs_updated_at := now\<rparr>" "db1 = db\<lparr>bd_artifacts := bd_artifacts db @ [a]\<rparr>"
    and "bench_columns (put_sample s db1)" "bench_constraints (put_sample s db1)"
  shows "evolves db (put_sample s db1)"
proof -
  note r = get_sample_ok[OF assms(1,2)]
  have act: "active_sample r" using assms(3) by (simp add: active_sample_def)
  have plan: "same_plan s r" using assms(5) by (simp add: same_plan_def)
  have id: "bs_benchmark_sample_id s = i" using r(2) assms(5) by simp
  have get: "get_sample db1 (bs_benchmark_sample_id s) = Some r" "get_sample db (bs_benchmark_sample_id s) = Some r"
    using assms(2,6) id by simp_all
  have wf: "row_wf bs_benchmark_sample_id (bd_samples db1)" "row_wf br_benchmark_run_id (bd_runs db)"
    using bench_okD[OF assms(1)] assms(6) by simp_all
  have member: "r \<in> set (samples_of db (bs_benchmark_run_id r))" using r(3) by (simp add: samples_of_def)
  have frame: "samples_of db1 k = samples_of db k" for k using assms(6) by (simp add: samples_of_def)
  have "run_ok run (set (samples_of (put_sample s db1) (br_benchmark_run_id run)))" if "run \<in> set (bd_runs db)" for run
  proof (cases "br_benchmark_run_id run = bs_benchmark_run_id s")
    case True
    have "run_ok run (set (samples_of db (bs_benchmark_run_id r)))"
      using assms(1,5) that True by (auto simp: bench_ok_def)
    moreover have "br_status run \<noteq> RUN_QUEUED"
      using active_started[OF assms(1,2) act] row_get_wf[OF wf(2) that] True assms(5) by simp
    ultimately show ?thesis using member assms(3,5)
      unfolding True samples_of_put[OF wf(1) get(1) plan] frame by (auto simp: run_ok_def finished_def status_defs)
  next
    case False
    with that assms(1) show ?thesis by (simp add: samples_of_put[OF wf(1) get(1) plan] frame bench_ok_def)
  qed
  moreover have "sample_ok (put_sample s db1) x" if "x \<in> set (bd_samples (put_sample s db1))" for x
  proof (cases "x = s")
    case True
    have "get_artifact db i = None" using r(1,2) assms(3) by (simp add: sample_ok_def)
    then have "get_artifact db1 i = Some a" using assms(4,6) by (simp add: table_simps)
    with True r(1,2) assms(3,5,6) show ?thesis by (simp add: sample_ok_def status_defs)
  next
    case False
    with that have "x \<in> set (bd_samples db)" "bs_benchmark_sample_id x \<noteq> i"
      using id assms(6) unfolding put_sample_rows[OF wf(1) get(1)] by auto
    with assms(1) have "sample_ok db x" by (simp add: bench_ok_def)
    then show ?thesis
      by (rule sample_ok_mono) (use \<open>bs_benchmark_sample_id x \<noteq> i\<close> assms(4,6) in \<open>simp_all add: row_get_snoc_other\<close>)
  qed
  ultimately have "bench_ok (put_sample s db1)"
    using assms(1,6-8) by (simp add: bench_ok_def)
  moreover have "sample_evolves r s" using assms(3,5) plan
    by (auto simp: sample_evolves_def status_defs intro!: r_into_rtranclp legal_simps)
  ultimately show ?thesis using get assms(6) by (auto simp: evolves_def get_sample_put)
qed

lemma artifact_step:
  assumes "bench_ok db" "ga_benchmark_sample_id a = i"
  shows "evolves db (fst (store_artifact f db i w a now))"
proof (cases "\<exists>r. \<not> f \<and> get_sample db i = Some r \<and> owns_active_benchmark_lease r w now
    \<and> get_artifact db i = None \<and> bs_status r = GENERATING")
  case True
  then obtain r where r: "\<not> f" "get_sample db i = Some r" "owns_active_benchmark_lease r w now"
    "get_artifact db i = None" "bs_status r = GENERATING" by blast
  let ?db = "put_sample (r\<lparr>bs_status := EVALUATING, bs_updated_at := now\<rparr>) (db\<lparr>bd_artifacts := bd_artifacts db @ [a]\<rparr>)"
  have "fst (store_artifact f db i w a now)
      = fst (bench_commit ''Benchmark artifact persistence is unavailable.'' db ?db True)"
    using r by (simp add: store_artifact_def)
  with commit_bench_fst[of "''Benchmark artifact persistence is unavailable.''" db ?db True]
    artifact_evolves[OF assms(1) r(2,5) assms(2) refl refl, of now] evolves_refl[OF assms(1)] show ?thesis by auto
next
  case False
  then have "fst (store_artifact f db i w a now) = db"
    by (auto simp: store_artifact_def split: option.splits)
  with assms(1) show ?thesis by (simp add: evolves_refl)
qed

lemma evaluation_evolves:
  assumes "bench_ok db" "evaluation_checks row" "row_wf ev_evaluation_id (bd_evaluations db @ [row])"
  shows "evolves db (db\<lparr>bd_evaluations := bd_evaluations db @ [row]\<rparr>)"
proof (rule evolves_frame)
  let ?db = "db\<lparr>bd_evaluations := bd_evaluations db @ [row]\<rparr>"
  have "sample_ok db s \<Longrightarrow> sample_ok ?db s" for s
    by (rule sample_ok_mono) (auto simp: table_simps split: option.splits)
  then show "bench_ok ?db" using assms
    by (auto simp: bench_ok_def bench_columns_def bench_constraints_def bench_keys_def bench_references_def
        bench_checks_def samples_of_def)
qed simp_all

text \<open>A released sample ends in a given terminal status.\<close>

lemma end_evolves:
  assumes "bench_ok db" "get_sample db i = Some r" "active_sample r"
    and "st \<in> {GENERATION_FAILED, EVALUATION_FAILED, SKIPPED}" "length code \<le> 128"
  shows "evolves db (end_sample db (released_sample r code now) st now)"
proof -
  note r = get_sample_ok[OF assms(1,2)]
  let ?s = "released_sample r code now\<lparr>bs_status := st, bs_completed_at := Some now\<rparr>"
  have "evolves db (fst (finish_run_if_terminal (put_sample ?s db) (bs_benchmark_run_id ?s) now))"
  proof (rule evolves_end[OF assms(1)])
    show "get_sample db (bs_benchmark_sample_id ?s) = Some r" using assms(2) r(2) by (simp add: released_sample_def)
    show "same_plan ?s r" by (simp add: same_plan_def released_sample_def)
    show "sample_checks ?s" "sample_columns ?s" using r(4,5) assms(5)
      by (simp_all add: sample_checks_def sample_columns_def released_sample_def)
    show "sample_ok db ?s" using assms(4) by (elim insertE) (simp_all add: sample_ok_def released_sample_def status_defs)
  qed (use assms(3,4) in \<open>auto simp: released_sample_def status_defs\<close>)
  then show ?thesis by (simp add: end_sample_def released_sample_def)
qed

lemma requeue_evolves:
  assumes "bench_ok db" "get_sample db i = Some r" "active_sample r"
    and "bs_attempt_count r < bs_max_attempts r" "length code \<le> 128"
  shows "\<exists>db'. requeue_sample db (released_sample r code now) now base = Inr db' \<and> evolves db db'"
proof -
  note r = get_sample_ok[OF assms(1,2)]
  let ?s = "(released_sample r code now)\<lparr>bs_status := if get_artifact db i \<noteq> None then GENERATED else SAMPLE_QUEUED\<rparr>"
  have "0 < bs_attempt_count r" using r(1) assms(3) by (simp add: sample_ok_def)
  then obtain d where d: "retry_delay_seconds (bs_attempt_count r) base = Inr d" by (auto simp: retry_delay_seconds_def)
  have art: "get_artifact db i \<noteq> None \<longleftrightarrow> bs_status r = EVALUATING"
    using r(1,2) assms(3) by (cases "bs_status r") (simp_all add: sample_ok_def status_defs)
  have put: "evolves db (put_sample ?s db)"
  proof (rule evolves_open[OF assms(1)])
    show "get_sample db (bs_benchmark_sample_id ?s) = Some r" using assms(2) r(2) by (simp add: released_sample_def)
    show "same_plan ?s r" by (simp add: same_plan_def released_sample_def)
    show "sample_checks ?s" "sample_columns ?s" using r(4,5) assms(5)
      by (simp_all add: sample_checks_def sample_columns_def released_sample_def)
    show "sample_ok db ?s" using r(1,2) assms(3,4)
      by (cases "bs_status r") (simp_all add: sample_ok_def released_sample_def status_defs)
    show "sample_legal\<^sup>*\<^sup>* (bs_status r) (bs_status ?s)" using assms(3) art
      by (cases "bs_status r") (auto simp: active_sample_def intro!: r_into_rtranclp legal_simps)
    show "get_run db (bs_benchmark_run_id ?s) = Some run \<Longrightarrow> br_status run \<noteq> RUN_QUEUED" for run
      using active_started[OF assms(1-3)] by (simp add: released_sample_def)
  qed (use assms(3) in \<open>auto simp: released_sample_def status_defs\<close>)
  have "i \<in> bs_benchmark_sample_id ` set (bd_samples (put_sample ?s db))"
    using get_sample_put[of ?s db i] assms(2) r(2) row_get_None[of bs_benchmark_sample_id "bd_samples (put_sample ?s db)" i]
    by (auto simp: released_sample_def)
  then have "bench_ok (add_bench_outbox i now (Some (now + td_micros d)) (put_sample ?s db))"
    by (rule add_bench_outbox_ok[OF evolves_ok[OF put]])
  then have "evolves (put_sample ?s db) (add_bench_outbox i now (Some (now + td_micros d)) (put_sample ?s db))"
    by (rule evolves_frame) simp_all
  with put d r(2) show ?thesis
    by (auto simp: requeue_sample_def Let_def released_sample_def intro: evolves_trans)
qed


lemma completed_evolves:
  assumes "bench_ok db" "get_sample db i = Some r" "active_sample r"
    and "row_get ev_evaluation_id (bd_evaluations db) (bs_evaluation_id r) \<noteq> None"
  shows "evolves db (fst (finish_run_if_terminal (put_sample (completed_sample r sn now d) db) (bs_benchmark_run_id r) now))"
proof -
  note r = get_sample_ok[OF assms(1,2)]
  let ?s = "completed_sample r sn now d"
  have "evolves db (fst (finish_run_if_terminal (put_sample ?s db) (bs_benchmark_run_id ?s) now))"
  proof (rule evolves_end[OF assms(1)])
    show "get_sample db (bs_benchmark_sample_id ?s) = Some r" using assms(2) r(2) by (simp add: completed_sample_def)
    show "same_plan ?s r" by (simp add: same_plan_def completed_sample_def)
    show "sample_checks ?s" "sample_columns ?s" using r(4,5)
      by (simp_all add: sample_checks_def sample_columns_def completed_sample_def)
    show "sample_ok db ?s" using assms(4) by (simp add: sample_ok_def completed_sample_def status_defs)
  qed (use assms(3) in \<open>auto simp: completed_sample_def status_defs\<close>)
  then show ?thesis by (simp add: completed_sample_def)
qed

lemma owner_active: "owns_active_benchmark_lease r w now \<Longrightarrow> active_sample r"
  by (auto simp: owns_active_benchmark_lease_def active_sample_def)

lemma finish_run_evaluations [simp]: "bd_evaluations (fst (finish_run_if_terminal db k now)) = bd_evaluations db"
  by (simp add: finish_run_if_terminal_def split: option.splits)

lemma complete_step:
  assumes "bench_ok db"
  shows "evolves db (fst (bench_complete f db i w sn now d))"
proof (cases "\<exists>r. \<not> f \<and> get_sample db i = Some r \<and> sn_evaluation_id sn = bs_evaluation_id r
    \<and> bs_status r \<noteq> SAMPLE_COMPLETED \<and> owns_active_benchmark_lease r w now")
  case True
  then obtain r where r: "\<not> f" "get_sample db i = Some r" "sn_evaluation_id sn = bs_evaluation_id r"
    "bs_status r \<noteq> SAMPLE_COMPLETED" "owns_active_benchmark_lease r w now" by blast
  define out where "out = (\<lambda>db1. fst (finish_run_if_terminal (put_sample (completed_sample r sn now d) db1) (bs_benchmark_run_id r) now))"
  let ?m = "''Benchmark completion persistence is unavailable.''"
  show ?thesis
  proof (cases "row_get ev_evaluation_id (bd_evaluations db) (bs_evaluation_id r)")
    case (Some row)
    then have "evolves db (out db)" unfolding out_def by (intro completed_evolves[OF assms r(2) owner_active[OF r(5)]]) simp
    moreover have "fst (bench_complete f db i w sn now d) \<in> {db, fst (bench_commit ?m db (out db) True)}"
      using r Some by (simp add: bench_complete_def Let_def out_def)
    ultimately show ?thesis using commit_step[of db "out db" ?m True] evolves_refl[OF assms] by auto
  next
    case None
    let ?row = "evaluation_record_from_snapshot sn"
    let ?db1 = "db\<lparr>bd_evaluations := bd_evaluations db @ [?row]\<rparr>"
    have eq: "fst (bench_complete f db i w sn now d) = fst (bench_commit ?m db (out ?db1) True)"
      using r None by (simp add: bench_complete_def Let_def out_def)
    have id: "ev_evaluation_id ?row = bs_evaluation_id r"
      using r(3) by (simp add: evaluation_record_from_snapshot_def Let_def)
    have rows: "bd_evaluations (out ?db1) = bd_evaluations db @ [?row]" by (simp add: out_def)
    have "evolves db (out ?db1)" if "bench_constraints (out ?db1)"
    proof -
      have "evaluation_checks ?row" "row_wf ev_evaluation_id (bd_evaluations db @ [?row])"
        using that rows by (auto simp: bench_constraints_def bench_checks_def bench_keys_def)
      from evaluation_evolves[OF assms this] have ev: "evolves db ?db1" .
      have "evolves ?db1 (out ?db1)" unfolding out_def
        by (rule completed_evolves[OF evolves_ok[OF ev] _ owner_active[OF r(5)]])
          (use r(2) None id in \<open>simp_all add: table_simps\<close>)
      with ev show ?thesis by (rule evolves_trans)
    qed
    with commit_bench_fst[of ?m db "out ?db1" True] evolves_refl[OF assms] show ?thesis unfolding eq by auto
  qed
next
  case False
  then have "fst (bench_complete f db i w sn now d) = db"
    by (auto simp: bench_complete_def split: option.splits)
  with assms show ?thesis by (simp add: evolves_refl)
qed

lemma failure_step:
  assumes "bench_ok db"
  shows "evolves db (fst (bench_record_failure f db i w code g p now base))"
proof (cases "\<exists>r. \<not> f \<and> get_sample db i = Some r \<and> owns_active_benchmark_lease r w now")
  case True
  then obtain r where r: "\<not> f" "get_sample db i = Some r" "owns_active_benchmark_lease r w now" by blast
  let ?m = "''Benchmark failure persistence is unavailable.''"
  note act = owner_active[OF r(3)]
  let ?released = "released_sample r code now"
  note ids = get_sample_ok(2)[OF assms r(2)]
  have short: "length code \<le> 128" if "bench_columns db'" "get_sample db' i = Some s" "bs_failure_code s = Some code" for db' s
    using that row_get_in[OF that(2)] by (auto simp: bench_columns_def sample_columns_def)
  show ?thesis
  proof (cases "p \<and> bs_attempt_count r < bs_max_attempts r")
    case True
    show ?thesis
    proof (cases "requeue_sample db ?released now base")
      case (Inl e)
      with r True show ?thesis by (simp add: bench_record_failure_def Let_def evolves_refl[OF assms])
    next
      case (Inr db')
      have eq: "fst (bench_record_failure f db i w code g p now base)
          = fst (bench_commit ?m db db' (map_option bs_status (get_sample db' i)))"
        using r True Inr by (simp add: bench_record_failure_def Let_def)
      have stored: "\<exists>s. get_sample db' i = Some s \<and> bs_failure_code s = Some code"
        using Inr r(2) ids
        by (auto simp: requeue_sample_def Let_def get_sample_put released_sample_def split: sum.splits)
      have "evolves db db'" if "bench_columns db'"
      proof -
        from stored short[OF that] have "length code \<le> 128" by blast
        with requeue_evolves[OF assms r(2) act, of code now base] True Inr show ?thesis by auto
      qed
      with commit_bench_fst[of ?m db db' "map_option bs_status (get_sample db' i)"] evolves_refl[OF assms]
      show ?thesis unfolding eq by auto
    qed
  next
    case False
    let ?st = "if g then GENERATION_FAILED else EVALUATION_FAILED"
    let ?db' = "end_sample db ?released ?st now"
    have eq: "fst (bench_record_failure f db i w code g p now base) = fst (bench_commit ?m db ?db' (Some ?st))"
      using r False by (auto simp: bench_record_failure_def Let_def)
    have "bd_samples ?db' = bd_samples (put_sample (?released\<lparr>bs_status := ?st, bs_completed_at := Some now\<rparr>) db)"
      by (simp add: end_sample_def finish_run_if_terminal_def split: option.splits)
    then have stored: "\<exists>s. get_sample ?db' i = Some s \<and> bs_failure_code s = Some code"
      using r(2) ids by (auto simp: get_sample_put released_sample_def)
    have "evolves db ?db'" if "bench_columns ?db'"
      using end_evolves[OF assms r(2) act, of ?st code now] short[OF that] stored by auto
    with commit_bench_fst[of ?m db ?db' "Some ?st"] evolves_refl[OF assms] show ?thesis unfolding eq by auto
  qed
next
  case False
  then have "fst (bench_record_failure f db i w code g p now base) = db"
    by (auto simp: bench_record_failure_def split: option.splits)
  with assms show ?thesis by (simp add: evolves_refl)
qed


lemma requeue_samples:
  "requeue_sample db r now base = Inr db' \<Longrightarrow> j \<noteq> bs_benchmark_sample_id r \<Longrightarrow> get_sample db' j = get_sample db j"
  by (auto simp: requeue_sample_def Let_def get_sample_put split: sum.splits)

lemma end_samples:
  "bd_samples (end_sample db r st now) = bd_samples (put_sample (r\<lparr>bs_status := st, bs_completed_at := Some now\<rparr>) db)"
  by (simp add: end_sample_def finish_run_if_terminal_def split: option.splits)

lemma recover_sample_evolves:
  assumes "bench_ok db" "get_sample db i = Some r" "active_sample r"
  shows "\<exists>db'. recover_sample db r now base = Inr db' \<and> evolves db db' \<and> (\<forall>j. j \<noteq> i \<longrightarrow> get_sample db' j = get_sample db j)"
proof -
  let ?code = "''worker_lease_expired''"
  have id: "bs_benchmark_sample_id (released_sample r ?code now) = i"
    using get_sample_ok(2)[OF assms(1,2)] by (simp add: released_sample_def)
  show ?thesis
  proof (cases "bs_attempt_count r < bs_max_attempts r")
    case True
    from requeue_evolves[OF assms True, of ?code now base] obtain db' where
      "requeue_sample db (released_sample r ?code now) now base = Inr db'" "evolves db db'" by auto
    moreover from this(1) have "\<forall>j. j \<noteq> i \<longrightarrow> get_sample db' j = get_sample db j"
      using requeue_samples id by metis
    ultimately show ?thesis using True by (simp add: recover_sample_def Let_def)
  next
    case False
    have "\<forall>j. j \<noteq> i \<longrightarrow> get_sample (end_sample db (released_sample r ?code now) SKIPPED now) j = get_sample db j"
      using id by (simp add: end_samples get_sample_put)
    with end_evolves[OF assms, of SKIPPED ?code now] False show ?thesis by (simp add: recover_sample_def Let_def)
  qed
qed

lemma recover_samples_evolve:
  assumes "bench_ok db" "distinct (map bs_benchmark_sample_id rs)"
    and "\<forall>r\<in>set rs. get_sample db (bs_benchmark_sample_id r) = Some r \<and> active_sample r"
  shows "\<exists>db'. recover_samples db rs now base = Inr db' \<and> evolves db db'"
  using assms
proof (induction rs arbitrary: db)
  case (Cons r rs)
  from recover_sample_evolves[OF Cons.prems(1), of "bs_benchmark_sample_id r" r now base] Cons.prems(3)
  obtain db1 where db1: "recover_sample db r now base = Inr db1" "evolves db db1"
    "\<And>j. j \<noteq> bs_benchmark_sample_id r \<Longrightarrow> get_sample db1 j = get_sample db j" by auto
  have "\<forall>x\<in>set rs. get_sample db1 (bs_benchmark_sample_id x) = Some x \<and> active_sample x"
    using Cons.prems(2,3) db1(3) by (auto simp: image_iff)
  with Cons.IH[OF evolves_ok[OF db1(2)]] Cons.prems(2) obtain db' where
    "recover_samples db1 rs now base = Inr db'" "evolves db1 db'" by auto
  with db1(1,2) show ?case by (auto intro: evolves_trans)
qed (simp add: evolves_refl)

lemma stale_samples_active:
  assumes "bench_ok db" "row_order scan"
  shows "distinct (map bs_benchmark_sample_id (stale_samples scan locked db now n))"
    "\<forall>r\<in>set (stale_samples scan locked db now n). get_sample db (bs_benchmark_sample_id r) = Some r \<and> active_sample r"
proof -
  note wf = bench_okD(1)[OF assms(1)]
  let ?cs = "filter (\<lambda>s. bs_status s \<in> {GENERATING, EVALUATING}
           \<and> (case bs_lease_expires_at s of Some t \<Rightarrow> t < now | None \<Rightarrow> False)) (bd_samples db)"
  have members: "set (scan ?cs) = set ?cs" using assms(2) by (intro mset_eq_setD) (simp add: row_order_def)
  have "distinct (map bs_benchmark_sample_id (bd_samples db))" using wf by (simp add: row_wf_def)
  then have "distinct (map bs_benchmark_sample_id ?cs)" by (rule distinct_map_filter)
  moreover have "mset (scan ?cs) = mset ?cs" using assms(2) by (simp add: row_order_def)
  then have "mset (map bs_benchmark_sample_id (scan ?cs)) = mset (map bs_benchmark_sample_id ?cs)"
    unfolding mset_map by (rule arg_cong)
  note mset_eq_imp_distinct_iff[OF this]
  ultimately have "distinct (map bs_benchmark_sample_id (scan ?cs))" by simp
  then have "distinct (map bs_benchmark_sample_id (filter (\<lambda>s. \<not> locked (bs_benchmark_sample_id s)) (scan ?cs)))"
    by (rule distinct_map_filter)
  then show "distinct (map bs_benchmark_sample_id (stale_samples scan locked db now n))"
    unfolding stale_samples_def take_map[symmetric] by (rule distinct_take)
  show "\<forall>r\<in>set (stale_samples scan locked db now n). get_sample db (bs_benchmark_sample_id r) = Some r \<and> active_sample r"
    using row_get_wf[OF wf] members by (auto simp: stale_samples_def active_sample_def dest!: in_set_takeD)
qed

lemma bench_recover_result:
  assumes "bench_ok db" "row_order scan"
  shows "\<exists>db'. bench_recover_stale False scan locked db now base n
      = (db', Inr (length (stale_samples scan locked db now n))) \<and> evolves db db'"
proof -
  from recover_samples_evolve[OF assms(1) stale_samples_active[OF assms, of locked now n], of now base]
  obtain db' where "recover_samples db (stale_samples scan locked db now n) now base = Inr db'" "evolves db db'" by blast
  then show ?thesis by (simp add: bench_recover_stale_def Let_def commit_bench_ok[OF evolves_ok])
qed

lemma recover_step:
  assumes "bench_ok db" "row_order scan"
  shows "evolves db (fst (bench_recover_stale f scan locked db now base n))"
proof (cases f)
  case True
  with assms(1) show ?thesis by (simp add: bench_recover_stale_def evolves_refl)
next
  case False
  with bench_recover_result[OF assms, of locked now base n] show ?thesis by auto
qed

text \<open>Reconciliation finds nothing to repair.\<close>

lemma open_run_stays:
  assumes "bench_ok db" "k \<in> set (open_runs db n)"
  shows "finish_run_if_terminal db k now = (db, False)"
proof -
  from assms(2) obtain r where r: "r \<in> set (bd_runs db)" "k = br_benchmark_run_id r" "br_status r \<in> {RUN_QUEUED, RUN_RUNNING}"
    by (auto simp: open_runs_def dest!: in_set_takeD)
  then have "get_run db k = Some r" using row_get_wf[OF bench_okD(2)[OF assms(1)] r(1)] by simp
  moreover have "run_ok r (set (samples_of db k))" using assms(1) r by (auto simp: bench_ok_def)
  ultimately show ?thesis using r(3)
    by (auto simp: finish_run_if_terminal_def run_ok_def finished_def filter_empty_conv terminal_sample_def)
qed

lemma finish_open_runs:
  "bench_ok db \<Longrightarrow> set ks \<subseteq> set (open_runs db n) \<Longrightarrow> finish_runs db ks now c = (db, c)"
  by (induction ks) (auto simp: open_run_stays)

lemma reconcile_nothing:
  "bench_ok db \<Longrightarrow> reconcile_terminal_runs False db now n = (db, Inr 0)"
  by (simp add: reconcile_terminal_runs_def finish_open_runs[OF _ subset_refl] commit_bench_ok)

lemma outbox_step:
  assumes "bench_ok db"
  shows "evolves db (fst (bench_update_outbox f db e now p base))"
proof -
  have put: "evolves db (db\<lparr>bd_outbox := row_put oe_event_id e (\<lambda>_. x') (bd_outbox db)\<rparr>)"
    if "row_get oe_event_id (bd_outbox db) e = Some x" "oe_event_id x' = oe_event_id x" "oe_aggregate_id x' = oe_aggregate_id x" for x x'
  proof (rule evolves_frame)
    let ?db = "db\<lparr>bd_outbox := row_put oe_event_id e (\<lambda>_. x') (bd_outbox db)\<rparr>"
    note x = row_get_key[OF that(1)]
    have wf: "row_wf oe_event_id (bd_outbox db)" using assms by (simp add: bench_ok_def bench_constraints_def bench_keys_def)
    have keys: "map oe_event_id (bd_outbox ?db) = map oe_event_id (bd_outbox db)"
      using row_put_map[OF wf that(1), of oe_event_id x'] that(2) by simp
    have rows: "\<exists>z\<in>set (bd_outbox db). oe_event_id y = oe_event_id z \<and> oe_aggregate_id y = oe_aggregate_id z"
      if "y \<in> set (bd_outbox ?db)" for y
    proof (cases "y = x'")
      case True
      with x \<open>oe_event_id x' = oe_event_id x\<close> \<open>oe_aggregate_id x' = oe_aggregate_id x\<close> show ?thesis
        by (intro bexI[of _ x]) simp_all
    next
      case False
      with that show ?thesis by (auto simp: row_put_def)
    qed
    have "bench_keys ?db" using assms keys by (simp add: bench_ok_def bench_constraints_def bench_keys_def row_wf_def)
    moreover have "bench_references ?db"
    proof -
      have refs: "bench_references db" using assms by (simp add: bench_ok_def bench_constraints_def)
      then have "\<forall>y\<in>set (bd_outbox ?db). oe_aggregate_id y \<in> bs_benchmark_sample_id ` set (bd_samples db)"
        using rows unfolding bench_references_def by metis
      with refs show ?thesis by (simp add: bench_references_def)
    qed
    moreover have "\<forall>y\<in>set (bd_outbox ?db). oe_event_id y < bd_fresh ?db"
    proof -
      have "\<forall>z\<in>set (bd_outbox db). oe_event_id z < bd_fresh db" using assms by (simp add: bench_ok_def)
      then show ?thesis using rows by fastforce
    qed
    moreover have "sample_ok ?db s = sample_ok db s" for s by (rule sample_ok_frame) simp_all
    ultimately show "bench_ok ?db" using assms
      by (simp add: bench_ok_def bench_columns_def bench_constraints_def bench_checks_def samples_of_def)
  qed simp_all
  show ?thesis using assms
    by (auto simp: bench_update_outbox_def Let_def evolves_refl intro!: commit_step put split: option.splits sum.splits)
qed


section \<open>Plans\<close>

lemma add_requests_fields [simp]:
  "bd_runs (add_requests ss db) = bd_runs db" "bd_configs (add_requests ss db) = bd_configs db"
  "bd_samples (add_requests ss db) = bd_samples db" "bd_artifacts (add_requests ss db) = bd_artifacts db"
  "bd_evaluations (add_requests ss db) = bd_evaluations db"
  by (induction ss arbitrary: db) simp_all

lemma add_requests_fresh:
  "\<forall>e\<in>set (bd_outbox db). oe_event_id e < bd_fresh db \<Longrightarrow>
   \<forall>e\<in>set (bd_outbox (add_requests ss db)). oe_event_id e < bd_fresh (add_requests ss db)"
proof (induction ss arbitrary: db)
  case (Cons s ss)
  let ?db = "add_bench_outbox (bs_benchmark_sample_id s) (bs_created_at s) None db"
  have "\<forall>e\<in>set (bd_outbox ?db). oe_event_id e < bd_fresh ?db"
    using Cons.prems by (auto simp: add_bench_outbox_def bench_outbox_record_def)
  from Cons.IH[OF this] show ?case by simp
qed simp

lemma plan_evolves:
  assumes "bench_ok db" "new_plan run configs samples"
    and "bench_columns (planned_db db run configs samples)" "bench_constraints (planned_db db run configs samples)"
  shows "evolves db (planned_db db run configs samples)"
proof -
  let ?db = "planned_db db run configs samples"
  have rows: "bd_samples ?db = bd_samples db @ samples" "bd_runs ?db = bd_runs db @ [run]"
    "bd_artifacts ?db = bd_artifacts db" "bd_evaluations ?db = bd_evaluations db"
    by (simp_all add: planned_db_def)
  have keys: "row_wf br_benchmark_run_id (bd_runs db @ [run])" "row_wf bs_benchmark_sample_id (bd_samples db @ samples)"
    using assms(4) rows by (simp_all add: bench_constraints_def bench_keys_def)
  have refs: "bench_references db" using assms(1) by (simp add: bench_ok_def bench_constraints_def)
  have fresh_run: "br_benchmark_run_id run \<notin> br_benchmark_run_id ` set (bd_runs db)"
    using keys(1) by (simp add: row_wf_snoc row_get_None)
  have new: "new_sample run s" if "s \<in> set samples" for s using assms(2) that by (simp add: new_plan_def list_all_iff)
  have old_of: "samples_of ?db k = samples_of db k" if "k \<noteq> br_benchmark_run_id run" for k
    using new that by (auto simp: samples_of_def rows new_sample_def filter_empty_conv)
  have new_of: "samples_of ?db (br_benchmark_run_id run) = samples"
  proof -
    have "filter (\<lambda>s. bs_benchmark_run_id s = br_benchmark_run_id run) (bd_samples db) = []"
      using refs fresh_run unfolding filter_empty_conv bench_references_def by metis
    moreover have "filter (\<lambda>s. bs_benchmark_run_id s = br_benchmark_run_id run) samples = samples"
      using new by (simp add: new_sample_def)
    ultimately show ?thesis by (simp add: samples_of_def rows)
  qed
  have "sample_ok ?db s" if "s \<in> set (bd_samples ?db)" for s
  proof (cases "s \<in> set samples")
    case True
    have "bs_benchmark_sample_id s \<notin> bs_benchmark_sample_id ` set (bd_samples db)"
      using keys(2) True by (auto simp: row_wf_def)
    with refs have "get_artifact db (bs_benchmark_sample_id s) = None"
      by (auto simp: row_get_None bench_references_def)
    with new[OF True] rows show ?thesis by (simp add: sample_ok_def new_sample_def status_defs)
  next
    case False
    with that assms(1) show ?thesis by (auto simp: rows bench_ok_def sample_ok_frame[of ?db db])
  qed
  moreover have "run_ok r (set (samples_of ?db (br_benchmark_run_id r)))" if "r \<in> set (bd_runs ?db)" for r
  proof (cases "r = run")
    case True
    obtain a where a: "a \<in> set samples" using assms(2) by (cases samples) (auto simp: new_plan_def)
    have queued: "bs_status s = SAMPLE_QUEUED \<and> bs_attempt_count s = 0" if "s \<in> set samples" for s
      using new[OF that] by (simp add: new_sample_def)
    have "br_status run = RUN_QUEUED" "br_started_at run = None" "br_completed_at run = None"
      using assms(2) by (simp_all add: new_plan_def)
    with a queued show ?thesis unfolding True new_of by (auto simp: run_ok_def finished_def status_defs)
  next
    case False
    with that rows have "r \<in> set (bd_runs db)" by simp
    moreover from this have "br_benchmark_run_id r \<noteq> br_benchmark_run_id run" using fresh_run by (metis imageI)
    ultimately show ?thesis using assms(1) by (simp add: old_of bench_ok_def)
  qed
  moreover have "\<forall>e\<in>set (bd_outbox ?db). oe_event_id e < bd_fresh ?db"
    unfolding planned_db_def by (rule add_requests_fresh) (use assms(1) in \<open>simp add: bench_ok_def\<close>)
  ultimately have "bench_ok ?db" using assms(3,4) by (simp add: bench_ok_def)
  then show ?thesis by (simp add: evolves_def rows table_simps)
qed

lemma create_step:
  assumes "bench_ok db" "new_plan run configs samples"
  shows "evolves db (fst (create_plan f1 f2 f3 (\<lambda>d. d) (\<lambda>d. d) db run configs samples))"
proof -
  have "fst (create_plan f1 f2 f3 (\<lambda>d. d) (\<lambda>d. d) db run configs samples) = db
    \<or> fst (create_plan f1 f2 f3 (\<lambda>d. d) (\<lambda>d. d) db run configs samples) = planned_db db run configs samples
      \<and> bench_columns (planned_db db run configs samples) \<and> bench_constraints (planned_db db run configs samples)"
    by (auto simp: create_plan_def Let_def split: sum.splits option.splits)
  with plan_evolves[OF assms] evolves_refl[OF assms(1)] show ?thesis by auto
qed

section \<open>Every history\<close>

lemma claim_step:
  assumes "bench_ok db"
  shows "evolves db (fst (bench_claim f db i w now l))"
proof (cases "\<not> f \<and> (\<exists>r. get_sample db i = Some r \<and> claimable_sample r)")
  case True
  then obtain r where r: "\<not> f" "get_sample db i = Some r" "claimable_sample r" by blast
  with bench_claim_taken[OF assms r(2,3), of w now l] claim_evolves[OF assms r(2,3), of now w l] show ?thesis by simp
next
  case False
  then have "fst (bench_claim f db i w now l) = db"
    using bench_claim_refused[of db i f w now l] by (cases f) (auto simp: bench_claim_def)
  with assms show ?thesis by (simp add: evolves_refl)
qed

lemma reconcile_step:
  assumes "bench_ok db"
  shows "evolves db (fst (reconcile_terminal_runs f db now n))"
proof (cases f)
  case True
  with assms show ?thesis by (simp add: reconcile_terminal_runs_def evolves_refl)
next
  case False
  with reconcile_nothing[OF assms] assms show ?thesis by (simp add: evolves_refl)
qed

lemma bench_step_evolves: "bench_step db db' \<Longrightarrow> bench_ok db \<Longrightarrow> evolves db db'"
proof (induction rule: bench_step.induct)
  case (be_evaluation row db)
  then show ?case
    by (intro evaluation_evolves) (auto simp: row_wf_snoc bench_ok_def bench_constraints_def bench_keys_def)
qed (simp_all add: create_step claim_step renew_step artifact_step complete_step failure_step recover_step
      reconcile_step outbox_step)

lemma bench_run_evolves: "bench_step\<^sup>*\<^sup>* db db' \<Longrightarrow> bench_ok db \<Longrightarrow> evolves db db'"
  by (induction rule: rtranclp_induct) (auto intro: evolves_refl evolves_trans bench_step_evolves evolves_ok)

lemma empty_bench_ok: "bench_ok empty_bench"
  by (simp add: bench_ok_def empty_bench_def bench_columns_def bench_constraints_def bench_keys_def
      bench_references_def bench_checks_def row_wf_def)

definition sample_status_of :: "bench_db \<Rightarrow> uuid \<Rightarrow> sample_status option" where
  "sample_status_of db i = map_option bs_status (get_sample db i)"

definition run_status_of :: "bench_db \<Rightarrow> uuid \<Rightarrow> run_status option" where
  "run_status_of db k = map_option br_status (get_run db k)"

interpretation bench_samples: lifecycle bench_ok bench_step sample_status_of sample_legal
    "\<lambda>s. s \<in> TERMINAL_SAMPLE_STATUSES"
proof
  fix s s' i a
  assume step: "bench_ok s" "bench_step s s'"
  then show "bench_ok s'" using bench_step_evolves evolves_ok by blast
  assume "sample_status_of s i = Some a"
  with bench_step_evolves[OF step(2,1)] show "\<exists>b. sample_status_of s' i = Some b \<and> sample_legal\<^sup>*\<^sup>* a b"
    by (fastforce simp: sample_status_of_def evolves_def sample_evolves_def)
next
  fix a b
  show "a \<in> TERMINAL_SAMPLE_STATUSES \<Longrightarrow> \<not> sample_legal a b"
    by (auto simp: TERMINAL_SAMPLE_STATUSES_def sample_legal_def)
qed

interpretation bench_runs: lifecycle bench_ok bench_step run_status_of run_legal
    "\<lambda>s. s \<in> {RUN_COMPLETED, RUN_PARTIAL}"
proof
  fix s s' i a
  assume step: "bench_ok s" "bench_step s s'"
  then show "bench_ok s'" by (rule bench_samples.inv_step)
  assume "run_status_of s i = Some a"
  with bench_step_evolves[OF step(2,1)] show "\<exists>b. run_status_of s' i = Some b \<and> run_legal\<^sup>*\<^sup>* a b"
    by (fastforce simp: run_status_of_def evolves_def run_evolves_def)
next
  fix a b
  show "a \<in> {RUN_COMPLETED, RUN_PARTIAL} \<Longrightarrow> \<not> run_legal a b"
    by (auto simp: run_legal_def)
qed

section \<open>Rows that are only added\<close>

text \<open>
  The triggers of the migration also forbid changes of model configurations and artifacts, and no transaction of the
  benchmark changes a stored evaluation: rows of these three tables are only added.
\<close>

definition adds_to :: "'a list \<Rightarrow> 'a list \<Rightarrow> bool" where
  "adds_to xs ys \<longleftrightarrow> (\<exists>zs. ys = xs @ zs)"

definition grows :: "bench_db \<Rightarrow> bench_db \<Rightarrow> bool" where
  "grows db db' \<longleftrightarrow> adds_to (bd_configs db) (bd_configs db') \<and> adds_to (bd_artifacts db) (bd_artifacts db')
     \<and> adds_to (bd_evaluations db) (bd_evaluations db')"

lemma adds_to_simps [simp]: "adds_to xs xs" "adds_to xs (xs @ ys)"
  by (simp_all add: adds_to_def)

lemma adds_to_trans: "adds_to xs ys \<Longrightarrow> adds_to ys zs \<Longrightarrow> adds_to xs zs"
  by (auto simp: adds_to_def)

lemma adds_to_get: "adds_to xs ys \<Longrightarrow> row_get key xs k = Some x \<Longrightarrow> row_get key ys k = Some x"
  by (auto simp: adds_to_def table_simps)

lemma grows_refl [simp]: "grows db db"
  by (simp add: grows_def)

lemma grows_trans: "grows a b \<Longrightarrow> grows b c \<Longrightarrow> grows a c"
  unfolding grows_def by (blast intro: adds_to_trans)

lemma grows_same:
  "bd_configs db' = bd_configs db \<Longrightarrow> bd_artifacts db' = bd_artifacts db \<Longrightarrow> bd_evaluations db' = bd_evaluations db \<Longrightarrow> grows db db'"
  by (simp add: grows_def)

lemma grows_commit: "grows db db1 \<Longrightarrow> grows db (fst (bench_commit m db db1 x))"
  using commit_bench_fst[of m db db1 x] by auto

lemma finish_run_tables [simp]:
  "bd_configs (fst (finish_run_if_terminal db k now)) = bd_configs db"
  "bd_artifacts (fst (finish_run_if_terminal db k now)) = bd_artifacts db"
  by (simp_all add: finish_run_if_terminal_def split: option.splits)

lemma start_run_tables [simp]:
  "bd_configs (start_run k now db) = bd_configs db" "bd_artifacts (start_run k now db) = bd_artifacts db"
  "bd_evaluations (start_run k now db) = bd_evaluations db"
  by (simp_all add: start_run_def split: option.splits)

lemma end_sample_grows: "grows db (end_sample db r st now)"
  by (rule grows_same) (simp_all add: end_sample_def)

lemma requeue_grows: "requeue_sample db r now base = Inr db' \<Longrightarrow> grows db db'"
  by (rule grows_same) (auto simp: requeue_sample_def Let_def split: sum.splits)

lemma recover_grows: "recover_samples db rs now base = Inr db' \<Longrightarrow> grows db db'"
proof (induction rs arbitrary: db)
  case (Cons r rs)
  then obtain db1 where "recover_sample db r now base = Inr db1" "recover_samples db1 rs now base = Inr db'"
    by (auto split: sum.splits)
  moreover from this(1) have "grows db db1"
    using end_sample_grows requeue_grows by (auto simp: recover_sample_def Let_def split: if_splits)
  ultimately show ?case using Cons.IH grows_trans by blast
qed simp

lemma finish_runs_grows: "grows db (fst (finish_runs db ks now n))"
proof (induction ks arbitrary: db n)
  case (Cons k ks)
  have "grows db (fst (finish_run_if_terminal db k now))" by (rule grows_same) simp_all
  with Cons.IH show ?case by (auto split: prod.splits intro: grows_trans)
qed simp

lemma planned_grows: "grows db (planned_db db run configs samples)"
proof -
  have "grows db (add_requests samples db)" for db samples
  proof (induction samples arbitrary: db)
    case (Cons s samples)
    have "grows db (add_bench_outbox (bs_benchmark_sample_id s) (bs_created_at s) None db)" by (rule grows_same) simp_all
    with Cons.IH show ?case by (auto intro: grows_trans)
  qed simp
  moreover have "grows db (db\<lparr>bd_runs := bd_runs db @ [run], bd_configs := bd_configs db @ configs,
      bd_samples := bd_samples db @ samples\<rparr>)" by (simp add: grows_def)
  ultimately show ?thesis unfolding planned_db_def by (blast intro: grows_trans)
qed

lemma bench_step_grows: "bench_step db db' \<Longrightarrow> grows db db'"
proof (induction rule: bench_step.induct)
  case (be_create run configs samples db f1 f2 f3)
  then show ?case using planned_grows by (auto simp: create_plan_def Let_def split: sum.splits option.splits)
next
  case (be_claim db f i w now l)
  have "grows db (start_run k now (put_sample s db))" for k s by (rule grows_same) simp_all
  then show ?case by (auto simp: bench_claim_def Let_def intro: grows_commit split: option.splits)
next
  case (be_renew db f i w now l)
  have "grows db (put_sample s db)" for s by (rule grows_same) simp_all
  then show ?case by (auto simp: bench_renew_lease_def Let_def intro: grows_commit split: option.splits)
next
  case (be_artifact a i db f w now)
  have "grows db (put_sample s (db\<lparr>bd_artifacts := bd_artifacts db @ [a]\<rparr>))" for s by (simp add: grows_def)
  then show ?case by (auto simp: store_artifact_def intro: grows_commit split: option.splits)
next
  case (be_complete db f i w sn now d)
  have "grows db (fst (finish_run_if_terminal (put_sample s db) k now))"
    "grows db (fst (finish_run_if_terminal (put_sample s (db\<lparr>bd_evaluations := bd_evaluations db @ [e]\<rparr>)) k now))" for s k e
    by (simp_all add: grows_def)
  then show ?case by (auto simp: bench_complete_def Let_def intro: grows_commit split: option.splits)
next
  case (be_failure db f i w code g r now base)
  then show ?case using end_sample_grows requeue_grows
    by (auto simp: bench_record_failure_def Let_def intro: grows_commit split: option.splits sum.splits)
next
  case (be_recover scan db f locked now base n)
  then show ?case using recover_grows by (auto simp: bench_recover_stale_def Let_def intro: grows_commit split: sum.splits)
next
  case (be_reconcile db f now n)
  then show ?case using finish_runs_grows[of db "open_runs db n" now 0]
    by (auto simp: reconcile_terminal_runs_def intro: grows_commit split: prod.splits)
next
  case (be_outbox db f e now p base)
  have "grows db (db\<lparr>bd_outbox := es\<rparr>)" for es by (rule grows_same) simp_all
  then show ?case by (auto simp: bench_update_outbox_def Let_def intro: grows_commit split: option.splits sum.splits)
next
  case (be_evaluation row db)
  then show ?case by (simp add: grows_def)
qed

lemma bench_run_grows: "bench_step\<^sup>*\<^sup>* db db' \<Longrightarrow> grows db db'"
  by (induction rule: rtranclp_induct) (auto intro: bench_step_grows grows_trans)

lemma kept_artifact: "bench_step\<^sup>*\<^sup>* db db' \<Longrightarrow> get_artifact db i = Some a \<Longrightarrow> get_artifact db' i = Some a"
  using bench_run_grows unfolding grows_def by (blast intro: adds_to_get)

lemma kept_evaluation:
  "bench_step\<^sup>*\<^sup>* db db' \<Longrightarrow> row_get ev_evaluation_id (bd_evaluations db) i = Some e \<Longrightarrow>
     row_get ev_evaluation_id (bd_evaluations db') i = Some e"
  using bench_run_grows unfolding grows_def by (blast intro: adds_to_get)

end
