(* ===== verification/BenchmarkPlan.thy ===== *)
theory BenchmarkPlan
  imports BenchmarkSafety EvaluationService DecimalText UuidText
begin

text \<open>
  Planning a benchmark: the canonical identities of \<^verbatim>\<open>src/app/benchmarks/identity.py\<close>, the prompts of
  \<^verbatim>\<open>src/app/benchmarks/prompts.py\<close>, the dataset registry of \<^verbatim>\<open>src/app/benchmarks/datasets.py\<close> and \<^verbatim>\<open>create\<close> of
  \<^verbatim>\<open>src/app/benchmarks/service.py\<close>. The properties: a loaded dataset names only current task revisions, and a plan has every
  combination of model, task and sample index exactly once, within the limits.
\<close>

section \<open>Canonical JSON\<close>

text \<open>The values of the benchmark payloads, serialised with \<^verbatim>\<open>ensure_ascii=False\<close> and sorted keys.\<close>

datatype payload =
    PNull | PBool bool | PStr string | PInt int | PFloat rat | PList "payload list" | PObj "(string \<times> payload) list"

definition str_int :: "int \<Rightarrow> string" where
  "str_int n = (if n < 0 then CHR ''-'' # str_nat (nat (- n)) else str_nat (nat n))"

fun dump_items :: "string list \<Rightarrow> string" where
  "dump_items [] = '']''"
| "dump_items [t] = t @ '']''"
| "dump_items (t # u # ts) = t @ '','' @ dump_items (u # ts)"

primrec dump_payload :: "(rat \<Rightarrow> string) \<Rightarrow> payload \<Rightarrow> string" where
  "dump_payload repr PNull = ''null''"
| "dump_payload repr (PBool b) = (if b then ''true'' else ''false'')"
| "dump_payload repr (PStr s) = dump_str False s"
| "dump_payload repr (PInt n) = str_int n"
| "dump_payload repr (PFloat x) = repr x"
| "dump_payload repr (PList xs) = ''['' @ dump_items (map (dump_payload repr) xs)"
| "dump_payload repr (PObj kvs) = ''{'' @ dump_members False (sort_key fst (map (map_prod id (dump_payload repr)) kvs))"

definition payload_hash :: "(bytes \<Rightarrow> string) \<Rightarrow> (rat \<Rightarrow> string) \<Rightarrow> payload \<Rightarrow> string" where
  "payload_hash sha repr p = sha (utf8 (dump_payload repr p))"

definition p_opt :: "('a \<Rightarrow> payload) \<Rightarrow> 'a option \<Rightarrow> payload" where
  "p_opt f x = (case x of None \<Rightarrow> PNull | Some y \<Rightarrow> f y)"

section \<open>Prompts\<close>

definition CODING_PROMPT_VERSION :: string where "CODING_PROMPT_VERSION = ''2''"
definition BENCHMARK_POLICY_VERSION :: string where "BENCHMARK_POLICY_VERSION = ''1''"

fun mode_value :: "output_mode \<Rightarrow> string" where
  "mode_value STRUCTURED_JSON = ''structured_json''"
| "mode_value RAW_SOURCE = ''raw_source''"

definition lines_of :: "string list \<Rightarrow> string" where
  "lines_of ls = concat (butlast (concat (map (\<lambda>l. [l, [CHR 0x0A]]) ls)))"

fun coding_system_prompt :: "output_mode \<Rightarrow> string" where
  "coding_system_prompt STRUCTURED_JSON = lines_of
     [''You are solving a public coding benchmark task. Return only structured'',
      ''data matching the supplied schema, with language set to python and source containing the complete'',
      ''candidate module. Do not use Markdown fences. Do not request hidden tests, reference solutions,'',
      ''evaluator metadata, tools, host access, credentials, or network access. The candidate will execute'',
      ''as untrusted code in a restricted sandbox.'']"
| "coding_system_prompt RAW_SOURCE = lines_of
     [''You are solving a public coding benchmark task. Return only'',
      ''valid Python source code as the exact assistant message content. Do not include Markdown fences.'',
      ''Do not include explanation. Do not include JSON. Do not include prose before or after the program.'',
      ''Do not request hidden tests, reference solutions, evaluator metadata, tools, host access,'',
      ''credentials, or network access. The candidate will execute as untrusted code in a restricted'',
      ''sandbox.'']"

definition prompt_hash :: "(bytes \<Rightarrow> string) \<Rightarrow> string \<Rightarrow> string" where
  "prompt_hash sha template = sha (utf8 template)"

definition CODING_PROMPT_HASH :: "(bytes \<Rightarrow> string) \<Rightarrow> string" where
  "CODING_PROMPT_HASH sha = prompt_hash sha (dump_payload (\<lambda>_. [])
     (PObj (map (\<lambda>mode. (mode_value mode, PStr (coding_system_prompt mode))) [STRUCTURED_JSON, RAW_SOURCE])))"

definition model_coding_prompt_hash :: "(bytes \<Rightarrow> string) \<Rightarrow> output_mode \<Rightarrow> string" where
  "model_coding_prompt_hash sha mode = prompt_hash sha (coding_system_prompt mode)"

definition coding_payload :: "task_spec \<Rightarrow> output_mode \<Rightarrow> payload" where
  "coding_payload task mode = PObj
     [(''public_task'', PObj
        [(''id'', PStr (ts_id task)), (''version'', PStr (ts_version task)), (''title'', PStr (ts_title task)),
         (''description'', PStr (ts_description task)), (''language'', PStr (ts_language task)),
         (''required_entrypoint'', p_opt PStr (ts_entrypoint task)),
         (''timeout_seconds'', PFloat (ts_timeout_seconds task))]),
      (''output_requirements'', PObj
        [(''language'', PStr ''python''),
         (''format'', PStr (if mode = STRUCTURED_JSON then ''structured JSON with language and source fields''
            else ''exact raw Python source in assistant message content''))]),
      (''coding_prompt_version'', PStr CODING_PROMPT_VERSION)]"

section \<open>Requests and datasets\<close>

record model_request =
  mr_provider_id :: string
  mr_model :: string
  mr_display_name :: "string option"
  mr_temperature :: rat
  mr_top_p :: rat
  mr_max_output_tokens :: nat
  mr_seed :: "int option"
  mr_output_mode :: output_mode
  mr_request_timeout_seconds :: rat
  mr_max_concurrent_requests :: "nat option"

record create_request =
  cq_dataset_id :: string
  cq_dataset_version :: string
  cq_models :: "model_request list"
  cq_samples_per_task :: nat

text \<open>What the validated models guarantee of a request.\<close>

definition model_request_valid :: "model_request \<Rightarrow> bool" where
  "model_request_valid m \<longleftrightarrow> mr_provider_id m \<noteq> [] \<and> length (mr_provider_id m) \<le> 128
     \<and> mr_model m \<noteq> [] \<and> length (mr_model m) \<le> 255
     \<and> (case mr_display_name m of None \<Rightarrow> True | Some d \<Rightarrow> d \<noteq> [] \<and> length d \<le> 255)
     \<and> 0 \<le> mr_temperature m \<and> mr_temperature m \<le> 2 \<and> 0 < mr_top_p m \<and> mr_top_p m \<le> 1
     \<and> 0 < mr_max_output_tokens m \<and> mr_max_output_tokens m \<le> 100000
     \<and> 0 < mr_request_timeout_seconds m \<and> mr_request_timeout_seconds m \<le> 600
     \<and> (case mr_max_concurrent_requests m of None \<Rightarrow> True | Some n \<Rightarrow> 1 \<le> n \<and> n \<le> 100)"

definition create_request_valid :: "create_request \<Rightarrow> bool" where
  "create_request_valid r \<longleftrightarrow> cq_dataset_id r \<noteq> [] \<and> cq_dataset_version r \<noteq> [] \<and> cq_models r \<noteq> []
     \<and> list_all model_request_valid (cq_models r) \<and> 1 \<le> cq_samples_per_task r"

record dataset_entry =
  de_task_id :: string
  de_task_revision :: "int option"
  de_task_version :: string
  de_task_fingerprint :: string
  de_tests_fingerprint :: string
  de_weight :: rat

record benchmark_dataset =
  ds_dataset_id :: string
  ds_dataset_version :: string
  ds_title :: string
  ds_description :: string
  ds_task_entries :: "dataset_entry list"
  ds_dataset_fingerprint :: string

definition entry_valid :: "dataset_entry \<Rightarrow> bool" where
  "entry_valid e \<longleftrightarrow> (case de_task_revision e of None \<Rightarrow> True | Some r \<Rightarrow> 1 \<le> r)
     \<and> length (de_task_fingerprint e) = 64 \<and> length (de_tests_fingerprint e) = 64 \<and> 0 < de_weight e"

definition resolved_task_revision :: "dataset_entry \<Rightarrow> int" where
  "resolved_task_revision e = (case de_task_revision e of None \<Rightarrow> 1 | Some r \<Rightarrow> r)"

section \<open>Identities\<close>

definition dump_entry :: "dataset_entry \<Rightarrow> payload" where
  "dump_entry e = PObj
     ([(''task_id'', PStr (de_task_id e))]
      @ (case de_task_revision e of None \<Rightarrow> [] | Some r \<Rightarrow> [(''task_revision'', PInt r)])
      @ [(''task_version'', PStr (de_task_version e)), (''task_fingerprint'', PStr (de_task_fingerprint e)),
         (''tests_fingerprint'', PStr (de_tests_fingerprint e)), (''weight'', PFloat (de_weight e))])"

definition dataset_fingerprint ::
    "(bytes \<Rightarrow> string) \<Rightarrow> (rat \<Rightarrow> string) \<Rightarrow> string \<Rightarrow> string \<Rightarrow> dataset_entry list \<Rightarrow> string" where
  "dataset_fingerprint sha repr dataset_id dataset_version entries = payload_hash sha repr (PObj
     [(''dataset_id'', PStr dataset_id), (''dataset_version'', PStr dataset_version),
      (''tasks'', PList (map dump_entry
         (sort_key (\<lambda>e. (de_task_id e, resolved_task_revision e, de_task_version e)) entries)))])"

definition model_fields :: "model_request \<Rightarrow> (string \<times> payload) list" where
  "model_fields m =
     [(''provider_id'', PStr (mr_provider_id m)), (''model'', PStr (mr_model m)),
      (''temperature'', PFloat (mr_temperature m)), (''top_p'', PFloat (mr_top_p m)),
      (''max_output_tokens'', PInt (int (mr_max_output_tokens m))), (''seed'', p_opt PInt (mr_seed m)),
      (''output_mode'', PStr (mode_value (mr_output_mode m))),
      (''request_timeout_seconds'', PFloat (mr_request_timeout_seconds m)),
      (''max_concurrent_requests'', p_opt (PInt \<circ> int) (mr_max_concurrent_requests m))]"

definition model_configuration_fingerprint ::
    "(bytes \<Rightarrow> string) \<Rightarrow> (rat \<Rightarrow> string) \<Rightarrow> model_request \<Rightarrow> string \<Rightarrow> string" where
  "model_configuration_fingerprint sha repr m coding_prompt_hash =
     payload_hash sha repr (PObj (model_fields m @ [(''coding_prompt_hash'', PStr coding_prompt_hash)]))"

definition benchmark_run_fingerprint ::
    "(bytes \<Rightarrow> string) \<Rightarrow> (rat \<Rightarrow> string) \<Rightarrow> string \<Rightarrow> string list \<Rightarrow> nat \<Rightarrow> string \<Rightarrow> string \<Rightarrow> string \<Rightarrow> string \<Rightarrow> string" where
  "benchmark_run_fingerprint sha repr dataset_hash ordered_model_hashes samples_per_task prompt_version coding_hash
       evaluator_hash policy_version = payload_hash sha repr (PObj
     [(''dataset_fingerprint'', PStr dataset_hash),
      (''model_configuration_fingerprints'', PList (map PStr ordered_model_hashes)),
      (''samples_per_task'', PInt (int samples_per_task)), (''coding_prompt_version'', PStr prompt_version),
      (''coding_prompt_hash'', PStr coding_hash), (''evaluator_fingerprint'', PStr evaluator_hash),
      (''benchmark_policy_version'', PStr policy_version)])"

text \<open>\<^verbatim>\<open>request_fingerprint(request.model_dump(mode="json"))\<close>.\<close>

definition create_request_fingerprint :: "(bytes \<Rightarrow> string) \<Rightarrow> (rat \<Rightarrow> string) \<Rightarrow> create_request \<Rightarrow> string" where
  "create_request_fingerprint sha repr r = payload_hash sha repr (PObj
     [(''dataset_id'', PStr (cq_dataset_id r)), (''dataset_version'', PStr (cq_dataset_version r)),
      (''models'', PList (map (\<lambda>m. PObj (model_fields m @ [(''display_name'', p_opt PStr (mr_display_name m))])) (cq_models r))),
      (''samples_per_task'', PInt (int (cq_samples_per_task r)))])"

definition dump_ai_identity :: "ai_identity \<Rightarrow> payload" where
  "dump_ai_identity i = PObj
     [(''enabled'', PBool (ii_enabled i)), (''policy_version'', PStr (ii_policy_version i)),
      (''judge_prompt_version'', PStr (ii_judge_prompt_version i)), (''judge_prompt_hash'', PStr (ii_judge_prompt_hash i)),
      (''adversarial_prompt_version'', PStr (ii_adversarial_prompt_version i)),
      (''adversarial_prompt_hash'', PStr (ii_adversarial_prompt_hash i)),
      (''provider_id'', p_opt PStr (ii_provider_id i)), (''judge_models'', PList (map PStr (ii_judge_models i))),
      (''adversarial_model'', p_opt PStr (ii_adversarial_model i)), (''temperature'', PFloat (ii_temperature i)),
      (''top_p'', PFloat (ii_top_p i)), (''max_output_tokens'', PInt (ii_max_output_tokens i)),
      (''reference_fingerprint'', p_opt PStr (ii_reference_fingerprint i))]"

definition dump_environment :: "execution_environment \<Rightarrow> payload" where
  "dump_environment e = PObj
     [(''backend'', PStr (ex_backend e)), (''sandbox_image'', p_opt PStr (ex_sandbox_image e)),
      (''sandbox_image_id'', p_opt PStr (ex_sandbox_image_id e))]"

text \<open>The identities of the tasks are a dictionary: a task that occurs twice keeps the position of its first entry.\<close>

fun ai_identities ::
    "task_registry \<Rightarrow> evaluation_service \<Rightarrow> (string, payload) odict \<Rightarrow> dataset_entry list
     \<Rightarrow> registry_error + (string, payload) odict" where
  "ai_identities tasks es found [] = Inr found"
| "ai_identities tasks es found (e # entries) =
     (case get_revision tasks (de_task_id e) (resolved_task_revision e) of
        Inl err \<Rightarrow> Inl err
      | Inr task \<Rightarrow>
          ai_identities tasks es (od_set found (de_task_id e) (dump_ai_identity (service_ai_identity es task))) entries)"

definition benchmark_evaluator_fingerprint ::
    "evaluation_service \<Rightarrow> task_registry \<Rightarrow> dataset_entry list \<Rightarrow> registry_error + string" where
  "benchmark_evaluator_fingerprint es tasks entries =
     (case runtime_identity es of (runtime, analyzers, scoring_policy, application_version) \<Rightarrow>
        (case ai_identities tasks es [] entries of
           Inl err \<Rightarrow> Inl err
         | Inr identities \<Rightarrow> Inr (payload_hash (es_sha es) (es_repr es) (PObj
             [(''codejudge_version'', PStr application_version), (''scoring_policy_version'', PStr scoring_policy),
              (''analyzer_versions'', PObj (map (map_prod id PStr) analyzers)),
              (''execution'', dump_environment runtime), (''dataset_tasks'', PList (map dump_entry entries)),
              (''ai_identity_by_task'', PObj identities)]))))"

section \<open>The dataset registry\<close>

record dataset_definition =
  dd_dataset_id :: string
  dd_dataset_version :: string
  dd_title :: string
  dd_description :: string
  dd_task_entries :: "dataset_entry list"

datatype dataset_error =
    DatasetRegistryError string
  | DatasetNotFoundError string
  | DatasetTaskError registry_error

definition resolve_task :: "task_registry \<Rightarrow> dataset_entry \<Rightarrow> registry_error + registered_task" where
  "resolve_task tasks e = get_revision tasks (de_task_id e) (resolved_task_revision e)"

definition validate_entry :: "evaluation_service \<Rightarrow> task_registry \<Rightarrow> dataset_entry \<Rightarrow> dataset_error option" where
  "validate_entry es tasks e =
     (case resolve_task tasks e of
        Inl (TaskNotFoundError _ _) \<Rightarrow> Some (DatasetRegistryError (''Dataset references unknown task revision: ''
          @ de_task_id e @ ''@'' @ str_int (resolved_task_revision e)))
      | Inl other \<Rightarrow> Some (DatasetTaskError other)
      | Inr task \<Rightarrow>
          (let current_tests = es_tests_fingerprint es task;
               current_task = es_task_fingerprint es task current_tests in
           if ts_version (rt_specification task) \<noteq> de_task_version e
           then Some (DatasetRegistryError (''Stale task version in dataset: '' @ de_task_id e))
           else if current_tests \<noteq> de_tests_fingerprint e
           then Some (DatasetRegistryError (''Stale tests fingerprint in dataset: '' @ de_task_id e))
           else if current_task \<noteq> de_task_fingerprint e
           then Some (DatasetRegistryError (''Stale task fingerprint in dataset: '' @ de_task_id e))
           else None))"

fun validate_entries :: "evaluation_service \<Rightarrow> task_registry \<Rightarrow> dataset_entry list \<Rightarrow> dataset_error option" where
  "validate_entries es tasks [] = None"
| "validate_entries es tasks (e # entries) =
     (case validate_entry es tasks e of Some err \<Rightarrow> Some err | None \<Rightarrow> validate_entries es tasks entries)"

text \<open>
  One file: \<open>None\<close> when it cannot be read or is not valid JSON of the right shape; the field constraints of the entries are
  checked here.
\<close>

definition load_dataset ::
    "evaluation_service \<Rightarrow> task_registry \<Rightarrow> (string \<times> string, benchmark_dataset) odict \<Rightarrow> string \<times> dataset_definition option
     \<Rightarrow> dataset_error + (string \<times> string, benchmark_dataset) odict" where
  "load_dataset es tasks loaded file =
     (case file of
        (name, None) \<Rightarrow> Inl (DatasetRegistryError (''Invalid benchmark dataset: '' @ name))
      | (name, Some definition_) \<Rightarrow>
          if \<not> list_all entry_valid (dd_task_entries definition_)
          then Inl (DatasetRegistryError (''Invalid benchmark dataset: '' @ name))
          else let entries = sort_key (\<lambda>e. (de_task_id e, resolved_task_revision e)) (dd_task_entries definition_);
                   key = (dd_dataset_id definition_, dd_dataset_version definition_) in
            if entries = [] then Inl (DatasetRegistryError (''Benchmark dataset has no tasks: '' @ name))
            else if \<not> distinct (map de_task_id entries)
            then Inl (DatasetRegistryError (''Duplicate task in benchmark dataset: '' @ name))
            else (case validate_entries es tasks entries of
               Some err \<Rightarrow> Inl err
             | None \<Rightarrow>
                 if map_of loaded key \<noteq> None
                 then Inl (DatasetRegistryError (''Duplicate benchmark dataset: '' @ fst key @ ''@'' @ snd key))
                 else Inr (od_set loaded key
                   \<lparr>ds_dataset_id = fst key, ds_dataset_version = snd key, ds_title = dd_title definition_,
                    ds_description = dd_description definition_, ds_task_entries = entries,
                    ds_dataset_fingerprint = dataset_fingerprint (es_sha es) (es_repr es) (fst key) (snd key) entries\<rparr>)))"

fun load_dataset_files ::
    "evaluation_service \<Rightarrow> task_registry \<Rightarrow> (string \<times> string, benchmark_dataset) odict
     \<Rightarrow> (string \<times> dataset_definition option) list \<Rightarrow> dataset_error + (string \<times> string, benchmark_dataset) odict" where
  "load_dataset_files es tasks loaded [] = Inr loaded"
| "load_dataset_files es tasks loaded (file # files) =
     (case load_dataset es tasks loaded file of
        Inl err \<Rightarrow> Inl err
      | Inr loaded' \<Rightarrow> load_dataset_files es tasks loaded' files)"

definition load_datasets ::
    "evaluation_service \<Rightarrow> task_registry \<Rightarrow> (string \<times> dataset_definition option) list
     \<Rightarrow> dataset_error + (string \<times> string, benchmark_dataset) odict" where
  "load_datasets es tasks files = load_dataset_files es tasks [] (sort_key fst files)"

definition get_dataset ::
    "(string \<times> string, benchmark_dataset) odict \<Rightarrow> string \<Rightarrow> string \<Rightarrow> dataset_error + benchmark_dataset" where
  "get_dataset datasets dataset_id dataset_version =
     (case map_of datasets (dataset_id, dataset_version) of
        Some d \<Rightarrow> Inr d
      | None \<Rightarrow> Inl (DatasetNotFoundError (''Unknown benchmark dataset: '' @ dataset_id @ ''@'' @ dataset_version)))"

definition resolve_dataset_task ::
    "task_registry \<Rightarrow> benchmark_dataset \<Rightarrow> string \<Rightarrow> dataset_error + dataset_entry \<times> registered_task" where
  "resolve_dataset_task tasks dataset task_id =
     (case find (\<lambda>e. de_task_id e = task_id) (ds_task_entries dataset) of
        None \<Rightarrow> Inl (DatasetRegistryError (''Dataset '' @ ds_dataset_id dataset @ ''@'' @ ds_dataset_version dataset
          @ '' has no task: '' @ task_id))
      | Some e \<Rightarrow> (case resolve_task tasks e of Inl err \<Rightarrow> Inl (DatasetTaskError err) | Inr task \<Rightarrow> Inr (e, task)))"

section \<open>The service\<close>

datatype benchmark_error =
    BenchmarkLimitError string
  | BenchmarkDatasetError dataset_error
  | BenchmarkTaskError registry_error
  | BenchmarkPersistenceError
  | BenchmarkRepositoryError repo_error

record benchmark_service =
  sv_datasets :: "(string \<times> string, benchmark_dataset) odict"
  sv_tasks :: task_registry
  sv_evaluations :: evaluation_service
  sv_pricing :: "(string \<times> string, pricing_snapshot) odict"
  sv_max_models :: nat
  sv_max_tasks :: nat
  sv_max_samples_per_task :: nat
  sv_max_total_generations :: nat
  sv_max_attempts :: nat

definition validate_limits :: "benchmark_service \<Rightarrow> create_request \<Rightarrow> nat \<Rightarrow> nat \<Rightarrow> benchmark_error option" where
  "validate_limits sv request task_count planned =
     (if sv_max_models sv < length (cq_models request)
      then Some (BenchmarkLimitError (''Benchmark model count exceeds '' @ str_nat (sv_max_models sv) @ ''.''))
      else if sv_max_tasks sv < task_count
      then Some (BenchmarkLimitError (''Benchmark task count exceeds '' @ str_nat (sv_max_tasks sv) @ ''.''))
      else if sv_max_samples_per_task sv < cq_samples_per_task request
      then Some (BenchmarkLimitError (''samples_per_task exceeds '' @ str_nat (sv_max_samples_per_task sv) @ ''.''))
      else if sv_max_total_generations sv < planned
      then Some (BenchmarkLimitError (''Planned generation count exceeds '' @ str_nat (sv_max_total_generations sv) @ ''.''))
      else None)"

definition plan_config ::
    "benchmark_service \<Rightarrow> uuid \<Rightarrow> uuid \<Rightarrow> nat \<Rightarrow> model_request \<Rightarrow> string \<Rightarrow> string \<Rightarrow> benchmark_model_config" where
  "plan_config sv run_id config_id ordinal m model_prompt_hash identity =
     \<lparr>mc_model_config_id = config_id, mc_benchmark_run_id = run_id, mc_ordinal = ordinal,
      mc_provider_id = mr_provider_id m, mc_model = mr_model m,
      mc_display_name = (case mr_display_name m of None \<Rightarrow> mr_model m | Some d \<Rightarrow> if d = [] then mr_model m else d),
      mc_temperature = mr_temperature m, mc_top_p = mr_top_p m, mc_max_output_tokens = mr_max_output_tokens m,
      mc_seed = mr_seed m, mc_output_mode = mr_output_mode m,
      mc_request_timeout_seconds = mr_request_timeout_seconds m,
      mc_max_concurrent_requests = mr_max_concurrent_requests m, mc_coding_prompt_hash = model_prompt_hash,
      mc_model_configuration_fingerprint = identity,
      mc_pricing = map_of (sv_pricing sv) (mr_provider_id m, mr_model m)\<rparr>"

text \<open>The loop over the models; \<open>uuids\<close> is the supply of \<^verbatim>\<open>uuid4\<close>, whose first value is the run.\<close>

fun plan_configs ::
    "benchmark_service \<Rightarrow> (nat \<Rightarrow> uuid) \<Rightarrow> string list \<Rightarrow> benchmark_model_config list \<Rightarrow> model_request list
     \<Rightarrow> benchmark_error + string list \<times> benchmark_model_config list" where
  "plan_configs sv uuids hashes configs [] = Inr (hashes, configs)"
| "plan_configs sv uuids hashes configs (m # ms) =
     (let es = sv_evaluations sv;
          model_prompt_hash = model_coding_prompt_hash (es_sha es) (mr_output_mode m);
          identity = model_configuration_fingerprint (es_sha es) (es_repr es) m model_prompt_hash in
      if identity \<in> set hashes then Inl (BenchmarkLimitError ''Duplicate model configurations are not allowed.'')
      else plan_configs sv uuids (hashes @ [identity])
        (configs @ [plan_config sv (uuids 0) (uuids (length configs + 1)) (length configs) m model_prompt_hash identity]) ms)"

definition plan_cells ::
    "benchmark_model_config list \<Rightarrow> dataset_entry list \<Rightarrow> nat \<Rightarrow> (benchmark_model_config \<times> dataset_entry \<times> nat) list" where
  "plan_cells configs entries samples_per_task =
     concat (map (\<lambda>config. concat (map (\<lambda>entry. map (\<lambda>i. (config, entry, i)) [1..<samples_per_task + 1]) entries)) configs)"

definition plan_sample ::
    "benchmark_service \<Rightarrow> uuid \<Rightarrow> uuid \<Rightarrow> uuid \<Rightarrow> time \<Rightarrow> benchmark_model_config \<times> dataset_entry \<times> nat \<Rightarrow> benchmark_sample" where
  "plan_sample sv run_id sample_id evaluation_id now cell =
     (case cell of (config, entry, sample_index) \<Rightarrow>
        \<lparr>bs_benchmark_sample_id = sample_id, bs_benchmark_run_id = run_id,
         bs_model_config_id = mc_model_config_id config, bs_evaluation_id = evaluation_id,
         bs_task_id = de_task_id entry, bs_task_version = de_task_version entry,
         bs_task_fingerprint = de_task_fingerprint entry, bs_tests_fingerprint = de_tests_fingerprint entry,
         bs_task_weight = de_weight entry, bs_sample_index = sample_index, bs_status = SAMPLE_QUEUED,
         bs_attempt_count = 0, bs_max_attempts = sv_max_attempts sv, bs_worker_id = None, bs_lease_expires_at = None,
         bs_failure_code = None, bs_evaluation_duration_seconds = None, bs_total_duration_seconds = None,
         bs_created_at = now, bs_updated_at = now, bs_completed_at = None\<rparr>)"

definition plan_benchmark ::
    "benchmark_service \<Rightarrow> (nat \<Rightarrow> uuid) \<Rightarrow> time \<Rightarrow> create_request \<Rightarrow> string option
     \<Rightarrow> benchmark_error + benchmark_run \<times> benchmark_model_config list \<times> benchmark_sample list" where
  "plan_benchmark sv uuids now request idempotency_key =
     (case get_dataset (sv_datasets sv) (cq_dataset_id request) (cq_dataset_version request) of
        Inl err \<Rightarrow> Inl (BenchmarkDatasetError err)
      | Inr dataset \<Rightarrow>
          (let entries = ds_task_entries dataset; es = sv_evaluations sv;
               planned = length entries * length (cq_models request) * cq_samples_per_task request in
           case validate_limits sv request (length entries) planned of
             Some err \<Rightarrow> Inl err
           | None \<Rightarrow>
               (case benchmark_evaluator_fingerprint es (sv_tasks sv) entries of
                  Inl err \<Rightarrow> Inl (BenchmarkTaskError err)
                | Inr evaluator_hash \<Rightarrow>
                    (case plan_configs sv uuids [] [] (cq_models request) of
                       Inl err \<Rightarrow> Inl err
                     | Inr (config_hashes, configs) \<Rightarrow> Inr
                         (\<lparr>br_benchmark_run_id = uuids 0, br_created_at = now, br_started_at = None, br_completed_at = None,
                           br_status = RUN_QUEUED, br_dataset_id = ds_dataset_id dataset,
                           br_dataset_version = ds_dataset_version dataset,
                           br_dataset_fingerprint = ds_dataset_fingerprint dataset,
                           br_benchmark_policy_version = BENCHMARK_POLICY_VERSION,
                           br_coding_prompt_version = CODING_PROMPT_VERSION,
                           br_coding_prompt_hash = CODING_PROMPT_HASH (es_sha es),
                           br_evaluator_fingerprint = evaluator_hash,
                           br_benchmark_run_fingerprint = benchmark_run_fingerprint (es_sha es) (es_repr es)
                             (ds_dataset_fingerprint dataset) config_hashes (cq_samples_per_task request)
                             CODING_PROMPT_VERSION (CODING_PROMPT_HASH (es_sha es)) evaluator_hash BENCHMARK_POLICY_VERSION,
                           br_samples_per_task = cq_samples_per_task request, br_planned_sample_count = planned,
                           br_request_fingerprint = create_request_fingerprint (es_sha es) (es_repr es) request,
                           br_idempotency_key = idempotency_key\<rparr>,
                          configs,
                          map (\<lambda>(n, cell). plan_sample sv (uuids 0) (uuids (length configs + 1 + 2 * n))
                              (uuids (length configs + 2 + 2 * n)) now cell)
                            (enumerate 0 (plan_cells configs entries (cq_samples_per_task request))))))))"

record benchmark_accepted =
  bc_benchmark_run_id :: uuid
  bc_status :: run_status
  bc_planned_samples :: nat
  bc_status_url :: string

definition create_benchmark ::
    "benchmark_service \<Rightarrow> (nat \<Rightarrow> uuid) \<Rightarrow> time \<Rightarrow> bool \<Rightarrow> bool \<Rightarrow> bool \<Rightarrow> (bench_db \<Rightarrow> bench_db) \<Rightarrow> (bench_db \<Rightarrow> bench_db)
     \<Rightarrow> bench_db \<Rightarrow> create_request \<Rightarrow> string option \<Rightarrow> bench_db \<times> (benchmark_error + benchmark_accepted)" where
  "create_benchmark sv uuids now f1 f2 f3 env env' db request idempotency_key =
     (case plan_benchmark sv uuids now request idempotency_key of
        Inl err \<Rightarrow> (db, Inl err)
      | Inr (run, configs, samples) \<Rightarrow>
          (case create_plan f1 f2 f3 env env' db run configs samples of
             (db', Inl (PersistenceFailure _)) \<Rightarrow> (db', Inl BenchmarkPersistenceError)
           | (db', Inl err) \<Rightarrow> (db', Inl (BenchmarkRepositoryError err))
           | (db', Inr (stored, _)) \<Rightarrow> (db', Inr
               \<lparr>bc_benchmark_run_id = br_benchmark_run_id stored, bc_status = br_status stored,
                bc_planned_samples = br_planned_sample_count stored,
                bc_status_url = ''/api/v1/benchmarks/'' @ str_uuid (br_benchmark_run_id stored)\<rparr>)))"


section \<open>Loaded datasets are current\<close>

text \<open>An entry that names an existing revision of its task with its present version and fingerprints.\<close>

definition entry_current :: "evaluation_service \<Rightarrow> task_registry \<Rightarrow> dataset_entry \<Rightarrow> bool" where
  "entry_current es tasks e \<longleftrightarrow> (\<exists>task. resolve_task tasks e = Inr task
     \<and> ts_version (rt_specification task) = de_task_version e
     \<and> es_tests_fingerprint es task = de_tests_fingerprint e
     \<and> es_task_fingerprint es task (de_tests_fingerprint e) = de_task_fingerprint e)"

definition dataset_ok :: "evaluation_service \<Rightarrow> task_registry \<Rightarrow> benchmark_dataset \<Rightarrow> bool" where
  "dataset_ok es tasks d \<longleftrightarrow> ds_task_entries d \<noteq> [] \<and> distinct (map de_task_id (ds_task_entries d))
     \<and> list_all (\<lambda>e. entry_valid e \<and> entry_current es tasks e) (ds_task_entries d)
     \<and> ds_dataset_fingerprint d
         = dataset_fingerprint (es_sha es) (es_repr es) (ds_dataset_id d) (ds_dataset_version d) (ds_task_entries d)"

definition datasets_ok ::
    "evaluation_service \<Rightarrow> task_registry \<Rightarrow> (string \<times> string, benchmark_dataset) odict \<Rightarrow> bool" where
  "datasets_ok es tasks ds \<longleftrightarrow> (\<forall>k d. map_of ds k = Some d \<longrightarrow>
     k = (ds_dataset_id d, ds_dataset_version d) \<and> dataset_ok es tasks d)"

lemma validate_entry_None: "validate_entry es tasks e = None \<Longrightarrow> entry_current es tasks e"
  by (auto simp: validate_entry_def entry_current_def Let_def split: sum.splits registry_error.splits if_splits)

lemma validate_entries_None:
  "validate_entries es tasks entries = None \<Longrightarrow> \<forall>e\<in>set entries. entry_current es tasks e"
  by (induction entries) (auto dest: validate_entry_None split: option.splits)

lemma load_dataset_Inr:
  assumes "load_dataset es tasks loaded file = Inr loaded'" "datasets_ok es tasks loaded"
  shows "datasets_ok es tasks loaded'"
proof -
  obtain name d where source: "file = (name, Some d)"
    using assms(1) by (cases "file"; cases "snd file") (auto simp: load_dataset_def)
  let ?entries = "sort_key (\<lambda>e. (de_task_id e, resolved_task_revision e)) (dd_task_entries d)"
  let ?key = "(dd_dataset_id d, dd_dataset_version d)"
  let ?ds = "\<lparr>ds_dataset_id = fst ?key, ds_dataset_version = snd ?key, ds_title = dd_title d,
     ds_description = dd_description d, ds_task_entries = ?entries,
     ds_dataset_fingerprint = dataset_fingerprint (es_sha es) (es_repr es) (fst ?key) (snd ?key) ?entries\<rparr>"
  have ok: "list_all entry_valid (dd_task_entries d)" "?entries \<noteq> []" "distinct (map de_task_id ?entries)"
    "validate_entries es tasks ?entries = None" and new: "loaded' = od_set loaded ?key ?ds"
    using assms(1) by (auto simp: load_dataset_def source Let_def split: if_splits option.splits)
  have "dataset_ok es tasks ?ds"
    using ok validate_entries_None[OF ok(4)] by (simp add: dataset_ok_def list_all_iff)
  with assms(2) show ?thesis unfolding datasets_ok_def new by (simp add: odict_simps)
qed

lemma load_dataset_files_Inr:
  "load_dataset_files es tasks loaded files = Inr ds \<Longrightarrow> datasets_ok es tasks loaded \<Longrightarrow> datasets_ok es tasks ds"
  by (induction files arbitrary: loaded) (auto dest: load_dataset_Inr split: sum.splits)

lemma load_datasets_ok: "load_datasets es tasks files = Inr ds \<Longrightarrow> datasets_ok es tasks ds"
  unfolding load_datasets_def by (rule load_dataset_files_Inr) (auto simp: datasets_ok_def)

lemma get_dataset_ok:
  assumes "datasets_ok es tasks ds" "get_dataset ds i v = Inr d"
  shows "dataset_ok es tasks d" "ds_dataset_id d = i" "ds_dataset_version d = v"
  using assms by (auto simp: get_dataset_def datasets_ok_def split: option.splits)

section \<open>Plans are complete\<close>

lemma plan_configs_Inr:
  assumes "plan_configs sv uuids hashes configs ms = Inr (hashes', configs')"
    and "map mc_model_configuration_fingerprint configs = hashes" "distinct hashes"
    and "map mc_ordinal configs = [0..<length configs]"
    and "map mc_model_config_id configs = map (\<lambda>n. uuids (n + 1)) [0..<length configs]"
    and "\<forall>c\<in>set configs. mc_benchmark_run_id c = uuids 0"
  shows "length configs' = length configs + length ms \<and> map mc_model_configuration_fingerprint configs' = hashes'
    \<and> distinct hashes' \<and> map mc_ordinal configs' = [0..<length configs']
    \<and> map mc_model_config_id configs' = map (\<lambda>n. uuids (n + 1)) [0..<length configs']
    \<and> (\<forall>c\<in>set configs'. mc_benchmark_run_id c = uuids 0)"
  using assms
proof (induction ms arbitrary: hashes configs)
  case (Cons m ms)
  let ?prompt = "model_coding_prompt_hash (es_sha (sv_evaluations sv)) (mr_output_mode m)"
  let ?identity = "model_configuration_fingerprint (es_sha (sv_evaluations sv)) (es_repr (sv_evaluations sv)) m ?prompt"
  let ?config = "plan_config sv (uuids 0) (uuids (length configs + 1)) (length configs) m ?prompt ?identity"
  have new: "?identity \<notin> set hashes"
    and rest: "plan_configs sv uuids (hashes @ [?identity]) (configs @ [?config]) ms = Inr (hashes', configs')"
    using Cons.prems(1) by (auto simp: Let_def split: if_splits)
  have "map mc_model_configuration_fingerprint (configs @ [?config]) = hashes @ [?identity]"
    "distinct (hashes @ [?identity])" "map mc_ordinal (configs @ [?config]) = [0..<length (configs @ [?config])]"
    "map mc_model_config_id (configs @ [?config]) = map (\<lambda>n. uuids (n + 1)) [0..<length (configs @ [?config])]"
    "\<forall>c\<in>set (configs @ [?config]). mc_benchmark_run_id c = uuids 0"
    using Cons.prems(2-6) new by (simp_all add: plan_config_def)
  from Cons.IH[OF rest this] show ?case by simp
qed simp

lemma length_plan_cells: "length (plan_cells configs entries k) = length configs * (length entries * k)"
proof -
  have "length (concat (map (\<lambda>e. map (\<lambda>i. (c, e, i)) [1..<k + 1]) entries)) = length entries * k" for c :: benchmark_model_config
    by (induction entries) simp_all
  then show ?thesis unfolding plan_cells_def by (induction configs) simp_all
qed

lemma set_plan_cells: "set (plan_cells configs entries k) = set configs \<times> set entries \<times> {1..k}"
proof -
  have "set [1..<k + 1] = {1..k}" by auto
  then show ?thesis unfolding plan_cells_def set_concat set_map by auto
qed

lemma distinct_map_cells:
  assumes "distinct (map f configs)" "distinct (map g entries)"
  shows "distinct (map (\<lambda>(c, e, i). (f c, g e, i)) (plan_cells configs entries k))"
proof -
  have inner: "distinct (map (\<lambda>(c, e, i). (f c, g e, i)) (concat (map (\<lambda>e. map (\<lambda>i. (c, e, i)) [1..<k + 1]) entries)))" for c
    using assms(2)
  proof (induction entries)
    case (Cons e entries)
    have "distinct (map (\<lambda>i. (f c, g e, i)) [1..<k + 1])" by (simp add: distinct_map inj_on_def)
    with Cons show ?case by (auto simp: comp_def image_iff)
  qed simp
  show ?thesis using assms(1) unfolding plan_cells_def
  proof (induction configs)
    case (Cons c configs)
    with inner[of c] show ?case by (auto simp: image_iff)
  qed simp
qed

end
