(* ===== verification/BenchmarkProperties.thy ===== *)
theory BenchmarkProperties
  imports BenchmarkPlan JobProperties
begin

text \<open>
  What the benchmark planner and repository promise: plans are complete and within the limits, every reachable database
  satisfies the invariant, the status of a run is the one of its samples, and what is finished never changes.
\<close>

section \<open>A concrete benchmark\<close>

definition ex_bench_task :: registered_task where
  "ex_bench_task = (case get_revision ex_registry ''a'' 1 of Inr task \<Rightarrow> task | Inl _ \<Rightarrow> undefined)"

definition ex_entry :: dataset_entry where
  "ex_entry = \<lparr>de_task_id = ''a'', de_task_revision = None, de_task_version = ts_version (rt_specification ex_bench_task),
     de_task_fingerprint = es_task_fingerprint ex_service ex_bench_task (es_tests_fingerprint ex_service ex_bench_task),
     de_tests_fingerprint = es_tests_fingerprint ex_service ex_bench_task, de_weight = 1\<rparr>"

definition ex_dataset_files :: "(string \<times> dataset_definition option) list" where
  "ex_dataset_files = [(''d.json'', Some \<lparr>dd_dataset_id = ''core'', dd_dataset_version = ''1'', dd_title = ''Core'',
     dd_description = [], dd_task_entries = [ex_entry]\<rparr>)]"

definition ex_dataset :: benchmark_dataset where
  "ex_dataset = \<lparr>ds_dataset_id = ''core'', ds_dataset_version = ''1'', ds_title = ''Core'', ds_description = [],
     ds_task_entries = [ex_entry],
     ds_dataset_fingerprint = dataset_fingerprint (es_sha ex_service) (es_repr ex_service) ''core'' ''1'' [ex_entry]\<rparr>"

definition ex_datasets :: "(string \<times> string, benchmark_dataset) odict" where
  "ex_datasets = [((''core'', ''1''), ex_dataset)]"

definition ex_planner :: benchmark_service where
  "ex_planner = \<lparr>sv_datasets = ex_datasets, sv_tasks = ex_registry, sv_evaluations = ex_service, sv_pricing = [],
     sv_max_models = 4, sv_max_tasks = 4, sv_max_samples_per_task = 4, sv_max_total_generations = 8, sv_max_attempts = 2\<rparr>"

definition ex_create :: create_request where
  "ex_create = \<lparr>cq_dataset_id = ''core'', cq_dataset_version = ''1'',
     cq_models = [\<lparr>mr_provider_id = ''p'', mr_model = ''m'', mr_display_name = None, mr_temperature = 0, mr_top_p = 1,
        mr_max_output_tokens = 4000, mr_seed = None, mr_output_mode = RAW_SOURCE, mr_request_timeout_seconds = 30,
        mr_max_concurrent_requests = None\<rparr>], cq_samples_per_task = 2\<rparr>"

definition ex_plan :: "benchmark_run \<times> benchmark_model_config list \<times> benchmark_sample list" where
  "ex_plan = (case plan_benchmark ex_planner id 0 ex_create None of Inr p \<Rightarrow> p | Inl _ \<Rightarrow> undefined)"

lemma ex_resolves: "resolve_task ex_registry ex_entry = Inr ex_bench_task"
proof -
  have "is_ok (get_revision ex_registry ''a'' 1)" by code_simp
  then show ?thesis
    by (auto simp: resolve_task_def ex_entry_def resolved_task_revision_def ex_bench_task_def is_ok_def split: sum.splits)
qed

lemma ex_datasets_load: "load_datasets ex_service ex_registry ex_dataset_files = Inr ex_datasets"
proof -
  have hashes: "length (es_tests_fingerprint ex_service task) = 64" "length (es_task_fingerprint ex_service task h) = 64" for task h
    by (auto simp: es_tests_fingerprint_def es_task_fingerprint_def task_fingerprint_def canonical_hash_def
        tests_fingerprint_def ex_service_def ex_sha_length split: prod.splits)
  have "entry_valid ex_entry" by (simp add: entry_valid_def ex_entry_def hashes)
  moreover have "validate_entry ex_service ex_registry ex_entry = None"
    unfolding validate_entry_def ex_resolves by (simp add: ex_entry_def Let_def)
  ultimately show ?thesis
    by (simp add: load_datasets_def load_dataset_def ex_dataset_files_def ex_datasets_def ex_dataset_def Let_def)
qed

lemma ex_plan_made: "plan_benchmark ex_planner id 0 ex_create None = Inr ex_plan"
proof -
  have task: "get_revision ex_registry (de_task_id ex_entry) (resolved_task_revision ex_entry) = Inr ex_bench_task"
    using ex_resolves by (simp add: resolve_task_def)
  have "is_ok (plan_benchmark ex_planner id 0 ex_create None)"
    by (simp add: plan_benchmark_def get_dataset_def ex_planner_def ex_create_def ex_datasets_def ex_dataset_def Let_def
        validate_limits_def benchmark_evaluator_fingerprint_def task split: prod.splits)
  then show ?thesis by (auto simp: ex_plan_def is_ok_def split: sum.splits)
qed

text \<open>The history of a run with one sample: planned, claimed, generated and evaluated.\<close>

definition ex_bench_run :: benchmark_run where
  "ex_bench_run = \<lparr>br_benchmark_run_id = 1, br_created_at = 0, br_started_at = None, br_completed_at = None,
     br_status = RUN_QUEUED, br_dataset_id = ''core'', br_dataset_version = ''1'', br_dataset_fingerprint = ex_hash,
     br_benchmark_policy_version = ''1'', br_coding_prompt_version = ''2'', br_coding_prompt_hash = ex_hash,
     br_evaluator_fingerprint = ex_hash, br_benchmark_run_fingerprint = ex_hash, br_samples_per_task = 1,
     br_planned_sample_count = 1, br_request_fingerprint = ex_hash, br_idempotency_key = Some ''k''\<rparr>"

definition ex_config :: benchmark_model_config where
  "ex_config = \<lparr>mc_model_config_id = 2, mc_benchmark_run_id = 1, mc_ordinal = 0, mc_provider_id = ''p'',
     mc_model = ''m'', mc_display_name = ''m'', mc_temperature = 0, mc_top_p = 1, mc_max_output_tokens = 4000,
     mc_seed = None, mc_output_mode = RAW_SOURCE, mc_request_timeout_seconds = 30, mc_max_concurrent_requests = None,
     mc_coding_prompt_hash = ex_hash, mc_model_configuration_fingerprint = ex_hash, mc_pricing = None\<rparr>"

definition ex_sample :: benchmark_sample where
  "ex_sample = \<lparr>bs_benchmark_sample_id = 3, bs_benchmark_run_id = 1, bs_model_config_id = 2, bs_evaluation_id = 7,
     bs_task_id = ''lru-cache'', bs_task_version = ''1'', bs_task_fingerprint = ex_hash, bs_tests_fingerprint = ex_hash,
     bs_task_weight = 1, bs_sample_index = 1, bs_status = SAMPLE_QUEUED, bs_attempt_count = 0, bs_max_attempts = 2,
     bs_worker_id = None, bs_lease_expires_at = None, bs_failure_code = None, bs_evaluation_duration_seconds = None,
     bs_total_duration_seconds = None, bs_created_at = 0, bs_updated_at = 0, bs_completed_at = None\<rparr>"

definition ex_artifact :: generated_artifact where
  "ex_artifact = \<lparr>ga_benchmark_sample_id = 3, ga_source = ''x'', ga_source_hash = ex_hash, ga_source_size = 1,
     ga_generation_attempts = 1, ga_provider_response_id = None, ga_input_tokens = None, ga_output_tokens = None,
     ga_generation_latency_ms = 5, ga_pricing_version = None, ga_generation_cost = None, ga_currency = None,
     ga_created_at = 11\<rparr>"

definition ex_planned :: bench_db where
  "ex_planned = \<lparr>bd_runs = [ex_bench_run], bd_configs = [ex_config], bd_samples = [ex_sample], bd_artifacts = [],
     bd_outbox = [bench_outbox_record 0 3 0 None], bd_evaluations = [], bd_fresh = 1\<rparr>"

definition ex_claimed_sample :: benchmark_sample where
  "ex_claimed_sample = ex_sample\<lparr>bs_status := GENERATING, bs_attempt_count := 1, bs_worker_id := Some ''w'',
     bs_lease_expires_at := Some (10 + td_micros 60), bs_updated_at := 10\<rparr>"

definition ex_claimed :: bench_db where
  "ex_claimed = ex_planned\<lparr>bd_samples := [ex_claimed_sample],
     bd_runs := [ex_bench_run\<lparr>br_status := RUN_RUNNING, br_started_at := Some 10\<rparr>]\<rparr>"

definition ex_generated :: bench_db where
  "ex_generated = ex_claimed\<lparr>bd_artifacts := [ex_artifact],
     bd_samples := [ex_claimed_sample\<lparr>bs_status := EVALUATING, bs_updated_at := 12\<rparr>]\<rparr>"

definition ex_evaluated :: bench_db where
  "ex_evaluated = ex_generated\<lparr>bd_evaluations := [evaluation_record_from_snapshot ex_snapshot],
     bd_samples := [completed_sample (ex_claimed_sample\<lparr>bs_status := EVALUATING, bs_updated_at := 12\<rparr>) ex_snapshot 20 10],
     bd_runs := [ex_bench_run\<lparr>br_status := RUN_COMPLETED, br_started_at := Some 10, br_completed_at := Some 20\<rparr>]\<rparr>"

lemma ex_rows:
  "run_checks ex_bench_run" "config_checks ex_config" "sample_checks ex_sample" "artifact_checks ex_artifact"
  "evaluation_checks (evaluation_record_from_snapshot ex_snapshot)"
  "run_columns ex_bench_run" "config_columns ex_config" "sample_columns ex_sample" "artifact_columns ex_artifact"
  by code_simp+

lemma ex_planned_ok: "bench_columns ex_planned" "bench_constraints ex_planned"
  using ex_rows
  by (simp_all add: ex_planned_def bench_columns_def bench_constraints_def bench_keys_def bench_references_def
      bench_checks_def row_wf_def bench_outbox_record_def ex_bench_run_def ex_config_def ex_sample_def)

lemma ex_planning:
  "create_plan False False False (\<lambda>d. d) (\<lambda>d. d) empty_bench ex_bench_run [ex_config] [ex_sample]
     = (ex_planned, Inr (ex_bench_run, True))"
proof -
  have "planned_db empty_bench ex_bench_run [ex_config] [ex_sample] = ex_planned"
    by (simp add: planned_db_def add_bench_outbox_def empty_bench_def ex_planned_def ex_sample_def)
  moreover have "run_by_idempotency_key False empty_bench ''k'' = Inr None"
    by (simp add: run_by_idempotency_key_def empty_bench_def)
  moreover have "br_idempotency_key ex_bench_run = Some ''k''" by (simp add: ex_bench_run_def)
  ultimately show ?thesis using ex_planned_ok by (simp add: create_plan_def Let_def)
qed

lemma ex_planned_step: "bench_step empty_bench ex_planned"
proof -
  have "new_plan ex_bench_run [ex_config] [ex_sample]"
    by (simp add: new_plan_def new_sample_def ex_bench_run_def ex_sample_def)
  from be_create[OF this, of empty_bench False False False] show ?thesis by (simp add: ex_planning)
qed

lemma ex_claiming: "bench_claim False ex_planned 3 ''w'' 10 60 = (ex_claimed, Inr (Some ex_claimed_sample))"
proof -
  have ok: "bench_ok ex_planned" using ex_planned_step empty_bench_ok bench_samples.inv_step by blast
  have "get_sample ex_planned 3 = Some ex_sample" "claimable_sample ex_sample"
    by (simp_all add: ex_planned_def ex_sample_def claimable_sample_def table_simps)
  from bench_claim_taken[OF ok this] show ?thesis
    by (simp add: claimed_sample_def start_run_def put_sample_def put_run_def table_simps ex_planned_def ex_sample_def
        ex_bench_run_def ex_claimed_def ex_claimed_sample_def)
qed

lemma ex_generated_ok: "bench_columns ex_generated" "bench_constraints ex_generated"
  using ex_planned_ok ex_rows
  by (simp_all add: ex_generated_def ex_claimed_def ex_planned_def ex_claimed_sample_def bench_columns_def
      bench_constraints_def bench_keys_def bench_references_def bench_checks_def row_wf_def bench_outbox_record_def
      ex_bench_run_def ex_config_def ex_sample_def ex_artifact_def run_columns_def run_checks_def sample_columns_def
      sample_checks_def)

lemma ex_generating: "store_artifact False ex_claimed 3 ''w'' ex_artifact 12 = (ex_generated, Inr True)"
proof -
  have "0 < td_micros 60" by code_simp
  moreover have "put_sample (ex_claimed_sample\<lparr>bs_status := EVALUATING, bs_updated_at := 12\<rparr>)
      (ex_claimed\<lparr>bd_artifacts := bd_artifacts ex_claimed @ [ex_artifact]\<rparr>) = ex_generated"
    by (simp add: ex_generated_def ex_claimed_def ex_planned_def put_sample_def table_simps ex_claimed_sample_def ex_sample_def)
  moreover have "get_sample ex_claimed 3 = Some ex_claimed_sample" "get_artifact ex_claimed 3 = None"
    by (simp_all add: ex_claimed_def ex_planned_def ex_claimed_sample_def ex_sample_def table_simps)
  moreover have "owns_active_benchmark_lease ex_claimed_sample ''w'' 12 \<longleftrightarrow> 2 < td_micros 60" "bs_status ex_claimed_sample = GENERATING"
    by (simp_all add: owns_active_benchmark_lease_def ex_claimed_sample_def)
  moreover have "2 < td_micros 60" by code_simp
  ultimately show ?thesis using ex_generated_ok by (simp add: store_artifact_def bench_commit_def)
qed

lemma ex_evaluated_ok: "bench_columns ex_evaluated" "bench_constraints ex_evaluated"
  using ex_planned_ok ex_generated_ok ex_rows
  by (simp_all add: ex_evaluated_def ex_generated_def ex_claimed_def ex_planned_def ex_claimed_sample_def bench_columns_def
      bench_constraints_def bench_keys_def bench_references_def bench_checks_def row_wf_def bench_outbox_record_def
      ex_bench_run_def ex_config_def ex_sample_def ex_artifact_def run_columns_def run_checks_def sample_columns_def
      sample_checks_def completed_sample_def)

lemma ex_completing: "bench_complete False ex_generated 3 ''w'' ex_snapshot 20 10 = (ex_evaluated, Inr True)"
proof -
  let ?s = "ex_claimed_sample\<lparr>bs_status := EVALUATING, bs_updated_at := 12\<rparr>"
  let ?db = "ex_generated\<lparr>bd_evaluations := bd_evaluations ex_generated @ [evaluation_record_from_snapshot ex_snapshot]\<rparr>"
  have "10 < td_micros 60" by code_simp
  then have owner: "owns_active_benchmark_lease ?s ''w'' 20"
    by (simp add: owns_active_benchmark_lease_def ex_claimed_sample_def)
  have row: "get_sample ex_generated 3 = Some ?s" "row_get ev_evaluation_id (bd_evaluations ex_generated) 7 = None"
    by (simp_all add: ex_generated_def ex_claimed_def ex_planned_def ex_claimed_sample_def ex_sample_def table_simps)
  have ids: "sn_evaluation_id ex_snapshot = 7" "bs_evaluation_id ?s = 7" "bs_benchmark_run_id ?s = 1" "bs_status ?s \<noteq> SAMPLE_COMPLETED"
    by (simp_all add: ex_snapshot_def ex_claimed_sample_def ex_sample_def)
  have out: "fst (finish_run_if_terminal (put_sample (completed_sample ?s ex_snapshot 20 10) ?db) 1 20) = ex_evaluated"
    by (simp add: finish_run_if_terminal_def samples_of_def put_sample_def put_run_def finished_run_def table_simps
        ex_evaluated_def ex_generated_def ex_claimed_def ex_planned_def completed_sample_def ex_claimed_sample_def
        ex_sample_def ex_bench_run_def TERMINAL_SAMPLE_STATUSES_def)
  show ?thesis using owner row ids out ex_evaluated_ok
    by (simp add: bench_complete_def Let_def bench_commit_def)
qed

lemma ex_bench_history:
  "bench_step\<^sup>*\<^sup>* empty_bench ex_planned" "bench_step\<^sup>*\<^sup>* empty_bench ex_evaluated"
  "bench_step\<^sup>*\<^sup>* ex_evaluated (fst (bench_claim False ex_evaluated 3 ''v'' 30 60))"
proof -
  have 2: "bench_step ex_planned ex_claimed"
    using be_claim[of ex_planned False 3 "''w''" 10 60] by (simp add: ex_claiming)
  have "ga_benchmark_sample_id ex_artifact = 3" by (simp add: ex_artifact_def)
  from be_artifact[OF this, of ex_claimed False "''w''" 12] have 3: "bench_step ex_claimed ex_generated"
    by (simp add: ex_generating)
  have 4: "bench_step ex_generated ex_evaluated"
    using be_complete[of ex_generated False 3 "''w''" ex_snapshot 20 10] by (simp add: ex_completing)
  show "bench_step\<^sup>*\<^sup>* empty_bench ex_planned" using ex_planned_step by simp
  show "bench_step\<^sup>*\<^sup>* empty_bench ex_evaluated"
    using ex_planned_step 2 3 4 by (meson converse_rtranclp_into_rtranclp rtranclp.rtrancl_refl)
  show "bench_step\<^sup>*\<^sup>* ex_evaluated (fst (bench_claim False ex_evaluated 3 ''v'' 30 60))"
    by (rule r_into_rtranclp) (rule be_claim)
qed

lemma ex_bench_states:
  "sample_status_of ex_evaluated 3 = Some SAMPLE_COMPLETED" "run_status_of ex_evaluated 1 = Some RUN_COMPLETED"
  by (simp_all add: sample_status_of_def run_status_of_def ex_evaluated_def ex_generated_def ex_claimed_def ex_planned_def
      completed_sample_def ex_claimed_sample_def ex_sample_def ex_bench_run_def table_simps)

section \<open>Plans\<close>

text \<open>
  A loaded dataset is current: it has at least one task and no task twice, each of its entries resolves to an existing
  task revision with the version and the fingerprints that the entry records, and its own fingerprint is the one of
  its identity and entries.
\<close>
theorem loaded_dataset_current:
  assumes "load_datasets es tasks files = Inr datasets" "get_dataset datasets i v = Inr dataset"
  shows "ds_dataset_id dataset = i \<and> ds_dataset_version dataset = v \<and> ds_task_entries dataset \<noteq> []
    \<and> distinct (map de_task_id (ds_task_entries dataset))
    \<and> ds_dataset_fingerprint dataset = dataset_fingerprint (es_sha es) (es_repr es) i v (ds_task_entries dataset)
    \<and> (\<forall>e\<in>set (ds_task_entries dataset). \<exists>task.
         resolve_dataset_task tasks dataset (de_task_id e) = Inr (e, task)
         \<and> ts_version (rt_specification task) = de_task_version e
         \<and> es_tests_fingerprint es task = de_tests_fingerprint e
         \<and> es_task_fingerprint es task (de_tests_fingerprint e) = de_task_fingerprint e)"
proof -
  note ok = get_dataset_ok[OF load_datasets_ok[OF assms(1)] assms(2)]
  have "find (\<lambda>x. de_task_id x = de_task_id e) (ds_task_entries dataset) = Some e" if "e \<in> set (ds_task_entries dataset)" for e
    using row_get_wf[of de_task_id "ds_task_entries dataset" e] that ok(1)
    by (simp add: row_wf_def row_get_def dataset_ok_def)
  with ok show ?thesis
    by (fastforce simp: dataset_ok_def list_all_iff entry_current_def resolve_dataset_task_def)
qed

theorem loaded_dataset_current_witness:
  "\<exists>task. resolve_dataset_task ex_registry ex_dataset ''a'' = Inr (ex_entry, task)"
proof -
  have "get_dataset ex_datasets ''core'' ''1'' = Inr ex_dataset" by (simp add: get_dataset_def ex_datasets_def)
  from loaded_dataset_current[OF ex_datasets_load this] show ?thesis
    by (auto simp: ex_dataset_def ex_entry_def)
qed

lemma plan_benchmark_Inr:
  assumes "plan_benchmark sv uuids now request key = Inr (run, configs, samples)"
  obtains dataset hashes where
    "get_dataset (sv_datasets sv) (cq_dataset_id request) (cq_dataset_version request) = Inr dataset"
    "validate_limits sv request (length (ds_task_entries dataset)) (br_planned_sample_count run) = None"
    "plan_configs sv uuids [] [] (cq_models request) = Inr (hashes, configs)"
    "br_planned_sample_count run = length (ds_task_entries dataset) * length (cq_models request) * cq_samples_per_task request"
    "br_benchmark_run_id run = uuids 0" "br_status run = RUN_QUEUED" "br_started_at run = None" "br_completed_at run = None"
    "br_samples_per_task run = cq_samples_per_task request"
    "samples = map (\<lambda>(n, cell). plan_sample sv (uuids 0) (uuids (length configs + 1 + 2 * n))
        (uuids (length configs + 2 + 2 * n)) now cell)
      (enumerate 0 (plan_cells configs (ds_task_entries dataset) (cq_samples_per_task request)))"
  using assms
  by (auto simp: plan_benchmark_def Let_def split: sum.splits option.splits)

lemma validate_limits_None:
  "validate_limits sv request tasks planned = None \<Longrightarrow>
   length (cq_models request) \<le> sv_max_models sv \<and> tasks \<le> sv_max_tasks sv
   \<and> cq_samples_per_task request \<le> sv_max_samples_per_task sv \<and> planned \<le> sv_max_total_generations sv"
  by (auto simp: validate_limits_def split: if_splits)

lemma image_cells: "(\<lambda>(c, e, i). (f c, g e, i)) ` (A \<times> B \<times> C) = f ` A \<times> g ` B \<times> C"
  by (auto simp: image_iff)

lemma plan_benchmark_new:
  assumes "load_datasets es tasks files = Inr (sv_datasets sv)" "create_request_valid request" "0 < sv_max_attempts sv"
    and "plan_benchmark sv uuids now request key = Inr (run, configs, samples)"
  shows "new_plan run configs samples" "length samples = br_planned_sample_count run"
proof -
  obtain dataset hashes where plan:
    "get_dataset (sv_datasets sv) (cq_dataset_id request) (cq_dataset_version request) = Inr dataset"
    "plan_configs sv uuids [] [] (cq_models request) = Inr (hashes, configs)"
    "br_planned_sample_count run = length (ds_task_entries dataset) * length (cq_models request) * cq_samples_per_task request"
    "br_benchmark_run_id run = uuids 0" "br_status run = RUN_QUEUED" "br_started_at run = None" "br_completed_at run = None"
    and samples: "samples = map (\<lambda>(n, cell). plan_sample sv (uuids 0) (uuids (length configs + 1 + 2 * n))
        (uuids (length configs + 2 + 2 * n)) now cell)
      (enumerate 0 (plan_cells configs (ds_task_entries dataset) (cq_samples_per_task request)))"
    using assms(4) by (rule plan_benchmark_Inr)
  note dataset = get_dataset_ok(1)[OF load_datasets_ok[OF assms(1)] plan(1)]
  show count: "length samples = br_planned_sample_count run"
    using plan_configs_Inr[OF plan(2)] by (simp add: samples plan(3) length_plan_cells)
  have "samples \<noteq> []"
    using count plan(3) assms(2) dataset by (auto simp: create_request_valid_def dataset_ok_def)
  moreover have "list_all (new_sample run) samples"
    using assms(3) plan(4) by (auto simp: samples list_all_iff new_sample_def plan_sample_def)
  ultimately show "new_plan run configs samples" using plan(5-7) by (simp add: new_plan_def)
qed

text \<open>
  C25: A plan is complete and bounded: it has one queued sample for every combination of model configuration, dataset task
  and sample index, each exactly once, as many as the run announces and no more than the limits allow, its model
  configurations are pairwise different, and it is a plan with which the repository may start.
\<close>
theorem benchmark_plan_complete:
  assumes "load_datasets es tasks files = Inr (sv_datasets sv)" "create_request_valid request" "0 < sv_max_attempts sv"
    and "inj uuids" "plan_benchmark sv uuids now request key = Inr (run, configs, samples)"
  shows "new_plan run configs samples
    \<and> length samples = br_planned_sample_count run \<and> br_planned_sample_count run \<le> sv_max_total_generations sv
    \<and> length configs = length (cq_models request) \<and> length configs \<le> sv_max_models sv
    \<and> distinct (map mc_model_configuration_fingerprint configs)
    \<and> distinct (map (\<lambda>s. (bs_model_config_id s, bs_task_id s, bs_sample_index s)) samples)
    \<and> (\<exists>dataset. get_dataset (sv_datasets sv) (cq_dataset_id request) (cq_dataset_version request) = Inr dataset
         \<and> (\<lambda>s. (bs_model_config_id s, bs_task_id s, bs_sample_index s)) ` set samples
           = mc_model_config_id ` set configs \<times> de_task_id ` set (ds_task_entries dataset) \<times> {1..cq_samples_per_task request})"
proof -
  obtain dataset hashes where plan:
    "get_dataset (sv_datasets sv) (cq_dataset_id request) (cq_dataset_version request) = Inr dataset"
    "validate_limits sv request (length (ds_task_entries dataset)) (br_planned_sample_count run) = None"
    "plan_configs sv uuids [] [] (cq_models request) = Inr (hashes, configs)"
    and samples: "samples = map (\<lambda>(n, cell). plan_sample sv (uuids 0) (uuids (length configs + 1 + 2 * n))
        (uuids (length configs + 2 + 2 * n)) now cell)
      (enumerate 0 (plan_cells configs (ds_task_entries dataset) (cq_samples_per_task request)))"
    using assms(5) by (rule plan_benchmark_Inr)
  let ?cells = "plan_cells configs (ds_task_entries dataset) (cq_samples_per_task request)"
  let ?key = "\<lambda>s. (bs_model_config_id s, bs_task_id s, bs_sample_index s)"
  let ?cell_key = "\<lambda>(c, e, i). (mc_model_config_id c, de_task_id e, i)"
  note dataset = get_dataset_ok(1)[OF load_datasets_ok[OF assms(1)] plan(1)]
  note configs = plan_configs_Inr[OF plan(3), simplified]
  note limits = validate_limits_None[OF plan(2)]
  have keys: "map ?key samples = map ?cell_key ?cells"
    by (rule nth_equalityI) (auto simp: samples nth_enumerate_eq plan_sample_def split: prod.splits)
  have "distinct (map mc_model_config_id configs)"
    using configs assms(4) by (auto simp: distinct_map inj_on_def dest: injD)
  moreover have "distinct (map de_task_id (ds_task_entries dataset))" using dataset by (simp add: dataset_ok_def)
  ultimately have "distinct (map ?key samples)" unfolding keys by (rule distinct_map_cells)
  moreover have "?key ` set samples = mc_model_config_id ` set configs \<times> de_task_id ` set (ds_task_entries dataset)
      \<times> {1..cq_samples_per_task request}"
  proof -
    have "?key ` set samples = ?cell_key ` set ?cells" using keys by (metis list.set_map)
    then show ?thesis unfolding set_plan_cells image_cells .
  qed
  ultimately show ?thesis
    using plan_benchmark_new[OF assms(1-3,5)] configs limits plan(1) by simp
qed

theorem benchmark_plan_complete_witness:
  "case ex_plan of (run, configs, samples) \<Rightarrow> new_plan run configs samples \<and> length configs = 1"
proof -
  obtain run configs samples where plan: "ex_plan = (run, configs, samples)" by (cases ex_plan)
  have datasets: "load_datasets ex_service ex_registry ex_dataset_files = Inr (sv_datasets ex_planner)"
    by (simp add: ex_datasets_load ex_planner_def)
  have valid: "create_request_valid ex_create"
    by (simp add: create_request_valid_def model_request_valid_def ex_create_def)
  have attempts: "0 < sv_max_attempts ex_planner" by (simp add: ex_planner_def)
  have one: "length (cq_models ex_create) = 1" by (simp add: ex_create_def)
  from benchmark_plan_complete[OF datasets valid attempts inj_on_id ex_plan_made[unfolded plan]]
  have "new_plan run configs samples \<and> length configs = length (cq_models ex_create)" by blast
  then show ?thesis unfolding plan one by simp
qed

lemma create_benchmark_steps:
  assumes "load_datasets es tasks files = Inr (sv_datasets sv)" "create_request_valid request" "0 < sv_max_attempts sv"
  shows "bench_step\<^sup>*\<^sup>* db (fst (create_benchmark sv uuids now f1 f2 f3 (\<lambda>d. d) (\<lambda>d. d) db request key))"
proof (cases "plan_benchmark sv uuids now request key")
  case (Inr p)
  obtain run configs samples where p: "p = (run, configs, samples)" by (cases p)
  have "new_plan run configs samples"
    using plan_benchmark_new(1)[OF assms(1-3)] Inr p by blast
  then have "bench_step db (fst (create_plan f1 f2 f3 (\<lambda>d. d) (\<lambda>d. d) db run configs samples))" by (rule be_create)
  then show ?thesis
    by (auto simp: create_benchmark_def Inr p split: prod.splits sum.splits repo_error.splits)
qed (simp add: create_benchmark_def)

section \<open>Runs and samples\<close>

text \<open>
  C22: In every database that the transactions of the benchmark repository reach, in any order and with any faults, clocks and
  workers, the invariant holds. The attempts of a sample are bounded, with one left while it waits; it has an owner and a lease
  exactly while it is worked on, and an end time exactly when it is terminal; it has no artifact while it is queued or
  generated, and one while it waits for its evaluation or is evaluated (nothing is said of the artifact of a terminal
  sample); a completed sample has a stored evaluation and no failure code, any other terminal one has a failure code. A
  run is finished exactly when all its samples are terminal, and the constraints of all tables hold.
\<close>
theorem benchmark_reachable_ok:
  "bench_step\<^sup>*\<^sup>* empty_bench db \<Longrightarrow> bench_ok db"
  using bench_samples.inv_run empty_bench_ok by blast

theorem benchmark_reachable_ok_witness: "bench_ok ex_evaluated \<and> sample_status_of ex_evaluated 3 = Some SAMPLE_COMPLETED"
  using benchmark_reachable_ok[OF ex_bench_history(2)] ex_bench_states(1) by simp

text \<open>
  C23: The status of a run always agrees with its samples: it is completed or partial exactly when all of them are terminal,
  partial exactly when moreover one was given up after expired leases, queued only while none was ever claimed, and
  never failed. So the reconciliation of runs never finds one to repair.
\<close>
theorem run_status_follows_samples:
  assumes "bench_step\<^sup>*\<^sup>* empty_bench db" "get_run db k = Some run"
  shows "(br_status run \<in> {RUN_COMPLETED, RUN_PARTIAL}
      \<longleftrightarrow> (\<forall>s\<in>set (samples_of db k). bs_status s \<in> TERMINAL_SAMPLE_STATUSES))
    \<and> (br_status run = RUN_PARTIAL \<longleftrightarrow> (\<forall>s\<in>set (samples_of db k). bs_status s \<in> TERMINAL_SAMPLE_STATUSES)
         \<and> (\<exists>s\<in>set (samples_of db k). bs_status s = SKIPPED))
    \<and> (br_status run = RUN_QUEUED \<longrightarrow> (\<forall>s\<in>set (samples_of db k). bs_attempt_count s = 0))
    \<and> br_status run \<noteq> RUN_FAILED \<and> samples_of db k \<noteq> []
    \<and> reconcile_terminal_runs False db now limit = (db, Inr 0)"
proof -
  have ok: "bench_ok db" using bench_samples.inv_run[OF assms(1) empty_bench_ok] .
  from get_run_ok(1)[OF ok assms(2)] reconcile_nothing[OF ok] show ?thesis
    by (auto simp: run_ok_def finished_def terminal_sample_def)
qed

theorem run_status_follows_samples_witness:
  "samples_of ex_evaluated 1 \<noteq> [] \<and> list_all (\<lambda>s. bs_status s \<in> TERMINAL_SAMPLE_STATUSES) (samples_of ex_evaluated 1)"
proof -
  obtain run where run: "get_run ex_evaluated 1 = Some run" "br_status run = RUN_COMPLETED"
    using ex_bench_states(2) by (auto simp: run_status_of_def)
  from run_status_follows_samples[OF ex_bench_history(2) run(1)] run(2) show ?thesis by (simp add: list_all_iff)
qed

text \<open>
  C24: Benchmark results are final: a terminal sample and a finished run keep every column of their rows, whatever
  transactions follow. Before that, no transaction changes the stored plan of a sample (its run, configuration, task with
  version, fingerprints and weight, index, evaluation, attempt limit and time of creation) nor, of a run, anything but its
  status and its start and end times; and a stored configuration, artifact or evaluation is neither changed nor removed.
  These are all the columns that the triggers of the migration protect, and the evaluations.
\<close>
theorem benchmark_results_final:
  assumes "bench_step\<^sup>*\<^sup>* empty_bench db" "bench_step\<^sup>*\<^sup>* db db'"
  shows "(\<forall>i s. get_sample db i = Some s \<longrightarrow> (\<exists>s'. get_sample db' i = Some s' \<and> same_plan s' s
       \<and> bs_attempt_count s \<le> bs_attempt_count s' \<and> (bs_status s \<in> TERMINAL_SAMPLE_STATUSES \<longrightarrow> s' = s)))
    \<and> (\<forall>k r. get_run db k = Some r \<longrightarrow> (\<exists>r'. get_run db' k = Some r' \<and> same_request r' r
       \<and> (br_status r \<in> {RUN_COMPLETED, RUN_PARTIAL} \<longrightarrow> r' = r)))
    \<and> (\<forall>i c. row_get mc_model_config_id (bd_configs db) i = Some c \<longrightarrow> row_get mc_model_config_id (bd_configs db') i = Some c)
    \<and> (\<forall>i a. get_artifact db i = Some a \<longrightarrow> get_artifact db' i = Some a)
    \<and> (\<forall>i e. row_get ev_evaluation_id (bd_evaluations db) i = Some e
        \<longrightarrow> row_get ev_evaluation_id (bd_evaluations db') i = Some e)"
proof -
  have "bench_ok db" using bench_samples.inv_run[OF assms(1) empty_bench_ok] .
  note rows = bench_run_evolves[OF assms(2) this, unfolded evolves_def sample_evolves_def run_evolves_def
    terminal_sample_def finished_def]
  have configs: "\<forall>i c. row_get mc_model_config_id (bd_configs db) i = Some c
      \<longrightarrow> row_get mc_model_config_id (bd_configs db') i = Some c"
    using bench_run_grows[OF assms(2)] unfolding grows_def by (blast intro: adds_to_get)
  show ?thesis
  proof (intro conjI)
    show "\<forall>i s. get_sample db i = Some s \<longrightarrow> (\<exists>s'. get_sample db' i = Some s' \<and> same_plan s' s
       \<and> bs_attempt_count s \<le> bs_attempt_count s' \<and> (bs_status s \<in> TERMINAL_SAMPLE_STATUSES \<longrightarrow> s' = s))"
      using rows by meson
    show "\<forall>k r. get_run db k = Some r \<longrightarrow> (\<exists>r'. get_run db' k = Some r' \<and> same_request r' r
       \<and> (br_status r \<in> {RUN_COMPLETED, RUN_PARTIAL} \<longrightarrow> r' = r))"
      using rows by meson
  qed (use configs kept_artifact[OF assms(2)] kept_evaluation[OF assms(2)] in auto)
qed

theorem benchmark_results_final_witness:
  "get_sample (fst (bench_claim False ex_evaluated 3 ''v'' 30 60)) 3 = get_sample ex_evaluated 3"
proof -
  obtain s where "get_sample ex_evaluated 3 = Some s" "bs_status s = SAMPLE_COMPLETED"
    using ex_bench_states(1) by (auto simp: sample_status_of_def)
  with benchmark_results_final[OF ex_bench_history(2,3)] show ?thesis by (fastforce simp: TERMINAL_SAMPLE_STATUSES_def)
qed

end
