(* ===== verification/FailureDiagnostics.thy ===== *)
theory FailureDiagnostics
  imports Prelude "HOL-Library.Multiset" "HOL-Library.List_Lexorder" "HOL-Library.Char_ord"
begin

text \<open>
  The normalisation of generation failures of \<^verbatim>\<open>src/app/benchmarks/reliability.py\<close>: the persisted form of a failure code with its detail, and the
  counts of categories and details in reports.
\<close>

section \<open>Codes\<close>

definition GENERATION_FAILURE_CATEGORY_ORDER :: "string list" where
  "GENERATION_FAILURE_CATEGORY_ORDER =
     [''rate_limited'', ''unauthorized'', ''forbidden'', ''not_found'', ''provider_unavailable'', ''provider_timeout'',
      ''provider_error'', ''invalid_response'', ''malformed_output'', ''unknown'']"

definition UNKNOWN_FAILURE_DETAIL :: string where "UNKNOWN_FAILURE_DETAIL = ''unknown_detail''"
definition MAX_PERSISTED_FAILURE_LENGTH :: nat where "MAX_PERSISTED_FAILURE_LENGTH = 128"

definition SAFE_PROVIDER_FAILURE_DETAILS :: "string list" where
  "SAFE_PROVIDER_FAILURE_DETAILS =
     [''empty_choices'', ''empty_content'', ''empty_output'', ''invalid_choice'', ''invalid_choices_type'',
      ''invalid_message_type'', ''malformed_json'', ''missing_choices'', ''missing_content'', ''missing_message'',
      ''null_content'', ''reasoning_only'', ''refusal'', ''tool_call_only'', ''unsupported_content_type'',
      ''unsupported_root_type'']"

definition NORMALIZED_FAILURE_CODES :: "(string \<times> string) list" where
  "NORMALIZED_FAILURE_CODES =
     [(''provider_rate_limited'', ''rate_limited''), (''provider_unauthorized'', ''unauthorized''),
      (''provider_forbidden'', ''forbidden''), (''provider_not_found'', ''not_found''),
      (''provider_unavailable'', ''provider_unavailable''), (''provider_timeout'', ''provider_timeout''),
      (''provider_error'', ''provider_error''), (''provider_request_rejected'', ''provider_error''),
      (''provider_refusal'', ''provider_error''), (''provider_not_configured'', ''provider_error''),
      (''malformed_provider_response'', ''invalid_response''), (''provider_output_too_large'', ''invalid_response''),
      (''output_too_large'', ''invalid_response''), (''malformed_output'', ''malformed_output''),
      (''empty_output'', ''malformed_output'')]"

record failure_diagnostic =
  fg_code :: "string option"
  fg_detail_code :: "string option"

text \<open>\<^verbatim>\<open>detail_code in _SAFE_PROVIDER_FAILURE_DETAILS\<close>; \<^verbatim>\<open>None\<close> is not in the set.\<close>

definition encode_failure_diagnostic :: "string \<Rightarrow> string option \<Rightarrow> string" where
  "encode_failure_diagnostic code detail_code =
     (case detail_code of
        None \<Rightarrow> code
      | Some detail \<Rightarrow>
          if detail \<notin> set SAFE_PROVIDER_FAILURE_DETAILS then code
          else let encoded = code @ ''::'' @ detail in
            if length encoded \<le> MAX_PERSISTED_FAILURE_LENGTH then encoded else code)"

text \<open>\<^verbatim>\<open>value.rpartition("::")\<close>, with \<open>None\<close> when there is no separator: what stands before and after the last one.\<close>

fun rpartition :: "string \<Rightarrow> (string \<times> string) option" where
  "rpartition [] = None"
| "rpartition (c # s) =
     (case rpartition s of
        Some (before, after) \<Rightarrow> Some (c # before, after)
      | None \<Rightarrow>
          (case s of d # rest \<Rightarrow> if c = CHR '':'' \<and> d = CHR '':'' then Some ([], rest) else None | [] \<Rightarrow> None))"

definition decode_failure_diagnostic :: "string option \<Rightarrow> failure_diagnostic" where
  "decode_failure_diagnostic persisted =
     (case persisted of
        None \<Rightarrow> \<lparr>fg_code = None, fg_detail_code = None\<rparr>
      | Some text_value \<Rightarrow>
          (case rpartition text_value of
             Some (code, detail) \<Rightarrow>
               if code \<noteq> [] \<and> detail \<in> set SAFE_PROVIDER_FAILURE_DETAILS
               then \<lparr>fg_code = Some code, fg_detail_code = Some detail\<rparr>
               else \<lparr>fg_code = Some text_value, fg_detail_code = None\<rparr>
           | None \<Rightarrow> \<lparr>fg_code = Some text_value, fg_detail_code = None\<rparr>))"

definition normalize_generation_failure :: "string option \<Rightarrow> string" where
  "normalize_generation_failure code =
     (case fg_code (decode_failure_diagnostic code) of
        None \<Rightarrow> ''unknown''
      | Some c \<Rightarrow> (case map_of NORMALIZED_FAILURE_CODES c of None \<Rightarrow> ''unknown'' | Some category \<Rightarrow> category))"

section \<open>Counts\<close>

text \<open>Counts are association lists in the order of the resulting dictionaries.\<close>

text \<open>\<^verbatim>\<open>counts[key] = counts.get(key, 0) + 1\<close>.\<close>

definition count_at :: "(string, nat) odict \<Rightarrow> string \<Rightarrow> nat" where
  "count_at counts key = (case map_of counts key of None \<Rightarrow> 0 | Some n \<Rightarrow> n)"

definition count_up :: "(string, nat) odict \<Rightarrow> string \<Rightarrow> (string, nat) odict" where
  "count_up counts key = od_set counts key (count_at counts key + 1)"

definition generation_failure_category_counts :: "string option list \<Rightarrow> (string \<times> nat) list" where
  "generation_failure_category_counts codes =
     filter (\<lambda>(category, n). n \<noteq> 0)
       (foldl (\<lambda>counts code. count_up counts (normalize_generation_failure code))
          (map (\<lambda>category. (category, 0)) GENERATION_FAILURE_CATEGORY_ORDER) codes)"

definition detail_of :: "string option \<Rightarrow> string" where
  "detail_of code = (case fg_detail_code (decode_failure_diagnostic code) of
     Some d \<Rightarrow> if d = [] then UNKNOWN_FAILURE_DETAIL else d | None \<Rightarrow> UNKNOWN_FAILURE_DETAIL)"

fun detail_counts_loop ::
    "(string, (string, nat) odict) odict \<Rightarrow> string option list \<Rightarrow> (string, (string, nat) odict) odict" where
  "detail_counts_loop counts [] = counts"
| "detail_counts_loop counts (code # codes) =
     (let category = normalize_generation_failure code;
          category_counts = (case map_of counts category of None \<Rightarrow> [] | Some cs \<Rightarrow> cs) in
      detail_counts_loop (od_set counts category (count_up category_counts (detail_of code))) codes)"

definition generation_failure_detail_counts :: "string option list \<Rightarrow> (string \<times> (string \<times> nat) list) list" where
  "generation_failure_detail_counts codes =
     (let counts = detail_counts_loop [] codes in
      List.map_filter (\<lambda>category. map_option
          (\<lambda>cs. (category, sort_key (\<lambda>(detail, n). (detail = UNKNOWN_FAILURE_DETAIL, detail)) cs))
          (map_of counts category))
        GENERATION_FAILURE_CATEGORY_ORDER)"

section \<open>The persisted form\<close>

lemma rpartition_none: "CHR '':'' \<notin> set s \<Longrightarrow> rpartition s = None"
  by (induction s rule: rpartition.induct) (auto split: list.splits)

lemma rpartition_append:
  assumes "CHR '':'' \<notin> set after"
  shows "rpartition (before @ ''::'' @ after) = Some (before, after)"
proof (induction before)
  case Nil
  have "rpartition (CHR '':'' # after) = None"
    using rpartition_none[OF assms] assms by (auto split: list.splits)
  then show ?case by simp
qed simp

lemma safe_details_plain: "detail \<in> set SAFE_PROVIDER_FAILURE_DETAILS \<Longrightarrow> CHR '':'' \<notin> set detail \<and> length detail \<le> 24 \<and> detail \<noteq> []"
proof -
  have "list_all (\<lambda>d. CHR '':'' \<notin> set d \<and> length d \<le> 24 \<and> d \<noteq> []) SAFE_PROVIDER_FAILURE_DETAILS" by code_simp
  then show "detail \<in> set SAFE_PROVIDER_FAILURE_DETAILS \<Longrightarrow> CHR '':'' \<notin> set detail \<and> length detail \<le> 24 \<and> detail \<noteq> []"
    by (simp add: list_all_iff)
qed

text \<open>
  A failure code without a separator and of at most 102 characters is stored together with its detail in the column of 128
  characters and both are read back; a detail that is not on the list of safe ones is dropped; and the stored form
  is counted under the same category as the code itself.
\<close>
theorem failure_diagnostic_roundtrip:
  assumes "code \<noteq> []" "CHR '':'' \<notin> set code" "length code \<le> 102"
  shows "decode_failure_diagnostic (Some (encode_failure_diagnostic code detail))
      = \<lparr>fg_code = Some code, fg_detail_code = (case detail of None \<Rightarrow> None
          | Some d \<Rightarrow> if d \<in> set SAFE_PROVIDER_FAILURE_DETAILS then Some d else None)\<rparr>
    \<and> length (encode_failure_diagnostic code detail) \<le> MAX_PERSISTED_FAILURE_LENGTH
    \<and> normalize_generation_failure (Some (encode_failure_diagnostic code detail)) = normalize_generation_failure (Some code)"
proof -
  have plain: "decode_failure_diagnostic (Some code) = \<lparr>fg_code = Some code, fg_detail_code = None\<rparr>"
    by (simp add: decode_failure_diagnostic_def rpartition_none[OF assms(2)])
  show ?thesis
  proof (cases "\<exists>d. detail = Some d \<and> d \<in> set SAFE_PROVIDER_FAILURE_DETAILS")
    case True
    then obtain d where d: "detail = Some d" "d \<in> set SAFE_PROVIDER_FAILURE_DETAILS" by blast
    note safe = safe_details_plain[OF d(2)]
    have enc: "encode_failure_diagnostic code (Some d) = code @ ''::'' @ d"
      using d safe assms(3) by (simp add: encode_failure_diagnostic_def MAX_PERSISTED_FAILURE_LENGTH_def)
    have "rpartition (code @ ''::'' @ d) = Some (code, d)" by (rule rpartition_append) (use safe in simp)
    with d assms(1) have dec: "decode_failure_diagnostic (Some (encode_failure_diagnostic code (Some d)))
        = \<lparr>fg_code = Some code, fg_detail_code = Some d\<rparr>"
      unfolding enc by (simp add: decode_failure_diagnostic_def)
    have "length (encode_failure_diagnostic code (Some d)) \<le> 128" using safe assms(3) by (simp add: enc)
    with d dec plain show ?thesis
      by (simp add: normalize_generation_failure_def MAX_PERSISTED_FAILURE_LENGTH_def)
  next
    case False
    then have "encode_failure_diagnostic code detail = code"
      by (auto simp: encode_failure_diagnostic_def split: option.splits)
    with False plain assms(3) show ?thesis by (auto simp: MAX_PERSISTED_FAILURE_LENGTH_def split: option.splits)
  qed
qed

theorem failure_diagnostic_roundtrip_witness:
  "decode_failure_diagnostic (Some (encode_failure_diagnostic ''malformed_provider_response'' (Some ''empty_choices'')))
     = \<lparr>fg_code = Some ''malformed_provider_response'', fg_detail_code = Some ''empty_choices''\<rparr>"
  using conjunct1[OF failure_diagnostic_roundtrip[of "''malformed_provider_response''" "Some ''empty_choices''"]]
  by (simp add: SAFE_PROVIDER_FAILURE_DETAILS_def)

section \<open>Every failure is counted once\<close>

lemma normalize_in_order: "normalize_generation_failure code \<in> set GENERATION_FAILURE_CATEGORY_ORDER"
proof -
  have "list_all (\<lambda>(_, category). category \<in> set GENERATION_FAILURE_CATEGORY_ORDER) NORMALIZED_FAILURE_CODES"
    "''unknown'' \<in> set GENERATION_FAILURE_CATEGORY_ORDER" by code_simp+
  then show ?thesis
    by (auto simp: normalize_generation_failure_def list_all_iff split: option.splits dest!: map_of_SomeD)
qed

lemma order_distinct: "distinct GENERATION_FAILURE_CATEGORY_ORDER"
  by code_simp

definition of_category :: "string \<Rightarrow> string option list \<Rightarrow> nat" where
  "of_category category codes = length (filter (\<lambda>code. normalize_generation_failure code = category) codes)"

lemma count_at_count_up: "count_at (count_up counts k) c = count_at counts c + (if c = k then 1 else 0)"
  by (simp add: count_up_def count_at_def map_of_od_set)

lemma sum_count_up: "sum_list (map snd (count_up counts k)) = sum_list (map snd counts) + 1"
proof -
  have "sum_list (map snd (od_set cs k n)) + count_at cs k = sum_list (map snd cs) + n" for cs n
    by (induction cs k n rule: od_set.induct) (auto simp: count_at_def)
  from this[of counts "count_at counts k + 1"] show ?thesis by (simp add: count_up_def)
qed

lemma category_loop:
  "count_at (foldl (\<lambda>counts code. count_up counts (normalize_generation_failure code)) counts codes) c
     = count_at counts c + of_category c codes"
  by (induction codes arbitrary: counts) (auto simp: count_at_count_up of_category_def)

lemma category_loop_keys:
  "set GENERATION_FAILURE_CATEGORY_ORDER \<subseteq> set (map fst counts) \<Longrightarrow>
   map fst (foldl (\<lambda>counts code. count_up counts (normalize_generation_failure code)) counts codes) = map fst counts"
proof (induction codes arbitrary: counts)
  case (Cons code codes)
  have "map fst (count_up counts (normalize_generation_failure code)) = map fst counts"
    using Cons.prems normalize_in_order[of code] by (simp add: count_up_def keys_od_set subset_iff)
  with Cons.IH[of "count_up counts (normalize_generation_failure code)"] Cons.prems show ?case by simp
qed simp

lemma category_counts_eq:
  "generation_failure_category_counts codes =
     filter (\<lambda>(category, n). n \<noteq> 0) (map (\<lambda>c. (c, of_category c codes)) GENERATION_FAILURE_CATEGORY_ORDER)"
proof -
  define loop where "loop = foldl (\<lambda>counts code. count_up counts (normalize_generation_failure code))
    (map (\<lambda>category. (category, 0)) GENERATION_FAILURE_CATEGORY_ORDER) codes"
  have keys: "map fst loop = GENERATION_FAILURE_CATEGORY_ORDER"
    unfolding loop_def by (subst category_loop_keys) (auto simp: comp_def)
  have zero: "count_at (map (\<lambda>category. (category, 0)) GENERATION_FAILURE_CATEGORY_ORDER) c = 0" for c
    by (auto simp: count_at_def split: option.splits dest!: map_of_SomeD)
  have at: "count_at loop c = of_category c codes" for c
    unfolding loop_def by (simp add: category_loop zero)
  have "snd p = of_category (fst p) codes" if "p \<in> set loop" for p
  proof -
    from that keys order_distinct have "map_of loop (fst p) = Some (snd p)" by (simp add: map_of_is_SomeI)
    with at[of "fst p"] show ?thesis by (simp add: count_at_def)
  qed
  then have "loop = map (\<lambda>c. (c, of_category c codes)) (map fst loop)"
    by (simp add: comp_def prod_eq_iff map_idI)
  then show ?thesis unfolding keys by (simp add: generation_failure_category_counts_def loop_def)
qed

lemma sum_of_category:
  "distinct cats \<Longrightarrow> (\<And>code. code \<in> set codes \<Longrightarrow> normalize_generation_failure code \<in> set cats)
   \<Longrightarrow> sum_list (map (\<lambda>c. of_category c codes) cats) = length codes"
proof (induction codes)
  case (Cons code codes)
  have "of_category c (code # codes) = of_category c codes + (if c = normalize_generation_failure code then 1 else 0)" for c
    by (simp add: of_category_def)
  moreover have "sum_list (map (\<lambda>c. if c = normalize_generation_failure code then 1 else 0) cats) = (1 :: nat)"
    using Cons.prems by (simp add: sum_list_distinct_conv_sum_set)
  ultimately show ?case using Cons by (simp add: sum_list_addf)
qed (simp add: of_category_def)

lemma sum_filter_nonzero: "sum_list (map snd (filter (\<lambda>(c, n). 0 < n) cs)) = sum_list (map snd (cs :: ('a \<times> nat) list))"
  by (induction cs) auto

definition details_at :: "(string, (string, nat) odict) odict \<Rightarrow> string \<Rightarrow> (string, nat) odict" where
  "details_at counts c = (case map_of counts c of None \<Rightarrow> [] | Some cs \<Rightarrow> cs)"

lemma detail_loop_Cons:
  "detail_counts_loop counts (code # codes) = (let k = normalize_generation_failure code in
     detail_counts_loop (od_set counts k (count_up (details_at counts k) (detail_of code))) codes)"
  by (simp add: details_at_def Let_def)

lemma detail_loop:
  "sum_list (map snd (details_at (detail_counts_loop counts codes) c))
     = sum_list (map snd (details_at counts c)) + of_category c codes"
proof (induction codes arbitrary: counts)
  case (Cons code codes)
  let ?k = "normalize_generation_failure code"
  have "sum_list (map snd (details_at (od_set counts ?k (count_up (details_at counts ?k) (detail_of code))) c))
      = sum_list (map snd (details_at counts c)) + (if c = ?k then 1 else 0)"
    using sum_count_up[of "details_at counts ?k" "detail_of code"] by (simp add: details_at_def map_of_od_set)
  then show ?case unfolding detail_loop_Cons Let_def Cons.IH by (simp add: of_category_def)
qed (simp add: of_category_def)

lemma detail_loop_dom: "map_of (detail_counts_loop counts codes) c \<noteq> None \<longleftrightarrow> map_of counts c \<noteq> None \<or> of_category c codes \<noteq> 0"
proof (induction codes arbitrary: counts)
  case (Cons code codes)
  show ?case unfolding detail_loop_Cons Let_def Cons.IH by (simp add: of_category_def map_of_od_set)
qed (simp add: of_category_def)

lemma sum_sort_key: "sum_list (map snd (sort_key f cs)) = sum_list (map snd (cs :: ('a \<times> nat) list))"
  by (metis mset_map mset_sort sum_mset_sum_list)

text \<open>
  The failure report of a benchmark counts every failure exactly once: the categories add up to the number of failures,
  a category is listed exactly if it occurs, with its number of failures, and its details add up to that number; a code that
  nobody knows is counted as unknown.
\<close>
theorem failure_counts_complete:
  "sum_list (map snd (generation_failure_category_counts codes)) = length codes
   \<and> map fst (generation_failure_detail_counts codes) = map fst (generation_failure_category_counts codes)
   \<and> list_all2 (\<lambda>(_, details) (_, n). sum_list (map snd details) = n)
       (generation_failure_detail_counts codes) (generation_failure_category_counts codes)"
proof -
  have total: "sum_list (map snd (generation_failure_category_counts codes)) = length codes"
    using sum_of_category[OF order_distinct normalize_in_order]
    by (simp add: category_counts_eq sum_filter_nonzero comp_def)
  define listed where "listed = filter (\<lambda>c. of_category c codes \<noteq> 0) GENERATION_FAILURE_CATEGORY_ORDER"
  have cats: "generation_failure_category_counts codes = map (\<lambda>c. (c, of_category c codes)) listed"
    by (simp add: category_counts_eq listed_def filter_map comp_def)
  define sorted_details where "sorted_details c =
    sort_key (\<lambda>(detail, n). (detail = UNKNOWN_FAILURE_DETAIL, detail)) (details_at (detail_counts_loop [] codes) c)" for c
  have "List.map_filter (\<lambda>category. map_option
          (\<lambda>cs. (category, sort_key (\<lambda>(detail, n). (detail = UNKNOWN_FAILURE_DETAIL, detail)) cs))
          (map_of (detail_counts_loop [] codes) category)) cs
      = map (\<lambda>c. (c, sorted_details c)) (filter (\<lambda>c. of_category c codes \<noteq> 0) cs)" for cs
    using detail_loop_dom[of "[]" codes]
  proof (induction cs)
    case (Cons c cs)
    show ?case
    proof (cases "map_of (detail_counts_loop [] codes) c")
      case None
      with detail_loop_dom[of "[]" codes c] Cons show ?thesis by (simp add: List.map_filter_simps)
    next
      case (Some details)
      with detail_loop_dom[of "[]" codes c] Cons show ?thesis
        by (simp add: List.map_filter_simps sorted_details_def details_at_def)
    qed
  qed (simp add: List.map_filter_simps)
  then have details: "generation_failure_detail_counts codes = map (\<lambda>c. (c, sorted_details c)) listed"
    by (simp add: generation_failure_detail_counts_def listed_def)
  have "sum_list (map snd (sorted_details c)) = of_category c codes" for c
    unfolding sorted_details_def sum_sort_key detail_loop by (simp add: details_at_def)
  with total show ?thesis by (simp add: cats details comp_def list_all2_map1 list_all2_map2 list.rel_refl)
qed

end
