(* ===== verification/Statistics.thy ===== *)
theory Statistics
  imports PyFloat Prelude
begin

text \<open>
  What the benchmark statistics use of Python's library: \<^verbatim>\<open>sum\<close> over floats, \<^verbatim>\<open>statistics.fmean\<close>, \<^verbatim>\<open>median\<close> and \<^verbatim>\<open>stdev\<close>,
  \<^verbatim>\<open>math.sqrt\<close>, and decimal arithmetic in the default context. All values are finite.
\<close>

section \<open>Sums and means\<close>

text \<open>
  \<^verbatim>\<open>sum\<close> over floats: the compensated summation of Neumaier, which the interpreter uses since version 3.12. \<^verbatim>\<open>math.fsum\<close>
  rounds the exact sum once.
\<close>

fun neumaier :: "rat \<Rightarrow> rat \<Rightarrow> rat list \<Rightarrow> rat" where
  "neumaier f c [] = (if c \<noteq> 0 then fadd f c else f)"
| "neumaier f c (x # xs) =
     (let t = fadd f x in
      neumaier t (fadd c (if \<bar>x\<bar> \<le> \<bar>f\<bar> then fadd (fsub f t) x else fadd (fsub x t) f)) xs)"

fun py_sum :: "rat list \<Rightarrow> rat" where
  "py_sum [] = 0"
| "py_sum (x # xs) = neumaier x 0 xs"

definition math_fsum :: "rat list \<Rightarrow> rat" where
  "math_fsum xs = fl64 (sum_list xs)"

definition fmean :: "rat list \<Rightarrow> rat" where
  "fmean xs = fdiv (math_fsum xs) (of_nat (length xs))"

definition median :: "rat list \<Rightarrow> rat" where
  "median xs =
     (let data = sort xs; n = length data; i = n div 2 in
      if odd n then data ! i else fdiv (fadd (data ! (i - 1)) (data ! i)) 2)"

section \<open>Square roots\<close>

text \<open>\<^verbatim>\<open>math.isqrt\<close>.\<close>

function isqrt :: "int \<Rightarrow> int" where
  "isqrt n = (if n \<le> 0 then 0
     else let r = 2 * isqrt (n div 4) in if (r + 1) * (r + 1) \<le> n then r + 1 else r)"
  by pat_completeness auto
termination
  by (relation "measure nat") auto

declare isqrt.simps [simp del]

text \<open>\<^verbatim>\<open>_integer_sqrt_of_frac_rto\<close>: the square root of a fraction, rounded to an odd integer when it is inexact.\<close>

definition sqrt_rto :: "int \<Rightarrow> int \<Rightarrow> int" where
  "sqrt_rto n m = (let a = isqrt (n div m) in if a * a * m \<noteq> n \<and> even a then a + 1 else a)"

text \<open>\<^verbatim>\<open>_float_sqrt_of_frac\<close>.\<close>

definition float_sqrt_of_frac :: "rat \<Rightarrow> rat" where
  "float_sqrt_of_frac x =
     (if x \<le> 0 then 0
      else let (n, m) = quotient_of x; q = (int (bit_length n) - int (bit_length m) - 109) div 2 in
        if 0 \<le> q then fl64 (of_int (sqrt_rto n (m * 2 ^ nat (2 * q)) * 2 ^ nat q))
        else fl64 (of_int (sqrt_rto (n * 2 ^ nat (- 2 * q)) m) / 2 ^ nat (- q)))"

text \<open>\<^verbatim>\<open>statistics.stdev\<close>: the sums are exact fractions. \<^verbatim>\<open>math.sqrt\<close> is the correctly rounded root as well.\<close>

definition stdev :: "rat list \<Rightarrow> rat" where
  "stdev xs =
     (let n = of_nat (length xs); mean = sum_list xs / n in
      float_sqrt_of_frac (sum_list (map (\<lambda>x. (x - mean) * (x - mean)) xs) / (n - 1)))"

definition math_sqrt :: "rat \<Rightarrow> rat" where
  "math_sqrt x = float_sqrt_of_frac x"

section \<open>Decimals\<close>

function digit_count :: "int \<Rightarrow> nat" where
  "digit_count n = (if n < 10 then 1 else Suc (digit_count (n div 10)))"
  by pat_completeness auto
termination
  by (relation "measure nat") auto

declare digit_count.simps [simp del]

definition ten_to :: "int \<Rightarrow> rat" where
  "ten_to e = (if 0 \<le> e then 10 ^ nat e else 1 / 10 ^ nat (- e))"

definition ilog10 :: "rat \<Rightarrow> int" where
  "ilog10 x = (let (p, q) = quotient_of x; e = int (digit_count p) - int (digit_count q) in
     if x < ten_to e then e - 1 else e)"

text \<open>Rounding to the 28 significant digits of the default context, half to even; its exponent bounds are not modelled.\<close>

definition decpos :: "rat \<Rightarrow> rat" where
  "decpos x = (let u = ten_to (ilog10 x - 27) in of_int (rhe (x / u)) * u)"

definition dec28 :: "rat \<Rightarrow> rat" where
  "dec28 x = (if x = 0 then 0 else if x < 0 then - decpos (- x) else decpos x)"

definition dec_add :: "rat \<Rightarrow> rat \<Rightarrow> rat" where "dec_add x y = dec28 (x + y)"
definition dec_mul :: "rat \<Rightarrow> rat \<Rightarrow> rat" where "dec_mul x y = dec28 (x * y)"
definition dec_div :: "rat \<Rightarrow> rat \<Rightarrow> rat" where "dec_div x y = dec28 (x / y)"

definition dec_sum :: "rat list \<Rightarrow> rat" where
  "dec_sum xs = foldl dec_add 0 xs"

section \<open>Decimal rounding\<close>

lemma ten_to_powi: "ten_to e = 10 powi e"
  by (simp add: ten_to_def power_int_def field_simps)

lemma ten_to_pos [simp]: "0 < ten_to e"
  by (simp add: ten_to_def)

lemma ten_to_nonzero [simp]: "ten_to e \<noteq> 0"
  using ten_to_pos[of e] by linarith

lemma ten_to_add: "ten_to (a + b) = ten_to a * ten_to b"
  by (simp add: ten_to_powi power_int_add)

lemma ten_to_diff: "ten_to (a - b) = ten_to a / ten_to b"
  by (simp add: ten_to_powi power_int_diff)

lemma ten_to_mono: "a \<le> b \<Longrightarrow> ten_to a \<le> ten_to b"
  by (simp add: ten_to_powi power_int_increasing)

lemma ten_to_strict: "a < b \<Longrightarrow> ten_to a < ten_to b"
  by (simp add: ten_to_powi power_int_strict_increasing)

lemma ten_to_nat: "ten_to (int n) = of_int (10 ^ n)"
  by (simp add: ten_to_def)

lemma digit_count_bounds:
  "0 < n \<Longrightarrow> 10 ^ (digit_count n - 1) \<le> n \<and> n < 10 ^ digit_count n \<and> 0 < digit_count n"
proof (induction n rule: digit_count.induct)
  case (1 n)
  show ?case
  proof (cases "n < 10")
    case False
    then have IH: "10 ^ (digit_count (n div 10) - 1) \<le> n div 10" "n div 10 < 10 ^ digit_count (n div 10)"
      "0 < digit_count (n div 10)" using 1 by simp_all
    have "(10 :: int) ^ digit_count (n div 10) = 10 * 10 ^ (digit_count (n div 10) - 1)"
      using IH(3) by (cases "digit_count (n div 10)") simp_all
    with IH have "10 ^ digit_count (n div 10) \<le> n" by linarith
    moreover have "n < 10 * 10 ^ digit_count (n div 10)" using IH(2) by linarith
    ultimately show ?thesis using False by (subst (1 2 3) digit_count.simps) simp
  qed (use 1(2) in \<open>simp add: digit_count.simps\<close>)
qed

lemma ilog10_bounds:
  assumes "0 < x"
  shows "ten_to (ilog10 x) \<le> x" "x < ten_to (ilog10 x + 1)"
proof -
  obtain p q where pq: "quotient_of x = (p, q)" by force
  have q: "0 < q" by (rule quotient_of_denom_pos[OF pq])
  have x: "x = of_int p / of_int q" by (rule quotient_of_div[OF pq])
  have p: "0 < p" using assms q unfolding x by (simp add: zero_less_divide_iff)
  have bounds: "ten_to (int (digit_count n) - 1) \<le> of_int n" "of_int n < ten_to (int (digit_count n))" if "0 < n" for n
  proof -
    have n: "10 ^ (digit_count n - 1) \<le> n" "n < 10 ^ digit_count n" "0 < digit_count n"
      using digit_count_bounds[OF that] by simp_all
    have "int (digit_count n) - 1 = int (digit_count n - 1)" using n(3) by simp
    then show "ten_to (int (digit_count n) - 1) \<le> of_int n" "of_int n < ten_to (int (digit_count n))"
      using n(1,2) by (simp_all only: ten_to_nat of_int_le_iff of_int_less_iff)
  qed
  define a where "a = int (digit_count p)"
  define b where "b = int (digit_count q)"
  note P = bounds[OF p, folded a_def] and Q = bounds[OF q, folded b_def]
  have "x < ten_to a / ten_to (b - 1)"
    unfolding x using P(2) Q(1) q p by (intro frac_less) simp_all
  then have up: "x < ten_to (a - b + 1)" by (simp add: ten_to_diff[symmetric] algebra_simps)
  have "ten_to (a - 1) / ten_to b \<le> x"
    unfolding x using P(1) Q(2) q p by (intro frac_le) simp_all
  then have lo: "ten_to (a - b - 1) \<le> x" by (simp add: ten_to_diff[symmetric] algebra_simps)
  have il: "ilog10 x = (if x < ten_to (a - b) then a - b - 1 else a - b)"
    by (simp add: ilog10_def pq a_def b_def)
  show "ten_to (ilog10 x) \<le> x" using lo by (auto simp: il)
  show "x < ten_to (ilog10 x + 1)" using up by (auto simp: il)
qed

lemma ilog10_mono: "0 < x \<Longrightarrow> x \<le> y \<Longrightarrow> ilog10 x \<le> ilog10 y"
  using ilog10_bounds(1)[of x] ilog10_bounds(2)[of y] ten_to_mono[of "ilog10 y + 1" "ilog10 x"]
  by (cases "ilog10 x \<le> ilog10 y") auto

lemma decpos_form:
  assumes "0 < x"
  obtains k where "decpos x = of_int k * ten_to (ilog10 x - 27)" "10 ^ 27 \<le> k" "k \<le> 10 ^ 28"
proof -
  let ?u = "ten_to (ilog10 x - 27)"
  have "ten_to 27 * ?u \<le> x" "x \<le> ten_to 28 * ?u"
    using ilog10_bounds[OF assms] by (simp_all flip: ten_to_add add: algebra_simps)
  then have "of_int (10 ^ 27) \<le> x / ?u" "x / ?u \<le> of_int (10 ^ 28)"
    by (simp_all add: le_divide_eq divide_le_eq ten_to_def)
  then have "10 ^ 27 \<le> rhe (x / ?u)" "rhe (x / ?u) \<le> 10 ^ 28" by (simp_all only: int_le_rhe rhe_le_int)
  moreover have "decpos x = of_int (rhe (x / ?u)) * ?u" unfolding decpos_def Let_def by (rule refl)
  ultimately show ?thesis using that by blast
qed

lemma decpos_range: "0 < x \<Longrightarrow> ten_to (ilog10 x) \<le> decpos x \<and> decpos x \<le> ten_to (ilog10 x + 1)"
proof -
  assume x: "0 < x"
  obtain k where k: "decpos x = of_int k * ten_to (ilog10 x - 27)" "10 ^ 27 \<le> k" "k \<le> 10 ^ 28"
    by (rule decpos_form[OF x])
  have "ten_to 27 \<le> of_int k" "of_int k \<le> ten_to 28"
    using k(2,3) ten_to_nat[of 27] ten_to_nat[of 28] by (simp_all only: of_int_le_iff of_nat_numeral)
  then have "ten_to 27 * ten_to (ilog10 x - 27) \<le> decpos x" "decpos x \<le> ten_to 28 * ten_to (ilog10 x - 27)"
    unfolding k(1) by (simp_all only: mult_right_mono ten_to_pos less_imp_le)
  then show ?thesis by (simp flip: ten_to_add add: algebra_simps)
qed

lemma decpos_mono:
  assumes "0 < x" "x \<le> y"
  shows "decpos x \<le> decpos y"
proof (cases "ilog10 x = ilog10 y")
  case True
  let ?u = "ten_to (ilog10 y - 27)"
  have "rhe (x / ?u) \<le> rhe (y / ?u)" using assms(2) by (intro rhe_mono divide_right_mono) (simp_all add: less_imp_le)
  then have "of_int (rhe (x / ?u)) * ?u \<le> of_int (rhe (y / ?u)) * ?u"
    by (intro mult_right_mono) (simp_all add: less_imp_le)
  then show ?thesis using True by (simp add: decpos_def Let_def)
next
  case False
  with ilog10_mono[OF assms] have "ten_to (ilog10 x + 1) \<le> ten_to (ilog10 y)" by (intro ten_to_mono) simp
  with decpos_range[OF assms(1)] decpos_range[of y] assms show ?thesis by force
qed

text \<open>A value with at most 28 significant digits is exact.\<close>

lemma decpos_exact:
  assumes "0 < k" "k \<le> 10 ^ 28"
  shows "decpos (of_int k * ten_to j) = of_int k * ten_to j"
proof -
  have less: "decpos (of_int n * ten_to i) = of_int n * ten_to i" if n: "0 < n" "n < 10 ^ 28" for n i
  proof -
    let ?y = "of_int n * ten_to i"
    have y: "0 < ?y" using n(1) by simp
    have "(of_int n :: rat) < of_int (10 ^ 28)" using n(2) by (simp only: of_int_less_iff)
    then have "?y < ten_to 28 * ten_to i" using ten_to_nat[of 28] by (intro mult_strict_right_mono) simp_all
    then have "?y < ten_to (28 + i)" by (simp add: ten_to_add)
    then have "ten_to (ilog10 ?y) < ten_to (28 + i)" using ilog10_bounds(1)[OF y] by linarith
    then have e: "ilog10 ?y - 27 \<le> i" using ten_to_mono[of "28 + i" "ilog10 ?y"] by (cases "ilog10 ?y < 28 + i") auto
    define l where "l = ilog10 ?y - 27"
    define d where "d = nat (i - l)"
    have "i = l + int d" using e by (simp add: d_def l_def)
    then have i: "ten_to i = ten_to l * of_int (10 ^ d)" by (simp add: ten_to_add ten_to_nat)
    have "?y / ten_to l = of_int (n * 10 ^ d)" by (simp add: i)
    then have "rhe (?y / ten_to l) = n * 10 ^ d" by (simp only: rhe_of_int)
    moreover have "of_int (n * 10 ^ d) * ten_to l = ?y" by (simp add: i)
    moreover have "decpos ?y = of_int (rhe (?y / ten_to l)) * ten_to l"
      unfolding decpos_def Let_def l_def by (rule refl)
    ultimately show ?thesis by simp
  qed
  show ?thesis
  proof (cases "k = 10 ^ 28")
    case True
    have "of_int k * ten_to j = of_int 1 * ten_to (28 + j)" using True by (simp add: ten_to_add) (simp add: ten_to_def)
    with less[of 1 "28 + j"] show ?thesis by simp
  next
    case False
    with assms less show ?thesis by simp
  qed
qed

lemma decpos_pos: "0 < x \<Longrightarrow> 0 < decpos x"
  using decpos_range[of x] ten_to_pos[of "ilog10 x"] by linarith

lemma dec28_mono: "x \<le> y \<Longrightarrow> dec28 x \<le> dec28 y"
proof -
  assume le: "x \<le> y"
  consider "0 < x" | "x = 0" "0 \<le> y" | "x < 0" "0 \<le> y" | "y < 0" using le by linarith
  then show ?thesis
  proof cases
    case 1
    with le decpos_mono[OF 1 le] show ?thesis by (simp add: dec28_def)
  next
    case 2
    then show ?thesis using decpos_pos[of y] by (auto simp: dec28_def)
  next
    case 3
    then show ?thesis using decpos_pos[of y] decpos_pos[of "- x"] by (auto simp: dec28_def)
  next
    case 4
    with le decpos_mono[of "- y" "- x"] show ?thesis by (simp add: dec28_def)
  qed
qed

lemma dec28_idem: "dec28 (dec28 x) = dec28 x"
proof -
  have pos: "decpos (decpos y) = decpos y" if y: "0 < y" for y
  proof -
    obtain k where k: "decpos y = of_int k * ten_to (ilog10 y - 27)" "10 ^ 27 \<le> k" "k \<le> 10 ^ 28"
      by (rule decpos_form[OF y])
    have "0 < k" using k(2) zero_less_power[of "10 :: int" 27] by linarith
    then show ?thesis unfolding k(1) using k(3) by (rule decpos_exact)
  qed
  show ?thesis using decpos_pos[of x] decpos_pos[of "- x"] pos[of x] pos[of "- x"]
    by (auto simp: dec28_def)
qed

lemma dec28_int:
  assumes "\<bar>n\<bar> \<le> 2 ^ 53"
  shows "dec28 (of_int n) = of_int n"
proof -
  have "decpos (of_int k) = of_int k" if "0 < k" "k \<le> 2 ^ 53" for k
    using decpos_exact[of k 0] that by (simp add: ten_to_def)
  from this[of n] this[of "- n"] assms show ?thesis by (auto simp: dec28_def)
qed

interpretation dec28: rounding dec28
  by unfold_locales (simp_all add: dec28_mono dec28_idem dec28_int)

section \<open>Bounds\<close>

lemma isqrt_spec: "0 \<le> n \<Longrightarrow> isqrt n * isqrt n \<le> n \<and> n < (isqrt n + 1) * (isqrt n + 1) \<and> 0 \<le> isqrt n"
proof (induction n rule: isqrt.induct)
  case (1 n)
  show ?case
  proof (cases "n = 0")
    case False
    with 1 have IH: "isqrt (n div 4) * isqrt (n div 4) \<le> n div 4"
      "n div 4 < (isqrt (n div 4) + 1) * (isqrt (n div 4) + 1)" "0 \<le> isqrt (n div 4)" by simp_all
    define r where "r = 2 * isqrt (n div 4)"
    have "r * r \<le> n" using IH(1) unfolding r_def by (simp add: algebra_simps)
    moreover have "n < (r + 2) * (r + 2)" using IH(2) unfolding r_def by (simp add: algebra_simps)
    moreover have "0 \<le> r" using IH(3) by (simp add: r_def)
    moreover have "isqrt n = (if (r + 1) * (r + 1) \<le> n then r + 1 else r)"
      using False 1(2) by (subst isqrt.simps) (simp add: Let_def r_def)
    ultimately show ?thesis by (simp add: algebra_simps)
  qed (simp add: isqrt.simps)
qed

lemma sum_list_bounds:
  "(\<And>x. x \<in> set xs \<Longrightarrow> 0 \<le> x \<and> x \<le> b) \<Longrightarrow> 0 \<le> sum_list xs \<and> sum_list xs \<le> of_nat (length xs) * (b :: rat)"
proof (induction xs)
  case (Cons x xs)
  have "0 \<le> x" "x \<le> b" using Cons.prems[of x] by simp_all
  moreover have "0 \<le> sum_list xs \<and> sum_list xs \<le> of_nat (length xs) * b" by (rule Cons.IH) (use Cons.prems in simp)
  ultimately show ?case by (simp add: algebra_simps)
qed simp

text \<open>The mean of percentages is a percentage.\<close>

lemma fmean_percent:
  assumes "\<And>x. x \<in> set xs \<Longrightarrow> 0 \<le> x \<and> x \<le> 100" "xs \<noteq> []" "length xs \<le> 2 ^ 46"
  shows "0 \<le> fmean xs \<and> fmean xs \<le> 100"
proof -
  let ?n = "of_nat (length xs) :: rat"
  have n: "0 < ?n" using assms(2) by simp
  have exact: "fl64 (?n * 100) = ?n * 100"
    using fl64_of_int[of "int (length xs) * 100"] assms(3) by simp
  have "0 \<le> math_fsum xs \<and> math_fsum xs \<le> ?n * 100"
    using sum_list_bounds[of xs 100] assms(1) fl64_mono[of 0 "sum_list xs"] fl64_mono[of "sum_list xs" "?n * 100"]
    by (simp add: math_fsum_def exact)
  then have "0 \<le> math_fsum xs / ?n \<and> math_fsum xs / ?n \<le> 100" using n by (simp add: field_simps)
  then show ?thesis unfolding fmean_def fdiv_def by (intro fl64.rnd_percent) simp_all
qed

end
