(* ===== verification/BenchmarkWorker.thy ===== *)
theory BenchmarkWorker
  imports BenchmarkProperties FailureDiagnostics Provider Delivery Statistics
begin

text \<open>
  The benchmark worker of \<^verbatim>\<open>src/app/benchmarks/worker.py\<close>, its queue and publisher (\<^verbatim>\<open>src/app/benchmarks/queue.py\<close>) and the
  cost of a generation (\<^verbatim>\<open>src/app/benchmarks/pricing.py\<close>). Between two transactions of the worker other sessions act on the
  database, a transaction can fail, and the loss of the lease cancels the worker: the record \<open>session\<close> says what
  happens at each of its calls. The properties: a completed sample is the one that was planned and was evaluated on the
  stored artifact, a message is acknowledged only when its sample is settled, everything the worker does is a sequence of
  repository steps, a recorded failure of a generation has a category, and a confirmed renewal is the lease that is stored.
\<close>

section \<open>Generation\<close>

text \<open>\<^verbatim>\<open>quantize\<close> raises \<^verbatim>\<open>InvalidOperation\<close> (\<open>None\<close>) when the result needs more than the 28 digits of the context.\<close>

definition quantize12 :: "rat \<Rightarrow> rat option" where
  "quantize12 x = (let n = rhe (x * 10 ^ 12) in if \<bar>n\<bar> < 10 ^ 28 then Some (of_int n / 10 ^ 12) else None)"

definition token_cost :: "nat \<Rightarrow> rat \<Rightarrow> rat" where
  "token_cost tokens price = dec_div (dec_mul (of_nat tokens) price) 1000000"

datatype cost = NoCost | Cost rat | InvalidCost

definition calculate_generation_cost :: "pricing_snapshot option \<Rightarrow> nat option \<Rightarrow> nat option \<Rightarrow> cost" where
  "calculate_generation_cost pricing input_tokens output_tokens =
     (case (pricing, input_tokens, output_tokens) of
        (Some p, Some i, Some n) \<Rightarrow>
          (case quantize12 (dec_add (token_cost i (pc_input_cost_per_million_tokens p))
                  (token_cost n (pc_output_cost_per_million_tokens p))) of
             None \<Rightarrow> InvalidCost
           | Some c \<Rightarrow> Cost c)
      | _ \<Rightarrow> NoCost)"

primrec payload_value :: "payload \<Rightarrow> pyval" where
  "payload_value PNull = PyNone"
| "payload_value (PBool b) = PyBool b"
| "payload_value (PStr s) = PyStr s"
| "payload_value (payload.PInt n) = PyInt n"
| "payload_value (payload.PFloat x) = PyFloat x"
| "payload_value (PList xs) = PyList (map payload_value xs)"
| "payload_value (PObj kvs) = json_object (map (map_prod id payload_value) kvs)"

text \<open>\<^verbatim>\<open>CodingOutput.model_validate\<close>: the source, or \<open>None\<close> for a \<^verbatim>\<open>ValidationError\<close>.\<close>

definition coding_output :: "pyval \<Rightarrow> string option" where
  "coding_output v =
     (case v of
        PyDict items \<Rightarrow>
          if \<not> fst ` set items \<subseteq> {PyStr ''language'', PyStr ''source''}
             \<or> map_of items (PyStr ''language'') \<noteq> Some (PyStr ''python'') then None
          else (case map_of items (PyStr ''source'') of
             Some (PyStr s) \<Rightarrow> if py_strip s = [] then None else Some s
           | _ \<Rightarrow> None)
      | _ \<Rightarrow> None)"

text \<open>
  What \<^verbatim>\<open>_process_claimed\<close> catches; \<open>OtherError\<close> has the lower-case name of the class. A provider takes whether the
  response is structured, the request and the seed.
\<close>

datatype bench_exn =
    GenerationError provider_error
  | InfrastructureError string
  | PersistenceError
  | OtherError string

type_synonym bench_provider = "bool \<Rightarrow> llm_request \<Rightarrow> int option \<Rightarrow> provider_exn + provider_response"

record bench_worker =
  bw_worker_id :: string
  bw_providers :: "(string, bench_provider) odict"
  bw_loads :: "string \<Rightarrow> pyval option"
  bw_other_exception :: string
  bw_datasets :: "(string \<times> string, benchmark_dataset) odict"
  bw_tasks :: task_registry
  bw_evaluations :: evaluation_service
  bw_max_code_size :: nat
  bw_lease_seconds :: rat
  bw_retry_base :: rat

definition coding_request :: "benchmark_model_config \<Rightarrow> task_spec \<Rightarrow> llm_request" where
  "coding_request config task =
     \<lparr>lr_component = ''coding_generation'', lr_model = mc_model config,
      lr_system_prompt = coding_system_prompt (mc_output_mode config),
      lr_input_payload = payload_value (coding_payload task (mc_output_mode config)),
      lr_max_output_tokens = int (mc_max_output_tokens config), lr_temperature = mc_temperature config,
      lr_top_p = mc_top_p config\<rparr>"

text \<open>The source of the response.\<close>

definition generated_source ::
    "bench_worker \<Rightarrow> benchmark_model_config \<Rightarrow> task_spec \<Rightarrow> bench_exn + string \<times> provider_response" where
  "generated_source wk config task =
     (case map_of (bw_providers wk) (mc_provider_id config) of
        None \<Rightarrow> Inl (GenerationError (provider_error ''provider_not_configured''))
      | Some provider \<Rightarrow>
          (case provider (mc_output_mode config = STRUCTURED_JSON) (coding_request config task) (mc_seed config) of
             Inl (Raised error) \<Rightarrow> Inl (GenerationError error)
           | Inl OtherRaised \<Rightarrow> Inl (OtherError (bw_other_exception wk))
           | Inr response \<Rightarrow>
               if mc_output_mode config = RAW_SOURCE
               then if py_strip (pr_content response) = []
                    then Inl (GenerationError ((provider_error ''empty_output'')\<lparr>pe_detail_code := Some ''empty_output''\<rparr>))
                    else Inr (pr_content response, response)
               else (case Option.bind (bw_loads wk (pr_content response)) coding_output of
                  None \<Rightarrow> Inl (GenerationError (provider_error ''malformed_output''))
                | Some source \<Rightarrow> Inr (source, response))))"

definition generate ::
    "bench_worker \<Rightarrow> benchmark_sample \<Rightarrow> benchmark_model_config \<Rightarrow> task_spec \<Rightarrow> time \<Rightarrow> bench_exn + generated_artifact" where
  "generate wk sample config task now =
     (case generated_source wk config task of
        Inl e \<Rightarrow> Inl e
      | Inr (source, response) \<Rightarrow>
          (let (source_hash, source_size) = source_identity (es_sha (bw_evaluations wk)) source in
           if bw_max_code_size wk < source_size then Inl (GenerationError (provider_error ''output_too_large''))
           else let cost = calculate_generation_cost (mc_pricing config) (pr_input_tokens response) (pr_output_tokens response) in
             if cost = InvalidCost then Inl (OtherError ''invalidoperation'')
             else Inr \<lparr>ga_benchmark_sample_id = bs_benchmark_sample_id sample, ga_source = source,
               ga_source_hash = source_hash, ga_source_size = source_size,
               ga_generation_attempts = bs_attempt_count sample, ga_provider_response_id = pr_response_id response,
               ga_input_tokens = pr_input_tokens response, ga_output_tokens = pr_output_tokens response,
               ga_generation_latency_ms = pr_latency_ms response,
               ga_pricing_version = map_option pc_pricing_version (mc_pricing config),
               ga_generation_cost = (case cost of Cost c \<Rightarrow> Some c | _ \<Rightarrow> None),
               ga_currency = map_option pc_currency (mc_pricing config), ga_created_at = now\<rparr>))"

section \<open>Failures\<close>

definition GENERATION_CODES :: "(string \<times> string) list" where
  "GENERATION_CODES =
     [(''provider_timeout'', ''provider_timeout''), (''provider_unavailable'', ''provider_unavailable''),
      (''provider_rate_limited'', ''provider_rate_limited''), (''provider_unauthorized'', ''provider_unauthorized''),
      (''provider_forbidden'', ''provider_forbidden''), (''provider_not_found'', ''provider_not_found''),
      (''provider_error'', ''provider_error''), (''provider_refusal'', ''provider_refusal''),
      (''malformed_output'', ''malformed_output''), (''malformed_provider_response'', ''malformed_provider_response''),
      (''provider_output_too_large'', ''output_too_large''), (''output_too_large'', ''output_too_large''),
      (''provider_request_rejected'', ''provider_request_rejected''),
      (''provider_not_configured'', ''provider_not_configured''), (''empty_output'', ''empty_output'')]"

definition generation_failure_code :: "string \<Rightarrow> string" where
  "generation_failure_code code = (case map_of GENERATION_CODES code of None \<Rightarrow> ''provider_error'' | Some c \<Rightarrow> c)"

text \<open>The arguments \<^verbatim>\<open>code\<close>, \<^verbatim>\<open>generation\<close> and \<^verbatim>\<open>retryable\<close> of \<^verbatim>\<open>record_failure\<close>.\<close>

fun failure_arguments :: "bench_exn \<Rightarrow> string \<times> bool \<times> bool" where
  "failure_arguments (GenerationError e) =
     (encode_failure_diagnostic (generation_failure_code (pe_code e)) (pe_detail_code e), True, pe_transient e)"
| "failure_arguments (InfrastructureError message) = (message, False, True)"
| "failure_arguments PersistenceError = ([], False, False)"
| "failure_arguments (OtherError name) = (''worker_'' @ name, False, False)"

fun registry_exception :: "registry_error \<Rightarrow> bench_exn" where
  "registry_exception (TaskRegistryError _) = OtherError ''taskregistryerror''"
| "registry_exception (TaskNotFoundError _ _) = OtherError ''tasknotfounderror''"
| "registry_exception (InvalidRevision _) = OtherError ''valueerror''"

fun evaluation_exception :: "eval_error \<Rightarrow> bench_exn" where
  "evaluation_exception (UnsupportedLanguageError _) = OtherError ''unsupportedlanguageerror''"
| "evaluation_exception (CodeSizeExceededError _ _) = OtherError ''codesizeexceedederror''"
| "evaluation_exception (EvaluationInfrastructureError message) = InfrastructureError message"
| "evaluation_exception (RegistryFailure e) = registry_exception e"
| "evaluation_exception (RunnerException name) = OtherError (py_lower name)"

fun dataset_exception :: "dataset_error \<Rightarrow> bench_exn" where
  "dataset_exception (DatasetRegistryError _) = OtherError ''datasetregistryerror''"
| "dataset_exception (DatasetNotFoundError _) = OtherError ''datasetnotfounderror''"
| "dataset_exception (DatasetTaskError e) = registry_exception e"

section \<open>Processing a claimed sample\<close>

text \<open>
  What surrounds call \<open>n\<close> of the worker: what others commit before it, whether it fails, whether the worker is cancelled
  before it, and the clock. The calls are 0 \<^verbatim>\<open>get_run\<close>, 1 \<^verbatim>\<open>get_config\<close>, 2 \<^verbatim>\<open>get_artifact\<close>, 3 \<^verbatim>\<open>store_artifact\<close>, 4
  \<^verbatim>\<open>get_snapshot\<close>, 5 \<^verbatim>\<open>complete\<close>, 6 \<^verbatim>\<open>record_failure\<close>, and 7 is the return.
\<close>

record session =
  se_env :: "nat \<Rightarrow> bench_db \<Rightarrow> bench_db"
  se_fault :: "nat \<Rightarrow> bool"
  se_cancelled :: "nat \<Rightarrow> bool"
  se_clock :: "nat \<Rightarrow> time"
  se_elapsed :: rat

text \<open>Whether a transition was recorded, or \<open>Inl\<close> when \<^verbatim>\<open>record_failure\<close> itself raises.\<close>

type_synonym work = "bench_db \<times> (repo_error + bool)"

definition returned :: "session \<Rightarrow> bench_db \<Rightarrow> bool \<Rightarrow> work" where
  "returned se db recorded = (db, Inr (recorded \<and> \<not> se_cancelled se 7))"

definition fail_sample :: "bench_worker \<Rightarrow> session \<Rightarrow> bench_db \<Rightarrow> benchmark_sample \<Rightarrow> bench_exn \<Rightarrow> work" where
  "fail_sample wk se db claimed err =
     (if err = PersistenceError \<or> se_cancelled se 6 then (db, Inr False)
      else case failure_arguments err of (code, generation, retryable) \<Rightarrow>
        (case bench_record_failure (se_fault se 6) (se_env se 6 db) (bs_benchmark_sample_id claimed) (bw_worker_id wk)
                code generation retryable (se_clock se 6) (bw_retry_base wk) of
           (db', Inl e) \<Rightarrow> (db', Inl e)
         | (db', Inr status) \<Rightarrow> returned se db' (status \<noteq> None)))"

definition complete_sample ::
    "bench_worker \<Rightarrow> session \<Rightarrow> bench_db \<Rightarrow> benchmark_sample \<Rightarrow> evaluation_snapshot \<Rightarrow> work" where
  "complete_sample wk se db claimed snapshot =
     (if se_cancelled se 5 then (db, Inr False)
      else case bench_complete (se_fault se 5) (se_env se 5 db) (bs_benchmark_sample_id claimed) (bw_worker_id wk)
              snapshot (se_clock se 5) (max 0 (se_elapsed se)) of
        (db', Inl _) \<Rightarrow> (db', Inr False)
      | (db', Inr recorded) \<Rightarrow> returned se db' recorded)"

text \<open>\<^verbatim>\<open>EvaluationService.get_snapshot\<close> on the shared table of evaluations.\<close>

definition get_snapshot :: "bool \<Rightarrow> bench_db \<Rightarrow> uuid \<Rightarrow> eval_error + evaluation_snapshot option" where
  "get_snapshot fault db evaluation_id =
     (if fault then Inl (EvaluationInfrastructureError ''Evaluation persistence is unavailable.'')
      else case row_get ev_evaluation_id (bd_evaluations db) evaluation_id of
        None \<Rightarrow> Inr None
      | Some record \<Rightarrow>
          (case snapshot_from_record record of
             Inl _ \<Rightarrow> Inl (EvaluationInfrastructureError ''Evaluation persistence is unavailable.'')
           | Inr snapshot \<Rightarrow> Inr (Some snapshot)))"

definition evaluate_candidate ::
    "bench_worker \<Rightarrow> session \<Rightarrow> bench_db \<Rightarrow> benchmark_sample \<Rightarrow> dataset_entry \<Rightarrow> generated_artifact \<Rightarrow> work" where
  "evaluate_candidate wk se db claimed entry generated =
     (if se_cancelled se 4 then (db, Inr False)
      else let db' = se_env se 4 db in
        case get_snapshot (se_fault se 4) db' (bs_evaluation_id claimed) of
          Inl e \<Rightarrow> fail_sample wk se db' claimed (evaluation_exception e)
        | Inr (Some snapshot) \<Rightarrow>
            if sn_source_hash snapshot \<noteq> ga_source_hash generated
               \<or> sn_task_fingerprint snapshot \<noteq> bs_task_fingerprint claimed
               \<or> sn_tests_fingerprint snapshot \<noteq> bs_tests_fingerprint claimed
            then fail_sample wk se db' claimed (InfrastructureError ''benchmark_evaluation_identity_mismatch'')
            else complete_sample wk se db' claimed snapshot
        | Inr None \<Rightarrow>
            (case EvaluationRequest (bs_task_id claimed) ''python'' (ga_source generated) of
               Inl _ \<Rightarrow> fail_sample wk se db' claimed (OtherError ''validationerror'')
             | Inr request \<Rightarrow>
                 (case evaluate_snapshot (bw_evaluations wk) request (bs_evaluation_id claimed) (bs_created_at claimed)
                         (se_clock se 4) None (Some (resolved_task_revision entry)) of
                    Inl e \<Rightarrow> fail_sample wk se db' claimed (evaluation_exception e)
                  | Inr snapshot \<Rightarrow> complete_sample wk se db' claimed snapshot)))"

text \<open>The run, the configuration and the task of the sample, when they are still what was planned.\<close>

definition check_identity ::
    "bench_worker \<Rightarrow> benchmark_run option \<Rightarrow> benchmark_model_config option \<Rightarrow> benchmark_sample
     \<Rightarrow> bench_exn + benchmark_model_config \<times> dataset_entry \<times> registered_task" where
  "check_identity wk run_record config_record claimed =
     (case (run_record, config_record) of
        (Some run, Some config) \<Rightarrow>
          (case get_dataset (bw_datasets wk) (br_dataset_id run) (br_dataset_version run) of
             Inl e \<Rightarrow> Inl (dataset_exception e)
           | Inr dataset \<Rightarrow>
               (case benchmark_evaluator_fingerprint (bw_evaluations wk) (bw_tasks wk) (ds_task_entries dataset) of
                  Inl e \<Rightarrow> Inl (registry_exception e)
                | Inr current_evaluator \<Rightarrow>
                    if current_evaluator \<noteq> br_evaluator_fingerprint run
                    then Inl (InfrastructureError ''benchmark_evaluator_identity_mismatch'')
                    else (case resolve_dataset_task (bw_tasks wk) dataset (bs_task_id claimed) of
                       Inl e \<Rightarrow> Inl (dataset_exception e)
                     | Inr (entry, task) \<Rightarrow>
                         (let es = bw_evaluations wk; current_tests = es_tests_fingerprint es task in
                          if ts_version (rt_specification task) \<noteq> bs_task_version claimed
                             \<or> current_tests \<noteq> bs_tests_fingerprint claimed
                             \<or> es_task_fingerprint es task current_tests \<noteq> bs_task_fingerprint claimed
                          then Inl (InfrastructureError ''benchmark_task_identity_mismatch'')
                          else Inr (config, entry, task)))))
      | _ \<Rightarrow> Inl (InfrastructureError ''benchmark_identity_unavailable''))"

definition generate_and_store ::
    "bench_worker \<Rightarrow> session \<Rightarrow> bench_db \<Rightarrow> benchmark_sample \<Rightarrow> benchmark_model_config \<Rightarrow> dataset_entry \<Rightarrow> task_spec \<Rightarrow> work" where
  "generate_and_store wk se db claimed config entry task =
     (case generate wk claimed config task (se_clock se 2) of
        Inl e \<Rightarrow> fail_sample wk se db claimed e
      | Inr generated \<Rightarrow>
          if se_cancelled se 3 then (db, Inr False)
          else (case store_artifact (se_fault se 3) (se_env se 3 db) (bs_benchmark_sample_id claimed) (bw_worker_id wk)
                  generated (se_clock se 3) of
             (db', Inr True) \<Rightarrow> evaluate_candidate wk se db' claimed entry generated
           | (db', _) \<Rightarrow> (db', Inr False)))"

definition process_claimed :: "bench_worker \<Rightarrow> session \<Rightarrow> bench_db \<Rightarrow> benchmark_sample \<Rightarrow> work" where
  "process_claimed wk se db claimed =
     (if se_cancelled se 0 then (db, Inr False)
      else let db0 = se_env se 0 db in
        if se_fault se 0 then (db0, Inr False)
        else if se_cancelled se 1 then (db0, Inr False)
        else let db1 = se_env se 1 db0 in
          if se_fault se 1 then (db1, Inr False)
          else (case check_identity wk (get_run db0 (bs_benchmark_run_id claimed))
                  (row_get mc_model_config_id (bd_configs db1) (bs_model_config_id claimed)) claimed of
             Inl e \<Rightarrow> fail_sample wk se db1 claimed e
           | Inr (config, entry, task) \<Rightarrow>
               if se_cancelled se 2 then (db1, Inr False)
               else let db2 = se_env se 2 db1 in
                 if se_fault se 2 then (db2, Inr False)
                 else (case get_artifact db2 (bs_benchmark_sample_id claimed) of
                    Some generated \<Rightarrow> evaluate_candidate wk se db2 claimed entry generated
                  | None \<Rightarrow> generate_and_store wk se db2 claimed config entry (rt_specification task))))"

section \<open>The lease\<close>

text \<open>
  One attempt to renew: the readings of the clock before, at and after the transaction, whether the transaction fails and
  whether its deadline passes first. An attempt that is cut off may still have been committed.
\<close>

record renewal =
  rn_env :: "bench_db \<Rightarrow> bench_db"
  rn_checked :: time
  rn_started :: time
  rn_finished :: time
  rn_fault :: bool
  rn_timed_out :: bool

text \<open>\<^verbatim>\<open>_renew_before_expiry\<close> returns the new expiry; the list of attempts ends where \<^verbatim>\<open>stop\<close> is set.\<close>

fun renew_before_expiry ::
    "bench_worker \<Rightarrow> benchmark_sample \<Rightarrow> bench_db \<Rightarrow> time \<Rightarrow> renewal list \<Rightarrow> bench_db \<times> time option" where
  "renew_before_expiry wk sample db lease_expires_at [] = (db, None)"
| "renew_before_expiry wk sample db lease_expires_at (a # attempts) =
     (if lease_expires_at \<le> rn_checked a then (db, None)
      else case bench_renew_lease (rn_fault a) (rn_env a db) (bs_benchmark_sample_id sample) (bw_worker_id wk)
              (rn_started a) (bw_lease_seconds wk) of
        (db', result) \<Rightarrow>
          if rn_timed_out a \<or> \<not> is_ok result
          then (if lease_expires_at \<le> rn_finished a then (db', None)
                else renew_before_expiry wk sample db' lease_expires_at attempts)
          else (case result of
             Inr (Some (_, renewed_until)) \<Rightarrow>
               (if renewed_until \<le> rn_finished a then (db', None) else (db', Some renewed_until))
           | _ \<Rightarrow> (db', None)))"

text \<open>The heartbeat \<^verbatim>\<open>_renew_lease\<close>: each round has the reading of the clock and its attempts.\<close>

fun bench_heartbeat ::
    "bench_worker \<Rightarrow> benchmark_sample \<Rightarrow> bench_db \<Rightarrow> time \<Rightarrow> (time \<times> renewal list) list \<Rightarrow> bench_db" where
  "bench_heartbeat wk sample db lease_expires_at [] = db"
| "bench_heartbeat wk sample db lease_expires_at ((now, attempts) # rounds) =
     (if lease_expires_at \<le> now then db
      else case renew_before_expiry wk sample db lease_expires_at attempts of
        (db', None) \<Rightarrow> db'
      | (db', Some renewed_until) \<Rightarrow> bench_heartbeat wk sample db' renewed_until rounds)"

text \<open>
  The heartbeat runs beside the processing: its transactions are among those that \<^verbatim>\<open>se_env\<close> gives, and its end is the
  cancellation.
\<close>

definition run_with_lease :: "bench_worker \<Rightarrow> renewal list \<Rightarrow> session \<Rightarrow> bench_db \<Rightarrow> benchmark_sample \<Rightarrow> work" where
  "run_with_lease wk attempts se db claimed =
     (case bs_lease_expires_at claimed of
        None \<Rightarrow> (db, Inr False)
      | Some lease_expires_at \<Rightarrow>
          (case renew_before_expiry wk claimed db lease_expires_at attempts of
             (db', None) \<Rightarrow> (db', Inr False)
           | (db', Some _) \<Rightarrow> process_claimed wk se db' claimed))"

section \<open>The queue\<close>

definition bench_parse_message :: "stream_entry \<Rightarrow> queue_error + queue_message" where
  "bench_parse_message raw =
     (case raw of (message_id, body) \<Rightarrow>
        (case Option.bind (map_of body ''benchmark_sample_id'') (\<lambda>t. case UUID t of Inl _ \<Rightarrow> None | Inr i \<Rightarrow> Some i) of
           None \<Rightarrow> Inl (QueueUnavailableError ''Benchmark queue message is malformed.'')
         | Some sample_id \<Rightarrow> Inr \<lparr>qm_message_id = message_id, qm_evaluation_id = sample_id\<rparr>))"

definition bench_enqueue :: "'q redis \<Rightarrow> 'q \<Rightarrow> uuid \<Rightarrow> 'q \<times> (queue_error + string)" where
  "bench_enqueue rd q sample_id =
     (case xadd rd q [(''benchmark_sample_id'', str_uuid sample_id)] of
        (q', None) \<Rightarrow> (q', Inl (QueueUnavailableError ''Benchmark queue is unavailable.''))
      | (q', Some message_id) \<Rightarrow> (q', Inr message_id))"

definition bench_delivery ::
    "'q \<times> stream_entry list option \<Rightarrow> 'q \<times> (queue_error + queue_message option)" where
  "bench_delivery response =
     (case response of
        (q', None) \<Rightarrow> (q', Inl (QueueUnavailableError ''Benchmark queue is unavailable.''))
      | (q', Some []) \<Rightarrow> (q', Inr None)
      | (q', Some (raw # _)) \<Rightarrow> (q', map_sum id Some (bench_parse_message raw)))"

definition bench_consume :: "'q redis \<Rightarrow> 'q \<Rightarrow> string \<Rightarrow> 'q \<times> (queue_error + queue_message option)" where
  "bench_consume rd q consumer = bench_delivery (xreadgroup rd q consumer)"

definition bench_reclaim :: "'q redis \<Rightarrow> 'q \<Rightarrow> string \<Rightarrow> nat \<Rightarrow> 'q \<times> (queue_error + queue_message option)" where
  "bench_reclaim rd q consumer minimum_idle_ms = bench_delivery (xautoclaim rd q consumer minimum_idle_ms)"

definition bench_acknowledge :: "'q redis \<Rightarrow> 'q \<Rightarrow> string \<Rightarrow> 'q \<times> (queue_error + unit)" where
  "bench_acknowledge rd q message_id =
     (case xack rd q message_id of
        (q', None) \<Rightarrow> (q', Inl (QueueUnavailableError ''Benchmark queue acknowledgement failed.''))
      | (q', Some _) \<Rightarrow> (q', Inr ()))"

text \<open>One iteration of the publisher, then the loop; as in the theory Delivery.\<close>

definition bench_dispatch_event ::
    "'q redis \<Rightarrow> rat \<Rightarrow> bool \<Rightarrow> time \<Rightarrow> bench_db \<Rightarrow> 'q \<Rightarrow> outbox_event \<Rightarrow> bench_db \<times> 'q \<times> (repo_error + bool)" where
  "bench_dispatch_event rd base fault now db q event =
     (case bench_enqueue rd q (oe_aggregate_id event) of
        (q', Inl _) \<Rightarrow>
          (case bench_mark_outbox_failed fault db (oe_event_id event) now base of
             (db', Inl e) \<Rightarrow> (db', q', Inl e)
           | (db', Inr _) \<Rightarrow> (db', q', Inr False))
      | (q', Inr _) \<Rightarrow>
          (case bench_mark_outbox_published fault db (oe_event_id event) now of
             (db', Inl e) \<Rightarrow> (db', q', Inl e)
           | (db', Inr _) \<Rightarrow> (db', q', Inr True)))"

fun bench_dispatch_loop ::
    "'q redis \<Rightarrow> rat \<Rightarrow> (nat \<Rightarrow> bool) \<Rightarrow> (nat \<Rightarrow> time) \<Rightarrow> bench_db \<Rightarrow> 'q \<Rightarrow> outbox_event list \<Rightarrow> nat
     \<Rightarrow> bench_db \<times> 'q \<times> (repo_error + nat)" where
  "bench_dispatch_loop rd base faults clocks db q [] published = (db, q, Inr published)"
| "bench_dispatch_loop rd base faults clocks db q (event # events) published =
     (case bench_dispatch_event rd base (faults (length events)) (clocks (length events)) db q event of
        (db', q', Inl e) \<Rightarrow> (db', q', Inl e)
      | (db', q', Inr b) \<Rightarrow>
          bench_dispatch_loop rd base faults clocks db' q' events (if b then published + 1 else published))"

definition bench_dispatch_once ::
    "'q redis \<Rightarrow> rat \<Rightarrow> bool \<Rightarrow> (nat \<Rightarrow> bool) \<Rightarrow> time \<Rightarrow> (nat \<Rightarrow> time) \<Rightarrow> bench_db \<Rightarrow> 'q \<Rightarrow> nat
     \<Rightarrow> bench_db \<times> 'q \<times> (repo_error + nat)" where
  "bench_dispatch_once rd base fault faults now clocks db q limit =
     (case bench_ready_outbox fault db now limit of
        Inl e \<Rightarrow> (db, q, Inl e)
      | Inr events \<Rightarrow> bench_dispatch_loop rd base faults clocks db q events 0)"

section \<open>Processing a message\<close>

text \<open>
  \<open>Kept\<close>: the message stays pending and is delivered again. \<open>env\<close> is what others commit between the lookup and the claim,
  and \<open>now\<close> the clock of the claim.
\<close>

datatype message_end = Kept | MessageAcknowledged | MessageRaised

definition bench_ack :: "'q redis \<Rightarrow> 'q \<Rightarrow> queue_message \<Rightarrow> 'q \<times> message_end" where
  "bench_ack rd q message =
     (case bench_acknowledge rd q (qm_message_id message) of
        (q', Inl _) \<Rightarrow> (q', MessageRaised)
      | (q', Inr _) \<Rightarrow> (q', MessageAcknowledged))"

definition bench_process_message ::
    "'q redis \<Rightarrow> bench_worker \<Rightarrow> bool \<Rightarrow> bool \<Rightarrow> (bench_db \<Rightarrow> bench_db) \<Rightarrow> time \<Rightarrow> renewal list \<Rightarrow> session \<Rightarrow> bench_db \<Rightarrow> 'q
     \<Rightarrow> queue_message \<Rightarrow> bench_db \<times> 'q \<times> message_end" where
  "bench_process_message rd wk f1 f2 env now attempts se db q message =
     (if f1 then (db, q, Kept)
      else case get_sample db (qm_evaluation_id message) of
        None \<Rightarrow> (db, bench_ack rd q message)
      | Some sample \<Rightarrow>
          if bs_status sample \<in> TERMINAL_SAMPLE_STATUSES then (db, bench_ack rd q message)
          else (case bench_claim f2 (env db) (bs_benchmark_sample_id sample) (bw_worker_id wk) now (bw_lease_seconds wk) of
             (db', Inl _) \<Rightarrow> (db', q, Kept)
           | (db', Inr None) \<Rightarrow> (db', bench_ack rd q message)
           | (db', Inr (Some claimed)) \<Rightarrow>
               (case run_with_lease wk attempts se db' claimed of
                  (db'', Inr True) \<Rightarrow> (db'', bench_ack rd q message)
                | (db'', Inr False) \<Rightarrow> (db'', q, Kept)
                | (db'', Inl _) \<Rightarrow> (db'', q, MessageRaised))))"

section \<open>Everything is a sequence of repository steps\<close>

definition commits :: "(bench_db \<Rightarrow> bench_db) \<Rightarrow> bool" where
  "commits env \<longleftrightarrow> (\<forall>db. bench_step\<^sup>*\<^sup>* db (env db))"

definition session_commits :: "session \<Rightarrow> bool" where
  "session_commits se \<longleftrightarrow> (\<forall>n. commits (se_env se n))"

definition renewals_commit :: "renewal list \<Rightarrow> bool" where
  "renewals_commit attempts \<longleftrightarrow> list_all (\<lambda>a. commits (rn_env a)) attempts"

lemma commitsD: "commits env \<Longrightarrow> bench_step\<^sup>*\<^sup>* db0 db \<Longrightarrow> bench_step\<^sup>*\<^sup>* db0 (env db)"
  by (meson commits_def rtranclp_trans)

lemma session_commitsD: "session_commits se \<Longrightarrow> bench_step\<^sup>*\<^sup>* db0 db \<Longrightarrow> bench_step\<^sup>*\<^sup>* db0 (se_env se n db)"
  by (rule commitsD) (simp_all add: session_commits_def)

lemma then_step: "bench_step\<^sup>*\<^sup>* db0 db \<Longrightarrow> bench_step db (fst p) \<Longrightarrow> p = (db', r) \<Longrightarrow> bench_step\<^sup>*\<^sup>* db0 db'"
  by (metis fst_conv rtranclp.rtrancl_into_rtrancl)

lemma fail_steps:
  assumes "session_commits se" "bench_step\<^sup>*\<^sup>* db0 db"
  shows "bench_step\<^sup>*\<^sup>* db0 (fst (fail_sample wk se db claimed e))"
  using assms(2) then_step[OF session_commitsD[OF assms, of 6] be_failure]
  by (fastforce simp: fail_sample_def returned_def split: prod.splits sum.splits)

lemma complete_steps:
  assumes "session_commits se" "bench_step\<^sup>*\<^sup>* db0 db"
  shows "bench_step\<^sup>*\<^sup>* db0 (fst (complete_sample wk se db claimed snapshot))"
  using assms(2) then_step[OF session_commitsD[OF assms, of 5] be_complete]
  by (fastforce simp: complete_sample_def returned_def split: prod.splits sum.splits)

lemma evaluate_steps:
  assumes "session_commits se" "bench_step\<^sup>*\<^sup>* db0 db"
  shows "bench_step\<^sup>*\<^sup>* db0 (fst (evaluate_candidate wk se db claimed entry generated))"
  using assms(2) fail_steps[OF assms(1) session_commitsD[OF assms]] complete_steps[OF assms(1) session_commitsD[OF assms]]
  by (simp add: evaluate_candidate_def Let_def split: sum.splits option.splits)

lemma generate_sample: "generate wk sample config task now = Inr a \<Longrightarrow> ga_benchmark_sample_id a = bs_benchmark_sample_id sample"
  by (auto simp: generate_def Let_def split: sum.splits prod.splits if_splits)

lemma generate_steps:
  assumes "session_commits se" "bench_step\<^sup>*\<^sup>* db0 db"
  shows "bench_step\<^sup>*\<^sup>* db0 (fst (generate_and_store wk se db claimed config entry task))"
proof (cases "generate wk claimed config task (se_clock se 2)")
  case (Inl e)
  then show ?thesis using fail_steps[OF assms] by (simp add: generate_and_store_def)
next
  case (Inr a)
  obtain db' r where store: "store_artifact (se_fault se 3) (se_env se 3 db) (bs_benchmark_sample_id claimed) (bw_worker_id wk) a
      (se_clock se 3) = (db', r)" by force
  have "bench_step\<^sup>*\<^sup>* db0 db'"
    by (rule then_step[OF session_commitsD[OF assms, of 3] be_artifact store]) (rule generate_sample[OF Inr])
  then show ?thesis using assms(2) evaluate_steps[OF assms(1)]
    by (auto simp: generate_and_store_def Inr store split: sum.splits bool.splits)
qed

lemma claimed_steps:
  assumes "session_commits se" "bench_step\<^sup>*\<^sup>* db0 db"
  shows "bench_step\<^sup>*\<^sup>* db0 (fst (process_claimed wk se db claimed))"
proof -
  note s0 = session_commitsD[OF assms, of 0]
  note s1 = session_commitsD[OF assms(1) s0, of 1]
  note s2 = session_commitsD[OF assms(1) s1, of 2]
  show ?thesis
    using assms(2) s0 s1 s2 fail_steps[OF assms(1) s1] evaluate_steps[OF assms(1) s2] generate_steps[OF assms(1) s2]
    by (simp add: process_claimed_def Let_def split: sum.splits prod.splits option.splits)
qed

lemma renew_steps:
  "renewals_commit attempts \<Longrightarrow> bench_step\<^sup>*\<^sup>* db0 db \<Longrightarrow> bench_step\<^sup>*\<^sup>* db0 (fst (renew_before_expiry wk sample db t attempts))"
proof (induction wk sample db t attempts rule: renew_before_expiry.induct)
  case (2 wk sample db t a attempts)
  obtain db' r where renew: "bench_renew_lease (rn_fault a) (rn_env a db) (bs_benchmark_sample_id sample) (bw_worker_id wk)
      (rn_started a) (bw_lease_seconds wk) = (db', r)" by force
  have c: "commits (rn_env a)" "renewals_commit attempts" using 2(2) by (simp_all add: renewals_commit_def)
  have "bench_step\<^sup>*\<^sup>* db0 db'" by (rule then_step[OF commitsD[OF c(1) 2(3)] be_renew renew])
  with 2 c show ?case by (auto simp: renew split: sum.splits option.splits prod.splits)
qed simp

text \<open>So the heartbeat is among what a session may have around it.\<close>

lemma heartbeat_steps:
  "list_all (\<lambda>(_, attempts). renewals_commit attempts) rounds \<Longrightarrow> bench_step\<^sup>*\<^sup>* db0 db \<Longrightarrow>
     bench_step\<^sup>*\<^sup>* db0 (bench_heartbeat wk sample db t rounds)"
proof (induction wk sample db t rounds rule: bench_heartbeat.induct)
  case (2 wk sample db t now attempts rounds)
  have "bench_step\<^sup>*\<^sup>* db0 (fst (renew_before_expiry wk sample db t attempts))" using 2(2,3) renew_steps by simp
  with 2 show ?case by (auto split: prod.splits option.splits)
qed simp

lemma heartbeat_commits:
  "list_all (\<lambda>(_, attempts). renewals_commit attempts) rounds \<Longrightarrow> commits (\<lambda>db. bench_heartbeat wk sample db t rounds)"
  by (simp add: commits_def heartbeat_steps)

text \<open>A confirmed renewal is the lease of the stored sample.\<close>

lemma bench_commit_Inr: "bench_commit m db db1 x = (db', Inr y) \<Longrightarrow> db' = db1 \<and> y = x"
  by (auto simp: bench_commit_def split: if_splits)

lemma bench_renew_stored:
  assumes "bench_renew_lease fault db i w now lease = (db', Inr (Some (renewed, t)))"
  shows "\<exists>r. get_sample db' i = Some r \<and> bs_lease_expires_at r = Some t \<and> bs_worker_id r = Some w \<and> active_sample r"
proof -
  obtain r where r: "get_sample db i = Some r" "bs_worker_id r = Some w" "bs_status r \<in> {GENERATING, EVALUATING}"
    "bench_commit ''Benchmark lease renewal is unavailable.'' db
       (put_sample (r\<lparr>bs_lease_expires_at := Some (now + td_micros lease), bs_updated_at := now\<rparr>) db)
       (Some (now, now + td_micros lease)) = (db', Inr (Some (renewed, t)))"
    using assms by (cases "get_sample db i") (auto simp: bench_renew_lease_def Let_def split: if_splits)
  have "bs_benchmark_sample_id r = i" using row_get_key[OF r(1)] by simp
  with bench_commit_Inr[OF r(4)] r(1-3) show ?thesis by (auto simp: get_sample_put active_sample_def)
qed

lemma renewed_lease_stored:
  "renew_before_expiry wk sample db t attempts = (db', Some t') \<Longrightarrow>
     \<exists>r. get_sample db' (bs_benchmark_sample_id sample) = Some r \<and> bs_lease_expires_at r = Some t'
       \<and> bs_worker_id r = Some (bw_worker_id wk) \<and> active_sample r"
proof (induction wk sample db t attempts rule: renew_before_expiry.induct)
  case (2 wk sample db t a attempts)
  obtain db1 r where renew: "bench_renew_lease (rn_fault a) (rn_env a db) (bs_benchmark_sample_id sample) (bw_worker_id wk)
      (rn_started a) (bw_lease_seconds wk) = (db1, r)" by force
  show ?case
  proof (cases "rn_timed_out a \<or> \<not> is_ok r")
    case True
    with 2 renew show ?thesis by (auto split: if_splits)
  next
    case False
    with 2(2) renew obtain renewed where r: "r = Inr (Some (renewed, t'))" "db1 = db'"
      by (auto simp: is_ok_def split: if_splits sum.splits option.splits prod.splits)
    show ?thesis using bench_renew_stored renew[unfolded r] by blast
  qed
qed simp

section \<open>Recorded outcomes are settled\<close>

text \<open>A waiting sample of this kind is woken by the publisher.\<close>

definition woken :: "bench_db \<Rightarrow> uuid \<Rightarrow> bool" where
  "woken db i \<longleftrightarrow> (\<exists>e\<in>set (bd_outbox db). oe_aggregate_id e = i \<and> oe_published_at e = None)"

definition settled :: "bench_db \<Rightarrow> uuid \<Rightarrow> bool" where
  "settled db i \<longleftrightarrow> (\<exists>s. get_sample db i = Some s \<and> (terminal_sample s \<or> claimable_sample s \<and> woken db i))"

text \<open>A recorded failure: the sample waits for its next attempt with an event, or has failed.\<close>

definition failed_with :: "bench_db \<Rightarrow> uuid \<Rightarrow> string \<Rightarrow> bool \<Rightarrow> bool \<Rightarrow> bool" where
  "failed_with db i code generation retryable \<longleftrightarrow>
     (case get_sample db i of
        None \<Rightarrow> False
      | Some s \<Rightarrow> bs_failure_code s = Some code \<and> bs_worker_id s = None \<and> bs_lease_expires_at s = None
          \<and> (if retryable \<and> bs_attempt_count s < bs_max_attempts s then claimable_sample s \<and> woken db i
             else bs_status s = (if generation then GENERATION_FAILED else EVALUATION_FAILED)))"

lemma failure_stored:
  assumes "bench_ok db" "bench_record_failure f db i w code g p now base = (db', Inr (Some st))"
  shows "failed_with db' i code g p"
proof -
  obtain r where r: "\<not> f" "get_sample db i = Some r" "owns_active_benchmark_lease r w now"
    using assms(2) by (auto simp: bench_record_failure_def split: if_splits option.splits)
  note id = get_sample_ok(2)[OF assms(1) r(2)]
  have put: "get_sample (put_sample s db) i = Some s" if "bs_benchmark_sample_id s = i" for s
    using get_sample_put[of s db] r(2) that by simp
  show ?thesis
  proof (cases "p \<and> bs_attempt_count r < bs_max_attempts r")
    case True
    with assms(2) r obtain db1 where "requeue_sample db (released_sample r code now) now base = Inr db1" "db' = db1"
      by (auto simp: bench_record_failure_def Let_def dest!: bench_commit_Inr split: sum.splits)
    then show ?thesis
      using id put True by (auto simp: requeue_sample_def Let_def released_sample_def failed_with_def woken_def claimable_sample_def
          add_bench_outbox_def bench_outbox_record_def split: sum.splits)
  next
    case False
    with assms(2) r have "db' = end_sample db (released_sample r code now) (if g then GENERATION_FAILED else EVALUATION_FAILED) now"
      by (auto simp: bench_record_failure_def Let_def dest!: bench_commit_Inr split: if_splits)
    then show ?thesis using id False put[of "(released_sample r code now)\<lparr>bs_status := if g then GENERATION_FAILED else EVALUATION_FAILED,
        bs_completed_at := Some now\<rparr>"]
      by (auto simp: failed_with_def end_samples released_sample_def)
  qed
qed

lemma failed_settled: "failed_with db i code g p \<Longrightarrow> settled db i"
  by (auto simp: failed_with_def settled_def terminal_sample_def TERMINAL_SAMPLE_STATUSES_def split: option.splits if_splits)

lemma complete_settles:
  assumes "bench_ok db" "bench_complete f db i w sn now d = (db', Inr True)"
  shows "settled db' i"
proof -
  obtain r where r: "\<not> f" "get_sample db i = Some r"
    using assms(2) by (auto simp: bench_complete_def split: if_splits option.splits)
  note id = get_sample_ok(2)[OF assms(1) r(2)]
  have done_: "settled (fst (finish_run_if_terminal (put_sample (completed_sample r sn now d) db1) k now)) i"
    if "bd_samples db1 = bd_samples db" for db1 k
  proof -
    have "get_sample (fst (finish_run_if_terminal (put_sample (completed_sample r sn now d) db1) k now)) i
        = get_sample (put_sample (completed_sample r sn now d) db1) i"
      by (simp add: finish_run_if_terminal_def split: option.splits)
    then show ?thesis using r(2) id that
      by (simp add: settled_def get_sample_put completed_sample_def terminal_sample_def TERMINAL_SAMPLE_STATUSES_def)
  qed
  consider "bs_status r = SAMPLE_COMPLETED" "db' = db"
    | k db1 where "db' = fst (finish_run_if_terminal (put_sample (completed_sample r sn now d) db1) k now)" "bd_samples db1 = bd_samples db"
    using assms(2) r by (auto simp: bench_complete_def Let_def dest!: bench_commit_Inr split: if_splits option.splits)
  then show ?thesis
  proof cases
    case 1
    with r show ?thesis by (simp add: settled_def terminal_sample_def TERMINAL_SAMPLE_STATUSES_def)
  next
    case 2
    then show ?thesis using done_ by simp
  qed
qed

lemma ok_session: "session_commits se \<Longrightarrow> bench_ok db \<Longrightarrow> bench_ok (se_env se n db)"
  using bench_samples.inv_run session_commitsD[OF _ rtranclp.rtrancl_refl] by blast

lemma ok_step: "bench_ok db \<Longrightarrow> bench_step db (fst p) \<Longrightarrow> p = (db', r) \<Longrightarrow> bench_ok db'"
  by (metis bench_samples.inv_run fst_conv r_into_rtranclp)

lemma fail_stored:
  assumes "session_commits se" "bench_ok db" "fail_sample wk se db claimed err = (db', Inr True)"
    "failure_arguments err = (code, generation, retryable)"
  shows "failed_with db' (bs_benchmark_sample_id claimed) code generation retryable"
  using assms(3,4) failure_stored[OF ok_session[OF assms(1,2)]]
  by (auto simp: fail_sample_def returned_def split: if_splits prod.splits sum.splits)

lemma fail_settles:
  "session_commits se \<Longrightarrow> bench_ok db \<Longrightarrow> fail_sample wk se db claimed e = (db', Inr True) \<Longrightarrow>
     settled db' (bs_benchmark_sample_id claimed)"
  using fail_stored failed_settled by (metis prod_cases3)

lemma complete_sample_settles:
  "session_commits se \<Longrightarrow> bench_ok db \<Longrightarrow> complete_sample wk se db claimed sn = (db', Inr True) \<Longrightarrow>
     settled db' (bs_benchmark_sample_id claimed)"
  using complete_settles[OF ok_session]
  by (auto simp: complete_sample_def returned_def split: if_splits prod.splits sum.splits)

lemma evaluate_settles:
  assumes "session_commits se" "bench_ok db" "evaluate_candidate wk se db claimed entry generated = (db', Inr True)"
  shows "settled db' (bs_benchmark_sample_id claimed)"
  using assms(3) fail_settles[OF assms(1) ok_session[OF assms(1,2)]] complete_sample_settles[OF assms(1) ok_session[OF assms(1,2)]]
  by (auto simp: evaluate_candidate_def Let_def split: if_splits sum.splits option.splits)

lemma generate_settles:
  assumes "session_commits se" "bench_ok db" "generate_and_store wk se db claimed config entry task = (db', Inr True)"
  shows "settled db' (bs_benchmark_sample_id claimed)"
proof (cases "generate wk claimed config task (se_clock se 2)")
  case (Inl e)
  then show ?thesis using assms fail_settles by (simp add: generate_and_store_def)
next
  case (Inr a)
  obtain db1 r where store: "store_artifact (se_fault se 3) (se_env se 3 db) (bs_benchmark_sample_id claimed) (bw_worker_id wk) a
      (se_clock se 3) = (db1, r)" by force
  have "bench_ok db1"
    by (rule ok_step[OF ok_session[OF assms(1,2), of 3] be_artifact store]) (rule generate_sample[OF Inr])
  then show ?thesis using assms(3) evaluate_settles[OF assms(1)]
    by (auto simp: generate_and_store_def Inr store split: if_splits sum.splits bool.splits)
qed

lemma claimed_settles:
  assumes "session_commits se" "bench_ok db" "process_claimed wk se db claimed = (db', Inr True)"
  shows "settled db' (bs_benchmark_sample_id claimed)"
proof -
  note ok1 = ok_session[OF assms(1) ok_session[OF assms(1,2), of 0], of 1]
  note ok2 = ok_session[OF assms(1) ok1, of 2]
  show ?thesis
    using assms(3) fail_settles[OF assms(1) ok1] evaluate_settles[OF assms(1) ok2] generate_settles[OF assms(1) ok2]
    by (auto simp: process_claimed_def Let_def split: if_splits sum.splits prod.splits option.splits)
qed

section \<open>Failure codes\<close>

lemma generation_codes_plain:
  "list_all (\<lambda>(c, d). d \<noteq> [] \<and> CHR '':'' \<notin> set d \<and> length d \<le> 102
     \<and> (case map_of NORMALIZED_FAILURE_CODES d of None \<Rightarrow> False | Some category \<Rightarrow> category \<noteq> ''unknown'')) GENERATION_CODES"
  by code_simp

lemma generation_failure_code_plain:
  "generation_failure_code c \<noteq> [] \<and> CHR '':'' \<notin> set (generation_failure_code c) \<and> length (generation_failure_code c) \<le> 102
     \<and> (\<exists>category. map_of NORMALIZED_FAILURE_CODES (generation_failure_code c) = Some category \<and> category \<noteq> ''unknown'')"
proof (cases "map_of GENERATION_CODES c")
  case None
  then have "generation_failure_code c = ''provider_error''" by (simp add: generation_failure_code_def)
  then show ?thesis by (simp add: NORMALIZED_FAILURE_CODES_def)
next
  case (Some d)
  then have "(c, d) \<in> set GENERATION_CODES" by (rule map_of_SomeD)
  with generation_codes_plain Some show ?thesis
    by (fastforce simp: list_all_iff generation_failure_code_def split: option.splits)
qed

section \<open>Completed samples are what was planned\<close>

text \<open>An artifact whose hash is the one of its source, as in every artifact that the worker generates.\<close>

definition artifact_hashed :: "(bytes \<Rightarrow> string) \<Rightarrow> generated_artifact \<Rightarrow> bool" where
  "artifact_hashed sha a \<longleftrightarrow> ga_source_hash a = fst (source_identity sha (ga_source a))"

lemma generate_hashed: "generate wk sample config task now = Inr a \<Longrightarrow> artifact_hashed (es_sha (bw_evaluations wk)) a"
  by (auto simp: generate_def artifact_hashed_def Let_def split: sum.splits prod.splits if_splits)

text \<open>What the check of the identity establishes.\<close>

definition planned_identity ::
    "bench_worker \<Rightarrow> bench_db \<Rightarrow> benchmark_sample \<Rightarrow> dataset_entry \<Rightarrow> registered_task \<Rightarrow> bool" where
  "planned_identity wk db s entry task \<longleftrightarrow> (\<exists>run dataset.
     get_run db (bs_benchmark_run_id s) = Some run
     \<and> get_dataset (bw_datasets wk) (br_dataset_id run) (br_dataset_version run) = Inr dataset
     \<and> benchmark_evaluator_fingerprint (bw_evaluations wk) (bw_tasks wk) (ds_task_entries dataset) = Inr (br_evaluator_fingerprint run)
     \<and> resolve_dataset_task (bw_tasks wk) dataset (bs_task_id s) = Inr (entry, task)
     \<and> ts_version (rt_specification task) = bs_task_version s
     \<and> es_tests_fingerprint (bw_evaluations wk) task = bs_tests_fingerprint s
     \<and> es_task_fingerprint (bw_evaluations wk) task (bs_tests_fingerprint s) = bs_task_fingerprint s)"

lemma check_identity_Inr:
  assumes "check_identity wk (get_run db (bs_benchmark_run_id s)) config_record s = Inr (config, entry, task)"
  shows "planned_identity wk db s entry task"
  using assms
  by (auto simp: check_identity_def planned_identity_def Let_def split: option.splits sum.splits if_splits)

lemma planned_identity_plan:
  assumes "planned_identity wk db claimed entry task" "same_plan s claimed"
  shows "planned_identity wk db s entry task"
proof -
  have "bs_benchmark_run_id s = bs_benchmark_run_id claimed" "bs_task_id s = bs_task_id claimed"
    "bs_task_version s = bs_task_version claimed" "bs_tests_fingerprint s = bs_tests_fingerprint claimed"
    "bs_task_fingerprint s = bs_task_fingerprint claimed"
    using assms(2) by (simp_all add: same_plan_def)
  with assms(1) show ?thesis unfolding planned_identity_def by simp
qed

text \<open>A snapshot of the planned task and of the given artifact.\<close>

definition snapshot_of :: "bench_worker \<Rightarrow> benchmark_sample \<Rightarrow> generated_artifact \<Rightarrow> evaluation_snapshot \<Rightarrow> bool" where
  "snapshot_of wk s a snapshot \<longleftrightarrow>
     sn_task_fingerprint snapshot = bs_task_fingerprint s \<and> sn_tests_fingerprint snapshot = bs_tests_fingerprint s
     \<and> (artifact_hashed (es_sha (bw_evaluations wk)) a \<longrightarrow> sn_source_hash snapshot = ga_source_hash a)"

lemma fail_not_completed:
  assumes "session_commits se" "bench_ok db" "fail_sample wk se db claimed err = (db', Inr True)"
    and "get_sample db' (bs_benchmark_sample_id claimed) = Some s"
  shows "bs_status s \<noteq> SAMPLE_COMPLETED"
proof -
  obtain code generation retryable where "failure_arguments err = (code, generation, retryable)" by (metis prod_cases3)
  from fail_stored[OF assms(1-3) this] assms(4) show ?thesis
    by (auto simp: failed_with_def claimable_sample_def split: if_splits)
qed

lemma evaluated_task:
  assumes "evaluate_snapshot es rq i c d ai (Some r) = Inr sn" "get_revision (en_registry (es_engine es)) (rq_task_id rq) r = Inr task"
  shows "sn_tests_fingerprint sn = es_tests_fingerprint es task"
    "sn_task_fingerprint sn = es_task_fingerprint es task (es_tests_fingerprint es task)"
    "sn_source_hash sn = es_sha es (utf8 (rq_code rq))"
proof -
  obtain out where out: "evaluate_outcome (es_show_g es) (es_show_n es) (es_engine es) rq (Some r) = Inr out"
    "sn_task_fingerprint sn = es_task_fingerprint es (eo_task out) (es_tests_fingerprint es (eo_task out))"
    "sn_tests_fingerprint sn = es_tests_fingerprint es (eo_task out)" "sn_source_hash sn = es_sha es (utf8 (rq_code rq))"
    using assms(1) by (rule evaluate_snapshot_Inr)
  obtain t where "prepare_request (es_engine es) rq (Some r) = Inr t" "eo_task out = t"
    using out(1) by (rule evaluate_outcome_Inr)
  then have "eo_task out = task" using assms(2)
    by (auto simp: prepare_request_def get_revision_def Let_def split: if_splits sum.splits option.splits)
  with out show "sn_tests_fingerprint sn = es_tests_fingerprint es task"
    "sn_task_fingerprint sn = es_task_fingerprint es task (es_tests_fingerprint es task)"
    "sn_source_hash sn = es_sha es (utf8 (rq_code rq))" by simp_all
qed

lemma fresh_snapshot:
  assumes "planned_identity wk db s entry task" "en_registry (es_engine (bw_evaluations wk)) = bw_tasks wk"
    and "normalize_identifier (bs_task_id s) = Inr (bs_task_id s)"
    and "EvaluationRequest (bs_task_id s) ''python'' (ga_source a) = Inr request"
    and "evaluate_snapshot (bw_evaluations wk) request i c d ai (Some (resolved_task_revision entry)) = Inr sn"
  shows "snapshot_of wk s a sn"
proof -
  have rq: "rq_task_id request = bs_task_id s" "rq_code request = ga_source a"
    using assms(3,4) by (auto simp: EvaluationRequest_def reject_blank_code_def split: sum.splits if_splits)
  obtain dataset where "resolve_dataset_task (bw_tasks wk) dataset (bs_task_id s) = Inr (entry, task)"
    and prints: "es_tests_fingerprint (bw_evaluations wk) task = bs_tests_fingerprint s"
      "es_task_fingerprint (bw_evaluations wk) task (bs_tests_fingerprint s) = bs_task_fingerprint s"
    using assms(1) by (auto simp: planned_identity_def)
  then have "get_revision (bw_tasks wk) (bs_task_id s) (resolved_task_revision entry) = Inr task"
    by (auto simp: resolve_dataset_task_def resolve_task_def find_Some_iff split: option.splits sum.splits)
  from evaluated_task[OF assms(5), unfolded assms(2) rq, OF this] prints show ?thesis
    by (simp add: snapshot_of_def artifact_hashed_def source_identity_def Let_def)
qed

text \<open>A completion that the worker reports: the repository was given a snapshot of the planned task and of the artifact.\<close>

definition completion ::
    "bench_worker \<Rightarrow> session \<Rightarrow> benchmark_sample \<Rightarrow> generated_artifact \<Rightarrow> bench_db \<Rightarrow> evaluation_snapshot \<Rightarrow> bench_db \<Rightarrow> bool" where
  "completion wk se s a dbc sn db' \<longleftrightarrow> snapshot_of wk s a sn
     \<and> bench_complete False dbc (bs_benchmark_sample_id s) (bw_worker_id wk) sn (se_clock se 5) (max 0 (se_elapsed se)) = (db', Inr True)"

lemma evaluate_completes:
  assumes "session_commits se" "bench_ok db" "evaluate_candidate wk se db claimed entry a = (db', Inr True)"
    and "get_sample db' (bs_benchmark_sample_id claimed) = Some s" "bs_status s = SAMPLE_COMPLETED"
    and "planned_identity wk db0 claimed entry task" "en_registry (es_engine (bw_evaluations wk)) = bw_tasks wk"
    and "normalize_identifier (bs_task_id claimed) = Inr (bs_task_id claimed)"
  obtains dbc sn where "bench_step\<^sup>*\<^sup>* db dbc" "completion wk se claimed a dbc sn db'"
proof -
  let ?db4 = "se_env se 4 db"
  have ok: "bench_ok ?db4" by (rule ok_session[OF assms(1,2)])
  have failed: "fail_sample wk se ?db4 claimed e \<noteq> (db', Inr True)" for e
    using fail_not_completed[OF assms(1) ok _ assms(4)] assms(5) by blast
  have "\<exists>sn. complete_sample wk se ?db4 claimed sn = (db', Inr True) \<and> snapshot_of wk claimed a sn"
    using assms(3) failed fresh_snapshot[OF assms(6-8)]
    by (auto simp: evaluate_candidate_def Let_def snapshot_of_def split: if_splits sum.splits option.splits)
  then obtain sn where sn: "complete_sample wk se ?db4 claimed sn = (db', Inr True)" "snapshot_of wk claimed a sn" by blast
  then have "\<not> se_fault se 5" "completion wk se claimed a (se_env se 5 ?db4) sn db'"
    by (auto simp: complete_sample_def completion_def returned_def bench_complete_def split: if_splits prod.splits sum.splits option.splits)
  moreover have "bench_step\<^sup>*\<^sup>* db (se_env se 5 ?db4)"
    by (intro session_commitsD[OF assms(1)] rtranclp.rtrancl_refl)
  ultimately show ?thesis using that by blast
qed

lemma stored_artifact:
  assumes "store_artifact f db i w a now = (db', Inr True)" "ga_benchmark_sample_id a = i"
  shows "\<exists>stored. get_artifact db' i = Some stored \<and> ga_source_hash stored = ga_source_hash a"
  using assms
  by (auto simp: store_artifact_def table_simps dest!: bench_commit_Inr split: if_splits option.splits)

lemma generate_completes:
  assumes "session_commits se" "bench_ok db" "generate_and_store wk se db claimed config entry spec = (db', Inr True)"
    and "get_sample db' (bs_benchmark_sample_id claimed) = Some s" "bs_status s = SAMPLE_COMPLETED"
    and "planned_identity wk db0 claimed entry task" "en_registry (es_engine (bw_evaluations wk)) = bw_tasks wk"
    and "normalize_identifier (bs_task_id claimed) = Inr (bs_task_id claimed)"
  obtains dbc a sn where "bench_step\<^sup>*\<^sup>* db dbc" "get_artifact dbc (bs_benchmark_sample_id claimed) = Some a"
    "completion wk se claimed a dbc sn db'"
proof -
  have "fail_sample wk se db claimed e \<noteq> (db', Inr True)" for e
    using fail_not_completed[OF assms(1,2) _ assms(4)] assms(5) by blast
  with assms(3) obtain g where g: "generate wk claimed config spec (se_clock se 2) = Inr g"
    by (auto simp: generate_and_store_def split: sum.splits)
  obtain db3 r where store: "store_artifact (se_fault se 3) (se_env se 3 db) (bs_benchmark_sample_id claimed) (bw_worker_id wk) g
      (se_clock se 3) = (db3, r)" by force
  with assms(3) g have r: "r = Inr True" "evaluate_candidate wk se db3 claimed entry g = (db', Inr True)"
    by (auto simp: generate_and_store_def split: if_splits sum.splits bool.splits)
  note own = generate_sample[OF g]
  note step = be_artifact[OF own, of "se_env se 3 db" "se_fault se 3" "bw_worker_id wk" "se_clock se 3"]
  have ok: "bench_ok db3" by (rule ok_step[OF ok_session[OF assms(1,2)] step store])
  have steps: "bench_step\<^sup>*\<^sup>* db db3"
    by (rule then_step[OF session_commitsD[OF assms(1) rtranclp.rtrancl_refl] step store])
  obtain stored where stored: "get_artifact db3 (bs_benchmark_sample_id claimed) = Some stored" "ga_source_hash stored = ga_source_hash g"
    using stored_artifact[OF store[unfolded r(1)] own] by blast
  obtain dbc sn where c: "bench_step\<^sup>*\<^sup>* db3 dbc" "completion wk se claimed g dbc sn db'"
    by (rule evaluate_completes[OF assms(1) ok r(2) assms(4-8)])
  then have "completion wk se claimed stored dbc sn db'"
    using generate_hashed[OF g] stored(2) by (simp add: completion_def snapshot_of_def)
  with that c(1) steps kept_artifact[OF c(1) stored(1)] show ?thesis by (meson rtranclp_trans)
qed

lemma claimed_completes:
  assumes "session_commits se" "bench_ok db" "process_claimed wk se db claimed = (db', Inr True)"
    and "get_sample db' (bs_benchmark_sample_id claimed) = Some s" "bs_status s = SAMPLE_COMPLETED"
    and "en_registry (es_engine (bw_evaluations wk)) = bw_tasks wk"
    and "normalize_identifier (bs_task_id claimed) = Inr (bs_task_id claimed)"
  obtains entry task dbc a sn where "planned_identity wk (se_env se 0 db) claimed entry task" "bench_step\<^sup>*\<^sup>* db dbc"
    "get_artifact dbc (bs_benchmark_sample_id claimed) = Some a" "completion wk se claimed a dbc sn db'"
proof -
  define db1 where "db1 = se_env se 1 (se_env se 0 db)"
  define db2 where "db2 = se_env se 2 db1"
  have ok1: "bench_ok db1" and ok2: "bench_ok db2" unfolding db2_def db1_def by (intro ok_session assms(1,2))+
  have steps: "bench_step\<^sup>*\<^sup>* db db2" unfolding db2_def db1_def by (intro session_commitsD[OF assms(1)] rtranclp.rtrancl_refl)
  have "fail_sample wk se db1 claimed e \<noteq> (db', Inr True)" for e
    using fail_not_completed[OF assms(1) ok1 _ assms(4)] assms(5) by blast
  with assms(3) obtain config entry task where identity: "check_identity wk (get_run (se_env se 0 db) (bs_benchmark_run_id claimed))
      (row_get mc_model_config_id (bd_configs db1) (bs_model_config_id claimed)) claimed = Inr (config, entry, task)"
    and rest: "(case get_artifact db2 (bs_benchmark_sample_id claimed) of
        Some a \<Rightarrow> evaluate_candidate wk se db2 claimed entry a
      | None \<Rightarrow> generate_and_store wk se db2 claimed config entry (rt_specification task)) = (db', Inr True)"
    unfolding db2_def db1_def by (auto simp: process_claimed_def Let_def simp del: One_nat_def split: if_splits sum.splits prod.splits)
  note planned = check_identity_Inr[OF identity]
  show ?thesis
  proof (cases "get_artifact db2 (bs_benchmark_sample_id claimed)")
    case None
    with rest have "generate_and_store wk se db2 claimed config entry (rt_specification task) = (db', Inr True)" by simp
    then obtain dbc a sn where c: "bench_step\<^sup>*\<^sup>* db2 dbc" "get_artifact dbc (bs_benchmark_sample_id claimed) = Some a"
      "completion wk se claimed a dbc sn db'"
      by (rule generate_completes[OF assms(1) ok2 _ assms(4,5) planned assms(6,7)])
    show ?thesis by (rule that[OF planned rtranclp_trans[OF steps c(1)] c(2,3)])
  next
    case (Some a)
    with rest have "evaluate_candidate wk se db2 claimed entry a = (db', Inr True)" by simp
    then obtain dbc sn where c: "bench_step\<^sup>*\<^sup>* db2 dbc" "completion wk se claimed a dbc sn db'"
      by (rule evaluate_completes[OF assms(1) ok2 _ assms(4,5) planned assms(6,7)])
    show ?thesis by (rule that[OF planned rtranclp_trans[OF steps c(1)] kept_artifact[OF c(1) Some] c(2)])
  qed
qed

lemma complete_stores:
  assumes "bench_complete False db i w sn now d = (db', Inr True)" "get_sample db' i = Some s" "bench_ok db"
  shows "sample_status_of db i = Some SAMPLE_COMPLETED
    \<or> (\<exists>e. row_get ev_evaluation_id (bd_evaluations db') (bs_evaluation_id s) = Some e \<and> ev_source_hash e = sn_source_hash sn
        \<and> (row_get ev_evaluation_id (bd_evaluations db) (bs_evaluation_id s) \<in> {Some e, None})
        \<and> (row_get ev_evaluation_id (bd_evaluations db) (bs_evaluation_id s) = None \<longrightarrow> e = evaluation_record_from_snapshot sn))"
proof (cases "sample_status_of db i = Some SAMPLE_COMPLETED")
  case False
  obtain r where r: "get_sample db i = Some r" "sn_evaluation_id sn = bs_evaluation_id r" "bs_status r \<noteq> SAMPLE_COMPLETED"
    using assms(1) False by (auto simp: bench_complete_def sample_status_of_def split: if_splits option.splits)
  have "same_plan s r"
    using bench_step_evolves[OF be_complete assms(3), of False i w sn now d] assms(1,2) r(1)
    by (fastforce simp: evolves_def sample_evolves_def)
  then have id: "bs_evaluation_id s = sn_evaluation_id sn" using r(2) by (simp add: same_plan_def)
  have "sn_source_hash sn = ev_source_hash (evaluation_record_from_snapshot sn)"
    "ev_evaluation_id (evaluation_record_from_snapshot sn) = sn_evaluation_id sn"
    by (simp_all add: evaluation_record_from_snapshot_def Let_def)
  with assms(1) r show ?thesis unfolding id
    by (auto simp: bench_complete_def Let_def table_simps dest!: bench_commit_Inr split: if_splits option.splits)
qed simp

section \<open>Properties\<close>

text \<open>
  Whatever the provider, the evaluation and the other sessions do, and wherever the worker fails or is cancelled, what
  processing a message does to the database is a sequence of steps of the repository, so that all their
  invariants hold during a benchmark.
\<close>
lemma benchmark_worker_steps:
  assumes "commits env" "renewals_commit attempts" "session_commits se"
  shows "bench_step\<^sup>*\<^sup>* db (fst (bench_process_message rd wk f1 f2 env now attempts se db q message))"
proof (cases "f1 \<or> get_sample db (qm_evaluation_id message) = None")
  case False
  then obtain s where s: "\<not> f1" "get_sample db (qm_evaluation_id message) = Some s" by auto
  obtain db1 r where claim: "bench_claim f2 (env db) (bs_benchmark_sample_id s) (bw_worker_id wk) now (bw_lease_seconds wk) = (db1, r)"
    by force
  have claimed: "bench_step\<^sup>*\<^sup>* db db1" by (rule then_step[OF commitsD[OF assms(1)] be_claim claim]) simp
  have "bench_step\<^sup>*\<^sup>* db (fst (run_with_lease wk attempts se db1 c))" for c
    using claimed renew_steps[OF assms(2) claimed] claimed_steps[OF assms(3)]
    by (auto simp: run_with_lease_def split: option.splits prod.splits) (metis fst_conv)+
  with s claimed show ?thesis
    by (auto simp: bench_process_message_def claim split: sum.splits option.splits prod.splits bool.splits) (metis fst_conv)+
qed (auto simp: bench_process_message_def)

text \<open>
  C26: A sample that the worker reports as completed is the one that was planned, whatever the provider, the evaluation and
  the other sessions do. The run it belongs to was planned for the evaluator that the worker has (the fingerprint over
  versions, execution environment, tasks and AI identities agrees), and the task that the dataset names for it has the
  version and the fingerprints that the sample stores. The repository was given a snapshot whose fingerprints are those of
  the sample and whose source hash is the one of the stored artifact, when that is the hash of its source; and the stored
  evaluation is this snapshot, or one that was stored before under its identifier for the same source, unless the sample
  was completed already. Assumed are that the worker and the evaluation service share the task registry, as the worker's
  main program makes them, and that the identifier of the task is in the normal form of requests.
\<close>
theorem completed_sample_identified:
  assumes "bench_step\<^sup>*\<^sup>* empty_bench db" "session_commits se"
    and "get_sample db (bs_benchmark_sample_id claimed) = Some r" "same_plan claimed r"
    and "process_claimed wk se db claimed = (db', Inr True)"
    and "get_sample db' (bs_benchmark_sample_id claimed) = Some s" "bs_status s = SAMPLE_COMPLETED"
    and "en_registry (es_engine (bw_evaluations wk)) = bw_tasks wk"
    and "normalize_identifier (bs_task_id claimed) = Inr (bs_task_id claimed)"
  shows "\<exists>entry task a dbc sn. planned_identity wk (se_env se 0 db) s entry task
    \<and> bench_step\<^sup>*\<^sup>* db dbc \<and> completion wk se s a dbc sn db'
    \<and> get_artifact db' (bs_benchmark_sample_id s) = Some a
    \<and> (sample_status_of dbc (bs_benchmark_sample_id s) = Some SAMPLE_COMPLETED
       \<or> (\<exists>e. row_get ev_evaluation_id (bd_evaluations db') (bs_evaluation_id s) = Some e
            \<and> ev_source_hash e = sn_source_hash sn
            \<and> (row_get ev_evaluation_id (bd_evaluations dbc) (bs_evaluation_id s) = Some e
                \<or> e = evaluation_record_from_snapshot sn)))"
proof -
  let ?i = "bs_benchmark_sample_id claimed"
  have ok: "bench_ok db" using bench_samples.inv_run[OF assms(1) empty_bench_ok] .
  obtain entry task dbc a sn where identity: "planned_identity wk (se_env se 0 db) claimed entry task"
    and steps: "bench_step\<^sup>*\<^sup>* db dbc" and artifact: "get_artifact dbc ?i = Some a"
    and completion: "completion wk se claimed a dbc sn db'"
    by (rule claimed_completes[OF assms(2) ok assms(5-9)])
  have ok': "bench_ok dbc" using bench_samples.inv_run[OF steps ok] .
  have complete: "bench_complete False dbc ?i (bw_worker_id wk) sn (se_clock se 5) (max 0 (se_elapsed se)) = (db', Inr True)"
    using completion by (simp add: completion_def)
  have step: "bench_step\<^sup>*\<^sup>* dbc db'"
    using be_complete[of dbc False ?i "bw_worker_id wk" sn "se_clock se 5" "max 0 (se_elapsed se)"] complete by simp
  have "same_plan s r"
    using bench_run_evolves[OF rtranclp_trans[OF steps step] ok] assms(3,6) by (fastforce simp: evolves_def sample_evolves_def)
  then have plan: "same_plan s claimed" using assms(4) by (simp add: same_plan_def)
  then have id: "bs_benchmark_sample_id s = ?i" by (simp add: same_plan_def)
  have "completion wk se s a dbc sn db'"
    using completion plan by (simp add: completion_def snapshot_of_def same_plan_def)
  with planned_identity_plan[OF identity plan] steps kept_artifact[OF step artifact] complete_stores[OF complete assms(6) ok']
  show ?thesis unfolding id by blast
qed

text \<open>
  C27: A message is acknowledged only when its sample needs no message any more: the sample does not exist, is terminal, is
  being worked on under a lease (so that recovery finds it), or waits and has an unpublished event in the outbox.
\<close>
theorem acknowledged_sample_settled:
  assumes "bench_step\<^sup>*\<^sup>* empty_bench db" "commits env" "renewals_commit attempts" "session_commits se"
    "bench_process_message rd wk f1 f2 env now attempts se db q message = (db', q', MessageAcknowledged)"
    "get_sample db' (qm_evaluation_id message) = Some s"
  shows "terminal_sample s \<or> active_sample s \<and> bs_lease_expires_at s \<noteq> None
    \<or> claimable_sample s \<and> woken db' (qm_evaluation_id message)"
proof -
  let ?i = "qm_evaluation_id message"
  have ok: "bench_ok db" using bench_samples.inv_run[OF assms(1) empty_bench_ok] .
  then have ok_env: "bench_ok (env db)" using bench_samples.inv_run commitsD[OF assms(2) rtranclp.rtrancl_refl] by blast
  obtain s0 where s0: "\<not> f1" "get_sample db ?i = Some s0"
    using assms(5,6) by (auto simp: bench_process_message_def split: if_splits option.splits)
  note id = get_sample_ok(2)[OF ok s0(2)]
  show ?thesis
  proof (cases "terminal_sample s0")
    case True
    with assms(5,6) s0 show ?thesis by (simp add: bench_process_message_def terminal_sample_def)
  next
    case False
    obtain db1 r where claim: "bench_claim f2 (env db) ?i (bw_worker_id wk) now (bw_lease_seconds wk) = (db1, r)" by force
    have ok1: "bench_ok db1" by (rule ok_step[OF ok_env be_claim claim])
    from False assms(5) s0 id claim consider "r = Inr None" "db' = db1"
      | c where "r = Inr (Some c)" "run_with_lease wk attempts se db1 c = (db', Inr True)"
      by (auto simp: bench_process_message_def terminal_sample_def split: sum.splits option.splits prod.splits bool.splits)
    then show ?thesis
    proof cases
      case 1
      with claim have "\<not> claimable_sample s"
        using assms(6) by (auto simp: bench_claim_def claimable_sample_def Let_def bench_commit_def status_defs split: if_splits option.splits)
      with get_sample_ok(1)[OF ok1 assms(6)[unfolded 1]] show ?thesis
        by (cases "bs_status s") (auto simp: sample_ok_def claimable_sample_def status_defs)
    next
      case 2
      have "bs_benchmark_sample_id c = ?i"
        using claim 2(1) ok_env by (auto simp: bench_claim_def claimed_sample_def Let_def bench_commit_def
            dest: row_get_key split: if_splits option.splits)
      moreover obtain t t' db2 where "renew_before_expiry wk c db1 t attempts = (db2, Some t')"
        "process_claimed wk se db2 c = (db', Inr True)"
        using 2(2) by (auto simp: run_with_lease_def split: option.splits prod.splits)
      moreover from this(1) have "bench_ok db2"
        using bench_samples.inv_run[OF renew_steps[OF assms(3) rtranclp.rtrancl_refl] ok1] by (metis fst_conv)
      ultimately have "settled db' ?i" using claimed_settles[OF assms(4)] by metis
      then show ?thesis using assms(6) by (auto simp: settled_def)
    qed
  qed
qed

text \<open>
  C28: A failed generation that is recorded leaves the sample with a failure code of at most 128 characters that reports count
  under a category of their own, never under \<^verbatim>\<open>unknown\<close>, and with the detail of the provider when it is a safe one; the
  sample waits, with an event, exactly when the failure is transient and attempts are left, and else its generation has
  failed.
\<close>
theorem generation_failure_recorded:
  assumes "bench_step\<^sup>*\<^sup>* empty_bench db" "session_commits se"
    "fail_sample wk se db claimed (GenerationError err) = (db', Inr True)"
    "get_sample db' (bs_benchmark_sample_id claimed) = Some s"
  shows "\<exists>stored. bs_failure_code s = Some stored \<and> length stored \<le> MAX_PERSISTED_FAILURE_LENGTH
    \<and> normalize_generation_failure (Some stored) \<noteq> ''unknown''
    \<and> fg_code (decode_failure_diagnostic (Some stored)) = Some (generation_failure_code (pe_code err))
    \<and> fg_detail_code (decode_failure_diagnostic (Some stored))
        = (case pe_detail_code err of None \<Rightarrow> None | Some d \<Rightarrow> if d \<in> set SAFE_PROVIDER_FAILURE_DETAILS then Some d else None)
    \<and> bs_worker_id s = None
    \<and> (if pe_transient err \<and> bs_attempt_count s < bs_max_attempts s
       then claimable_sample s \<and> woken db' (bs_benchmark_sample_id claimed) else bs_status s = GENERATION_FAILED)"
proof -
  have ok: "bench_ok db" using bench_samples.inv_run[OF assms(1) empty_bench_ok] .
  let ?code = "generation_failure_code (pe_code err)"
  let ?stored = "encode_failure_diagnostic ?code (pe_detail_code err)"
  obtain category where plain: "?code \<noteq> []" "CHR '':'' \<notin> set ?code" "length ?code \<le> 102"
    "map_of NORMALIZED_FAILURE_CODES ?code = Some category" "category \<noteq> ''unknown''"
    using generation_failure_code_plain by blast
  note stored = failure_diagnostic_roundtrip[OF plain(1-3), of "pe_detail_code err"]
  have "decode_failure_diagnostic (Some ?code) = \<lparr>fg_code = Some ?code, fg_detail_code = None\<rparr>"
    by (simp add: decode_failure_diagnostic_def rpartition_none[OF plain(2)])
  then have "normalize_generation_failure (Some ?code) = category"
    using plain(4) by (simp add: normalize_generation_failure_def)
  with stored plain(5) have "normalize_generation_failure (Some ?stored) \<noteq> ''unknown''" by simp
  with stored fail_stored[OF assms(2) ok assms(3)] assms(4) show ?thesis
    by (auto simp: failed_with_def)
qed

section \<open>An example\<close>

text \<open>A worker without datasets: the sample of the example plan fails without a retry.\<close>

definition ex_bench_redis :: "nat redis" where
  "ex_bench_redis = \<lparr>xadd = (\<lambda>q _. (q, Some ''1-0'')), xack = (\<lambda>q _. (q + 1, Some ())),
     xreadgroup = (\<lambda>q _. (q, Some [])), xautoclaim = (\<lambda>q _ _. (q, Some []))\<rparr>"

definition ex_bench_worker :: bench_worker where
  "ex_bench_worker = \<lparr>bw_worker_id = ''w'', bw_providers = [], bw_loads = (\<lambda>_. None), bw_other_exception = ''exception'',
     bw_datasets = [], bw_tasks = ex_registry, bw_evaluations = ex_service, bw_max_code_size = 100, bw_lease_seconds = 60,
     bw_retry_base = 1\<rparr>"

definition ex_session :: session where
  "ex_session = \<lparr>se_env = (\<lambda>_ db. db), se_fault = (\<lambda>_. False), se_cancelled = (\<lambda>_. False), se_clock = (\<lambda>_. 12), se_elapsed = 1\<rparr>"

definition ex_attempt :: renewal where
  "ex_attempt = \<lparr>rn_env = id, rn_checked = 10, rn_started = 10, rn_finished = 11, rn_fault = False, rn_timed_out = False\<rparr>"

definition ex_message :: queue_message where
  "ex_message = \<lparr>qm_message_id = ''1-0'', qm_evaluation_id = 3\<rparr>"

definition ex_processed :: "bench_db \<times> nat \<times> message_end" where
  "ex_processed = bench_process_message ex_bench_redis ex_bench_worker False False id 10 [ex_attempt] ex_session ex_planned 0 ex_message"

lemma ex_sessions_commit: "commits id" "renewals_commit [ex_attempt]" "session_commits ex_session"
  by (simp_all add: commits_def renewals_commit_def session_commits_def ex_attempt_def ex_session_def)

lemma ex_claimed_history: "bench_step\<^sup>*\<^sup>* empty_bench ex_claimed"
  using ex_bench_history(1) be_claim[of ex_planned False 3 "''w''" 10 60] by (auto simp: ex_claiming intro: rtranclp.rtrancl_into_rtrancl)

lemma ex_processed_end: "snd ex_processed = (1, MessageAcknowledged)" "sample_status_of (fst ex_processed) 3 = Some EVALUATION_FAILED"
  by code_simp+

definition ex_failed :: "bench_db \<times> (repo_error + bool)" where
  "ex_failed = fail_sample ex_bench_worker ex_session ex_claimed ex_claimed_sample
     (GenerationError ((transient_error ''malformed_provider_response'')\<lparr>pe_detail_code := Some ''empty_choices''\<rparr>))"

lemma ex_failed_end: "snd ex_failed = Inr True" "get_sample (fst ex_failed) 3 \<noteq> None" "bs_benchmark_sample_id ex_claimed_sample = 3"
  by code_simp+

theorem acknowledged_sample_settled_witness:
  "sample_status_of ex_planned 3 = Some SAMPLE_QUEUED \<and> snd ex_processed = (1, MessageAcknowledged)
    \<and> (case get_sample (fst ex_processed) 3 of None \<Rightarrow> False | Some s \<Rightarrow>
         terminal_sample s \<or> active_sample s \<and> bs_lease_expires_at s \<noteq> None \<or> claimable_sample s \<and> woken (fst ex_processed) 3)"
proof -
  obtain s where s: "get_sample (fst ex_processed) 3 = Some s"
    using ex_processed_end(2) by (auto simp: sample_status_of_def)
  have "bench_process_message ex_bench_redis ex_bench_worker False False id 10 [ex_attempt] ex_session ex_planned 0 ex_message
      = (fst ex_processed, 1, MessageAcknowledged)"
    using ex_processed_end(1) by (metis ex_processed_def prod.collapse)
  from acknowledged_sample_settled[OF ex_bench_history(1) ex_sessions_commit this] s ex_processed_end(1) show ?thesis
    by (simp add: ex_message_def sample_status_of_def ex_planned_def ex_sample_def table_simps)
qed

theorem generation_failure_recorded_witness:
  "case get_sample (fst ex_failed) 3 of None \<Rightarrow> False
    | Some s \<Rightarrow> bs_failure_code s \<noteq> None \<and> (claimable_sample s \<and> woken (fst ex_failed) 3 \<or> bs_status s = GENERATION_FAILED)"
proof -
  obtain s where s: "get_sample (fst ex_failed) 3 = Some s" using ex_failed_end(2) by blast
  have "fail_sample ex_bench_worker ex_session ex_claimed ex_claimed_sample
      (GenerationError ((transient_error ''malformed_provider_response'')\<lparr>pe_detail_code := Some ''empty_choices''\<rparr>))
      = (fst ex_failed, Inr True)"
    using ex_failed_end(1) by (metis ex_failed_def prod.collapse)
  from generation_failure_recorded[OF _ ex_sessions_commit(3) this, unfolded ex_failed_end(3), OF _ s] ex_claimed_history s
  show ?thesis by (auto split: if_splits)
qed

text \<open>The sample of the example was evaluated before its worker stopped; the next attempt completes it with the stored evaluation.\<close>

definition ex_bench_read :: "task_file \<Rightarrow> string + (task_spec \<times> string \<times> string option)" where
  "ex_bench_read f = map_sum id (apfst (\<lambda>spec. spec\<lparr>ts_version := ''1''\<rparr>)) (ex_read f)"

definition ex_bench_registry :: task_registry where
  "ex_bench_registry = fst (load ex_int ex_bench_read [[''lru-cache'', ''task.yaml'']] (new_registry []))"

definition ex_bench_service :: evaluation_service where
  "ex_bench_service = ex_service\<lparr>es_sha := \<lambda>_. ex_hash, es_engine := ex_engine\<lparr>en_registry := ex_bench_registry\<rparr>\<rparr>"

definition ex_bench_dataset :: benchmark_dataset where
  "ex_bench_dataset = \<lparr>ds_dataset_id = ''core'', ds_dataset_version = ''1'', ds_title = ''Core'', ds_description = [],
     ds_task_entries = [\<lparr>de_task_id = ''lru-cache'', de_task_revision = None, de_task_version = ''1'',
       de_task_fingerprint = ex_hash, de_tests_fingerprint = ex_hash, de_weight = 1\<rparr>],
     ds_dataset_fingerprint = ex_hash\<rparr>"

definition ex_identity_worker :: bench_worker where
  "ex_identity_worker = ex_bench_worker\<lparr>bw_datasets := [((''core'', ''1''), ex_bench_dataset)], bw_tasks := ex_bench_registry,
     bw_evaluations := ex_bench_service\<rparr>"

definition ex_stored :: bench_db where
  "ex_stored = ex_generated\<lparr>bd_evaluations := [evaluation_record_from_snapshot ex_snapshot]\<rparr>"

definition ex_stored_sample :: benchmark_sample where
  "ex_stored_sample = ex_claimed_sample\<lparr>bs_status := EVALUATING, bs_updated_at := 12\<rparr>"

definition ex_reported :: work where
  "ex_reported = process_claimed ex_identity_worker ex_session ex_stored ex_stored_sample"

lemma ex_stored_history: "bench_step\<^sup>*\<^sup>* empty_bench ex_stored"
proof -
  have "ga_benchmark_sample_id ex_artifact = 3" by (simp add: ex_artifact_def)
  from be_artifact[OF this, of ex_claimed False "''w''" 12] have "bench_step ex_claimed ex_generated"
    by (simp add: ex_generating)
  moreover have "bd_evaluations ex_generated = []" by (simp add: ex_generated_def ex_claimed_def ex_planned_def)
  with be_evaluation[OF ex_rows(5), of ex_generated] have "bench_step ex_generated ex_stored"
    by (simp add: ex_stored_def table_simps)
  ultimately show ?thesis using ex_claimed_history by (meson rtranclp.rtrancl_into_rtrancl)
qed

lemma ex_stored_row: "get_sample ex_stored (bs_benchmark_sample_id ex_stored_sample) = Some ex_stored_sample"
  "bs_benchmark_sample_id ex_stored_sample = 3"
  by (simp_all add: ex_stored_def ex_stored_sample_def ex_generated_def ex_claimed_sample_def ex_sample_def table_simps)

lemma ex_reported_end: "snd ex_reported = Inr True" "sample_status_of (fst ex_reported) 3 = Some SAMPLE_COMPLETED"
  by code_simp+

theorem completed_sample_identified_witness:
  "sample_status_of ex_stored 3 = Some EVALUATING \<and> sample_status_of (fst ex_reported) 3 = Some SAMPLE_COMPLETED
    \<and> (\<exists>entry task s. get_sample (fst ex_reported) 3 = Some s
         \<and> planned_identity ex_identity_worker (se_env ex_session 0 ex_stored) s entry task)"
proof -
  obtain s where s: "get_sample (fst ex_reported) 3 = Some s" "bs_status s = SAMPLE_COMPLETED"
    using ex_reported_end(2) by (auto simp: sample_status_of_def)
  have plan: "same_plan ex_stored_sample ex_stored_sample" by (simp add: same_plan_def)
  have run: "process_claimed ex_identity_worker ex_session ex_stored ex_stored_sample = (fst ex_reported, Inr True)"
    using ex_reported_end(1) by (metis ex_reported_def prod.collapse)
  have registry: "en_registry (es_engine (bw_evaluations ex_identity_worker)) = bw_tasks ex_identity_worker"
    by (simp add: ex_identity_worker_def ex_bench_service_def)
  have name: "normalize_identifier (bs_task_id ex_stored_sample) = Inr (bs_task_id ex_stored_sample)" by code_simp
  have "sample_status_of ex_stored 3 = Some EVALUATING"
    using ex_stored_row by (simp add: sample_status_of_def) (simp add: ex_stored_sample_def)
  with completed_sample_identified[OF ex_stored_history ex_sessions_commit(3) ex_stored_row(1) plan run _ s(2) registry name]
    s(1) ex_reported_end(2) ex_stored_row(2) show ?thesis by metis
qed

end
