(* ===== verification/Leaderboard.thy ===== *)
theory Leaderboard
  imports BenchmarkSafety Statistics FailureDiagnostics OfficialCases
begin

text \<open>
  The results of a benchmark: the joined result rows of \<^verbatim>\<open>src/app/benchmarks/repositories.py\<close>, the aggregation of
  \<^verbatim>\<open>src/app/benchmarks/statistics.py\<close> and the winner policy of \<^verbatim>\<open>src/app/benchmarks/winners.py\<close>. A library record holds
  \<^verbatim>\<open>Decimal(str(x))\<close> for a float and the powers of floats.
\<close>

section \<open>Result rows\<close>

record result_row =
  rw_sample :: benchmark_sample
  rw_config :: benchmark_model_config
  rw_artifact :: "generated_artifact option"
  rw_deterministic_score :: "rat option"
  rw_ai_score :: "rat option"
  rw_judge_score :: "rat option"
  rw_adversarial_robustness :: "rat option"
  rw_ai_status :: "ai_status option"
  rw_tests_passed :: "nat option"
  rw_tests_failed :: "nat option"
  rw_test_execution_seconds :: "rat option"
  rw_evaluation_lifecycle_seconds :: "rat option"

definition rw_status :: "result_row \<Rightarrow> sample_status" where
  "rw_status row = bs_status (rw_sample row)"

definition rw_task_id :: "result_row \<Rightarrow> string" where
  "rw_task_id row = bs_task_id (rw_sample row)"

definition rw_task_weight :: "result_row \<Rightarrow> rat" where
  "rw_task_weight row = bs_task_weight (rw_sample row)"

definition rw_generation_latency_ms :: "result_row \<Rightarrow> nat option" where
  "rw_generation_latency_ms row = map_option ga_generation_latency_ms (rw_artifact row)"

definition rw_generation_cost :: "result_row \<Rightarrow> rat option" where
  "rw_generation_cost row = Option.bind (rw_artifact row) ga_generation_cost"

definition rw_currency :: "result_row \<Rightarrow> string option" where
  "rw_currency row = Option.bind (rw_artifact row) ga_currency"

text \<open>
  \<^verbatim>\<open>result_rows\<close>: an inner join with the configurations, outer joins with the artifacts and the evaluations; texts are ordered
  by code points.
\<close>

definition join_row :: "bench_db \<Rightarrow> benchmark_sample \<Rightarrow> result_row option" where
  "join_row db s =
     map_option (\<lambda>config.
         let e = row_get ev_evaluation_id (bd_evaluations db) (bs_evaluation_id s) in
         \<lparr>rw_sample = s, rw_config = config, rw_artifact = get_artifact db (bs_benchmark_sample_id s),
          rw_deterministic_score = map_option ev_final_score e, rw_ai_score = Option.bind e ev_ai_score,
          rw_judge_score = Option.bind e ev_judge_score,
          rw_adversarial_robustness = Option.bind e ev_adversarial_robustness,
          rw_ai_status = Option.bind e ev_ai_status, rw_tests_passed = map_option ev_tests_passed e,
          rw_tests_failed = map_option ev_tests_failed e,
          rw_test_execution_seconds = map_option ev_test_duration_seconds e,
          rw_evaluation_lifecycle_seconds = map_option ev_duration_seconds e\<rparr>)
       (row_get mc_model_config_id (bd_configs db) (bs_model_config_id s))"

definition result_rows ::
    "bench_db \<Rightarrow> uuid \<Rightarrow> nat option \<Rightarrow> nat \<Rightarrow> string option \<Rightarrow> string option \<Rightarrow> sample_status option \<Rightarrow> result_row list" where
  "result_rows db run_id limit offset model task_id status =
     (let rows = sort_key (\<lambda>row. (mc_ordinal (rw_config row), rw_task_id row, bs_sample_index (rw_sample row)))
            (filter (\<lambda>row. (case model of None \<Rightarrow> True | Some m \<Rightarrow> mc_model (rw_config row) = m)
                \<and> (case task_id of None \<Rightarrow> True | Some t \<Rightarrow> rw_task_id row = t)
                \<and> (case status of None \<Rightarrow> True | Some st \<Rightarrow> rw_status row = st))
              (opt_filter (join_row db) (samples_of db run_id)));
          page = drop offset rows in
      case limit of None \<Rightarrow> page | Some n \<Rightarrow> take n page)"

section \<open>Metrics\<close>

record stats_library =
  sl_decimal :: "rat \<Rightarrow> rat"
  sl_pow :: "rat \<Rightarrow> nat \<Rightarrow> rat"

record metric =
  ms_count :: nat
  ms_mean :: "rat option"
  ms_median :: "rat option"
  ms_standard_deviation :: "rat option"
  ms_minimum :: "rat option"
  ms_maximum :: "rat option"

definition metric_summary :: "rat list \<Rightarrow> metric" where
  "metric_summary values =
     (if values = []
      then \<lparr>ms_count = 0, ms_mean = None, ms_median = None, ms_standard_deviation = None, ms_minimum = None,
            ms_maximum = None\<rparr>
      else \<lparr>ms_count = length values, ms_mean = Some (fmean values), ms_median = Some (median values),
            ms_standard_deviation = (if 1 < length values then Some (stdev values) else None),
            ms_minimum = Some (Min (set values)), ms_maximum = Some (Max (set values))\<rparr>)"

definition critical_values :: "rat list" where
  "critical_values = map (\<lambda>n. fl64 (n / 10 ^ 11))
     [1270620473640, 430265272975, 318244630528, 277644510520, 257058183564, 244691184879, 236462425101,
      230600413520, 226215716285, 222813885196, 220098516008, 217881282966, 216036865646, 214478668792,
      213144954556, 211990529922, 210981557783, 210092204024, 209302405441, 208596344727, 207961384473,
      207387306790, 206865761042, 206389856163, 205953855275, 205552943864, 205183051648, 204840714180,
      204522964213, 204227245630]"

definition student_t_critical_975 :: "stats_library \<Rightarrow> nat \<Rightarrow> rat" where
  "student_t_critical_975 lib degrees_of_freedom =
     (if degrees_of_freedom \<le> length critical_values then critical_values ! (degrees_of_freedom - 1)
      else let z = fl64 (1959963984540054 / 10 ^ 15); df = fl64 (of_nat degrees_of_freedom); p = sl_pow lib z in
        fadd (fadd (fadd z (fdiv (fadd (p 3) z) (fmul 4 df)))
          (fdiv (fadd (fadd (fmul 5 (p 5)) (fmul 16 (p 3))) (fmul 3 z)) (fmul 96 (sl_pow lib df 2))))
          (fdiv (fsub (fadd (fadd (fmul 3 (p 7)) (fmul 19 (p 5))) (fmul 17 (p 3))) (fmul 15 z))
            (fmul 384 (sl_pow lib df 3))))"

record confidence_interval =
  ci_sample_count :: nat
  ci_lower :: rat
  ci_upper :: rat

definition confidence_interval_95 :: "stats_library \<Rightarrow> rat list \<Rightarrow> confidence_interval option" where
  "confidence_interval_95 lib values =
     (let summary = metric_summary values in
      if ms_count summary < 2 then None
      else case (ms_mean summary, ms_standard_deviation summary) of
        (Some mean, Some deviation) \<Rightarrow>
          (let margin = fdiv (fmul (student_t_critical_975 lib (ms_count summary - 1)) deviation)
                 (math_sqrt (of_nat (ms_count summary))) in
           Some \<lparr>ci_sample_count = ms_count summary, ci_lower = fsub mean margin, ci_upper = fadd mean margin\<rparr>)
      | _ \<Rightarrow> None)"

definition percentile_95 :: "rat list \<Rightarrow> rat option" where
  "percentile_95 values =
     (if values = [] then None
      else Some (sort values ! nat (max 0 (\<lceil>fmul (fl64 (95 / 100)) (of_nat (length values))\<rceil> - 1))))"

section \<open>Winners\<close>

definition INCOMPLETE_GENERATION_SUCCESS :: string where
  "INCOMPLETE_GENERATION_SUCCESS = ''incomplete_generation_success''"
definition INCOMPLETE_EVALUATION_COVERAGE :: string where
  "INCOMPLETE_EVALUATION_COVERAGE = ''incomplete_evaluation_coverage''"

text \<open>\<^verbatim>\<open>WinnerEligibility\<close> as the pair of its fields.\<close>

definition evaluate_winner_eligibility :: "nat \<Rightarrow> nat \<Rightarrow> nat \<Rightarrow> bool \<times> string list" where
  "evaluate_winner_eligibility planned_generations successful_generations completed_evaluations =
     (let generation_complete = (0 < planned_generations \<and> successful_generations = planned_generations);
          evaluation_complete = (0 < planned_generations \<and> completed_evaluations = planned_generations);
          reasons = (if generation_complete then [] else [INCOMPLETE_GENERATION_SUCCESS])
            @ (if evaluation_complete then [] else [INCOMPLETE_EVALUATION_COVERAGE]) in
      (reasons = [], reasons))"

section \<open>Tasks\<close>

text \<open>The counts do not depend on the three characters that the official cases take as arguments.\<close>

definition official_count :: "string \<Rightarrow> nat option" where
  "official_count task_id = map_of (OFFICIAL_TEST_CASE_COUNTS (CHR 0x00) (CHR 0x00) (CHR 0x00)) task_id"

definition is_correct_evaluation :: "result_row \<Rightarrow> bool" where
  "is_correct_evaluation row =
     (case (rw_tests_passed row, rw_tests_failed row) of
        (Some passed, Some failed) \<Rightarrow>
          if failed \<noteq> 0 then False
          else (case official_count (rw_task_id row) of
             Some expected \<Rightarrow> passed = expected
           | None \<Rightarrow> 0 < passed)
      | _ \<Rightarrow> False)"

definition count_of :: "('a \<Rightarrow> bool) \<Rightarrow> 'a list \<Rightarrow> nat" where
  "count_of P xs = length (filter P xs)"

definition ratio :: "nat \<Rightarrow> nat \<Rightarrow> rat" where
  "ratio a b = fdiv (of_nat a) (of_nat b)"

definition ratio_or_zero :: "nat \<Rightarrow> nat \<Rightarrow> rat" where
  "ratio_or_zero a b = (if b = 0 then 0 else ratio a b)"

definition ratio_or_none :: "nat \<Rightarrow> nat \<Rightarrow> rat option" where
  "ratio_or_none a b = (if b = 0 then None else Some (ratio a b))"

datatype consistency =
    consistently_correct | sometimes_correct | never_correct | incomplete_coverage | no_completed_evaluations

record task_metrics =
  tm_task_id :: string
  tm_planned_samples :: nat
  tm_completed_samples :: nat
  tm_coverage :: rat
  tm_generation_failures :: nat
  tm_generation_failure_rate :: rat
  tm_evaluation_failures :: nat
  tm_scores :: metric
  tm_best_score :: "rat option"
  tm_worst_score :: "rat option"
  tm_perfect_score_rate :: "rat option"
  tm_correctness_pass_rate :: "rat option"
  tm_end_to_end_success_rate :: rat
  tm_coverage_adjusted_score :: "rat option"
  tm_consistency :: consistency
  tm_coverage_complete :: bool

definition evaluated_rows :: "result_row list \<Rightarrow> result_row list" where
  "evaluated_rows rows = filter (\<lambda>row. rw_deterministic_score row \<noteq> None) rows"

definition scores_of :: "result_row list \<Rightarrow> rat list" where
  "scores_of rows = opt_filter rw_deterministic_score rows"

definition end_to_end_successes :: "result_row list \<Rightarrow> nat" where
  "end_to_end_successes rows =
     count_of (\<lambda>row. rw_artifact row \<noteq> None \<and> is_correct_evaluation row) (evaluated_rows rows)"

text \<open>
  The validated models bound a rate by 0 and 1 and a coverage-adjusted score by 0 and 100; \<open>None\<close> is the \<^verbatim>\<open>ValidationError\<close> of
  such a field.
\<close>

definition unit_rate :: "rat \<Rightarrow> bool" where "unit_rate x \<longleftrightarrow> 0 \<le> x \<and> x \<le> 1"
definition opt_rate :: "rat option \<Rightarrow> bool" where
  "opt_rate x \<longleftrightarrow> (case x of None \<Rightarrow> True | Some y \<Rightarrow> unit_rate y)"
definition opt_percent :: "rat option \<Rightarrow> bool" where
  "opt_percent x \<longleftrightarrow> (case x of None \<Rightarrow> True | Some y \<Rightarrow> 0 \<le> y \<and> y \<le> 100)"

definition task_metrics_valid :: "task_metrics \<Rightarrow> bool" where
  "task_metrics_valid t \<longleftrightarrow> unit_rate (tm_coverage t) \<and> unit_rate (tm_generation_failure_rate t)
     \<and> opt_rate (tm_perfect_score_rate t) \<and> opt_rate (tm_correctness_pass_rate t)
     \<and> unit_rate (tm_end_to_end_success_rate t) \<and> opt_percent (tm_coverage_adjusted_score t)"

definition task_consistency :: "nat \<Rightarrow> nat \<Rightarrow> nat \<Rightarrow> consistency" where
  "task_consistency planned completed passes =
     (if completed = 0 then no_completed_evaluations
      else if passes = 0 then never_correct
      else if passes < completed then sometimes_correct
      else if completed = planned \<and> 0 < planned then consistently_correct
      else incomplete_coverage)"

definition task_coverage_adjusted :: "stats_library \<Rightarrow> result_row list \<Rightarrow> rat option" where
  "task_coverage_adjusted lib rows =
     (let weighted_planned = py_sum (map rw_task_weight rows) in
      if 0 < weighted_planned
      then Some (fl64 (dec_div (dec_sum (opt_filter (\<lambda>row. map_option (\<lambda>score.
             dec_mul (sl_decimal lib score) (sl_decimal lib (rw_task_weight row))) (rw_deterministic_score row)) rows))
           (sl_decimal lib weighted_planned)))
      else None)"

definition build_task_metrics :: "stats_library \<Rightarrow> string \<Rightarrow> result_row list \<Rightarrow> task_metrics" where
  "build_task_metrics lib task_id rows =
     (let scores = scores_of rows; evaluated = evaluated_rows rows;
          passes = count_of is_correct_evaluation evaluated;
          planned = length rows; completed = length evaluated;
          generation_failures = count_of (\<lambda>row. rw_status row = GENERATION_FAILED) rows in
      \<lparr>tm_task_id = task_id, tm_planned_samples = planned, tm_completed_samples = completed,
       tm_coverage = ratio_or_zero completed planned, tm_generation_failures = generation_failures,
       tm_generation_failure_rate = ratio_or_zero generation_failures planned,
       tm_evaluation_failures = count_of (\<lambda>row. rw_status row = EVALUATION_FAILED) rows,
       tm_scores = metric_summary scores,
       tm_best_score = (if scores = [] then None else Some (Max (set scores))),
       tm_worst_score = (if scores = [] then None else Some (Min (set scores))),
       tm_perfect_score_rate = ratio_or_none (count_of (\<lambda>score. score = 100) scores) (length scores),
       tm_correctness_pass_rate = ratio_or_none passes completed,
       tm_end_to_end_success_rate = ratio_or_zero (end_to_end_successes rows) planned,
       tm_coverage_adjusted_score = task_coverage_adjusted lib rows,
       tm_consistency = task_consistency planned completed passes,
       tm_coverage_complete = (completed = planned \<and> 0 < planned)\<rparr>)"

definition task_metrics_of :: "stats_library \<Rightarrow> string \<Rightarrow> result_row list \<Rightarrow> task_metrics option" where
  "task_metrics_of lib task_id rows =
     (let metrics = build_task_metrics lib task_id rows in if task_metrics_valid metrics then Some metrics else None)"

section \<open>Models\<close>

record consistency_summary =
  cc_tasks_consistently_correct :: nat
  cc_tasks_sometimes_correct :: nat
  cc_tasks_never_correct :: nat
  cc_tasks_with_incomplete_coverage :: nat
  cc_tasks_without_completed_evaluations :: nat

record reliability_summary =
  rs_planned_samples :: nat
  rs_successful_generations :: nat
  rs_generation_failures :: nat
  rs_completed_evaluations :: nat
  rs_correct_evaluations :: nat
  rs_end_to_end_successes :: nat
  rs_provider_unavailable :: nat
  rs_provider_timeouts :: nat
  rs_provider_rate_limits :: nat
  rs_provider_refusals :: nat
  rs_malformed_responses :: nat
  rs_generation_success_rate :: rat
  rs_failure_categories :: "(string \<times> nat) list"
  rs_failure_details :: "(string \<times> (string \<times> nat) list) list"

datatype stability = high | moderate | low | not_enough_samples

record leaderboard_entry =
  le_rank :: nat
  le_model_config_id :: uuid
  le_provider_id :: string
  le_model :: string
  le_display_name :: string
  le_model_configuration_fingerprint :: string
  le_weighted_mean_score :: "rat option"
  le_deterministic_scores :: metric
  le_confidence_interval_95 :: "confidence_interval option"
  le_stability_label :: stability
  le_correctness_consistency :: consistency_summary
  le_reliability :: reliability_summary
  le_coverage :: rat
  le_perfect_score_rate :: "rat option"
  le_correctness_pass_rate :: "rat option"
  le_end_to_end_success_rate :: rat
  le_coverage_adjusted_score :: "rat option"
  le_successful_generation_rate :: rat
  le_evaluation_completion_rate :: rat
  le_generation_failure_rate :: rat
  le_mean_ai_score :: "rat option"
  le_ai_coverage :: rat
  le_mean_judge_score :: "rat option"
  le_mean_adversarial_robustness :: "rat option"
  le_disputed_rate :: "rat option"
  le_ai_unavailable_rate :: "rat option"
  le_generation_costs :: "(string \<times> rat) list"
  le_latency :: metric
  le_p95_latency :: "rat option"
  le_test_execution :: metric
  le_p95_test_execution :: "rat option"
  le_lifecycle :: metric
  le_winner_eligible :: bool
  le_winner_ineligibility_reasons :: "string list"
  le_per_task :: "task_metrics list"

definition leaderboard_entry_valid :: "leaderboard_entry \<Rightarrow> bool" where
  "leaderboard_entry_valid e \<longleftrightarrow> 1 \<le> le_rank e \<and> unit_rate (le_coverage e) \<and> opt_rate (le_perfect_score_rate e)
     \<and> opt_rate (le_correctness_pass_rate e) \<and> unit_rate (le_end_to_end_success_rate e)
     \<and> opt_percent (le_coverage_adjusted_score e) \<and> unit_rate (le_successful_generation_rate e)
     \<and> unit_rate (le_evaluation_completion_rate e) \<and> unit_rate (le_generation_failure_rate e)
     \<and> unit_rate (le_ai_coverage e) \<and> unit_rate (rs_generation_success_rate (le_reliability e))"

definition stability_label :: "metric \<Rightarrow> stability" where
  "stability_label summary =
     (case ms_standard_deviation summary of
        None \<Rightarrow> not_enough_samples
      | Some deviation \<Rightarrow> if deviation \<le> 5 then high else if deviation \<le> 15 then moderate else low)"

definition mean_or_none :: "rat list \<Rightarrow> rat option" where
  "mean_or_none xs = (if xs = [] then None else Some (fmean xs))"

text \<open>The groups of a \<^verbatim>\<open>defaultdict(list)\<close>, in the order of their keys.\<close>

definition task_groups :: "result_row list \<Rightarrow> (string \<times> result_row list) list" where
  "task_groups rows =
     map (\<lambda>task_id. (task_id, filter (\<lambda>row. rw_task_id row = task_id) rows)) (sort (remdups (map rw_task_id rows)))"

definition task_weight :: "result_row list \<Rightarrow> rat" where
  "task_weight rows = rw_task_weight (hd rows)"

fun all_some :: "'a option list \<Rightarrow> 'a list option" where
  "all_some [] = Some []"
| "all_some (x # xs) = (case x of None \<Rightarrow> None | Some y \<Rightarrow> map_option ((#) y) (all_some xs))"

definition generation_costs :: "result_row list \<Rightarrow> (string \<times> rat) list" where
  "generation_costs rows =
     sort_key fst (foldl (\<lambda>costs row.
         case (rw_generation_cost row, rw_currency row) of
           (Some cost, Some currency) \<Rightarrow>
             od_set costs currency (dec_add (case map_of costs currency of None \<Rightarrow> 0 | Some c \<Rightarrow> c) cost)
         | _ \<Rightarrow> costs) [] rows)"

definition weighted_mean :: "(task_metrics \<times> rat) list \<Rightarrow> rat option" where
  "weighted_mean tasks =
     (let scored = opt_filter (\<lambda>(t, w). map_option (\<lambda>mean. (mean, w)) (ms_mean (tm_scores t))) tasks;
          denominator = py_sum (map snd scored) in
      if 0 < denominator then Some (fdiv (py_sum (map (\<lambda>(mean, w). fmul mean w) scored)) denominator) else None)"

definition coverage_adjusted :: "stats_library \<Rightarrow> (task_metrics \<times> rat) list \<Rightarrow> rat option" where
  "coverage_adjusted lib tasks =
     (let planned_weight = py_sum (map snd tasks) in
      if 0 < planned_weight
      then Some (fl64 (dec_div (dec_sum (opt_filter (\<lambda>(t, w). map_option (\<lambda>score.
             dec_mul (sl_decimal lib score) (sl_decimal lib w)) (tm_coverage_adjusted_score t)) tasks))
           (sl_decimal lib planned_weight)))
      else None)"

definition failure_code_of :: "result_row \<Rightarrow> string option" where
  "failure_code_of row = fg_code (decode_failure_diagnostic (bs_failure_code (rw_sample row)))"

definition reliability_of :: "result_row list \<Rightarrow> reliability_summary" where
  "reliability_of rows =
     (let planned = length rows; evaluated = evaluated_rows rows;
          generated = count_of (\<lambda>row. rw_artifact row \<noteq> None) rows;
          failed = filter (\<lambda>row. rw_status row = GENERATION_FAILED) rows;
          failure_codes = map failure_code_of rows;
          generation_failure_codes = map (\<lambda>row. bs_failure_code (rw_sample row)) failed in
      \<lparr>rs_planned_samples = planned, rs_successful_generations = generated, rs_generation_failures = length failed,
       rs_completed_evaluations = length evaluated, rs_correct_evaluations = count_of is_correct_evaluation evaluated,
       rs_end_to_end_successes = end_to_end_successes rows,
       rs_provider_unavailable = count_of (\<lambda>c. c = Some ''provider_unavailable'') failure_codes,
       rs_provider_timeouts = count_of (\<lambda>c. c = Some ''provider_timeout'') failure_codes,
       rs_provider_rate_limits = count_of (\<lambda>c. c = Some ''provider_rate_limited'') failure_codes,
       rs_provider_refusals = count_of (\<lambda>c. c = Some ''provider_refusal'') failure_codes,
       rs_malformed_responses =
         count_of (\<lambda>c. c = Some ''malformed_output'' \<or> c = Some ''malformed_provider_response'') failure_codes,
       rs_generation_success_rate = ratio_or_zero generated planned,
       rs_failure_categories = generation_failure_category_counts generation_failure_codes,
       rs_failure_details = generation_failure_detail_counts generation_failure_codes\<rparr>)"

definition consistency_of :: "task_metrics list \<Rightarrow> consistency_summary" where
  "consistency_of tasks =
     \<lparr>cc_tasks_consistently_correct = count_of (\<lambda>t. tm_consistency t = consistently_correct) tasks,
      cc_tasks_sometimes_correct = count_of (\<lambda>t. tm_consistency t = sometimes_correct) tasks,
      cc_tasks_never_correct = count_of (\<lambda>t. tm_consistency t = never_correct) tasks,
      cc_tasks_with_incomplete_coverage = count_of (\<lambda>t. \<not> tm_coverage_complete t) tasks,
      cc_tasks_without_completed_evaluations = count_of (\<lambda>t. tm_completed_samples t = 0) tasks\<rparr>"

text \<open>
  The median and mean of the latencies and durations are those of the distributions that stand beside them, so an entry has
  only the distributions.
\<close>

definition build_entry ::
    "stats_library \<Rightarrow> benchmark_model_config \<Rightarrow> result_row list \<Rightarrow> (task_metrics \<times> rat) list \<Rightarrow> leaderboard_entry" where
  "build_entry lib config rows tasks =
     (let planned = length rows; evaluated = evaluated_rows rows; per_task = map fst tasks;
          generated = count_of (\<lambda>row. rw_artifact row \<noteq> None) rows;
          (eligible, reasons) = evaluate_winner_eligibility planned generated (length evaluated);
          scores = scores_of rows;
          ai_scores = opt_filter rw_ai_score rows;
          latencies = opt_filter (\<lambda>row. map_option of_nat (rw_generation_latency_ms row)) rows;
          repeated_plan = (per_task \<noteq> [] \<and> list_all (\<lambda>t. 2 \<le> tm_planned_samples t) per_task);
          distribution = (if repeated_plan then metric_summary scores
            else (metric_summary scores)\<lparr>ms_standard_deviation := None\<rparr>) in
      \<lparr>le_rank = 1, le_model_config_id = mc_model_config_id config, le_provider_id = mc_provider_id config,
       le_model = mc_model config, le_display_name = mc_display_name config,
       le_model_configuration_fingerprint = mc_model_configuration_fingerprint config,
       le_weighted_mean_score = weighted_mean tasks, le_deterministic_scores = distribution,
       le_confidence_interval_95 = (if repeated_plan then confidence_interval_95 lib scores else None),
       le_stability_label = stability_label distribution,
       le_correctness_consistency = consistency_of per_task, le_reliability = reliability_of rows,
       le_coverage = ratio_or_zero (length evaluated) planned,
       le_perfect_score_rate = ratio_or_none (count_of (\<lambda>score. score = 100) scores) (length scores),
       le_correctness_pass_rate = ratio_or_none (count_of is_correct_evaluation evaluated) (length evaluated),
       le_end_to_end_success_rate = ratio_or_zero (end_to_end_successes rows) planned,
       le_coverage_adjusted_score = coverage_adjusted lib tasks,
       le_successful_generation_rate = ratio_or_zero generated planned,
       le_evaluation_completion_rate = ratio_or_zero (length evaluated) generated,
       le_generation_failure_rate = ratio_or_zero (count_of (\<lambda>row. rw_status row = GENERATION_FAILED) rows) planned,
       le_mean_ai_score = mean_or_none ai_scores, le_ai_coverage = ratio_or_zero (length ai_scores) (length evaluated),
       le_mean_judge_score = mean_or_none (opt_filter rw_judge_score rows),
       le_mean_adversarial_robustness = mean_or_none (opt_filter rw_adversarial_robustness rows),
       le_disputed_rate = ratio_or_none (count_of (\<lambda>row. rw_ai_status row = Some AI_Disputed) evaluated) (length evaluated),
       le_ai_unavailable_rate =
         ratio_or_none (count_of (\<lambda>row. rw_ai_status row = Some AI_Unavailable) evaluated) (length evaluated),
       le_generation_costs = generation_costs rows,
       le_latency = metric_summary latencies, le_p95_latency = percentile_95 latencies,
       le_test_execution = metric_summary (opt_filter rw_test_execution_seconds rows),
       le_p95_test_execution = percentile_95 (opt_filter rw_test_execution_seconds rows),
       le_lifecycle = metric_summary (opt_filter rw_evaluation_lifecycle_seconds rows),
       le_winner_eligible = eligible, le_winner_ineligibility_reasons = reasons, le_per_task = per_task\<rparr>)"

definition leaderboard_entry_of ::
    "stats_library \<Rightarrow> benchmark_model_config \<Rightarrow> result_row list \<Rightarrow> leaderboard_entry option" where
  "leaderboard_entry_of lib config rows =
     (case all_some (map (\<lambda>(task_id, group). map_option (\<lambda>t. (t, task_weight group)) (task_metrics_of lib task_id group))
             (task_groups rows)) of
        None \<Rightarrow> None
      | Some tasks \<Rightarrow>
          (let entry = build_entry lib config rows tasks in if leaderboard_entry_valid entry then Some entry else None))"

definition rank_key :: "leaderboard_entry \<Rightarrow> rat \<times> rat \<times> rat \<times> string" where
  "rank_key e =
     (- (case le_weighted_mean_score e of None \<Rightarrow> - 1 | Some x \<Rightarrow> x), - le_coverage e,
      - (case ms_median (le_deterministic_scores e) of None \<Rightarrow> - 1 | Some x \<Rightarrow> x),
      le_model_configuration_fingerprint e)"

definition build_leaderboard ::
    "stats_library \<Rightarrow> benchmark_model_config list \<Rightarrow> result_row list \<Rightarrow> leaderboard_entry list option" where
  "build_leaderboard lib configs rows =
     map_option (\<lambda>unranked. map (\<lambda>(rank, e). e\<lparr>le_rank := rank\<rparr>) (enumerate 1 (sort_key rank_key unranked)))
       (all_some (map (\<lambda>config. leaderboard_entry_of lib config
           (filter (\<lambda>row. bs_model_config_id (rw_sample row) = mc_model_config_id config) rows)) configs))"

definition select_winners ::
    "leaderboard_entry list \<Rightarrow> bool \<Rightarrow> leaderboard_entry option \<times> leaderboard_entry option \<times> bool" where
  "select_winners ordered_leaderboard final =
     (if \<not> final then (None, None, False)
      else (find (\<lambda>e. le_weighted_mean_score e \<noteq> None) ordered_leaderboard,
            find (\<lambda>e. le_weighted_mean_score e \<noteq> None \<and> le_winner_eligible e) ordered_leaderboard, True))"

end
