(* ===== verification/LeaderboardProperties.thy ===== *)
theory LeaderboardProperties
  imports Leaderboard BenchmarkProperties
begin

text \<open>Properties of the leaderboard and of the winners.\<close>

section \<open>Lemmas\<close>

lemma all_some_Some: "all_some xs = Some ys \<longleftrightarrow> xs = map Some ys"
  by (induction xs arbitrary: ys) (auto split: option.splits simp: map_eq_Cons_conv Cons_eq_map_conv)

definition config_rows :: "result_row list \<Rightarrow> benchmark_model_config \<Rightarrow> result_row list" where
  "config_rows rows config = filter (\<lambda>row. bs_model_config_id (rw_sample row) = mc_model_config_id config) rows"

definition ranked :: "leaderboard_entry list \<Rightarrow> leaderboard_entry list" where
  "ranked es = map (\<lambda>(rank, e). e\<lparr>le_rank := rank\<rparr>) (enumerate 1 (sort_key rank_key es))"

lemma build_leaderboard_Some:
  "build_leaderboard lib configs rows = Some board \<longleftrightarrow>
     (\<exists>es. map (\<lambda>c. leaderboard_entry_of lib c (config_rows rows c)) configs = map Some es \<and> board = ranked es)"
  by (auto simp: build_leaderboard_def config_rows_def ranked_def all_some_Some)

lemma rank_key_rank [simp]: "rank_key (e\<lparr>le_rank := n\<rparr>) = rank_key e"
  by (simp add: rank_key_def)

lemma enumerate_map:
  "(\<And>n x. f (g n x) = f x) \<Longrightarrow> map f (map (\<lambda>(n, x). g n x) (enumerate k xs)) = map f xs"
  by (induction xs arbitrary: k) simp_all

lemma ranked_fields:
  "map rank_key (ranked es) = map rank_key (sort_key rank_key es)"
  "map le_rank (ranked es) = [1..<Suc (length es)]"
  "map (\<lambda>e. e\<lparr>le_rank := 1\<rparr>) (ranked es) = map (\<lambda>e. e\<lparr>le_rank := 1\<rparr>) (sort_key rank_key es)"
  "map le_model_config_id (ranked es) = map le_model_config_id (sort_key rank_key es)"
proof -
  show "map le_rank (ranked es) = [1..<Suc (length es)]"
    by (simp add: ranked_def comp_def case_prod_beta' enumerate_eq_zip del: upt_Suc)
qed (simp_all only: ranked_def, (rule enumerate_map, simp)+)

lemma config_entry:
  "leaderboard_entry_of lib config rows = Some e \<Longrightarrow>
     le_model_config_id e = mc_model_config_id config \<and> le_rank e = 1
     \<and> (le_winner_eligible e, le_winner_ineligibility_reasons e)
        = evaluate_winner_eligibility (length rows) (count_of (\<lambda>row. rw_artifact row \<noteq> None) rows) (length (evaluated_rows rows))"
  by (auto simp: leaderboard_entry_of_def build_entry_def Let_def split: option.splits if_splits prod.splits)

lemma ranked_entry:
  assumes "build_leaderboard lib configs rows = Some board" "e \<in> set board"
  obtains config where "config \<in> set configs" "leaderboard_entry_of lib config (config_rows rows config) = Some (e\<lparr>le_rank := 1\<rparr>)"
proof -
  obtain es where es: "map (\<lambda>c. leaderboard_entry_of lib c (config_rows rows c)) configs = map Some es" "board = ranked es"
    using assms(1) by (auto simp: build_leaderboard_Some)
  have entries: "\<exists>c\<in>set configs. leaderboard_entry_of lib c (config_rows rows c) = Some x" if "x \<in> set es" for x
  proof -
    have "Some x \<in> set (map Some es)" using that by simp
    then show ?thesis unfolding es(1)[symmetric] by auto
  qed
  have "e\<lparr>le_rank := 1\<rparr> \<in> set (map (\<lambda>e. e\<lparr>le_rank := 1\<rparr>) (sort_key rank_key es))"
    unfolding ranked_fields(3)[symmetric] using assms(2) es(2) by simp
  then obtain x where x: "x \<in> set es" "e\<lparr>le_rank := 1\<rparr> = x\<lparr>le_rank := 1\<rparr>" by auto
  with entries[OF x(1)] config_entry have "x\<lparr>le_rank := 1\<rparr> = x" by fastforce
  with x entries[OF x(1)] that show ?thesis by auto
qed

lemma length_filter_all: "length (filter P xs) = length xs \<Longrightarrow> x \<in> set xs \<Longrightarrow> P x"
  using length_filter_less[of x xs P] by fastforce

lemma eligible_complete:
  assumes "fst (evaluate_winner_eligibility (length rows) (count_of (\<lambda>row. rw_artifact row \<noteq> None) rows) (length (evaluated_rows rows)))"
  shows "rows \<noteq> [] \<and> (\<forall>row\<in>set rows. rw_artifact row \<noteq> None \<and> rw_deterministic_score row \<noteq> None)"
proof -
  have "0 < length rows" "length (filter (\<lambda>row. rw_artifact row \<noteq> None) rows) = length rows"
    "length (filter (\<lambda>row. rw_deterministic_score row \<noteq> None) rows) = length rows"
    using assms by (auto simp: evaluate_winner_eligibility_def Let_def count_of_def evaluated_rows_def split: if_splits)
  then show ?thesis using length_filter_all by fastforce
qed

text \<open>The first scored entry of a ranked board has the best mean.\<close>

lemma first_is_best:
  assumes "build_leaderboard lib configs rows = Some board"
    "find P board = Some w" "\<And>e. P e \<Longrightarrow> le_weighted_mean_score e \<noteq> None"
    "e \<in> set board" "P e"
  shows "the (le_weighted_mean_score e) \<le> the (le_weighted_mean_score w) \<and> le_rank w \<le> le_rank e"
proof -
  obtain es where es: "board = ranked es" using assms(1) by (auto simp: build_leaderboard_Some)
  obtain i where i: "i < length board" "P (board ! i)" "w = board ! i" "\<And>j. j < i \<Longrightarrow> \<not> P (board ! j)"
    using assms(2) by (auto simp: find_Some_iff)
  obtain j where j: "j < length board" "e = board ! j" using assms(4) by (auto simp: in_set_conv_nth)
  with i(4) assms(5) have le: "i \<le> j" by (meson not_le)
  have "sorted (map rank_key board)" by (simp add: es ranked_fields)
  with le j i have "rank_key w \<le> rank_key e" by (metis (no_types) length_map nth_map sorted_nth_mono)
  moreover have "le_weighted_mean_score e \<noteq> None" "le_weighted_mean_score w \<noteq> None" using assms(3,5) i(2,3) by auto
  ultimately have "the (le_weighted_mean_score e) \<le> the (le_weighted_mean_score w)"
    by (auto simp: rank_key_def less_eq_prod_def)
  moreover have rank: "le_rank (board ! k) = Suc k" if "k < length board" for k
  proof -
    have "map le_rank board ! k = [1..<Suc (length es)] ! k" by (simp only: es ranked_fields)
    moreover have "length board = length es" by (simp add: es ranked_def)
    ultimately show ?thesis using that by (simp del: upt_Suc)
  qed
  ultimately show ?thesis using le i j by simp
qed

section \<open>Validity\<close>

text \<open>\<open>Decimal(str(x))\<close> keeps a whole number and a percentage.\<close>

definition decimal_text_ok :: "stats_library \<Rightarrow> bool" where
  "decimal_text_ok lib \<longleftrightarrow> (\<forall>n. n \<le> 2 ^ 53 \<longrightarrow> sl_decimal lib (of_nat n) = of_nat n)
     \<and> (\<forall>x. 0 \<le> x \<and> x \<le> 100 \<longrightarrow> 0 \<le> sl_decimal lib x \<and> sl_decimal lib x \<le> 100)"

text \<open>A row of a task of weight 1: only a generated sample is evaluated, and only an evaluated one has an AI score.\<close>

definition row_ok :: "result_row \<Rightarrow> bool" where
  "row_ok row \<longleftrightarrow> rw_task_weight row = 1
     \<and> (case rw_deterministic_score row of
          None \<Rightarrow> rw_ai_score row = None
        | Some score \<Rightarrow> 0 \<le> score \<and> score \<le> 100 \<and> rw_artifact row \<noteq> None)"

lemma row_okD:
  assumes "row_ok row"
  shows "rw_task_weight row = 1" "rw_deterministic_score row = None \<Longrightarrow> rw_ai_score row = None"
    "rw_deterministic_score row = Some score \<Longrightarrow> 0 \<le> score \<and> score \<le> 100 \<and> rw_artifact row \<noteq> None"
  using assms by (simp_all add: row_ok_def)

lemma unit_ratio: "a \<le> b \<Longrightarrow> unit_rate (ratio_or_zero a b) \<and> opt_rate (ratio_or_none a b)"
proof -
  assume "a \<le> b"
  then have "0 \<le> (of_nat a :: rat) / of_nat b" "(of_nat a :: rat) / of_nat b \<le> 1" by (simp_all add: divide_le_eq)
  then have "0 \<le> ratio a b \<and> ratio a b \<le> 1" unfolding ratio_def fdiv_def by (rule fl64.rnd_unit)
  then show ?thesis by (simp add: ratio_or_zero_def ratio_or_none_def unit_rate_def opt_rate_def)
qed

lemma count_of_le: "count_of P xs \<le> length xs"
  by (simp add: count_of_def)

lemma evaluated_le: "length (evaluated_rows rows) \<le> length rows"
  by (simp add: evaluated_rows_def)

lemma scores_length: "length (scores_of rows) = length (evaluated_rows rows)"
  by (induction rows) (auto simp: scores_of_def evaluated_rows_def split: option.splits)

lemma end_to_end_le: "end_to_end_successes rows \<le> length rows"
  using count_of_le evaluated_le le_trans unfolding end_to_end_successes_def by blast

lemma length_filter_mono: "(\<And>x. x \<in> set xs \<Longrightarrow> P x \<Longrightarrow> Q x) \<Longrightarrow> length (filter P xs) \<le> length (filter Q xs)"
  by (induction xs) (simp_all add: le_SucI)

lemma evaluated_generated:
  assumes "\<And>row. row \<in> set rows \<Longrightarrow> row_ok row"
  shows "length (evaluated_rows rows) \<le> count_of (\<lambda>row. rw_artifact row \<noteq> None) rows"
  unfolding evaluated_rows_def count_of_def
  by (rule length_filter_mono) (use row_okD(3)[OF assms] in blast)

lemma ai_scores_le:
  assumes "\<And>row. row \<in> set rows \<Longrightarrow> row_ok row"
  shows "length (opt_filter rw_ai_score rows) \<le> length (evaluated_rows rows)"
  using row_okD(2)[OF assms] by (induction rows) (auto simp: evaluated_rows_def split: option.splits)

text \<open>The compensated sum of ones is exact.\<close>

lemma fl64_nat: "n \<le> 2 ^ 53 \<Longrightarrow> fl64 (of_nat n) = of_nat n"
  using fl64_of_int[of "int n"] by simp

lemma neumaier_ones:
  "1 \<le> k \<Longrightarrow> k + n \<le> 2 ^ 53 \<Longrightarrow> neumaier (of_nat k) 0 (replicate n 1) = of_nat (k + n)"
proof (induction n arbitrary: k)
  case (Suc n)
  have t: "fadd (of_nat k) 1 = of_nat (Suc k)" using fl64_nat[of "Suc k"] Suc.prems by (simp add: fadd_def add.commute)
  have "fsub (of_nat k) (of_nat (Suc k)) = - 1" "fadd (- 1) 1 = 0" "fadd 0 0 = 0"
    using fl64_of_int[of "- 1"] by (simp_all add: fsub_def fadd_def)
  then show ?case using Suc.prems Suc.IH[of "Suc k"] by (simp add: t Let_def del: of_nat_Suc)
qed simp

lemma py_sum_ones: "n \<le> 2 ^ 53 \<Longrightarrow> py_sum (replicate n 1) = of_nat n"
  using neumaier_ones[of 1 "n - 1"] by (cases n) simp_all

lemma dec_sum_bounds:
  assumes "\<And>x. x \<in> set xs \<Longrightarrow> 0 \<le> x \<and> x \<le> 100" "0 \<le> a" "a \<le> of_nat (100 * k)" "100 * (k + length xs) \<le> 2 ^ 53"
  shows "0 \<le> foldl dec_add a xs \<and> foldl dec_add a xs \<le> of_nat (100 * (k + length xs))"
  using assms
proof (induction xs arbitrary: a k)
  case (Cons x xs)
  have x: "0 \<le> x" "x \<le> 100" using Cons.prems(1)[of x] by simp_all
  have exact: "dec28 (of_nat (100 * Suc k)) = of_nat (100 * Suc k)"
    using dec28_int[of "int (100 * Suc k)"] Cons.prems(4) by simp
  have "0 \<le> dec_add a x \<and> dec_add a x \<le> of_nat (100 * Suc k)"
    unfolding dec_add_def
    by (rule dec28.rnd_between) (use x Cons.prems(2,3) exact in \<open>simp_all add: algebra_simps\<close>)
  with Cons.IH[of "dec_add a x" "Suc k"] Cons.prems show ?case by simp
qed simp

lemma dec_mean_percent:
  assumes "\<And>x. x \<in> set xs \<Longrightarrow> 0 \<le> x \<and> x \<le> 100" "length xs \<le> n" "0 < n" "n \<le> 2 ^ 46"
  shows "0 \<le> fl64 (dec_div (dec_sum xs) (of_nat n)) \<and> fl64 (dec_div (dec_sum xs) (of_nat n)) \<le> 100"
proof -
  have "0 \<le> dec_sum xs" "dec_sum xs \<le> of_nat (100 * length xs)"
    using dec_sum_bounds[of xs 0 0] assms by (simp_all add: dec_sum_def)
  moreover have "(of_nat (100 * length xs) :: rat) \<le> of_nat (100 * n)" using assms(2) by (simp only: of_nat_le_iff)
  ultimately have "0 \<le> dec_sum xs / of_nat n" "dec_sum xs / of_nat n \<le> 100"
    using assms(3) by (simp_all add: divide_le_eq mult.commute)
  then have "0 \<le> dec_div (dec_sum xs) (of_nat n) \<and> dec_div (dec_sum xs) (of_nat n) \<le> 100"
    unfolding dec_div_def by (rule dec28.rnd_percent)
  then show ?thesis by (intro fl64.rnd_percent) simp_all
qed

lemma weights_one: "(\<And>x. x \<in> set xs \<Longrightarrow> f x = (1 :: rat)) \<Longrightarrow> map f xs = replicate (length xs) 1"
  by (induction xs) simp_all

lemma length_opt_filter_le: "length (opt_filter f xs) \<le> length xs"
  by (induction xs) (auto split: option.splits)

lemma dec_mul_percent: "0 \<le> x \<Longrightarrow> x \<le> 100 \<Longrightarrow> 0 \<le> dec_mul x 1 \<and> dec_mul x 1 \<le> 100"
  using dec28.rnd_percent[of x] by (simp add: dec_mul_def)

lemma weighted_percent:
  assumes "decimal_text_ok lib" "\<And>x. x \<in> set xs \<Longrightarrow> w x = 1"
    "\<And>x y. x \<in> set xs \<Longrightarrow> f x = Some y \<Longrightarrow> 0 \<le> y \<and> y \<le> 100" "length xs \<le> 2 ^ 46" "xs \<noteq> []"
  shows "0 < py_sum (map w xs)
    \<and> (let v = fl64 (dec_div (dec_sum (opt_filter (\<lambda>x. map_option (\<lambda>y. dec_mul (sl_decimal lib y) (sl_decimal lib (w x))) (f x)) xs))
           (sl_decimal lib (py_sum (map w xs)))) in 0 \<le> v \<and> v \<le> 100)"
proof -
  let ?ys = "opt_filter (\<lambda>x. map_option (\<lambda>y. dec_mul (sl_decimal lib y) (sl_decimal lib (w x))) (f x)) xs"
  have sum: "py_sum (map w xs) = of_nat (length xs)" "sl_decimal lib (of_nat (length xs)) = of_nat (length xs)"
    using assms(1,4) py_sum_ones[of "length xs"] weights_one[of xs w] assms(2) by (simp_all add: decimal_text_ok_def)
  have one: "sl_decimal lib 1 = 1" using assms(1)[unfolded decimal_text_ok_def, THEN conjunct1, rule_format, of 1] by simp
  have "0 \<le> z \<and> z \<le> 100" if z: "z \<in> set ?ys" for z
  proof -
    obtain x y where xy: "x \<in> set xs" "f x = Some y" "z = dec_mul (sl_decimal lib y) (sl_decimal lib (w x))"
      using z by (auto simp: set_opt_filter)
    then have "z = dec_mul (sl_decimal lib y) 1" using assms(2) one by simp
    with assms(3)[OF xy(1,2)] assms(1) show ?thesis using dec_mul_percent[of "sl_decimal lib y"] by (simp add: decimal_text_ok_def)
  qed
  moreover have "0 < length xs" using assms(5) by simp
  ultimately have "0 \<le> fl64 (dec_div (dec_sum ?ys) (of_nat (length xs))) \<and> fl64 (dec_div (dec_sum ?ys) (of_nat (length xs))) \<le> 100"
    using length_opt_filter_le assms(4) by (rule_tac dec_mean_percent)
  then show ?thesis using assms(5) by (simp add: sum Let_def)
qed

lemma task_metrics_ok:
  assumes "decimal_text_ok lib" "\<And>row. row \<in> set rows \<Longrightarrow> row_ok row" "length rows \<le> 2 ^ 46"
  shows "task_metrics_valid (build_task_metrics lib task_id rows)"
proof -
  have "opt_percent (task_coverage_adjusted lib rows)"
  proof (cases "rows = []")
    case False
    with weighted_percent[of lib rows rw_task_weight rw_deterministic_score] assms row_okD[OF assms(2)]
    show ?thesis by (simp add: opt_percent_def task_coverage_adjusted_def Let_def)
  qed (simp add: opt_percent_def task_coverage_adjusted_def)
  then show ?thesis
    by (simp add: task_metrics_valid_def build_task_metrics_def Let_def unit_ratio evaluated_le end_to_end_le count_of_le)
qed

lemma task_groupsD:
  assumes "(task_id, grp) \<in> set (task_groups rows)"
  shows "grp \<noteq> []" "set grp \<subseteq> set rows" "length grp \<le> length rows"
  using assms by (auto simp: task_groups_def filter_empty_conv)

lemma length_task_groups: "length (task_groups rows) \<le> length rows"
  using length_remdups_leq[of "map rw_task_id rows"] by (simp add: task_groups_def)

lemma leaderboard_entry_ok:
  assumes "decimal_text_ok lib" "\<And>row. row \<in> set rows \<Longrightarrow> row_ok row" "length rows \<le> 2 ^ 46"
  obtains e where "leaderboard_entry_of lib config rows = Some e" "leaderboard_entry_valid e" "list_all task_metrics_valid (le_per_task e)"
proof -
  define tasks where "tasks = map (\<lambda>(task_id, grp). (build_task_metrics lib task_id grp, task_weight grp)) (task_groups rows)"
  have grp_ok: "task_metrics_valid (build_task_metrics lib task_id grp) \<and> task_weight grp = 1"
    if "(task_id, grp) \<in> set (task_groups rows)" for task_id grp
  proof -
    note g = task_groupsD[OF that]
    have "hd grp \<in> set rows" using g(1,2) by auto
    with task_metrics_ok[OF assms(1), of grp task_id] row_okD(1)[OF assms(2)] g(2,3) assms(2,3)
    show ?thesis by (auto simp: task_weight_def)
  qed
  have all: "all_some (map (\<lambda>(task_id, grp). map_option (\<lambda>t. (t, task_weight grp)) (task_metrics_of lib task_id grp))
      (task_groups rows)) = Some tasks"
    unfolding all_some_Some tasks_def map_map by (rule map_cong) (use grp_ok in \<open>auto simp: task_metrics_of_def Let_def\<close>)
  have task: "task_metrics_valid t \<and> w = 1" if "(t, w) \<in> set tasks" for t w
    using that grp_ok by (auto simp: tasks_def)
  have "length tasks \<le> 2 ^ 46" using length_task_groups[of rows] assms(3) by (simp add: tasks_def)
  moreover have "0 \<le> y \<and> y \<le> 100" if "x \<in> set tasks" "tm_coverage_adjusted_score (fst x) = Some y" for x y
    using task[of "fst x" "snd x"] that by (simp add: task_metrics_valid_def opt_percent_def)
  moreover have "snd x = 1" if "x \<in> set tasks" for x using task[of "fst x" "snd x"] that by simp
  ultimately have "opt_percent (coverage_adjusted lib tasks)"
    using weighted_percent[of lib tasks snd "\<lambda>x. tm_coverage_adjusted_score (fst x)"] assms(1)
    by (cases "tasks = []") (simp_all add: opt_percent_def coverage_adjusted_def Let_def case_prod_beta')
  then have "leaderboard_entry_valid (build_entry lib config rows tasks)"
    using evaluated_generated[OF assms(2)] ai_scores_le[OF assms(2)]
    by (simp add: leaderboard_entry_valid_def build_entry_def Let_def reliability_of_def case_prod_beta'
      unit_ratio evaluated_le end_to_end_le count_of_le)
  moreover have "list_all task_metrics_valid (le_per_task (build_entry lib config rows tasks))"
    using task by (auto simp: build_entry_def Let_def list_all_iff case_prod_beta')
  ultimately show ?thesis using that all by (simp add: leaderboard_entry_of_def Let_def)
qed

lemma leaderboard_made:
  assumes "decimal_text_ok lib" "list_all row_ok rows" "length rows \<le> 2 ^ 46"
  shows "\<exists>board. build_leaderboard lib configs rows = Some board \<and> length board = length configs
    \<and> list_all leaderboard_entry_valid board \<and> list_all (list_all task_metrics_valid) (map le_per_task board)"
proof -
  have ok: "\<exists>e. leaderboard_entry_of lib config (config_rows rows config) = Some e \<and> leaderboard_entry_valid e
      \<and> list_all task_metrics_valid (le_per_task e)" for config
  proof -
    have "length (config_rows rows config) \<le> 2 ^ 46" using assms(3) unfolding config_rows_def by (rule order_trans[OF length_filter_le])
    moreover have "row \<in> set (config_rows rows config) \<Longrightarrow> row_ok row" for row
      using assms(2) by (auto simp: config_rows_def list_all_iff)
    ultimately show ?thesis by (metis leaderboard_entry_ok[OF assms(1)])
  qed
  define es where "es = map (\<lambda>c. the (leaderboard_entry_of lib c (config_rows rows c))) configs"
  have "map (\<lambda>c. leaderboard_entry_of lib c (config_rows rows c)) configs = map Some es"
    unfolding es_def map_map by (rule map_cong) (use ok in \<open>metis comp_apply option.sel\<close>)+
  then have board: "build_leaderboard lib configs rows = Some (ranked es)" by (auto simp: build_leaderboard_Some)
  moreover have "leaderboard_entry_valid e \<and> list_all task_metrics_valid (le_per_task e)" if e: "e \<in> set (ranked es)" for e
  proof -
    obtain config where "leaderboard_entry_of lib config (config_rows rows config) = Some (e\<lparr>le_rank := 1\<rparr>)"
      using ranked_entry[OF board e] by blast
    with ok[of config] have "leaderboard_entry_valid (e\<lparr>le_rank := 1\<rparr>)" "list_all task_metrics_valid (le_per_task e)" by auto
    moreover have "1 \<le> le_rank e"
    proof -
      have "le_rank e \<in> set (map le_rank (ranked es))" using e by simp
      then show ?thesis unfolding ranked_fields by auto
    qed
    ultimately show ?thesis by (simp add: leaderboard_entry_valid_def)
  qed
  ultimately show ?thesis by (auto simp: list_all_iff ranked_def es_def)
qed

text \<open>
  The rows of a stored run: the checks of the stored evaluations bound their scores, and a row has an AI score only when it
  has a score, because both are columns of one joined evaluation.
\<close>

lemma result_rows_join:
  assumes "row \<in> set (result_rows db k None 0 None None None)"
  obtains s where "s \<in> set (samples_of db k)" "join_row db s = Some row"
  using assms by (auto simp: result_rows_def Let_def set_opt_filter)

lemma length_result_rows: "length (result_rows db k None 0 None None None) \<le> length (samples_of db k)"
  by (simp add: result_rows_def Let_def length_opt_filter_le)

lemma evaluation_score:
  assumes "bench_ok db" "row_get ev_evaluation_id (bd_evaluations db) i = Some e"
  shows "0 \<le> ev_final_score e \<and> ev_final_score e \<le> 100"
  using row_get_in[OF assms(2)] assms(1)
  by (auto simp: bench_ok_def bench_constraints_def bench_checks_def evaluation_checks_def score_column_def)

lemma stored_row_ok:
  assumes "bench_ok db" "join_row db s = Some row" "bs_task_weight s = 1"
    and "row_get ev_evaluation_id (bd_evaluations db) (bs_evaluation_id s) = None \<or> get_artifact db (bs_benchmark_sample_id s) \<noteq> None"
  shows "row_ok row"
proof (cases "row_get ev_evaluation_id (bd_evaluations db) (bs_evaluation_id s)")
  case None
  with assms(2,3) show ?thesis by (auto simp: join_row_def row_ok_def rw_task_weight_def Let_def)
next
  case (Some e)
  with evaluation_score[OF assms(1) Some] assms(2-4) show ?thesis
    by (auto simp: join_row_def row_ok_def rw_task_weight_def Let_def)
qed

section \<open>Examples\<close>

text \<open>Two configurations over one task with two samples each; the second one lost a sample.\<close>

definition ex_lib :: stats_library where
  "ex_lib = \<lparr>sl_decimal = (\<lambda>x. x), sl_pow = (\<lambda>x n. x ^ n)\<rparr>"

definition ex_config :: "uuid \<Rightarrow> benchmark_model_config" where
  "ex_config i = \<lparr>mc_model_config_id = i, mc_benchmark_run_id = 0, mc_ordinal = 0, mc_provider_id = ''p'', mc_model = ''m'',
     mc_display_name = ''M'', mc_temperature = 0, mc_top_p = 1, mc_max_output_tokens = 1000, mc_seed = None,
     mc_output_mode = RAW_SOURCE, mc_request_timeout_seconds = 60, mc_max_concurrent_requests = None,
     mc_coding_prompt_hash = ''h'', mc_model_configuration_fingerprint = ''f'', mc_pricing = None\<rparr>"

definition ex_artifact :: "uuid \<Rightarrow> generated_artifact" where
  "ex_artifact i = \<lparr>ga_benchmark_sample_id = i, ga_source = ''x'', ga_source_hash = ''s'', ga_source_size = 1,
     ga_generation_attempts = 1, ga_provider_response_id = None, ga_input_tokens = None, ga_output_tokens = None,
     ga_generation_latency_ms = 20, ga_pricing_version = None, ga_generation_cost = None, ga_currency = None,
     ga_created_at = 0\<rparr>"

definition ex_row :: "uuid \<Rightarrow> nat \<Rightarrow> string \<Rightarrow> rat \<Rightarrow> rat option \<Rightarrow> result_row" where
  "ex_row config index task_id weight score =
     \<lparr>rw_sample = \<lparr>bs_benchmark_sample_id = 10 * config + index, bs_benchmark_run_id = 0, bs_model_config_id = config,
        bs_evaluation_id = 0, bs_task_id = task_id, bs_task_version = ''v'', bs_task_fingerprint = ''f'',
        bs_tests_fingerprint = ''t'', bs_task_weight = weight, bs_sample_index = index,
        bs_status = (if score = None then GENERATION_FAILED else SAMPLE_COMPLETED), bs_attempt_count = 1,
        bs_max_attempts = 3, bs_worker_id = None, bs_lease_expires_at = None,
        bs_failure_code = (if score = None then Some ''provider_timeout'' else None),
        bs_evaluation_duration_seconds = None, bs_total_duration_seconds = None, bs_created_at = 0, bs_updated_at = 0,
        bs_completed_at = Some 5\<rparr>,
      rw_config = ex_config config, rw_artifact = (if score = None then None else Some (ex_artifact (10 * config + index))),
      rw_deterministic_score = score, rw_ai_score = None, rw_judge_score = None, rw_adversarial_robustness = None,
      rw_ai_status = None, rw_tests_passed = map_option (\<lambda>_. 3) score, rw_tests_failed = map_option (\<lambda>_. 0) score,
      rw_test_execution_seconds = map_option (\<lambda>_. 1) score, rw_evaluation_lifecycle_seconds = map_option (\<lambda>_. 2) score\<rparr>"

definition ex_rows :: "result_row list" where
  "ex_rows = [ex_row 1 1 ''old'' 1 (Some 80), ex_row 1 2 ''old'' 1 None, ex_row 2 1 ''old'' 1 (Some 70), ex_row 2 2 ''old'' 1 (Some 60)]"

lemma config_in_board:
  assumes "build_leaderboard lib configs rows = Some board" "config \<in> set configs"
  obtains e where "e \<in> set board" "leaderboard_entry_of lib config (config_rows rows config) = Some (e\<lparr>le_rank := 1\<rparr>)"
proof -
  obtain es where es: "map (\<lambda>c. leaderboard_entry_of lib c (config_rows rows c)) configs = map Some es" "board = ranked es"
    using assms(1) by (auto simp: build_leaderboard_Some)
  have "leaderboard_entry_of lib config (config_rows rows config) \<in> set (map Some es)"
    unfolding es(1)[symmetric] using assms(2) by simp
  then obtain x where x: "x \<in> set es" "leaderboard_entry_of lib config (config_rows rows config) = Some x" by auto
  have "x\<lparr>le_rank := 1\<rparr> \<in> set (map (\<lambda>e. e\<lparr>le_rank := 1\<rparr>) board)" unfolding es(2) ranked_fields using x(1) by simp
  then obtain e where "e \<in> set board" "x\<lparr>le_rank := 1\<rparr> = e\<lparr>le_rank := 1\<rparr>" by auto
  moreover have "x\<lparr>le_rank := 1\<rparr> = x" using config_entry[OF x(2)] by simp
  ultimately show ?thesis using that x(2) by simp
qed

lemma entry_tasks:
  assumes "leaderboard_entry_of lib config rows = Some e"
  shows "e = build_entry lib config rows
     (map (\<lambda>(task_id, grp). (build_task_metrics lib task_id grp, task_weight grp)) (task_groups rows))"
    "leaderboard_entry_valid e"
proof -
  obtain tasks where tasks: "map (\<lambda>(task_id, grp). map_option (\<lambda>t. (t, task_weight grp)) (task_metrics_of lib task_id grp)) (task_groups rows)
      = map Some tasks" "e = build_entry lib config rows tasks" "leaderboard_entry_valid e"
    using assms by (auto simp: leaderboard_entry_of_def all_some_Some Let_def split: option.splits if_splits)
  have "map Some (map (\<lambda>(task_id, grp). (build_task_metrics lib task_id grp, task_weight grp)) (task_groups rows)) = map Some tasks"
    unfolding tasks(1)[symmetric] map_map
  proof (rule map_cong[OF refl])
    fix x
    assume "x \<in> set (task_groups rows)"
    then have "(\<lambda>(task_id, grp). map_option (\<lambda>t. (t, task_weight grp)) (task_metrics_of lib task_id grp)) x \<in> set (map Some tasks)"
      unfolding tasks(1)[symmetric] by simp
    then show "(Some \<circ> (\<lambda>(task_id, grp). (build_task_metrics lib task_id grp, task_weight grp))) x
        = (\<lambda>(task_id, grp). map_option (\<lambda>t. (t, task_weight grp)) (task_metrics_of lib task_id grp)) x"
      by (auto simp: task_metrics_of_def Let_def split: if_splits prod.splits)
  qed
  then show "e = build_entry lib config rows
     (map (\<lambda>(task_id, grp). (build_task_metrics lib task_id grp, task_weight grp)) (task_groups rows))"
    unfolding inj_map_eq_map[OF inj_Some] using tasks(2) by simp
  show "leaderboard_entry_valid e" by (rule tasks(3))
qed

lemma entry_weighted_mean:
  "leaderboard_entry_of lib config rows = Some e \<Longrightarrow> le_weighted_mean_score e = weighted_mean
     (map (\<lambda>(task_id, grp). (build_task_metrics lib task_id grp, task_weight grp)) (task_groups rows))"
  by (subst entry_tasks(1), assumption) (simp add: build_entry_def Let_def case_prod_beta')

lemma entry_coverage_adjusted:
  assumes "leaderboard_entry_of lib config rows = Some e"
  shows "le_coverage_adjusted_score e = coverage_adjusted lib
     (map (\<lambda>(task_id, grp). (build_task_metrics lib task_id grp, task_weight grp)) (task_groups rows))"
    "leaderboard_entry_valid e"
   apply (subst entry_tasks(1)[OF assms])
   apply (simp add: build_entry_def Let_def case_prod_beta')
  apply (rule entry_tasks(2)[OF assms])
  done

lemma ex_lib_ok: "decimal_text_ok ex_lib"
  by (simp add: decimal_text_ok_def ex_lib_def)

lemma ex_rows_ok: "list_all row_ok ex_rows" "length ex_rows \<le> 2 ^ 46"
  by (simp_all add: ex_rows_def ex_row_def row_ok_def rw_task_weight_def)

lemma ex_board:
  obtains board observed winner where "build_leaderboard ex_lib [ex_config 2, ex_config 1] ex_rows = Some board"
    "select_winners board True = (observed, Some winner, True)"
proof -
  obtain board where board: "build_leaderboard ex_lib [ex_config 2, ex_config 1] ex_rows = Some board"
    using leaderboard_made[OF ex_lib_ok ex_rows_ok] by blast
  obtain e where e: "e \<in> set board"
    "leaderboard_entry_of ex_lib (ex_config 2) (config_rows ex_rows (ex_config 2)) = Some (e\<lparr>le_rank := 1\<rparr>)"
    by (rule config_in_board[OF board, of "ex_config 2"]) simp
  have rows: "config_rows ex_rows (ex_config 2) = [ex_row 2 1 ''old'' 1 (Some 70), ex_row 2 2 ''old'' 1 (Some 60)]"
    by (simp add: config_rows_def ex_rows_def ex_row_def ex_config_def)
  have "le_winner_eligible e"
    using config_entry[OF e(2)] unfolding rows
    by (simp add: evaluate_winner_eligibility_def count_of_def evaluated_rows_def ex_row_def Let_def)
  moreover have "le_weighted_mean_score e \<noteq> None"
    using entry_weighted_mean[OF e(2)] unfolding rows
    by (simp add: task_groups_def ex_row_def rw_task_id_def weighted_mean_def build_task_metrics_def Let_def scores_of_def
        metric_summary_def task_weight_def rw_task_weight_def)
  ultimately have "find (\<lambda>e. le_weighted_mean_score e \<noteq> None \<and> le_winner_eligible e) board \<noteq> None"
    using e(1) by (auto simp: find_None_iff)
  with that board show ?thesis by (auto simp: select_winners_def)
qed

section \<open>Uneven weights\<close>

lemma uneven_decimals:
  "dec_mul 100 (1 / 10) = 10" "dec_mul 100 (7 / 10) = 70" "dec_add 0 10 = 10" "dec_add 0 70 = 70" "dec_add 10 70 = 80"
  "fl64 (dec_div 10 (1 / 10)) = 100" "fl64 (dec_div 70 (7 / 10)) = 100"
  by code_simp+

lemma uneven_weights:
  "0 < fl64 (1 / 10)" "0 < fl64 (7 / 10)"
  "neumaier (fl64 (1 / 10)) 0 [fl64 (7 / 10)] = fadd (fl64 (1 / 10)) (fl64 (7 / 10))"
  "0 < fadd (fl64 (1 / 10)) (fl64 (7 / 10))"
  by code_simp+

lemma uneven_score: "100 < fl64 (dec_div 80 (7999999999999999 / 10000000000000000))"
  by code_simp

section \<open>The properties\<close>

text \<open>
  A leaderboard has one entry per model configuration, computed from the rows of that configuration. The ranks are
  1, 2, ... in order, and the order is the rank key's.
\<close>
theorem leaderboard_ranked:
  assumes "build_leaderboard lib configs rows = Some board"
  shows "map le_rank board = [1..<Suc (length configs)]
    \<and> mset (map le_model_config_id board) = mset (map mc_model_config_id configs)
    \<and> sorted (map rank_key board)
    \<and> (\<forall>e\<in>set board. \<exists>config\<in>set configs. leaderboard_entry_of lib config (config_rows rows config) = Some (e\<lparr>le_rank := 1\<rparr>))"
proof -
  obtain es where es: "map (\<lambda>c. leaderboard_entry_of lib c (config_rows rows c)) configs = map Some es" "board = ranked es"
    using assms by (auto simp: build_leaderboard_Some)
  have "map (\<lambda>x. map_option le_model_config_id x) (map (\<lambda>c. leaderboard_entry_of lib c (config_rows rows c)) configs)
      = map (Some \<circ> mc_model_config_id) configs"
  proof (simp, rule ballI)
    fix c
    assume "c \<in> set configs"
    then have "leaderboard_entry_of lib c (config_rows rows c) \<in> set (map Some es)" unfolding es(1)[symmetric] by simp
    then obtain e where "leaderboard_entry_of lib c (config_rows rows c) = Some e" by auto
    with config_entry[OF this] show "\<exists>z. leaderboard_entry_of lib c (config_rows rows c) = Some z \<and> le_model_config_id z = mc_model_config_id c"
      by simp
  qed
  then have "map Some (map le_model_config_id es) = map Some (map mc_model_config_id configs)" unfolding es(1) by (simp add: comp_def)
  then have ids: "map le_model_config_id es = map mc_model_config_id configs"
    by (simp only: inj_map_eq_map[OF inj_Some])
  then have "length configs = length es" by (metis length_map)
  moreover have "mset (map le_model_config_id board) = mset (map le_model_config_id es)"
    unfolding es(2) ranked_fields(4) by (simp add: mset_map)
  moreover have "\<exists>config\<in>set configs. leaderboard_entry_of lib config (config_rows rows config) = Some (e\<lparr>le_rank := 1\<rparr>)"
    if e: "e \<in> set board" for e
    by (rule ranked_entry[OF assms e]) blast
  moreover have "sorted (map rank_key board)" "map le_rank board = [1..<Suc (length es)]"
    unfolding es(2) ranked_fields by (rule sorted_sort_key, rule refl)
  ultimately show ?thesis using ids by metis
qed

text \<open>
  C29: the eligible winner of a final board is complete (every planned sample of its configuration was generated and
  evaluated), and no eligible entry has a better weighted mean or rank. When there is one, the observed winner exists too,
  and no entry at all has a better mean.
\<close>
theorem winner_is_best:
  assumes "build_leaderboard lib configs rows = Some board" "select_winners board True = (observed, Some winner, final)"
  shows "winner \<in> set board \<and> le_winner_eligible winner
    \<and> (\<exists>config\<in>set configs. mc_model_config_id config = le_model_config_id winner \<and> config_rows rows config \<noteq> []
          \<and> (\<forall>row\<in>set (config_rows rows config). rw_artifact row \<noteq> None \<and> rw_deterministic_score row \<noteq> None))
    \<and> (\<forall>e\<in>set board. le_winner_eligible e \<and> le_weighted_mean_score e \<noteq> None \<longrightarrow>
          the (le_weighted_mean_score e) \<le> the (le_weighted_mean_score winner) \<and> le_rank winner \<le> le_rank e)
    \<and> (\<exists>best. observed = Some best \<and> (\<forall>e\<in>set board. le_weighted_mean_score e \<noteq> None \<longrightarrow>
          the (le_weighted_mean_score e) \<le> the (le_weighted_mean_score best)))"
proof -
  let ?P = "\<lambda>e. le_weighted_mean_score e \<noteq> None \<and> le_winner_eligible e"
  have found: "find ?P board = Some winner" "observed = find (\<lambda>e. le_weighted_mean_score e \<noteq> None) board"
    using assms(2) by (auto simp: select_winners_def)
  then have winner: "winner \<in> set board" "?P winner" by (auto simp: find_Some_iff)
  from winner(1) obtain config where config: "config \<in> set configs"
    "leaderboard_entry_of lib config (config_rows rows config) = Some (winner\<lparr>le_rank := 1\<rparr>)"
    by (rule ranked_entry[OF assms(1)])
  have entry: "le_model_config_id winner = mc_model_config_id config" using config_entry[OF config(2)] by simp
  have "fst (evaluate_winner_eligibility (length (config_rows rows config))
      (count_of (\<lambda>row. rw_artifact row \<noteq> None) (config_rows rows config)) (length (evaluated_rows (config_rows rows config))))"
    using config_entry[OF config(2), THEN conjunct2, THEN conjunct2, THEN arg_cong[of _ _ fst]] winner(2) by simp
  note complete = eligible_complete[OF this]
  have "observed \<noteq> None" using winner unfolding found(2) find_None_iff by blast
  then obtain best where best: "observed = Some best" by blast
  have "\<forall>e\<in>set board. ?P e \<longrightarrow>
      the (le_weighted_mean_score e) \<le> the (le_weighted_mean_score winner) \<and> le_rank winner \<le> le_rank e"
    using first_is_best[OF assms(1) found(1)] by simp
  moreover have "\<forall>e\<in>set board. le_weighted_mean_score e \<noteq> None \<longrightarrow>
      the (le_weighted_mean_score e) \<le> the (le_weighted_mean_score best)"
    using first_is_best[OF assms(1) found(2)[unfolded best, symmetric]] by simp
  ultimately show ?thesis using winner config(1) entry complete best by auto
qed

text \<open>
  C30: For a stored run whose tasks all have weight 1, as those of the shipped datasets do, and whose evaluated samples all
  have an artifact, as those that the benchmark worker completes do, the leaderboard over the rows that the repository
  returns is always produced: no field of any entry, or of any of its tasks, violates the bounds of its model. The run may be
  at any point of its progress. Assumed are moreover at most 2^46 samples, and that the decimal text of a float keeps whole
  numbers and stays between 0 and 100 for a percentage.
\<close>
theorem leaderboard_total:
  assumes "decimal_text_ok lib" "bench_step\<^sup>*\<^sup>* empty_bench db" "length (samples_of db k) \<le> 2 ^ 46"
    "list_all (\<lambda>s. bs_task_weight s = 1) (samples_of db k)"
    "list_all (\<lambda>s. row_get ev_evaluation_id (bd_evaluations db) (bs_evaluation_id s) = None
       \<or> get_artifact db (bs_benchmark_sample_id s) \<noteq> None) (samples_of db k)"
  shows "\<exists>board. build_leaderboard lib configs (result_rows db k None 0 None None None) = Some board
    \<and> length board = length configs
    \<and> list_all leaderboard_entry_valid board \<and> list_all (list_all task_metrics_valid) (map le_per_task board)"
proof (rule leaderboard_made[OF assms(1)])
  have ok: "bench_ok db" using bench_samples.inv_run[OF assms(2) empty_bench_ok] .
  have "row_ok row" if row: "row \<in> set (result_rows db k None 0 None None None)" for row
  proof -
    obtain s where "s \<in> set (samples_of db k)" "join_row db s = Some row" by (rule result_rows_join[OF row])
    with assms(4,5) stored_row_ok[OF ok] show ?thesis by (auto simp: list_all_iff)
  qed
  then show "list_all row_ok (result_rows db k None 0 None None None)" by (simp add: list_all_iff)
  show "length (result_rows db k None 0 None None None) \<le> 2 ^ 46"
    using length_result_rows assms(3) by (rule order_trans)
qed

theorem leaderboard_total_witness:
  "\<exists>board. build_leaderboard ex_lib [BenchmarkProperties.ex_config] (result_rows ex_evaluated 1 None 0 None None None) = Some board
     \<and> length board = 1 \<and> list_all leaderboard_entry_valid board"
proof -
  have "length (samples_of ex_evaluated 1) \<le> 2 ^ 46" "list_all (\<lambda>s. bs_task_weight s = 1) (samples_of ex_evaluated 1)"
    "list_all (\<lambda>s. row_get ev_evaluation_id (bd_evaluations ex_evaluated) (bs_evaluation_id s) = None
       \<or> get_artifact ex_evaluated (bs_benchmark_sample_id s) \<noteq> None) (samples_of ex_evaluated 1)"
    by (simp_all add: samples_of_def ex_evaluated_def ex_generated_def ex_claimed_def ex_planned_def completed_sample_def
        ex_claimed_sample_def ex_sample_def BenchmarkProperties.ex_artifact_def table_simps)
  from leaderboard_total[OF ex_lib_ok ex_bench_history(2) this] show ?thesis by fastforce
qed

theorem leaderboard_ranked_witness:
  "\<exists>board. build_leaderboard ex_lib [ex_config 2, ex_config 1] ex_rows = Some board \<and> map le_rank board = [1, 2]
     \<and> mset (map le_model_config_id board) = {#1, 2#}"
proof -
  obtain board where board: "build_leaderboard ex_lib [ex_config 2, ex_config 1] ex_rows = Some board" by (rule ex_board)
  from leaderboard_ranked[OF board] board show ?thesis by (auto simp: upt_rec ex_config_def)
qed

theorem winner_is_best_witness:
  "\<exists>board observed winner. build_leaderboard ex_lib [ex_config 2, ex_config 1] ex_rows = Some board
     \<and> select_winners board True = (observed, Some winner, True) \<and> le_model_config_id winner = 2"
proof -
  obtain board observed winner where board: "build_leaderboard ex_lib [ex_config 2, ex_config 1] ex_rows = Some board"
    "select_winners board True = (observed, Some winner, True)" by (rule ex_board)
  have "\<not> (\<forall>row\<in>set (config_rows ex_rows (ex_config 1)). rw_artifact row \<noteq> None)"
    by (simp add: config_rows_def ex_rows_def ex_row_def ex_config_def)
  with winner_is_best[OF board] have "le_model_config_id winner = 2" by (auto simp: ex_config_def)
  with board show ?thesis by blast
qed

text \<open>
  C31: two tasks of the weights 0.1 and 0.7, both solved perfectly: the coverage-adjusted score is computed over the text of the
  sum of the weights, 0.7999999999999999, and exceeds 100, so the model of an entry rejects it and no leaderboard is produced.
\<close>
theorem leaderboard_rejects_weights:
  assumes "sl_decimal lib 100 = 100" "sl_decimal lib (fl64 (1 / 10)) = 1 / 10" "sl_decimal lib (fl64 (7 / 10)) = 7 / 10"
    "sl_decimal lib (fadd (fl64 (1 / 10)) (fl64 (7 / 10))) = 7999999999999999 / 10000000000000000"
    "config \<in> set configs" "config_rows rows config = [r1, r2]" "rw_task_id r1 < rw_task_id r2"
    "rw_task_weight r1 = fl64 (1 / 10)" "rw_task_weight r2 = fl64 (7 / 10)"
    "rw_deterministic_score r1 = Some 100" "rw_deterministic_score r2 = Some 100"
  shows "build_leaderboard lib configs rows = None"
proof (rule ccontr)
  assume "build_leaderboard lib configs rows \<noteq> None"
  then obtain board where board: "build_leaderboard lib configs rows = Some board" by blast
  obtain e where "leaderboard_entry_of lib config [r1, r2] = Some (e\<lparr>le_rank := 1\<rparr>)"
    using config_in_board[OF board assms(5)] unfolding assms(6) by blast
  note e = entry_coverage_adjusted[OF this]
  have groups: "task_groups [r1, r2] = [(rw_task_id r1, [r1]), (rw_task_id r2, [r2])]"
    using assms(7) by (auto simp: task_groups_def)
  have task: "tm_coverage_adjusted_score (build_task_metrics lib t [r]) = Some 100" if "r \<in> {r1, r2}" for t r
    using that by (auto simp: assms(1-3,8-11) build_task_metrics_def Let_def task_coverage_adjusted_def dec_sum_def
        uneven_decimals uneven_weights)
  have "le_coverage_adjusted_score (e\<lparr>le_rank := 1\<rparr>) = Some (fl64 (dec_div 80 (7999999999999999 / 10000000000000000)))"
    unfolding e(1) groups
    by (simp add: assms(1-4,8,9) task coverage_adjusted_def task_weight_def Let_def dec_sum_def uneven_decimals uneven_weights
        del: neumaier.simps)
  with e(2) uneven_score show False by (simp add: leaderboard_entry_valid_def opt_percent_def)
qed

definition ex_text_lib :: stats_library where
  "ex_text_lib = \<lparr>sl_decimal = (\<lambda>x. if x = fl64 (1 / 10) then 1 / 10 else if x = fl64 (7 / 10) then 7 / 10
       else if x = fadd (fl64 (1 / 10)) (fl64 (7 / 10)) then 7999999999999999 / 10000000000000000 else x),
     sl_pow = (\<lambda>x n. x ^ n)\<rparr>"

theorem leaderboard_rejects_weights_witness:
  "build_leaderboard ex_text_lib [ex_config 1]
     [ex_row 1 1 ''a'' (fl64 (1 / 10)) (Some 100), ex_row 1 1 ''b'' (fl64 (7 / 10)) (Some 100)] = None"
proof (rule leaderboard_rejects_weights)
  show "sl_decimal ex_text_lib 100 = 100" "sl_decimal ex_text_lib (fl64 (1 / 10)) = 1 / 10"
    "sl_decimal ex_text_lib (fl64 (7 / 10)) = 7 / 10"
    "sl_decimal ex_text_lib (fadd (fl64 (1 / 10)) (fl64 (7 / 10))) = 7999999999999999 / 10000000000000000"
    by code_simp+
  show "config_rows [ex_row 1 1 ''a'' (fl64 (1 / 10)) (Some 100), ex_row 1 1 ''b'' (fl64 (7 / 10)) (Some 100)] (ex_config 1)
      = [ex_row 1 1 ''a'' (fl64 (1 / 10)) (Some 100), ex_row 1 1 ''b'' (fl64 (7 / 10)) (Some 100)]"
    by (simp add: config_rows_def ex_row_def ex_config_def)
qed (simp_all add: ex_row_def rw_task_id_def rw_task_weight_def)

end
