(* ===== verification/Spec2Isabelle.thy ===== *)
theory Spec2Isabelle
  imports EndToEnd Analyzers History Caches RateLimiter CircuitBreaker RetryBackoff DependencyResolver FrameDecoder
    ReservationBook LogicalPath ConfigMerge EventParser BatchProcessor PythonRunner SandboxRun References Provider Settings
    BenchmarkProperties BenchmarkWorker LeaderboardProperties
begin

text \<open>
  A verification development for CodeJudge AI, a service that evaluates candidate Python solutions of
  registered coding tasks. A client submits source code; the API stores a durable \<^emph>\<open>job\<close> and an \<^emph>\<open>outbox
  event\<close> in one PostgreSQL transaction; a publisher moves ready events to a Redis stream; a worker claims
  the job under a lease, runs the \<^emph>\<open>evaluation\<close> (hidden tests in a sandbox, static analyzers, scoring,
  optionally AI judges and adversarial tests), and stores one immutable \<^emph>\<open>snapshot\<close>. Failures of the
  infrastructure are retried with backoff and stale leases are recovered. The tasks come with reference
  solutions, which are programs of the repository as well and are verified here too.

  \<^bold>\<open>Shared layers\<close>

  \<^item> Prelude: Python exceptions as values, keyed row tables (a PostgreSQL table), insertion-ordered
    dictionaries. PyValues: dynamically typed Python values for the code that checks types at run time.
  \<^item> PyFloat: \<^verbatim>\<open>float\<close> arithmetic. A float is the rational it denotes; every operation of the source is the
    exact one followed by the rounding \<open>fl64\<close> to binary64 (ties to even, gradual underflow). The locale
    \<open>rounding\<close> states what the clients use (monotone, idempotent, exact on small integers) and is
    interpreted on \<open>fl64\<close>. DecimalText: decimal forms of numbers and their round trip. NumberText: \<^verbatim>\<open>int(s)\<close> and
    \<^verbatim>\<open>float(s)\<close> on arbitrary strings, with infinities and NaN.
  \<^item> Settings: \<^verbatim>\<open>core/config.py\<close>. Settings that \<open>from_env\<close> returns have positive limits and complete modes.

  \<^bold>\<open>Evaluation\<close> (\<^verbatim>\<open>src/app/evaluator\<close>, \<^verbatim>\<open>src/app/analysis/engine.py\<close>, \<^verbatim>\<open>src/app/snapshots\<close>, \<^verbatim>\<open>src/app/tasks\<close>)

  \<^item> Scoring: \<^verbatim>\<open>evaluator/models.py\<close>, \<^verbatim>\<open>scoring.py\<close>, \<^verbatim>\<open>findings.py\<close>. Every dimension and the final score are
    percentages, the final score is monotone in each dimension, more findings never raise a score.
  \<^item> Registry: \<^verbatim>\<open>tasks/registry.py\<close>. A loaded registry resolves every default; a failed load changes nothing.
  \<^item> Engine: \<^verbatim>\<open>evaluator/engine.py\<close> and \<^verbatim>\<open>analysis/engine.py\<close>. The outcome of an evaluation on every branch;
    a runner gives a result or raises, and then the exception leaves the evaluation.
  \<^item> Analyzers: \<^verbatim>\<open>analysis/analyzers.py\<close>, \<^verbatim>\<open>analysis/factory.py\<close> and the output capture of
    \<^verbatim>\<open>analysis/command.py\<close>. An analysis is only returned when every tool ended and its whole output was
    understood; no entry of it is lost; the complexity metrics cover nested blocks.
  \<^item> Fingerprints, CanonicalJson: \<^verbatim>\<open>snapshots/fingerprints.py\<close>, \<^verbatim>\<open>jobs/integrity.py\<close>. The hashed byte strings
    are injective in the components, so that equal fingerprints of different data are hash collisions.
  \<^item> Snapshots: \<^verbatim>\<open>snapshots/models.py\<close> and the row mapping and constraints of \<^verbatim>\<open>db/repositories.py\<close> and
    \<^verbatim>\<open>db/models.py\<close>. Storing and reading is a round trip.
  \<^item> EvaluationService: \<^verbatim>\<open>evaluator/service.py\<close>, \<^verbatim>\<open>snapshots/builder.py\<close>, \<^verbatim>\<open>snapshots/metadata.py\<close>. Snapshots of
    consistent runs satisfy the table's constraints; the AI assessment changes no deterministic evidence.

  \<^bold>\<open>AI assessment\<close> (\<^verbatim>\<open>src/app/ai\<close>)

  \<^item> AIModels: the data of \<^verbatim>\<open>ai/models.py\<close> that snapshots carry.
  \<^item> AIReview: \<^verbatim>\<open>ai/scoring.py\<close>, \<^verbatim>\<open>judge.py\<close>, \<^verbatim>\<open>validation.py\<close>, \<^verbatim>\<open>adversarial.py\<close>. Only tests that the
    validation accepts and the reference solution passes count against a candidate.
  \<^item> AIService: \<^verbatim>\<open>ai/service.py\<close>, \<^verbatim>\<open>ai/prompts.py\<close>. An assessment is always produced, its fields agree with
    its status and lie in the ranges that the table of evaluations accepts.
  \<^item> Provider: \<^verbatim>\<open>ai/providers/openai_compatible.py\<close>, one HTTP attempt as a function of what the client delivers, and the
    loop of attempts with its trace of slots, requests and pauses. Only transient errors are retried, at most
    the configured number of times; an accepted response fits the limit, and its text is the content of the message in the answer.

  \<^bold>\<open>Running candidates\<close> (\<^verbatim>\<open>src/app/runners\<close>, \<^verbatim>\<open>src/sandbox\<close>)

  The trusted harness sends the commands of a task's official cases, one line per case, to a supervisor in a
  container; the supervisor starts a fresh worker per case; the worker imports the candidate and answers every
  command; the harness compares the answers with what it expects.

  \<^item> Harness: the commands, the matching and the loop of \<^verbatim>\<open>trusted_harness.py\<close>. OfficialCases: the tables of cases of all
    tasks and revisions, entry by entry.
  \<^item> CandidateWorker: \<^verbatim>\<open>candidate_worker.py\<close> and \<^verbatim>\<open>entrypoint.py\<close>, on a candidate given as a record of its
    functions and classes; callbacks re-enter the worker.
  \<^item> DockerRunner: \<^verbatim>\<open>docker_runner.py\<close> and \<^verbatim>\<open>docker_cli.py\<close> in a state and exception monad over the history of the calls
    to Docker; every answer is a function of that history, so that failures, timeouts and cancellation
    can happen at every call. The logic \<open>behaves\<close> shows for both evaluations that counts add up and come with at most one
    verdict, and that the container that a command created under the evaluation's name is removed however the evaluation
    ends.
  \<^item> PythonRunner: \<^verbatim>\<open>python_runner.py\<close> and its pytest plugin. All runners satisfy what the evaluation engine
    requires of them (\<open>backed_counts\<close>).
  \<^item> SandboxRun: the composition. The result of the Docker runner counts exactly the cases that the candidate passes.
  \<^item> References: the reference solutions below as candidates; each (but the asynchronous one) passes all of its official
    cases, by evaluation.

  \<^bold>\<open>Jobs and delivery\<close> (\<^verbatim>\<open>src/app/jobs\<close>, \<^verbatim>\<open>src/app/queue\<close>, \<^verbatim>\<open>src/app/worker\<close>)

  \<^item> JobModels: \<^verbatim>\<open>jobs/models.py\<close>, \<^verbatim>\<open>state.py\<close>, \<^verbatim>\<open>retry.py\<close>. Lifecycle: the contract (a locale) of a store
    of entities with a status.
  \<^item> JobRepository: every transaction of \<^verbatim>\<open>jobs/repositories.py\<close> as one atomic function on the record
    \<open>job_db\<close> of tables, with the constraints of \<^verbatim>\<open>db/models.py\<close> enforced by \<open>commit\<close>. JobSafety: the step
    relation \<open>job_step\<close> of these transactions, its invariant \<open>db_ok\<close>, and the interpretation of the locale
    \<open>lifecycle\<close>. JobProperties: legal histories, absorbing terminal statuses, exclusive ownership,
    exactly one stored evaluation for a completed job, idempotent submission, the scope of recovery.
  \<^item> History: the two paginated queries; the job history is the page of the fully merged history.
  \<^item> UuidText: \<^verbatim>\<open>str(UUID)\<close> and \<^verbatim>\<open>UUID(str)\<close>. Delivery: \<^verbatim>\<open>queue/redis_streams.py\<close>, \<^verbatim>\<open>queue/outbox.py\<close>,
    \<^verbatim>\<open>worker/service.py\<close>, \<^verbatim>\<open>jobs/service.py\<close>. DeliverySafety: the combined step relation \<open>sys_step\<close> of
    database, stream, publisher and workers. A waiting job always keeps an unpublished event or an
    unacknowledged message, and when Redis delivers what it holds (\<open>redis_delivers\<close>), publishing and reading lead
    to a message with which a worker claims it. Without a shared clock this fails, which \<open>clock_skew_strands_retry\<close> shows on the definitions.

  \<^item> EndToEnd: the composition of worker, evaluation service, AI service and repository. A worker that still
    owns its job settles it, unless the driver refuses the row, which leaves the job to recovery; a successful evaluation
    is stored and read back unchanged.

  \<^bold>\<open>Benchmarks\<close> (\<^verbatim>\<open>src/app/benchmarks\<close>)

  A benchmark lets several models solve the tasks of a dataset, evaluates every generated solution with the engine above, and
  ranks the models.

  \<^item> BenchmarkModels, BenchmarkRepository: the rows and every transaction of \<^verbatim>\<open>repositories.py\<close>, in the style of the job
    repository, with the step relation \<open>bench_step\<close>. BenchmarkSafety: its invariant \<open>bench_ok\<close>, the evolution of samples and
    runs, and the interpretations of \<open>lifecycle\<close> for both.
  \<^item> BenchmarkPlan: \<^verbatim>\<open>datasets.py\<close>, \<^verbatim>\<open>identity.py\<close>, \<^verbatim>\<open>prompts.py\<close> and the planning of \<^verbatim>\<open>service.py\<close>. BenchmarkProperties: a
    plan holds every combination exactly once, a run is finished exactly when all its samples are, plans, artifacts and
    terminal rows never change, loaded datasets name current revisions.
  \<^item> FailureDiagnostics: \<^verbatim>\<open>reliability.py\<close>. Statistics: the parts of Python's \<^verbatim>\<open>statistics\<close>, \<^verbatim>\<open>math\<close> and \<^verbatim>\<open>decimal\<close> that are used,
    with a second interpretation of \<open>rounding\<close> on decimals of 28 digits. Leaderboard: \<^verbatim>\<open>statistics.py\<close>, \<^verbatim>\<open>winners.py\<close>
    and the result rows. LeaderboardProperties: the winner is complete and unbeaten, and a leaderboard over the stored rows
    of a run with tasks of weight 1 is always produced; with other weights it may be rejected.
  \<^item> BenchmarkWorker: \<^verbatim>\<open>worker.py\<close>, \<^verbatim>\<open>queue.py\<close> and \<^verbatim>\<open>pricing.py\<close>. A worker generates, stores, evaluates and completes a claimed sample
    while others act on the database, its transactions fail or its lease is lost; it takes only steps of \<open>bench_step\<close>,
    completes a sample only with a snapshot of the planned task and of the stored artifact, under the planned evaluator, and
    acknowledges only messages whose sample is settled.

  \<^bold>\<open>Reference solutions\<close> (\<^verbatim>\<open>src/app/tasks/definitions/*/reference/solution.py\<close>)

  \<^item> Caches: LRU and TTL cache, with the locale \<open>bounded_cache\<close> interpreted on both; the LRU cache refines
    the recency list of its history. RateLimiter: equal to a limiter that keeps the whole log.
    CircuitBreaker: the state machine and its protection. RetryBackoff: equal to the plain iteration.
    DependencyResolver: a topological order exactly if there is one, each node the least of those ready.
    FrameDecoder: independent of chunking, inverse to encoding. ReservationBook: no overlaps.
    LogicalPath: normal forms. ConfigMerge: the last layer wins. EventParser: exactly the valid events.
    BatchProcessor: tasks interleaved by the event loop as labelled transitions; never more workers than allowed, results in
    order, nothing left behind, and no deadlock.

  \<^bold>\<open>Conventions\<close>

  \<^item> Strings are lists of Latin-1 characters; integers of Python are \<open>int\<close> or \<open>nat\<close>; datetimes are integers in
    microseconds; records mirror classes; raised exceptions are the \<open>Inl\<close> values of a sum.
  \<^item> Parameters of the model, with nothing assumed of them unless a hypothesis says so: the Redis client
    (\<open>redis_laws\<close> states the documented behaviour of streams and consumer groups), SHA-256, the JSON
    reader, the decimal form of floats, their powers, the Python parser, the HTTP client of the provider, the Docker CLI, the pytest
    process, the commands of the analyzers, the file system. The evaluation layer takes the provider and the runners as
    functions; the theories above supply them. Whether the database driver raises is an argument \<open>fault\<close> of each
    transaction, and \<^verbatim>\<open>SKIP LOCKED\<close> is a set of locked rows.
  \<^item> Granularity: a transaction is atomic (the source takes row locks and commits once). In \<open>sys_step\<close> the
    worker's claim and its completion are separate steps, between which anything may happen, including a
    crash; all processes read one clock that never goes back.
    A worker reads it again for the end of the evaluation, the completion and a failure.
  \<^item> Loops are recursive functions with termination proofs: the frame decoder on the length of its
    buffer, the resolver on the nodes not yet output, the backoff on the attempts left, recovery and
    publishing on the list of selected rows, decoding and encoding of protocol values on their size, attempts of the provider and of
    the probes on their number. No definition uses fuel; the batch processor is a transition system, with a bound on its steps.

  \<^bold>\<open>Not modelled\<close>

  \<^item> Overflow of floats to infinity and NaN in arithmetic (the settings read them); Unicode beyond Latin-1; the JSON
    encoding of typed columns (a JSON column keeps the typed value).
  \<^item> Of the refusals of PostgreSQL, the constraints, keys and the widths of the benchmark's text columns are computed; the
    others (widths of the job's text columns, 32-bit integers, NUL in texts and JSON) are in the argument \<open>fault\<close>: a refused
    row is a transaction that raises and changes nothing.
  \<^item> The asynchronous workers of the batch processor's official cases; re-entrant use of the circuit breaker by
    its own operation; candidates that mutate the containers they are passed.
  \<^item> Operating-system set-up in the container, file permissions, HTTP routes, the command-line programs,
    migrations, logging and metrics: they consist of calls to the operating system, FastAPI or SQLAlchemy.
  \<^item> Of the benchmarks: the loop of the worker process around the modelled calls (\<^verbatim>\<open>worker_main.py\<close>), the command line, and
    the exports (\<^verbatim>\<open>cli.py\<close>, \<^verbatim>\<open>run_config.py\<close>, \<^verbatim>\<open>exporting.py\<close>, \<^verbatim>\<open>productization.py\<close>), which format documents; the rounding of prices to
    their column; the collation of the database (texts are ordered by code points); the exponent bounds of decimals.
\<close>

end
